(* ===== verification/Prelude.thy ===== *)
theory Prelude
  imports Complex_Main "HOL-Library.List_Lexorder" "HOL-Library.Char_ord" "HOL-Library.Sublist"
begin

text \<open>
  What every component of the development shares: the Python and JSON value type the code's
  boundary checks inspect, the canonical JSON text that is hashed, the error monad over sums,
  keyed table rows (the SQLite tables of the code), sorted and duplicate-free lists, and two
  interfaces. \<open>transactional\<close> is the contract of a store whose operations run inside one
  transaction: a refusal rolls back, an accepted operation keeps the invariant.
  \<open>transactional_order\<close> adds a preorder every accepted operation follows (a clock, a version,
  a history that only grows). Both are interpreted on the stores of the components.
\<close>

named_theorems row_simps "lookup in updated and extended tables"
named_theorems errs "the error monad, solved for success and failure"

section \<open>Python and JSON values\<close>

text \<open>
  A value as \<open>json.loads\<close> returns it. A float carries its numeric value and its \<open>repr\<close>
  text; NaN and the infinities are outside the model. Characters are the code points below 256.
\<close>

datatype pyval =
    PNone
  | PBool bool
  | PInt int
  | PFloat rat string
  | PStr string
  | PList "pyval list"
  | PDict "(string \<times> pyval) list"

type_synonym pydict = "(string \<times> pyval) list"

text \<open>\<open>d.get(k)\<close>: an absent key is None.\<close>

definition py_get :: "pydict \<Rightarrow> string \<Rightarrow> pyval" where
  "py_get d k = (case map_of d k of None \<Rightarrow> PNone | Some v \<Rightarrow> v)"

definition py_dict :: "pyval \<Rightarrow> pydict option" where
  "py_dict v = (case v of PDict d \<Rightarrow> Some d | _ \<Rightarrow> None)"

lemma py_dict_eq [simp]: "py_dict v = Some d \<longleftrightarrow> v = PDict d"
  by (cases v) (auto simp: py_dict_def)

lemma py_dict_PDict [simp]: "py_dict (PDict d) = Some d"
  by simp

text \<open>\<open>bool(v)\<close>.\<close>

fun py_truthy :: "pyval \<Rightarrow> bool" where
  "py_truthy PNone = False"
| "py_truthy (PBool b) = b"
| "py_truthy (PInt i) = (i \<noteq> 0)"
| "py_truthy (PFloat r t) = (r \<noteq> 0)"
| "py_truthy (PStr s) = (s \<noteq> [])"
| "py_truthy (PList xs) = (xs \<noteq> [])"
| "py_truthy (PDict d) = (d \<noteq> [])"

definition py_has :: "pydict \<Rightarrow> string \<Rightarrow> bool" where
  "py_has d k \<longleftrightarrow> map_of d k \<noteq> None"

text \<open>Equality of two dicts whose values compare with equality; the key order does not matter.\<close>

definition dict_eq :: "(string \<times> 'a) list \<Rightarrow> (string \<times> 'a) list \<Rightarrow> bool" where
  "dict_eq a b \<longleftrightarrow> list_all (\<lambda>k. map_of a k = map_of b k) (map fst a @ map fst b)"

lemma dict_eq_iff: "dict_eq a b \<longleftrightarrow> map_of a = map_of b"
proof
  assume h: "dict_eq a b"
  show "map_of a = map_of b"
  proof
    fix k
    show "map_of a k = map_of b k"
    proof (cases "k \<in> fst ` set a \<or> k \<in> fst ` set b")
      case True
      with h show ?thesis by (auto simp: dict_eq_def list_all_iff)
    next
      case False
      then have "map_of a k = None" and "map_of b k = None"
        by (auto simp: map_of_eq_None_iff)
      then show ?thesis by simp
    qed
  qed
qed (simp add: dict_eq_def list_all_iff)

section \<open>Text\<close>

definition code_of :: "char \<Rightarrow> nat" where
  "code_of c = of_char c"

definition is_digit_char :: "char \<Rightarrow> bool" where
  "is_digit_char c \<longleftrightarrow> 48 \<le> code_of c \<and> code_of c \<le> 57"

definition is_letter_char :: "char \<Rightarrow> bool" where
  "is_letter_char c \<longleftrightarrow>
     (65 \<le> code_of c \<and> code_of c \<le> 90) \<or> (97 \<le> code_of c \<and> code_of c \<le> 122)"

definition is_alnum :: "char \<Rightarrow> bool" where
  "is_alnum c \<longleftrightarrow> is_digit_char c \<or> is_letter_char c"

definition is_hex_char :: "char \<Rightarrow> bool" where
  "is_hex_char c \<longleftrightarrow> is_digit_char c \<or> (97 \<le> code_of c \<and> code_of c \<le> 102)"

text \<open>\<open>str.isspace\<close> on the code points below 256, the characters \<open>str.strip\<close> removes.\<close>

definition is_space_char :: "char \<Rightarrow> bool" where
  "is_space_char c \<longleftrightarrow>
     (9 \<le> code_of c \<and> code_of c \<le> 13) \<or> (28 \<le> code_of c \<and> code_of c \<le> 32)
     \<or> code_of c = 133 \<or> code_of c = 160"

text \<open>The same classes by the bits of a character, which evaluate faster.\<close>

lemma code_of_bits:
  "code_of (Char b0 b1 b2 b3 b4 b5 b6 b7) =
     of_bool b0 + 2 * of_bool b1 + 4 * of_bool b2 + 8 * of_bool b3 + 16 * of_bool b4 + 32 * of_bool b5 + 64 * of_bool b6 + 128 * of_bool b7"
  by (simp add: code_of_def)

lemma is_digit_char_code [code]:
  "is_digit_char (Char b0 b1 b2 b3 b4 b5 b6 b7) \<longleftrightarrow> \<not> b7 \<and> \<not> b6 \<and> b5 \<and> b4 \<and> (\<not> b3 \<or> \<not> b2 \<and> \<not> b1)"
  by (cases b0; cases b1; cases b2; cases b3; cases b4; cases b5; cases b6; cases b7; simp add: is_digit_char_def code_of_bits)

lemma is_letter_char_code [code]:
  "is_letter_char (Char b0 b1 b2 b3 b4 b5 b6 b7) \<longleftrightarrow>
     \<not> b7 \<and> b6 \<and> (b0 \<or> b1 \<or> b2 \<or> b3 \<or> b4) \<and> \<not> (b4 \<and> b3 \<and> (b2 \<or> b1 \<and> b0))"
  by (cases b0; cases b1; cases b2; cases b3; cases b4; cases b5; cases b6; cases b7; simp add: is_letter_char_def code_of_bits)

lemma is_hex_char_code [code]:
  "is_hex_char (Char b0 b1 b2 b3 b4 b5 b6 b7) \<longleftrightarrow>
     \<not> b7 \<and> (\<not> b6 \<and> b5 \<and> b4 \<and> (\<not> b3 \<or> \<not> b2 \<and> \<not> b1)
       \<or> b6 \<and> b5 \<and> \<not> b4 \<and> \<not> b3 \<and> (b0 \<or> b1 \<or> b2) \<and> \<not> (b0 \<and> b1 \<and> b2))"
  by (cases b0; cases b1; cases b2; cases b3; cases b4; cases b5; cases b6; cases b7;
      simp add: is_hex_char_def is_digit_char_def code_of_bits)

lemma is_space_char_code [code]:
  "is_space_char (Char b0 b1 b2 b3 b4 b5 b6 b7) \<longleftrightarrow>
     (if b7 then \<not> b6 \<and> \<not> b4 \<and> \<not> b3 \<and> \<not> b1 \<and> (\<not> b5 \<and> b2 \<and> b0 \<or> b5 \<and> \<not> b2 \<and> \<not> b0)
      else \<not> b6 \<and> (\<not> b5 \<and> b3 \<and> (b4 \<and> b2 \<or> \<not> b4 \<and> (b0 \<or> b1 \<or> b2) \<and> \<not> (b2 \<and> b1))
                    \<or> b5 \<and> \<not> b4 \<and> \<not> b3 \<and> \<not> b2 \<and> \<not> b1 \<and> \<not> b0))"
  by (cases b0; cases b1; cases b2; cases b3; cases b4; cases b5; cases b6; cases b7; simp add: is_space_char_def code_of_bits)

text \<open>\<open>not s.strip()\<close> and the two ends of \<open>s.strip()\<close>.\<close>

definition blank :: "string \<Rightarrow> bool" where
  "blank s \<longleftrightarrow> list_all is_space_char s"

definition py_strip :: "string \<Rightarrow> string" where
  "py_strip s = rev (dropWhile is_space_char (rev (dropWhile is_space_char s)))"

lemma dropWhile_Nil_iff: "dropWhile P s = [] \<longleftrightarrow> list_all P s"
  by (simp add: list_all_iff)

lemma blank_iff_strip: "blank s \<longleftrightarrow> py_strip s = []"
proof
  assume "blank s"
  then have "dropWhile is_space_char s = []"
    by (simp only: blank_def dropWhile_Nil_iff)
  then show "py_strip s = []" by (simp only: py_strip_def rev.simps dropWhile.simps)
next
  assume "py_strip s = []"
  then have "dropWhile is_space_char (rev (dropWhile is_space_char s)) = []"
    by (simp only: py_strip_def rev_is_Nil_conv)
  then have all: "list_all is_space_char (dropWhile is_space_char s)"
    by (simp only: dropWhile_Nil_iff list_all_rev)
  have "dropWhile is_space_char s = []"
  proof (rule ccontr)
    assume ne: "dropWhile is_space_char s \<noteq> []"
    with all have "is_space_char (hd (dropWhile is_space_char s))"
      by (metis hd_in_set list_all_iff)
    with hd_dropWhile [OF ne] show False by simp
  qed
  then show "blank s" by (simp only: blank_def dropWhile_Nil_iff)
qed

text \<open>\<open>re.fullmatch\<close> of \<open>[0-9a-f]{n}\<close>.\<close>

definition hex_text :: "nat \<Rightarrow> string \<Rightarrow> bool" where
  "hex_text n s \<longleftrightarrow> length s = n \<and> list_all is_hex_char s"

lemma hex_text_replicate: "hex_text n (replicate n c) \<longleftrightarrow> n = 0 \<or> is_hex_char c"
  by (auto simp: hex_text_def list_all_iff)

text \<open>\<open>re.fullmatch\<close> of one alphanumeric character and up to \<open>n - 1\<close> more from the
  alphanumerics and \<open>extra\<close>.\<close>

definition ident_text :: "string \<Rightarrow> nat \<Rightarrow> string \<Rightarrow> bool" where
  "ident_text extra n s \<longleftrightarrow>
     (case s of [] \<Rightarrow> False
      | c # cs \<Rightarrow> is_alnum c \<and> length s \<le> n
                   \<and> list_all (\<lambda>x. is_alnum x \<or> x \<in> set extra) cs)"

text \<open>The decimal digits of a nonnegative integer.\<close>

function digits_text :: "int \<Rightarrow> string" where
  "digits_text n = (if n < 10 then [char_of (48 + nat n)]
                    else digits_text (n div 10) @ [char_of (48 + nat (n mod 10))])"
  by auto
termination by (relation "measure nat") auto

declare digits_text.simps [simp del]

definition digit_char :: "int \<Rightarrow> char" where
  "digit_char n = char_of (48 + nat n)"

lemma decimal_digits: "map (\<lambda>i. char_of (48 + i)) [0 ..< 10] = ''0123456789''"
  by code_simp

lemma digit_char_code [code]: "digit_char n = (if nat n < 10 then ''0123456789'' ! nat n else char_of (48 + nat n))"
proof (cases "nat n < 10")
  case True
  then have "''0123456789'' ! nat n = char_of (48 + nat n)" unfolding decimal_digits [symmetric] by (simp add: nth_map)
  with True show ?thesis by (simp add: digit_char_def)
qed (simp add: digit_char_def)

lemma digits_text_code [code]:
  "digits_text n = (if n < 10 then [digit_char n] else digits_text (n div 10) @ [digit_char (n mod 10)])"
  by (simp add: digit_char_def digits_text.simps [of n])

definition int_text :: "int \<Rightarrow> string" where
  "int_text i = (if i < 0 then CHR ''-'' # digits_text (- i) else digits_text i)"

fun join_text :: "string \<Rightarrow> string list \<Rightarrow> string" where
  "join_text sep [] = []"
| "join_text sep [x] = x"
| "join_text sep (x # y # zs) = x @ sep @ join_text sep (y # zs)"

section \<open>Canonical JSON\<close>

text \<open>
  \<open>canonical_bytes\<close> of \<open>factory_kernel/canonical.py\<close>: \<open>json.dumps\<close> with sorted keys,
  compact separators and no ASCII escaping, followed by a newline. The digest itself
  (\<open>hashlib.sha256\<close>) is a parameter of the definitions that use it.
\<close>

definition hex_digit :: "nat \<Rightarrow> char" where
  "hex_digit n = (if n < 10 then char_of (48 + n) else char_of (87 + n))"

definition json_char :: "char \<Rightarrow> string" where
  "json_char c =
     (let n = code_of c in
      if n = 34 then [char_of (92::nat), char_of (34::nat)]
      else if n = 92 then [char_of (92::nat), char_of (92::nat)]
      else if n = 10 then [char_of (92::nat), CHR ''n'']
      else if n = 13 then [char_of (92::nat), CHR ''r'']
      else if n = 9 then [char_of (92::nat), CHR ''t'']
      else if n = 8 then [char_of (92::nat), CHR ''b'']
      else if n = 12 then [char_of (92::nat), CHR ''f'']
      else if n < 32 then [char_of (92::nat), CHR ''u'', CHR ''0'', CHR ''0'',
                           hex_digit (n div 16), hex_digit (n mod 16)]
      else [c])"

text \<open>The printable characters by their bits, which evaluate faster than by their numbers.\<close>

definition json_special :: "char \<Rightarrow> string" where
  "json_special c = json_char c"

lemma code_of_eq: "n < 256 \<Longrightarrow> code_of c = n \<longleftrightarrow> c = char_of n"
  by (auto simp: code_of_def)

lemma code_of_less_32: "code_of (Char b0 b1 b2 b3 b4 b5 b6 b7) < 32 \<longleftrightarrow> \<not> b5 \<and> \<not> b6 \<and> \<not> b7"
  by (cases b0; cases b1; cases b2; cases b3; cases b4; cases b5; cases b6; cases b7; simp add: code_of_bits)

lemma quote_chars: "char_of (34::nat) = CHR 0x22" "char_of (92::nat) = CHR 0x5C"
  by code_simp+

lemma json_char_printable:
  assumes "32 \<le> code_of c"
  shows "json_char c = (if c = CHR 0x22 then [CHR 0x5C, CHR 0x22] else if c = CHR 0x5C then [CHR 0x5C, CHR 0x5C] else [c])"
proof -
  have "code_of c \<noteq> 10" "code_of c \<noteq> 13" "code_of c \<noteq> 9" "code_of c \<noteq> 8" "code_of c \<noteq> 12" "\<not> code_of c < 32"
    using assms by simp_all
  moreover note quote_chars
  moreover have "code_of c = 34 \<longleftrightarrow> c = CHR 0x22" "code_of c = 92 \<longleftrightarrow> c = CHR 0x5C"
    using code_of_eq [of 34 c] code_of_eq [of 92 c] by (simp_all only: quote_chars)
  ultimately show ?thesis by (simp only: json_char_def Let_def if_False)
qed

lemma json_char_bits:
  "b5 \<or> b6 \<Longrightarrow> json_char (Char b0 b1 b2 b3 b4 b5 b6 b7) =
     (let c = Char b0 b1 b2 b3 b4 b5 b6 b7 in
      if c = CHR 0x22 then [CHR 0x5C, CHR 0x22] else if c = CHR 0x5C then [CHR 0x5C, CHR 0x5C] else [c])"
  unfolding Let_def by (rule json_char_printable) (auto simp: not_less [symmetric] code_of_less_32)

lemma json_char_code [code]:
  "json_char (Char b0 b1 b2 b3 b4 True b6 b7) =
     (if b1 \<and> \<not> b0 \<and> \<not> b2 \<and> \<not> b3 \<and> \<not> b4 \<and> \<not> b6 \<and> \<not> b7 then [CHR 0x5C, CHR 0x22]
      else [Char b0 b1 b2 b3 b4 True b6 b7])"
  "json_char (Char b0 b1 b2 b3 b4 False True b7) =
     (if b4 \<and> b3 \<and> b2 \<and> \<not> b1 \<and> \<not> b0 \<and> \<not> b7 then [CHR 0x5C, CHR 0x5C]
      else [Char b0 b1 b2 b3 b4 False True b7])"
  "json_char (Char b0 b1 b2 b3 b4 False False b7) = json_special (Char b0 b1 b2 b3 b4 False False b7)"
  by (auto simp: json_char_bits json_special_def Let_def)

lemmas json_special_code [code] = json_char_def [folded json_special_def]

text \<open>\<open>ensure_ascii\<close>: everything outside the printable ASCII range is escaped.\<close>

definition json_char_ascii :: "char \<Rightarrow> string" where
  "json_char_ascii c =
     (let n = code_of c in
      if n \<le> 126 then json_char c
      else [char_of (92::nat), CHR ''u'', CHR ''0'', CHR ''0'', hex_digit (n div 16), hex_digit (n mod 16)])"

definition json_string :: "(char \<Rightarrow> string) \<Rightarrow> string \<Rightarrow> string" where
  "json_string jc s = [char_of (34::nat)] @ concat (map jc s) @ [char_of (34::nat)]"

fun insert_key :: "string \<times> 'a \<Rightarrow> (string \<times> 'a) list \<Rightarrow> (string \<times> 'a) list" where
  "insert_key kv [] = [kv]"
| "insert_key kv (x # xs) = (if fst kv \<le> fst x then kv # x # xs else x # insert_key kv xs)"

text \<open>The value with the keys of every object in order, as it is after one round of
  \<open>json.dumps(sort_keys=True)\<close> and \<open>json.loads\<close>.\<close>

fun sort_keys :: "pyval \<Rightarrow> pyval"
  and sort_keys_list :: "pyval list \<Rightarrow> pyval list"
  and sort_keys_dict :: "pydict \<Rightarrow> pydict" where
  "sort_keys (PList xs) = PList (sort_keys_list xs)"
| "sort_keys (PDict kvs) = PDict (sort_keys_dict kvs)"
| "sort_keys v = v"
| "sort_keys_list [] = []"
| "sort_keys_list (x # xs) = sort_keys x # sort_keys_list xs"
| "sort_keys_dict [] = []"
| "sort_keys_dict ((k, v) # kvs) = insert_key (k, sort_keys v) (sort_keys_dict kvs)"

fun json_text :: "(char \<Rightarrow> string) \<Rightarrow> pyval \<Rightarrow> string"
  and json_items :: "(char \<Rightarrow> string) \<Rightarrow> pyval list \<Rightarrow> string list"
  and json_members :: "(char \<Rightarrow> string) \<Rightarrow> pydict \<Rightarrow> string list" where
  "json_text jc PNone = ''null''"
| "json_text jc (PBool b) = (if b then ''true'' else ''false'')"
| "json_text jc (PInt i) = int_text i"
| "json_text jc (PFloat r t) = t"
| "json_text jc (PStr s) = json_string jc s"
| "json_text jc (PList xs) = ''['' @ join_text '','' (json_items jc xs) @ '']''"
| "json_text jc (PDict kvs) = ''{'' @ join_text '','' (json_members jc kvs) @ ''}''"
| "json_items jc [] = []"
| "json_items jc (x # xs) = json_text jc x # json_items jc xs"
| "json_members jc [] = []"
| "json_members jc ((k, v) # kvs) = (json_string jc k @ '':'' @ json_text jc v) # json_members jc kvs"

definition canonical_bytes :: "pyval \<Rightarrow> string" where
  "canonical_bytes v = json_text json_char (sort_keys v) @ [char_of (10::nat)]"

definition sha256_value :: "(string \<Rightarrow> string) \<Rightarrow> pyval \<Rightarrow> string" where
  "sha256_value sha v = sha (canonical_bytes v)"

text \<open>
  Python equality of two JSON values: numbers compare by value across \<open>bool\<close>, \<open>int\<close> and
  \<open>float\<close>, and the order of the keys of an object does not matter. Both sides are brought to
  a normal form.
\<close>

fun py_norm :: "pyval \<Rightarrow> pyval"
  and py_norm_list :: "pyval list \<Rightarrow> pyval list"
  and py_norm_dict :: "pydict \<Rightarrow> pydict" where
  "py_norm PNone = PNone"
| "py_norm (PBool b) = PFloat (if b then 1 else 0) []"
| "py_norm (PInt i) = PFloat (of_int i) []"
| "py_norm (PFloat r t) = PFloat r []"
| "py_norm (PStr s) = PStr s"
| "py_norm (PList xs) = PList (py_norm_list xs)"
| "py_norm (PDict kvs) = PDict (py_norm_dict kvs)"
| "py_norm_list [] = []"
| "py_norm_list (x # xs) = py_norm x # py_norm_list xs"
| "py_norm_dict [] = []"
| "py_norm_dict ((k, v) # kvs) = insert_key (k, py_norm v) (py_norm_dict kvs)"

definition py_eq :: "pyval \<Rightarrow> pyval \<Rightarrow> bool" where
  "py_eq a b \<longleftrightarrow> py_norm a = py_norm b"

lemma py_eq_refl [simp]: "py_eq a a"
  by (simp add: py_eq_def)

lemma py_eq_sym: "py_eq a b \<Longrightarrow> py_eq b a"
  by (simp add: py_eq_def)

lemma py_eq_trans: "py_eq a b \<Longrightarrow> py_eq b c \<Longrightarrow> py_eq a c"
  by (simp add: py_eq_def)

section \<open>The error monad\<close>

definition bindE :: "'e + 'a \<Rightarrow> ('a \<Rightarrow> 'e + 'b) \<Rightarrow> 'e + 'b" where
  "bindE m f = (case m of Inl e \<Rightarrow> Inl e | Inr x \<Rightarrow> f x)"

definition ensure :: "bool \<Rightarrow> 'e \<Rightarrow> 'e + unit" where
  "ensure c e = (if c then Inr () else Inl e)"

fun mapE :: "('a \<Rightarrow> 'e + 'b) \<Rightarrow> 'a list \<Rightarrow> 'e + 'b list" where
  "mapE f [] = Inr []"
| "mapE f (x # xs) = bindE (f x) (\<lambda>y. bindE (mapE f xs) (\<lambda>ys. Inr (y # ys)))"

lemma bindE_Inl [simp]: "bindE (Inl e) f = Inl e"
  by (simp add: bindE_def)

lemma bindE_Inr [simp]: "bindE (Inr x) f = f x"
  by (simp add: bindE_def)

lemma bindE_eq_Inr [errs]: "bindE m f = Inr y \<longleftrightarrow> (\<exists>x. m = Inr x \<and> f x = Inr y)"
  by (cases m) auto

lemma bindE_eq_Inl [errs]: "bindE m f = Inl e \<longleftrightarrow> m = Inl e \<or> (\<exists>x. m = Inr x \<and> f x = Inl e)"
  by (cases m) auto

lemma ensure_eq_Inr [errs, simp]: "ensure c e = Inr u \<longleftrightarrow> c"
  by (simp add: ensure_def)

lemma ensure_eq_Inl [errs, simp]: "ensure c e = Inl d \<longleftrightarrow> \<not> c \<and> d = e"
  by (auto simp: ensure_def)

lemma ensure_True [simp]: "ensure True e = Inr ()"
  by simp

lemma ensure_False [simp]: "ensure False e = Inl e"
  by simp

lemma mapE_eq_Inr: "mapE f xs = Inr ys \<longleftrightarrow> list_all2 (\<lambda>x y. f x = Inr y) xs ys"
proof (induction xs arbitrary: ys)
  case Nil
  then show ?case by auto
next
  case (Cons x xs)
  then show ?case by (cases ys) (auto simp: bindE_eq_Inr)
qed

lemma mapE_unit: "(\<exists>u. mapE f xs = Inr u) \<longleftrightarrow> (\<forall>x \<in> set xs. \<exists>y. f x = Inr y)"
  by (induction xs) (auto simp: bindE_eq_Inr)

text \<open>An error renamed at a boundary, and an absent value as an error.\<close>

lemma rename_eq_Inr: "(case m of Inl _ \<Rightarrow> Inl e | Inr x \<Rightarrow> Inr x) = Inr y \<longleftrightarrow> m = Inr y"
  by (cases m) auto

lemma missing_eq_Inr: "(case m of None \<Rightarrow> Inl e | Some x \<Rightarrow> f x) = Inr y \<longleftrightarrow> (\<exists>x. m = Some x \<and> f x = Inr y)"
  by (cases m) auto

lemma text_eq_Inr: "(case v of PStr s \<Rightarrow> f s | _ \<Rightarrow> Inl e) = Inr y \<longleftrightarrow> (\<exists>s. v = PStr s \<and> f s = Inr y)"
  by (cases v) auto

lemma text_holds: "(case v of PStr s \<Rightarrow> f s | _ \<Rightarrow> False) \<longleftrightarrow> (\<exists>s. v = PStr s \<and> f s)"
  by (cases v) auto

lemma present_holds: "(case m of None \<Rightarrow> False | Some x \<Rightarrow> f x) \<longleftrightarrow> (\<exists>x. m = Some x \<and> f x)"
  by (cases m) auto

lemma find_mem: "List.find P xs = Some x \<Longrightarrow> P x \<and> x \<in> set xs"
  by (induction xs) (auto split: if_splits)

section \<open>Keyed table rows\<close>

definition find_row :: "('r \<Rightarrow> 'k) \<Rightarrow> 'k \<Rightarrow> 'r list \<Rightarrow> 'r option" where
  "find_row key k rows = List.find (\<lambda>r. key r = k) rows"

definition update_row :: "('r \<Rightarrow> 'k) \<Rightarrow> 'k \<Rightarrow> ('r \<Rightarrow> 'r) \<Rightarrow> 'r list \<Rightarrow> 'r list" where
  "update_row key k f rows = map (\<lambda>r. if key r = k then f r else r) rows"

lemma find_row_Nil [row_simps]: "find_row key k [] = None"
  by (simp add: find_row_def)

lemma find_row_Cons [row_simps]:
  "find_row key k (r # rows) = (if key r = k then Some r else find_row key k rows)"
  by (simp add: find_row_def)

lemma find_row_append [row_simps]:
  "find_row key k (xs @ ys) = (case find_row key k xs of None \<Rightarrow> find_row key k ys | Some r \<Rightarrow> Some r)"
  by (induction xs) (auto simp: row_simps)

lemma find_row_Some: "find_row key k rows = Some r \<Longrightarrow> r \<in> set rows \<and> key r = k"
  by (induction rows) (auto simp: row_simps split: if_splits)

lemma find_row_None: "find_row key k rows = None \<longleftrightarrow> k \<notin> key ` set rows"
  by (induction rows) (auto simp: row_simps)

lemma find_row_unique: "distinct (map key rows) \<Longrightarrow> r \<in> set rows \<Longrightarrow> find_row key (key r) rows = Some r"
  by (induction rows) (auto simp: row_simps rev_image_eqI)

lemma find_row_update [row_simps]:
  "(\<And>r. key (f r) = key r) \<Longrightarrow>
   find_row key j (update_row key k f rows) =
     (if j = k then map_option f (find_row key j rows) else find_row key j rows)"
  by (induction rows) (auto simp: row_simps update_row_def)

lemma keys_update_row [row_simps]:
  "(\<And>r. key (f r) = key r) \<Longrightarrow> map key (update_row key k f rows) = map key rows"
  by (simp add: update_row_def)

lemma set_update_row: "set (update_row key k f rows) = (\<lambda>r. if key r = k then f r else r) ` set rows"
  by (simp add: update_row_def)

lemma length_update_row [simp]: "length (update_row key k f rows) = length rows"
  by (simp add: update_row_def)

text \<open>Every row of one table has a related row in a later one.\<close>

definition kept_in :: "('r \<Rightarrow> 'r \<Rightarrow> bool) \<Rightarrow> 'r list \<Rightarrow> 'r list \<Rightarrow> bool" where
  "kept_in R xs ys \<longleftrightarrow> (\<forall>x \<in> set xs. \<exists>y \<in> set ys. R x y)"

lemma kept_inD: "kept_in R xs ys \<Longrightarrow> x \<in> set xs \<Longrightarrow> \<exists>y \<in> set ys. R x y"
  by (simp add: kept_in_def)

lemma kept_in_refl: "(\<And>x. R x x) \<Longrightarrow> kept_in R xs xs"
  by (auto simp: kept_in_def)

lemma kept_in_append: "(\<And>x. R x x) \<Longrightarrow> kept_in R xs (xs @ zs)"
  by (auto simp: kept_in_def)

lemma kept_in_trans:
  "(\<And>x y z. R x y \<Longrightarrow> R y z \<Longrightarrow> R x z) \<Longrightarrow> kept_in R xs ys \<Longrightarrow> kept_in R ys zs \<Longrightarrow> kept_in R xs zs"
  unfolding kept_in_def by meson

lemma kept_in_map: "(\<And>x. x \<in> set xs \<Longrightarrow> R x (f x)) \<Longrightarrow> kept_in R xs (map f xs)"
  by (auto simp: kept_in_def)

lemma kept_in_update:
  "(\<And>x. R x x) \<Longrightarrow> (\<And>x. x \<in> set xs \<Longrightarrow> key x = k \<Longrightarrow> R x (f x)) \<Longrightarrow> kept_in R xs (update_row key k f xs)"
  unfolding update_row_def by (rule kept_in_map) auto

lemma kept_in_update_row:
  assumes "\<And>x. R x x" and "distinct (map key xs)" and "find_row key k xs = Some x" and "R x (f x)"
  shows "kept_in R xs (update_row key k f xs)"
proof (rule kept_in_update)
  fix y
  assume "y \<in> set xs" and "key y = k"
  with find_row_unique [OF assms(2)] assms(3) have "y = x" by force
  with assms(4) show "R y (f y)" by simp
qed (rule assms(1))

lemma update_row_mem:
  "distinct (map key xs) \<Longrightarrow> find_row key k xs = Some x \<Longrightarrow> y \<in> set (update_row key k f xs) \<Longrightarrow>
   y = f x \<or> (y \<in> set xs \<and> key y \<noteq> k)"
  using find_row_unique [of key xs] by (fastforce simp: set_update_row)

section \<open>Sorted lists without duplicates\<close>

definition sorted_set :: "'a::linorder list \<Rightarrow> 'a list" where
  "sorted_set xs = sort (remdups xs)"

lemma set_sorted_set [simp]: "set (sorted_set xs) = set xs"
  by (simp add: sorted_set_def)

lemma distinct_sorted_set [simp]: "distinct (sorted_set xs)"
  by (simp add: sorted_set_def)

lemma sorted_sorted_set [simp]: "sorted (sorted_set xs)"
  by (simp add: sorted_set_def)

lemma sorted_set_Nil [simp]: "sorted_set xs = [] \<longleftrightarrow> xs = []"
  using set_sorted_set [of xs] by (metis set_empty)

lemma length_filter_le_1:
  assumes "distinct xs" and "\<And>x y. x \<in> set xs \<Longrightarrow> y \<in> set xs \<Longrightarrow> P x \<Longrightarrow> P y \<Longrightarrow> x = y"
  shows "length (filter P xs) \<le> 1"
proof -
  have "\<forall>x \<in> set (filter P xs). \<forall>y \<in> set (filter P xs). x = y"
    using assms(2) by auto
  then have "card (set (filter P xs)) \<le> 1"
    by (metis List.finite_set card_le_Suc0_iff_eq One_nat_def)
  moreover have "length (filter P xs) = card (set (filter P xs))"
    using assms(1) by (simp only: distinct_card distinct_filter)
  ultimately show ?thesis by simp
qed

section \<open>The transactional interface\<close>

text \<open>The reply of one operation as a reply of the whole machine.\<close>

definition reply :: "('a \<Rightarrow> 'r) \<Rightarrow> 'e + 'a \<times> 's \<Rightarrow> 'e + 'r \<times> 's" where
  "reply f m = bindE m (\<lambda>(a, s). Inr (f a, s))"

lemma reply_eq_Inr [errs]: "reply f m = Inr (r, t) \<longleftrightarrow> (\<exists>a. m = Inr (a, t) \<and> r = f a)"
  by (auto simp: reply_def bindE_eq_Inr)

fun run_tx :: "('c \<Rightarrow> 's \<Rightarrow> 'e + 'a \<times> 's) \<Rightarrow> 'c list \<Rightarrow> 's \<Rightarrow> 's" where
  "run_tx ex [] s = s"
| "run_tx ex (c # cs) s = run_tx ex cs (case ex c s of Inl _ \<Rightarrow> s | Inr (_, t) \<Rightarrow> t)"

inductive tx_reachable :: "('c \<Rightarrow> 's \<Rightarrow> 'e + 'a \<times> 's) \<Rightarrow> 's \<Rightarrow> 's \<Rightarrow> bool"
  for ex :: "'c \<Rightarrow> 's \<Rightarrow> 'e + 'a \<times> 's" and s0 :: 's where
  tx_start: "tx_reachable ex s0 s0"
| tx_step: "tx_reachable ex s0 s \<Longrightarrow> ex c s = Inr (a, t) \<Longrightarrow> tx_reachable ex s0 t"

inductive_cases tx_reachable_lastE: "tx_reachable ex s0 t"

lemma tx_reachable_run: "tx_reachable ex s0 s \<Longrightarrow> tx_reachable ex s0 (run_tx ex cs s)"
  by (induction cs arbitrary: s) (auto split: sum.splits intro: tx_step)

lemma tx_reachable_trans: "tx_reachable ex t u \<Longrightarrow> tx_reachable ex s t \<Longrightarrow> tx_reachable ex s u"
  by (induction rule: tx_reachable.induct) (auto intro: tx_step)

locale transactional =
  fixes ex :: "'c \<Rightarrow> 's \<Rightarrow> 'e + 'a \<times> 's"
    and inv :: "'s \<Rightarrow> bool"
  assumes ex_inv: "inv s \<Longrightarrow> ex c s = Inr (a, t) \<Longrightarrow> inv t"
begin

lemma run_inv: "inv s \<Longrightarrow> inv (run_tx ex cs s)"
  by (induction cs arbitrary: s) (auto split: sum.splits intro: ex_inv)

lemma reachable_inv: "tx_reachable ex s0 s \<Longrightarrow> inv s0 \<Longrightarrow> inv s"
  by (induction rule: tx_reachable.induct) (auto intro: ex_inv)

end

locale transactional_order = transactional ex inv
  for ex :: "'c \<Rightarrow> 's \<Rightarrow> 'e + 'a \<times> 's" and inv :: "'s \<Rightarrow> bool" +
  fixes le :: "'s \<Rightarrow> 's \<Rightarrow> bool"
  assumes le_refl: "le s s"
    and le_trans: "le s t \<Longrightarrow> le t u \<Longrightarrow> le s u"
    and ex_le: "inv s \<Longrightarrow> ex c s = Inr (a, t) \<Longrightarrow> le s t"
begin

lemma run_le: "inv s \<Longrightarrow> le s (run_tx ex cs s)"
proof (induction cs arbitrary: s)
  case Nil
  show ?case by (simp add: le_refl)
next
  case (Cons c cs)
  show ?case
  proof (cases "ex c s")
    case (Inl e)
    with Cons show ?thesis by simp
  next
    case (Inr p)
    obtain a t where p: "p = (a, t)" by (cases p)
    with Inr Cons.prems have "inv t" and "le s t" by (auto intro: ex_inv ex_le)
    with Cons.IH [of t] Inr p show ?thesis by (auto intro: le_trans)
  qed
qed

lemma reachable_le: "tx_reachable ex s t \<Longrightarrow> inv s \<Longrightarrow> le s t"
  by (induction rule: tx_reachable.induct)
     (auto intro: le_refl le_trans ex_le reachable_inv)

end

end
