(* ===== verification/Dependency_Order.thy ===== *)
theory Dependency_Order
  imports Prelude
begin

text \<open>
  Dependency graphs as association lists from a node to the nodes it waits for: the layered
  topological order that \<open>compile_programme\<close>, \<open>validate_strategy\<close> and the proof evaluation
  loop over, and the reachability closure of causal claims and invalidated evidence.
\<close>

section \<open>Layered order\<close>

definition deps_of :: "('a \<times> 'a list) list \<Rightarrow> 'a \<Rightarrow> 'a list" where
  "deps_of g k = (case map_of g k of None \<Rightarrow> [] | Some ds \<Rightarrow> ds)"

definition ready_nodes :: "('a::linorder \<times> 'a list) list \<Rightarrow> 'a list \<Rightarrow> 'a list" where
  "ready_nodes g finished =
     sort (map fst (filter (\<lambda>(k, ds). k \<notin> set finished \<and> set ds \<subseteq> set finished) g))"

text \<open>\<open>while len(done) < len(items)\<close>: take every ready node, in order; none ready is a cycle.\<close>

function topo_order :: "('a::linorder \<times> 'a list) list \<Rightarrow> 'a list \<Rightarrow> 'a list option" where
  "topo_order g finished =
     (if length finished < length g then
        (let ready = ready_nodes g finished in
         if ready = [] then None else topo_order g (finished @ ready))
      else Some finished)"
  by auto
termination
proof (relation "measure (\<lambda>(g, finished). length g - length finished)")
  fix g :: "('a \<times> 'a list) list" and finished ready :: "'a list"
  assume "length finished < length g" and "ready \<noteq> []"
  then show "((g, finished @ ready), (g, finished)) \<in> measure (\<lambda>(g, finished). length g - length finished)"
    by (cases ready) simp_all
qed simp

declare topo_order.simps [simp del]

definition topological :: "('a \<times> 'a list) list \<Rightarrow> 'a list \<Rightarrow> bool" where
  "topological g xs \<longleftrightarrow> (\<forall>ys x zs. xs = ys @ x # zs \<longrightarrow> set (deps_of g x) \<subseteq> set ys)"

lemma topologicalI: "(\<And>ys x zs. xs = ys @ x # zs \<Longrightarrow> set (deps_of g x) \<subseteq> set ys) \<Longrightarrow> topological g xs"
  by (simp add: topological_def)

lemma topological_Nil [simp]: "topological g []"
  by (simp add: topological_def)

lemma topological_append:
  assumes "topological g xs" and "\<And>y. y \<in> set ys \<Longrightarrow> set (deps_of g y) \<subseteq> set xs"
  shows "topological g (xs @ ys)"
proof (rule topologicalI)
  fix as x bs
  assume "xs @ ys = as @ x # bs"
  then consider cs where "xs = as @ x # cs" | cs where "as = xs @ cs" "x \<in> set ys"
    by (auto simp: append_eq_append_conv2 append_eq_Cons_conv Cons_eq_append_conv)
  then show "set (deps_of g x) \<subseteq> set as"
  proof cases
    case 1
    with assms(1) show ?thesis by (simp add: topological_def)
  next
    case 2
    with assms(2) [of x] show ?thesis by auto
  qed
qed

lemma deps_of_mem: "distinct (map fst g) \<Longrightarrow> (k, ds) \<in> set g \<Longrightarrow> deps_of g k = ds"
  by (simp add: deps_of_def)

lemma set_ready_nodes:
  assumes "distinct (map fst g)"
  shows "set (ready_nodes g finished) =
    {k \<in> fst ` set g. k \<notin> set finished \<and> set (deps_of g k) \<subseteq> set finished}"
proof (intro set_eqI iffI)
  fix k
  assume "k \<in> set (ready_nodes g finished)"
  then obtain ds where "(k, ds) \<in> set g" "k \<notin> set finished" "set ds \<subseteq> set finished"
    by (auto simp: ready_nodes_def)
  with deps_of_mem [OF assms this(1)]
  show "k \<in> {k \<in> fst ` set g. k \<notin> set finished \<and> set (deps_of g k) \<subseteq> set finished}" by force
next
  fix k
  assume k: "k \<in> {k \<in> fst ` set g. k \<notin> set finished \<and> set (deps_of g k) \<subseteq> set finished}"
  then obtain ds where ds: "(k, ds) \<in> set g" by auto
  with k deps_of_mem [OF assms ds] have "(k, ds) \<in> set (filter (\<lambda>(k, ds). k \<notin> set finished \<and> set ds \<subseteq> set finished) g)"
    by simp
  then show "k \<in> set (ready_nodes g finished)" by (force simp: ready_nodes_def)
qed

lemma distinct_ready_nodes: "distinct (map fst g) \<Longrightarrow> distinct (ready_nodes g finished)"
  by (simp add: ready_nodes_def distinct_map) (auto simp: inj_on_def)

lemma topo_order_correct:
  assumes "topo_order g finished = Some xs" and "distinct (map fst g)"
    and "distinct finished" and "set finished \<subseteq> fst ` set g" and "topological g finished"
  shows "distinct xs \<and> set xs = fst ` set g \<and> topological g xs"
  using assms
proof (induction g finished rule: topo_order.induct)
  case (1 g finished)
  show ?case
  proof (cases "length finished < length g")
    case True
    let ?r = "ready_nodes g finished"
    from True 1(2) have r: "?r \<noteq> []" and rec: "topo_order g (finished @ ?r) = Some xs"
      by (auto simp: topo_order.simps [of g finished] Let_def split: if_splits)
    note ready = set_ready_nodes [OF 1(3), of finished]
    show ?thesis
    proof (rule 1(1) [OF True refl r rec 1(3)])
      show "distinct (finished @ ?r)" using 1(3,4) ready by (auto simp: distinct_ready_nodes)
      show "set (finished @ ?r) \<subseteq> fst ` set g" using 1(5) ready by auto
      show "topological g (finished @ ?r)" using 1(6) ready by (intro topological_append) auto
    qed
  next
    case False
    with 1(2) have xs: "xs = finished" by (simp add: topo_order.simps)
    have "card (fst ` set g) = length g" using 1(3) by (metis distinct_card length_map list.set_map)
    moreover have "card (set finished) = length finished" using 1(4) by (rule distinct_card)
    ultimately have "card (fst ` set g) \<le> card (set finished)" using False by simp
    then have "set finished = fst ` set g" using 1(5) by (intro card_seteq) auto
    with xs 1 show ?thesis by simp
  qed
qed

text \<open>A stuck set: nodes each of which waits for another of the set or for no node at all.\<close>

definition stuck :: "('a \<times> 'a list) list \<Rightarrow> 'a set \<Rightarrow> bool" where
  "stuck g S \<longleftrightarrow> S \<noteq> {} \<and> S \<subseteq> fst ` set g
     \<and> (\<forall>k \<in> S. \<exists>d \<in> set (deps_of g k). d \<in> S \<or> d \<notin> fst ` set g)"

lemma topo_order_None:
  assumes "topo_order g finished = None" and "distinct (map fst g)"
    and "distinct finished" and "set finished \<subseteq> fst ` set g"
  shows "\<exists>S. stuck g S"
  using assms
proof (induction g finished rule: topo_order.induct)
  case (1 g finished)
  from 1(2) have short: "length finished < length g" by (auto simp: topo_order.simps split: if_splits)
  let ?r = "ready_nodes g finished"
  note ready = set_ready_nodes [OF 1(3), of finished]
  show ?case
  proof (cases "?r = []")
    case True
    let ?S = "fst ` set g - set finished"
    have "card (set finished) < card (fst ` set g)"
      using short 1(3,4) by (metis distinct_card length_map list.set_map)
    then have "?S \<noteq> {}" using card_mono [of "set finished" "fst ` set g"] by auto
    moreover have "\<exists>d \<in> set (deps_of g k). d \<in> ?S \<or> d \<notin> fst ` set g" if "k \<in> ?S" for k
    proof -
      have "k \<notin> set ?r" using True by simp
      then have "\<not> set (deps_of g k) \<subseteq> set finished" using ready that by blast
      then show ?thesis by blast
    qed
    ultimately have "stuck g ?S" unfolding stuck_def by blast
    then show ?thesis ..
  next
    case False
    with 1(2) short have rec: "topo_order g (finished @ ?r) = None"
      by (auto simp: topo_order.simps [of g finished] Let_def)
    have "distinct (finished @ ?r)" "set (finished @ ?r) \<subseteq> fst ` set g"
      using ready 1(4,5) distinct_ready_nodes [OF 1(3), of finished] by auto
    from 1(1) [OF short refl False rec 1(3) this] show ?thesis .
  qed
qed

lemma topo_order_Some_not_stuck:
  assumes "distinct xs" and "set xs = fst ` set g" and "topological g xs"
  shows "\<not> stuck g S"
proof
  assume S: "stuck g S"
  have "set xs \<inter> S \<noteq> {}" using S assms(2) by (auto simp: stuck_def)
  then have "\<exists>x \<in> set xs. x \<in> S" by blast
  from split_list_first_prop [OF this]
  obtain ys x zs where split: "xs = ys @ x # zs" "x \<in> S" "\<forall>y \<in> set ys. y \<notin> S" by blast
  from S split(2) obtain d where d: "d \<in> set (deps_of g x)" "d \<in> S \<or> d \<notin> fst ` set g"
    unfolding stuck_def by blast
  have "set (deps_of g x) \<subseteq> set ys" using assms(3) split(1) unfolding topological_def by blast
  with d(1) have ys: "d \<in> set ys" by blast
  then have "d \<in> fst ` set g" using assms(2) split(1) by auto
  with d(2) split(3) ys show False by blast
qed

lemma topo_order_complete:
  assumes "distinct (map fst g)"
  shows "topo_order g [] = None \<longleftrightarrow> (\<exists>S. stuck g S)"
proof
  assume "topo_order g [] = None"
  from topo_order_None [OF this assms] show "\<exists>S. stuck g S" by auto
next
  assume "\<exists>S. stuck g S"
  then obtain S where S: "stuck g S" ..
  show "topo_order g [] = None"
  proof (cases "topo_order g []")
    case (Some xs)
    from topo_order_correct [OF this assms] have "distinct xs \<and> set xs = fst ` set g \<and> topological g xs" by simp
    with topo_order_Some_not_stuck S show ?thesis by blast
  qed
qed

text \<open>The order does not depend on the order the nodes are listed in.\<close>

lemma ready_nodes_perm:
  assumes "distinct (map fst g)" and "distinct (map fst h)" and "set g = set h"
  shows "ready_nodes g finished = ready_nodes h finished"
proof -
  have "map_of g = map_of h" using map_of_inject_set [OF assms(1,2)] assms(3) by simp
  then have "deps_of g = deps_of h" by (simp add: deps_of_def fun_eq_iff)
  then have "set (ready_nodes g finished) = set (ready_nodes h finished)"
    by (simp add: set_ready_nodes [OF assms(1)] set_ready_nodes [OF assms(2)] assms(3))
  moreover have "sorted (ready_nodes g finished)" "sorted (ready_nodes h finished)"
    by (simp_all add: ready_nodes_def)
  ultimately show ?thesis
    using distinct_ready_nodes [OF assms(1)] distinct_ready_nodes [OF assms(2)]
    by (intro sorted_distinct_set_unique)
qed

lemma topo_order_perm:
  assumes "distinct (map fst g)" and "distinct (map fst h)" and "set g = set h"
  shows "topo_order g finished = topo_order h finished"
proof -
  have len: "length g = length h"
    using distinct_card [of g] distinct_card [of h] assms by (simp add: distinct_map)
  show ?thesis
    using assms len
  proof (induction g finished rule: topo_order.induct)
    case (1 g finished)
    have r: "ready_nodes g finished = ready_nodes h finished" using 1(2-4) by (rule ready_nodes_perm)
    show ?case
      using 1 r by (simp add: topo_order.simps [of g finished] topo_order.simps [of h finished] Let_def)
  qed
qed

section \<open>Closure\<close>

definition expand :: "('a \<times> 'a list) list \<Rightarrow> 'a list \<Rightarrow> 'a list" where
  "expand g found = remdups (found @ concat (map (deps_of g) found))"

function closure_of :: "('a \<times> 'a list) list \<Rightarrow> 'a list \<Rightarrow> 'a list" where
  "closure_of g found =
     (let expanded = expand g found in
      if set expanded \<subseteq> set found then found else closure_of g expanded)"
  by auto

lemma set_expand: "set (expand g found) = set found \<union> (\<Union>k \<in> set found. set (deps_of g k))"
  by (auto simp: expand_def)

lemma deps_of_subset: "set (deps_of g k) \<subseteq> (\<Union>p \<in> set g. set (snd p))"
proof (cases "map_of g k")
  case (Some ds)
  then have "(k, ds) \<in> set g" by (rule map_of_SomeD)
  with Some show ?thesis by (force simp: deps_of_def)
qed (simp add: deps_of_def)

termination closure_of
proof (relation "measure (\<lambda>(g, found). card ((\<Union>p \<in> set g. set (snd p)) - set found))")
  fix g :: "('a \<times> 'a list) list" and found x
  assume x: "x = expand g found" "\<not> set x \<subseteq> set found"
  let ?U = "\<Union>p \<in> set g. set (snd p)"
  from x obtain y where y: "y \<in> set x" "y \<notin> set found" by blast
  then have "y \<in> ?U" using deps_of_subset [of g] by (auto simp: x(1) set_expand)
  with y have "?U - set x \<subset> ?U - set found" by (auto simp: x(1) set_expand)
  then show "((g, x), (g, found)) \<in> measure (\<lambda>(g, found). card ((\<Union>p \<in> set g. set (snd p)) - set found))"
    by (simp add: psubset_card_mono)
qed simp

declare closure_of.simps [simp del]

definition depends :: "('a \<times> 'a list) list \<Rightarrow> 'a \<Rightarrow> 'a \<Rightarrow> bool" where
  "depends g x y \<longleftrightarrow> y \<in> set (deps_of g x)"

lemma set_closure_of: "set (closure_of g roots) = {y. \<exists>r \<in> set roots. (depends g)\<^sup>*\<^sup>* r y}"
proof (induction g roots rule: closure_of.induct)
  case (1 g found)
  let ?R = "depends g"
  let ?e = "expand g found"
  have e: "set ?e = set found \<union> {y. \<exists>k \<in> set found. ?R k y}"
    by (auto simp: set_expand depends_def)
  show ?case
  proof (cases "set ?e \<subseteq> set found")
    case True
    have "y \<in> set found" if "r \<in> set found" and "?R\<^sup>*\<^sup>* r y" for r y
      using that(2,1) by (induction rule: rtranclp_induct) (use True e in auto)
    with True show ?thesis by (auto simp: closure_of.simps [of g found] Let_def)
  next
    case False
    have "{y. \<exists>r \<in> set ?e. ?R\<^sup>*\<^sup>* r y} = {y. \<exists>r \<in> set found. ?R\<^sup>*\<^sup>* r y}"
      unfolding e by (auto intro: converse_rtranclp_into_rtranclp)
    with 1 [OF refl False] False show ?thesis by (simp add: closure_of.simps [of g found] Let_def)
  qed
qed

end
