(* ===== verification/Claim_Graph.thy ===== *)
theory Claim_Graph
  imports Dependency_Order
begin

text \<open>
  The cycle check of the claim graph, \<open>_acyclic\<close> of \<open>factory_kernel/claims.py\<close>: an iterative
  depth-first search with three colours. It refuses exactly the graphs with a cycle among their own
  nodes, and it agrees with the layered order of the programme compiler.
\<close>

section \<open>The search\<close>

datatype colour = White | Grey | Black

type_synonym 'a colours = "('a \<times> colour) list"

text \<open>\<open>colour[node] = c\<close> for a node that has a colour.\<close>

definition recolour :: "'a \<Rightarrow> colour \<Rightarrow> 'a colours \<Rightarrow> 'a colours" where
  "recolour n c cs = map (\<lambda>(k, d). (k, if k = n then c else d)) cs"

lemma map_of_recolour: "map_of (recolour n c cs) k = (if k = n then map_option (\<lambda>_. c) (map_of cs k) else map_of cs k)"
  by (induction cs) (auto simp: recolour_def)

lemma keys_recolour [simp]: "map fst (recolour n c cs) = map fst cs"
  by (simp add: recolour_def case_prod_beta comp_def)

lemma recolour_simps [simp]:
  "recolour n c [] = []"
  "recolour n c ((k, d) # cs) = (k, if k = n then c else d) # recolour n c cs"
  by (simp_all add: recolour_def)

definition whites :: "'a colours \<Rightarrow> nat" where
  "whites cs = length (filter (\<lambda>p. snd p = White) cs)"

lemma whites_simps [simp]:
  "whites [] = 0"
  "whites ((k, d) # cs) = (if d = White then Suc (whites cs) else whites cs)"
  by (simp_all add: whites_def)

lemma whites_recolour_le: "c \<noteq> White \<Longrightarrow> whites (recolour n c cs) \<le> whites cs"
  by (induction cs) (auto split: if_splits)

lemma whites_recolour_less: "c \<noteq> White \<Longrightarrow> map_of cs n = Some White \<Longrightarrow> whites (recolour n c cs) < whites cs"
  by (induction cs) (auto split: if_splits intro: le_less_trans [OF whites_recolour_le] less_SucI simp: less_Suc_eq_le whites_recolour_le)

text \<open>
  \<open>while path\<close>: the top of the path is its first entry, a node with the children its iterator has not
  given yet, and \<open>stack\<close> is the nodes of the path, the root first. A grey child closes the cycle
  \<open>stack[stack.index(child):]\<close>.
\<close>

function dfs_loop :: "('a::linorder \<times> 'a list) list \<Rightarrow> 'a colours \<Rightarrow> ('a \<times> 'a list) list \<Rightarrow> 'a list + 'a colours" where
  "dfs_loop g cs [] = Inr cs"
| "dfs_loop g cs ((n, []) # path) = dfs_loop g (recolour n Black cs) path"
| "dfs_loop g cs ((n, child # children) # path) =
     (case map_of cs child of
        Some Grey \<Rightarrow> Inl (dropWhile (\<lambda>x. x \<noteq> child) (rev (n # map fst path)))
      | Some White \<Rightarrow>
          dfs_loop g (recolour child Grey cs) ((child, sort (deps_of g child)) # (n, children) # path)
      | _ \<Rightarrow> dfs_loop g cs ((n, children) # path))"
  by pat_completeness auto

definition path_size :: "('a \<times> 'a list) list \<Rightarrow> nat" where
  "path_size path = sum_list (map (\<lambda>p. Suc (length (snd p))) path)"

termination dfs_loop
proof (relation "measures [\<lambda>(g, cs, path). whites cs, \<lambda>(g, cs, path). path_size path]", goal_cases)
  case (2 g cs n path)
  have "whites (recolour n Black cs) \<le> whites cs" by (simp add: whites_recolour_le)
  then have "whites (recolour n Black cs) < whites cs \<or> whites (recolour n Black cs) = whites cs" by linarith
  then show ?case by (auto simp: path_size_def)
qed (auto simp: path_size_def whites_recolour_less)

text \<open>\<open>for root in sorted(graph)\<close>.\<close>

fun dfs_roots :: "('a::linorder \<times> 'a list) list \<Rightarrow> 'a colours \<Rightarrow> 'a list \<Rightarrow> 'a list + 'a colours" where
  "dfs_roots g cs [] = Inr cs"
| "dfs_roots g cs (r # rs) =
     (if map_of cs r = Some White
      then bindE (dfs_loop g (recolour r Grey cs) [(r, sort (deps_of g r))]) (\<lambda>cs'. dfs_roots g cs' rs)
      else dfs_roots g cs rs)"

text \<open>\<open>_acyclic\<close>: the nodes of a cycle, sorted, or nothing.\<close>

definition find_cycle :: "('a::linorder \<times> 'a list) list \<Rightarrow> 'a list option" where
  "find_cycle g =
     (case dfs_roots g (map (\<lambda>p. (fst p, White)) g) (sort (map fst g)) of
        Inl cycle \<Rightarrow> Some (sort cycle)
      | Inr _ \<Rightarrow> None)"

section \<open>Correctness\<close>

text \<open>The dependencies the search follows: those on nodes of the graph itself.\<close>

definition node_dep :: "('a \<times> 'a list) list \<Rightarrow> 'a \<Rightarrow> 'a \<Rightarrow> bool" where
  "node_dep g x y \<longleftrightarrow> depends g x y \<and> y \<in> fst ` set g"

definition cycle_in :: "('a \<times> 'a list) list \<Rightarrow> 'a list \<Rightarrow> bool" where
  "cycle_in g c \<longleftrightarrow> c \<noteq> [] \<and> distinct c \<and> successively (node_dep g) c \<and> node_dep g (last c) (hd c)"

text \<open>Every node of the path waits for the one above it, and what it has not yet looked at is black or above.\<close>

fun path_ok :: "('a \<times> 'a list) list \<Rightarrow> 'a colours \<Rightarrow> 'a option \<Rightarrow> ('a \<times> 'a list) list \<Rightarrow> bool" where
  "path_ok g cs up [] = True"
| "path_ok g cs up ((n, rest) # path) =
     (set rest \<subseteq> set (deps_of g n)
      \<and> (\<forall>d. node_dep g n d \<longrightarrow> d \<in> set rest \<or> map_of cs d = Some Black \<or> up = Some d)
      \<and> (case up of None \<Rightarrow> True | Some a \<Rightarrow> node_dep g n a)
      \<and> path_ok g cs (Some n) path)"

definition black_ok :: "('a \<times> 'a list) list \<Rightarrow> 'a colours \<Rightarrow> bool" where
  "black_ok g cs \<longleftrightarrow> (\<forall>k. map_of cs k = Some Black \<longrightarrow>
     (\<forall>d. node_dep g k d \<longrightarrow> map_of cs d = Some Black) \<and> \<not> (node_dep g)\<^sup>+\<^sup>+ k k)"

definition dfs_inv :: "('a \<times> 'a list) list \<Rightarrow> 'a colours \<Rightarrow> ('a \<times> 'a list) list \<Rightarrow> bool" where
  "dfs_inv g cs path \<longleftrightarrow> map fst cs = map fst g \<and> distinct (map fst path)
     \<and> (\<forall>k. map_of cs k = Some Grey \<longleftrightarrow> k \<in> fst ` set path)
     \<and> black_ok g cs \<and> path_ok g cs None path"

lemma path_ok_mono:
  assumes "path_ok g cs up path" and "\<And>d. map_of cs d = Some Black \<Longrightarrow> map_of cs' d = Some Black"
  shows "path_ok g cs' up path"
  using assms(1)
proof (induction path arbitrary: up)
  case (Cons p path)
  then show ?case using assms(2) by (cases p) auto
qed simp

lemma path_ok_shadow:
  assumes "path_ok g cs (Some n) path" and "\<And>d. map_of cs d = Some Black \<Longrightarrow> map_of cs' d = Some Black"
    and "map_of cs' n = Some Black"
  shows "path_ok g cs' None path"
proof (cases path)
  case (Cons p q)
  with assms show ?thesis by (cases p) (auto intro: path_ok_mono)
qed simp

lemma path_chain: "path_ok g cs up path \<Longrightarrow> successively (\<lambda>x y. node_dep g y x) (map fst path)"
proof (induction path arbitrary: up)
  case (Cons p path)
  obtain n rest where p: "p = (n, rest)" by (cases p)
  from Cons p have ok: "path_ok g cs (Some n) path" by simp
  with Cons.IH have "successively (\<lambda>x y. node_dep g y x) (map fst path)" by blast
  with ok p show ?case by (cases path) (auto simp: successively_Cons)
qed simp

lemma black_closed:
  assumes "black_ok g cs" and "map_of cs k = Some Black" and "(node_dep g)\<^sup>*\<^sup>* k d"
  shows "map_of cs d = Some Black"
  using assms(3,2) by (induction rule: rtranclp_induct) (use assms(1) in \<open>auto simp: black_ok_def\<close>)

lemma black_ok_blacken:
  assumes "black_ok g cs" and "map_of cs n = Some Grey" and "\<And>d. node_dep g n d \<Longrightarrow> map_of cs d = Some Black"
  shows "black_ok g (recolour n Black cs)"
proof -
  have "\<not> (node_dep g)\<^sup>+\<^sup>+ n n"
  proof
    assume "(node_dep g)\<^sup>+\<^sup>+ n n"
    then obtain d where "node_dep g n d" "(node_dep g)\<^sup>*\<^sup>* d n" by (meson tranclpD)
    with black_closed [OF assms(1)] assms(3) have "map_of cs n = Some Black" by blast
    with assms(2) show False by simp
  qed
  with assms show ?thesis by (auto simp: black_ok_def map_of_recolour)
qed

lemma dfs_inv_pop:
  assumes "dfs_inv g cs ((n, []) # path)"
  shows "dfs_inv g (recolour n Black cs) path"
proof -
  from assms have inv: "map fst cs = map fst g" "n \<notin> fst ` set path" "distinct (map fst path)" "black_ok g cs"
    "path_ok g cs (Some n) path" and grey: "\<And>k. map_of cs k = Some Grey \<longleftrightarrow> k = n \<or> k \<in> fst ` set path"
    and deps: "\<And>d. node_dep g n d \<Longrightarrow> map_of cs d = Some Black"
    by (auto simp: dfs_inv_def)
  have n: "map_of cs n = Some Grey" using grey by simp
  have "path_ok g (recolour n Black cs) None path"
    by (rule path_ok_shadow [OF inv(5)]) (auto simp: map_of_recolour n)
  moreover have "map_of (recolour n Black cs) k = Some Grey \<longleftrightarrow> k \<in> fst ` set path" for k
    using grey [of k] inv(2) n by (auto simp: map_of_recolour)
  ultimately show ?thesis
    using inv black_ok_blacken [OF inv(4) n deps] by (simp add: dfs_inv_def)
qed

lemma dfs_inv_push:
  assumes "dfs_inv g cs ((n, child # children) # path)" and "map_of cs child = Some White"
  shows "dfs_inv g (recolour child Grey cs) ((child, sort (deps_of g child)) # (n, children) # path)"
proof -
  from assms(1) have inv: "map fst cs = map fst g" "distinct (n # map fst path)" "black_ok g cs"
    "path_ok g cs None ((n, child # children) # path)" and grey: "\<And>k. map_of cs k = Some Grey \<longleftrightarrow> k = n \<or> k \<in> fst ` set path"
    by (auto simp: dfs_inv_def)
  let ?cs = "recolour child Grey cs"
  have new: "child \<noteq> n" "child \<notin> fst ` set path" using grey [of child] assms(2) by auto
  have key: "child \<in> fst ` set g"
    using assms(2) inv(1) by (metis list.set_map map_of_eq_None_iff option.distinct(1))
  have same: "map_of ?cs d = Some Black \<longleftrightarrow> map_of cs d = Some Black" for d
    using assms(2) by (auto simp: map_of_recolour)
  have "black_ok g ?cs" using inv(3) by (simp add: black_ok_def same)
  moreover have "path_ok g ?cs (Some n) path"
    by (rule path_ok_mono [where cs = cs]) (use inv(4) same in auto)
  moreover have "map_of ?cs k = Some Grey \<longleftrightarrow> k = child \<or> k = n \<or> k \<in> fst ` set path" for k
    using grey [of k] assms(2) by (auto simp: map_of_recolour)
  ultimately show ?thesis
    using inv new key same by (auto simp: dfs_inv_def node_dep_def depends_def)
qed

lemma dfs_inv_skip:
  assumes "dfs_inv g cs ((n, child # children) # path)" and "map_of cs child = None \<or> map_of cs child = Some Black"
  shows "dfs_inv g cs ((n, children) # path)"
proof -
  from assms(1) have keys: "map fst cs = map fst g" by (simp add: dfs_inv_def)
  have "map_of cs child = Some Black" if "node_dep g n child"
    using assms(2) that keys by (metis node_dep_def list.set_map map_of_eq_None_iff)
  with assms(1) show ?thesis by (auto simp: dfs_inv_def)
qed

lemma dfs_grey_cycle:
  assumes "dfs_inv g cs ((n, child # children) # path)" and "map_of cs child = Some Grey"
  shows "cycle_in g (dropWhile (\<lambda>x. x \<noteq> child) (rev (n # map fst path)))"
proof -
  let ?stack = "rev (n # map fst path)"
  let ?c = "dropWhile (\<lambda>x. x \<noteq> child) ?stack"
  from assms have mem: "child \<in> set ?stack" and dist: "distinct ?stack"
    and ok: "path_ok g cs None ((n, child # children) # path)" and keys: "map fst cs = map fst g"
    by (auto simp: dfs_inv_def)
  have ne: "?c \<noteq> []" using mem by (auto simp: dropWhile_eq_Nil_conv)
  have hd: "hd ?c = child" using hd_dropWhile [OF ne] by simp
  have split: "?stack = takeWhile (\<lambda>x. x \<noteq> child) ?stack @ ?c" by simp
  have last: "last ?c = n" using split ne by (metis last_appendR last_rev list.sel(1))
  have "successively (\<lambda>x y. node_dep g y x) (n # map fst path)"
    using path_chain [OF ok] by simp
  then have "successively (node_dep g) ?stack" by (simp only: successively_rev)
  then have "successively (node_dep g) ?c"
    using split by (metis successively_append_iff)
  moreover have "distinct ?c" using dist by (rule distinct_dropWhile)
  moreover have "node_dep g n child"
  proof -
    have "child \<in> fst ` set g"
      using assms(2) keys by (metis list.set_map map_of_eq_None_iff option.distinct(1))
    with ok show ?thesis by (auto simp: node_dep_def depends_def)
  qed
  ultimately show ?thesis using ne hd last by (simp add: cycle_in_def)
qed

text \<open>What one search returns: a cycle, or a graph in which nothing is grey and nothing became white again.\<close>

definition searched :: "('a \<times> 'a list) list \<Rightarrow> 'a colours \<Rightarrow> 'a list + 'a colours \<Rightarrow> bool" where
  "searched g cs r \<longleftrightarrow>
     (case r of
        Inl c \<Rightarrow> cycle_in g c
      | Inr cs' \<Rightarrow> dfs_inv g cs' [] \<and> (\<forall>k. map_of cs k \<noteq> Some White \<longrightarrow> map_of cs' k \<noteq> Some White))"

lemma searched_mono:
  "searched g cs' r \<Longrightarrow> (\<And>k. map_of cs k \<noteq> Some White \<Longrightarrow> map_of cs' k \<noteq> Some White) \<Longrightarrow> searched g cs r"
  by (auto simp: searched_def split: sum.splits)

lemma dfs_loop_searched: "dfs_inv g cs path \<Longrightarrow> searched g cs (dfs_loop g cs path)"
proof (induction g cs path rule: dfs_loop.induct)
  case (1 g cs)
  then show ?case by (simp add: searched_def)
next
  case (2 g cs n path)
  from searched_mono [OF 2(1) [OF dfs_inv_pop [OF 2(2)]], of cs] show ?case
    by (simp add: map_of_recolour split: if_splits)
next
  case (3 g cs n child children path)
  show ?case
  proof (cases "map_of cs child")
    case None
    with 3 dfs_inv_skip [OF 3(4)] show ?thesis by simp
  next
    case (Some c)
    show ?thesis
    proof (cases c)
      case White
      with Some have w: "map_of cs child = Some White" by simp
      from searched_mono [OF 3(2) [OF Some White dfs_inv_push [OF 3(4) w]], of cs] w show ?thesis
        by (simp add: map_of_recolour split: if_splits)
    next
      case Grey
      with Some dfs_grey_cycle [OF 3(4)] show ?thesis by (simp add: searched_def)
    next
      case Black
      with Some 3 dfs_inv_skip [OF 3(4)] show ?thesis by simp
    qed
  qed
qed

lemma dfs_inv_root:
  assumes "dfs_inv g cs []" and "map_of cs r = Some White"
  shows "dfs_inv g (recolour r Grey cs) [(r, sort (deps_of g r))]"
proof -
  have "map_of (recolour r Grey cs) d = Some Black \<longleftrightarrow> map_of cs d = Some Black" for d
    using assms(2) by (auto simp: map_of_recolour)
  with assms show ?thesis
    by (auto simp: dfs_inv_def black_ok_def map_of_recolour node_dep_def depends_def)
qed

lemma dfs_roots_searched:
  "dfs_inv g cs [] \<Longrightarrow> (case dfs_roots g cs rs of Inl c \<Rightarrow> cycle_in g c
     | Inr cs' \<Rightarrow> dfs_inv g cs' [] \<and> (\<forall>k. map_of cs k \<noteq> Some White \<or> k \<in> set rs \<longrightarrow> map_of cs' k \<noteq> Some White))"
proof (induction rs arbitrary: cs)
  case (Cons r rs)
  show ?case
  proof (cases "map_of cs r = Some White")
    case True
    let ?cs = "recolour r Grey cs"
    from dfs_loop_searched [OF dfs_inv_root [OF Cons.prems True]]
    have one: "searched g ?cs (dfs_loop g ?cs [(r, sort (deps_of g r))])" .
    show ?thesis
    proof (cases "dfs_loop g ?cs [(r, sort (deps_of g r))]")
      case (Inl c)
      with one True show ?thesis by (simp add: searched_def)
    next
      case (Inr cs')
      with one have inv: "dfs_inv g cs' []" and keep: "\<And>k. map_of ?cs k \<noteq> Some White \<Longrightarrow> map_of cs' k \<noteq> Some White"
        by (auto simp: searched_def)
      have "map_of cs' k \<noteq> Some White" if "map_of cs k \<noteq> Some White \<or> k = r" for k
        by (rule keep) (use that in \<open>auto simp: map_of_recolour\<close>)
      with Cons.IH [OF inv] True Inr show ?thesis by (auto split: sum.splits)
    qed
  next
    case False
    with Cons.IH [OF Cons.prems] show ?thesis by (auto split: sum.splits)
  qed
qed simp

lemma cycle_in_trancl:
  assumes "cycle_in g c"
  shows "\<exists>k. (node_dep g)\<^sup>+\<^sup>+ k k"
proof -
  have chain: "successively R (x # xs) \<Longrightarrow> R\<^sup>*\<^sup>* x (last (x # xs))" for R :: "'a \<Rightarrow> 'a \<Rightarrow> bool" and x xs
    by (induction xs arbitrary: x) (auto simp: successively_Cons intro: converse_rtranclp_into_rtranclp)
  obtain x xs where c: "c = x # xs" using assms by (cases c) (auto simp: cycle_in_def)
  with assms chain [of "node_dep g" x xs] have "(node_dep g)\<^sup>*\<^sup>* x (last c)" "node_dep g (last c) x"
    by (auto simp: cycle_in_def)
  then show ?thesis by (meson rtranclp_into_tranclp1)
qed

text \<open>The search names a cycle exactly when the graph has one.\<close>

lemma find_cycle_sound:
  "find_cycle g = Some ks \<Longrightarrow> \<exists>c. cycle_in g c \<and> ks = sort c"
  and find_cycle_None_iff: "find_cycle g = None \<longleftrightarrow> (\<forall>k. \<not> (node_dep g)\<^sup>+\<^sup>+ k k)"
proof -
  let ?cs = "map (\<lambda>p. (fst p, White)) g"
  have white: "map_of ?cs k \<noteq> Some c" if "c \<noteq> White" for k c
    using that by (induction g) auto
  have start: "dfs_inv g ?cs []"
    by (simp add: dfs_inv_def black_ok_def comp_def white del: not_None_eq)
  note s = dfs_roots_searched [OF start, of "sort (map fst g)"]
  have none: "\<not> (node_dep g)\<^sup>+\<^sup>+ k k" if r: "dfs_roots g ?cs (sort (map fst g)) = Inr cs'" for cs' k
  proof
    assume k: "(node_dep g)\<^sup>+\<^sup>+ k k"
    then obtain d where "node_dep g d k" by cases auto
    then have key: "k \<in> fst ` set g" by (simp add: node_dep_def)
    from s r have inv: "dfs_inv g cs' []" and "map_of cs' k \<noteq> Some White" using key by simp_all
    moreover obtain c where "map_of cs' k = Some c"
      using inv key by (metis dfs_inv_def list.set_map map_of_eq_None_iff not_None_eq)
    ultimately have "map_of cs' k = Some Black" by (cases c) (auto simp: dfs_inv_def)
    with inv k show False by (auto simp: dfs_inv_def black_ok_def)
  qed
  show "find_cycle g = Some ks \<Longrightarrow> \<exists>c. cycle_in g c \<and> ks = sort c"
    using s by (auto simp: find_cycle_def split: sum.splits)
  show "find_cycle g = None \<longleftrightarrow> (\<forall>k. \<not> (node_dep g)\<^sup>+\<^sup>+ k k)"
  proof (cases "dfs_roots g ?cs (sort (map fst g))")
    case (Inl c)
    with s cycle_in_trancl [of g c] show ?thesis by (simp add: find_cycle_def)
  next
    case (Inr cs')
    with none show ?thesis by (simp add: find_cycle_def)
  qed
qed

section \<open>Agreement with the layered order\<close>

definition known_deps :: "('a \<times> 'a list) list \<Rightarrow> bool" where
  "known_deps g \<longleftrightarrow> list_all (\<lambda>p. set (snd p) \<subseteq> fst ` set g) g"

lemma known_depsD: "known_deps g \<Longrightarrow> d \<in> set (deps_of g k) \<Longrightarrow> d \<in> fst ` set g"
  using map_of_SomeD [of g k] by (cases "map_of g k") (fastforce simp: known_deps_def list_all_iff deps_of_def)+

lemma node_dep_keys: "node_dep g x y \<Longrightarrow> x \<in> fst ` set g \<and> y \<in> fst ` set g"
  using map_of_eq_None_iff [of g x] by (cases "map_of g x") (simp_all add: node_dep_def depends_def deps_of_def)

lemma acyclic_wf:
  assumes "\<And>k. \<not> (node_dep g)\<^sup>+\<^sup>+ k k"
  shows "wf {(d, k). node_dep g k d}"
proof (rule finite_acyclic_wf)
  have "{(d, k). node_dep g k d} \<subseteq> (fst ` set g) \<times> (fst ` set g)" using node_dep_keys by fast
  then show "finite {(d, k). node_dep g k d}" by (rule finite_subset) simp
  show "acyclic {(d, k). node_dep g k d}"
  proof (rule acyclicI, rule allI)
    fix x
    have "(node_dep g)\<^sup>+\<^sup>+ b a" if "(a, b) \<in> {(d, k). node_dep g k d}\<^sup>+" for a b
      using that by (induction rule: trancl_induct) (auto intro: tranclp_into_tranclp2)
    with assms show "(x, x) \<notin> {(d, k). node_dep g k d}\<^sup>+" by blast
  qed
qed

lemma acyclic_not_stuck:
  assumes "known_deps g" and "\<And>k. \<not> (node_dep g)\<^sup>+\<^sup>+ k k"
  shows "\<not> stuck g S"
proof
  assume S: "stuck g S"
  then obtain k0 where "k0 \<in> S" by (auto simp: stuck_def)
  with acyclic_wf [OF assms(2)]
  obtain z where z: "z \<in> S" "\<And>y. (y, z) \<in> {(d, k). node_dep g k d} \<Longrightarrow> y \<notin> S" by (rule wfE_min) blast
  obtain d where d: "d \<in> set (deps_of g z)" "d \<in> S \<or> d \<notin> fst ` set g"
    using S z(1) unfolding stuck_def by blast
  with known_depsD [OF assms(1) d(1)] have "node_dep g z d" "d \<in> S" by (auto simp: node_dep_def depends_def)
  with z show False by blast
qed

lemma cycle_stuck:
  assumes "(node_dep g)\<^sup>+\<^sup>+ k k"
  shows "stuck g {x. (node_dep g)\<^sup>*\<^sup>* k x \<and> (node_dep g)\<^sup>+\<^sup>+ x k}"
proof -
  let ?S = "{x. (node_dep g)\<^sup>*\<^sup>* k x \<and> (node_dep g)\<^sup>+\<^sup>+ x k}"
  have key: "x \<in> fst ` set g" if "(node_dep g)\<^sup>+\<^sup>+ x y" for x y
  proof -
    from tranclpD [OF that] obtain d where "node_dep g x d" by blast
    then have "deps_of g x \<noteq> []" by (auto simp: node_dep_def depends_def)
    then show ?thesis by (metis deps_of_def map_of_eq_None_iff list.set_map option.simps(4))
  qed
  have step: "\<exists>d \<in> set (deps_of g x). d \<in> ?S" if x: "x \<in> ?S" for x
  proof -
    from x have "(node_dep g)\<^sup>+\<^sup>+ x k" by simp
    from tranclpD [OF this] obtain d where d: "node_dep g x d" "(node_dep g)\<^sup>*\<^sup>* d k" by blast
    have "(node_dep g)\<^sup>*\<^sup>* k d" using x d(1) by (auto intro: rtranclp.rtrancl_into_rtrancl)
    moreover have "(node_dep g)\<^sup>+\<^sup>+ d k" using d(2) assms by (auto dest: rtranclpD)
    ultimately show ?thesis using d(1) by (auto simp: node_dep_def depends_def)
  qed
  have "k \<in> ?S" using assms by simp
  moreover have "?S \<subseteq> fst ` set g" using key by blast
  ultimately show ?thesis unfolding stuck_def using step by blast
qed

lemma find_cycle_layered:
  assumes "distinct (map fst g)" and "known_deps g"
  shows "find_cycle g = None \<longleftrightarrow> topo_order g [] \<noteq> None"
  using topo_order_complete [OF assms(1)] acyclic_not_stuck [OF assms(2)] cycle_stuck [of g]
  by (auto simp: find_cycle_None_iff)

end
