(* ===== verification/Programme.thy ===== *)
theory Programme
  imports Dependency_Order
begin

text \<open>
  The programme compiler: \<open>factory_kernel/programme.py\<close>, with the strategy section validated by
  \<open>factory_kernel/programme_strategy.py\<close> and \<open>factory_kernel/strategy_rules.py\<close>. Input is the
  JSON value; every \<open>ProgrammeRefused\<close> (and \<open>KeyError\<close>, \<open>TypeError\<close>) is an error value.
  The hash function is the parameter \<open>sha\<close>.
\<close>

section \<open>Boundary checks\<close>

datatype programme_error =
    P_object string
  | P_text string
  | P_reserved string
  | P_id
  | P_list string
  | P_duplicate string
  | P_revision
  | P_repository
  | P_capacity
  | P_version
  | P_binding
  | P_ownership
  | P_uncovered "string list"
  | P_blocker
  | P_cycle
  | P_login
  | P_window
  | P_strategy string
  | P_key string
  | P_type

definition MAX_ITEMS :: nat where
  "MAX_ITEMS = 50"

definition py_field :: "pyval \<Rightarrow> string \<Rightarrow> pyval" where
  "py_field v k = (case v of PDict d \<Rightarrow> py_get d k | _ \<Rightarrow> PNone)"

lemma py_field_dict: "py_field (PDict d) k = (case map_of d k of None \<Rightarrow> PNone | Some v \<Rightarrow> v)"
  by (simp add: py_field_def py_get_def)

definition py_items :: "pyval \<Rightarrow> pyval list" where
  "py_items v = (case v of PList xs \<Rightarrow> xs | _ \<Rightarrow> [])"

definition py_string :: "pyval \<Rightarrow> string" where
  "py_string v = (case v of PStr s \<Rightarrow> s | _ \<Rightarrow> [])"

definition py_int :: "pyval \<Rightarrow> int" where
  "py_int v = (case v of PInt i \<Rightarrow> i | _ \<Rightarrow> 0)"

definition same_set :: "'a list \<Rightarrow> 'a list \<Rightarrow> bool" where
  "same_set xs ys \<longleftrightarrow> list_all (\<lambda>x. x \<in> set ys) xs \<and> list_all (\<lambda>y. y \<in> set xs) ys"

lemma same_set_iff [simp]: "same_set xs ys \<longleftrightarrow> set xs = set ys"
  by (auto simp: same_set_def list_all_iff)

definition p_object :: "string \<Rightarrow> string list \<Rightarrow> pyval \<Rightarrow> programme_error + unit" where
  "p_object name fields v =
     (case v of PDict d \<Rightarrow> ensure (same_set (map fst d) fields) (P_object name) | _ \<Rightarrow> Inl (P_object name))"

text \<open>The search for \<open><!--\<close> and for a line that starts, after white space, with a reserved
  keyword ending at a word boundary (case-insensitive, multi-line).\<close>

fun has_infix :: "string \<Rightarrow> string \<Rightarrow> bool" where
  "has_infix pat [] \<longleftrightarrow> pat = []"
| "has_infix pat (c # cs) \<longleftrightarrow> take (length pat) (c # cs) = pat \<or> has_infix pat cs"

definition lower_char :: "char \<Rightarrow> char" where
  "lower_char c = (if 65 \<le> code_of c \<and> code_of c \<le> 90 then char_of (code_of c + 32) else c)"

definition is_word_char :: "char \<Rightarrow> bool" where
  "is_word_char c \<longleftrightarrow> is_alnum c \<or> code_of c = 95
     \<or> code_of c \<in> {170, 178, 179, 181, 185, 186, 188, 189, 190}
     \<or> (192 \<le> code_of c \<and> code_of c \<noteq> 215 \<and> code_of c \<noteq> 247)"

definition starts_keyword :: "string \<Rightarrow> string \<Rightarrow> bool" where
  "starts_keyword s kw \<longleftrightarrow> map lower_char (take (length kw) s) = kw
     \<and> (case drop (length kw) s of [] \<Rightarrow> True | c # _ \<Rightarrow> \<not> is_word_char c)"

definition line_reserved :: "string \<Rightarrow> bool" where
  "line_reserved s \<longleftrightarrow> list_ex (starts_keyword (dropWhile is_space_char s))
     [''blocked by'', ''part of'', ''fixes'', ''closes'']"

fun reserved_lines :: "string \<Rightarrow> bool" where
  "reserved_lines [] \<longleftrightarrow> False"
| "reserved_lines (c # cs) \<longleftrightarrow> (code_of c = 10 \<and> line_reserved cs) \<or> reserved_lines cs"

definition reserved_syntax :: "string \<Rightarrow> bool" where
  "reserved_syntax s \<longleftrightarrow> has_infix ''<!--'' s \<or> line_reserved s \<or> reserved_lines s"

definition p_text :: "string \<Rightarrow> nat \<Rightarrow> pyval \<Rightarrow> programme_error + string" where
  "p_text name limit v =
     (case v of PStr s \<Rightarrow>
        if blank s \<or> limit < length s then Inl (P_text name)
        else if reserved_syntax s then Inl (P_reserved name) else Inr s
      | _ \<Rightarrow> Inl (P_text name))"

definition is_programme_id :: "string \<Rightarrow> bool" where
  "is_programme_id s \<longleftrightarrow> (case s of [] \<Rightarrow> False
     | c # cs \<Rightarrow> is_letter_char c \<and> length cs \<le> 63 \<and> list_all (\<lambda>x. is_alnum x \<or> x \<in> set ''_-'') cs)"

definition p_id :: "pyval \<Rightarrow> programme_error + string" where
  "p_id v = (case v of PStr s \<Rightarrow> if is_programme_id s then Inr s else Inl P_id | _ \<Rightarrow> Inl P_id)"

definition p_list :: "string \<Rightarrow> bool \<Rightarrow> pyval \<Rightarrow> programme_error + pyval list" where
  "p_list name allow v =
     (case v of PList xs \<Rightarrow> if MAX_ITEMS < length xs \<or> (\<not> allow \<and> xs = []) then Inl (P_list name) else Inr xs
      | _ \<Rightarrow> Inl (P_list name))"

definition p_ids :: "string \<Rightarrow> bool \<Rightarrow> pyval \<Rightarrow> programme_error + string list" where
  "p_ids name allow v =
     bindE (p_list name allow v) (\<lambda>xs.
     bindE (mapE p_id xs) (\<lambda>ids.
     bindE (ensure (distinct ids) (P_duplicate name)) (\<lambda>_. Inr (sort ids))))"

lemma p_id_eq [simp]: "p_id v = Inr s \<longleftrightarrow> v = PStr s \<and> is_programme_id s"
  by (cases v) (auto simp: p_id_def)

lemma p_text_eq: "p_text name n v = Inr s \<longleftrightarrow> v = PStr s \<and> \<not> blank s \<and> length s \<le> n \<and> \<not> reserved_syntax s"
  by (cases v) (auto simp: p_text_def)

lemma p_list_eq: "p_list name allow v = Inr xs \<longleftrightarrow>
    v = PList xs \<and> length xs \<le> MAX_ITEMS \<and> (xs = [] \<longrightarrow> allow)"
  by (cases v) (auto simp: p_list_def)

lemma p_object_eq: "p_object name fields v = Inr u \<longleftrightarrow> (\<exists>d. v = PDict d \<and> set (map fst d) = set fields)"
  by (cases v) (auto simp: p_object_def)

lemma mapE_p_id: "mapE p_id vs = Inr ids \<longleftrightarrow> vs = map PStr ids \<and> list_all is_programme_id ids"
proof (induction vs arbitrary: ids)
  case Nil
  then show ?case by auto
next
  case (Cons v vs)
  then show ?case by (cases ids) (auto simp: bindE_eq_Inr)
qed

section \<open>The specification\<close>

fun spec_acceptance :: "pyval list \<Rightarrow> string list \<Rightarrow> programme_error + string list" where
  "spec_acceptance [] seen = Inr seen"
| "spec_acceptance (ac # acs) seen =
     bindE (p_object ''acceptance criterion'' [''id'', ''text''] ac) (\<lambda>_.
     bindE (p_id (py_field ac ''id'')) (\<lambda>i.
     bindE (ensure (i \<notin> set seen) (P_duplicate ''acceptance'')) (\<lambda>_.
     bindE (p_text ''acceptance text'' 2000 (py_field ac ''text'')) (\<lambda>_.
     spec_acceptance acs (seen @ [i])))))"

fun spec_requirements :: "pyval list \<Rightarrow> string list \<Rightarrow> string list \<Rightarrow> programme_error + string list" where
  "spec_requirements [] reqs seen = Inr seen"
| "spec_requirements (req # rest) reqs seen =
     bindE (p_object ''requirement'' [''id'', ''acceptance''] req) (\<lambda>_.
     bindE (p_id (py_field req ''id'')) (\<lambda>i.
     bindE (ensure (i \<notin> set reqs) (P_duplicate ''requirement'')) (\<lambda>_.
     bindE (p_list ''acceptance'' False (py_field req ''acceptance'')) (\<lambda>acs.
     bindE (spec_acceptance acs seen) (\<lambda>seen'.
     spec_requirements rest (reqs @ [i]) seen')))))"

definition compile_spec :: "pyval \<Rightarrow> string \<Rightarrow> programme_error + pyval" where
  "compile_spec raw repository =
     bindE (p_object ''spec'' [''id'', ''revision'', ''repository'', ''title'', ''outcome'',
              ''requirements'', ''constraints'', ''non_goals''] raw) (\<lambda>_.
     bindE (p_id (py_field raw ''id'')) (\<lambda>_.
     bindE (case py_field raw ''revision'' of PInt n \<Rightarrow> ensure (1 \<le> n) P_revision | _ \<Rightarrow> Inl P_revision) (\<lambda>_.
     bindE (ensure (py_field raw ''repository'' = PStr repository) P_repository) (\<lambda>_.
     bindE (p_text ''title'' 100 (py_field raw ''title'')) (\<lambda>_.
     bindE (p_text ''outcome'' 2000 (py_field raw ''outcome'')) (\<lambda>_.
     bindE (p_list ''constraints'' False (py_field raw ''constraints'')) (\<lambda>cs.
     bindE (mapE (p_text ''constraints'' 2000) cs) (\<lambda>_.
     bindE (p_list ''non_goals'' False (py_field raw ''non_goals'')) (\<lambda>ns.
     bindE (mapE (p_text ''non_goals'' 2000) ns) (\<lambda>_.
     bindE (p_list ''requirements'' False (py_field raw ''requirements'')) (\<lambda>reqs.
     bindE (spec_requirements reqs [] []) (\<lambda>acceptance.
     bindE (ensure (length acceptance \<le> MAX_ITEMS) P_capacity) (\<lambda>_. Inr raw)))))))))))))"

text \<open>The comprehension over the requirements of a validated specification.\<close>

definition spec_rows :: "pyval \<Rightarrow> (string \<times> string \<times> string) list" where
  "spec_rows spec = concat (map (\<lambda>req. map (\<lambda>ac. (py_string (py_field ac ''id''),
       py_string (py_field req ''id''), py_string (py_field ac ''text''))) (py_items (py_field req ''acceptance'')))
     (py_items (py_field spec ''requirements'')))"

definition spec_acceptance_ids :: "pyval \<Rightarrow> string list" where
  "spec_acceptance_ids spec = map fst (spec_rows spec)"

section \<open>The strategy\<close>

definition utf8_length :: "string \<Rightarrow> nat" where
  "utf8_length s = sum_list (map (\<lambda>c. if code_of c < 128 then 1 else 2) s)"

definition MAX_STRATEGY_BYTES :: nat where
  "MAX_STRATEGY_BYTES = 32000"

text \<open>Membership of a value in a set of strings: an unhashable value is a \<open>TypeError\<close>.\<close>

definition in_strings :: "pyval \<Rightarrow> string list \<Rightarrow> programme_error + bool" where
  "in_strings v xs = (case v of PList _ \<Rightarrow> Inl P_type | PDict _ \<Rightarrow> Inl P_type
     | PStr s \<Rightarrow> Inr (s \<in> set xs) | _ \<Rightarrow> Inr False)"

fun strategy_claims :: "pyval list \<Rightarrow> string list \<Rightarrow> (string \<times> pyval) list
    \<Rightarrow> programme_error + (string \<times> pyval) list" where
  "strategy_claims [] acceptance claims = Inr claims"
| "strategy_claims (c # cs) acceptance claims =
     bindE (p_object ''causal claim'' [''id'', ''statement'', ''kind'', ''depends_on'', ''acceptance'',
              ''revisit_when'', ''status''] c) (\<lambda>_.
     bindE (p_id (py_field c ''id'')) (\<lambda>k.
     bindE (if k \<in> set (map fst claims) then Inl (P_strategy ''claims'')
            else bindE (in_strings (py_field c ''kind'') [''assumption'', ''strategy'']) (\<lambda>b.
              ensure (b \<and> py_field c ''status'' = PStr ''active'') (P_strategy ''claims''))) (\<lambda>_.
     bindE (p_text ''causal statement'' 2000 (py_field c ''statement'')) (\<lambda>_.
     bindE (p_text ''causal revisit_when'' 2000 (py_field c ''revisit_when'')) (\<lambda>_.
     bindE (p_ids ''claim acceptance'' False (py_field c ''acceptance'')) (\<lambda>acs.
     bindE (ensure (set acs \<subseteq> set acceptance) (P_strategy ''acceptance'')) (\<lambda>_.
     bindE (p_ids ''claim dependencies'' True (py_field c ''depends_on'')) (\<lambda>_.
     strategy_claims cs acceptance (claims @ [(k, c)])))))))))"

definition claim_graph :: "(string \<times> pyval) list \<Rightarrow> (string \<times> string list) list" where
  "claim_graph claims = map (\<lambda>(k, c). (k, map py_string (py_items (py_field c ''depends_on'')))) claims"

fun validate_rule_rows :: "pyval list \<Rightarrow> (string \<times> pyval) list \<Rightarrow> string list \<Rightarrow> programme_error + unit" where
  "validate_rule_rows [] claims seen = Inr ()"
| "validate_rule_rows (r # rs) claims seen =
     bindE (p_object ''rule'' [''id'', ''kind'', ''claim_id'', ''from_layer'', ''to_layer''] r) (\<lambda>_.
     bindE (p_id (py_field r ''id'')) (\<lambda>i.
     bindE (p_id (py_field r ''claim_id'')) (\<lambda>c.
     bindE (p_id (py_field r ''from_layer'')) (\<lambda>f.
     bindE (p_id (py_field r ''to_layer'')) (\<lambda>t.
     bindE (ensure (i \<notin> set seen \<and> py_field r ''kind'' = PStr ''new-architecture-dependency-v1''
              \<and> c \<in> set (map fst claims)
              \<and> py_field (the (map_of claims c)) ''kind'' = PStr ''assumption''
              \<and> (case the (map_of claims c) of
                   PDict d \<Rightarrow> \<not> py_has d ''status'' \<or> py_get d ''status'' = PStr ''active'' | _ \<Rightarrow> False)
              \<and> f \<noteq> t) (P_strategy ''rule'')) (\<lambda>_.
     validate_rule_rows rs claims (seen @ [i])))))))"

definition validate_rules :: "pyval \<Rightarrow> (string \<times> pyval) list \<Rightarrow> programme_error + unit" where
  "validate_rules rules claims =
     (case rules of
        PList rs \<Rightarrow> if rs = [] \<or> 8 < length rs then Inl (P_strategy ''rules'') else validate_rule_rows rs claims []
      | _ \<Rightarrow> Inl (P_strategy ''rules''))"

definition validate_strategy :: "(string \<Rightarrow> string) \<Rightarrow> pyval \<Rightarrow> pyval \<Rightarrow> programme_error + pyval" where
  "validate_strategy sha raw spec =
     bindE (ensure (utf8_length (canonical_bytes raw) \<le> MAX_STRATEGY_BYTES) (P_strategy ''size'')) (\<lambda>_.
     let ruled = (case raw of PDict d \<Rightarrow> py_has d ''rejection_rules'' | _ \<Rightarrow> False) in
     bindE (p_object ''strategy'' ([''qualification_status'', ''proof_reuse_allowed'', ''spec_sha256'', ''source'',
              ''candidate'', ''claims'', ''rationale'', ''remaining_uncertainty'']
              @ (if ruled then [''rejection_rules''] else [])) raw) (\<lambda>_.
     bindE (ensure (py_field raw ''qualification_status'' = PStr ''UNPROVEN''
              \<and> py_field raw ''proof_reuse_allowed'' = PBool False) (P_strategy ''certifies'')) (\<lambda>_.
     bindE (ensure (py_field raw ''spec_sha256'' = PStr (sha256_value sha spec)) (P_strategy ''scope'')) (\<lambda>_.
     let source = py_field raw ''source''; candidate = py_field raw ''candidate'' in
     bindE (p_object ''strategy source'' [''session_id'', ''recommendation_sha256'', ''context_identity''] source) (\<lambda>_.
     bindE (p_id (py_field source ''session_id'')) (\<lambda>_.
     bindE (ensure (list_all (\<lambda>f. case py_field source f of PStr s \<Rightarrow> hex_text 64 s | _ \<Rightarrow> False)
              [''recommendation_sha256'', ''context_identity'']) (P_strategy ''source'')) (\<lambda>_.
     bindE (p_object ''selected candidate'' [''id'', ''family'', ''mechanism'', ''trajectory'', ''claim_ids''] candidate) (\<lambda>_.
     bindE (p_id (py_field candidate ''id'')) (\<lambda>_.
     bindE (p_id (py_field candidate ''family'')) (\<lambda>_.
     bindE (p_text ''strategy mechanism'' 4000 (py_field candidate ''mechanism'')) (\<lambda>_.
     bindE (p_object ''strategy trajectory'' [''implementation'', ''validation'', ''failure_repair'',
              ''migration_reversal''] (py_field candidate ''trajectory'')) (\<lambda>_.
     bindE (mapE (\<lambda>f. p_text ''strategy trajectory'' 4000 (py_field (py_field candidate ''trajectory'') f))
              [''implementation'', ''validation'', ''failure_repair'', ''migration_reversal'']) (\<lambda>_.
     bindE (p_ids ''selected claims'' False (py_field candidate ''claim_ids'')) (\<lambda>roots.
     bindE (p_list ''causal claims'' False (py_field raw ''claims'')) (\<lambda>rows.
     bindE (strategy_claims rows (spec_acceptance_ids spec) []) (\<lambda>claims.
     let g = claim_graph claims in
     bindE (ensure (set roots \<subseteq> fst ` set g \<and> list_all (\<lambda>(k, ds). set ds \<subseteq> fst ` set g) g)
              (P_strategy ''ancestor'')) (\<lambda>_.
     bindE (ensure (topo_order g [] \<noteq> None) (P_strategy ''cycle'')) (\<lambda>_.
     bindE (ensure (same_set (closure_of g roots) (map fst g)) (P_strategy ''unrelated'')) (\<lambda>_.
     bindE (p_text ''selection rationale'' 4000 (py_field raw ''rationale'')) (\<lambda>_.
     bindE (p_list ''remaining uncertainty'' True (py_field raw ''remaining_uncertainty'')) (\<lambda>us.
     bindE (mapE (p_text ''remaining uncertainty'' 2000) us) (\<lambda>_.
     bindE (if ruled then validate_rules (py_field raw ''rejection_rules'') claims else Inr ()) (\<lambda>_.
     Inr raw)))))))))))))))))))))))"

section \<open>The compiler\<close>

record item =
  it_id :: string
  it_acceptance :: "string list"
  it_blocked :: "string list"

record programme =
  pg_spec :: pyval
  pg_items :: "item list"
  pg_login :: string
  pg_sha256 :: string
  pg_strategy :: "pyval option"

definition item_value :: "item \<Rightarrow> pyval" where
  "item_value it = PDict [(''id'', PStr (it_id it)), (''acceptance'', PList (map PStr (it_acceptance it))),
     (''blocked_by'', PList (map PStr (it_blocked it)))]"

definition MARKER :: string where
  "MARKER = ''<!-- dark-factory-programme:''"

definition marker :: "programme \<Rightarrow> item \<Rightarrow> string" where
  "marker p it = MARKER @ pg_sha256 p @ '':'' @ it_id it @ '' -->''"

definition acceptance_line :: "(string \<times> string \<times> string) list \<Rightarrow> string \<Rightarrow> programme_error + string" where
  "acceptance_line rows ac = (case map_of rows ac of None \<Rightarrow> Inl (P_key ac)
     | Some (req, txt) \<Rightarrow> Inr (''- '' @ ac @ '' ('' @ req @ ''): '' @ txt))"

definition blocked_line :: "(string \<times> int) list \<Rightarrow> string \<Rightarrow> programme_error + string" where
  "blocked_line numbers x = (case map_of numbers x of None \<Rightarrow> Inl (P_key x)
     | Some n \<Rightarrow> Inr (''Blocked by: #'' @ int_text n))"

definition bullets :: "string \<Rightarrow> pyval \<Rightarrow> string list" where
  "bullets heading v = [[], ''## '' @ heading] @ map (\<lambda>x. ''- '' @ py_string x) (py_items v)"

definition newline :: string where
  "newline = [char_of (10::nat)]"

definition render :: "(string \<Rightarrow> string) \<Rightarrow> programme \<Rightarrow> item \<Rightarrow> (string \<times> int) list
    \<Rightarrow> programme_error + string \<times> string" where
  "render sha p it numbers =
     (let spec = pg_spec p in
     bindE (mapE (acceptance_line (rev (spec_rows spec))) (it_acceptance it)) (\<lambda>acs.
     bindE (mapE (blocked_line numbers) (it_blocked it)) (\<lambda>blocks.
     let ls = [marker p it, [], py_string (py_field spec ''outcome''), [],
          ''Specification: '' @ py_string (py_field spec ''id'') @ '' v'' @ int_text (py_int (py_field spec ''revision'')),
          ''Specification SHA256: '' @ sha256_value sha spec, [], ''## Acceptance criteria''] @ acs
          @ bullets ''Hard constraints'' (py_field spec ''constraints'')
          @ bullets ''Out of scope'' (py_field spec ''non_goals'')
          @ (if it_blocked it = [] then [] else [] # blocks)
          @ [[], ''This is a compiled programme candidate. Normal triage and all existing ''
               @ ''factory proof and permission rules apply.''];
         body = join_text newline ls @ newline in
     bindE (ensure (length body \<le> 11000) P_window) (\<lambda>_.
     Inr (py_string (py_field spec ''title'') @ '' ['' @ it_id it @ '']'', body)))))"

fun compile_items :: "pyval list \<Rightarrow> string list \<Rightarrow> item list \<Rightarrow> string list \<Rightarrow> programme_error + item list \<times> string list" where
  "compile_items [] acceptance items owners = Inr (items, owners)"
| "compile_items (raw # rest) acceptance items owners =
     bindE (p_object ''item'' [''id'', ''acceptance'', ''blocked_by''] raw) (\<lambda>_.
     bindE (p_id (py_field raw ''id'')) (\<lambda>k.
     bindE (ensure (k \<notin> set (map it_id items)) (P_duplicate ''item'')) (\<lambda>_.
     bindE (p_ids ''item acceptance'' False (py_field raw ''acceptance'')) (\<lambda>acs.
     bindE (ensure (set acs \<subseteq> set acceptance \<and> set acs \<inter> set owners = {}) P_ownership) (\<lambda>_.
     bindE (p_ids ''blockers'' True (py_field raw ''blocked_by'')) (\<lambda>bs.
     compile_items rest acceptance
       (items @ [\<lparr>it_id = k, it_acceptance = acs, it_blocked = bs\<rparr>]) (owners @ acs)))))))"

definition item_graph :: "item list \<Rightarrow> (string \<times> string list) list" where
  "item_graph items = map (\<lambda>it. (it_id it, it_blocked it)) items"

definition order_items :: "item list \<Rightarrow> programme_error + item list" where
  "order_items items =
     (case topo_order (item_graph items) [] of
        None \<Rightarrow> Inl P_cycle
      | Some ks \<Rightarrow> Inr (map (\<lambda>k. the (find_row it_id k items)) ks))"

definition bot_login :: "string \<Rightarrow> bool" where
  "bot_login s \<longleftrightarrow> 6 \<le> length s \<and> drop (length s - 5) s = ''[bot]''
     \<and> list_all (\<lambda>c. is_alnum c \<or> c = CHR ''-'') (take (length s - 5) s)"

definition identity_value :: "pyval \<Rightarrow> item list \<Rightarrow> string \<Rightarrow> string \<Rightarrow> pyval option \<Rightarrow> pyval" where
  "identity_value spec items login version strategy =
     PDict ([(''spec'', spec), (''items'', PList (map item_value items)), (''app_login'', PStr login),
        (''version'', PStr version)] @ (case strategy of None \<Rightarrow> [] | Some v \<Rightarrow> [(''strategy'', v)]))"

definition compile_programme :: "(string \<Rightarrow> string) \<Rightarrow> pyval \<Rightarrow> string \<Rightarrow> programme_error + programme" where
  "compile_programme sha raw repository =
     (let version = py_field raw ''version''; advised = (version = PStr ''1.1'') in
     bindE (p_object ''programme input'' ([''version'', ''spec'', ''proposal'', ''app_login'']
              @ (if advised then [''strategy''] else [])) raw) (\<lambda>_.
     bindE (ensure (version = PStr ''1.0'' \<or> advised) P_version) (\<lambda>_.
     bindE (compile_spec (py_field raw ''spec'') repository) (\<lambda>spec.
     let acceptance = spec_acceptance_ids spec; proposal = py_field raw ''proposal'' in
     bindE (p_object ''proposal'' [''spec_sha256'', ''items''] proposal) (\<lambda>_.
     bindE (ensure (py_field proposal ''spec_sha256'' = PStr (sha256_value sha spec)) P_binding) (\<lambda>_.
     bindE (p_list ''items'' False (py_field proposal ''items'')) (\<lambda>rows.
     bindE (compile_items rows acceptance [] []) (\<lambda>(items, owners).
     bindE (ensure (same_set owners acceptance)
              (P_uncovered (sort (filter (\<lambda>a. a \<notin> set owners) acceptance)))) (\<lambda>_.
     bindE (ensure (list_all (\<lambda>it. set (it_blocked it) \<subseteq> set (map it_id items)) items) P_blocker) (\<lambda>_.
     bindE (order_items items) (\<lambda>ordered.
     bindE (case py_field raw ''app_login'' of PStr l \<Rightarrow> if bot_login l then Inr l else Inl P_login
            | _ \<Rightarrow> Inl P_login) (\<lambda>login.
     bindE (if advised then bindE (validate_strategy sha (py_field raw ''strategy'') spec) (\<lambda>v. Inr (Some v))
            else Inr None) (\<lambda>strategy.
     let result = \<lparr>pg_spec = spec, pg_items = ordered, pg_login = login,
            pg_sha256 = sha256_value sha (identity_value spec ordered login (py_string version) strategy),
            pg_strategy = strategy\<rparr> in
     bindE (mapE (\<lambda>it. render sha result it (map (\<lambda>it. (it_id it, 999999999)) items)) ordered) (\<lambda>_.
     Inr result))))))))))))))"

text \<open>\<open>Programme.to_input\<close>.\<close>

definition to_input :: "(string \<Rightarrow> string) \<Rightarrow> programme \<Rightarrow> pyval" where
  "to_input sha p =
     PDict ([(''version'', PStr (if pg_strategy p = None then ''1.0'' else ''1.1'')), (''spec'', pg_spec p),
        (''app_login'', PStr (pg_login p)),
        (''proposal'', PDict [(''spec_sha256'', PStr (sha256_value sha (pg_spec p))),
           (''items'', PList (map item_value (pg_items p)))])]
        @ (case pg_strategy p of None \<Rightarrow> [] | Some v \<Rightarrow> [(''strategy'', v)]))"

text \<open>\<open>parse_json\<close>: \<open>loads\<close> is \<open>json.loads\<close> with every key of an object kept; the hook refuses
  an object that repeats one.\<close>

fun unique_keys :: "pyval \<Rightarrow> bool"
  and unique_keys_list :: "pyval list \<Rightarrow> bool"
  and unique_keys_dict :: "pydict \<Rightarrow> string list \<Rightarrow> bool" where
  "unique_keys (PList xs) = unique_keys_list xs"
| "unique_keys (PDict kvs) = unique_keys_dict kvs []"
| "unique_keys _ = True"
| "unique_keys_list [] = True"
| "unique_keys_list (x # xs) = (unique_keys x \<and> unique_keys_list xs)"
| "unique_keys_dict [] seen = True"
| "unique_keys_dict ((k, v) # kvs) seen = (unique_keys v \<and> k \<notin> set seen \<and> unique_keys_dict kvs (k # seen))"

definition parse_json :: "(string \<Rightarrow> pyval option) \<Rightarrow> string \<Rightarrow> programme_error + pyval" where
  "parse_json loads txt =
     (if 250000 < length txt then Inl P_capacity
      else case loads txt of None \<Rightarrow> Inl P_type
         | Some v \<Rightarrow> if unique_keys v then Inr v else Inl (P_duplicate ''JSON key''))"

lemma compile_spec_eq: "compile_spec raw repository = Inr spec \<Longrightarrow> spec = raw"
  by (auto simp: compile_spec_def bindE_eq_Inr)

end
