(* ===== verification/Attestations.thy ===== *)
theory Attestations
  imports Programme "HOL-Library.Product_Lexorder"
begin

text \<open>
  Typed proof companions, \<open>factory_kernel/attestations.py\<close>. The validated body is a record of
  records, its JSON object is \<open>body_dict\<close>; raw material is the JSON value the code inspects. A
  refusal names the field that failed, the message around it is not modelled. Retained objects are
  read through the argument \<open>object_reader\<close> (bytes as a string), the hash is \<open>sha\<close>.
\<close>

section \<open>Names\<close>

definition INPUT_KINDS :: "string list" where
  "INPUT_KINDS = [''exact-tree'', ''trusted-authority'', ''trusted-policy'', ''environment'', ''live-world'']"

definition REQUIRED_INPUT_KINDS :: "string list" where
  "REQUIRED_INPUT_KINDS = [''exact-tree'', ''trusted-authority'', ''trusted-policy'']"

definition COVERAGES :: "string list" where
  "COVERAGES = [''complete'', ''partial'', ''unknown'']"

definition VERDICTS :: "string list" where
  "VERDICTS = [''pass'', ''fail'', ''incomplete'']"

definition PLATFORMS :: "string list" where
  "PLATFORMS = [''github-actions'', ''local'']"

definition AUTHENTICATED_PLATFORMS :: "string list" where
  "AUTHENTICATED_PLATFORMS = [''github-actions'']"

definition A_SUBJECT_FIELDS :: "string list" where
  "A_SUBJECT_FIELDS = [''repository_id'', ''base_commit'', ''candidate_commit'', ''candidate_tree'', ''programme_sha256'']"

definition AUTHORITY_FIELDS :: "string list" where
  "AUTHORITY_FIELDS = [''id'', ''program_closure_sha256'', ''policy_sha256'', ''independence_profile_sha256'']"

definition ENVIRONMENT_FIELDS :: "string list" where
  "ENVIRONMENT_FIELDS = [''toolchain_digest'', ''dependency_lock_digests'', ''runtime_image_digest'', ''configuration_digest'']"

definition ISSUER_FIELDS :: "string list" where
  "ISSUER_FIELDS = [''platform'', ''workflow_id'', ''run_id'', ''attempt'', ''job_id'', ''source_revision'']"

definition LIVE_FIELDS :: "string list" where
  "LIVE_FIELDS = [''observer_id'', ''subject'', ''value_digest'', ''observed_at'', ''validity_policy_id'']"

definition A_MAX_ITEMS :: nat where
  "A_MAX_ITEMS = 256"

definition git_digest :: "string \<Rightarrow> bool" where
  "git_digest s \<longleftrightarrow> hex_text 40 s \<or> hex_text 64 s"

definition identity_text :: "string \<Rightarrow> bool" where
  "identity_text s \<longleftrightarrow> ident_text ''._:/@+-'' 200 s"

fun split_slash :: "string \<Rightarrow> string list" where
  "split_slash [] = [[]]"
| "split_slash (c # cs) = (if c = CHR ''/'' then [] # split_slash cs
     else (case split_slash cs of p # ps \<Rightarrow> (c # p) # ps | [] \<Rightarrow> [[c]]))"

definition object_id_text :: "string \<Rightarrow> bool" where
  "object_id_text s \<longleftrightarrow> length (split_slash s) \<le> 8 \<and> list_all (ident_text ''._-'' 120) (split_slash s)"

section \<open>Field checks\<close>

datatype att_error = A_refused string

definition a_text :: "string \<Rightarrow> nat \<Rightarrow> pyval \<Rightarrow> att_error + string" where
  "a_text name limit v = (case v of PStr s \<Rightarrow> if blank s \<or> limit < length s then Inl (A_refused name) else Inr s
     | _ \<Rightarrow> Inl (A_refused name))"

definition a_such :: "(string \<Rightarrow> bool) \<Rightarrow> string \<Rightarrow> pyval \<Rightarrow> att_error + string" where
  "a_such P name v = (case v of PStr s \<Rightarrow> if P s then Inr s else Inl (A_refused name) | _ \<Rightarrow> Inl (A_refused name))"

definition a_sha256 :: "string \<Rightarrow> pyval \<Rightarrow> att_error + string" where
  "a_sha256 = a_such (hex_text 64)"

definition a_digest :: "string \<Rightarrow> pyval \<Rightarrow> att_error + string" where
  "a_digest = a_such git_digest"

definition a_member :: "string list \<Rightarrow> string \<Rightarrow> pyval \<Rightarrow> att_error + string" where
  "a_member xs = a_such (\<lambda>s. s \<in> set xs)"

definition a_count :: "string \<Rightarrow> pyval \<Rightarrow> att_error + int" where
  "a_count name v = (case v of PInt n \<Rightarrow> if n < 0 then Inl (A_refused name) else Inr n | _ \<Rightarrow> Inl (A_refused name))"

definition a_object :: "string \<Rightarrow> string list \<Rightarrow> pyval \<Rightarrow> att_error + pydict" where
  "a_object name names v = (case v of PDict d \<Rightarrow> if same_set (map fst d) names then Inr d else Inl (A_refused name)
     | _ \<Rightarrow> Inl (A_refused name))"

definition a_sequence :: "string \<Rightarrow> pyval \<Rightarrow> att_error + pyval list" where
  "a_sequence name v = (case v of PList xs \<Rightarrow> if A_MAX_ITEMS < length xs then Inl (A_refused name) else Inr xs
     | _ \<Rightarrow> Inl (A_refused name))"

section \<open>The parts of a body\<close>

record att_subject =
  as_repository :: int
  as_base :: string
  as_candidate :: string
  as_tree :: string
  as_programme :: "string option"

definition parse_subject :: "pyval \<Rightarrow> att_error + att_subject" where
  "parse_subject raw =
     bindE (a_object ''subject'' A_SUBJECT_FIELDS raw) (\<lambda>d.
     bindE (case py_get d ''repository_id'' of PInt n \<Rightarrow> if n \<le> 0 then Inl (A_refused ''repository_id'') else Inr n
            | _ \<Rightarrow> Inl (A_refused ''repository_id'')) (\<lambda>repository.
     bindE (a_digest ''base_commit'' (py_get d ''base_commit'')) (\<lambda>base.
     bindE (a_digest ''candidate_commit'' (py_get d ''candidate_commit'')) (\<lambda>candidate.
     bindE (a_digest ''candidate_tree'' (py_get d ''candidate_tree'')) (\<lambda>tree.
     bindE (if py_get d ''programme_sha256'' = PNone then Inr None
            else bindE (a_sha256 ''programme_sha256'' (py_get d ''programme_sha256'')) (\<lambda>s. Inr (Some s))) (\<lambda>programme.
     Inr \<lparr>as_repository = repository, as_base = base, as_candidate = candidate, as_tree = tree, as_programme = programme\<rparr>))))))"

definition att_subject_dict :: "att_subject \<Rightarrow> pyval" where
  "att_subject_dict s = PDict [(''repository_id'', PInt (as_repository s)), (''base_commit'', PStr (as_base s)),
     (''candidate_commit'', PStr (as_candidate s)), (''candidate_tree'', PStr (as_tree s)),
     (''programme_sha256'', case as_programme s of None \<Rightarrow> PNone | Some p \<Rightarrow> PStr p)]"

record att_authority =
  aa_id :: string
  aa_closure :: string
  aa_policy :: string
  aa_independence :: string

definition parse_authority :: "pyval \<Rightarrow> att_error + att_authority" where
  "parse_authority raw =
     bindE (a_object ''authority'' AUTHORITY_FIELDS raw) (\<lambda>d.
     bindE (a_text ''authority.id'' 120 (py_get d ''id'')) (\<lambda>i.
     bindE (a_sha256 ''program_closure_sha256'' (py_get d ''program_closure_sha256'')) (\<lambda>closure'.
     bindE (a_sha256 ''policy_sha256'' (py_get d ''policy_sha256'')) (\<lambda>policy.
     bindE (a_sha256 ''independence_profile_sha256'' (py_get d ''independence_profile_sha256'')) (\<lambda>independence.
     Inr \<lparr>aa_id = i, aa_closure = closure', aa_policy = policy, aa_independence = independence\<rparr>)))))"

definition authority_dict :: "att_authority \<Rightarrow> pyval" where
  "authority_dict a = PDict [(''id'', PStr (aa_id a)), (''program_closure_sha256'', PStr (aa_closure a)),
     (''policy_sha256'', PStr (aa_policy a)), (''independence_profile_sha256'', PStr (aa_independence a))]"

record att_environment =
  av_toolchain :: string
  av_locks :: "(string \<times> string) list"
  av_image :: string
  av_configuration :: string

definition parse_lock :: "string \<times> pyval \<Rightarrow> att_error + string \<times> string" where
  "parse_lock kv = bindE (a_text ''lock path'' 200 (PStr (fst kv))) (\<lambda>path.
     bindE (a_sha256 ''lock digest'' (snd kv)) (\<lambda>digest. Inr (path, digest)))"

definition parse_environment :: "pyval \<Rightarrow> att_error + att_environment" where
  "parse_environment raw =
     bindE (a_object ''environment'' ENVIRONMENT_FIELDS raw) (\<lambda>d.
     bindE (case py_get d ''dependency_lock_digests'' of
              PDict ls \<Rightarrow> if A_MAX_ITEMS < length ls then Inl (A_refused ''dependency_lock_digests'') else Inr ls
            | _ \<Rightarrow> Inl (A_refused ''dependency_lock_digests'')) (\<lambda>locks.
     bindE (a_sha256 ''toolchain_digest'' (py_get d ''toolchain_digest'')) (\<lambda>toolchain.
     bindE (mapE parse_lock (sort_key fst locks)) (\<lambda>parsed.
     bindE (a_sha256 ''runtime_image_digest'' (py_get d ''runtime_image_digest'')) (\<lambda>image.
     bindE (a_sha256 ''configuration_digest'' (py_get d ''configuration_digest'')) (\<lambda>configuration.
     Inr \<lparr>av_toolchain = toolchain, av_locks = parsed, av_image = image, av_configuration = configuration\<rparr>))))))"

definition environment_dict :: "att_environment \<Rightarrow> pyval" where
  "environment_dict e = PDict [(''toolchain_digest'', PStr (av_toolchain e)),
     (''dependency_lock_digests'', PDict (map (\<lambda>(k, v). (k, PStr v)) (av_locks e))),
     (''runtime_image_digest'', PStr (av_image e)), (''configuration_digest'', PStr (av_configuration e))]"

record att_input =
  ai_kind :: string
  ai_identity :: string
  ai_digest :: string
  ai_coverage :: string

definition parse_input :: "string list \<Rightarrow> pyval \<Rightarrow> att_error + att_input" where
  "parse_input seen item =
     bindE (a_object ''input'' [''kind'', ''identity'', ''digest'', ''coverage''] item) (\<lambda>d.
     bindE (a_member INPUT_KINDS ''kind'' (py_get d ''kind'')) (\<lambda>kind.
     bindE (a_member COVERAGES ''coverage'' (py_get d ''coverage'')) (\<lambda>coverage.
     bindE (a_such identity_text ''identity'' (py_get d ''identity'')) (\<lambda>identity.
     bindE (ensure (identity \<notin> set seen) (A_refused ''identity'')) (\<lambda>_.
     bindE (a_digest ''input'' (py_get d ''digest'')) (\<lambda>digest.
     Inr \<lparr>ai_kind = kind, ai_identity = identity, ai_digest = digest, ai_coverage = coverage\<rparr>))))))"

fun parse_rows :: "(string list \<Rightarrow> pyval \<Rightarrow> att_error + 'r) \<Rightarrow> ('r \<Rightarrow> string) \<Rightarrow> string list \<Rightarrow> pyval list \<Rightarrow> att_error + 'r list" where
  "parse_rows f key seen [] = Inr []"
| "parse_rows f key seen (v # vs) =
     bindE (f seen v) (\<lambda>r. bindE (parse_rows f key (key r # seen) vs) (\<lambda>rs. Inr (r # rs)))"

definition parse_inputs :: "pyval \<Rightarrow> att_error + att_input list" where
  "parse_inputs raw = bindE (a_sequence ''inputs'' raw) (\<lambda>xs.
     bindE (parse_rows parse_input ai_identity [] xs) (\<lambda>rows. Inr (sort_key (\<lambda>r. (ai_kind r, ai_identity r)) rows)))"

definition input_dict :: "att_input \<Rightarrow> pyval" where
  "input_dict r = PDict [(''kind'', PStr (ai_kind r)), (''identity'', PStr (ai_identity r)), (''digest'', PStr (ai_digest r)),
     (''coverage'', PStr (ai_coverage r))]"

record att_evidence =
  ae_object :: string
  ae_sha256 :: string
  ae_media :: string

definition parse_evidence_row :: "string list \<Rightarrow> pyval \<Rightarrow> att_error + att_evidence" where
  "parse_evidence_row seen item =
     bindE (a_object ''evidence'' [''retained_object_id'', ''sha256'', ''media_type''] item) (\<lambda>d.
     bindE (a_such object_id_text ''retained_object_id'' (py_get d ''retained_object_id'')) (\<lambda>i.
     bindE (ensure (i \<notin> set seen) (A_refused ''retained_object_id'')) (\<lambda>_.
     bindE (a_sha256 ''evidence'' (py_get d ''sha256'')) (\<lambda>digest.
     bindE (a_text ''media_type'' 120 (py_get d ''media_type'')) (\<lambda>media.
     Inr \<lparr>ae_object = i, ae_sha256 = digest, ae_media = media\<rparr>)))))"

definition parse_evidence :: "pyval \<Rightarrow> att_error + att_evidence list" where
  "parse_evidence raw = bindE (a_sequence ''evidence'' raw) (\<lambda>xs.
     bindE (parse_rows parse_evidence_row ae_object [] xs) (\<lambda>rows. Inr (sort_key ae_object rows)))"

definition evidence_dict :: "att_evidence \<Rightarrow> pyval" where
  "evidence_dict r = PDict [(''retained_object_id'', PStr (ae_object r)), (''sha256'', PStr (ae_sha256 r)), (''media_type'', PStr (ae_media r))]"

record att_outcome =
  ao_verdict :: string
  ao_reasons :: "string list"

definition parse_outcome :: "pyval \<Rightarrow> att_error + att_outcome" where
  "parse_outcome raw =
     bindE (a_object ''outcome'' [''verdict'', ''reason_codes''] raw) (\<lambda>d.
     bindE (a_member VERDICTS ''verdict'' (py_get d ''verdict'')) (\<lambda>verdict.
     bindE (a_sequence ''reason_codes'' (py_get d ''reason_codes'')) (\<lambda>xs.
     bindE (mapE (a_text ''reason code'' 120) xs) (\<lambda>codes.
     Inr \<lparr>ao_verdict = verdict, ao_reasons = sorted_set codes\<rparr>))))"

definition outcome_dict :: "att_outcome \<Rightarrow> pyval" where
  "outcome_dict r = PDict [(''verdict'', PStr (ao_verdict r)), (''reason_codes'', PList (map PStr (ao_reasons r)))]"

record att_issuer =
  ar_platform :: string
  ar_workflow :: string
  ar_run :: int
  ar_attempt :: int
  ar_job :: string
  ar_source :: string

definition parse_issuer :: "pyval \<Rightarrow> att_error + att_issuer" where
  "parse_issuer raw =
     bindE (a_object ''issuer'' ISSUER_FIELDS raw) (\<lambda>d.
     bindE (a_member PLATFORMS ''platform'' (py_get d ''platform'')) (\<lambda>platform.
     bindE (a_text ''workflow_id'' 400 (py_get d ''workflow_id'')) (\<lambda>workflow.
     bindE (a_count ''run_id'' (py_get d ''run_id'')) (\<lambda>run.
     bindE (a_count ''attempt'' (py_get d ''attempt'')) (\<lambda>attempt.
     bindE (a_text ''job_id'' 400 (py_get d ''job_id'')) (\<lambda>job.
     bindE (a_digest ''source_revision'' (py_get d ''source_revision'')) (\<lambda>source.
     Inr \<lparr>ar_platform = platform, ar_workflow = workflow, ar_run = run, ar_attempt = attempt, ar_job = job, ar_source = source\<rparr>)))))))"

definition issuer_dict :: "att_issuer \<Rightarrow> pyval" where
  "issuer_dict r = PDict [(''platform'', PStr (ar_platform r)), (''workflow_id'', PStr (ar_workflow r)), (''run_id'', PInt (ar_run r)),
     (''attempt'', PInt (ar_attempt r)), (''job_id'', PStr (ar_job r)), (''source_revision'', PStr (ar_source r))]"

record att_live =
  al_observer :: string
  al_subject :: string
  al_value :: string
  al_observed :: string
  al_policy :: string

definition parse_live_row :: "string list \<Rightarrow> pyval \<Rightarrow> att_error + att_live" where
  "parse_live_row seen item =
     bindE (a_object ''live observation'' LIVE_FIELDS item) (\<lambda>d.
     bindE (a_text ''observer_id'' 120 (py_get d ''observer_id'')) (\<lambda>observer.
     bindE (a_text ''live subject'' 400 (py_get d ''subject'')) (\<lambda>subject.
     bindE (a_sha256 ''value_digest'' (py_get d ''value_digest'')) (\<lambda>value.
     bindE (a_text ''observed_at'' 64 (py_get d ''observed_at'')) (\<lambda>observed.
     bindE (a_text ''validity_policy_id'' 120 (py_get d ''validity_policy_id'')) (\<lambda>policy.
     Inr \<lparr>al_observer = observer, al_subject = subject, al_value = value, al_observed = observed, al_policy = policy\<rparr>))))))"

definition parse_live :: "pyval \<Rightarrow> att_error + att_live list" where
  "parse_live raw = bindE (a_sequence ''live_observations'' raw) (\<lambda>xs.
     bindE (parse_rows parse_live_row al_observer [] xs) (\<lambda>rows. Inr (sort_key (\<lambda>r. (al_observer r, al_subject r)) rows)))"

definition live_dict :: "att_live \<Rightarrow> pyval" where
  "live_dict r = PDict [(''observer_id'', PStr (al_observer r)), (''subject'', PStr (al_subject r)), (''value_digest'', PStr (al_value r)),
     (''observed_at'', PStr (al_observed r)), (''validity_policy_id'', PStr (al_policy r))]"

section \<open>Bodies and records\<close>

record trusted_execution =
  te_claim :: pyval
  te_profile :: pyval
  te_subject :: pyval
  te_authority :: pyval
  te_environment :: pyval
  te_inputs :: pyval
  te_evidence :: pyval
  te_outcome :: pyval
  te_issuer :: pyval
  te_created :: pyval
  te_live :: pyval

record att_body =
  ab_claim :: string
  ab_profile :: string
  ab_subject :: att_subject
  ab_authority :: att_authority
  ab_environment :: att_environment
  ab_inputs :: "att_input list"
  ab_evidence :: "att_evidence list"
  ab_outcome :: att_outcome
  ab_issuer :: att_issuer
  ab_live :: "att_live list"
  ab_created :: string

definition attestation_body :: "trusted_execution \<Rightarrow> att_error + att_body" where
  "attestation_body e =
     bindE (a_text ''claim_key'' 200 (te_claim e)) (\<lambda>claim.
     bindE (a_text ''obligation_profile_id'' 120 (te_profile e)) (\<lambda>profile.
     bindE (parse_subject (te_subject e)) (\<lambda>subject.
     bindE (parse_authority (te_authority e)) (\<lambda>authority.
     bindE (parse_environment (te_environment e)) (\<lambda>environment.
     bindE (parse_inputs (te_inputs e)) (\<lambda>inputs.
     bindE (parse_evidence (te_evidence e)) (\<lambda>evidence.
     bindE (parse_outcome (te_outcome e)) (\<lambda>outcome.
     bindE (parse_issuer (te_issuer e)) (\<lambda>issuer.
     bindE (parse_live (te_live e)) (\<lambda>live.
     bindE (a_text ''created_at'' 64 (te_created e)) (\<lambda>created.
     Inr \<lparr>ab_claim = claim, ab_profile = profile, ab_subject = subject, ab_authority = authority, ab_environment = environment,
          ab_inputs = inputs, ab_evidence = evidence, ab_outcome = outcome, ab_issuer = issuer, ab_live = live,
          ab_created = created\<rparr>)))))))))))"

definition body_dict :: "att_body \<Rightarrow> pydict" where
  "body_dict b =
     [(''schema'', PStr ''dark-factory/attestation''), (''schema_version'', PStr ''1.0''),
      (''claim_key'', PStr (ab_claim b)), (''obligation_profile_id'', PStr (ab_profile b)),
      (''subject'', att_subject_dict (ab_subject b)), (''authority'', authority_dict (ab_authority b)),
      (''environment'', environment_dict (ab_environment b)), (''inputs'', PList (map input_dict (ab_inputs b))),
      (''evidence'', PList (map evidence_dict (ab_evidence b))), (''outcome'', outcome_dict (ab_outcome b)),
      (''issuer'', issuer_dict (ab_issuer b)), (''live_observations'', PList (map live_dict (ab_live b))),
      (''created_at'', PStr (ab_created b))]"

definition body_id :: "(string \<Rightarrow> string) \<Rightarrow> att_body \<Rightarrow> string" where
  "body_id sha b = sha256_value sha (PDict (body_dict b))"

definition record_dict :: "att_body \<Rightarrow> string \<Rightarrow> pyval" where
  "record_dict b i = PDict (body_dict b @ [(''attestation_id'', PStr i)])"

definition build_attestation :: "(string \<Rightarrow> string) \<Rightarrow> trusted_execution \<Rightarrow> att_error + pyval" where
  "build_attestation sha e = bindE (attestation_body e) (\<lambda>b. Inr (record_dict b (body_id sha b)))"

definition RECORD_FIELDS :: "string list" where
  "RECORD_FIELDS = [''schema'', ''schema_version'', ''claim_key'', ''obligation_profile_id'', ''subject'', ''authority'', ''environment'',
     ''inputs'', ''evidence'', ''outcome'', ''issuer'', ''live_observations'', ''created_at'', ''attestation_id'']"

definition execution_from_record :: "pyval \<Rightarrow> att_error + trusted_execution" where
  "execution_from_record v =
     bindE (a_object ''attestation'' RECORD_FIELDS v) (\<lambda>d.
     bindE (ensure (py_get d ''schema'' = PStr ''dark-factory/attestation'' \<and> py_get d ''schema_version'' = PStr ''1.0'')
              (A_refused ''schema'')) (\<lambda>_.
     Inr \<lparr>te_claim = py_get d ''claim_key'', te_profile = py_get d ''obligation_profile_id'', te_subject = py_get d ''subject'',
          te_authority = py_get d ''authority'', te_environment = py_get d ''environment'', te_inputs = py_get d ''inputs'',
          te_evidence = py_get d ''evidence'', te_outcome = py_get d ''outcome'', te_issuer = py_get d ''issuer'',
          te_created = py_get d ''created_at'', te_live = py_get d ''live_observations''\<rparr>))"

definition dependency_digest :: "(string \<Rightarrow> string) \<Rightarrow> att_input list \<Rightarrow> string" where
  "dependency_digest sha rows = sha256_value sha (PList (map input_dict rows))"

section \<open>Verification\<close>

record verified =
  vf_id :: string
  vf_claim :: string
  vf_profile :: string
  vf_subject :: att_subject
  vf_inputs :: "att_input list"
  vf_dependency :: string
  vf_outcome :: att_outcome
  vf_record :: pyval

definition verified_dict :: "verified \<Rightarrow> pyval" where
  "verified_dict v = PDict [(''attestation_id'', PStr (vf_id v)), (''claim_key'', PStr (vf_claim v)),
     (''obligation_profile_id'', PStr (vf_profile v)), (''dependency_digest'', PStr (vf_dependency v)),
     (''outcome'', outcome_dict (vf_outcome v))]"

text \<open>A refusal: its currency class, its reason and the names its detail lists.\<close>

record att_refusal =
  rf_status :: string
  rf_reasons :: "string list"
  rf_names :: "string list"

definition refuse_att :: "string \<Rightarrow> string \<Rightarrow> string list \<Rightarrow> att_refusal + 'a" where
  "refuse_att status code names = Inl \<lparr>rf_status = status, rf_reasons = [code], rf_names = names\<rparr>"

definition parsed_or :: "string \<Rightarrow> att_error + 'a \<Rightarrow> att_refusal + 'a" where
  "parsed_or code m = (case m of Inl (A_refused name) \<Rightarrow> refuse_att ''rejected'' code [name] | Inr x \<Rightarrow> Inr x)"

definition require_att :: "bool \<Rightarrow> string \<Rightarrow> string \<Rightarrow> string list \<Rightarrow> att_refusal + unit" where
  "require_att c status code names = (if c then Inr () else refuse_att status code names)"

definition differing :: "pyval \<Rightarrow> pyval \<Rightarrow> string list \<Rightarrow> string list" where
  "differing a b names = sort (filter (\<lambda>k. py_field a k \<noteq> py_field b k) names)"

definition registered_entry :: "pyval \<Rightarrow> string \<Rightarrow> pydict option" where
  "registered_entry registry i = py_dict (py_field registry i)"

definition tampered_objects :: "(string \<Rightarrow> string) \<Rightarrow> (string \<Rightarrow> string option) \<Rightarrow> att_evidence list \<Rightarrow> string list" where
  "tampered_objects sha object_reader rows =
     map ae_object (filter (\<lambda>r. case object_reader (ae_object r) of None \<Rightarrow> False | Some data \<Rightarrow> sha data \<noteq> ae_sha256 r) rows)"

definition missing_objects :: "(string \<Rightarrow> string option) \<Rightarrow> att_evidence list \<Rightarrow> string list" where
  "missing_objects object_reader rows = map ae_object (filter (\<lambda>r. object_reader (ae_object r) = None) rows)"

definition verify_attestation ::
  "(string \<Rightarrow> string) \<Rightarrow> pyval \<Rightarrow> pyval \<Rightarrow> (string \<Rightarrow> string option) \<Rightarrow> pyval \<Rightarrow> att_refusal + verified" where
  "verify_attestation sha rec observed_issuer object_reader registry =
     bindE (parsed_or ''record_invalid'' (bindE (execution_from_record rec) attestation_body)) (\<lambda>body.
     bindE (require_att (py_field rec ''attestation_id'' = PStr (body_id sha body)) ''rejected'' ''record_digest_mismatch'' []) (\<lambda>_.
     let issuer = ab_issuer body in
     bindE (parsed_or ''issuer_unobserved'' (parse_issuer observed_issuer)) (\<lambda>observed.
     bindE (require_att (observed = issuer) ''rejected'' ''issuer_mismatch''
              (differing (issuer_dict observed) (issuer_dict issuer) ISSUER_FIELDS)) (\<lambda>_.
     bindE (require_att (ar_platform issuer \<in> set AUTHENTICATED_PLATFORMS) ''rejected'' ''issuer_unauthenticated'' [ar_platform issuer]) (\<lambda>_.
     let authority = ab_authority body in
     bindE (case registered_entry registry (aa_id authority) of None \<Rightarrow> refuse_att ''rejected'' ''authority_unknown'' [aa_id authority]
            | Some r \<Rightarrow> Inr (PDict r)) (\<lambda>registered.
     let drifted = differing registered (authority_dict authority) (tl AUTHORITY_FIELDS) in
     bindE (require_att (drifted = []) ''rejected'' ''authority_mismatch'' drifted) (\<lambda>_.
     let tampered = tampered_objects sha object_reader (ab_evidence body); missing = missing_objects object_reader (ab_evidence body) in
     bindE (require_att (tampered = []) ''rejected'' ''artifact_tampered'' tampered) (\<lambda>_.
     bindE (require_att (missing = []) ''insufficient'' ''artifact_missing'' missing) (\<lambda>_.
     let absent = filter (\<lambda>k. k \<notin> set (map ai_kind (ab_inputs body))) REQUIRED_INPUT_KINDS in
     bindE (require_att (absent = []) ''insufficient'' ''dependency_class_missing'' absent) (\<lambda>_.
     let incomplete = map ai_identity (filter (\<lambda>r. ai_coverage r \<noteq> ''complete'') (ab_inputs body)) in
     bindE (require_att (incomplete = []) ''insufficient'' ''dependency_coverage_unknown'' incomplete) (\<lambda>_.
     Inr \<lparr>vf_id = py_string (py_field rec ''attestation_id''), vf_claim = ab_claim body, vf_profile = ab_profile body,
          vf_subject = ab_subject body, vf_inputs = ab_inputs body, vf_dependency = dependency_digest sha (ab_inputs body),
          vf_outcome = ab_outcome body,
          vf_record = record_dict body (py_string (py_field rec ''attestation_id''))\<rparr>)))))))))))"

end
