(* ===== verification/Run_Manifest.thy ===== *)
theory Run_Manifest
  imports Attestations
begin

text \<open>
  The provenance manifest of one run, \<open>factory_kernel/manifest.py\<close>: artifact references,
  certifications, claim records and the manifest, each with the checks of its \<open>__post_init__\<close>,
  its parser and its canonical object. Error texts are reduced to the check that failed.
\<close>

section \<open>Text of a value\<close>

text \<open>\<open>repr\<close> of a character of a string quoted with \<open>q\<close>, and \<open>str\<close> of a JSON value.\<close>

definition printable_char :: "char \<Rightarrow> bool" where
  "printable_char c \<longleftrightarrow> (32 \<le> code_of c \<and> code_of c \<le> 126) \<or> (161 \<le> code_of c \<and> code_of c \<noteq> 173)"

definition repr_char :: "char \<Rightarrow> char \<Rightarrow> string" where
  "repr_char q c =
     (let n = code_of c; esc = char_of (92::nat) in
      if c = q \<or> n = 92 then [esc, c]
      else if n = 10 then [esc, CHR ''n'']
      else if n = 13 then [esc, CHR ''r'']
      else if n = 9 then [esc, CHR ''t'']
      else if printable_char c then [c]
      else [esc, CHR ''x'', hex_digit (n div 16), hex_digit (n mod 16)])"

definition repr_text :: "string \<Rightarrow> string" where
  "repr_text s =
     (let quote = char_of (39::nat); double = char_of (34::nat);
          q = (if quote \<in> set s \<and> double \<notin> set s then double else quote) in
      [q] @ concat (map (repr_char q) s) @ [q])"

fun py_repr :: "pyval \<Rightarrow> string"
  and py_repr_items :: "pyval list \<Rightarrow> string list"
  and py_repr_members :: "pydict \<Rightarrow> string list" where
  "py_repr PNone = ''None''"
| "py_repr (PBool b) = (if b then ''True'' else ''False'')"
| "py_repr (PInt i) = int_text i"
| "py_repr (PFloat r t) = t"
| "py_repr (PStr s) = repr_text s"
| "py_repr (PList xs) = ''['' @ join_text '', '' (py_repr_items xs) @ '']''"
| "py_repr (PDict kvs) = ''{'' @ join_text '', '' (py_repr_members kvs) @ ''}''"
| "py_repr_items [] = []"
| "py_repr_items (x # xs) = py_repr x # py_repr_items xs"
| "py_repr_members [] = []"
| "py_repr_members ((k, v) # kvs) = (repr_text k @ '': '' @ py_repr v) # py_repr_members kvs"

definition py_str :: "pyval \<Rightarrow> string" where
  "py_str v = (case v of PStr s \<Rightarrow> s | _ \<Rightarrow> py_repr v)"

text \<open>\<open>str(raw.get(k) or fallback)\<close>.\<close>

definition text_or :: "pydict \<Rightarrow> string \<Rightarrow> string \<Rightarrow> string" where
  "text_or d k fallback = (if py_truthy (py_get d k) then py_str (py_get d k) else fallback)"

section \<open>Records\<close>

datatype manifest_error = M_refused string

record artifact_ref =
  ar_name :: string
  ar_path :: string
  ar_sha256 :: string
  ar_media :: string

record certification =
  ce_kind :: string
  ce_authority :: string
  ce_artifact :: artifact_ref

record claim_record =
  cl_id :: string
  cl_stage :: string
  cl_producer :: string
  cl_artifact :: artifact_ref
  cl_deterministic :: "certification option"
  cl_independent :: "certification option"
  cl_head :: "string option"
  cl_bindings :: "(string \<times> string) list"

text \<open>\<open>issue\<close> is what \<open>isinstance(issue, int)\<close> accepts: an integer or a boolean.\<close>

record run_manifest =
  rm_version :: string
  rm_run_id :: string
  rm_issue :: pyval
  rm_base :: string
  rm_claims :: "claim_record list"

section \<open>Construction\<close>

text \<open>\<open>PurePosixPath\<close>: absolute, or with a parent segment.\<close>

definition unsafe_path :: "string \<Rightarrow> bool" where
  "unsafe_path p \<longleftrightarrow> p = [] \<or> take 1 p = ''/'' \<or> ''..'' \<in> set (split_slash p)"

definition check_ref :: "artifact_ref \<Rightarrow> manifest_error + artifact_ref" where
  "check_ref r =
     bindE (ensure (\<not> blank (ar_name r)) (M_refused ''artifact name'')) (\<lambda>_.
     bindE (ensure (\<not> unsafe_path (ar_path r)) (M_refused ''artifact path'')) (\<lambda>_.
     bindE (ensure (hex_text 64 (ar_sha256 r)) (M_refused ''artifact sha256'')) (\<lambda>_.
     bindE (ensure (\<not> blank (ar_media r)) (M_refused ''artifact media_type'')) (\<lambda>_.
     Inr r))))"

definition ref_from :: "pydict \<Rightarrow> manifest_error + artifact_ref" where
  "ref_from d = check_ref \<lparr>ar_name = text_or d ''name'' [], ar_path = text_or d ''path'' [],
     ar_sha256 = text_or d ''sha256'' [], ar_media = text_or d ''media_type'' ''application/json''\<rparr>"

definition CERT_KINDS :: "string list" where
  "CERT_KINDS = [''deterministic'', ''independent'']"

definition check_certification :: "certification \<Rightarrow> manifest_error + certification" where
  "check_certification c =
     bindE (ensure (ce_kind c \<in> set CERT_KINDS) (M_refused ''certification kind'')) (\<lambda>_.
     bindE (ensure (\<not> blank (ce_authority c)) (M_refused ''certification authority_id'')) (\<lambda>_.
     Inr c))"

definition certification_from :: "pydict \<Rightarrow> manifest_error + certification" where
  "certification_from d =
     (case py_get d ''artifact'' of
        PDict a \<Rightarrow> bindE (ref_from a) (\<lambda>r.
          check_certification \<lparr>ce_kind = text_or d ''kind'' [], ce_authority = text_or d ''authority_id'' [], ce_artifact = r\<rparr>)
      | _ \<Rightarrow> Inl (M_refused ''certification artifact''))"

text \<open>The authority chain of a claim: the producer certifies nothing of its own, and the independent
  verifier is not the deterministic validator.\<close>

definition check_deterministic :: "claim_record \<Rightarrow> manifest_error + unit" where
  "check_deterministic c =
     (case cl_deterministic c of None \<Rightarrow> Inr ()
      | Some d \<Rightarrow>
          bindE (ensure (ce_kind d = ''deterministic'') (M_refused ''deterministic slot'')) (\<lambda>_.
          ensure (ce_authority d \<noteq> cl_producer c) (M_refused ''producer'')))"

definition check_independent :: "claim_record \<Rightarrow> manifest_error + unit" where
  "check_independent c =
     (case cl_independent c of None \<Rightarrow> Inr ()
      | Some i \<Rightarrow>
          bindE (ensure (ce_kind i = ''independent'') (M_refused ''independent slot'')) (\<lambda>_.
          bindE (ensure (ce_authority i \<noteq> cl_producer c) (M_refused ''producer'')) (\<lambda>_.
          case cl_deterministic c of None \<Rightarrow> Inr ()
          | Some d \<Rightarrow> ensure (ce_authority i \<noteq> ce_authority d) (M_refused ''verifier''))))"

definition check_claim :: "claim_record \<Rightarrow> manifest_error + claim_record" where
  "check_claim c =
     bindE (ensure (\<not> blank (cl_id c)) (M_refused ''claim_id'')) (\<lambda>_.
     bindE (ensure (\<not> blank (cl_stage c)) (M_refused ''stage'')) (\<lambda>_.
     bindE (ensure (\<not> blank (cl_producer c)) (M_refused ''producer'')) (\<lambda>_.
     bindE (check_deterministic c) (\<lambda>_.
     bindE (check_independent c) (\<lambda>_.
     bindE (ensure (case cl_head c of None \<Rightarrow> True | Some h \<Rightarrow> git_digest h) (M_refused ''exact_head_sha'')) (\<lambda>_.
     bindE (ensure (list_all (\<lambda>(k, v). \<not> blank k \<and> hex_text 64 v) (cl_bindings c)) (M_refused ''binding'')) (\<lambda>_.
     Inr c)))))))"

definition optional_certification :: "pyval \<Rightarrow> manifest_error + certification option" where
  "optional_certification v =
     (case v of
        PNone \<Rightarrow> Inr None
      | PDict d \<Rightarrow> bindE (certification_from d) (\<lambda>c. Inr (Some c))
      | _ \<Rightarrow> Inl (M_refused ''certification''))"

text \<open>An absent or object-valued field.\<close>

definition object_or_none :: "pyval \<Rightarrow> bool" where
  "object_or_none v \<longleftrightarrow> (case v of PNone \<Rightarrow> True | PDict _ \<Rightarrow> True | _ \<Rightarrow> False)"

definition claim_from :: "pydict \<Rightarrow> manifest_error + claim_record" where
  "claim_from d =
     bindE (case py_get d ''artifact'' of PDict a \<Rightarrow> Inr a | _ \<Rightarrow> Inl (M_refused ''claim artifact'')) (\<lambda>a.
     bindE (ensure (object_or_none (py_get d ''deterministic'')) (M_refused ''deterministic'')) (\<lambda>_.
     bindE (ensure (object_or_none (py_get d ''independent'')) (M_refused ''independent'')) (\<lambda>_.
     bindE (if py_has d ''bindings'' then (case py_get d ''bindings'' of PDict b \<Rightarrow> Inr b | _ \<Rightarrow> Inl (M_refused ''bindings''))
            else Inr []) (\<lambda>bindings.
     bindE (ref_from a) (\<lambda>artifact.
     bindE (optional_certification (py_get d ''deterministic'')) (\<lambda>deterministic.
     bindE (optional_certification (py_get d ''independent'')) (\<lambda>independent.
     check_claim \<lparr>cl_id = text_or d ''claim_id'' [], cl_stage = text_or d ''stage'' [], cl_producer = text_or d ''producer'' [],
       cl_artifact = artifact, cl_deterministic = deterministic, cl_independent = independent,
       cl_head = (if py_get d ''exact_head_sha'' = PNone then None else Some (py_str (py_get d ''exact_head_sha''))),
       cl_bindings = map (\<lambda>(k, v). (k, py_str v)) bindings\<rparr>)))))))"

definition referenced_artifacts :: "claim_record \<Rightarrow> artifact_ref list" where
  "referenced_artifacts c = [cl_artifact c]
     @ (case cl_deterministic c of None \<Rightarrow> [] | Some d \<Rightarrow> [ce_artifact d])
     @ (case cl_independent c of None \<Rightarrow> [] | Some i \<Rightarrow> [ce_artifact i])"

section \<open>The manifest\<close>

definition positive_issue :: "pyval \<Rightarrow> bool" where
  "positive_issue v \<longleftrightarrow> (case v of PInt i \<Rightarrow> 0 < i | PBool b \<Rightarrow> b | _ \<Rightarrow> False)"

definition check_manifest :: "run_manifest \<Rightarrow> manifest_error + run_manifest" where
  "check_manifest m =
     bindE (ensure (rm_version m = ''2.0'') (M_refused ''version'')) (\<lambda>_.
     bindE (ensure (\<not> blank (rm_run_id m)) (M_refused ''run_id'')) (\<lambda>_.
     bindE (ensure (positive_issue (rm_issue m)) (M_refused ''issue'')) (\<lambda>_.
     bindE (ensure (git_digest (rm_base m)) (M_refused ''base_sha'')) (\<lambda>_.
     bindE (ensure (distinct (map cl_id (rm_claims m))) (M_refused ''duplicate claim'')) (\<lambda>_.
     Inr m)))))"

definition create_manifest :: "string \<Rightarrow> pyval \<Rightarrow> string \<Rightarrow> manifest_error + run_manifest" where
  "create_manifest run_id issue base_sha =
     check_manifest \<lparr>rm_version = ''2.0'', rm_run_id = run_id, rm_issue = issue, rm_base = base_sha, rm_claims = []\<rparr>"

definition known_hashes :: "run_manifest \<Rightarrow> string list" where
  "known_hashes m = map ar_sha256 (concat (map referenced_artifacts (rm_claims m)))"

definition add_claim :: "claim_record \<Rightarrow> run_manifest \<Rightarrow> manifest_error + run_manifest" where
  "add_claim c m =
     bindE (ensure (cl_id c \<notin> set (map cl_id (rm_claims m))) (M_refused ''duplicate claim'')) (\<lambda>_.
     bindE (ensure (list_all (\<lambda>(_, v). v \<in> set (known_hashes m)) (cl_bindings c)) (M_refused ''claim bindings'')) (\<lambda>_.
     Inr (m\<lparr>rm_claims := rm_claims m @ [c]\<rparr>)))"

fun add_claims :: "pyval list \<Rightarrow> run_manifest \<Rightarrow> manifest_error + run_manifest" where
  "add_claims [] m = Inr m"
| "add_claims (v # vs) m =
     (case v of
        PDict d \<Rightarrow> bindE (claim_from d) (\<lambda>c. bindE (add_claim c m) (add_claims vs))
      | _ \<Rightarrow> Inl (M_refused ''claim''))"

definition manifest_from :: "pydict \<Rightarrow> manifest_error + run_manifest" where
  "manifest_from d =
     bindE (if py_has d ''claims'' then (case py_get d ''claims'' of PList vs \<Rightarrow> Inr vs | _ \<Rightarrow> Inl (M_refused ''claims'')) else Inr []) (\<lambda>vs.
     bindE (case py_get d ''issue'' of PInt i \<Rightarrow> Inr (PInt i) | PBool b \<Rightarrow> Inr (PBool b) | _ \<Rightarrow> Inl (M_refused ''issue'')) (\<lambda>issue.
     bindE (check_manifest \<lparr>rm_version = text_or d ''version'' [], rm_run_id = text_or d ''run_id'' [], rm_issue = issue,
              rm_base = text_or d ''base_sha'' [], rm_claims = []\<rparr>) (\<lambda>m.
     add_claims vs m)))"

definition claim_of :: "run_manifest \<Rightarrow> string \<Rightarrow> claim_record option" where
  "claim_of m i = List.find (\<lambda>c. cl_id c = i) (rm_claims m)"

section \<open>The canonical object\<close>

definition ref_dict :: "artifact_ref \<Rightarrow> pyval" where
  "ref_dict r = PDict [(''name'', PStr (ar_name r)), (''path'', PStr (ar_path r)), (''sha256'', PStr (ar_sha256 r)),
     (''media_type'', PStr (ar_media r))]"

definition certification_dict :: "certification option \<Rightarrow> pyval" where
  "certification_dict c = (case c of None \<Rightarrow> PNone
     | Some c \<Rightarrow> PDict [(''kind'', PStr (ce_kind c)), (''authority_id'', PStr (ce_authority c)), (''artifact'', ref_dict (ce_artifact c))])"

definition claim_dict :: "claim_record \<Rightarrow> pyval" where
  "claim_dict c = PDict [(''claim_id'', PStr (cl_id c)), (''stage'', PStr (cl_stage c)), (''producer'', PStr (cl_producer c)),
     (''artifact'', ref_dict (cl_artifact c)), (''deterministic'', certification_dict (cl_deterministic c)),
     (''independent'', certification_dict (cl_independent c)),
     (''exact_head_sha'', case cl_head c of None \<Rightarrow> PNone | Some h \<Rightarrow> PStr h),
     (''bindings'', PDict (map (\<lambda>(k, v). (k, PStr v)) (sort_key fst (cl_bindings c))))]"

definition manifest_dict :: "run_manifest \<Rightarrow> pydict" where
  "manifest_dict m = [(''version'', PStr (rm_version m)), (''run_id'', PStr (rm_run_id m)), (''issue'', rm_issue m),
     (''base_sha'', PStr (rm_base m)), (''claims'', PList (map claim_dict (rm_claims m)))]"

definition manifest_sha256 :: "(string \<Rightarrow> string) \<Rightarrow> run_manifest \<Rightarrow> string" where
  "manifest_sha256 sha m = sha256_value sha (PDict (manifest_dict m))"

end
