(* ===== verification/Evidence_Spine.thy ===== *)
theory Evidence_Spine
  imports Run_Manifest "HOL-Library.AList"
begin

text \<open>
  The protected evidence-spine policy and the closure compiler, \<open>factory_kernel/spine.py\<close>.
  Reading the policy file is I/O, its JSON value is the argument; so is what an artifact path is
  under the evidence root. A blocker is the claim it is about and the check that failed; its text
  is not modelled.
\<close>

section \<open>The policy\<close>

record claim_requirement =
  rq_id :: string
  rq_stage :: string
  rq_requires :: "string list"
  rq_deterministic :: bool
  rq_independent :: bool
  rq_exact_head :: bool
  rq_final :: bool

record spine_policy =
  sp_version :: string
  sp_requirements :: "claim_requirement list"
  sp_raw :: pyval

datatype spine_error = S_refused string

definition policy_sha256 :: "(string \<Rightarrow> string) \<Rightarrow> spine_policy \<Rightarrow> string" where
  "policy_sha256 sha p = sha256_value sha (sp_raw p)"

text \<open>\<open>None\<close> is the \<open>KeyError\<close>.\<close>

definition requirement_of :: "spine_policy \<Rightarrow> string \<Rightarrow> claim_requirement option" where
  "requirement_of p i = List.find (\<lambda>r. rq_id r = i) (sp_requirements p)"

definition require_bool :: "pydict \<Rightarrow> string \<Rightarrow> spine_error + bool" where
  "require_bool d k = (case py_get d k of PBool b \<Rightarrow> Inr b | _ \<Rightarrow> Inl (S_refused k))"

definition parse_requires :: "pyval \<Rightarrow> spine_error + string list" where
  "parse_requires v =
     (case v of
        PList xs \<Rightarrow>
          bindE (mapE (\<lambda>x. case x of PStr s \<Rightarrow> if blank s then Inl (S_refused ''requires'') else Inr s | _ \<Rightarrow> Inl (S_refused ''requires'')) xs)
            (\<lambda>names. if distinct names then Inr names else Inl (S_refused ''requires''))
      | _ \<Rightarrow> Inl (S_refused ''requires''))"

definition parse_requirement :: "string list \<Rightarrow> pyval \<Rightarrow> spine_error + claim_requirement" where
  "parse_requirement seen v =
     (case v of
        PDict d \<Rightarrow>
          bindE (case py_get d ''id'' of PStr s \<Rightarrow> if blank s \<or> s \<in> set seen then Inl (S_refused ''id'') else Inr s | _ \<Rightarrow> Inl (S_refused ''id'')) (\<lambda>i.
          bindE (case py_get d ''stage'' of PStr s \<Rightarrow> if blank s then Inl (S_refused ''stage'') else Inr s | _ \<Rightarrow> Inl (S_refused ''stage'')) (\<lambda>stage.
          bindE (parse_requires (py_get d ''requires'')) (\<lambda>requires.
          bindE (ensure (set requires \<subseteq> set seen) (S_refused ''forward'')) (\<lambda>_.
          bindE (require_bool d ''deterministic_required'') (\<lambda>deterministic.
          bindE (require_bool d ''independent_required'') (\<lambda>independent.
          bindE (ensure (independent \<longrightarrow> deterministic) (S_refused ''skip'')) (\<lambda>_.
          bindE (require_bool d ''final_evidence_required'') (\<lambda>final.
          bindE (ensure final (S_refused ''final'')) (\<lambda>_.
          bindE (require_bool d ''exact_head_required'') (\<lambda>exact.
          Inr \<lparr>rq_id = i, rq_stage = stage, rq_requires = requires, rq_deterministic = deterministic,
               rq_independent = independent, rq_exact_head = exact, rq_final = final\<rparr>))))))))))
      | _ \<Rightarrow> Inl (S_refused ''requirement''))"

fun parse_requirements :: "claim_requirement list \<Rightarrow> pyval list \<Rightarrow> spine_error + claim_requirement list" where
  "parse_requirements found [] = Inr found"
| "parse_requirements found (v # vs) =
     bindE (parse_requirement (map rq_id found) v) (\<lambda>r. parse_requirements (found @ [r]) vs)"

definition load_policy :: "pyval \<Rightarrow> spine_error + spine_policy" where
  "load_policy raw =
     bindE (ensure (py_field raw ''version'' = PStr ''1.0'') (S_refused ''version'')) (\<lambda>_.
     bindE (case py_field raw ''required_claims'' of PList vs \<Rightarrow> if vs = [] then Inl (S_refused ''required_claims'') else Inr vs
            | _ \<Rightarrow> Inl (S_refused ''required_claims'')) (\<lambda>entries.
     bindE (parse_requirements [] entries) (\<lambda>rs.
     Inr \<lparr>sp_version = ''1.0'', sp_requirements = rs, sp_raw = raw\<rparr>)))"

section \<open>Artifact bytes\<close>

text \<open>What a path resolves to below the evidence root: outside it, no file, or a file of a digest.\<close>

datatype located = Escapes | Absent | Content string

definition safe_artifact :: "(string \<Rightarrow> located) \<Rightarrow> artifact_ref \<Rightarrow> spine_error + unit" where
  "safe_artifact locate r =
     (case locate (ar_path r) of
        Escapes \<Rightarrow> Inl (S_refused ''escapes'')
      | Absent \<Rightarrow> Inl (S_refused ''missing'')
      | Content digest \<Rightarrow> ensure (digest = ar_sha256 r) (S_refused ''mismatch''))"

definition verify_artifact_bytes :: "(string \<Rightarrow> located) option \<Rightarrow> run_manifest \<Rightarrow> spine_error + unit" where
  "verify_artifact_bytes evidence_root m =
     (case evidence_root of
        None \<Rightarrow> Inl (S_refused ''root'')
      | Some locate \<Rightarrow> bindE (mapE (safe_artifact locate) (concat (map referenced_artifacts (rm_claims m)))) (\<lambda>_. Inr ()))"

section \<open>Assessment\<close>

datatype spine_reason =
    Artifact_absent | Stage_differs | Predecessors_missing "string list" | Bindings_missing "string list"
  | Deterministic_missing | Independent_missing | Head_not_supplied | Head_differs

definition required_binding_hashes :: "claim_requirement \<Rightarrow> run_manifest \<Rightarrow> (string \<times> string) list" where
  "required_binding_hashes r m =
     fold (\<lambda>p hashes. case claim_of m p of None \<Rightarrow> hashes | Some c \<Rightarrow> AList.update p (ar_sha256 (cl_artifact c)) hashes) (rq_requires r) []"

definition binding_reasons :: "claim_requirement \<Rightarrow> claim_record \<Rightarrow> run_manifest \<Rightarrow> spine_reason list" where
  "binding_reasons r c m =
     (let hashes = required_binding_hashes r m;
          missing = filter (\<lambda>p. p \<notin> set (map fst hashes)) (rq_requires r);
          unbound = filter (\<lambda>(_, digest). digest \<notin> set (map snd (cl_bindings c))) hashes in
      if missing \<noteq> [] then [Predecessors_missing missing]
      else if unbound \<noteq> [] then [Bindings_missing (map fst unbound)] else [])"

record assessed =
  as_id :: string
  as_level :: nat
  as_ready :: bool
  as_reasons :: "spine_reason list"

definition assess_claim :: "claim_requirement \<Rightarrow> run_manifest \<Rightarrow> string option \<Rightarrow> assessed" where
  "assess_claim r m expected =
     (case claim_of m (rq_id r) of
        None \<Rightarrow> \<lparr>as_id = rq_id r, as_level = 0, as_ready = False, as_reasons = [Artifact_absent]\<rparr>
      | Some c \<Rightarrow>
          (let stage = (if cl_stage c = rq_stage r then [] else [Stage_differs]);
               deterministic_ok = (\<not> rq_deterministic r \<or> cl_deterministic c \<noteq> None);
               deterministic = (if deterministic_ok then [] else [Deterministic_missing]);
               independent_ok = (\<not> rq_independent r \<or> cl_independent c \<noteq> None);
               independent = (if deterministic_ok \<and> independent_ok then [] else if rq_independent r then [Independent_missing] else []);
               level = (if deterministic_ok \<and> independent_ok then 80 else if deterministic_ok then 60 else 40);
               head = (if \<not> rq_exact_head r then []
                       else case expected of None \<Rightarrow> [Head_not_supplied] | Some h \<Rightarrow> if cl_head c = Some h then [] else [Head_differs]);
               reasons = stage @ binding_reasons r c m @ deterministic @ independent @ head in
           \<lparr>as_id = rq_id r, as_level = level, as_ready = (reasons = [] \<and> level = 80), as_reasons = reasons\<rparr>))"

record assessment =
  an_policy :: string
  an_manifest :: string
  an_claims :: "assessed list"
  an_blockers :: "(string \<times> spine_reason) list"
  an_ready :: bool

definition assess_manifest :: "(string \<Rightarrow> string) \<Rightarrow> spine_policy \<Rightarrow> run_manifest \<Rightarrow> string option \<Rightarrow> assessment" where
  "assess_manifest sha p m expected =
     (let rows = map (\<lambda>r. assess_claim r m expected) (sp_requirements p);
          blockers = concat (map (\<lambda>a. map (\<lambda>r. (as_id a, r)) (as_reasons a)) rows) in
      \<lparr>an_policy = policy_sha256 sha p, an_manifest = manifest_sha256 sha m, an_claims = rows, an_blockers = blockers,
       an_ready = (blockers = [] \<and> list_all (\<lambda>a. as_level a = 80) rows)\<rparr>)"

section \<open>The evidence index\<close>

record indexed_claim =
  ic_id :: string
  ic_stage :: string
  ic_artifact :: string
  ic_deterministic :: "string option"
  ic_independent :: "string option"
  ic_head :: "string option"
  ic_bindings :: "(string \<times> string) list"
  ic_level :: nat

record evidence_index =
  ei_base :: string
  ei_head :: string
  ei_policy :: string
  ei_manifest :: string
  ei_claims :: "indexed_claim list"
  ei_level :: nat

definition index_claim :: "claim_record \<Rightarrow> indexed_claim" where
  "index_claim c =
     \<lparr>ic_id = cl_id c, ic_stage = cl_stage c, ic_artifact = ar_sha256 (cl_artifact c),
      ic_deterministic = map_option (\<lambda>d. ar_sha256 (ce_artifact d)) (cl_deterministic c),
      ic_independent = map_option (\<lambda>i. ar_sha256 (ce_artifact i)) (cl_independent c),
      ic_head = cl_head c, ic_bindings = sort_key fst (cl_bindings c), ic_level = 100\<rparr>"

definition compile_evidence_index ::
  "(string \<Rightarrow> string) \<Rightarrow> spine_policy \<Rightarrow> run_manifest \<Rightarrow> (string \<Rightarrow> located) option \<Rightarrow> string \<Rightarrow> spine_error + evidence_index" where
  "compile_evidence_index sha p m evidence_root head =
     bindE (verify_artifact_bytes evidence_root m) (\<lambda>_.
     bindE (ensure (an_ready (assess_manifest sha p m (Some head))) (S_refused ''incomplete'')) (\<lambda>_.
     bindE (mapE (\<lambda>r. case claim_of m (rq_id r) of None \<Rightarrow> Inl (S_refused ''disappeared'') | Some c \<Rightarrow> Inr (index_claim c)) (sp_requirements p)) (\<lambda>claims.
     Inr \<lparr>ei_base = rm_base m, ei_head = head, ei_policy = policy_sha256 sha p, ei_manifest = manifest_sha256 sha m,
          ei_claims = claims, ei_level = 100\<rparr>)))"

section \<open>Loaded policies\<close>

text \<open>A policy that loaded is closed: a requirement names only earlier requirements, independence
  implies determinism, and nothing is left out of the final evidence.\<close>

fun closed_requirements :: "string list \<Rightarrow> claim_requirement list \<Rightarrow> bool" where
  "closed_requirements seen [] \<longleftrightarrow> True"
| "closed_requirements seen (r # rs) \<longleftrightarrow> rq_id r \<notin> set seen \<and> \<not> blank (rq_id r) \<and> set (rq_requires r) \<subseteq> set seen
     \<and> (rq_independent r \<longrightarrow> rq_deterministic r) \<and> rq_final r \<and> closed_requirements (seen @ [rq_id r]) rs"

lemma closed_snoc: "closed_requirements seen (rs @ [r]) \<longleftrightarrow> closed_requirements seen rs \<and> rq_id r \<notin> set (seen @ map rq_id rs) \<and> \<not> blank (rq_id r)
    \<and> set (rq_requires r) \<subseteq> set (seen @ map rq_id rs) \<and> (rq_independent r \<longrightarrow> rq_deterministic r) \<and> rq_final r"
  by (induction rs arbitrary: seen) auto

lemma parse_requirement_closed:
  "parse_requirement seen v = Inr r \<Longrightarrow> rq_id r \<notin> set seen \<and> \<not> blank (rq_id r) \<and> set (rq_requires r) \<subseteq> set seen
     \<and> (rq_independent r \<longrightarrow> rq_deterministic r) \<and> rq_final r"
  by (cases v) (auto simp: parse_requirement_def bindE_eq_Inr text_eq_Inr split: if_splits)

lemma parse_requirements_closed: "parse_requirements found vs = Inr rs \<Longrightarrow> closed_requirements [] found \<Longrightarrow> closed_requirements [] rs"
proof (induction found vs rule: parse_requirements.induct)
  case (2 found v vs)
  then obtain r where r: "parse_requirement (map rq_id found) v = Inr r" and rest: "parse_requirements (found @ [r]) vs = Inr rs"
    by (auto simp: bindE_eq_Inr)
  from 2(1) [OF rest] show ?case using parse_requirement_closed [OF r] 2(3) by (simp add: closed_snoc)
qed simp

lemma load_policy_closed: "load_policy raw = Inr p \<Longrightarrow> closed_requirements [] (sp_requirements p)"
  by (auto simp: load_policy_def bindE_eq_Inr dest: parse_requirements_closed split: pyval.splits if_splits)

lemma closed_mem: "closed_requirements seen rs \<Longrightarrow> r \<in> set rs \<Longrightarrow> rq_independent r \<Longrightarrow> rq_deterministic r"
  by (induction seen rs rule: closed_requirements.induct) auto

lemma closed_requires: "closed_requirements seen rs \<Longrightarrow> r \<in> set rs \<Longrightarrow> rq_final r \<and> set (rq_requires r) \<subseteq> set seen \<union> rq_id ` set rs"
  by (induction seen rs rule: closed_requirements.induct) auto

lemma closed_at: "closed_requirements seen (ps @ r # qs) \<Longrightarrow> set (rq_requires r) \<subseteq> set seen \<union> rq_id ` set ps"
proof (induction ps arbitrary: seen)
  case (Cons a ps)
  then have "closed_requirements (seen @ [rq_id a]) (ps @ r # qs)" by simp
  from Cons.IH [OF this] show ?case by auto
qed simp

lemma load_policy_some: "load_policy raw = Inr p \<Longrightarrow> sp_requirements p \<noteq> []"
proof -
  have "parse_requirements found vs = Inr rs \<Longrightarrow> length rs = length found + length vs" for found vs rs
    by (induction found vs rule: parse_requirements.induct) (auto simp: bindE_eq_Inr)
  moreover assume "load_policy raw = Inr p"
  then obtain vs where "vs \<noteq> []" "parse_requirements [] vs = Inr (sp_requirements p)"
    by (auto simp: load_policy_def bindE_eq_Inr split: pyval.splits if_splits)
  ultimately show ?thesis by fastforce
qed

end
