(* ===== verification/Claims.thy ===== *)
theory Claims
  imports Claim_Graph Programme Evidence_Spine "HOL-Library.Product_Lexorder"
begin

text \<open>
  Claims and their identities, \<open>factory_kernel/claims.py\<close>: requirement claims from the approved
  specification, exploratory claims from recorded hypotheses, the binding of a compiled programme to
  the obligations of the protected policy, bindings to code subjects, and the derived status. A
  dictionary is an association list in insertion order; the texts of the refusals are the values they
  name. A recorded hypothesis and an attestation are records of the fields the code reads.
\<close>

section \<open>Claims\<close>

record claim_def =
  kd_key :: string
  kd_kind :: string
  kd_project :: string
  kd_spec :: string
  kd_statement :: string
  kd_source :: string
  kd_depends :: "string list"
  kd_acceptance :: "string list"
  kd_authority :: "string option"

record edge =
  ed_relation :: string
  ed_source :: string
  ed_target :: string

record requirement_set =
  rs_repository :: string
  rs_project :: string
  rs_spec :: string
  rs_claims :: "claim_def list"

record exploratory_set =
  es_claims :: "claim_def list"
  es_edges :: "edge list"
  es_statuses :: "(string \<times> string) list"

record claim_set =
  cs_repository :: string
  cs_project :: string
  cs_spec :: string
  cs_programme :: string
  cs_claims :: "claim_def list"
  cs_edges :: "edge list"
  cs_item_obligations :: "(string \<times> string list) list"
  cs_item_requirements :: "(string \<times> string list) list"

datatype claim_error =
    C_spec | C_approval | C_duplicate_acceptance
  | C_foreign_hypothesis string | C_hypothesis_acceptance string | C_hypothesis_dependency string
  | C_cycle string "string list"
  | C_other_spec | C_orphan string | C_outside string string | C_owned_twice string | C_unknown_blocker string string
  | C_unassigned "string list" | C_strategy_spec | C_strategy_standing | C_no_obligations | C_policy_requires string string
  | C_duplicate_key string | C_kind string | C_scope | C_unknown_dependency string string | C_profile string
  | C_profile_carried | C_edge | C_uncovered | C_key_error string | C_type_error

definition KINDS :: "string list" where
  "KINDS = [''requirement'', ''assumption'', ''implementation-property'', ''proof-obligation'']"

definition RELATIONS :: "string list" where
  "RELATIONS = [''refines'', ''implements'', ''supported_by'', ''depends_on'']"

definition BINDING_RELATIONS :: "string list" where
  "BINDING_RELATIONS = [''proposed_implementation'', ''observed_implementation'', ''depends_on'', ''measured_at'', ''counterexample_at'']"

definition OBSERVED_RELATIONS :: "string list" where
  "OBSERVED_RELATIONS = [''observed_implementation'', ''measured_at'', ''counterexample_at'']"

text \<open>\<open>RequirementClaimSet.keys\<close> and \<open>ClaimSet.by_key\<close>: the last entry of a key stays.\<close>

definition requirement_keys :: "requirement_set \<Rightarrow> (string \<times> string) list" where
  "requirement_keys rs = fold (\<lambda>c. AList.update (hd (kd_acceptance c)) (kd_key c)) (rs_claims rs) []"

definition by_key :: "claim_set \<Rightarrow> (string \<times> claim_def) list" where
  "by_key cs = fold (\<lambda>c. AList.update (kd_key c) c) (cs_claims cs) []"

definition strings :: "string list \<Rightarrow> pyval" where
  "strings xs = PList (map PStr xs)"

definition claim_value :: "claim_def \<Rightarrow> pyval" where
  "claim_value c = PDict [(''key'', PStr (kd_key c)), (''kind'', PStr (kd_kind c)), (''project'', PStr (kd_project c)),
     (''spec_sha256'', PStr (kd_spec c)), (''statement'', PStr (kd_statement c)), (''source_ref'', PStr (kd_source c)),
     (''depends_on'', strings (kd_depends c)), (''acceptance_ids'', strings (kd_acceptance c)),
     (''authority_profile'', case kd_authority c of None \<Rightarrow> PNone | Some a \<Rightarrow> PStr a)]"

definition edge_value :: "edge \<Rightarrow> pyval" where
  "edge_value e = PDict [(''relation'', PStr (ed_relation e)), (''source'', PStr (ed_source e)), (''target'', PStr (ed_target e))]"

definition SCHEMA_VERSION :: string where
  "SCHEMA_VERSION = ''1.0''"

definition requirement_digest :: "(string \<Rightarrow> string) \<Rightarrow> requirement_set \<Rightarrow> string" where
  "requirement_digest sha rs = sha256_value sha (PDict [(''schema'', PStr ''dark-factory/requirement-key''),
     (''schema_version'', PStr SCHEMA_VERSION), (''claims'', PList (map claim_value (rs_claims rs)))])"

definition claim_set_digest :: "(string \<Rightarrow> string) \<Rightarrow> claim_set \<Rightarrow> string" where
  "claim_set_digest sha cs = sha256_value sha (PDict [(''schema'', PStr ''dark-factory/claim-set''),
     (''schema_version'', PStr SCHEMA_VERSION), (''repository_id'', PStr (cs_repository cs)), (''project'', PStr (cs_project cs)),
     (''spec_sha256'', PStr (cs_spec cs)), (''programme_sha256'', PStr (cs_programme cs)),
     (''claims'', PList (map claim_value (cs_claims cs))), (''edges'', PList (map edge_value (cs_edges cs)))])"

text \<open>\<open>dict.fromkeys\<close>: the first occurrence of each entry, in order.\<close>

definition first_seen :: "'a list \<Rightarrow> 'a list" where
  "first_seen xs = rev (remdups (rev xs))"

lemma set_first_seen [simp]: "set (first_seen xs) = set xs"
  by (simp add: first_seen_def)

lemma distinct_first_seen [simp]: "distinct (first_seen xs)"
  by (simp add: first_seen_def)

section \<open>Requirement claims\<close>

definition requirement_key :: "(string \<Rightarrow> string) \<Rightarrow> string \<Rightarrow> string \<Rightarrow> string \<Rightarrow> string \<Rightarrow> string" where
  "requirement_key sha repository project spec ac = sha256_value sha (PDict [(''schema'', PStr ''dark-factory/requirement-key''),
     (''schema_version'', PStr SCHEMA_VERSION), (''repository_id'', PStr repository), (''project'', PStr project),
     (''spec_sha256'', PStr spec), (''acceptance_id'', PStr ac)])"

definition owner_approved :: "pyval \<Rightarrow> string \<Rightarrow> pyval \<Rightarrow> bool" where
  "owner_approved spec spec_sha approval =
     (case py_field approval ''actor'' of
        PDict actor \<Rightarrow> py_get actor ''role'' = PStr ''owner'' \<and> py_truthy (py_get actor ''identity'')
          \<and> py_field approval ''spec_sha256'' = PStr spec_sha \<and> py_eq (py_field approval ''spec'') spec
      | _ \<Rightarrow> False)"

definition requirement_claim ::
  "(string \<Rightarrow> string) \<Rightarrow> string \<Rightarrow> string \<Rightarrow> string \<Rightarrow> string \<times> string \<times> string \<Rightarrow> claim_def" where
  "requirement_claim sha repository project spec_sha row =
     (case row of (ac, req, txt) \<Rightarrow>
        \<lparr>kd_key = requirement_key sha repository project spec_sha ac, kd_kind = ''requirement'', kd_project = project,
         kd_spec = spec_sha, kd_statement = txt,
         kd_source = ''spec:'' @ spec_sha @ ''#requirements/'' @ req @ ''/acceptance/'' @ ac,
         kd_depends = [], kd_acceptance = [ac], kd_authority = None\<rparr>)"

definition compile_requirement_claims ::
  "(string \<Rightarrow> string) \<Rightarrow> pyval \<Rightarrow> string \<Rightarrow> string \<Rightarrow> pyval option \<Rightarrow> claim_error + requirement_set" where
  "compile_requirement_claims sha spec repository project approval =
     bindE (ensure (case spec of PDict d \<Rightarrow> py_has d ''requirements'' | _ \<Rightarrow> False) C_spec) (\<lambda>_.
     let spec_sha = sha256_value sha spec in
     bindE (ensure (case approval of None \<Rightarrow> True | Some a \<Rightarrow> owner_approved spec spec_sha a) C_approval) (\<lambda>_.
     let rows = spec_rows spec in
     bindE (ensure (distinct (map fst rows)) C_duplicate_acceptance) (\<lambda>_.
     Inr \<lparr>rs_repository = repository, rs_project = project, rs_spec = spec_sha,
          rs_claims = map (requirement_claim sha repository project spec_sha) (sort rows)\<rparr>)))"

section \<open>Exploratory claims\<close>

record hypothesis =
  hy_spec :: "string option"
  hy_acceptance :: "string list"
  hy_depends :: "string list"
  hy_statement :: string
  hy_status :: "string option"

definition exploratory_key :: "(string \<Rightarrow> string) \<Rightarrow> requirement_set \<Rightarrow> string \<Rightarrow> string" where
  "exploratory_key sha rs h = sha256_value sha (PDict [(''schema'', PStr ''dark-factory/exploratory-claim-key''),
     (''schema_version'', PStr SCHEMA_VERSION), (''repository_id'', PStr (rs_repository rs)), (''project'', PStr (rs_project rs)),
     (''spec_sha256'', PStr (rs_spec rs)), (''hypothesis_id'', PStr h)])"

definition mk_edge :: "string \<Rightarrow> string \<Rightarrow> string \<Rightarrow> edge" where
  "mk_edge relation a b = \<lparr>ed_relation = relation, ed_source = a, ed_target = b\<rparr>"

lemma mk_edge_simps [simp]:
  "ed_relation (mk_edge r a b) = r" "ed_source (mk_edge r a b) = a" "ed_target (mk_edge r a b) = b"
  by (simp_all add: mk_edge_def)

definition exploratory_claim ::
  "(string \<Rightarrow> string) \<Rightarrow> requirement_set \<Rightarrow> string list \<Rightarrow> string \<times> hypothesis \<Rightarrow> claim_error + claim_def \<times> string \<times> edge list" where
  "exploratory_claim sha rs known row =
     (case row of (h, hy) \<Rightarrow>
      let keys = requirement_keys rs; acceptance = sort (hy_acceptance hy); dependencies = sort (hy_depends hy) in
      bindE (ensure (acceptance \<noteq> [] \<and> list_all (\<lambda>ac. ac \<in> set (map fst keys)) acceptance) (C_hypothesis_acceptance h)) (\<lambda>_.
      bindE (ensure (list_all (\<lambda>d. d \<in> set known) dependencies) (C_hypothesis_dependency h)) (\<lambda>_.
      let key = exploratory_key sha rs h;
          ac_keys = map (\<lambda>ac. the (map_of keys ac)) acceptance;
          dep_keys = map (exploratory_key sha rs) dependencies in
      Inr (\<lparr>kd_key = key, kd_kind = ''assumption'', kd_project = rs_project rs, kd_spec = rs_spec rs,
            kd_statement = hy_statement hy, kd_source = ''exploration:'' @ h,
            kd_depends = sorted_set (ac_keys @ dep_keys), kd_acceptance = acceptance, kd_authority = None\<rparr>,
           (case hy_status hy of None \<Rightarrow> ''active'' | Some s \<Rightarrow> s),
           map (mk_edge ''refines'' key) ac_keys @ map (mk_edge ''depends_on'' key) dep_keys))))"

text \<open>\<open>{c.key: c.depends_on for c in claims}\<close>.\<close>

definition depends_graph :: "claim_def list \<Rightarrow> (string \<times> string list) list" where
  "depends_graph cs = fold (\<lambda>c. AList.update (kd_key c) (kd_depends c)) cs []"

definition check_acyclic :: "string \<Rightarrow> (string \<times> string list) list \<Rightarrow> claim_error + unit" where
  "check_acyclic what g = (case find_cycle g of None \<Rightarrow> Inr () | Some ks \<Rightarrow> Inl (C_cycle what ks))"

definition compile_exploratory_claims ::
  "(string \<Rightarrow> string) \<Rightarrow> requirement_set \<Rightarrow> (string \<times> hypothesis) list \<Rightarrow> claim_error + exploratory_set" where
  "compile_exploratory_claims sha rs recorded =
     (let rows = sort_key fst recorded; known = map fst rows in
      bindE (mapE (\<lambda>(h, hy). ensure (hy_spec hy = Some (rs_spec rs)) (C_foreign_hypothesis h)) rows) (\<lambda>_.
      bindE (mapE (exploratory_claim sha rs known) rows) (\<lambda>found.
      let claims = map fst found in
      bindE (check_acyclic ''exploratory claims'' (depends_graph claims)) (\<lambda>_.
      Inr \<lparr>es_claims = claims, es_edges = concat (map (\<lambda>(_, _, es). es) found),
           es_statuses = fold (\<lambda>(c, s, _). AList.update (kd_key c) s) found []\<rparr>))))"

section \<open>Binding a programme\<close>

definition item_map :: "programme \<Rightarrow> (string \<times> item) list" where
  "item_map p = fold (\<lambda>it. AList.update (it_id it) it) (pg_items p) []"

fun own_criteria :: "(string \<times> string) list \<Rightarrow> string \<Rightarrow> string list \<Rightarrow> string list \<Rightarrow> claim_error + string list" where
  "own_criteria keys i [] owners = Inr owners"
| "own_criteria keys i (ac # acs) owners =
     bindE (ensure (ac \<in> set (map fst keys)) (C_outside i ac)) (\<lambda>_.
     bindE (ensure (ac \<notin> set owners) (C_owned_twice ac)) (\<lambda>_.
     own_criteria keys i acs (owners @ [ac])))"

text \<open>The loop over the items in order: the criteria owned so far and the requirement keys of each item.\<close>

fun assign_items ::
  "(string \<times> string) list \<Rightarrow> string list \<Rightarrow> (string \<times> item) list \<Rightarrow> string list \<Rightarrow> (string \<times> string list) list
     \<Rightarrow> claim_error + string list \<times> (string \<times> string list) list" where
  "assign_items keys ids [] owners found = Inr (owners, found)"
| "assign_items keys ids ((i, it) # rest) owners found =
     bindE (ensure (it_acceptance it \<noteq> []) (C_orphan i)) (\<lambda>_.
     bindE (own_criteria keys i (it_acceptance it) owners) (\<lambda>owners'.
     bindE (mapE (\<lambda>b. ensure (b \<in> set ids) (C_unknown_blocker i b)) (it_blocked it)) (\<lambda>_.
     assign_items keys ids rest owners' (found @ [(i, sort (map (\<lambda>ac. the (map_of keys ac)) (it_acceptance it)))]))))"

definition strategy_bound :: "string \<Rightarrow> pydict option \<Rightarrow> claim_error + unit" where
  "strategy_bound spec_sha strategy =
     (case strategy of
        None \<Rightarrow> Inr ()
      | Some s \<Rightarrow>
          bindE (ensure (py_get s ''spec_sha256'' = PStr spec_sha) C_strategy_spec) (\<lambda>_.
          ensure (py_get s ''qualification_status'' = PStr ''UNPROVEN'' \<and> py_get s ''proof_reuse_allowed'' = PBool False)
            C_strategy_standing))"

definition obligation_key ::
  "(string \<Rightarrow> string) \<Rightarrow> requirement_set \<Rightarrow> programme \<Rightarrow> spine_policy \<Rightarrow> string \<Rightarrow> string \<Rightarrow> string" where
  "obligation_key sha rs p policy i profile = sha256_value sha (PDict [(''schema'', PStr ''dark-factory/proof-obligation-key''),
     (''schema_version'', PStr SCHEMA_VERSION), (''repository_id'', PStr (rs_repository rs)), (''project'', PStr (rs_project rs)),
     (''spec_sha256'', PStr (rs_spec rs)), (''programme_sha256'', PStr (pg_sha256 p)), (''item_id'', PStr i),
     (''authority_profile'', PStr profile), (''policy_sha256'', PStr (policy_sha256 sha policy))])"

definition final_profiles :: "spine_policy \<Rightarrow> string list" where
  "final_profiles policy = map rq_id (filter rq_final (sp_requirements policy))"

text \<open>The obligation of one item for one requirement of the policy, and its edges.
  \<open>okey\<close> is \<open>obligation_key\<close> of the item and the profile.\<close>

definition obligation_parts ::
  "(string \<Rightarrow> string) \<Rightarrow> requirement_set \<Rightarrow> spine_policy \<Rightarrow> (string \<Rightarrow> string \<Rightarrow> string) \<Rightarrow> (string \<times> string list) list
     \<Rightarrow> string \<times> item \<Rightarrow> claim_requirement \<Rightarrow> claim_def \<times> edge list" where
  "obligation_parts sha rs policy okey reqs row r =
     (case row of (i, it) \<Rightarrow>
      let key = okey i (rq_id r); own = the (map_of reqs i) in
      (\<lparr>kd_key = key, kd_kind = ''proof-obligation'', kd_project = rs_project rs, kd_spec = rs_spec rs,
        kd_statement = rq_id r @ '' obligation for programme item '' @ i,
        kd_source = ''policy:'' @ policy_sha256 sha policy @ ''#'' @ rq_id r,
        kd_depends = sorted_set (own @ map (okey i) (rq_requires r)
          @ concat (map (\<lambda>b. map (okey b) (final_profiles policy)) (it_blocked it))),
        kd_acceptance = it_acceptance it, kd_authority = Some (rq_id r)\<rparr>,
       map (\<lambda>q. mk_edge ''supported_by'' q key) own
       @ map (\<lambda>q. mk_edge ''depends_on'' key (okey i q)) (rq_requires r)))"

definition obligation_claim ::
  "(string \<Rightarrow> string) \<Rightarrow> requirement_set \<Rightarrow> spine_policy \<Rightarrow> (string \<Rightarrow> string \<Rightarrow> string) \<Rightarrow> (string \<times> string list) list
     \<Rightarrow> string \<times> item \<Rightarrow> claim_requirement \<Rightarrow> claim_error + claim_def \<times> edge list" where
  "obligation_claim sha rs policy okey reqs row r =
     bindE (mapE (\<lambda>q. ensure (q \<in> set (map rq_id (sp_requirements policy))) (C_policy_requires (rq_id r) q)) (rq_requires r))
       (\<lambda>_. Inr (obligation_parts sha rs policy okey reqs row r))"

text \<open>The second edge loop: every obligation of an item waits for the final evidence of its blockers.\<close>

definition blocker_edges ::
  "spine_policy \<Rightarrow> (string \<Rightarrow> string \<Rightarrow> string) \<Rightarrow> (string \<times> string list) list \<Rightarrow> string \<times> item \<Rightarrow> edge list" where
  "blocker_edges policy okey obligations row =
     (case row of (i, it) \<Rightarrow>
      concat (map (\<lambda>b. concat (map (\<lambda>f. map (\<lambda>own. mk_edge ''depends_on'' own (okey b f)) (the (map_of obligations i)))
        (final_profiles policy))) (it_blocked it)))"

fun check_claims :: "claim_set \<Rightarrow> string list \<Rightarrow> claim_def list \<Rightarrow> claim_error + unit" where
  "check_claims cs seen [] = Inr ()"
| "check_claims cs seen (c # rest) =
     bindE (ensure (kd_key c \<notin> set seen) (C_duplicate_key (kd_key c))) (\<lambda>_.
     bindE (ensure (kd_kind c \<in> set KINDS) (C_kind (kd_kind c))) (\<lambda>_.
     bindE (ensure (kd_project c = cs_project cs \<and> kd_spec c = cs_spec cs) C_scope) (\<lambda>_.
     check_claims cs (kd_key c # seen) rest)))"

definition check_dependencies :: "string list \<Rightarrow> string list \<Rightarrow> claim_def \<Rightarrow> claim_error + unit" where
  "check_dependencies keys profiles c =
     bindE (mapE (\<lambda>d. ensure (d \<in> set keys) (C_unknown_dependency (kd_key c) d)) (kd_depends c)) (\<lambda>_.
     if kd_kind c = ''proof-obligation''
     then ensure (case kd_authority c of None \<Rightarrow> False | Some a \<Rightarrow> a \<in> set profiles) (C_profile (kd_key c))
     else ensure (kd_authority c = None) C_profile_carried)"

definition validate_claim_set :: "claim_set \<Rightarrow> spine_policy \<Rightarrow> claim_error + unit" where
  "validate_claim_set cs policy =
     bindE (check_claims cs [] (cs_claims cs)) (\<lambda>_.
     let keys = map kd_key (cs_claims cs); profiles = map rq_id (sp_requirements policy) in
     bindE (mapE (check_dependencies keys profiles) (cs_claims cs)) (\<lambda>_.
     bindE (mapE (\<lambda>e. ensure (ed_relation e \<in> set RELATIONS \<and> ed_source e \<in> set keys \<and> ed_target e \<in> set keys) C_edge)
              (cs_edges cs)) (\<lambda>_.
     bindE (check_acyclic ''claim set'' (map (\<lambda>(k, c). (k, kd_depends c)) (by_key cs))) (\<lambda>_.
     ensure (list_all (\<lambda>c. kd_kind c = ''requirement'' \<longrightarrow>
               list_ex (\<lambda>e. ed_relation e = ''supported_by'' \<and> ed_source e = kd_key c) (cs_edges cs)) (cs_claims cs))
       C_uncovered))))"

text \<open>The claim set of the items and their obligations: the two edge loops and the constructor.\<close>

definition assemble_claims ::
  "(string \<Rightarrow> string) \<Rightarrow> requirement_set \<Rightarrow> programme \<Rightarrow> spine_policy \<Rightarrow> (string \<times> string list) list
     \<Rightarrow> (string \<times> item) list \<Rightarrow> (claim_def \<times> edge list) list list \<Rightarrow> claim_set" where
  "assemble_claims sha rs p policy reqs items found =
     (let obligations = map2 (\<lambda>row cs. (fst row, map (\<lambda>c. kd_key (fst c)) cs)) items found;
          edges = concat (map (\<lambda>cs. concat (map snd cs)) found)
            @ concat (map (blocker_edges policy (obligation_key sha rs p policy) obligations) items) in
      \<lparr>cs_repository = rs_repository rs, cs_project = rs_project rs, cs_spec = rs_spec rs, cs_programme = pg_sha256 p,
       cs_claims = rs_claims rs @ concat (map (map fst) found), cs_edges = first_seen edges,
       cs_item_obligations = obligations, cs_item_requirements = reqs\<rparr>)"

definition bind_programme_claims ::
  "(string \<Rightarrow> string) \<Rightarrow> requirement_set \<Rightarrow> programme \<Rightarrow> pydict option \<Rightarrow> spine_policy \<Rightarrow> claim_error + claim_set" where
  "bind_programme_claims sha rs p strategy policy =
     bindE (ensure (sha256_value sha (pg_spec p) = rs_spec rs) C_other_spec) (\<lambda>_.
     let keys = requirement_keys rs; items = sort_key fst (item_map p) in
     bindE (assign_items keys (map fst items) items [] []) (\<lambda>(owners, reqs).
     let unowned = sorted_set (filter (\<lambda>ac. ac \<notin> set owners) (map fst keys)) in
     bindE (ensure (unowned = []) (C_unassigned unowned)) (\<lambda>_.
     bindE (check_acyclic ''programme'' (map (\<lambda>(i, it). (i, it_blocked it)) (item_map p))) (\<lambda>_.
     bindE (strategy_bound (rs_spec rs) strategy) (\<lambda>_.
     bindE (ensure (sp_requirements policy \<noteq> []) C_no_obligations) (\<lambda>_.
     bindE (mapE (\<lambda>row. mapE (obligation_claim sha rs policy (obligation_key sha rs p policy) reqs row) (sp_requirements policy)) items) (\<lambda>found.
     let cs = assemble_claims sha rs p policy reqs items found in
     bindE (validate_claim_set cs policy) (\<lambda>_. Inr cs))))))))"

definition compile_claims ::
  "(string \<Rightarrow> string) \<Rightarrow> pyval \<Rightarrow> programme \<Rightarrow> pydict option \<Rightarrow> spine_policy \<Rightarrow> string \<Rightarrow> string \<Rightarrow> (string \<times> hypothesis) list
     \<Rightarrow> claim_error + claim_set \<times> exploratory_set" where
  "compile_claims sha spec p strategy policy repository project recorded =
     bindE (compile_requirement_claims sha spec repository project None) (\<lambda>rs.
     bindE (compile_exploratory_claims sha rs recorded) (\<lambda>es.
     bindE (bind_programme_claims sha rs p strategy policy) (\<lambda>cs. Inr (cs, es))))"

section \<open>Bindings to code subjects\<close>

text \<open>A code subject: its identity and, when it has one, its dependency coverage.\<close>

record binding =
  bg_claim :: string
  bg_subject :: string
  bg_relation :: string
  bg_source :: string
  bg_method :: string
  bg_coverage :: string
  bg_standing :: string

datatype refused_reason = Relation_not_permitted pyval string | Unknown_claim | Unknown_subject | No_observer

definition hashed_member :: "pyval \<Rightarrow> string list \<Rightarrow> claim_error + string option" where
  "hashed_member v known =
     (case v of PList _ \<Rightarrow> Inl C_type_error | PDict _ \<Rightarrow> Inl C_type_error
      | PStr s \<Rightarrow> Inr (if s \<in> set known then Some s else None) | _ \<Rightarrow> Inr None)"

definition COVERAGE_NAMES :: "string list" where
  "COVERAGE_NAMES = [''complete-for-profile'', ''partial'', ''unknown'']"

text \<open>The binding of a row that passed: the coverage it gives, or its subject's, or unknown.\<close>

definition mk_binding ::
  "(string \<times> string option) list \<Rightarrow> pydict \<Rightarrow> string \<Rightarrow> string \<Rightarrow> string \<Rightarrow> string \<Rightarrow> binding" where
  "mk_binding subjects row source relation key identity =
     (let given = py_get row ''coverage'';
          own = (case the (map_of subjects identity) of None \<Rightarrow> ''unknown'' | Some c \<Rightarrow> c);
          coverage = (if py_truthy given then py_str given else own);
          method = (if py_has row ''method'' then py_str (py_get row ''method'') else ''unspecified'') in
      \<lparr>bg_claim = key, bg_subject = identity, bg_relation = relation, bg_source = source, bg_method = method,
       bg_coverage = (if coverage \<in> set COVERAGE_NAMES then coverage else ''unknown''),
       bg_standing = (if take 9 source = ''observer:'' then ''observed'' else ''proposed'')\<rparr>)"

definition check_binding ::
  "string list \<Rightarrow> (string \<times> string option) list \<Rightarrow> pydict \<Rightarrow> string list \<Rightarrow> string \<Rightarrow> claim_error + refused_reason + binding" where
  "check_binding known subjects row allowed source =
     (if py_get row ''relation'' \<notin> PStr ` set (filter (\<lambda>r. r \<in> set allowed) BINDING_RELATIONS)
      then Inr (Inl (Relation_not_permitted (py_get row ''relation'') source))
      else
        bindE (hashed_member (py_get row ''claim_key'') known) (\<lambda>claim.
        case claim of None \<Rightarrow> Inr (Inl Unknown_claim) | Some key \<Rightarrow>
        bindE (hashed_member (py_get row ''subject_identity'') (map fst subjects)) (\<lambda>subject.
        case subject of None \<Rightarrow> Inr (Inl Unknown_subject) | Some identity \<Rightarrow>
        Inr (Inr (mk_binding subjects row source (py_string (py_get row ''relation'')) key identity)))))"

definition check_proposal ::
  "string list \<Rightarrow> (string \<times> string option) list \<Rightarrow> pydict \<Rightarrow> claim_error + refused_reason + binding" where
  "check_proposal known subjects row =
     check_binding known subjects row [''proposed_implementation'', ''depends_on'']
       (if py_has row ''source'' then py_str (py_get row ''source'') else ''model'')"

definition check_observation ::
  "string list \<Rightarrow> (string \<times> string option) list \<Rightarrow> pydict \<Rightarrow> claim_error + refused_reason + binding" where
  "check_observation known subjects row =
     (case py_get row ''observer'' of
        PStr (c # s) \<Rightarrow> check_binding known subjects row (OBSERVED_RELATIONS @ [''depends_on'']) (''observer:'' @ c # s)
      | _ \<Rightarrow> Inr (Inl No_observer))"

text \<open>A refused entry carries the claim key the row named.\<close>

definition bind_implementation_claims ::
  "claim_set \<Rightarrow> (string \<times> string option) list \<Rightarrow> pydict list \<Rightarrow> pydict list
     \<Rightarrow> claim_error + binding list \<times> (pyval \<times> refused_reason) list" where
  "bind_implementation_claims cs subjects observed proposals =
     (let known = map kd_key (cs_claims cs); subjects = rev subjects in
      bindE (mapE (check_proposal known subjects) proposals) (\<lambda>ps.
      bindE (mapE (check_observation known subjects) observed) (\<lambda>obs.
      let rows = zip (proposals @ observed) (ps @ obs) in
      Inr (first_seen (concat (map (\<lambda>r. case r of Inl _ \<Rightarrow> [] | Inr b \<Rightarrow> [b]) (ps @ obs))),
           concat (map (\<lambda>(row, r). case r of Inl why \<Rightarrow> [(py_get row ''claim_key'', why)] | Inr _ \<Rightarrow> []) rows)))))"

section \<open>Derived status\<close>

text \<open>A verified companion result; an absent verdict or currency is \<open>None\<close>.\<close>

record attested =
  at_claim :: string
  at_verdict :: "string option"
  at_currency :: "string option"

record standing =
  sd_proof :: string
  sd_currency :: string
  sd_reasons :: "string list"

definition mk_standing :: "string \<Rightarrow> string \<Rightarrow> string list \<Rightarrow> standing" where
  "mk_standing proof_status currency reasons = \<lparr>sd_proof = proof_status, sd_currency = currency, sd_reasons = reasons\<rparr>"

lemma mk_standing_simps [simp]:
  "sd_proof (mk_standing p c rs) = p" "sd_currency (mk_standing p c rs) = c" "sd_reasons (mk_standing p c rs) = rs"
  by (simp_all add: mk_standing_def)

definition latest_rows :: "(string \<times> claim_def) list \<Rightarrow> attested list \<Rightarrow> (string \<times> attested) list" where
  "latest_rows claims rows =
     fold (\<lambda>a found. if at_claim a \<in> set (map fst claims) then AList.update (at_claim a) a found else found) rows []"

definition supporting :: "edge list \<Rightarrow> string \<Rightarrow> string list" where
  "supporting edges key = map ed_target (filter (\<lambda>e. ed_relation e = ''supported_by'' \<and> ed_source e = key) edges)"

definition established :: "standing \<Rightarrow> bool" where
  "established s \<longleftrightarrow> sd_proof s = ''established'' \<and> sd_currency s = ''current''"

definition obligation_standing :: "attested option \<Rightarrow> string list \<Rightarrow> standing" where
  "obligation_standing row reasons =
     (case row of
        None \<Rightarrow> mk_standing ''insufficient'' ''unobserved'' (reasons @ [''no-attestation''])
      | Some a \<Rightarrow>
          (let currency = (case at_currency a of None \<Rightarrow> ''unobserved'' | Some c \<Rightarrow> c) in
           if at_verdict a = Some ''pass'' \<and> currency = ''current'' \<and> reasons = [] then mk_standing ''established'' ''current'' []
           else mk_standing (if currency = ''rejected'' then ''rejected'' else ''insufficient'') currency
                  (reasons @ (if at_verdict a = Some ''fail'' then [''observed-failure'']
                              else if currency \<noteq> ''current'' then [''attestation-'' @ currency] else []))))"

definition requirement_standing :: "standing list \<Rightarrow> string list \<Rightarrow> standing" where
  "requirement_standing ss reasons =
     (if ss \<noteq> [] \<and> list_all established ss then mk_standing ''established'' ''current'' []
      else mk_standing ''insufficient'' (if ss = [] then ''unobserved'' else ''mixed'') (reasons @ [''obligations-incomplete'']))"

definition predecessor_reason :: "string \<Rightarrow> standing \<Rightarrow> string list" where
  "predecessor_reason dep s = (if established s then [] else [''predecessor-'' @ sd_proof s @ '':'' @ take 12 dep])"

lemma mapE_cong [fundef_cong]: "xs = ys \<Longrightarrow> (\<And>x. x \<in> set ys \<Longrightarrow> f x = g x) \<Longrightarrow> mapE f xs = mapE g ys"
  by (induction xs arbitrary: ys) auto

lemma bindE_cong [fundef_cong]: "m = m' \<Longrightarrow> (\<And>x. m' = Inr x \<Longrightarrow> f x = g x) \<Longrightarrow> bindE m f = bindE m' g"
  by (cases m') auto

text \<open>\<open>proof(key, seen)\<close>: every call adds a key of the set to \<open>seen\<close> and stops on one already there.\<close>

function proof_of ::
  "(string \<times> claim_def) list \<Rightarrow> edge list \<Rightarrow> (string \<times> attested) list \<Rightarrow> string \<Rightarrow> string list \<Rightarrow> claim_error + standing" where
  "proof_of claims edges latest key seen =
     (case map_of claims key of
        None \<Rightarrow> Inl (C_key_error key)
      | Some c \<Rightarrow>
          if key \<in> set seen then Inr (mk_standing ''insufficient'' ''unobserved'' [''dependency-cycle''])
          else
            bindE (mapE (\<lambda>dep.
                case map_of claims dep of
                  None \<Rightarrow> Inl (C_key_error dep)
                | Some d \<Rightarrow>
                    if kd_kind d = ''proof-obligation''
                    then bindE (proof_of claims edges latest dep (seen @ [key])) (\<lambda>s. Inr (predecessor_reason dep s))
                    else Inr []) (kd_depends c)) (\<lambda>found.
            let reasons = concat found in
            if kd_kind c = ''proof-obligation'' then Inr (obligation_standing (map_of latest key) reasons)
            else if kd_kind c = ''requirement''
            then bindE (mapE (\<lambda>t. proof_of claims edges latest t (seen @ [key])) (supporting edges key))
                   (\<lambda>ss. Inr (requirement_standing ss reasons))
            else Inr (mk_standing ''not-applicable'' ''unobserved'' reasons)))"
  by auto

lemma seen_grows:
  "map_of claims key = Some c \<Longrightarrow> key \<notin> set seen \<Longrightarrow>
   card (fst ` set claims - set (seen @ [key])) < card (fst ` set claims - set seen)"
proof -
  assume "map_of claims key = Some c" and new: "key \<notin> set seen"
  then have "key \<in> fst ` set claims" by (force dest: map_of_SomeD)
  with new have "fst ` set claims - set (seen @ [key]) \<subset> fst ` set claims - set seen" by auto
  then show ?thesis by (simp add: psubset_card_mono)
qed

termination proof_of
  by (relation "measure (\<lambda>(claims, edges, latest, key, seen). card (fst ` set claims - set seen))")
     (simp_all add: seen_grows del: set_append)

declare proof_of.simps [simp del]

record status_row =
  st_kind :: string
  st_intent :: string
  st_exploration :: string
  st_proof :: string
  st_currency :: string
  st_sources :: "string list"
  st_reasons :: "string list"

definition status_of ::
  "bool \<Rightarrow> (string \<times> string) list \<Rightarrow> binding list option \<Rightarrow> string \<Rightarrow> claim_def \<Rightarrow> standing \<Rightarrow> status_row" where
  "status_of approved exploration bindings key c s =
     \<lparr>st_kind = kd_kind c, st_intent = (if approved then ''approved'' else ''unapproved''),
      st_exploration = (case map_of exploration key of Some e \<Rightarrow> e
        | None \<Rightarrow> if kd_kind c \<noteq> ''assumption'' then ''not-explored'' else ''unknown''),
      st_proof = sd_proof s, st_currency = sd_currency s,
      st_sources = kd_source c # (case bindings of None \<Rightarrow> [] | Some bs \<Rightarrow> map bg_subject (filter (\<lambda>b. bg_claim b = key) bs)),
      st_reasons = sorted_set (sd_reasons s)\<rparr>"

definition claim_status ::
  "claim_set \<Rightarrow> bool \<Rightarrow> exploratory_set option \<Rightarrow> attested list \<Rightarrow> binding list option
     \<Rightarrow> claim_error + (string \<times> status_row) list" where
  "claim_status cs approved exploratory attestations bindings =
     (let claims = by_key cs; latest = latest_rows claims attestations;
          exploration = (case exploratory of None \<Rightarrow> [] | Some e \<Rightarrow> es_statuses e) in
      mapE (\<lambda>(key, c). bindE (proof_of claims (cs_edges cs) latest key [])
              (\<lambda>s. Inr (key, status_of approved exploration bindings key c s))) claims)"

end
