(* ===== verification/Claim_Facts.thy ===== *)
theory Claim_Facts
  imports Claims
begin

text \<open>
  The facts about claims the properties rest on: what a validated claim set is, and what a standing means
  in the graph of obligations.
\<close>

section \<open>Dictionaries built from distinct keys\<close>

lemma update_new: "k \<notin> fst ` set xs \<Longrightarrow> AList.update k v xs = xs @ [(k, v)]"
  by (induction xs) auto

lemma fold_update_new:
  "distinct (map f xs) \<Longrightarrow> f ` set xs \<inter> fst ` set acc = {} \<Longrightarrow>
   fold (\<lambda>c. AList.update (f c) (g c)) xs acc = acc @ map (\<lambda>c. (f c, g c)) xs"
proof (induction xs arbitrary: acc)
  case (Cons x xs)
  then have "AList.update (f x) (g x) acc = acc @ [(f x, g x)]" by (intro update_new) auto
  with Cons show ?case by auto
qed simp

lemma fold_update_distinct:
  "distinct (map f xs) \<Longrightarrow> fold (\<lambda>c. AList.update (f c) (g c)) xs [] = map (\<lambda>c. (f c, g c)) xs"
  using fold_update_new [of f xs "[]" g] by simp

lemma by_key_distinct: "distinct (map kd_key (cs_claims cs)) \<Longrightarrow> by_key cs = map (\<lambda>c. (kd_key c, c)) (cs_claims cs)"
  unfolding by_key_def by (rule fold_update_distinct)

lemma map_of_keyed: "distinct (map f xs) \<Longrightarrow> x \<in> set xs \<Longrightarrow> map_of (map (\<lambda>c. (f c, g c)) xs) (f x) = Some (g x)"
  by (simp add: comp_def)

lemma map_of_keyed_Some:
  "map_of (map (\<lambda>c. (f c, g c)) xs) k = Some v \<Longrightarrow> \<exists>x \<in> set xs. f x = k \<and> g x = v"
  by (induction xs) (auto split: if_splits)

section \<open>Validated claim sets\<close>

definition dependency_graph :: "claim_set \<Rightarrow> (string \<times> string list) list" where
  "dependency_graph cs = map (\<lambda>c. (kd_key c, kd_depends c)) (cs_claims cs)"

definition claim_keys :: "claim_set \<Rightarrow> string set" where
  "claim_keys cs = kd_key ` set (cs_claims cs)"

definition authority_ok :: "spine_policy \<Rightarrow> claim_def \<Rightarrow> bool" where
  "authority_ok policy c \<longleftrightarrow>
     (case kd_authority c of
        None \<Rightarrow> kd_kind c \<noteq> ''proof-obligation''
      | Some a \<Rightarrow> kd_kind c = ''proof-obligation'' \<and> a \<in> rq_id ` set (sp_requirements policy))"

text \<open>What a claim set promises: unique keys in one scope, dependencies and edges on known claims without
  a cycle, protected authority profiles on the obligations only, every requirement supported.\<close>

definition claims_well_formed :: "claim_set \<Rightarrow> spine_policy \<Rightarrow> bool" where
  "claims_well_formed cs policy \<longleftrightarrow>
     distinct (map kd_key (cs_claims cs))
     \<and> (\<forall>c \<in> set (cs_claims cs). kd_kind c \<in> set KINDS \<and> kd_project c = cs_project cs \<and> kd_spec c = cs_spec cs
          \<and> set (kd_depends c) \<subseteq> claim_keys cs \<and> authority_ok policy c)
     \<and> (\<forall>e \<in> set (cs_edges cs). ed_relation e \<in> set RELATIONS \<and> ed_source e \<in> claim_keys cs \<and> ed_target e \<in> claim_keys cs)
     \<and> (\<forall>k. \<not> (node_dep (dependency_graph cs))\<^sup>+\<^sup>+ k k)
     \<and> (\<forall>c \<in> set (cs_claims cs). kd_kind c = ''requirement'' \<longrightarrow> supporting (cs_edges cs) (kd_key c) \<noteq> [])"

lemma mapE_ensure: "mapE (\<lambda>x. ensure (P x) (e x)) xs = Inr u \<longleftrightarrow> list_all P xs \<and> u = replicate (length xs) ()"
  by (induction xs arbitrary: u) (auto simp: bindE_eq_Inr)

lemma check_claims_iff:
  "check_claims cs seen xs = Inr () \<longleftrightarrow>
     distinct (map kd_key xs) \<and> set seen \<inter> kd_key ` set xs = {}
     \<and> (\<forall>c \<in> set xs. kd_kind c \<in> set KINDS \<and> kd_project c = cs_project cs \<and> kd_spec c = cs_spec cs)"
  by (induction xs arbitrary: seen) (auto simp: bindE_eq_Inr)

lemma check_dependencies_iff:
  "check_dependencies keys (map rq_id (sp_requirements policy)) c = Inr () \<longleftrightarrow>
     set (kd_depends c) \<subseteq> set keys \<and> authority_ok policy c"
  unfolding check_dependencies_def authority_ok_def
  by (simp add: bindE_eq_Inr mapE_ensure list_all_iff subset_iff split: option.splits) auto

lemma check_acyclic_iff: "check_acyclic what g = Inr () \<longleftrightarrow> (\<forall>k. \<not> (node_dep g)\<^sup>+\<^sup>+ k k)"
  unfolding find_cycle_None_iff [symmetric] by (simp add: check_acyclic_def split: option.splits)

lemma supporting_Nil_iff:
  "supporting es k \<noteq> [] \<longleftrightarrow> list_ex (\<lambda>e. ed_relation e = ''supported_by'' \<and> ed_source e = k) es"
  by (auto simp: supporting_def filter_empty_conv list_ex_iff)

lemma unit_result: "(\<exists>u :: unit. m = Inr u) \<longleftrightarrow> m = Inr ()"
  by auto

lemma validate_claim_set_iff: "validate_claim_set cs policy = Inr () \<longleftrightarrow> claims_well_formed cs policy"
proof (cases "check_claims cs [] (cs_claims cs) = Inr ()")
  case True
  then have base: "distinct (map kd_key (cs_claims cs))"
    "\<forall>c \<in> set (cs_claims cs). kd_kind c \<in> set KINDS \<and> kd_project c = cs_project cs \<and> kd_spec c = cs_spec cs"
    by (simp_all add: check_claims_iff)
  have graph: "map (\<lambda>(k, c). (k, kd_depends c)) (by_key cs) = dependency_graph cs"
    by (simp add: by_key_distinct [OF base(1)] dependency_graph_def)
  have deps: "(\<exists>u. mapE (check_dependencies (map kd_key (cs_claims cs)) (map rq_id (sp_requirements policy))) (cs_claims cs) = Inr u)
    \<longleftrightarrow> (\<forall>c \<in> set (cs_claims cs). set (kd_depends c) \<subseteq> claim_keys cs \<and> authority_ok policy c)"
    by (simp add: mapE_unit unit_result check_dependencies_iff claim_keys_def)
  show ?thesis
    using True base
    unfolding validate_claim_set_def claims_well_formed_def Let_def graph
    by (simp add: bindE_eq_Inr deps [simplified] check_acyclic_iff mapE_ensure claim_keys_def supporting_Nil_iff list_all_iff)
next
  case False
  then have "\<not> claims_well_formed cs policy" by (auto simp: check_claims_iff claims_well_formed_def)
  moreover have "validate_claim_set cs policy \<noteq> Inr ()"
    using False by (auto simp: validate_claim_set_def bindE_eq_Inr)
  ultimately show ?thesis by blast
qed

section \<open>What a standing means\<close>

definition is_obligation :: "claim_set \<Rightarrow> string \<Rightarrow> bool" where
  "is_obligation cs k \<longleftrightarrow> (\<exists>c \<in> set (cs_claims cs). kd_key c = k \<and> kd_kind c = ''proof-obligation'')"

definition needs :: "claim_set \<Rightarrow> string \<Rightarrow> string \<Rightarrow> bool" where
  "needs cs x y \<longleftrightarrow> node_dep (dependency_graph cs) x y \<and> is_obligation cs y"

definition passes :: "(string \<times> attested) list \<Rightarrow> string \<Rightarrow> bool" where
  "passes latest k \<longleftrightarrow> (\<exists>a. map_of latest k = Some a \<and> at_verdict a = Some ''pass'' \<and> at_currency a = Some ''current'')"

lemma established_mk [simp]:
  "established (mk_standing p c rs) \<longleftrightarrow> p = ''established'' \<and> c = ''current''"
  by (simp add: established_def)

lemma obligation_standing_iff:
  "established (obligation_standing (map_of latest k) reasons) \<longleftrightarrow> passes latest k \<and> reasons = []"
  by (auto simp: obligation_standing_def passes_def Let_def split: option.splits)

lemma requirement_standing_iff:
  "established (requirement_standing ss reasons) \<longleftrightarrow> ss \<noteq> [] \<and> list_all established ss"
  by (simp add: requirement_standing_def)

lemma claim_lookup:
  assumes "claims_well_formed cs policy" and "c \<in> set (cs_claims cs)"
  shows "map_of (by_key cs) (kd_key c) = Some c"
  using assms by (simp add: claims_well_formed_def by_key_distinct map_of_keyed [where g = "\<lambda>c. c"])

lemma obligation_kind:
  assumes wf: "claims_well_formed cs policy" and c: "c \<in> set (cs_claims cs)"
  shows "is_obligation cs (kd_key c) \<longleftrightarrow> kd_kind c = ''proof-obligation''"
proof
  assume "is_obligation cs (kd_key c)"
  then obtain d where d: "d \<in> set (cs_claims cs)" "kd_key d = kd_key c" "kd_kind d = ''proof-obligation''"
    unfolding is_obligation_def by (elim bexE conjE) (rule that)
  have "Some d = Some c"
    using claim_lookup [OF wf d(1), unfolded d(2)] claim_lookup [OF wf c] by (rule trans [OF sym])
  then have "d = c" by (rule option.inject [THEN iffD1])
  with d(3) show "kd_kind c = ''proof-obligation''" by simp
next
  assume "kd_kind c = ''proof-obligation''"
  with c show "is_obligation cs (kd_key c)" unfolding is_obligation_def by (intro bexI [of _ c] conjI) simp_all
qed

lemma graph_deps:
  "distinct (map kd_key (cs_claims cs)) \<Longrightarrow> c \<in> set (cs_claims cs) \<Longrightarrow> deps_of (dependency_graph cs) (kd_key c) = kd_depends c"
  using map_of_keyed [of kd_key "cs_claims cs" c kd_depends] by (simp add: deps_of_def dependency_graph_def)

lemma graph_keys: "fst ` set (dependency_graph cs) = claim_keys cs"
  by (auto simp: dependency_graph_def claim_keys_def image_iff)

lemma claim_deps:
  assumes "claims_well_formed cs policy" and "c \<in> set (cs_claims cs)"
  shows "node_dep (dependency_graph cs) (kd_key c) d \<longleftrightarrow> d \<in> set (kd_depends c)"
proof -
  have "distinct (map kd_key (cs_claims cs))" and known: "set (kd_depends c) \<subseteq> claim_keys cs"
    using assms by (auto simp: claims_well_formed_def)
  then have "deps_of (dependency_graph cs) (kd_key c) = kd_depends c" using assms(2) by (intro graph_deps)
  moreover note graph_keys [of cs]
  ultimately show ?thesis using known by (auto simp: node_dep_def depends_def)
qed

lemma closure_split:
  "(\<forall>j. R\<^sup>*\<^sup>* k j \<longrightarrow> P j) \<longleftrightarrow> P k \<and> (\<forall>d. R k d \<longrightarrow> (\<forall>j. R\<^sup>*\<^sup>* d j \<longrightarrow> P j))"
proof (intro iffI conjI allI impI)
  fix d j
  assume "\<forall>j. R\<^sup>*\<^sup>* k j \<longrightarrow> P j" and "R k d" and "R\<^sup>*\<^sup>* d j"
  then show "P j" using converse_rtranclp_into_rtranclp [of R k d j] by simp
next
  fix j
  assume h: "P k \<and> (\<forall>d. R k d \<longrightarrow> (\<forall>j. R\<^sup>*\<^sup>* d j \<longrightarrow> P j))" and "R\<^sup>*\<^sup>* k j"
  from this(2) show "P j" by (rule converse_rtranclpE) (use h in auto)
qed simp

lemma mapE_concat_Nil: "mapE f xs = Inr ys \<Longrightarrow> concat ys = [] \<longleftrightarrow> (\<forall>x \<in> set xs. f x = Inr [])"
  by (induction xs arbitrary: ys) (auto simp: bindE_eq_Inr)

lemma obligation_established:
  assumes wf: "claims_well_formed cs policy"
  shows "is_obligation cs k \<Longrightarrow> (\<And>j. (needs cs)\<^sup>*\<^sup>* k j \<Longrightarrow> j \<notin> set seen) \<Longrightarrow>
    \<exists>s. proof_of (by_key cs) es latest k seen = Inr s \<and> (established s \<longleftrightarrow> (\<forall>j. (needs cs)\<^sup>*\<^sup>* k j \<longrightarrow> passes latest j))"
proof (induction k arbitrary: seen rule: wf_induct_rule [OF acyclic_wf [of "dependency_graph cs"]])
  case 1
  with wf show ?case by (simp add: claims_well_formed_def)
next
  case (2 k)
  let ?R = "node_dep (dependency_graph cs)"
  obtain c where c: "c \<in> set (cs_claims cs)" "kd_key c = k" "kd_kind c = ''proof-obligation''"
    using 2(2) by (auto simp: is_obligation_def)
  note lookup = claim_lookup [OF wf]
  have fresh: "k \<notin> set seen" using 2(3) by blast
  let ?f = "\<lambda>dep. case map_of (by_key cs) dep of None \<Rightarrow> Inl (C_key_error dep)
     | Some d \<Rightarrow> if kd_kind d = ''proof-obligation''
         then bindE (proof_of (by_key cs) es latest dep (seen @ [k])) (\<lambda>s. Inr (predecessor_reason dep s)) else Inr []"
  have dep: "\<exists>rs. ?f d = Inr rs \<and> (rs = [] \<longleftrightarrow> (needs cs k d \<longrightarrow> (\<forall>j. (needs cs)\<^sup>*\<^sup>* d j \<longrightarrow> passes latest j)))"
    if d: "d \<in> set (kd_depends c)" for d
  proof -
    have R: "?R k d" using claim_deps [OF wf c(1)] c(2) d by simp
    have "d \<in> claim_keys cs" using wf c(1) d by (auto simp: claims_well_formed_def)
    then obtain e where e: "e \<in> set (cs_claims cs)" "kd_key e = d" by (auto simp: claim_keys_def)
    have same: "is_obligation cs d \<longleftrightarrow> kd_kind e = ''proof-obligation''"
      using obligation_kind [OF wf e(1)] e(2) by simp
    show ?thesis
    proof (cases "kd_kind e = ''proof-obligation''")
      case True
      then have ob: "is_obligation cs d" by (simp add: same)
      have kd: "needs cs k d" using R ob by (simp add: needs_def)
      have "j \<notin> set (seen @ [k])" if "(needs cs)\<^sup>*\<^sup>* d j" for j
      proof -
        from kd that have "(needs cs)\<^sup>+\<^sup>+ k j" by (rule rtranclp_into_tranclp2)
        then have "?R\<^sup>+\<^sup>+ k j" by (induction rule: tranclp_induct) (auto simp: needs_def intro: tranclp.intros)
        then have "j \<noteq> k" using wf by (auto simp: claims_well_formed_def)
        moreover have "(needs cs)\<^sup>*\<^sup>* k j" using kd that by (rule converse_rtranclp_into_rtranclp)
        ultimately show ?thesis using 2(3) by simp
      qed
      from 2(1) [OF _ ob this] R obtain s where
        "proof_of (by_key cs) es latest d (seen @ [k]) = Inr s" "established s \<longleftrightarrow> (\<forall>j. (needs cs)\<^sup>*\<^sup>* d j \<longrightarrow> passes latest j)"
        by auto
      with lookup [OF e(1)] e(2) True R ob show ?thesis by (auto simp: predecessor_reason_def needs_def)
    next
      case False
      with lookup [OF e(1)] e(2) same show ?thesis by (auto simp: needs_def)
    qed
  qed
  then have "\<exists>u. mapE ?f (kd_depends c) = Inr u" by (auto simp: mapE_unit)
  then obtain found where found: "mapE ?f (kd_depends c) = Inr found" by blast
  from mapE_concat_Nil [OF found]
  have "concat found = [] \<longleftrightarrow> (\<forall>d \<in> set (kd_depends c). ?f d = Inr [])" .
  also have "\<dots> \<longleftrightarrow> (\<forall>d. needs cs k d \<longrightarrow> (\<forall>j. (needs cs)\<^sup>*\<^sup>* d j \<longrightarrow> passes latest j))"
  proof -
    have "?f d = Inr [] \<longleftrightarrow> (needs cs k d \<longrightarrow> (\<forall>j. (needs cs)\<^sup>*\<^sup>* d j \<longrightarrow> passes latest j))" if "d \<in> set (kd_depends c)" for d
      using dep [OF that] by (metis sum.inject(2))
    moreover have "d \<in> set (kd_depends c)" if "needs cs k d" for d
      using that claim_deps [OF wf c(1)] c(2) by (simp add: needs_def)
    ultimately show ?thesis by blast
  qed
  finally have reasons: "concat found = [] \<longleftrightarrow> (\<forall>d. needs cs k d \<longrightarrow> (\<forall>j. (needs cs)\<^sup>*\<^sup>* d j \<longrightarrow> passes latest j))" .
  have closure: "(\<forall>j. (needs cs)\<^sup>*\<^sup>* k j \<longrightarrow> passes latest j) \<longleftrightarrow> passes latest k \<and> concat found = []"
    unfolding reasons by (rule closure_split)
  have "proof_of (by_key cs) es latest k seen = Inr (obligation_standing (map_of latest k) (concat found))"
    using lookup [OF c(1)] c(2,3) fresh found by (simp add: proof_of.simps [of _ _ _ k seen] Let_def)
  then show ?case by (simp add: obligation_standing_iff closure)
qed

end
