(* ===== verification/Claim_Binding.thy ===== *)
theory Claim_Binding
  imports Claim_Facts "HOL-Library.Multiset"
begin

text \<open>
  What \<open>bind_programme_claims\<close> builds: the exact conditions under which it succeeds, the obligations and
  edges of the claim set, and what the standing of a requirement means for the items of the programme.
\<close>

section \<open>A bound programme\<close>

lemma requirement_keys_compiled:
  assumes "compile_requirement_claims sha spec repository project approval = Inr rs"
  shows "requirement_keys rs = map (\<lambda>r. (fst r, requirement_key sha repository project (rs_spec rs) (fst r))) (sort (spec_rows spec))"
    and "distinct (map fst (requirement_keys rs))"
    and "rs_spec rs = sha256_value sha spec"
    and "map kd_key (rs_claims rs) = map snd (requirement_keys rs)"
    and "\<And>c. c \<in> set (rs_claims rs) \<Longrightarrow> kd_kind c = ''requirement'' \<and> kd_depends c = [] \<and> kd_authority c = None
           \<and> kd_project c = rs_project rs \<and> kd_spec c = rs_spec rs"
    and "set (map fst (requirement_keys rs)) = set (spec_acceptance_ids spec)"
proof -
  let ?rows = "sort (spec_rows spec)"
  let ?c = "requirement_claim sha repository project (sha256_value sha spec)"
  from assms have d: "distinct (map fst (spec_rows spec))"
    and rs: "rs = \<lparr>rs_repository = repository, rs_project = project, rs_spec = sha256_value sha spec, rs_claims = map ?c ?rows\<rparr>"
    by (simp_all add: compile_requirement_claims_def Let_def bindE_eq_Inr)
  have "mset (map fst ?rows) = mset (map fst (spec_rows spec))" by (simp only: mset_map mset_sort)
  with d have d': "distinct (map fst ?rows)" using mset_eq_imp_distinct_iff by blast
  have c: "hd (kd_acceptance (?c r)) = fst r" "kd_key (?c r) = requirement_key sha repository project (sha256_value sha spec) (fst r)" for r
    by (cases r; simp add: requirement_claim_def)+
  show spec: "rs_spec rs = sha256_value sha spec" by (simp add: rs)
  have "fold (\<lambda>c. AList.update (hd (kd_acceptance c)) (kd_key c)) (map ?c ?rows) [] =
     map (\<lambda>c. (hd (kd_acceptance c), kd_key c)) (map ?c ?rows)"
    by (rule fold_update_distinct) (simp only: map_map comp_def c d')
  then show keys: "requirement_keys rs = map (\<lambda>r. (fst r, requirement_key sha repository project (rs_spec rs) (fst r))) ?rows"
    by (simp add: requirement_keys_def rs c)
  show "distinct (map fst (requirement_keys rs))" using d' by (simp add: keys comp_def)
  show "map kd_key (rs_claims rs) = map snd (requirement_keys rs)" unfolding keys by (simp add: rs c)
  show "kd_kind c = ''requirement'' \<and> kd_depends c = [] \<and> kd_authority c = None
           \<and> kd_project c = rs_project rs \<and> kd_spec c = rs_spec rs" if "c \<in> set (rs_claims rs)" for c
    using that by (auto simp: rs requirement_claim_def)
  show "set (map fst (requirement_keys rs)) = set (spec_acceptance_ids spec)"
    by (simp add: keys spec_acceptance_ids_def comp_def)
qed

lemma own_criteria_eq:
  "own_criteria keys i acs owners = Inr owners' \<longleftrightarrow>
     owners' = owners @ acs \<and> set acs \<subseteq> fst ` set keys \<and> distinct acs \<and> set acs \<inter> set owners = {}"
  by (induction acs arbitrary: owners) (auto simp: bindE_eq_Inr)

definition own_keys :: "(string \<times> string) list \<Rightarrow> item \<Rightarrow> string list" where
  "own_keys keys it = sort (map (\<lambda>ac. the (map_of keys ac)) (it_acceptance it))"

lemma assign_items_eq:
  "assign_items keys ids rows owners found = Inr r \<longleftrightarrow>
     (let criteria = concat (map (it_acceptance \<circ> snd) rows) in
      r = (owners @ criteria, found @ map (\<lambda>(i, it). (i, own_keys keys it)) rows)
      \<and> list_all (\<lambda>(i, it). it_acceptance it \<noteq> [] \<and> set (it_blocked it) \<subseteq> set ids) rows
      \<and> set criteria \<subseteq> fst ` set keys \<and> distinct criteria \<and> set criteria \<inter> set owners = {})"
proof (induction rows arbitrary: owners found)
  case Nil
  then show ?case by (auto simp: Let_def)
next
  case (Cons row rows)
  obtain i it where row: "row = (i, it)" by (cases row)
  show ?case
    unfolding row
    by (simp add: bindE_eq_Inr own_criteria_eq mapE_ensure list_all_iff Cons.IH Let_def own_keys_def [symmetric])
       (auto simp: subset_iff)
qed

definition item_rows :: "programme \<Rightarrow> (string \<times> item) list" where
  "item_rows p = sort_key fst (item_map p)"

definition item_keys :: "requirement_set \<Rightarrow> programme \<Rightarrow> (string \<times> string list) list" where
  "item_keys rs p = map (\<lambda>(i, it). (i, own_keys (requirement_keys rs) it)) (item_rows p)"

definition bound_parts :: "(string \<Rightarrow> string) \<Rightarrow> requirement_set \<Rightarrow> programme \<Rightarrow> spine_policy \<Rightarrow> string \<times> item \<Rightarrow> claim_requirement \<Rightarrow> claim_def \<times> edge list" where
  "bound_parts sha rs p policy = obligation_parts sha rs policy (obligation_key sha rs p policy) (item_keys rs p)"

definition bound_claims :: "(string \<Rightarrow> string) \<Rightarrow> requirement_set \<Rightarrow> programme \<Rightarrow> spine_policy \<Rightarrow> claim_set" where
  "bound_claims sha rs p policy = assemble_claims sha rs p policy (item_keys rs p) (item_rows p)
     (map (\<lambda>row. map (bound_parts sha rs p policy row) (sp_requirements policy)) (item_rows p))"

text \<open>The checks of the binding itself: every criterion has one item, no item is without one, blockers are items.\<close>

definition work_assigned :: "(string \<times> string) list \<Rightarrow> (string \<times> item) list \<Rightarrow> bool" where
  "work_assigned keys rows \<longleftrightarrow>
     list_all (\<lambda>(i, it). it_acceptance it \<noteq> [] \<and> set (it_blocked it) \<subseteq> fst ` set rows) rows
     \<and> distinct (concat (map (it_acceptance \<circ> snd) rows))
     \<and> set (concat (map (it_acceptance \<circ> snd) rows)) = fst ` set keys"

definition requires_closed :: "spine_policy \<Rightarrow> bool" where
  "requires_closed policy \<longleftrightarrow> list_all (\<lambda>r. set (rq_requires r) \<subseteq> rq_id ` set (sp_requirements policy)) (sp_requirements policy)"

lemma mapE_total: "(\<And>x. x \<in> set xs \<Longrightarrow> f x = Inr (g x)) \<Longrightarrow> mapE f xs = Inr (map g xs)"
  by (induction xs) auto

lemma obligation_claim_eq:
  "obligation_claim sha rs policy okey reqs row r = Inr y \<longleftrightarrow>
     set (rq_requires r) \<subseteq> rq_id ` set (sp_requirements policy) \<and> y = obligation_parts sha rs policy okey reqs row r"
  by (auto simp: obligation_claim_def bindE_eq_Inr mapE_ensure list_all_iff)

lemma obligation_claims_eq:
  assumes "rows \<noteq> []"
  shows "mapE (\<lambda>row. mapE (obligation_claim sha rs policy okey reqs row) (sp_requirements policy)) rows = Inr found \<longleftrightarrow>
     requires_closed policy
     \<and> found = map (\<lambda>row. map (obligation_parts sha rs policy okey reqs row) (sp_requirements policy)) rows"
    (is "mapE ?f rows = _ \<longleftrightarrow> _ \<and> found = ?g")
proof
  assume h: "mapE ?f rows = Inr found"
  obtain row where "row \<in> set rows" using assms by (cases rows) auto
  with h have "\<exists>y. ?f row = Inr y" by (metis mapE_unit)
  then have "\<forall>r \<in> set (sp_requirements policy). \<exists>y. obligation_claim sha rs policy okey reqs row r = Inr y" by (simp only: mapE_unit)
  then have closed: "requires_closed policy" by (simp add: requires_closed_def list_all_iff obligation_claim_eq)
  then have "mapE ?f rows = Inr ?g"
    by (intro mapE_total) (simp add: requires_closed_def list_all_iff obligation_claim_eq)
  with h closed show "requires_closed policy \<and> found = ?g" by simp
next
  assume h: "requires_closed policy \<and> found = ?g"
  then show "mapE ?f rows = Inr found"
    by (simp only:) (intro mapE_total, simp add: requires_closed_def list_all_iff obligation_claim_eq)
qed

lemma obligation_parts_key [simp]:
  "kd_key (fst (obligation_parts sha rs policy okey reqs row r)) = okey (fst row) (rq_id r)"
  by (cases row) (simp add: obligation_parts_def Let_def)

lemma map2_same: "map2 (\<lambda>row cs. (fst row, f cs)) rows (map g rows) = map (\<lambda>row. (fst row, f (g row))) rows"
  by (induction rows) auto

lemma bind_programme_eq:
  assumes keys: "distinct (map fst (requirement_keys rs))" and some: "requirement_keys rs \<noteq> []"
  shows "bind_programme_claims sha rs p strategy policy = Inr cs \<longleftrightarrow>
     sha256_value sha (pg_spec p) = rs_spec rs
     \<and> work_assigned (requirement_keys rs) (item_rows p)
     \<and> (\<forall>k. \<not> (node_dep (map (\<lambda>(i, it). (i, it_blocked it)) (item_map p)))\<^sup>+\<^sup>+ k k)
     \<and> strategy_bound (rs_spec rs) strategy = Inr () \<and> sp_requirements policy \<noteq> [] \<and> requires_closed policy
     \<and> cs = bound_claims sha rs p policy \<and> claims_well_formed cs policy"
proof (cases "sha256_value sha (pg_spec p) = rs_spec rs \<and> work_assigned (requirement_keys rs) (item_rows p)")
  case True
  let ?rows = "item_rows p" and ?keys = "requirement_keys rs"
  define criteria where "criteria = concat (map (it_acceptance \<circ> snd) ?rows)"
  from True have work: "list_all (\<lambda>(i, it). it_acceptance it \<noteq> [] \<and> set (it_blocked it) \<subseteq> fst ` set ?rows) ?rows"
    "distinct criteria" "set criteria = fst ` set ?keys" by (simp_all only: work_assigned_def criteria_def)
  have assign: "assign_items ?keys (map fst ?rows) ?rows [] [] = Inr (criteria, item_keys rs p)"
    unfolding assign_items_eq Let_def criteria_def [symmetric] using work by (simp add: list_all_iff item_keys_def)
  have rows: "?rows \<noteq> []" using work(3) some by (auto simp: criteria_def)
  have none: "filter (\<lambda>ac. ac \<notin> set criteria) (map fst ?keys) = []" using work(3) by (simp add: filter_empty_conv)
  show ?thesis
    using True
    by (auto simp: bind_programme_claims_def Let_def bindE_eq_Inr item_rows_def [symmetric] assign none
          check_acyclic_iff obligation_claims_eq [OF rows] validate_claim_set_iff bound_claims_def bound_parts_def)
next
  case False
  have "\<not> work_assigned (requirement_keys rs) (item_rows p) \<Longrightarrow> bind_programme_claims sha rs p strategy policy \<noteq> Inr cs"
    by (auto simp: bind_programme_claims_def Let_def bindE_eq_Inr item_rows_def [symmetric] assign_items_eq work_assigned_def filter_empty_conv
        split: prod.splits)
  with False show ?thesis by (auto simp: bind_programme_claims_def bindE_eq_Inr)
qed

section \<open>The obligations of a bound programme\<close>

lemma bound_claims_simps:
  "cs_claims (bound_claims sha rs p policy) =
     rs_claims rs @ concat (map (\<lambda>row. map (\<lambda>r. fst (bound_parts sha rs p policy row r)) (sp_requirements policy)) (item_rows p))"
  "cs_project (bound_claims sha rs p policy) = rs_project rs"
  "cs_spec (bound_claims sha rs p policy) = rs_spec rs"
  "cs_item_obligations (bound_claims sha rs p policy) =
     map (\<lambda>row. (fst row, map (\<lambda>r. obligation_key sha rs p policy (fst row) (rq_id r)) (sp_requirements policy))) (item_rows p)"
  by (simp_all add: bound_claims_def assemble_claims_def Let_def bound_parts_def map2_same comp_def)

lemma fold_update_keys: "distinct (map fst acc) \<Longrightarrow> distinct (map fst (fold (\<lambda>c. AList.update (f c) (g c)) xs acc))"
  by (induction xs arbitrary: acc) (simp_all add: distinct_update)

lemma item_rows_distinct: "distinct (map fst (item_rows p))"
proof -
  have "distinct (map fst (item_map p))"
    unfolding item_map_def by (rule fold_update_keys) simp
  moreover have "mset (map fst (item_rows p)) = mset (map fst (item_map p))"
    by (simp only: item_rows_def mset_map mset_sort)
  ultimately show ?thesis using mset_eq_imp_distinct_iff by blast
qed

lemma item_rows_set [simp]: "set (item_rows p) = set (item_map p)"
  by (simp add: item_rows_def)

lemma item_keys_lookup: "(i, it) \<in> set (item_rows p) \<Longrightarrow> the (map_of (item_keys rs p) i) = own_keys (requirement_keys rs) it"
  using map_of_keyed [OF item_rows_distinct, of "(i, it)" p "\<lambda>row. own_keys (requirement_keys rs) (snd row)"]
  by (simp add: item_keys_def case_prod_unfold)

lemma bound_depends:
  assumes "(i, it) \<in> set (item_rows p)"
  shows "set (kd_depends (fst (bound_parts sha rs p policy (i, it) r))) =
    set (own_keys (requirement_keys rs) it) \<union> obligation_key sha rs p policy i ` set (rq_requires r)
    \<union> (\<Union>b \<in> set (it_blocked it). obligation_key sha rs p policy b ` set (final_profiles policy))"
  by (auto simp: bound_parts_def obligation_parts_def Let_def item_keys_lookup [OF assms])

lemma bound_kind [simp]: "kd_kind (fst (bound_parts sha rs p policy row r)) = ''proof-obligation''"
  by (cases row) (simp add: bound_parts_def obligation_parts_def Let_def)

lemma bound_key [simp]: "kd_key (fst (bound_parts sha rs p policy row r)) = obligation_key sha rs p policy (fst row) (rq_id r)"
  by (simp add: bound_parts_def)

lemma bound_edges:
  "set (cs_edges (bound_claims sha rs p policy)) =
     (\<Union>row \<in> set (item_rows p). \<Union>r \<in> set (sp_requirements policy). set (snd (bound_parts sha rs p policy row r)))
     \<union> (\<Union>row \<in> set (item_rows p). set (blocker_edges policy (obligation_key sha rs p policy)
            (cs_item_obligations (bound_claims sha rs p policy)) row))"
  by (simp add: bound_claims_def assemble_claims_def Let_def)

lemma collect_image:
  "{g e | e. \<exists>i it r. P i it \<and> Q i it \<and> S r \<and> e = f i r} = {g (f i r) | i it r. P i it \<and> Q i it \<and> S r}"
  by blast

lemma bound_supporting:
  "set (supporting (cs_edges (bound_claims sha rs p policy)) q) =
     {obligation_key sha rs p policy i (rq_id r) | i it r.
        (i, it) \<in> set (item_rows p) \<and> q \<in> set (own_keys (requirement_keys rs) it) \<and> r \<in> set (sp_requirements policy)}"
proof -
  have A: "set (supporting es q) = {ed_target e | e. e \<in> set es \<and> ed_relation e = ''supported_by'' \<and> ed_source e = q}" for es
    by (auto simp: supporting_def)
  have B: "e \<in> set (cs_edges (bound_claims sha rs p policy)) \<and> ed_relation e = ''supported_by'' \<and> ed_source e = q
    \<longleftrightarrow> (\<exists>i it r. (i, it) \<in> set (item_rows p) \<and> q \<in> set (own_keys (requirement_keys rs) it) \<and> r \<in> set (sp_requirements policy)
          \<and> e = mk_edge ''supported_by'' q (obligation_key sha rs p policy i (rq_id r)))" for e
  proof -
    have "e \<in> set (blocker_edges policy okey obligations row) \<Longrightarrow> ed_relation e \<noteq> ''supported_by''" for okey obligations row
      by (cases row) (auto simp: blocker_edges_def)
    moreover have "e \<in> set (snd (bound_parts sha rs p policy (i, it) r)) \<and> ed_relation e = ''supported_by'' \<and> ed_source e = q
      \<longleftrightarrow> q \<in> set (own_keys (requirement_keys rs) it) \<and> e = mk_edge ''supported_by'' q (obligation_key sha rs p policy i (rq_id r))"
      if "(i, it) \<in> set (item_rows p)" for i it r
      using item_keys_lookup [OF that] by (auto simp: bound_parts_def obligation_parts_def Let_def)
    ultimately show ?thesis unfolding bound_edges by fast
  qed
  show ?thesis
    unfolding A B collect_image mk_edge_simps ..
qed

section \<open>What the standing of a requirement means\<close>

text \<open>The blocker graph of the items and the items one waits for, itself included.\<close>

definition blocker_graph :: "programme \<Rightarrow> (string \<times> string list) list" where
  "blocker_graph p = map (\<lambda>row. (fst row, it_blocked (snd row))) (item_map p)"

definition waits_for :: "programme \<Rightarrow> string \<Rightarrow> string list" where
  "waits_for p i = closure_of (blocker_graph p) [i]"

lemma item_map_distinct: "distinct (map fst (item_map p))"
  unfolding item_map_def by (rule fold_update_keys) simp

lemma blocker_deps: "(i, it) \<in> set (item_map p) \<Longrightarrow> deps_of (blocker_graph p) i = it_blocked it"
  using map_of_keyed [OF item_map_distinct, of "(i, it)" p "\<lambda>row. it_blocked (snd row)"]
  by (simp add: deps_of_def blocker_graph_def)

text \<open>A claim set as \<open>bind_programme_claims\<close> builds it, over requirement claims and a policy whose
  requirements all ask for final evidence.\<close>

definition bound :: "(string \<Rightarrow> string) \<Rightarrow> requirement_set \<Rightarrow> programme \<Rightarrow> spine_policy \<Rightarrow> claim_set \<Rightarrow> bool" where
  "bound sha rs p policy cs \<longleftrightarrow>
     cs = bound_claims sha rs p policy \<and> claims_well_formed cs policy \<and> work_assigned (requirement_keys rs) (item_rows p)
     \<and> list_all rq_final (sp_requirements policy) \<and> sp_requirements policy \<noteq> [] \<and> requires_closed policy
     \<and> distinct (map fst (requirement_keys rs)) \<and> map kd_key (rs_claims rs) = map snd (requirement_keys rs)
     \<and> (\<forall>c \<in> set (rs_claims rs). kd_kind c = ''requirement'' \<and> kd_depends c = [])"

lemma bound_wf: "bound sha rs p policy cs \<Longrightarrow> claims_well_formed cs policy"
  unfolding bound_def by (elim conjE)

lemma bound_blockers:
  "bound sha rs p policy cs \<Longrightarrow> (i, it) \<in> set (item_map p) \<Longrightarrow> b \<in> set (it_blocked it) \<Longrightarrow> \<exists>bit. (b, bit) \<in> set (item_map p)"
  by (force simp: bound_def work_assigned_def list_all_iff)

lemma bound_final: "bound sha rs p policy cs \<Longrightarrow> final_profiles policy = map rq_id (sp_requirements policy)"
  by (auto simp: bound_def final_profiles_def list_all_iff)

lemma bound_obligation:
  assumes "bound sha rs p policy cs" and "(i, it) \<in> set (item_map p)" and "r \<in> set (sp_requirements policy)"
  shows "fst (bound_parts sha rs p policy (i, it) r) \<in> set (cs_claims cs)"
    and "is_obligation cs (obligation_key sha rs p policy i (rq_id r))"
proof -
  show mem: "fst (bound_parts sha rs p policy (i, it) r) \<in> set (cs_claims cs)"
    using assms by (force simp: bound_def bound_claims_simps)
  have "is_obligation cs (kd_key (fst (bound_parts sha rs p policy (i, it) r)))"
    by (simp only: obligation_kind [OF bound_wf [OF assms(1)] mem] bound_kind)
  then show "is_obligation cs (obligation_key sha rs p policy i (rq_id r))" by simp
qed

lemma bound_own_key:
  assumes "bound sha rs p policy cs" and "(i, it) \<in> set (item_map p)" and "q \<in> set (own_keys (requirement_keys rs) it)"
  shows "\<exists>c \<in> set (rs_claims rs). kd_key c = q"
proof -
  from assms(3) obtain ac where ac: "ac \<in> set (it_acceptance it)" "q = the (map_of (requirement_keys rs) ac)"
    by (auto simp: own_keys_def)
  have "set (it_acceptance it) \<subseteq> fst ` set (requirement_keys rs)"
    using assms(1,2) by (force simp: bound_def work_assigned_def)
  with ac(1) obtain k where k: "map_of (requirement_keys rs) ac = Some k"
    by (metis map_of_eq_None_iff not_None_eq subsetD)
  then have "k \<in> set (map snd (requirement_keys rs))" by (force dest: map_of_SomeD)
  then have "k \<in> set (map kd_key (rs_claims rs))" using assms(1) by (simp only: bound_def)
  with k ac(2) show ?thesis by auto
qed

lemma bound_requirement:
  assumes "bound sha rs p policy cs" and "c \<in> set (rs_claims rs)"
  shows "c \<in> set (cs_claims cs)" and "\<not> is_obligation cs (kd_key c)"
proof -
  show mem: "c \<in> set (cs_claims cs)" using assms by (simp add: bound_def bound_claims_simps)
  have "kd_kind c = ''requirement''" using assms by (simp add: bound_def)
  then show "\<not> is_obligation cs (kd_key c)"
    by (simp add: obligation_kind [OF bound_wf [OF assms(1)] mem])
qed

lemma bound_needs:
  assumes "bound sha rs p policy cs" and "(i, it) \<in> set (item_map p)" and "r \<in> set (sp_requirements policy)"
  shows "needs cs (obligation_key sha rs p policy i (rq_id r)) y \<longleftrightarrow>
     (\<exists>q \<in> set (rq_requires r). y = obligation_key sha rs p policy i q)
     \<or> (\<exists>b \<in> set (it_blocked it). \<exists>f \<in> set (sp_requirements policy). y = obligation_key sha rs p policy b (rq_id f))"
    (is "_ \<longleftrightarrow> ?D y")
proof -
  let ?c = "fst (bound_parts sha rs p policy (i, it) r)"
  have deps: "set (kd_depends ?c) = set (own_keys (requirement_keys rs) it) \<union> {y. ?D y}"
    using bound_depends [of i it p sha rs policy r] assms(2) by (auto simp: bound_final [OF assms(1)])
  have node: "node_dep (dependency_graph cs) (obligation_key sha rs p policy i (rq_id r)) y \<longleftrightarrow> y \<in> set (kd_depends ?c)"
    using claim_deps [OF bound_wf [OF assms(1)] bound_obligation(1) [OF assms], of y] by simp
  have own: "\<not> is_obligation cs y" if "y \<in> set (own_keys (requirement_keys rs) it)"
    using bound_own_key [OF assms(1,2) that] bound_requirement(2) [OF assms(1)] by auto
  have "is_obligation cs y" if "?D y"
    using that
  proof
    assume "\<exists>q \<in> set (rq_requires r). y = obligation_key sha rs p policy i q"
    then obtain q where q: "q \<in> set (rq_requires r)" "y = obligation_key sha rs p policy i q" by blast
    then obtain r' where "r' \<in> set (sp_requirements policy)" "q = rq_id r'"
      using assms(1,3) by (force simp: bound_def requires_closed_def list_all_iff)
    with q bound_obligation(2) [OF assms(1,2)] show ?thesis by simp
  next
    assume "\<exists>b \<in> set (it_blocked it). \<exists>f \<in> set (sp_requirements policy). y = obligation_key sha rs p policy b (rq_id f)"
    with bound_blockers [OF assms(1,2)] bound_obligation(2) [OF assms(1)] show ?thesis by blast
  qed
  with own show ?thesis unfolding needs_def node deps by blast
qed

lemma waits_item:
  assumes "bound sha rs p policy cs" and "(i, it) \<in> set (item_map p)" and "(depends (blocker_graph p))\<^sup>*\<^sup>* i j"
  shows "\<exists>jt. (j, jt) \<in> set (item_map p)"
  using assms(3)
proof (induction rule: rtranclp_induct)
  case base
  show ?case using assms(2) by blast
next
  case (step j b)
  then obtain jt where jt: "(j, jt) \<in> set (item_map p)" by blast
  with step(2) have "b \<in> set (it_blocked jt)" by (simp add: depends_def blocker_deps)
  with bound_blockers [OF assms(1) jt] show ?case by blast
qed

lemma bound_closure:
  assumes b: "bound sha rs p policy cs" and i: "(i, it) \<in> set (item_map p)"
  shows "(\<exists>r \<in> set (sp_requirements policy). (needs cs)\<^sup>*\<^sup>* (obligation_key sha rs p policy i (rq_id r)) y) \<longleftrightarrow>
     (\<exists>j \<in> set (waits_for p i). \<exists>r \<in> set (sp_requirements policy). y = obligation_key sha rs p policy j (rq_id r))"
proof -
  let ?k = "obligation_key sha rs p policy"
  let ?D = "(depends (blocker_graph p))\<^sup>*\<^sup>*"
  have waits: "j \<in> set (waits_for p i) \<longleftrightarrow> ?D i j" for j by (simp add: waits_for_def set_closure_of)
  have down: "\<exists>j r. ?D i j \<and> r \<in> set (sp_requirements policy) \<and> y = ?k j (rq_id r)"
    if "(needs cs)\<^sup>*\<^sup>* (?k i (rq_id r)) y" and r: "r \<in> set (sp_requirements policy)" for r y
    using that(1)
  proof (induction rule: rtranclp_induct)
    case base
    with r show ?case by blast
  next
    case (step y z)
    then obtain j q where j: "?D i j" "q \<in> set (sp_requirements policy)" "y = ?k j (rq_id q)" by blast
    obtain jt where jt: "(j, jt) \<in> set (item_map p)" using waits_item [OF b i j(1)] by blast
    from step(2) j(3) bound_needs [OF b jt j(2)]
    consider (own) f where "f \<in> set (rq_requires q)" "z = ?k j f"
      | (blocker) c f where "c \<in> set (it_blocked jt)" "f \<in> set (sp_requirements policy)" "z = ?k c (rq_id f)" by blast
    then show ?case
    proof cases
      case own
      with b j(2) obtain f' where "f' \<in> set (sp_requirements policy)" "f = rq_id f'"
        by (force simp: bound_def requires_closed_def list_all_iff)
      with own j(1) show ?thesis by blast
    next
      case blocker
      have "depends (blocker_graph p) j c" using blocker(1) jt by (simp add: depends_def blocker_deps)
      with j(1) have "?D i c" by (rule rtranclp.rtrancl_into_rtrancl)
      with blocker show ?thesis by blast
    qed
  qed
  have up: "\<exists>r \<in> set (sp_requirements policy). (needs cs)\<^sup>*\<^sup>* (?k i (rq_id r)) (?k j (rq_id f))"
    if "?D i j" and f: "f \<in> set (sp_requirements policy)" for j f
    using that
  proof (induction arbitrary: f rule: rtranclp_induct)
    case base
    then show ?case by blast
  next
    case (step j c)
    obtain q where q: "q \<in> set (sp_requirements policy)" using step(4) by blast
    obtain jt where jt: "(j, jt) \<in> set (item_map p)" using waits_item [OF b i step(1)] by blast
    have "c \<in> set (it_blocked jt)" using step(2) jt by (simp add: depends_def blocker_deps)
    then have "needs cs (?k j (rq_id q)) (?k c (rq_id f))" using bound_needs [OF b jt q] step(4) by blast
    with step(3) [OF q] show ?case by (meson rtranclp.rtrancl_into_rtrancl)
  qed
  show ?thesis unfolding Bex_def waits using down up by meson
qed

lemma concat_owner:
  "distinct (concat (map f xs)) \<Longrightarrow> x \<in> set xs \<Longrightarrow> y \<in> set xs \<Longrightarrow> a \<in> set (f x) \<Longrightarrow> a \<in> set (f y) \<Longrightarrow> x = y"
  by (induction xs) auto

lemma mapE_choice:
  "(\<And>t. t \<in> set ts \<Longrightarrow> \<exists>s. f t = Inr s \<and> (P s \<longleftrightarrow> Q t)) \<Longrightarrow>
   \<exists>ss. mapE f ts = Inr ss \<and> (list_all P ss \<longleftrightarrow> (\<forall>t \<in> set ts. Q t)) \<and> (ss = [] \<longleftrightarrow> ts = [])"
proof (induction ts)
  case (Cons t ts)
  obtain s where s: "f t = Inr s" "P s \<longleftrightarrow> Q t" using Cons.prems [of t] by auto
  obtain ss where "mapE f ts = Inr ss" "list_all P ss \<longleftrightarrow> (\<forall>t \<in> set ts. Q t)" using Cons by auto
  with s show ?case by simp
qed simp

lemma own_key_owner:
  assumes b: "bound sha rs p policy cs" and i: "(i, it) \<in> set (item_map p)" and j: "(j, jt) \<in> set (item_map p)"
    and ac: "ac \<in> set (it_acceptance it)" and q: "the (map_of (requirement_keys rs) ac) \<in> set (own_keys (requirement_keys rs) jt)"
  shows "(j, jt) = (i, it)"
proof -
  let ?keys = "requirement_keys rs"
  have work: "work_assigned ?keys (item_rows p)" and keys: "distinct (map fst ?keys)" using b by (simp_all only: bound_def)
  have "distinct (map kd_key (cs_claims cs))" using bound_wf [OF b] by (simp add: claims_well_formed_def)
  then have "distinct (map kd_key (rs_claims rs))" using b by (simp add: bound_def bound_claims_simps)
  then have vals: "distinct (map snd ?keys)" using b by (simp add: bound_def)
  obtain ac' where ac': "ac' \<in> set (it_acceptance jt)" "the (map_of ?keys ac') = the (map_of ?keys ac)"
    using q by (auto simp: own_keys_def)
  have known: "a \<in> fst ` set ?keys" if "(k, kt) \<in> set (item_map p)" "a \<in> set (it_acceptance kt)" for a k kt
    using work that by (force simp: work_assigned_def)
  obtain v where v: "map_of ?keys ac = Some v" using known [OF i ac] by (metis map_of_eq_None_iff not_None_eq)
  obtain w where w: "map_of ?keys ac' = Some w" using known [OF j ac'(1)] by (metis map_of_eq_None_iff not_None_eq)
  from v w ac'(2) have "(ac, v) \<in> set ?keys" "(ac', v) \<in> set ?keys" by (auto dest: map_of_SomeD)
  then have "(ac', v) = (ac, v)" using vals by (intro inj_onD [of snd "set ?keys"]) (simp_all add: distinct_map)
  then have "ac' = ac" by simp
  with ac ac'(1) i j work show ?thesis
    by (intro concat_owner [where f = "it_acceptance \<circ> snd" and xs = "item_rows p" and a = ac]) (auto simp: work_assigned_def)
qed

lemma requirement_standing_bound:
  assumes b: "bound sha rs p policy cs" and i: "(i, it) \<in> set (item_map p)" and ac: "ac \<in> set (it_acceptance it)"
  shows "\<exists>s. proof_of (by_key cs) (cs_edges cs) latest (the (map_of (requirement_keys rs) ac)) [] = Inr s \<and>
     (sd_proof s = ''established'' \<longleftrightarrow>
        (\<forall>j \<in> set (waits_for p i). \<forall>r \<in> set (sp_requirements policy). passes latest (obligation_key sha rs p policy j (rq_id r))))"
proof -
  let ?q = "the (map_of (requirement_keys rs) ac)" and ?k = "obligation_key sha rs p policy"
  have own: "?q \<in> set (own_keys (requirement_keys rs) it)" using ac by (auto simp: own_keys_def)
  obtain c where c: "c \<in> set (rs_claims rs)" "kd_key c = ?q" using bound_own_key [OF b i own] by blast
  note mem = bound_requirement [OF b c(1)]
  have kind: "kd_kind c = ''requirement''" "kd_depends c = []" using b c(1) by (simp_all add: bound_def)
  have other: "jt = it \<and> j = i" if "(j, jt) \<in> set (item_map p)" "?q \<in> set (own_keys (requirement_keys rs) jt)" for j jt
    using own_key_owner [OF b i that(1) ac that(2)] by simp
  have targets: "set (supporting (cs_edges cs) ?q) = (\<lambda>r. ?k i (rq_id r)) ` set (sp_requirements policy)"
  proof -
    have cs: "cs = bound_claims sha rs p policy" using b by (simp only: bound_def)
    have "set (supporting (cs_edges cs) ?q) = {?k j (rq_id r) | j jt r. (j, jt) \<in> set (item_map p)
        \<and> ?q \<in> set (own_keys (requirement_keys rs) jt) \<and> r \<in> set (sp_requirements policy)}"
      unfolding cs bound_supporting item_rows_set ..
    also have "\<dots> = {?k i (rq_id r) | r. r \<in> set (sp_requirements policy)}"
      using own i other by blast
    finally show ?thesis by blast
  qed
  have one: "\<exists>s. proof_of (by_key cs) (cs_edges cs) latest t [?q] = Inr s \<and> (established s \<longleftrightarrow> (\<forall>j. (needs cs)\<^sup>*\<^sup>* t j \<longrightarrow> passes latest j))"
    if "t \<in> set (supporting (cs_edges cs) ?q)" for t
  proof (rule obligation_established [OF bound_wf [OF b]])
    show ob: "is_obligation cs t" using that targets bound_obligation(2) [OF b i] by auto
    fix j
    assume "(needs cs)\<^sup>*\<^sup>* t j"
    then have "is_obligation cs j" using ob by induction (simp_all add: needs_def)
    moreover have "\<not> is_obligation cs ?q" by (rule mem(2) [unfolded c(2)])
    ultimately have "j \<noteq> ?q" by metis
    then show "j \<notin> set [?q]" by simp
  qed
  have "\<exists>ss. mapE (\<lambda>t. proof_of (by_key cs) (cs_edges cs) latest t [?q]) (supporting (cs_edges cs) ?q) = Inr ss
    \<and> (list_all established ss \<longleftrightarrow> (\<forall>t \<in> set (supporting (cs_edges cs) ?q). \<forall>j. (needs cs)\<^sup>*\<^sup>* t j \<longrightarrow> passes latest j))
    \<and> (ss = [] \<longleftrightarrow> supporting (cs_edges cs) ?q = [])"
    by (rule mapE_choice) (rule one)
  then obtain ss where
    ss: "mapE (\<lambda>t. proof_of (by_key cs) (cs_edges cs) latest t [?q]) (supporting (cs_edges cs) ?q) = Inr ss"
    and all: "list_all established ss \<longleftrightarrow>
      (\<forall>t \<in> set (supporting (cs_edges cs) ?q). \<forall>j. (needs cs)\<^sup>*\<^sup>* t j \<longrightarrow> passes latest j)"
    and ne: "ss = [] \<longleftrightarrow> supporting (cs_edges cs) ?q = []" by (elim exE conjE) (rule that)
  have "supporting (cs_edges cs) ?q \<noteq> []"
    using targets b by (metis bound_def image_is_empty set_empty)
  then have some: "ss \<noteq> []" using ne by simp
  have "proof_of (by_key cs) (cs_edges cs) latest ?q [] = Inr (requirement_standing ss [])"
    using claim_lookup [OF bound_wf [OF b] mem(1)] kind c(2) ss by (simp add: proof_of.simps [of _ _ _ ?q] Let_def)
  moreover have "(\<forall>t \<in> set (supporting (cs_edges cs) ?q). \<forall>j. (needs cs)\<^sup>*\<^sup>* t j \<longrightarrow> passes latest j) \<longleftrightarrow>
     (\<forall>j \<in> set (waits_for p i). \<forall>r \<in> set (sp_requirements policy). passes latest (?k j (rq_id r)))"
  proof -
    have "(\<forall>t \<in> set (supporting (cs_edges cs) ?q). \<forall>j. (needs cs)\<^sup>*\<^sup>* t j \<longrightarrow> passes latest j) \<longleftrightarrow>
      (\<forall>y. (\<exists>r \<in> set (sp_requirements policy). (needs cs)\<^sup>*\<^sup>* (?k i (rq_id r)) y) \<longrightarrow> passes latest y)"
      unfolding targets by blast
    then show ?thesis unfolding bound_closure [OF b i] by blast
  qed
  moreover have "sd_proof (requirement_standing ss []) = ''established'' \<longleftrightarrow> list_all established ss"
    using some by (simp add: requirement_standing_def)
  ultimately show ?thesis using all by simp
qed

text \<open>The last row about a claim is the one that counts.\<close>

lemma latest_lookup:
  "map_of (latest_rows claims rows) k = (if k \<in> set (map fst claims) then find_row at_claim k (rev rows) else None)"
  unfolding latest_rows_def
  by (induction rows rule: rev_induct) (auto simp: row_simps update_conv')

definition attested_now :: "attested list \<Rightarrow> string \<Rightarrow> bool" where
  "attested_now rows k \<longleftrightarrow>
     (case find_row at_claim k (rev rows) of
        None \<Rightarrow> False
      | Some a \<Rightarrow> at_verdict a = Some ''pass'' \<and> at_currency a = Some ''current'')"

lemma passes_latest:
  assumes "claims_well_formed cs policy" and "k \<in> claim_keys cs"
  shows "passes (latest_rows (by_key cs) rows) k \<longleftrightarrow> attested_now rows k"
proof -
  have "k \<in> set (map fst (by_key cs))"
    using assms by (auto simp: claims_well_formed_def by_key_distinct claim_keys_def)
  then show ?thesis by (auto simp: passes_def attested_now_def latest_lookup split: option.splits)
qed

lemma obligation_claim_key: "is_obligation cs k \<Longrightarrow> k \<in> claim_keys cs"
  unfolding is_obligation_def claim_keys_def by (metis imageI)

lemma bound_claim_cases:
  assumes b: "bound sha rs p policy cs" and c: "c \<in> set (cs_claims cs)"
  shows "(\<exists>i it ac. (i, it) \<in> set (item_map p) \<and> ac \<in> set (it_acceptance it) \<and> kd_key c = the (map_of (requirement_keys rs) ac))
    \<or> is_obligation cs (kd_key c)"
proof -
  have cs: "cs = bound_claims sha rs p policy" using b by (simp only: bound_def)
  from c consider (req) "c \<in> set (rs_claims rs)" | (obl) row r where "row \<in> set (item_map p)" "r \<in> set (sp_requirements policy)"
      "c = fst (bound_parts sha rs p policy row r)"
    unfolding cs bound_claims_simps by auto
  then show ?thesis
  proof cases
    case req
    have "map kd_key (rs_claims rs) = map snd (requirement_keys rs)" using b by (simp only: bound_def)
    moreover have "kd_key c \<in> set (map kd_key (rs_claims rs))" using req by simp
    ultimately have "kd_key c \<in> set (map snd (requirement_keys rs))" by (simp only:)
    then obtain ac where "(ac, kd_key c) \<in> set (requirement_keys rs)" by auto
    moreover have "distinct (map fst (requirement_keys rs))" using b by (simp only: bound_def)
    ultimately have "the (map_of (requirement_keys rs) ac) = kd_key c" and ac: "ac \<in> fst ` set (requirement_keys rs)" by force+
    moreover have "ac \<in> set (concat (map (it_acceptance \<circ> snd) (item_rows p)))"
      using b ac by (simp only: bound_def work_assigned_def)
    ultimately show ?thesis by fastforce
  next
    case obl
    obtain i it where "row = (i, it)" by (cases row)
    with obl bound_obligation(2) [OF b] show ?thesis by auto
  qed
qed

lemma mapE_lookup:
  "mapE (\<lambda>(k, c). bindE (g k) (\<lambda>s. Inr (k, h k c s))) xs = Inr st \<Longrightarrow> map_of xs k = Some c \<Longrightarrow> g k = Inr s \<Longrightarrow>
   map_of st k = Some (h k c s)"
  by (induction xs arbitrary: st) (auto simp: bindE_eq_Inr split: if_splits)

lemma bound_status:
  assumes b: "bound sha rs p policy cs" and i: "(i, it) \<in> set (item_map p)" and ac: "ac \<in> set (it_acceptance it)"
  shows "\<exists>st s. claim_status cs approved exploratory rows bindings = Inr st
    \<and> map_of st (the (map_of (requirement_keys rs) ac)) = Some s
    \<and> (st_proof s = ''established'' \<longleftrightarrow>
        (\<forall>j \<in> set (waits_for p i). \<forall>r \<in> set (sp_requirements policy). attested_now rows (obligation_key sha rs p policy j (rq_id r))))"
proof -
  let ?latest = "latest_rows (by_key cs) rows" and ?q = "the (map_of (requirement_keys rs) ac)"
  note wf = bound_wf [OF b]
  let ?g = "\<lambda>k. proof_of (by_key cs) (cs_edges cs) ?latest k []"
  let ?e = "case exploratory of None \<Rightarrow> [] | Some e \<Rightarrow> es_statuses e"
  let ?h = "status_of approved ?e bindings"
  have keys: "by_key cs = map (\<lambda>c. (kd_key c, c)) (cs_claims cs)"
    using wf by (intro by_key_distinct) (simp add: claims_well_formed_def)
  have total: "\<exists>s. ?g (kd_key c) = Inr s" if "c \<in> set (cs_claims cs)" for c
    using bound_claim_cases [OF b that]
  proof
    assume "is_obligation cs (kd_key c)"
    from obligation_established [OF wf this, where seen = "[]" and es = "cs_edges cs" and latest = ?latest]
    show ?thesis by auto
  next
    assume "\<exists>i it ac. (i, it) \<in> set (item_map p) \<and> ac \<in> set (it_acceptance it) \<and> kd_key c = the (map_of (requirement_keys rs) ac)"
    then obtain j jt a where "(j, jt) \<in> set (item_map p)" "a \<in> set (it_acceptance jt)" "kd_key c = the (map_of (requirement_keys rs) a)"
      by blast
    with requirement_standing_bound [OF b this(1,2), of ?latest] show ?thesis by auto
  qed
  have "\<forall>x \<in> set (by_key cs). \<exists>y. (case x of (k, c) \<Rightarrow> bindE (?g k) (\<lambda>s. Inr (k, ?h k c s))) = Inr y"
  proof
    fix x
    assume "x \<in> set (by_key cs)"
    then obtain c where "c \<in> set (cs_claims cs)" "x = (kd_key c, c)" by (auto simp: keys)
    with total [OF this(1)] show "\<exists>y. (case x of (k, c) \<Rightarrow> bindE (?g k) (\<lambda>s. Inr (k, ?h k c s))) = Inr y" by auto
  qed
  from iffD2 [OF mapE_unit this]
  obtain st where st: "mapE (\<lambda>(k, c). bindE (?g k) (\<lambda>s. Inr (k, ?h k c s))) (by_key cs) = Inr st"
    by (elim exE) (rule that)
  have own: "?q \<in> set (own_keys (requirement_keys rs) it)" using ac by (auto simp: own_keys_def)
  obtain c where "c \<in> set (rs_claims rs)" "kd_key c = ?q" using bound_own_key [OF b i own] by blast
  with bound_requirement(1) [OF b] have c: "c \<in> set (cs_claims cs)" "kd_key c = ?q" by simp_all
  obtain s where s: "?g ?q = Inr s" and est: "sd_proof s = ''established'' \<longleftrightarrow>
     (\<forall>j \<in> set (waits_for p i). \<forall>r \<in> set (sp_requirements policy). passes ?latest (obligation_key sha rs p policy j (rq_id r)))"
    using requirement_standing_bound [OF b i ac, of ?latest] by (elim exE conjE) (rule that)
  have "map_of (by_key cs) ?q = Some c" using claim_lookup [OF wf c(1)] by (simp only: c(2))
  from mapE_lookup [where h = ?h, OF st this s] have "map_of st ?q = Some (?h ?q c s)" .
  moreover have "passes ?latest (obligation_key sha rs p policy j (rq_id r)) \<longleftrightarrow> attested_now rows (obligation_key sha rs p policy j (rq_id r))"
    if "j \<in> set (waits_for p i)" "r \<in> set (sp_requirements policy)" for j r
  proof -
    have "(depends (blocker_graph p))\<^sup>*\<^sup>* i j" using that(1) by (simp add: waits_for_def set_closure_of)
    from waits_item [OF b i this] obtain jt where "(j, jt) \<in> set (item_map p)" by blast
    from bound_obligation(2) [OF b this that(2)] show ?thesis
      by (intro passes_latest [OF wf] obligation_claim_key)
  qed
  moreover have "claim_status cs approved exploratory rows bindings = Inr st"
    using st by (simp add: claim_status_def Let_def)
  ultimately show ?thesis using est by (simp add: status_of_def)
qed

end
