(* ===== verification/Programme_Properties.thy ===== *)
theory Programme_Properties
  imports Programme "HOL-Library.Multiset"
begin

text \<open>
  What compiling a programme guarantees: the items are ordered so that every blocker comes
  first, they partition the acceptance criteria of the specification, a refusal for a cycle
  is a cycle, and the canonical input of a compiled programme compiles to that programme.
\<close>

section \<open>Items\<close>

definition item_ok :: "string list \<Rightarrow> item \<Rightarrow> bool" where
  "item_ok acceptance it \<longleftrightarrow>
     is_programme_id (it_id it)
     \<and> list_all is_programme_id (it_acceptance it) \<and> sorted (it_acceptance it) \<and> distinct (it_acceptance it)
     \<and> it_acceptance it \<noteq> [] \<and> length (it_acceptance it) \<le> MAX_ITEMS
     \<and> set (it_acceptance it) \<subseteq> set acceptance
     \<and> list_all is_programme_id (it_blocked it) \<and> sorted (it_blocked it) \<and> distinct (it_blocked it)
     \<and> length (it_blocked it) \<le> MAX_ITEMS"

lemma p_ids_eq:
  "p_ids name allow v = Inr ids \<longleftrightarrow>
   (\<exists>xs. v = PList (map PStr xs) \<and> length xs \<le> MAX_ITEMS \<and> (xs = [] \<longrightarrow> allow)
      \<and> list_all is_programme_id xs \<and> distinct xs \<and> ids = sort xs)"
  by (auto simp: p_ids_def bindE_eq_Inr p_list_eq mapE_p_id)

lemma p_ids_sorted:
  assumes "p_ids name allow v = Inr ids"
  shows "list_all is_programme_id ids \<and> sorted ids \<and> distinct ids \<and> length ids \<le> MAX_ITEMS \<and> (ids = [] \<longrightarrow> allow)"
proof -
  from assms obtain xs where "list_all is_programme_id xs" "distinct xs" "length xs \<le> MAX_ITEMS"
    "xs = [] \<longrightarrow> allow" "ids = sort xs" by (auto simp: p_ids_eq)
  moreover from this have "length ids = length xs" by simp
  ultimately show ?thesis by (auto simp: list_all_iff simp flip: length_0_conv)
qed

lemma p_ids_again:
  "list_all is_programme_id ids \<Longrightarrow> sorted ids \<Longrightarrow> distinct ids \<Longrightarrow> length ids \<le> MAX_ITEMS \<Longrightarrow>
   (ids = [] \<longrightarrow> allow) \<Longrightarrow> p_ids name allow (PList (map PStr ids)) = Inr ids"
  unfolding p_ids_eq by (intro exI [of _ ids]) (simp add: sorted_sort_id)

definition items_inv :: "string list \<Rightarrow> item list \<Rightarrow> string list \<Rightarrow> bool" where
  "items_inv acceptance items owners \<longleftrightarrow>
     list_all (item_ok acceptance) items \<and> distinct (map it_id items)
     \<and> owners = concat (map it_acceptance items) \<and> distinct owners"

lemma items_inv_snoc:
  assumes "items_inv acceptance items owners" and "item_ok acceptance it"
    and "it_id it \<notin> set (map it_id items)" and "set (it_acceptance it) \<inter> set owners = {}"
  shows "items_inv acceptance (items @ [it]) (owners @ it_acceptance it)"
  using assms by (auto simp: items_inv_def item_ok_def)

lemma compile_items_inv:
  assumes "compile_items rows acceptance items owners = Inr (items', owners')"
    and "items_inv acceptance items owners"
  shows "items_inv acceptance items' owners' \<and> length items' = length items + length rows"
  using assms
proof (induction rows acceptance items owners rule: compile_items.induct)
  case (1 acceptance items owners)
  then show ?case by simp
next
  case (2 raw rest acceptance items owners)
  from 2(2) obtain k acs bs where h: "is_programme_id k" "k \<notin> set (map it_id items)"
    "p_ids ''item acceptance'' False (py_field raw ''acceptance'') = Inr acs"
    "set acs \<subseteq> set acceptance" "set acs \<inter> set owners = {}"
    "p_ids ''blockers'' True (py_field raw ''blocked_by'') = Inr bs"
    "p_object ''item'' [''id'', ''acceptance'', ''blocked_by''] raw = Inr ()"
    "py_field raw ''id'' = PStr k"
    and rec: "compile_items rest acceptance (items @ [\<lparr>it_id = k, it_acceptance = acs, it_blocked = bs\<rparr>])
        (owners @ acs) = Inr (items', owners')"
    by (auto simp: bindE_eq_Inr)
  let ?it = "\<lparr>it_id = k, it_acceptance = acs, it_blocked = bs\<rparr>"
  have "item_ok acceptance ?it"
    using h p_ids_sorted [OF h(3)] p_ids_sorted [OF h(6)] by (auto simp: item_ok_def)
  from items_inv_snoc [OF 2(3) this] h have "items_inv acceptance (items @ [?it]) (owners @ acs)" by simp
  from 2(1) [OF rec this] h show ?case by simp
qed

lemma compile_items_values:
  assumes "items_inv acceptance (items @ rest) (owners @ concat (map it_acceptance rest))"
  shows "compile_items (map item_value rest) acceptance items owners =
    Inr (items @ rest, owners @ concat (map it_acceptance rest))"
  using assms
proof (induction rest arbitrary: items owners)
  case Nil
  then show ?case by simp
next
  case (Cons it rest)
  have ok: "item_ok acceptance it" and new: "it_id it \<notin> set (map it_id items)"
    using Cons.prems by (auto simp: items_inv_def)
  have "distinct (owners @ concat (map it_acceptance (it # rest)))"
    using Cons.prems unfolding items_inv_def by blast
  then have free: "set (it_acceptance it) \<inter> set owners = {}" by auto
  have ids: "p_ids ''item acceptance'' False (PList (map PStr (it_acceptance it))) = Inr (it_acceptance it)"
    "p_ids ''blockers'' True (PList (map PStr (it_blocked it))) = Inr (it_blocked it)"
    using ok by (auto simp: item_ok_def intro: p_ids_again)
  have eta: "\<lparr>it_id = it_id it, it_acceptance = it_acceptance it, it_blocked = it_blocked it\<rparr> = it"
    by simp
  have "compile_items (map item_value (it # rest)) acceptance items owners =
      compile_items (map item_value rest) acceptance (items @ [it]) (owners @ it_acceptance it)"
    using ok new free ids
    by (simp add: item_value_def p_object_def py_field_def py_get_def p_id_def item_ok_def ensure_def eta)
  also have "\<dots> = Inr ((items @ [it]) @ rest, (owners @ it_acceptance it) @ concat (map it_acceptance rest))"
    using Cons.prems by (intro Cons.IH) simp
  finally show ?case by simp
qed

section \<open>The order\<close>

lemma item_graph_keys [simp]: "map fst (item_graph items) = map it_id items"
  by (simp add: item_graph_def)

lemma item_graph_keys_set [simp]: "fst ` set (item_graph items) = it_id ` set items"
  by (force simp: item_graph_def)

lemma order_items_success:
  assumes "order_items items = Inr ordered" and "distinct (map it_id items)"
  shows "distinct (map it_id ordered) \<and> set ordered = set items
    \<and> topo_order (item_graph items) [] = Some (map it_id ordered)
    \<and> topological (item_graph ordered) (map it_id ordered)"
proof -
  from assms(1) obtain ks where ks: "topo_order (item_graph items) [] = Some ks"
    and o1: "ordered = map (\<lambda>k. the (find_row it_id k items)) ks"
    by (auto simp: order_items_def split: option.splits)
  have c: "distinct ks" "set ks = it_id ` set items" "topological (item_graph items) ks"
    using topo_order_correct [OF ks] assms(2) by simp_all
  have found: "find_row it_id (it_id it) items = Some it" if "it \<in> set items" for it
    using assms(2) that by (rule find_row_unique)
  have ids: "map it_id ordered = ks"
    unfolding o1 by (rule map_idI [THEN trans [OF map_map]]) (use c(2) found in auto)
  have mem: "set ordered = set items"
    unfolding o1 set_map c(2) image_image by (simp add: found)
  have "set (item_graph ordered) = set (item_graph items)" using mem by (simp add: item_graph_def)
  then have "map_of (item_graph ordered) = map_of (item_graph items)"
    using assms(2) c(1) ids by (intro iffD2 [OF map_of_inject_set]) simp_all
  then have "topological (item_graph ordered) ks"
    using c(3) by (simp add: topological_def deps_of_def)
  with ks c ids mem show ?thesis by simp
qed

lemma order_items_again:
  assumes "order_items items = Inr ordered" and "distinct (map it_id items)"
  shows "order_items ordered = Inr ordered"
proof -
  note s = order_items_success [OF assms]
  have "topo_order (item_graph ordered) [] = topo_order (item_graph items) []"
    using s assms(2) by (intro topo_order_perm) (simp_all add: item_graph_def comp_def)
  moreover have "map (\<lambda>k. the (find_row it_id k ordered)) (map it_id ordered) = ordered"
    unfolding map_map by (rule map_idI) (use s find_row_unique [of it_id ordered] in simp)
  ultimately show ?thesis using s by (simp add: order_items_def)
qed

section \<open>The compiler\<close>

lemma validate_strategy_eq: "validate_strategy sha raw spec = Inr v \<Longrightarrow> raw = v"
  by (auto simp: validate_strategy_def bindE_eq_Inr Let_def)

definition strategy_checked :: "(string \<Rightarrow> string) \<Rightarrow> pyval \<Rightarrow> pyval option \<Rightarrow> bool" where
  "strategy_checked sha spec strategy \<longleftrightarrow>
     (case strategy of None \<Rightarrow> True | Some v \<Rightarrow> validate_strategy sha v spec = Inr v)"

definition version_of :: "pyval option \<Rightarrow> string" where
  "version_of strategy = (if strategy = None then ''1.0'' else ''1.1'')"

definition programme_ok :: "(string \<Rightarrow> string) \<Rightarrow> string \<Rightarrow> programme \<Rightarrow> bool" where
  "programme_ok sha repository p \<longleftrightarrow>
     compile_spec (pg_spec p) repository = Inr (pg_spec p)
     \<and> items_inv (spec_acceptance_ids (pg_spec p)) (pg_items p) (concat (map it_acceptance (pg_items p)))
     \<and> pg_items p \<noteq> [] \<and> length (pg_items p) \<le> MAX_ITEMS
     \<and> set (concat (map it_acceptance (pg_items p))) = set (spec_acceptance_ids (pg_spec p))
     \<and> list_all (\<lambda>it. set (it_blocked it) \<subseteq> set (map it_id (pg_items p))) (pg_items p)
     \<and> order_items (pg_items p) = Inr (pg_items p)
     \<and> topological (item_graph (pg_items p)) (map it_id (pg_items p))
     \<and> bot_login (pg_login p) \<and> strategy_checked sha (pg_spec p) (pg_strategy p)
     \<and> pg_sha256 p = sha256_value sha (identity_value (pg_spec p) (pg_items p) (pg_login p)
          (version_of (pg_strategy p)) (pg_strategy p))
     \<and> (\<exists>bodies. mapE (\<lambda>it. render sha p it (map (\<lambda>it. (it_id it, 999999999)) (pg_items p))) (pg_items p) = Inr bodies)"

lemma numbers_perm:
  "set xs = set ys \<Longrightarrow> map_of (map (\<lambda>it. (it_id it, c)) xs) = map_of (map (\<lambda>it. (it_id it, c)) ys)"
proof
  fix k
  assume h: "set xs = set ys"
  have *: "map_of (map (\<lambda>it. (it_id it, c)) zs) k = (if k \<in> it_id ` set zs then Some c else None)" for zs
    by (induction zs) auto
  show "map_of (map (\<lambda>it. (it_id it, c)) xs) k = map_of (map (\<lambda>it. (it_id it, c)) ys) k"
    by (simp add: * h)
qed

lemma render_numbers: "map_of m = map_of n \<Longrightarrow> render sha p it m = render sha p it n"
proof -
  assume "map_of m = map_of n"
  then have "blocked_line m = blocked_line n" by (simp add: fun_eq_iff blocked_line_def)
  then show ?thesis by (simp only: render_def)
qed

lemma compile_programme_ok:
  assumes "compile_programme sha raw repository = Inr p"
  shows "programme_ok sha repository p"
proof -
  from assms obtain spec rows items owners ordered login strategy bodies where
    spec: "compile_spec (py_field raw ''spec'') repository = Inr spec"
    and rows: "p_list ''items'' False (py_field (py_field raw ''proposal'') ''items'') = Inr rows"
    and items: "compile_items rows (spec_acceptance_ids spec) [] [] = Inr (items, owners)"
    and cover: "set owners = set (spec_acceptance_ids spec)"
    and blockers: "list_all (\<lambda>it. set (it_blocked it) \<subseteq> set (map it_id items)) items"
    and order: "order_items items = Inr ordered" and login: "bot_login login"
    and strategy: "if py_field raw ''version'' = PStr ''1.1''
      then \<exists>v. validate_strategy sha (py_field raw ''strategy'') spec = Inr v \<and> strategy = Some v else strategy = None"
    and version: "py_field raw ''version'' = PStr ''1.0'' \<or> py_field raw ''version'' = PStr ''1.1''"
    and p: "p = \<lparr>pg_spec = spec, pg_items = ordered, pg_login = login,
            pg_sha256 = sha256_value sha (identity_value spec ordered login (py_string (py_field raw ''version'')) strategy),
            pg_strategy = strategy\<rparr>"
    and bodies: "mapE (\<lambda>it. render sha p it (map (\<lambda>it. (it_id it, 999999999)) items)) ordered = Inr bodies"
    by (auto simp: compile_programme_def bindE_eq_Inr Let_def split: if_splits pyval.splits)
  have inv: "items_inv (spec_acceptance_ids spec) items owners" and len: "length items = length rows"
    using compile_items_inv [OF items] by (simp_all add: items_inv_def [of _ "[]"])
  have ids: "distinct (map it_id items)" using inv by (simp add: items_inv_def)
  note o1 = order_items_success [OF order ids]
  have perm: "mset ordered = mset items"
    using o1 ids by (simp add: set_eq_iff_mset_eq_distinct [symmetric] distinct_map)
  have flat: "mset (concat (map it_acceptance xs)) = sum_mset (image_mset (mset \<circ> it_acceptance) (mset xs))" for xs
    by (induction xs) simp_all
  have "owners = concat (map it_acceptance items)" using inv by (simp add: items_inv_def)
  then have "mset (concat (map it_acceptance ordered)) = mset owners"
    by (simp only: flat perm)
  then have owned: "distinct (concat (map it_acceptance ordered))"
      "set (concat (map it_acceptance ordered)) = set owners"
    using inv by (metis items_inv_def mset_eq_imp_distinct_iff, metis mset_eq_setD)
  have "items_inv (spec_acceptance_ids spec) ordered (concat (map it_acceptance ordered))"
    using inv o1 owned(1) by (simp add: items_inv_def list_all_iff)
  moreover have "length ordered = length rows" using perm len by (metis size_mset)
  moreover have numbers: "map_of (map (\<lambda>it. (it_id it, 999999999 :: int)) items)
      = map_of (map (\<lambda>it. (it_id it, 999999999)) ordered)"
    using o1 by (intro numbers_perm) simp
  moreover have "mapE (\<lambda>it. render sha p it (map (\<lambda>it. (it_id it, 999999999)) ordered)) ordered = Inr bodies"
    using bodies render_numbers [OF numbers, of sha p] by (simp cong: render_numbers)
  moreover have "strategy_checked sha spec strategy"
  proof (cases strategy)
    case (Some v)
    with strategy have v: "validate_strategy sha (py_field raw ''strategy'') spec = Inr v"
      by (auto split: if_splits)
    with Some validate_strategy_eq [OF v] show ?thesis by (simp add: strategy_checked_def)
  qed (simp add: strategy_checked_def)
  moreover have "py_string (py_field raw ''version'') = version_of strategy"
    using strategy version by (auto simp: version_of_def py_string_def split: if_splits)
  moreover have "rows \<noteq> []" "length rows \<le> MAX_ITEMS" using rows by (auto simp: p_list_eq)
  moreover have "set (map it_id ordered) = set (map it_id items)" "set ordered = set items" using o1 by auto
  ultimately show ?thesis
    using spec cover blockers login owned(2) o1 order_items_again [OF order ids] compile_spec_eq [OF spec]
    unfolding programme_ok_def p by (auto simp: list_all_iff)
qed

lemma compiled_before:
  assumes "programme_ok sha repository p" and split: "pg_items p = before @ it # after"
  shows "set (it_blocked it) \<subseteq> set (map it_id before)"
proof -
  note ok = assms(1) [unfolded programme_ok_def]
  have ids: "distinct (map it_id (pg_items p))" using ok by (simp add: items_inv_def)
  have "(it_id it, it_blocked it) \<in> set (item_graph (pg_items p))" by (simp add: split item_graph_def)
  with ids have "deps_of (item_graph (pg_items p)) (it_id it) = it_blocked it" by (intro deps_of_mem) simp_all
  moreover have "topological (item_graph (pg_items p)) (map it_id before @ it_id it # map it_id after)"
    using ok by (simp add: split)
  ultimately show ?thesis unfolding topological_def by (metis list.set_map)
qed

section \<open>An example\<close>

definition flat_hash :: string where
  "flat_hash = replicate 64 CHR ''a''"

lemma flat_hash_length: "length flat_hash = 64"
  by (simp add: flat_hash_def)

definition flat_sha :: "string \<Rightarrow> string" where
  "flat_sha s = flat_hash"

definition demo_spec :: pyval where
  "demo_spec = PDict [(''id'', PStr ''s1''), (''revision'', PInt 1), (''repository'', PStr ''o/r''),
     (''title'', PStr ''T''), (''outcome'', PStr ''O''),
     (''requirements'', PList [PDict [(''id'', PStr ''r1''), (''acceptance'', PList [
        PDict [(''id'', PStr ''a1''), (''text'', PStr ''x'')], PDict [(''id'', PStr ''a2''), (''text'', PStr ''y'')]])]]),
     (''constraints'', PList [PStr ''c'']), (''non_goals'', PList [PStr ''n''])]"

definition demo_input :: "string \<Rightarrow> pyval" where
  "demo_input h = PDict [(''version'', PStr ''1.0''), (''spec'', demo_spec),
     (''proposal'', PDict [(''spec_sha256'', PStr h), (''items'', PList [
        PDict [(''id'', PStr ''i1''), (''acceptance'', PList [PStr ''a1'']), (''blocked_by'', PList [PStr ''i2''])],
        PDict [(''id'', PStr ''i2''), (''acceptance'', PList [PStr ''a2'']), (''blocked_by'', PList [])]])]),
     (''app_login'', PStr ''x[bot]'')]"

definition demo_raw :: pyval where
  "demo_raw = demo_input flat_hash"

definition demo_items :: "item list" where
  "demo_items = [\<lparr>it_id = ''i2'', it_acceptance = [''a2''], it_blocked = []\<rparr>,
     \<lparr>it_id = ''i1'', it_acceptance = [''a1''], it_blocked = [''i2'']\<rparr>]"

definition demo_result :: "string \<Rightarrow> programme" where
  "demo_result h = \<lparr>pg_spec = demo_spec, pg_items = demo_items, pg_login = ''x[bot]'', pg_sha256 = h, pg_strategy = None\<rparr>"

definition demo_identity :: pyval where
  "demo_identity = identity_value demo_spec demo_items ''x[bot]'' ''1.0'' None"

definition demo_programme :: programme where
  "demo_programme = \<lparr>pg_spec = demo_spec, pg_items = demo_items, pg_login = ''x[bot]'', pg_sha256 = flat_hash,
     pg_strategy = None\<rparr>"

lemma demo_programme_ids:
  "is_programme_id ''s1''" "is_programme_id ''r1''" "is_programme_id ''a1''" "is_programme_id ''a2''"
  "is_programme_id ''i1''" "is_programme_id ''i2''" "bot_login ''x[bot]''"
  by code_simp+

lemma demo_texts:
  "p_text name 2000 (PStr ''O'') = Inr ''O''" "p_text name 100 (PStr ''T'') = Inr ''T''"
  "p_text name 2000 (PStr ''c'') = Inr ''c''" "p_text name 2000 (PStr ''n'') = Inr ''n''"
  "p_text name 2000 (PStr ''x'') = Inr ''x''" "p_text name 2000 (PStr ''y'') = Inr ''y''"
  by (simp_all add: p_text_eq) code_simp+

lemma demo_programme_id: "is_programme_id s \<Longrightarrow> p_id (PStr s) = Inr s"
  by simp

lemma flat_sha_value: "sha256_value flat_sha v = flat_hash"
  by (simp add: sha256_value_def flat_sha_def)

lemma demo_spec_compiles: "compile_spec demo_spec ''o/r'' = Inr demo_spec"
  by (simp add: compile_spec_def demo_spec_def p_object_def py_field_def py_get_def demo_programme_id
      demo_programme_ids demo_texts p_list_def MAX_ITEMS_def)

lemma demo_rows: "spec_rows demo_spec = [(''a1'', ''r1'', ''x''), (''a2'', ''r1'', ''y'')]"
  by (simp add: spec_rows_def demo_spec_def py_field_def py_items_def py_string_def py_get_def)

lemma demo_order: "order_items (rev demo_items) = Inr demo_items"
  by (simp add: order_items_def demo_items_def item_graph_def topo_order.simps ready_nodes_def row_simps Let_def)

lemma demo_fields:
  "py_field demo_spec ''title'' = PStr ''T''" "py_field demo_spec ''outcome'' = PStr ''O''"
  "py_field demo_spec ''id'' = PStr ''s1''" "py_field demo_spec ''revision'' = PInt 1"
  "py_field demo_spec ''constraints'' = PList [PStr ''c'']" "py_field demo_spec ''non_goals'' = PList [PStr ''n'']"
  by (simp_all add: demo_spec_def py_field_def py_get_def)

lemma demo_numbers: "int_text 999999999 = ''999999999''" "int_text 1 = ''1''"
  by code_simp+

lemma demo_renders:
  assumes "\<And>s. length (sha s) \<le> 64" and "length h \<le> 64"
  shows "\<exists>bodies. mapE (\<lambda>it. render sha (demo_result h) it
     (map (\<lambda>it. (it_id it, 999999999)) (rev demo_items))) demo_items = Inr bodies"
proof -
  have "length (sha256_value sha v) \<le> 64" for v by (simp add: sha256_value_def assms(1))
  note short = this [of demo_spec] assms(2)
  then show ?thesis
    by (simp add: demo_items_def render_def demo_result_def demo_rows Let_def
        acceptance_line_def blocked_line_def demo_numbers bullets_def newline_def marker_def MARKER_def
        demo_fields py_string_def py_int_def py_items_def ensure_def)
qed

lemma demo_input_compiles:
  assumes "\<And>s. length (sha s) \<le> 64"
  shows "compile_programme sha (demo_input (sha256_value sha demo_spec)) ''o/r'' = Inr (demo_result (sha256_value sha demo_identity))"
proof -
  let ?result = "demo_result (sha256_value sha demo_identity)"
  have items: "compile_items [PDict [(''id'', PStr ''i1''), (''acceptance'', PList [PStr ''a1'']), (''blocked_by'', PList [PStr ''i2''])],
        PDict [(''id'', PStr ''i2''), (''acceptance'', PList [PStr ''a2'']), (''blocked_by'', PList [])]]
      [''a1'', ''a2''] [] [] = Inr (rev demo_items, [''a1'', ''a2''])"
    by (simp add: p_object_def py_field_def py_get_def demo_programme_id demo_programme_ids p_ids_def
        p_list_def MAX_ITEMS_def demo_items_def)
  have "length (sha256_value sha demo_identity) \<le> 64" by (simp add: sha256_value_def assms)
  from demo_renders [where sha = sha, OF assms this] obtain bodies where
    "mapE (\<lambda>it. render sha ?result it (map (\<lambda>it. (it_id it, 999999999)) (rev demo_items))) demo_items = Inr bodies"
    by blast
  moreover have "list_all (\<lambda>it. set (it_blocked it) \<subseteq> it_id ` set demo_items) demo_items"
    by (simp add: demo_items_def)
  moreover have "?result = \<lparr>pg_spec = demo_spec, pg_items = demo_items, pg_login = ''x[bot]'',
      pg_sha256 = sha256_value sha (identity_value demo_spec demo_items ''x[bot]'' ''1.0'' None), pg_strategy = None\<rparr>"
    by (simp only: demo_result_def demo_identity_def)
  ultimately show ?thesis
    by (simp add: compile_programme_def demo_input_def py_field_def py_get_def py_string_def p_object_def demo_spec_compiles
        items demo_order spec_acceptance_ids_def demo_rows p_list_def MAX_ITEMS_def
        demo_programme_ids del: compile_items.simps)
qed

lemma demo_compiles: "compile_programme flat_sha demo_raw ''o/r'' = Inr demo_programme"
proof -
  have "length (flat_sha s) \<le> 64" for s by (simp add: flat_sha_def flat_hash_length)
  from demo_input_compiles [where sha = flat_sha, OF this] show ?thesis
    by (simp add: flat_sha_value demo_raw_def demo_programme_def demo_result_def)
qed

section \<open>Guarantees\<close>

text \<open>C34. Compiling orders the items so that each one comes after every item that blocks it, with
  no item twice, and the compiled items are items of the proposal whose acceptance criteria
  partition those of the specification: every criterion has exactly one owner.\<close>

theorem compiled_order_and_partition:
  assumes "compile_programme sha raw repository = Inr p"
  shows "distinct (map it_id (pg_items p))
    \<and> (\<forall>before it after. pg_items p = before @ it # after \<longrightarrow> set (it_blocked it) \<subseteq> set (map it_id before))
    \<and> distinct (concat (map it_acceptance (pg_items p)))
    \<and> set (concat (map it_acceptance (pg_items p))) = set (spec_acceptance_ids (pg_spec p))"
proof -
  note ok = compile_programme_ok [OF assms, unfolded programme_ok_def]
  have "distinct (map it_id (pg_items p))" using ok by (simp add: items_inv_def)
  with ok compiled_before [OF compile_programme_ok [OF assms]] show ?thesis by (auto simp: items_inv_def)
qed

lemma compiled_order_and_partition_witness:
  "distinct (map it_id demo_items) \<and> set (concat (map it_acceptance demo_items)) = {''a1'', ''a2''}"
  using compiled_order_and_partition [OF demo_compiles]
  by (simp add: demo_programme_def spec_acceptance_ids_def demo_rows)

text \<open>C40. A cycle is refused exactly when there is one: ordering distinct items fails if and only
  if some nonempty set of them waits for itself (or for an item that does not exist).\<close>

theorem cycle_refused_exactly:
  assumes "distinct (map it_id items)"
  shows "order_items items = Inl P_cycle \<longleftrightarrow>
    (\<exists>S. S \<noteq> {} \<and> S \<subseteq> it_id ` set items \<and>
      (\<forall>it \<in> set items. it_id it \<in> S \<longrightarrow> (\<exists>b \<in> set (it_blocked it). b \<in> S \<or> b \<notin> it_id ` set items)))"
proof -
  have deps: "deps_of (item_graph items) (it_id it) = it_blocked it" if "it \<in> set items" for it
    by (rule deps_of_mem) (simp only: item_graph_keys assms, use that in \<open>auto simp: item_graph_def\<close>)
  have "stuck (item_graph items) S \<longleftrightarrow> S \<noteq> {} \<and> S \<subseteq> it_id ` set items \<and>
      (\<forall>it \<in> set items. it_id it \<in> S \<longrightarrow> (\<exists>b \<in> set (it_blocked it). b \<in> S \<or> b \<notin> it_id ` set items))" for S
  proof (cases "S \<subseteq> it_id ` set items")
    case True
    have "(\<forall>k \<in> S. \<exists>d \<in> set (deps_of (item_graph items) k). d \<in> S \<or> d \<notin> it_id ` set items) \<longleftrightarrow>
      (\<forall>it \<in> set items. it_id it \<in> S \<longrightarrow> (\<exists>b \<in> set (it_blocked it). b \<in> S \<or> b \<notin> it_id ` set items))"
    proof (intro iffI ballI impI)
      fix it
      assume "\<forall>k \<in> S. \<exists>d \<in> set (deps_of (item_graph items) k). d \<in> S \<or> d \<notin> it_id ` set items"
        and "it \<in> set items" and "it_id it \<in> S"
      with deps show "\<exists>b \<in> set (it_blocked it). b \<in> S \<or> b \<notin> it_id ` set items" by metis
    next
      fix k
      assume h: "\<forall>it \<in> set items. it_id it \<in> S \<longrightarrow> (\<exists>b \<in> set (it_blocked it). b \<in> S \<or> b \<notin> it_id ` set items)"
        and k: "k \<in> S"
      then obtain it where "it \<in> set items" "it_id it = k" using True by blast
      with deps h k show "\<exists>d \<in> set (deps_of (item_graph items) k). d \<in> S \<or> d \<notin> it_id ` set items" by metis
    qed
    then show ?thesis by (simp only: stuck_def item_graph_keys_set)
  qed (simp add: stuck_def)
  moreover have "order_items items = Inl P_cycle \<longleftrightarrow> topo_order (item_graph items) [] = None"
    by (simp add: order_items_def split: option.splits)
  ultimately show ?thesis using topo_order_complete [of "item_graph items"] assms by simp
qed

lemma cycle_refused_exactly_witness:
  "order_items [\<lparr>it_id = ''a'', it_acceptance = [''x''], it_blocked = [''b'']\<rparr>,
      \<lparr>it_id = ''b'', it_acceptance = [''y''], it_blocked = [''a'']\<rparr>] = Inl P_cycle"
  by (subst cycle_refused_exactly) (auto intro!: exI [of _ "{''a'', ''b''}"])

text \<open>C35. Round trip: the canonical input of a compiled programme compiles again, to exactly the
  same programme (order, hash and strategy included).\<close>

theorem to_input_round_trip:
  assumes "compile_programme sha raw repository = Inr p"
  shows "compile_programme sha (to_input sha p) repository = Inr p"
proof -
  note ok = compile_programme_ok [OF assms, unfolded programme_ok_def]
  have items: "compile_items (map item_value (pg_items p)) (spec_acceptance_ids (pg_spec p)) [] [] =
      Inr (pg_items p, concat (map it_acceptance (pg_items p)))"
    using compile_items_values [of _ "[]" "pg_items p" "[]"] ok by simp
  have spec: "compile_spec (pg_spec p) repository = Inr (pg_spec p)" using ok by blast
  have order: "order_items (pg_items p) = Inr (pg_items p)" using ok by blast
  have blockers: "list_all (\<lambda>it. set (it_blocked it) \<subseteq> set (map it_id (pg_items p))) (pg_items p)"
    using ok by blast
  have cover: "set (concat (map it_acceptance (pg_items p))) = set (spec_acceptance_ids (pg_spec p))"
    using ok by blast
  have rows: "p_list ''items'' False (PList (map item_value (pg_items p))) = Inr (map item_value (pg_items p))"
    using ok by (simp add: p_list_eq)
  obtain bodies where bodies:
    "mapE (\<lambda>it. render sha p it (map (\<lambda>it. (it_id it, 999999999)) (pg_items p))) (pg_items p) = Inr bodies"
    using ok by blast
  have p: "\<lparr>pg_spec = pg_spec p, pg_items = pg_items p, pg_login = pg_login p,
      pg_sha256 = sha256_value sha (identity_value (pg_spec p) (pg_items p) (pg_login p)
          (version_of (pg_strategy p)) (pg_strategy p)), pg_strategy = pg_strategy p\<rparr> = p"
    using ok by simp
  have login: "bot_login (pg_login p)" using ok by blast
  show ?thesis
  proof (cases "pg_strategy p")
    case None
    with spec items order blockers cover rows bodies p login show ?thesis
      by (simp add: compile_programme_def to_input_def py_field_def py_get_def p_object_def py_string_def
          version_of_def insert_commute ensure_def)
  next
    case (Some v)
    then have "validate_strategy sha v (pg_spec p) = Inr v" using ok by (simp add: strategy_checked_def)
    with Some spec items order blockers cover rows bodies p login show ?thesis
      by (simp add: compile_programme_def to_input_def py_field_def py_get_def p_object_def py_string_def
          version_of_def insert_commute ensure_def)
  qed
qed

lemma to_input_round_trip_witness:
  "compile_programme flat_sha (to_input flat_sha demo_programme) ''o/r'' = Inr demo_programme"
  by (rule to_input_round_trip [OF demo_compiles])

end
