(* ===== verification/Claim_Properties.thy ===== *)
theory Claim_Properties
  imports Claim_Binding Programme_Properties
begin

text \<open>
  The properties of the claim graph: the cycle search is exact and agrees with the compiler's order, a
  validated set keeps its promise, a compiled programme always binds, the standing of a requirement is
  the standing of everything its item waits for, and which bindings can be observed.
\<close>

section \<open>Bound claim sets\<close>

lemma load_policy_final: "load_policy raw = Inr policy \<Longrightarrow> list_all rq_final (sp_requirements policy)"
  using closed_requires [OF load_policy_closed] by (auto simp: list_all_iff)

lemma load_policy_requires: "load_policy raw = Inr policy \<Longrightarrow> requires_closed policy"
  using closed_requires [OF load_policy_closed] by (force simp: requires_closed_def list_all_iff)

lemma bind_programme_bound:
  assumes "compile_requirement_claims sha spec repository project approval = Inr rs"
    and "load_policy raw = Inr policy"
    and "bind_programme_claims sha rs p strategy policy = Inr cs"
    and "requirement_keys rs \<noteq> []"
  shows "bound sha rs p policy cs"
proof -
  note keys = requirement_keys_compiled [OF assms(1)]
  note bind = iffD1 [OF bind_programme_eq [OF keys(2) assms(4)] assms(3)]
  have reqs: "\<forall>c \<in> set (rs_claims rs). kd_kind c = ''requirement'' \<and> kd_depends c = []" using keys(5) by blast
  show ?thesis
    unfolding bound_def using bind load_policy_final [OF assms(2)] keys(2,4) reqs by blast
qed

section \<open>A compiled programme binds\<close>

lemma compiled_item_map: "distinct (map it_id (pg_items p)) \<Longrightarrow> item_map p = map (\<lambda>it. (it_id it, it)) (pg_items p)"
  unfolding item_map_def by (rule fold_update_distinct)

lemma topological_snoc: "topological g xs \<Longrightarrow> set (deps_of g y) \<subseteq> set xs \<Longrightarrow> topological g (xs @ [y])"
  by (rule topological_append) auto

text \<open>The order in which nothing waits for anything later: the requirements, then the obligations item by
  item in the compiled order, each in the order of the policy.\<close>

definition binding_order :: "(string \<Rightarrow> string) \<Rightarrow> requirement_set \<Rightarrow> programme \<Rightarrow> spine_policy \<Rightarrow> item list \<Rightarrow> string list" where
  "binding_order sha rs p policy items = map kd_key (rs_claims rs)
     @ concat (map (\<lambda>it. map (\<lambda>r. obligation_key sha rs p policy (it_id it) (rq_id r)) (sp_requirements policy)) items)"

lemma set_binding_order:
  "set (binding_order sha rs p policy items) = kd_key ` set (rs_claims rs)
     \<union> (\<Union>it \<in> set items. (\<lambda>r. obligation_key sha rs p policy (it_id it) (rq_id r)) ` set (sp_requirements policy))"
  by (auto simp: binding_order_def)

lemma binding_order_topological:
  assumes reqs: "\<And>c. c \<in> set (rs_claims rs) \<Longrightarrow> deps_of g (kd_key c) = []"
    and obl: "\<And>it r. it \<in> set (pg_items p) \<Longrightarrow> r \<in> set (sp_requirements policy) \<Longrightarrow>
      set (deps_of g (obligation_key sha rs p policy (it_id it) (rq_id r))) \<subseteq> kd_key ` set (rs_claims rs)
        \<union> obligation_key sha rs p policy (it_id it) ` set (rq_requires r)
        \<union> (\<Union>b \<in> set (it_blocked it). (\<lambda>r. obligation_key sha rs p policy b (rq_id r)) ` set (sp_requirements policy))"
    and items: "\<And>before it after. pg_items p = before @ it # after \<Longrightarrow> set (it_blocked it) \<subseteq> it_id ` set before"
    and policy: "closed_requirements [] (sp_requirements policy)"
  shows "topological g (binding_order sha rs p policy (pg_items p))"
proof -
  let ?k = "obligation_key sha rs p policy" and ?rows = "sp_requirements policy"
  have base: "topological g (map kd_key (rs_claims rs))"
    using topological_append [OF topological_Nil, of "map kd_key (rs_claims rs)" g] reqs by auto
  have "topological g (binding_order sha rs p policy ahead)" if "pg_items p = ahead @ rest" for ahead rest
    using that
  proof (induction ahead arbitrary: rest rule: rev_induct)
    case Nil
    with base show ?case by (simp add: binding_order_def)
  next
    case (snoc it before)
    let ?b = "binding_order sha rs p policy before"
    have it: "it \<in> set (pg_items p)" and blocked: "set (it_blocked it) \<subseteq> it_id ` set before"
      using snoc.prems items [of before it rest] by auto
    have "topological g (?b @ map (\<lambda>r. ?k (it_id it) (rq_id r)) ps)" if "?rows = ps @ qs" for ps qs
      using that
    proof (induction ps arbitrary: qs rule: rev_induct)
      case Nil
      with snoc show ?case by simp
    next
      case (snoc r ps)
      have "set (rq_requires r) \<subseteq> rq_id ` set ps" using closed_at [of "[]" ps r qs] policy snoc.prems by simp
      then have own: "?k (it_id it) ` set (rq_requires r) \<subseteq> (\<lambda>r. ?k (it_id it) (rq_id r)) ` set ps" by auto
      have early: "(\<Union>b \<in> set (it_blocked it). (\<lambda>r. ?k b (rq_id r)) ` set ?rows) \<subseteq> set ?b"
        using blocked by (fastforce simp: set_binding_order)
      have "kd_key ` set (rs_claims rs) \<subseteq> set ?b" by (simp add: set_binding_order)
      moreover have r: "r \<in> set ?rows" using snoc.prems by simp
      ultimately have "set (deps_of g (?k (it_id it) (rq_id r))) \<subseteq> set ?b \<union> (\<lambda>r. ?k (it_id it) (rq_id r)) ` set ps"
        using own early by (intro order_trans [OF obl [OF it r]] Un_least) (rule le_supI1 le_supI2, assumption)+
      then have "set (deps_of g (?k (it_id it) (rq_id r))) \<subseteq> set (?b @ map (\<lambda>r. ?k (it_id it) (rq_id r)) ps)"
        by (simp only: set_append set_map)
      with snoc.IH [of "r # qs"] snoc.prems show ?case
        using topological_snoc [of g "?b @ map (\<lambda>r. ?k (it_id it) (rq_id r)) ps"] by simp
    qed
    from this [of ?rows "[]"] show ?case by (simp add: binding_order_def)
  qed
  from this [of "pg_items p" "[]"] show ?thesis by simp
qed

lemma compiled_work:
  assumes ok: "programme_ok sha repository p"
    and rs: "compile_requirement_claims sha (pg_spec p) rid project approval = Inr rs"
  shows "work_assigned (requirement_keys rs) (item_rows p)"
proof -
  note o1 = ok [unfolded programme_ok_def]
  have ids: "distinct (map it_id (pg_items p))" using o1 by (simp add: items_inv_def)
  note im = compiled_item_map [OF ids]
  have "mset (item_rows p) = mset (map (\<lambda>it. (it_id it, it)) (pg_items p))" by (simp add: item_rows_def im)
  moreover have "mset (concat (map (it_acceptance \<circ> snd) xs)) = sum_mset (image_mset (mset \<circ> it_acceptance \<circ> snd) (mset xs))"
    for xs :: "(string \<times> item) list" by (induction xs) simp_all
  ultimately have flat: "mset (concat (map (it_acceptance \<circ> snd) (item_rows p))) = mset (concat (map it_acceptance (pg_items p)))"
    by (metis (no_types, lifting) comp_apply list.map_cong0 list.map_comp mset_map snd_conv)
  have "distinct (concat (map it_acceptance (pg_items p)))" using o1 by (simp add: items_inv_def)
  with flat have "distinct (concat (map (it_acceptance \<circ> snd) (item_rows p)))" using mset_eq_imp_distinct_iff by blast
  moreover have "set (concat (map (it_acceptance \<circ> snd) (item_rows p))) = fst ` set (requirement_keys rs)"
    using o1 requirement_keys_compiled(6) [OF rs] mset_eq_setD [OF flat] by simp
  moreover have "list_all (\<lambda>(i, it). it_acceptance it \<noteq> [] \<and> set (it_blocked it) \<subseteq> fst ` set (item_rows p)) (item_rows p)"
    using o1 by (auto simp: list_all_iff im items_inv_def item_ok_def image_image)
  ultimately show ?thesis by (simp only: work_assigned_def)
qed

lemma compiled_acyclic:
  assumes ok: "programme_ok sha repository p"
  shows "\<not> (node_dep (map (\<lambda>(i, it). (i, it_blocked it)) (item_map p)))\<^sup>+\<^sup>+ k k"
proof -
  note o1 = ok [unfolded programme_ok_def]
  have ids: "distinct (map it_id (pg_items p))" using o1 by (simp add: items_inv_def)
  have g: "map (\<lambda>(i, it). (i, it_blocked it)) (item_map p) = item_graph (pg_items p)"
    by (simp add: compiled_item_map [OF ids] item_graph_def)
  have "known_deps (item_graph (pg_items p))" using o1 by (auto simp: known_deps_def list_all_iff item_graph_def image_image)
  moreover have "topo_order (item_graph (pg_items p)) [] \<noteq> None" using o1 by (auto simp: order_items_def split: option.splits)
  ultimately have "find_cycle (item_graph (pg_items p)) = None" using find_cycle_layered [of "item_graph (pg_items p)"] ids by simp
  then show ?thesis by (simp add: g find_cycle_None_iff)
qed

text \<open>The promise of a bound set, when its keys are distinct.\<close>

lemma bound_edge_known:
  assumes work: "work_assigned (requirement_keys rs) (item_rows p)" and closed: "requires_closed policy"
    and vals: "map kd_key (rs_claims rs) = map snd (requirement_keys rs)"
    and e: "e \<in> set (cs_edges (bound_claims sha rs p policy))"
  shows "ed_relation e \<in> set RELATIONS \<and> ed_source e \<in> claim_keys (bound_claims sha rs p policy)
    \<and> ed_target e \<in> claim_keys (bound_claims sha rs p policy)"
proof -
  let ?cs = "bound_claims sha rs p policy" and ?k = "obligation_key sha rs p policy"
  have key: "?k i (rq_id r) \<in> claim_keys ?cs" if "(i, it) \<in> set (item_map p)" "r \<in> set (sp_requirements policy)" for i it r
    using that by (force simp: claim_keys_def bound_claims_simps)
  have own: "q \<in> claim_keys ?cs" if "(i, it) \<in> set (item_map p)" "q \<in> set (own_keys (requirement_keys rs) it)" for i it q
  proof -
    from that(2) obtain ac where ac: "ac \<in> set (it_acceptance it)" "q = the (map_of (requirement_keys rs) ac)"
      by (auto simp: own_keys_def)
    with that(1) work have "ac \<in> fst ` set (requirement_keys rs)" by (force simp: work_assigned_def)
    then obtain v where "map_of (requirement_keys rs) ac = Some v" by (metis map_of_eq_None_iff not_None_eq)
    with ac(2) have "q \<in> set (map snd (requirement_keys rs))" by (force dest: map_of_SomeD)
    then have "q \<in> set (map kd_key (rs_claims rs))" by (simp only: vals)
    then show ?thesis by (auto simp: claim_keys_def bound_claims_simps)
  qed
  have blocked: "\<exists>bit. (b, bit) \<in> set (item_map p)" if "(i, it) \<in> set (item_map p)" "b \<in> set (it_blocked it)" for i it b
    using work that by (force simp: work_assigned_def list_all_iff)
  have requires: "\<exists>r' \<in> set (sp_requirements policy). q = rq_id r'" if "r \<in> set (sp_requirements policy)" "q \<in> set (rq_requires r)" for r q
    using closed that by (force simp: requires_closed_def list_all_iff)
  have profiles: "f \<in> set (final_profiles policy) \<Longrightarrow> \<exists>r \<in> set (sp_requirements policy). f = rq_id r" for f
    by (auto simp: final_profiles_def)
  from e consider (obligation) i it r where "(i, it) \<in> set (item_map p)" "r \<in> set (sp_requirements policy)"
      "e \<in> set (snd (bound_parts sha rs p policy (i, it) r))"
    | (blocker) i it where "(i, it) \<in> set (item_map p)" "e \<in> set (blocker_edges policy ?k (cs_item_obligations ?cs) (i, it))"
    unfolding bound_edges by auto
  then show ?thesis
  proof cases
    case obligation
    note lookup = item_keys_lookup [of i it p rs, simplified, OF obligation(1)]
    from obligation(3) consider q where "q \<in> set (own_keys (requirement_keys rs) it)" "e = mk_edge ''supported_by'' q (?k i (rq_id r))"
      | q where "q \<in> set (rq_requires r)" "e = mk_edge ''depends_on'' (?k i (rq_id r)) (?k i q)"
      by (auto simp: bound_parts_def obligation_parts_def Let_def lookup)
    then show ?thesis
    proof cases
      case 1
      with own [OF obligation(1)] key [OF obligation(1,2)] show ?thesis by (simp add: RELATIONS_def)
    next
      case 2
      from requires [OF obligation(2) 2(1)] obtain r' where "r' \<in> set (sp_requirements policy)" "q = rq_id r'" by blast
      with 2 key [OF obligation(1)] obligation(2) show ?thesis by (simp add: RELATIONS_def)
    qed
  next
    case blocker
    have "map_of (cs_item_obligations ?cs) i = Some (map (\<lambda>r. ?k i (rq_id r)) (sp_requirements policy))"
      using map_of_keyed [OF item_rows_distinct, of "(i, it)" p "\<lambda>row. map (\<lambda>r. ?k (fst row) (rq_id r)) (sp_requirements policy)"] blocker(1)
      by (simp add: bound_claims_simps)
    with blocker(2) obtain b f r where "b \<in> set (it_blocked it)" "f \<in> set (final_profiles policy)" "r \<in> set (sp_requirements policy)"
      "e = mk_edge ''depends_on'' (?k i (rq_id r)) (?k b f)"
      by (auto simp: blocker_edges_def)
    with key [OF blocker(1)] key blocked [OF blocker(1)] profiles show ?thesis by (auto simp: RELATIONS_def) blast
  qed
qed

lemma bound_claim_iff:
  assumes "distinct (map it_id (pg_items p))"
  shows "c \<in> set (cs_claims (bound_claims sha rs p policy)) \<longleftrightarrow> c \<in> set (rs_claims rs)
    \<or> (\<exists>it \<in> set (pg_items p). \<exists>r \<in> set (sp_requirements policy). c = fst (bound_parts sha rs p policy (it_id it, it) r))"
  unfolding bound_claims_simps compiled_item_map [OF assms] item_rows_set set_append set_concat set_map image_image
  by blast

lemma bound_key_known:
  assumes "distinct (map it_id (pg_items p))" and "it \<in> set (pg_items p)" and "r \<in> set (sp_requirements policy)"
  shows "obligation_key sha rs p policy (it_id it) (rq_id r) \<in> claim_keys (bound_claims sha rs p policy)"
proof -
  have "fst (bound_parts sha rs p policy (it_id it, it) r) \<in> set (cs_claims (bound_claims sha rs p policy))"
    unfolding bound_claim_iff [OF assms(1)] using assms(2,3) by blast
  then have "kd_key (fst (bound_parts sha rs p policy (it_id it, it) r)) \<in> claim_keys (bound_claims sha rs p policy)"
    unfolding claim_keys_def by (rule imageI)
  then show ?thesis by simp
qed

lemma compiled_own_key:
  assumes ok: "programme_ok sha repository p"
    and rs: "compile_requirement_claims sha (pg_spec p) rid project approval = Inr rs"
    and it: "it \<in> set (pg_items p)" and q: "q \<in> set (own_keys (requirement_keys rs) it)"
  shows "q \<in> kd_key ` set (rs_claims rs)"
proof -
  let ?keys = "requirement_keys rs"
  note keys = requirement_keys_compiled [OF rs]
  from q obtain ac where ac: "ac \<in> set (it_acceptance it)" "q = the (map_of ?keys ac)" by (auto simp: own_keys_def)
  have "set (concat (map it_acceptance (pg_items p))) = set (map fst ?keys)"
    using ok unfolding keys(6) programme_ok_def by blast
  moreover have "ac \<in> set (concat (map it_acceptance (pg_items p)))" using ac(1) it by auto
  ultimately have "ac \<in> fst ` set ?keys" by (simp only: set_map)
  then obtain v where "map_of ?keys ac = Some v" by (metis map_of_eq_None_iff not_None_eq)
  with ac(2) have "q \<in> set (map snd ?keys)" by (force dest: map_of_SomeD)
  then have "q \<in> set (map kd_key (rs_claims rs))" by (simp only: keys(4))
  then show ?thesis by simp
qed

lemma compiled_depends:
  assumes ids: "distinct (map it_id (pg_items p))" and pol: "load_policy raw = Inr policy" and it: "it \<in> set (pg_items p)"
  shows "set (kd_depends (fst (bound_parts sha rs p policy (it_id it, it) r))) =
    set (own_keys (requirement_keys rs) it) \<union> obligation_key sha rs p policy (it_id it) ` set (rq_requires r)
    \<union> (\<Union>b \<in> set (it_blocked it). (\<lambda>r. obligation_key sha rs p policy b (rq_id r)) ` set (sp_requirements policy))"
proof -
  have final: "final_profiles policy = map rq_id (sp_requirements policy)"
    using load_policy_final [OF pol] by (auto simp: final_profiles_def list_all_iff)
  have "(it_id it, it) \<in> set (item_rows p)" unfolding item_rows_set compiled_item_map [OF ids] set_map using it by (rule imageI)
  from bound_depends [OF this] show ?thesis by (simp only: final set_map image_image)
qed

lemma compiled_deps_known:
  assumes ok: "programme_ok sha repository p"
    and rs: "compile_requirement_claims sha (pg_spec p) rid project approval = Inr rs"
    and pol: "load_policy raw = Inr policy"
    and it: "it \<in> set (pg_items p)" and r: "r \<in> set (sp_requirements policy)"
  shows "set (kd_depends (fst (bound_parts sha rs p policy (it_id it, it) r))) \<subseteq> claim_keys (bound_claims sha rs p policy)"
proof -
  let ?cs = "bound_claims sha rs p policy" and ?k = "obligation_key sha rs p policy"
  have ids: "distinct (map it_id (pg_items p))" using ok unfolding programme_ok_def items_inv_def by blast
  have "kd_key ` set (rs_claims rs) \<subseteq> claim_keys ?cs" by (auto simp: claim_keys_def bound_claims_simps)
  then have "set (own_keys (requirement_keys rs) it) \<subseteq> claim_keys ?cs" using compiled_own_key [OF ok rs it] by blast
  moreover have "?k (it_id it) ` set (rq_requires r) \<subseteq> claim_keys ?cs"
  proof
    fix y
    assume "y \<in> ?k (it_id it) ` set (rq_requires r)"
    then obtain r' where "r' \<in> set (sp_requirements policy)" "y = ?k (it_id it) (rq_id r')"
      using load_policy_requires [OF pol] r by (force simp: requires_closed_def list_all_iff)
    with bound_key_known [OF ids it] show "y \<in> claim_keys ?cs" by blast
  qed
  moreover have "(\<Union>b \<in> set (it_blocked it). (\<lambda>r. ?k b (rq_id r)) ` set (sp_requirements policy)) \<subseteq> claim_keys ?cs"
  proof -
    have "set (it_blocked it) \<subseteq> it_id ` set (pg_items p)" using ok it by (auto simp: programme_ok_def list_all_iff)
    with bound_key_known [OF ids] show ?thesis by blast
  qed
  ultimately show ?thesis unfolding compiled_depends [OF ids pol it] by blast
qed

lemma length_rows: "length (concat (map (\<lambda>x. map (f x) ys) xs)) = length xs * length ys"
  by (induction xs) simp_all

lemma compiled_claims_acyclic:
  assumes ok: "programme_ok sha repository p"
    and rs: "compile_requirement_claims sha (pg_spec p) rid project approval = Inr rs"
    and pol: "load_policy raw = Inr policy"
    and dist: "distinct (map kd_key (cs_claims (bound_claims sha rs p policy)))"
  shows "\<not> (node_dep (dependency_graph (bound_claims sha rs p policy)))\<^sup>+\<^sup>+ k k"
proof -
  let ?cs = "bound_claims sha rs p policy" and ?k = "obligation_key sha rs p policy"
  let ?g = "dependency_graph ?cs" and ?L = "binding_order sha rs p policy (pg_items p)"
  have ids: "distinct (map it_id (pg_items p))" using ok unfolding programme_ok_def items_inv_def by blast
  have top: "topological ?g ?L"
  proof (rule binding_order_topological)
    show "deps_of ?g (kd_key c) = []" if c: "c \<in> set (rs_claims rs)" for c
    proof -
      have "c \<in> set (cs_claims ?cs)" using c by (simp add: bound_claims_simps)
      from graph_deps [OF dist this] requirement_keys_compiled(5) [OF rs c] show ?thesis by simp
    qed
    show "set (deps_of ?g (?k (it_id it) (rq_id r))) \<subseteq> kd_key ` set (rs_claims rs) \<union> ?k (it_id it) ` set (rq_requires r)
        \<union> (\<Union>b \<in> set (it_blocked it). (\<lambda>r. ?k b (rq_id r)) ` set (sp_requirements policy))"
      if it: "it \<in> set (pg_items p)" and r: "r \<in> set (sp_requirements policy)" for it r
    proof -
      have "fst (bound_parts sha rs p policy (it_id it, it) r) \<in> set (cs_claims ?cs)"
        unfolding bound_claim_iff [OF ids] using it r by blast
      from graph_deps [OF dist this]
      have deps: "deps_of ?g (?k (it_id it) (rq_id r)) = kd_depends (fst (bound_parts sha rs p policy (it_id it, it) r))" by simp
      have "set (own_keys (requirement_keys rs) it) \<subseteq> kd_key ` set (rs_claims rs)"
        using compiled_own_key [OF ok rs it] by (rule subsetI)
      then show ?thesis
        unfolding deps compiled_depends [OF ids pol it] by (intro Un_mono order_refl)
    qed
    show "set (it_blocked it) \<subseteq> it_id ` set before" if "pg_items p = before @ it # after" for before it after
      using compiled_before [OF ok that] by simp
    show "closed_requirements [] (sp_requirements policy)" by (rule load_policy_closed [OF pol])
  qed
  have setL: "set ?L = claim_keys ?cs"
    unfolding claim_keys_def set_binding_order bound_claims_simps compiled_item_map [OF ids] set_append set_concat set_map
      item_rows_set image_Un image_UN image_image bound_key by simp
  have "length ?L = length (cs_claims ?cs)"
    by (simp add: binding_order_def bound_claims_simps item_rows_def compiled_item_map [OF ids] length_rows)
  moreover have "card (claim_keys ?cs) = length (cs_claims ?cs)" using distinct_card [OF dist] by (simp add: claim_keys_def)
  ultimately have "distinct ?L" by (intro card_distinct) (simp add: setL)
  then have free: "\<not> stuck ?g S" for S by (rule topo_order_Some_not_stuck [OF _ _ top]) (simp add: setL graph_keys)
  show ?thesis
  proof
    assume "(node_dep ?g)\<^sup>+\<^sup>+ k k"
    from cycle_stuck [OF this] free show False by (rule notE [rotated])
  qed
qed

lemma compiled_supported:
  assumes ok: "programme_ok sha repository p"
    and rs: "compile_requirement_claims sha (pg_spec p) rid project approval = Inr rs"
    and some: "sp_requirements policy \<noteq> []" and c: "c \<in> set (rs_claims rs)"
  shows "supporting (cs_edges (bound_claims sha rs p policy)) (kd_key c) \<noteq> []"
proof -
  let ?keys = "requirement_keys rs"
  note keys = requirement_keys_compiled [OF rs]
  have ids: "distinct (map it_id (pg_items p))" using ok unfolding programme_ok_def items_inv_def by blast
  have "kd_key c \<in> set (map kd_key (rs_claims rs))" using c by simp
  then have "kd_key c \<in> set (map snd ?keys)" by (simp only: keys(4))
  then obtain ac where ac: "(ac, kd_key c) \<in> set ?keys" by auto
  have "set (concat (map it_acceptance (pg_items p))) = set (map fst ?keys)"
    using ok unfolding keys(6) programme_ok_def by blast
  with ac have "ac \<in> set (concat (map it_acceptance (pg_items p)))" by force
  then obtain it where it: "it \<in> set (pg_items p)" "ac \<in> set (it_acceptance it)" by auto
  have "map_of ?keys ac = Some (kd_key c)" using ac keys(2) by simp
  with it(2) have own: "kd_key c \<in> set (own_keys ?keys it)" by (force simp: own_keys_def)
  obtain r where r: "r \<in> set (sp_requirements policy)" using some by (cases "sp_requirements policy") auto
  have "(it_id it, it) \<in> set (item_rows p)"
    unfolding item_rows_set compiled_item_map [OF ids] set_map using it(1) by (rule imageI)
  with own r have "obligation_key sha rs p policy (it_id it) (rq_id r) \<in> set (supporting (cs_edges (bound_claims sha rs p policy)) (kd_key c))"
    unfolding bound_supporting by blast
  then show ?thesis by auto
qed

lemma compiled_well_formed:
  assumes ok: "programme_ok sha repository p"
    and rs: "compile_requirement_claims sha (pg_spec p) rid project approval = Inr rs"
    and pol: "load_policy raw = Inr policy"
    and dist: "distinct (map kd_key (cs_claims (bound_claims sha rs p policy)))"
  shows "claims_well_formed (bound_claims sha rs p policy) policy"
proof -
  let ?cs = "bound_claims sha rs p policy"
  note keys = requirement_keys_compiled [OF rs]
  have ids: "distinct (map it_id (pg_items p))" using ok unfolding programme_ok_def items_inv_def by blast
  have each: "kd_kind c \<in> set KINDS \<and> kd_project c = rs_project rs \<and> kd_spec c = rs_spec rs
      \<and> set (kd_depends c) \<subseteq> claim_keys ?cs \<and> authority_ok policy c \<and> (kd_kind c = ''requirement'' \<longrightarrow> c \<in> set (rs_claims rs))"
    if "c \<in> set (cs_claims ?cs)" for c
    using that unfolding bound_claim_iff [OF ids]
  proof
    assume "c \<in> set (rs_claims rs)"
    with keys(5) [OF this] show ?thesis by (simp add: KINDS_def authority_ok_def)
  next
    assume "\<exists>it \<in> set (pg_items p). \<exists>r \<in> set (sp_requirements policy). c = fst (bound_parts sha rs p policy (it_id it, it) r)"
    then obtain it r where c: "it \<in> set (pg_items p)" "r \<in> set (sp_requirements policy)"
      "c = fst (bound_parts sha rs p policy (it_id it, it) r)" by blast
    have "kd_project c = rs_project rs" "kd_spec c = rs_spec rs" "kd_authority c = Some (rq_id r)" "kd_kind c = ''proof-obligation''"
      by (simp_all add: c(3) bound_parts_def obligation_parts_def Let_def)
    with compiled_deps_known [OF ok rs pol c(1,2)] c(2,3) show ?thesis by (simp add: KINDS_def authority_ok_def)
  qed
  have requirement: "supporting (cs_edges ?cs) (kd_key c) \<noteq> []" if "c \<in> set (cs_claims ?cs)" "kd_kind c = ''requirement''" for c
    using each [OF that(1)] that(2) compiled_supported [OF ok rs load_policy_some [OF pol]] by blast
  show ?thesis
    unfolding claims_well_formed_def bound_claims_simps(2,3)
    using dist each compiled_claims_acyclic [OF ok rs pol dist] requirement
      bound_edge_known [OF compiled_work [OF ok rs] load_policy_requires [OF pol] keys(4)]
    by (intro conjI ballI allI impI) blast+
qed

lemma compiled_binds:
  assumes ok: "programme_ok sha repository p"
    and rs: "compile_requirement_claims sha (pg_spec p) rid project approval = Inr rs"
    and pol: "load_policy raw = Inr policy"
    and strategy: "strategy_bound (rs_spec rs) strategy = Inr ()"
    and dist: "distinct (map kd_key (cs_claims (bound_claims sha rs p policy)))"
  shows "bind_programme_claims sha rs p strategy policy = Inr (bound_claims sha rs p policy)"
proof -
  note keys = requirement_keys_compiled [OF rs] and work = compiled_work [OF ok rs]
  have "requirement_keys rs \<noteq> []"
  proof
    assume "requirement_keys rs = []"
    with keys(6) ok have "concat (map it_acceptance (pg_items p)) = []" by (simp add: programme_ok_def)
    with ok show False by (cases "pg_items p") (auto simp: programme_ok_def items_inv_def item_ok_def)
  qed
  from bind_programme_eq [OF keys(2) this, of sha p strategy policy] show ?thesis
    using keys(3) work compiled_acyclic [OF ok] strategy load_policy_some [OF pol] load_policy_requires [OF pol]
      compiled_well_formed [OF ok rs pol dist] by simp
qed

section \<open>An example\<close>

text \<open>A hash of four characters of the text, enough to tell the keys below apart.\<close>

definition short_sha :: "string \<Rightarrow> string" where
  "short_sha s = [s ! 18, s ! 19, s ! 22, s ! 37]"

definition demo_profile :: "string \<Rightarrow> string list \<Rightarrow> pyval" where
  "demo_profile i requires = PDict [(''id'', PStr i), (''stage'', PStr ''s''), (''requires'', PList (map PStr requires)),
     (''deterministic_required'', PBool True), (''independent_required'', PBool False),
     (''final_evidence_required'', PBool True), (''exact_head_required'', PBool False)]"

definition demo_policy_value :: pyval where
  "demo_policy_value = PDict [(''version'', PStr ''1.0''),
     (''required_claims'', PList [demo_profile ''c'' [], demo_profile ''d'' [''c'']])]"

definition demo_requirement :: "string \<Rightarrow> string list \<Rightarrow> claim_requirement" where
  "demo_requirement i requires = \<lparr>rq_id = i, rq_stage = ''s'', rq_requires = requires, rq_deterministic = True,
     rq_independent = False, rq_exact_head = False, rq_final = True\<rparr>"

definition demo_policy :: spine_policy where
  "demo_policy = \<lparr>sp_version = ''1.0'', sp_requirements = [demo_requirement ''c'' [], demo_requirement ''d'' [''c'']],
     sp_raw = demo_policy_value\<rparr>"

lemma not_blank_letters: "\<not> blank ''c''" "\<not> blank ''d''" "\<not> blank ''s''"
  by code_simp+

lemma demo_policy_loads: "load_policy demo_policy_value = Inr demo_policy"
  by (simp add: load_policy_def demo_policy_value_def demo_policy_def demo_profile_def demo_requirement_def py_field_def py_get_def
      parse_requirement_def parse_requires_def require_bool_def not_blank_letters)

definition demo_requirements :: requirement_set where
  "demo_requirements = \<lparr>rs_repository = ''1'', rs_project = ''p'', rs_spec = sha256_value short_sha demo_spec,
     rs_claims = map (requirement_claim short_sha ''1'' ''p'' (sha256_value short_sha demo_spec))
       [(''a1'', ''r1'', ''x''), (''a2'', ''r1'', ''y'')]\<rparr>"

lemma demo_requirements_compile: "compile_requirement_claims short_sha demo_spec ''1'' ''p'' None = Inr demo_requirements"
proof -
  have "py_has (case demo_spec of PDict d \<Rightarrow> d | _ \<Rightarrow> []) ''requirements''" by (simp add: demo_spec_def py_has_def)
  then have "case demo_spec of PDict d \<Rightarrow> py_has d ''requirements'' | _ \<Rightarrow> False" by (simp add: demo_spec_def)
  then show ?thesis
    by (simp add: compile_requirement_claims_def demo_requirements_def demo_rows Let_def)
qed

definition demo_bound :: programme where
  "demo_bound = demo_result (sha256_value short_sha demo_identity)"

lemma demo_bound_compiles: "compile_programme short_sha (demo_input (sha256_value short_sha demo_spec)) ''o/r'' = Inr demo_bound"
proof -
  have "length (short_sha s) \<le> 64" for s by (simp add: short_sha_def)
  from demo_input_compiles [where sha = short_sha, OF this] show ?thesis by (simp only: demo_bound_def)
qed

text \<open>The keys, evaluated as far as the hash looks at them.\<close>

lemmas key_eval = sha256_value_def canonical_bytes_def json_string_def json_char_code quote_chars short_sha_def SCHEMA_VERSION_def

lemma demo_requirement_key:
  "requirement_key short_sha ''1'' ''p'' spec ''a1'' = [CHR ''a'', CHR ''1'', CHR 0x22, CHR ''r'']"
  "requirement_key short_sha ''1'' ''p'' spec ''a2'' = [CHR ''a'', CHR ''2'', CHR 0x22, CHR ''r'']"
  by (simp_all add: requirement_key_def key_eval)

lemma demo_obligation_key:
  "obligation_key short_sha rs p policy ''i1'' ''c'' = [CHR ''e'', CHR 0x22, CHR ''c'', CHR ''1'']"
  "obligation_key short_sha rs p policy ''i1'' ''d'' = [CHR ''e'', CHR 0x22, CHR ''d'', CHR ''1'']"
  "obligation_key short_sha rs p policy ''i2'' ''c'' = [CHR ''e'', CHR 0x22, CHR ''c'', CHR ''2'']"
  "obligation_key short_sha rs p policy ''i2'' ''d'' = [CHR ''e'', CHR 0x22, CHR ''d'', CHR ''2'']"
  by (simp_all add: obligation_key_def key_eval)

lemma demo_item_map: "item_map demo_bound = map (\<lambda>it. (it_id it, it)) demo_items"
  by (simp add: item_map_def demo_bound_def demo_result_def demo_items_def)

lemma demo_keys_distinct: "distinct (map kd_key (cs_claims (bound_claims short_sha demo_requirements demo_bound demo_policy)))"
  by (simp add: bound_claims_simps item_rows_def demo_item_map demo_items_def demo_policy_def demo_requirement_def
      demo_requirements_def requirement_claim_def demo_requirement_key demo_obligation_key)

lemma demo_binds:
  "bind_programme_claims short_sha demo_requirements demo_bound None demo_policy =
     Inr (bound_claims short_sha demo_requirements demo_bound demo_policy)"
proof (rule compiled_binds [OF compile_programme_ok [OF demo_bound_compiles] _ demo_policy_loads])
  show "compile_requirement_claims short_sha (pg_spec demo_bound) ''1'' ''p'' None = Inr demo_requirements"
    using demo_requirements_compile by (simp add: demo_bound_def demo_result_def)
qed (simp_all add: strategy_bound_def demo_keys_distinct)

section \<open>Guarantees\<close>

text \<open>C5. A compiled programme always binds. If the compiler accepted the programme, the requirement claims
  are those of its specification, the policy loads, the strategy makes no claim to be proof, and no two
  claim keys collide, then \<open>bind_programme_claims\<close> succeeds: none of its refusals (an orphan item, an
  unowned or doubly owned criterion, a cycle, an unknown obligation, an uncovered requirement) can arise,
  the claim set keeps every promise of \<open>validate_claim_set\<close>, and each item carries exactly one obligation
  per authority profile of the policy, in the policy's order.\<close>

theorem compiled_programme_binds:
  assumes "compile_programme sha raw repository = Inr p"
    and "compile_requirement_claims sha (pg_spec p) rid project approval = Inr rs"
    and "load_policy praw = Inr policy"
    and "strategy_bound (rs_spec rs) strategy = Inr ()"
    and "distinct (map kd_key (cs_claims (bound_claims sha rs p policy)))"
  shows "\<exists>cs. bind_programme_claims sha rs p strategy policy = Inr cs \<and> claims_well_formed cs policy
    \<and> (\<forall>it \<in> set (pg_items p). map_of (cs_item_obligations cs) (it_id it)
          = Some (map (\<lambda>r. obligation_key sha rs p policy (it_id it) (rq_id r)) (sp_requirements policy)))"
proof (intro exI conjI ballI)
  note ok = compile_programme_ok [OF assms(1)]
  show "bind_programme_claims sha rs p strategy policy = Inr (bound_claims sha rs p policy)"
    by (rule compiled_binds [OF ok assms(2-5)])
  show "claims_well_formed (bound_claims sha rs p policy) policy"
    by (rule compiled_well_formed [OF ok assms(2,3,5)])
  fix it
  assume it: "it \<in> set (pg_items p)"
  have ids: "distinct (map it_id (pg_items p))" using ok unfolding programme_ok_def items_inv_def by blast
  have "(it_id it, it) \<in> set (item_rows p)"
    unfolding item_rows_set compiled_item_map [OF ids] set_map using it by (rule imageI)
  from map_of_keyed [OF item_rows_distinct this, where g = "\<lambda>row. map (\<lambda>r. obligation_key sha rs p policy (fst row) (rq_id r)) (sp_requirements policy)"]
  show "map_of (cs_item_obligations (bound_claims sha rs p policy)) (it_id it)
      = Some (map (\<lambda>r. obligation_key sha rs p policy (it_id it) (rq_id r)) (sp_requirements policy))"
    by (simp add: bound_claims_simps(4))
qed

lemma compiled_programme_binds_witness:
  "\<exists>cs. bind_programme_claims short_sha demo_requirements demo_bound None demo_policy = Inr cs
     \<and> claims_well_formed cs demo_policy"
proof -
  have "compile_requirement_claims short_sha (pg_spec demo_bound) ''1'' ''p'' None = Inr demo_requirements"
    using demo_requirements_compile by (simp add: demo_bound_def demo_result_def)
  from compiled_programme_binds [OF demo_bound_compiles this demo_policy_loads _ demo_keys_distinct, of None]
  show ?thesis by (auto simp: strategy_bound_def)
qed

text \<open>C4. The standing of a requirement is exactly the standing of the work it rests on. For a programme
  bound to the requirement claims of its specification and a loaded policy, \<open>claim_status\<close> always
  returns, and it reports the requirement of an acceptance criterion as established if and only if, for
  the item that owns the criterion and every item it waits for directly or through others, and for
  every authority profile of the policy, the latest attestation of that obligation is a current pass.
  Nothing else (an approval, a binding, an exploratory status, an earlier attestation) can establish it.\<close>

theorem requirement_established_exactly:
  assumes "compile_requirement_claims sha spec repository project approval = Inr rs"
    and "load_policy raw = Inr policy"
    and "bind_programme_claims sha rs p strategy policy = Inr cs"
    and "(i, it) \<in> set (item_map p)" and "ac \<in> set (it_acceptance it)"
  shows "\<exists>st s. claim_status cs approved exploratory rows bindings = Inr st
    \<and> map_of st (requirement_key sha repository project (sha256_value sha spec) ac) = Some s
    \<and> (st_proof s = ''established'' \<longleftrightarrow>
        (\<forall>j \<in> set (waits_for p i). \<forall>r \<in> set (sp_requirements policy). attested_now rows (obligation_key sha rs p policy j (rq_id r))))"
proof -
  note keys = requirement_keys_compiled [OF assms(1)]
  have ne: "requirement_keys rs \<noteq> []"
  proof
    assume none: "requirement_keys rs = []"
    have "own_criteria [] k acs owners = Inr x \<Longrightarrow> acs = []" for k acs owners x
      by (cases acs) (auto simp: bindE_eq_Inr)
    then have "assign_items [] ids xs owners found = Inr x \<Longrightarrow> xs = []" for ids xs owners found x
      by (cases xs) (auto simp: bindE_eq_Inr)
    with assms(3) none have "sort_key fst (item_map p) = []"
      by (auto simp: bind_programme_claims_def Let_def bindE_eq_Inr)
    then have "set (item_map p) = {}" by (metis set_empty set_sort)
    with assms(4) show False by simp
  qed
  have b: "bound sha rs p policy cs" by (rule bind_programme_bound [OF assms(1-3) ne])
  have "ac \<in> fst ` set (requirement_keys rs)" using b assms(4,5) by (force simp: bound_def work_assigned_def)
  then obtain v where v: "(ac, v) \<in> set (requirement_keys rs)" by auto
  then have "v = requirement_key sha repository project (sha256_value sha spec) ac" using keys(1,3) by auto
  with v keys(2) have "the (map_of (requirement_keys rs) ac) = requirement_key sha repository project (sha256_value sha spec) ac"
    by simp
  with bound_status [OF b assms(4,5)] show ?thesis by simp
qed

lemma requirement_established_exactly_witness:
  "\<exists>st s. claim_status (bound_claims short_sha demo_requirements demo_bound demo_policy) True None [] None = Inr st
     \<and> map_of st [CHR ''a'', CHR ''1'', CHR 0x22, CHR ''r''] = Some s \<and> st_proof s \<noteq> ''established''"
proof -
  let ?it = "\<lparr>it_id = ''i1'', it_acceptance = [''a1''], it_blocked = [''i2'']\<rparr>"
  have it: "(''i1'', ?it) \<in> set (item_map demo_bound)" by (simp add: demo_item_map demo_items_def)
  have "''a1'' \<in> set (it_acceptance ?it)" by simp
  from requirement_established_exactly [OF demo_requirements_compile demo_policy_loads demo_binds it this, of True None "[]" None]
  obtain st s where st: "claim_status (bound_claims short_sha demo_requirements demo_bound demo_policy) True None [] None = Inr st"
    and s: "map_of st [CHR ''a'', CHR ''1'', CHR 0x22, CHR ''r''] = Some s"
    and est: "st_proof s = ''established'' \<longleftrightarrow> (\<forall>j \<in> set (waits_for demo_bound ''i1''). \<forall>r \<in> set (sp_requirements demo_policy).
      attested_now [] (obligation_key short_sha demo_requirements demo_bound demo_policy j (rq_id r)))"
    unfolding demo_requirement_key by (elim exE conjE) (rule that)
  have "''i1'' \<in> set (waits_for demo_bound ''i1'')" by (auto simp: waits_for_def set_closure_of)
  then have "st_proof s \<noteq> ''established''"
    unfolding est by (auto simp: attested_now_def row_simps demo_policy_def)
  with st s show ?thesis by blast
qed

text \<open>C37. The search for a cycle is exact. On every graph the iterative three-colour search ends, it refuses
  exactly the graphs in which some node reaches itself over nodes of the graph, and what it reports is,
  sorted, the nodes of one such cycle, none twice. A dependency on a node outside the graph never counts.\<close>

theorem cycle_search_exact:
  "(find_cycle g = None \<longleftrightarrow> (\<forall>k. \<not> (node_dep g)\<^sup>+\<^sup>+ k k))
   \<and> (case find_cycle g of None \<Rightarrow> True | Some ks \<Rightarrow> \<exists>c. cycle_in g c \<and> ks = sort c)"
  using find_cycle_None_iff [of g] find_cycle_sound [of g] by (auto split: option.splits)

text \<open>The compiler of programmes and the binding of claims look for cycles with different algorithms and
  agree on every list of items with distinct ids and known blockers.\<close>

lemma cycle_checks_agree:
  assumes "distinct (map it_id items)" and "list_all (\<lambda>it. set (it_blocked it) \<subseteq> it_id ` set items) items"
  shows "check_acyclic ''programme'' (item_graph items) = Inr () \<longleftrightarrow> order_items items \<noteq> Inl P_cycle"
proof -
  have "known_deps (item_graph items)" using assms(2) by (simp add: known_deps_def list_all_iff item_graph_def image_image)
  with find_cycle_layered [of "item_graph items"] assms(1)
  have "find_cycle (item_graph items) = None \<longleftrightarrow> topo_order (item_graph items) [] \<noteq> None" by simp
  then show ?thesis by (auto simp: check_acyclic_def order_items_def split: option.splits)
qed

section \<open>Bindings\<close>

lemma check_binding_Inr:
  assumes "check_binding known subjects row allowed source = Inr (Inr b)"
  shows "bg_claim b \<in> set known \<and> bg_subject b \<in> fst ` set subjects \<and> bg_relation b \<in> set allowed
    \<and> bg_source b = source \<and> bg_standing b = (if take 9 source = ''observer:'' then ''observed'' else ''proposed'')
    \<and> bg_coverage b \<in> set COVERAGE_NAMES"
proof -
  from assms have "py_get row ''relation'' \<in> PStr ` set (filter (\<lambda>r. r \<in> set allowed) BINDING_RELATIONS)"
    by (auto simp: check_binding_def split: if_splits)
  then have allowed: "py_string (py_get row ''relation'') \<in> set allowed" by (auto simp: py_string_def)
  have member: "hashed_member v xs = Inr (Some s) \<Longrightarrow> s \<in> set xs" for v xs s
    by (auto simp: hashed_member_def split: pyval.splits if_splits)
  from assms obtain key identity where "hashed_member (py_get row ''claim_key'') known = Inr (Some key)"
    "hashed_member (py_get row ''subject_identity'') (map fst subjects) = Inr (Some identity)"
    "b = mk_binding subjects row source (py_string (py_get row ''relation'')) key identity"
    by (auto simp: check_binding_def bindE_eq_Inr split: if_splits option.splits)
  with member [OF this(1)] member [OF this(2)] allowed show ?thesis
    by (simp add: mk_binding_def Let_def) (simp add: COVERAGE_NAMES_def)
qed

definition observed_by :: "pydict list \<Rightarrow> binding \<Rightarrow> bool" where
  "observed_by observed b \<longleftrightarrow>
     (\<exists>row \<in> set observed. \<exists>c s. py_get row ''observer'' = PStr (c # s) \<and> bg_source b = ''observer:'' @ c # s
        \<and> bg_standing b = ''observed'')"

text \<open>A relation only an observer can establish comes from a named observer's row.\<close>

definition observation_backed :: "pydict list \<Rightarrow> binding \<Rightarrow> bool" where
  "observation_backed observed b \<longleftrightarrow> (bg_relation b \<in> set OBSERVED_RELATIONS \<longrightarrow> observed_by observed b)"

lemma check_proposal_backed: "check_proposal known subjects row = Inr (Inr b) \<Longrightarrow> observation_backed observed b"
  unfolding check_proposal_def by (drule check_binding_Inr) (auto simp: observation_backed_def OBSERVED_RELATIONS_def)

lemma check_observation_backed:
  assumes "check_observation known subjects row = Inr (Inr b)" and "row \<in> set observed"
  shows "observation_backed observed b"
proof -
  obtain c s where o1: "py_get row ''observer'' = PStr (c # s)"
    and b: "check_binding known subjects row (OBSERVED_RELATIONS @ [''depends_on'']) (''observer:'' @ c # s) = Inr (Inr b)"
    using assms(1) by (auto simp: check_observation_def split: pyval.splits list.splits)
  with check_binding_Inr [OF b] assms(2) show ?thesis
    unfolding observation_backed_def observed_by_def by auto
qed

text \<open>C38. Nobody observes by proposing. Every binding \<open>bind_implementation_claims\<close> returns is about a claim of
  the set and a known code subject and has one of the three coverages; and a binding whose relation is
  one an observer establishes (an observed implementation, a measurement, a counterexample) comes from an
  observation that names its observer, whatever the proposals say.\<close>

theorem observed_relations_observed:
  assumes "bind_implementation_claims cs subjects observed proposals = Inr (bs, refused)" and "b \<in> set bs"
  shows "bg_claim b \<in> claim_keys cs \<and> bg_subject b \<in> fst ` set subjects \<and> bg_coverage b \<in> set COVERAGE_NAMES
    \<and> observation_backed observed b"
proof -
  let ?known = "map kd_key (cs_claims cs)"
  obtain ps obs where ps: "mapE (check_proposal ?known (rev subjects)) proposals = Inr ps"
    and obs: "mapE (check_observation ?known (rev subjects)) observed = Inr obs"
    and bs: "bs = first_seen (concat (map (\<lambda>r. case r of Inl _ \<Rightarrow> [] | Inr b \<Rightarrow> [b]) (ps @ obs)))"
    using assms(1) by (auto simp: bind_implementation_claims_def Let_def bindE_eq_Inr)
  have "Inr b \<in> set ps \<or> Inr b \<in> set obs" using assms(2) by (auto simp: bs split: sum.splits)
  then show ?thesis
  proof
    assume "Inr b \<in> set ps"
    with ps obtain row where row: "check_proposal ?known (rev subjects) row = Inr (Inr b)"
      by (fastforce simp: mapE_eq_Inr list_all2_conv_all_nth in_set_conv_nth)
    from check_binding_Inr [OF row [unfolded check_proposal_def]] check_proposal_backed [OF row, of observed]
    show ?thesis by (auto simp: claim_keys_def)
  next
    assume "Inr b \<in> set obs"
    with obs obtain row where row: "row \<in> set observed" "check_observation ?known (rev subjects) row = Inr (Inr b)"
      by (fastforce simp: mapE_eq_Inr list_all2_conv_all_nth in_set_conv_nth)
    have "\<exists>allowed source. check_binding ?known (rev subjects) row allowed source = Inr (Inr b)"
      using row(2) by (auto simp: check_observation_def split: pyval.splits list.splits)
    with check_binding_Inr check_observation_backed [OF row(2,1)] show ?thesis by (fastforce simp: claim_keys_def)
  qed
qed

definition one_claim :: claim_set where
  "one_claim = \<lparr>cs_repository = ''1'', cs_project = ''p'', cs_spec = ''s'', cs_programme = ''g'',
     cs_claims = [\<lparr>kd_key = ''k'', kd_kind = ''requirement'', kd_project = ''p'', kd_spec = ''s'', kd_statement = ''t'',
       kd_source = ''r'', kd_depends = [], kd_acceptance = [''a''], kd_authority = None\<rparr>],
     cs_edges = [], cs_item_obligations = [], cs_item_requirements = []\<rparr>"

definition row_about :: "string \<Rightarrow> pydict \<Rightarrow> pydict" where
  "row_about relation rest = [(''claim_key'', PStr ''k''), (''subject_identity'', PStr ''u''), (''relation'', PStr relation)] @ rest"

lemmas binding_eval = bind_implementation_claims_def check_observation_def check_proposal_def check_binding_def mk_binding_def
  one_claim_def row_about_def py_get_def py_has_def py_string_def py_str_def hashed_member_def
  BINDING_RELATIONS_def OBSERVED_RELATIONS_def COVERAGE_NAMES_def Let_def first_seen_def

text \<open>The docstring says a proposal stays proposed. The standing is read from the source text, and a proposal
  names its own source: one that calls itself an observer is recorded as observed.\<close>

lemma proposal_recorded_as_observed:
  "\<exists>b. bind_implementation_claims one_claim [(''u'', None)] [] [row_about ''proposed_implementation'' [(''source'', PStr ''observer:x'')]]
     = Inr ([b], []) \<and> bg_standing b = ''observed''"
  by (simp add: binding_eval)

lemma observed_relations_observed_witness:
  "\<exists>b. bind_implementation_claims one_claim [(''u'', None)]
       [row_about ''measured_at'' [(''observer'', PStr ''o'')]] [row_about ''measured_at'' [(''source'', PStr ''observer:x'')]]
     = Inr ([b], [(PStr ''k'', Relation_not_permitted (PStr ''measured_at'') ''observer:x'')])
     \<and> bg_relation b = ''measured_at''
     \<and> observation_backed [row_about ''measured_at'' [(''observer'', PStr ''o'')]] b"
proof -
  let ?rows = "[row_about ''measured_at'' [(''observer'', PStr ''o'')]]"
  obtain b where b: "bind_implementation_claims one_claim [(''u'', None)] ?rows [row_about ''measured_at'' [(''source'', PStr ''observer:x'')]]
     = Inr ([b], [(PStr ''k'', Relation_not_permitted (PStr ''measured_at'') ''observer:x'')])" and rel: "bg_relation b = ''measured_at''"
    by (simp add: binding_eval)
  from observed_relations_observed [OF b] b rel show ?thesis by auto
qed

end
