(* ===== verification/Lease_Store.thy ===== *)
theory Lease_Store
  imports Prelude
begin

text \<open>
  The atomic lease and grant store, \<open>factory_kernel/lease_store.py\<close>. The SQLite database is a
  record of tables; a public method is a function from the observed clock value and the database
  to an error (the transaction rolled back: the database is unchanged) or a result and the
  committed database. Fresh random tokens are arguments; a token that collides with a primary
  key is the \<open>IntegrityError\<close> SQLite raises.
\<close>

section \<open>Boundary checks\<close>

datatype lease_error =
    Not_integer string int
  | Malformed string
  | Not_sha256 string
  | Not_boolean string
  | Generations_shape
  | Resource_count
  | Clock_rollback
  | Held_by_live_lease "(string \<times> string) list"
  | Unresolved_operation "string list"
  | Request_conflict
  | Guard_refused "string list"
  | Lease_in_flight
  | Unknown_outcome
  | Unknown_grant
  | Not_observable string string
  | Schema_version int
  | Migration_malformed string
  | Migration_conflict int
  | Integrity_error string

definition MAX_RESOURCES :: nat where
  "MAX_RESOURCES = 64"

definition UNRESOLVED :: "string list" where
  "UNRESOLVED = [''issued'', ''started'', ''uncertain'']"

definition lease_ident :: "string \<Rightarrow> bool" where
  "lease_ident s \<longleftrightarrow> ident_text ''._:/@+-'' 200 s"

definition lease_int :: "string \<Rightarrow> int \<Rightarrow> pyval \<Rightarrow> lease_error + int" where
  "lease_int name minimum v =
     (case v of PInt n \<Rightarrow> if n < minimum then Inl (Not_integer name minimum) else Inr n
      | _ \<Rightarrow> Inl (Not_integer name minimum))"

definition lease_text :: "string \<Rightarrow> pyval \<Rightarrow> lease_error + string" where
  "lease_text name v =
     (case v of PStr s \<Rightarrow> if lease_ident s then Inr s else Inl (Malformed name)
      | _ \<Rightarrow> Inl (Malformed name))"

definition lease_sha :: "string \<Rightarrow> pyval \<Rightarrow> lease_error + string" where
  "lease_sha name v =
     (case v of PStr s \<Rightarrow> if hex_text 64 s then Inr s else Inl (Not_sha256 name)
      | _ \<Rightarrow> Inl (Not_sha256 name))"

definition lease_bool :: "string \<Rightarrow> pyval \<Rightarrow> lease_error + bool" where
  "lease_bool name v = (case v of PBool b \<Rightarrow> Inr b | _ \<Rightarrow> Inl (Not_boolean name))"

lemma lease_int_eq [simp]: "lease_int name m v = Inr n \<longleftrightarrow> v = PInt n \<and> m \<le> n"
  by (cases v) (auto simp: lease_int_def)

lemma lease_text_eq [simp]: "lease_text name v = Inr s \<longleftrightarrow> v = PStr s \<and> lease_ident s"
  by (cases v) (auto simp: lease_text_def)

lemma lease_sha_eq [simp]: "lease_sha name v = Inr s \<longleftrightarrow> v = PStr s \<and> hex_text 64 s"
  by (cases v) (auto simp: lease_sha_def)

lemma lease_bool_eq [simp]: "lease_bool name v = Inr b \<longleftrightarrow> v = PBool b"
  by (cases v) (auto simp: lease_bool_def)

lemma mapE_lease_text:
  "mapE (lease_text name) vs = Inr rs \<longleftrightarrow> vs = map PStr rs \<and> list_all lease_ident rs"
proof (induction vs arbitrary: rs)
  case Nil
  then show ?case by auto
next
  case (Cons v vs)
  then show ?case by (cases rs) (auto simp: bindE_eq_Inr)
qed

section \<open>The pure guard\<close>

record guard_result =
  g_status :: string
  g_reasons :: "string list"

definition eligible :: guard_result where
  "eligible = \<lparr>g_status = ''eligible'', g_reasons = []\<rparr>"

definition refused :: "string \<Rightarrow> guard_result" where
  "refused code = \<lparr>g_status = ''refused'', g_reasons = [code]\<rparr>"

lemma eligible_status [simp]: "g_status eligible = ''eligible''" "g_reasons eligible = []"
  by (simp_all add: eligible_def)

lemma refused_status [simp]: "g_status (refused c) = ''refused''" "g_reasons (refused c) = [c]"
  by (simp_all add: refused_def)

lemma refused_not_eligible [simp]: "refused c \<noteq> eligible" "eligible \<noteq> refused c"
  by (simp_all add: refused_def eligible_def)

lemma refused_inject [simp]: "refused c = refused d \<longleftrightarrow> c = d"
  by (simp add: refused_def)

text \<open>The dict comprehension over a mapping of generations.\<close>

definition generation_map :: "string \<Rightarrow> pydict \<Rightarrow> lease_error + (string \<times> int) list" where
  "generation_map name = mapE (\<lambda>(k, v).
     bindE (lease_text ''resource'' (PStr k)) (\<lambda>r. bindE (lease_int name 0 v) (\<lambda>g. Inr (r, g))))"

definition guard_generations :: "pyval \<Rightarrow> pyval \<Rightarrow> lease_error + (string \<times> int) list \<times> (string \<times> int) list" where
  "guard_generations gen cur =
     (case (py_dict gen, py_dict cur) of
        (Some g, Some c) \<Rightarrow>
          bindE (generation_map ''generation'' g) (\<lambda>gs.
          bindE (generation_map ''current_generation'' c) (\<lambda>cs. Inr (gs, cs)))
      | (None, None) \<Rightarrow>
          bindE (lease_int ''generation'' 0 gen) (\<lambda>n.
          bindE (lease_int ''current_generation'' 0 cur) (\<lambda>m. Inr ([(''*'', n)], [(''*'', m)])))
      | _ \<Rightarrow> Inl Generations_shape)"

record guard_input =
  gi_now :: int
  gi_epoch :: string
  gi_current_epoch :: string
  gi_owner :: string
  gi_current_owner :: string
  gi_expires_at :: int
  gi_generations :: "(string \<times> int) list"
  gi_current_generations :: "(string \<times> int) list"
  gi_active :: bool
  gi_consumed :: bool
  gi_uncertain :: bool

definition get_or :: "pydict \<Rightarrow> string \<Rightarrow> string \<Rightarrow> pyval" where
  "get_or d k k' = (if py_has d k then py_get d k else py_get d k')"

text \<open>The schema class of the guard: every field read and checked, in the code's order.\<close>

definition guard_schema :: "pydict \<Rightarrow> pydict \<Rightarrow> pyval \<Rightarrow> lease_error + guard_input" where
  "guard_schema lease current now =
     bindE (lease_int ''now'' 0 now) (\<lambda>n.
     bindE (lease_text ''epoch'' (py_get lease ''epoch'')) (\<lambda>e.
     bindE (lease_text ''current_epoch'' (py_get current ''current_epoch'')) (\<lambda>ce.
     bindE (lease_text ''owner'' (py_get lease ''owner'')) (\<lambda>ow.
     bindE (lease_text ''current_owner'' (py_get current ''current_owner'')) (\<lambda>co.
     bindE (lease_int ''expires_at'' 0 (py_get lease ''expires_at'')) (\<lambda>ex.
     bindE (guard_generations (get_or lease ''generations'' ''generation'')
              (get_or current ''current_generations'' ''current_generation'')) (\<lambda>(gs, cs).
     bindE (lease_bool ''active'' (py_get lease ''active'')) (\<lambda>ac.
     bindE (lease_bool ''consumed'' (py_get lease ''consumed'')) (\<lambda>cn.
     bindE (lease_bool ''uncertain'' (py_get lease ''uncertain'')) (\<lambda>un.
     Inr \<lparr>gi_now = n, gi_epoch = e, gi_current_epoch = ce, gi_owner = ow, gi_current_owner = co,
          gi_expires_at = ex, gi_generations = gs, gi_current_generations = cs,
          gi_active = ac, gi_consumed = cn, gi_uncertain = un\<rparr>))))))))))"

text \<open>The classes after the schema, in priority order.\<close>

definition guard_decision :: "guard_input \<Rightarrow> guard_result" where
  "guard_decision g =
     (if gi_epoch g \<noteq> gi_current_epoch g \<or> gi_owner g \<noteq> gi_current_owner g
         \<or> \<not> dict_eq (gi_generations g) (gi_current_generations g)
      then refused ''lease_identity_mismatch''
      else if \<not> gi_active g then refused ''lease_inactive''
      else if gi_expires_at g \<le> gi_now g then refused ''lease_expired''
      else if gi_uncertain g then refused ''effect_uncertain''
      else if gi_consumed g then refused ''grant_consumed''
      else eligible)"

definition validate_generation :: "pydict \<Rightarrow> pydict \<Rightarrow> pyval \<Rightarrow> guard_result" where
  "validate_generation lease current now =
     (case guard_schema lease current now of
        Inl _ \<Rightarrow> refused ''schema_invalid''
      | Inr g \<Rightarrow> guard_decision g)"

section \<open>The database\<close>

record lease_row =
  lr_lease_id :: string
  lr_epoch :: string
  lr_owner :: string
  lr_role :: string
  lr_request_sha256 :: string
  lr_subject_sha256 :: string
  lr_acquired_at :: int
  lr_expires_at :: int
  lr_active :: bool
  lr_ended_at :: "int option"
  lr_end_reason :: "string option"

record lease_resource_row =
  rr_lease_id :: string
  rr_resource :: string
  rr_generation :: int

record grant_row =
  gr_grant_id :: string
  gr_lease_id :: string
  gr_project :: string
  gr_semantic_operation :: string
  gr_request_id :: string
  gr_request_sha256 :: string
  gr_state :: string
  gr_issued_at :: int
  gr_started_at :: "int option"
  gr_observed_at :: "int option"
  gr_result :: "pyval option"

record lease_db =
  db_epoch :: string
  db_last_now :: int
  db_resources :: "(string \<times> int) list"
  db_leases :: "lease_row list"
  db_lease_resources :: "lease_resource_row list"
  db_grants :: "grant_row list"
  db_migrations :: "(int \<times> string \<times> int) list"

record lease_bundle =
  lb_lease_id :: string
  lb_epoch :: string
  lb_owner :: string
  lb_role :: string
  lb_generations :: "(string \<times> int) list"
  lb_request_sha256 :: string
  lb_subject_sha256 :: string
  lb_expires_at :: int

text \<open>\<open>_migrate\<close> on the metadata of a new or reopened file: version, epoch, last clock value.\<close>

fun migrate :: "int option \<times> string option \<times> int option \<Rightarrow> string
    \<Rightarrow> lease_error + (int \<times> string \<times> int)" where
  "migrate (version, epoch, last_now) token =
     bindE (case version of None \<Rightarrow> Inr 1
            | Some v \<Rightarrow> if v \<noteq> 1 then Inl (Schema_version v) else Inr v) (\<lambda>v.
     Inr (v, (case epoch of None \<Rightarrow> token | Some e \<Rightarrow> e),
             (case last_now of None \<Rightarrow> 0 | Some n \<Rightarrow> n)))"

definition empty_db :: "string \<Rightarrow> lease_db" where
  "empty_db epoch = \<lparr>db_epoch = epoch, db_last_now = 0, db_resources = [], db_leases = [],
     db_lease_resources = [], db_grants = [], db_migrations = []\<rparr>"

text \<open>\<open>_observe_now\<close>: the clock observed inside the transaction; a rollback blocks authority.\<close>

definition observe_now :: "pyval \<Rightarrow> lease_db \<Rightarrow> lease_error + int \<times> lease_db" where
  "observe_now now db =
     bindE (lease_int ''now'' 0 now) (\<lambda>n.
     bindE (ensure (db_last_now db \<le> n) Clock_rollback) (\<lambda>_. Inr (n, db\<lparr>db_last_now := n\<rparr>)))"

lemma observe_now_eq [simp]:
  "observe_now now db = Inr (n, db') \<longleftrightarrow>
     now = PInt n \<and> 0 \<le> n \<and> db_last_now db \<le> n \<and> db' = db\<lparr>db_last_now := n\<rparr>"
  by (auto simp: observe_now_def errs)

definition rotate_epoch :: "string \<Rightarrow> lease_db \<Rightarrow> lease_error + string \<times> lease_db" where
  "rotate_epoch token db = Inr (token, db\<lparr>db_epoch := token\<rparr>)"

text \<open>The queries.\<close>

definition generation_rows :: "string list \<Rightarrow> lease_db \<Rightarrow> (string \<times> int) list" where
  "generation_rows names db = filter (\<lambda>(r, g). r \<in> set names) (db_resources db)"

definition live_at :: "int \<Rightarrow> lease_row \<Rightarrow> bool" where
  "live_at now l \<longleftrightarrow> lr_active l \<and> now < lr_expires_at l"

definition live_holders :: "string list \<Rightarrow> int \<Rightarrow> lease_db \<Rightarrow> (string \<times> string \<times> string) list" where
  "live_holders names now db =
     concat (map (\<lambda>rr. map (\<lambda>l. (rr_resource rr, lr_owner l, lr_lease_id l))
       (filter (\<lambda>l. lr_lease_id l = rr_lease_id rr \<and> rr_resource rr \<in> set names \<and> live_at now l)
          (db_leases db))) (db_lease_resources db))"

definition unresolved_operations :: "string list \<Rightarrow> lease_db \<Rightarrow> string list" where
  "unresolved_operations names db =
     remdups (concat (map (\<lambda>g. map rr_resource
       (filter (\<lambda>rr. rr_lease_id rr = gr_lease_id g \<and> rr_resource rr \<in> set names) (db_lease_resources db)))
       (filter (\<lambda>g. gr_state g \<in> set UNRESOLVED) (db_grants db))))"

section \<open>Acquisition\<close>

text \<open>\<open>INSERT OR IGNORE\<close> of generation 0 and the increment, for one resource.\<close>

fun bump_generation :: "string \<Rightarrow> (string \<times> int) list \<Rightarrow> (string \<times> int) list" where
  "bump_generation r [] = [(r, 1)]"
| "bump_generation r ((k, g) # rest) =
     (if k = r then (k, g + 1) # rest else (k, g) # bump_generation r rest)"

definition new_lease :: "string \<Rightarrow> string \<Rightarrow> string \<Rightarrow> string \<Rightarrow> string \<Rightarrow> string \<Rightarrow> int \<Rightarrow> int \<Rightarrow> lease_row" where
  "new_lease token epoch ow ro rq sb n ttl =
     \<lparr>lr_lease_id = token, lr_epoch = epoch, lr_owner = ow, lr_role = ro,
      lr_request_sha256 = rq, lr_subject_sha256 = sb, lr_acquired_at = n,
      lr_expires_at = n + ttl, lr_active = True, lr_ended_at = None, lr_end_reason = None\<rparr>"

definition new_links :: "string \<Rightarrow> (string \<times> int) list \<Rightarrow> string list \<Rightarrow> lease_resource_row list" where
  "new_links token gens names =
     map (\<lambda>r. \<lparr>rr_lease_id = token, rr_resource = r, rr_generation = the (map_of gens r)\<rparr>) names"

definition acquire_locked ::
  "pyval \<Rightarrow> pyval \<Rightarrow> pyval list \<Rightarrow> pyval \<Rightarrow> pyval \<Rightarrow> pyval \<Rightarrow> pyval \<Rightarrow> string
   \<Rightarrow> lease_db \<Rightarrow> lease_error + lease_bundle \<times> lease_db" where
  "acquire_locked owner role resources request_sha256 subject_sha256 ttl_seconds now token db =
     bindE (lease_text ''owner'' owner) (\<lambda>ow.
     bindE (lease_text ''role'' role) (\<lambda>ro.
     bindE (mapE (lease_text ''resource'') resources) (\<lambda>rs.
     let names = sorted_set rs in
     bindE (ensure (names \<noteq> [] \<and> length names \<le> MAX_RESOURCES) Resource_count) (\<lambda>_.
     bindE (lease_sha ''request_sha256'' request_sha256) (\<lambda>rq.
     bindE (lease_sha ''subject_sha256'' subject_sha256) (\<lambda>sb.
     bindE (lease_int ''ttl_seconds'' 1 ttl_seconds) (\<lambda>ttl.
     bindE (observe_now now db) (\<lambda>(n, db1).
     let held = live_holders names n db1; pending = unresolved_operations names db1 in
     bindE (ensure (held = []) (Held_by_live_lease (map (\<lambda>(r, w, _). (r, w)) held))) (\<lambda>_.
     bindE (ensure (pending = []) (Unresolved_operation (sort pending))) (\<lambda>_.
     let db2 = db1\<lparr>db_resources := fold bump_generation names (db_resources db1)\<rparr>;
         gens = generation_rows names db2 in
     bindE (ensure (find_row lr_lease_id token (db_leases db2) = None) (Integrity_error ''leases'')) (\<lambda>_.
     Inr (\<lparr>lb_lease_id = token, lb_epoch = db_epoch db2, lb_owner = ow, lb_role = ro,
            lb_generations = gens, lb_request_sha256 = rq, lb_subject_sha256 = sb,
            lb_expires_at = n + ttl\<rparr>,
          db2\<lparr>db_leases := db_leases db2 @ [new_lease token (db_epoch db2) ow ro rq sb n ttl],
              db_lease_resources := db_lease_resources db2 @ new_links token gens names\<rparr>))))))))))))"

text \<open>\<open>acquire_many\<close> opens the transaction around the same guard.\<close>

definition acquire_many ::
  "pyval \<Rightarrow> pyval \<Rightarrow> pyval list \<Rightarrow> pyval \<Rightarrow> pyval \<Rightarrow> pyval \<Rightarrow> pyval \<Rightarrow> string
   \<Rightarrow> lease_db \<Rightarrow> lease_error + lease_bundle \<times> lease_db" where
  "acquire_many = acquire_locked"

section \<open>Heartbeat, release and reaping\<close>

record lease_view =
  v_row :: lease_row
  v_generations :: "(string \<times> int) list"
  v_current_generations :: "(string \<times> int) list"
  v_uncertain :: bool
  v_in_flight :: bool

definition lease_resources_of :: "string \<Rightarrow> lease_db \<Rightarrow> lease_resource_row list" where
  "lease_resources_of lid db = filter (\<lambda>rr. rr_lease_id rr = lid) (db_lease_resources db)"

definition lease_view_of :: "string \<Rightarrow> lease_db \<Rightarrow> lease_view option" where
  "lease_view_of lid db =
     (case find_row lr_lease_id lid (db_leases db) of
        None \<Rightarrow> None
      | Some l \<Rightarrow>
          let gens = map (\<lambda>rr. (rr_resource rr, rr_generation rr)) (lease_resources_of lid db) in
          Some \<lparr>v_row = l, v_generations = gens,
                v_current_generations = generation_rows (map fst gens) db,
                v_uncertain = (\<exists>g \<in> set (db_grants db). gr_lease_id g = lid \<and> gr_state g = ''uncertain''),
                v_in_flight = (\<exists>g \<in> set (db_grants db). gr_lease_id g = lid
                                \<and> gr_state g \<in> {''started'', ''uncertain''})\<rparr>)"

definition int_dict :: "(string \<times> int) list \<Rightarrow> pyval" where
  "int_dict gs = PDict (map (\<lambda>(r, g). (r, PInt g)) gs)"

text \<open>\<open>_guard\<close>: the presented bundle against the store's own row.\<close>

definition store_guard :: "lease_bundle \<Rightarrow> int \<Rightarrow> lease_db \<Rightarrow> guard_result \<times> lease_view option" where
  "store_guard bundle now db =
     (case lease_view_of (lb_lease_id bundle) db of
        None \<Rightarrow> (refused ''lease_identity_mismatch'', None)
      | Some v \<Rightarrow>
          let l = v_row v;
              presented = [(''epoch'', PStr (lb_epoch bundle)), (''owner'', PStr (lb_owner bundle)),
                           (''generations'', int_dict (lb_generations bundle)),
                           (''expires_at'', PInt (lr_expires_at l)), (''active'', PBool (lr_active l)),
                           (''consumed'', PBool False), (''uncertain'', PBool (v_uncertain v))];
              current = [(''current_epoch'', PStr (db_epoch db)), (''current_owner'', PStr (lr_owner l)),
                         (''current_generations'', int_dict (v_current_generations v))] in
          if lr_role l \<noteq> lb_role bundle \<or> lr_request_sha256 l \<noteq> lb_request_sha256 bundle
             \<or> lr_subject_sha256 l \<noteq> lb_subject_sha256 bundle
          then (refused ''lease_identity_mismatch'', Some v)
          else (validate_generation presented current (PInt now), Some v))"

definition heartbeat :: "lease_bundle \<Rightarrow> pyval \<Rightarrow> pyval \<Rightarrow> lease_db
    \<Rightarrow> lease_error + guard_result \<times> lease_db" where
  "heartbeat bundle ttl_seconds now db =
     bindE (lease_int ''ttl_seconds'' 1 ttl_seconds) (\<lambda>ttl.
     bindE (observe_now now db) (\<lambda>(n, db1).
     let result = fst (store_guard bundle n db1) in
     if g_status result \<noteq> ''eligible'' then Inr (result, db1)
     else Inr (result, db1\<lparr>db_leases := update_row lr_lease_id (lb_lease_id bundle)
                             (\<lambda>l. l\<lparr>lr_expires_at := n + ttl\<rparr>) (db_leases db1)\<rparr>)))"

definition end_lease :: "int \<Rightarrow> string \<Rightarrow> lease_row \<Rightarrow> lease_row" where
  "end_lease n reason l = l\<lparr>lr_active := False, lr_ended_at := Some n, lr_end_reason := Some reason\<rparr>"

definition release :: "lease_bundle \<Rightarrow> pyval \<Rightarrow> lease_db \<Rightarrow> lease_error + guard_result \<times> lease_db" where
  "release bundle now db =
     bindE (observe_now now db) (\<lambda>(n, db1).
     let (result, view) = store_guard bundle n db1 in
     if g_status result \<noteq> ''eligible'' \<and> g_reasons result \<noteq> [''lease_expired''] then Inr (result, db1)
     else if (case view of None \<Rightarrow> False | Some v \<Rightarrow> v_in_flight v)
       then Inr (refused ''effect_uncertain'', db1)
     else Inr (eligible, db1\<lparr>db_leases := update_row lr_lease_id (lb_lease_id bundle)
                               (end_lease n ''released'') (db_leases db1)\<rparr>))"

definition expire_issued :: "int \<Rightarrow> string \<Rightarrow> grant_row \<Rightarrow> grant_row" where
  "expire_issued n lid g =
     (if gr_lease_id g = lid \<and> gr_state g = ''issued''
      then g\<lparr>gr_state := ''expired'', gr_observed_at := Some n\<rparr> else g)"

definition reap_one :: "int \<Rightarrow> string \<Rightarrow> lease_db \<Rightarrow> lease_db" where
  "reap_one n lid db =
     db\<lparr>db_leases := update_row lr_lease_id lid (end_lease n ''expired'') (db_leases db),
        db_grants := map (expire_issued n lid) (db_grants db)\<rparr>"

definition reap :: "pyval \<Rightarrow> lease_db \<Rightarrow> lease_error + string list \<times> lease_db" where
  "reap now db =
     bindE (observe_now now db) (\<lambda>(n, db1).
     let ids = sort (map lr_lease_id
                 (filter (\<lambda>l. lr_active l \<and> lr_expires_at l \<le> n) (db_leases db1))) in
     Inr (ids, fold (reap_one n) ids db1))"

section \<open>Grants\<close>

record consume_result =
  cr_grant_id :: string
  cr_state :: string
  cr_replayed :: bool
  cr_result :: "pyval option"
  cr_execute :: bool
  cr_refused :: "string option"

definition grant_key :: "grant_row \<Rightarrow> string \<times> string \<times> string" where
  "grant_key g = (gr_project g, gr_semantic_operation g, gr_request_id g)"

definition replay_grant :: "grant_row \<Rightarrow> string \<Rightarrow> lease_error + consume_result" where
  "replay_grant g request_sha256 =
     (if gr_request_sha256 g \<noteq> request_sha256 then Inl Request_conflict
      else if gr_state g \<in> {''observed_success'', ''observed_failure''}
      then Inr \<lparr>cr_grant_id = gr_grant_id g, cr_state = gr_state g, cr_replayed = True,
                 cr_result = gr_result g, cr_execute = False, cr_refused = None\<rparr>
      else Inr \<lparr>cr_grant_id = gr_grant_id g, cr_state = gr_state g, cr_replayed = True,
                 cr_result = None, cr_execute = False,
                 cr_refused = Some ''prior operation is pending or uncertain''\<rparr>)"

definition consume_grant ::
  "lease_bundle \<Rightarrow> pyval \<Rightarrow> pyval \<Rightarrow> pyval \<Rightarrow> pyval \<Rightarrow> pyval \<Rightarrow> string \<Rightarrow> lease_db
   \<Rightarrow> lease_error + consume_result \<times> lease_db" where
  "consume_grant bundle project semantic_operation request_id request_sha256 now token db =
     bindE (lease_text ''project'' project) (\<lambda>pr.
     bindE (lease_text ''semantic_operation'' semantic_operation) (\<lambda>op.
     bindE (lease_text ''request_id'' request_id) (\<lambda>rid.
     bindE (lease_sha ''request_sha256'' request_sha256) (\<lambda>rq.
     bindE (observe_now now db) (\<lambda>(n, db1).
     case find_row grant_key (pr, op, rid) (db_grants db1) of
       Some g \<Rightarrow> bindE (replay_grant g rq) (\<lambda>r. Inr (r, db1))
     | None \<Rightarrow>
         let (result, view) = store_guard bundle n db1 in
         bindE (ensure (g_status result = ''eligible'') (Guard_refused (g_reasons result))) (\<lambda>_.
         bindE (ensure (\<not> (case view of None \<Rightarrow> False | Some v \<Rightarrow> v_in_flight v)) Lease_in_flight) (\<lambda>_.
         bindE (ensure (find_row gr_grant_id token (db_grants db1) = None) (Integrity_error ''grants'')) (\<lambda>_.
         let row = \<lparr>gr_grant_id = token, gr_lease_id = lb_lease_id bundle, gr_project = pr,
                    gr_semantic_operation = op, gr_request_id = rid, gr_request_sha256 = rq,
                    gr_state = ''started'', gr_issued_at = n, gr_started_at = Some n,
                    gr_observed_at = None, gr_result = None\<rparr> in
         Inr (\<lparr>cr_grant_id = token, cr_state = ''started'', cr_replayed = False, cr_result = None,
                cr_execute = True, cr_refused = None\<rparr>,
              db1\<lparr>db_grants := db_grants db1 @ [row]\<rparr>)))))))))"

definition observed_state :: "string \<Rightarrow> string" where
  "observed_state outcome = (if outcome = ''success'' then ''observed_success''
     else if outcome = ''failure'' then ''observed_failure'' else ''uncertain'')"

definition observe_operation ::
  "string \<Rightarrow> string \<Rightarrow> pydict option \<Rightarrow> pyval \<Rightarrow> lease_db
   \<Rightarrow> lease_error + (string \<times> string) \<times> lease_db" where
  "observe_operation grant_id outcome result now db =
     bindE (ensure (outcome \<in> {''success'', ''failure'', ''uncertain''}) Unknown_outcome) (\<lambda>_.
     bindE (observe_now now db) (\<lambda>(n, db1).
     case find_row gr_grant_id grant_id (db_grants db1) of
       None \<Rightarrow> Inl Unknown_grant
     | Some g \<Rightarrow>
         bindE (ensure (gr_state g = ''started'' \<or> (gr_state g = ''uncertain'' \<and> outcome \<noteq> ''uncertain''))
                  (Not_observable (gr_state g) outcome)) (\<lambda>_.
         Inr ((grant_id, observed_state outcome),
              db1\<lparr>db_grants := update_row gr_grant_id grant_id
                (\<lambda>g. g\<lparr>gr_state := observed_state outcome, gr_observed_at := Some n,
                        gr_result := Some (PDict (case result of None \<Rightarrow> [] | Some d \<Rightarrow> d))\<rparr>)
                (db_grants db1)\<rparr>))))"

text \<open>\<open>apply_migration\<close>: additive statements run at most once per version, pinned by checksum.
  \<open>script_ok\<close> says whether SQLite accepts the script; it adds tables beside this schema.\<close>

definition apply_migration ::
  "(string \<Rightarrow> bool) \<Rightarrow> pyval \<Rightarrow> pyval \<Rightarrow> pyval \<Rightarrow> pyval option \<Rightarrow> lease_db \<Rightarrow> lease_error + bool \<times> lease_db" where
  "apply_migration script_ok version sql sql_sha256 now_ms db =
     bindE (case version of PInt v \<Rightarrow> if v < 1 then Inl (Migration_malformed ''version'') else Inr v
            | _ \<Rightarrow> Inl (Migration_malformed ''version'')) (\<lambda>v.
     bindE (case sql of PStr s \<Rightarrow> if blank s then Inl (Migration_malformed ''sql'') else Inr s
            | _ \<Rightarrow> Inl (Migration_malformed ''sql'')) (\<lambda>s.
     bindE (case sql_sha256 of PStr h \<Rightarrow> if hex_text 64 h then Inr h else Inl (Migration_malformed ''sha256'')
            | _ \<Rightarrow> Inl (Migration_malformed ''sha256'')) (\<lambda>h.
     case map_of (db_migrations db) v of
       Some (recorded, _) \<Rightarrow>
         if recorded \<noteq> h then Inl (Migration_conflict v) else Inr (False, db)
     | None \<Rightarrow>
         bindE (ensure (script_ok s) (Integrity_error ''migration'')) (\<lambda>_.
         bindE (case now_ms of None \<Rightarrow> Inr 0 | Some m \<Rightarrow> lease_int ''now_ms'' 0 m) (\<lambda>applied.
         Inr (True, db\<lparr>db_migrations := db_migrations db @ [(v, h, applied)]\<rparr>))))))"

end
