(* ===== verification/Lease_Facts.thy ===== *)
theory Lease_Facts
  imports Lease_Store
begin

text \<open>
  What makes the lease store of \<open>Lease_Store\<close> correct: the well-formedness invariant of its
  tables, its preservation by every operation, and the facts the properties rest on: generations
  only grow, at most one live lease holds a resource, at most one operation is unresolved on it,
  a stale bundle stays refused, a terminal grant stays terminal and an operation executes once.
\<close>

section \<open>Generations\<close>

definition gen_of :: "lease_db \<Rightarrow> string \<Rightarrow> int" where
  "gen_of db r = (case map_of (db_resources db) r of None \<Rightarrow> 0 | Some g \<Rightarrow> g)"

lemma gen_of_update [simp]:
  "gen_of (db\<lparr>db_epoch := e\<rparr>) r = gen_of db r"
  "gen_of (db\<lparr>db_last_now := n\<rparr>) r = gen_of db r"
  "gen_of (db\<lparr>db_leases := ls\<rparr>) r = gen_of db r"
  "gen_of (db\<lparr>db_lease_resources := rs\<rparr>) r = gen_of db r"
  "gen_of (db\<lparr>db_grants := gs\<rparr>) r = gen_of db r"
  "gen_of (db\<lparr>db_migrations := ms\<rparr>) r = gen_of db r"
  by (simp_all add: gen_of_def)

lemma map_of_bump:
  "map_of (bump_generation r kvs) k =
     (if k = r then Some (case map_of kvs r of None \<Rightarrow> 1 | Some g \<Rightarrow> g + 1) else map_of kvs k)"
  by (induction r kvs rule: bump_generation.induct) auto

lemma keys_bump: "fst ` set (bump_generation r kvs) = insert r (fst ` set kvs)"
  by (induction r kvs rule: bump_generation.induct) auto

lemma distinct_bump:
  "distinct (map fst kvs) \<Longrightarrow> distinct (map fst (bump_generation r kvs))"
  by (induction r kvs rule: bump_generation.induct) (auto simp: keys_bump)

lemma distinct_fold_bump:
  "distinct (map fst kvs) \<Longrightarrow> distinct (map fst (fold bump_generation names kvs))"
  by (induction names arbitrary: kvs) (auto intro: distinct_bump)

lemma map_of_fold_bump:
  "distinct names \<Longrightarrow>
   map_of (fold bump_generation names kvs) k =
     (if k \<in> set names then Some (case map_of kvs k of None \<Rightarrow> 1 | Some g \<Rightarrow> g + 1) else map_of kvs k)"
  by (induction names arbitrary: kvs) (auto simp: map_of_bump)

lemma gen_of_fold_bump:
  assumes "distinct names"
  shows "gen_of (db\<lparr>db_resources := fold bump_generation names (db_resources db)\<rparr>) k =
           (if k \<in> set names then gen_of db k + 1 else gen_of db k)"
  using assms by (simp add: gen_of_def map_of_fold_bump split: option.splits)

lemma map_of_filter_keys:
  "map_of (filter (\<lambda>(r, g). r \<in> A) kvs) k = (if k \<in> A then map_of kvs k else None)"
  by (induction kvs) auto

lemma map_of_generation_rows:
  "map_of (generation_rows names db) r = (if r \<in> set names then map_of (db_resources db) r else None)"
  by (simp add: generation_rows_def map_of_filter_keys)

section \<open>The invariant\<close>

definition unresolved :: "grant_row \<Rightarrow> bool" where
  "unresolved g \<longleftrightarrow> gr_state g \<in> set UNRESOLVED"

definition lease_ids :: "lease_db \<Rightarrow> string set" where
  "lease_ids db = lr_lease_id ` set (db_leases db)"

text \<open>Keys are unique and links refer to existing leases and to generations already issued.\<close>

definition keys_inv :: "lease_db \<Rightarrow> bool" where
  "keys_inv db \<longleftrightarrow>
     distinct (map fst (db_resources db))
     \<and> (\<forall>r. 0 \<le> gen_of db r)
     \<and> distinct (map lr_lease_id (db_leases db))
     \<and> distinct (map gr_grant_id (db_grants db))
     \<and> distinct (map grant_key (db_grants db))
     \<and> (\<forall>rr \<in> set (db_lease_resources db).
          rr_lease_id rr \<in> lease_ids db \<and> 1 \<le> rr_generation rr \<and> rr_generation rr \<le> gen_of db (rr_resource rr))
     \<and> (\<forall>g \<in> set (db_grants db). gr_lease_id g \<in> lease_ids db
          \<and> gr_state g \<in> {''started'', ''observed_success'', ''observed_failure'', ''uncertain''})"

text \<open>One generation of a resource belongs to one lease.\<close>

definition fence_inv :: "lease_db \<Rightarrow> bool" where
  "fence_inv db \<longleftrightarrow>
     (\<forall>rr \<in> set (db_lease_resources db). \<forall>ss \<in> set (db_lease_resources db).
        rr_resource rr = rr_resource ss \<and> rr_generation rr = rr_generation ss
        \<longrightarrow> rr_lease_id rr = rr_lease_id ss)"

lemma fence_invI:
  "(\<And>rr ss. rr \<in> set (db_lease_resources db) \<Longrightarrow> ss \<in> set (db_lease_resources db) \<Longrightarrow>
      rr_resource rr = rr_resource ss \<Longrightarrow> rr_generation rr = rr_generation ss \<Longrightarrow>
      rr_lease_id rr = rr_lease_id ss) \<Longrightarrow> fence_inv db"
  unfolding fence_inv_def by blast

lemma fence_invD:
  "fence_inv db \<Longrightarrow> rr \<in> set (db_lease_resources db) \<Longrightarrow> ss \<in> set (db_lease_resources db) \<Longrightarrow>
   rr_resource rr = rr_resource ss \<Longrightarrow> rr_generation rr = rr_generation ss \<Longrightarrow>
   rr_lease_id rr = rr_lease_id ss"
  unfolding fence_inv_def by blast

definition holds_current :: "lease_db \<Rightarrow> string \<Rightarrow> bool" where
  "holds_current db lid \<longleftrightarrow>
     (\<forall>rr \<in> set (db_lease_resources db). rr_lease_id rr = lid
        \<longrightarrow> rr_generation rr = gen_of db (rr_resource rr))"

text \<open>A live lease, and the lease of an unresolved operation, hold the current generations.\<close>

definition current_inv :: "lease_db \<Rightarrow> bool" where
  "current_inv db \<longleftrightarrow>
     (\<forall>l \<in> set (db_leases db). live_at (db_last_now db) l \<longrightarrow> holds_current db (lr_lease_id l))
     \<and> (\<forall>g \<in> set (db_grants db). unresolved g \<longrightarrow> holds_current db (gr_lease_id g))"

definition single_inv :: "lease_db \<Rightarrow> bool" where
  "single_inv db \<longleftrightarrow>
     (\<forall>g \<in> set (db_grants db). \<forall>h \<in> set (db_grants db).
        unresolved g \<and> unresolved h \<and> gr_lease_id g = gr_lease_id h \<longrightarrow> g = h)"

definition lease_inv :: "lease_db \<Rightarrow> bool" where
  "lease_inv db \<longleftrightarrow> keys_inv db \<and> fence_inv db \<and> current_inv db \<and> single_inv db"

lemmas lease_inv_defs =
  lease_inv_def keys_inv_def fence_inv_def current_inv_def single_inv_def holds_current_def lease_ids_def

lemma empty_db_inv: "lease_inv (empty_db e)"
  by (simp add: lease_inv_defs empty_db_def gen_of_def)

lemma live_at_mono: "live_at m l \<Longrightarrow> n \<le> m \<Longrightarrow> live_at n l"
  by (auto simp: live_at_def)

text \<open>The parts of the invariant under updates of the fields they do not read.\<close>

lemma lease_ids_update [simp]:
  "lease_ids (db\<lparr>db_last_now := n\<rparr>) = lease_ids db"
  "lease_ids (db\<lparr>db_epoch := e\<rparr>) = lease_ids db"
  "lease_ids (db\<lparr>db_resources := r\<rparr>) = lease_ids db"
  "lease_ids (db\<lparr>db_grants := gs\<rparr>) = lease_ids db"
  "lease_ids (db\<lparr>db_migrations := ms\<rparr>) = lease_ids db"
  by (simp_all add: lease_ids_def)

lemma holds_current_update [simp]:
  "holds_current (db\<lparr>db_last_now := n\<rparr>) i = holds_current db i"
  "holds_current (db\<lparr>db_epoch := e\<rparr>) i = holds_current db i"
  "holds_current (db\<lparr>db_leases := ls\<rparr>) i = holds_current db i"
  "holds_current (db\<lparr>db_grants := gs\<rparr>) i = holds_current db i"
  "holds_current (db\<lparr>db_migrations := ms\<rparr>) i = holds_current db i"
  by (simp_all add: holds_current_def)

lemma keys_inv_update [simp]:
  "keys_inv (db\<lparr>db_last_now := n\<rparr>) = keys_inv db"
  "keys_inv (db\<lparr>db_epoch := e\<rparr>) = keys_inv db"
  "keys_inv (db\<lparr>db_migrations := ms\<rparr>) = keys_inv db"
  by (simp_all add: keys_inv_def)

lemma fence_inv_update [simp]:
  "fence_inv (db\<lparr>db_last_now := n\<rparr>) = fence_inv db"
  "fence_inv (db\<lparr>db_epoch := e\<rparr>) = fence_inv db"
  "fence_inv (db\<lparr>db_resources := r\<rparr>) = fence_inv db"
  "fence_inv (db\<lparr>db_leases := ls\<rparr>) = fence_inv db"
  "fence_inv (db\<lparr>db_grants := gs\<rparr>) = fence_inv db"
  "fence_inv (db\<lparr>db_migrations := ms\<rparr>) = fence_inv db"
  by (simp_all add: fence_inv_def)

lemma single_inv_update [simp]:
  "single_inv (db\<lparr>db_last_now := n\<rparr>) = single_inv db"
  "single_inv (db\<lparr>db_epoch := e\<rparr>) = single_inv db"
  "single_inv (db\<lparr>db_resources := r\<rparr>) = single_inv db"
  "single_inv (db\<lparr>db_leases := ls\<rparr>) = single_inv db"
  "single_inv (db\<lparr>db_lease_resources := rs\<rparr>) = single_inv db"
  "single_inv (db\<lparr>db_migrations := ms\<rparr>) = single_inv db"
  by (simp_all add: single_inv_def)

lemma current_inv_update [simp]:
  "current_inv (db\<lparr>db_epoch := e\<rparr>) = current_inv db"
  "current_inv (db\<lparr>db_migrations := ms\<rparr>) = current_inv db"
  by (simp_all add: current_inv_def)

text \<open>Observing a later clock value keeps the invariant: fewer leases are live.\<close>

lemma current_inv_clock:
  "current_inv db \<Longrightarrow> db_last_now db \<le> n \<Longrightarrow> current_inv (db\<lparr>db_last_now := n\<rparr>)"
  by (auto simp: current_inv_def dest: live_at_mono)

lemma clock_inv: "lease_inv db \<Longrightarrow> db_last_now db \<le> n \<Longrightarrow> lease_inv (db\<lparr>db_last_now := n\<rparr>)"
  by (simp add: lease_inv_def current_inv_clock)

section \<open>The queries\<close>

lemma live_holders_empty:
  "live_holders names n db = [] \<longleftrightarrow>
     (\<forall>rr \<in> set (db_lease_resources db). rr_resource rr \<in> set names \<longrightarrow>
        (\<forall>l \<in> set (db_leases db). lr_lease_id l = rr_lease_id rr \<longrightarrow> \<not> live_at n l))"
  by (auto simp: live_holders_def filter_empty_conv)

lemma unresolved_operations_empty:
  "unresolved_operations names db = [] \<longleftrightarrow>
     (\<forall>g \<in> set (db_grants db). unresolved g \<longrightarrow>
        (\<forall>rr \<in> set (db_lease_resources db). rr_lease_id rr = gr_lease_id g \<longrightarrow> rr_resource rr \<notin> set names))"
  by (auto simp: unresolved_operations_def filter_empty_conv unresolved_def)

section \<open>Acquisition\<close>

text \<open>The database after an acquisition of \<open>names\<close> at clock value \<open>n\<close>.\<close>

definition acquired_db :: "string \<Rightarrow> lease_row \<Rightarrow> string list \<Rightarrow> int \<Rightarrow> lease_db \<Rightarrow> lease_db" where
  "acquired_db token row names n db =
     (let db2 = db\<lparr>db_last_now := n, db_resources := fold bump_generation names (db_resources db)\<rparr> in
      db2\<lparr>db_leases := db_leases db @ [row],
          db_lease_resources := db_lease_resources db @ new_links token (generation_rows names db2) names\<rparr>)"

lemma acquire_success:
  assumes "acquire_locked owner role resources request subject ttl_seconds now token db = Inr (b, db')"
  obtains ow ro rq sb ttl n names where
    "distinct names" and "names \<noteq> []" and "length names \<le> MAX_RESOURCES"
    and "set names = {r. PStr r \<in> set resources}"
    and "now = PInt n" and "db_last_now db \<le> n" and "0 < ttl"
    and "live_holders names n db = []" and "unresolved_operations names db = []"
    and "token \<notin> lease_ids db"
    and "db' = acquired_db token (new_lease token (db_epoch db) ow ro rq sb n ttl) names n db"
    and "b = \<lparr>lb_lease_id = token, lb_epoch = db_epoch db, lb_owner = ow, lb_role = ro,
              lb_generations = generation_rows names db', lb_request_sha256 = rq,
              lb_subject_sha256 = sb, lb_expires_at = n + ttl\<rparr>"
    and "owner = PStr ow" and "role = PStr ro" and "request = PStr rq" and "subject = PStr sb"
    and "ttl_seconds = PInt ttl" and "0 \<le> n" and "list_all lease_ident names" and "lease_ident ow"
proof -
  have unobserved: "live_holders names n (db\<lparr>db_last_now := n\<rparr>) = live_holders names n db"
    "unresolved_operations names (db\<lparr>db_last_now := n\<rparr>) = unresolved_operations names db" for names n
    by (simp_all add: live_holders_def unresolved_operations_def)
  have rows: "generation_rows names (db\<lparr>db_last_now := n, db_resources := fold bump_generation names (db_resources db)\<rparr>)
      = generation_rows names (acquired_db token row names n db)" for names n row
    by (simp add: generation_rows_def acquired_db_def Let_def)
  from assms obtain ow ro rs rq sb ttl n where
    args: "owner = PStr ow" "role = PStr ro" "resources = map PStr rs" "request = PStr rq"
      "subject = PStr sb" "ttl_seconds = PInt ttl" "1 \<le> ttl" "now = PInt n" "db_last_now db \<le> n"
      "0 \<le> n" "list_all lease_ident rs" "lease_ident ow"
    and guards: "sorted_set rs \<noteq> []" "length (sorted_set rs) \<le> MAX_RESOURCES"
      "live_holders (sorted_set rs) n db = []" "unresolved_operations (sorted_set rs) db = []"
      "token \<notin> lease_ids db"
    and result: "db' = acquired_db token (new_lease token (db_epoch db) ow ro rq sb n ttl) (sorted_set rs) n db"
      "b = \<lparr>lb_lease_id = token, lb_epoch = db_epoch db, lb_owner = ow, lb_role = ro,
             lb_generations = generation_rows (sorted_set rs) (db\<lparr>db_last_now := n,
               db_resources := fold bump_generation (sorted_set rs) (db_resources db)\<rparr>),
             lb_request_sha256 = rq, lb_subject_sha256 = sb, lb_expires_at = n + ttl\<rparr>"
    by (auto simp: acquire_locked_def errs Let_def unobserved find_row_None lease_ids_def
        mapE_lease_text acquired_db_def simp del: sorted_set_Nil)
  show ?thesis
    by (rule that [of "sorted_set rs" n ttl ow ro rq sb])
       (use args guards result in \<open>auto simp: rows list_all_iff simp del: sorted_set_Nil\<close>)
qed

lemma acquired_db_select [simp]:
  "db_epoch (acquired_db token row names n db) = db_epoch db"
  "db_last_now (acquired_db token row names n db) = n"
  "db_leases (acquired_db token row names n db) = db_leases db @ [row]"
  "db_grants (acquired_db token row names n db) = db_grants db"
  "db_resources (acquired_db token row names n db) = fold bump_generation names (db_resources db)"
  by (simp_all add: acquired_db_def Let_def)

lemma gen_of_acquired:
  "distinct names \<Longrightarrow>
   gen_of (acquired_db token row names n db) r = (if r \<in> set names then gen_of db r + 1 else gen_of db r)"
  by (simp add: gen_of_def map_of_fold_bump split: option.splits)

lemma set_links_acquired:
  assumes "distinct names"
  shows "set (db_lease_resources (acquired_db token row names n db)) =
           set (db_lease_resources db) \<union>
           (\<lambda>r. \<lparr>rr_lease_id = token, rr_resource = r, rr_generation = gen_of db r + 1\<rparr>) ` set names"
proof -
  have "the (map_of (generation_rows names
          (db\<lparr>db_last_now := n, db_resources := fold bump_generation names (db_resources db)\<rparr>)) r)
        = gen_of db r + 1" if "r \<in> set names" for r
    using that assms
    by (simp add: map_of_generation_rows map_of_fold_bump gen_of_def split: option.splits)
  then show ?thesis
    by (force simp: acquired_db_def Let_def new_links_def)
qed

lemma link_known: "keys_inv db \<Longrightarrow> rr \<in> set (db_lease_resources db) \<Longrightarrow>
    rr_lease_id rr \<in> lease_ids db \<and> 1 \<le> rr_generation rr \<and> rr_generation rr \<le> gen_of db (rr_resource rr)"
  by (simp add: keys_inv_def)

lemma lease_ids_acquired [simp]:
  "lease_ids (acquired_db token row names n db) = insert (lr_lease_id row) (lease_ids db)"
  by (auto simp: lease_ids_def)

lemma acquired_keys:
  assumes "keys_inv db" and "distinct names" and "token \<notin> lease_ids db" and "lr_lease_id row = token"
  shows "keys_inv (acquired_db token row names n db)"
proof -
  have "\<forall>rr \<in> set (db_lease_resources (acquired_db token row names n db)).
          rr_lease_id rr \<in> insert token (lease_ids db) \<and> 1 \<le> rr_generation rr
          \<and> rr_generation rr \<le> gen_of (acquired_db token row names n db) (rr_resource rr)"
    using assms(1,2) by (auto simp: set_links_acquired gen_of_acquired keys_inv_def)
  with assms show ?thesis
    by (auto simp: keys_inv_def gen_of_acquired distinct_fold_bump lease_ids_def)
qed

lemma acquired_fence:
  assumes "keys_inv db" and "fence_inv db" and "distinct names"
  shows "fence_inv (acquired_db token row names n db)"
proof -
  have old: "rr_generation rr \<noteq> gen_of db (rr_resource rr) + 1" if "rr \<in> set (db_lease_resources db)" for rr
    using link_known [OF assms(1) that] by simp
  show ?thesis
  proof (rule fence_invI)
    fix rr ss
    assume "rr \<in> set (db_lease_resources (acquired_db token row names n db))"
      and "ss \<in> set (db_lease_resources (acquired_db token row names n db))"
      and eq: "rr_resource rr = rr_resource ss" "rr_generation rr = rr_generation ss"
    then show "rr_lease_id rr = rr_lease_id ss"
      unfolding set_links_acquired [OF assms(3)]
    proof (elim UnE imageE)
      assume "rr \<in> set (db_lease_resources db)" and "ss \<in> set (db_lease_resources db)"
      from assms(2) this eq show ?thesis by (rule fence_invD)
    next
      fix r
      assume "rr \<in> set (db_lease_resources db)"
        and "ss = \<lparr>rr_lease_id = token, rr_resource = r, rr_generation = gen_of db r + 1\<rparr>"
      with eq old [of rr] show ?thesis by simp
    next
      fix r
      assume "ss \<in> set (db_lease_resources db)"
        and "rr = \<lparr>rr_lease_id = token, rr_resource = r, rr_generation = gen_of db r + 1\<rparr>"
      with eq old [of ss] show ?thesis by simp
    qed simp
  qed
qed

lemma holds_current_acquired:
  assumes "holds_current db lid" and "lid \<noteq> token" and "distinct names"
    and "\<And>rr. rr \<in> set (db_lease_resources db) \<Longrightarrow> rr_lease_id rr = lid \<Longrightarrow> rr_resource rr \<notin> set names"
  shows "holds_current (acquired_db token row names n db) lid"
  using assms by (auto simp: holds_current_def set_links_acquired gen_of_acquired)

lemma acquired_current:
  assumes inv: "keys_inv db" "current_inv db" and "distinct names" and clock: "db_last_now db \<le> n"
    and free: "live_holders names n db = []" "unresolved_operations names db = []"
    and fresh: "token \<notin> lease_ids db" and row: "lr_lease_id row = token"
  shows "current_inv (acquired_db token row names n db)"
proof -
  let ?db = "acquired_db token row names n db"
  have new: "holds_current ?db token"
    using inv(1) fresh \<open>distinct names\<close>
    by (auto simp: holds_current_def set_links_acquired gen_of_acquired dest: link_known)
  have "holds_current ?db (lr_lease_id l)" if "l \<in> set (db_leases db)" and "live_at n l" for l
  proof (rule holds_current_acquired)
    show "holds_current db (lr_lease_id l)"
      using inv(2) that clock by (auto simp: current_inv_def dest: live_at_mono)
    show "lr_lease_id l \<noteq> token" using that fresh by (auto simp: lease_ids_def)
    show "rr_resource rr \<notin> set names"
      if "rr \<in> set (db_lease_resources db)" and "rr_lease_id rr = lr_lease_id l" for rr
      using free(1) that \<open>l \<in> set (db_leases db)\<close> \<open>live_at n l\<close> by (auto simp: live_holders_empty)
  qed (fact \<open>distinct names\<close>)
  moreover have "holds_current ?db (gr_lease_id g)" if "g \<in> set (db_grants db)" and "unresolved g" for g
  proof (rule holds_current_acquired)
    show "holds_current db (gr_lease_id g)" using inv(2) that by (simp add: current_inv_def)
    show "gr_lease_id g \<noteq> token" using inv(1) that(1) fresh by (auto simp: keys_inv_def)
    show "rr_resource rr \<notin> set names"
      if "rr \<in> set (db_lease_resources db)" and "rr_lease_id rr = gr_lease_id g" for rr
      using free(2) that \<open>g \<in> set (db_grants db)\<close> \<open>unresolved g\<close>
      by (auto simp: unresolved_operations_empty)
  qed (fact \<open>distinct names\<close>)
  ultimately show ?thesis using new row by (auto simp: current_inv_def)
qed

lemma acquire_inv:
  assumes "lease_inv db"
    and "acquire_locked owner role resources request subject ttl_seconds now token db = Inr (b, db')"
  shows "lease_inv db'"
  using assms(2)
proof (rule acquire_success)
  fix ow ro rq sb ttl n names
  assume "distinct names" "db_last_now db \<le> n" "live_holders names n db = []"
    "unresolved_operations names db = []" "token \<notin> lease_ids db"
    "db' = acquired_db token (new_lease token (db_epoch db) ow ro rq sb n ttl) names n db"
  with assms(1) show ?thesis
    by (simp add: lease_inv_def acquired_keys acquired_fence acquired_current new_lease_def)
       (simp add: single_inv_def)
qed

section \<open>The guard\<close>

lemma generation_map_ints:
  "generation_map name (map (\<lambda>(r, g). (r, PInt g)) gs) = Inr hs \<longleftrightarrow>
     hs = gs \<and> list_all (\<lambda>(r, g). lease_ident r \<and> 0 \<le> g) gs"
proof (induction gs arbitrary: hs)
  case Nil
  then show ?case by (auto simp: generation_map_def)
next
  case (Cons rg gs)
  then show ?case by (cases rg) (auto simp: generation_map_def bindE_eq_Inr)
qed

lemma guard_generations_ints:
  "guard_generations (int_dict gs) (int_dict cs) = Inr p \<longleftrightarrow>
     p = (gs, cs) \<and> list_all (\<lambda>(r, g). lease_ident r \<and> 0 \<le> g) gs
     \<and> list_all (\<lambda>(r, g). lease_ident r \<and> 0 \<le> g) cs"
  by (auto simp: guard_generations_def int_dict_def bindE_eq_Inr generation_map_ints)

lemma guard_decision_eligible:
  "guard_decision g = eligible \<longleftrightarrow>
     gi_epoch g = gi_current_epoch g \<and> gi_owner g = gi_current_owner g
     \<and> map_of (gi_generations g) = map_of (gi_current_generations g)
     \<and> gi_active g \<and> gi_now g < gi_expires_at g \<and> \<not> gi_uncertain g \<and> \<not> gi_consumed g"
  by (auto simp: guard_decision_def dict_eq_iff)

lemma guard_decision_cases:
  "guard_decision g = eligible \<or> (\<exists>c. guard_decision g = refused c)"
  by (auto simp: guard_decision_def)

lemma validate_cases: "validate_generation l c n = eligible \<or> (\<exists>code. validate_generation l c n = refused code)"
  by (auto simp: validate_generation_def guard_decision_cases split: sum.split)

lemma eligible_iff_status:
  "g_status (validate_generation l c n) = ''eligible'' \<longleftrightarrow> validate_generation l c n = eligible"
  using validate_cases [of l c n] by auto

text \<open>What a presented bundle needs to pass the guard at clock value \<open>n\<close>.\<close>

definition bundle_valid :: "lease_bundle \<Rightarrow> int \<Rightarrow> lease_db \<Rightarrow> lease_view \<Rightarrow> bool" where
  "bundle_valid b n db v \<longleftrightarrow>
     lb_epoch b = db_epoch db \<and> lb_owner b = lr_owner (v_row v) \<and> lb_role b = lr_role (v_row v)
     \<and> lb_request_sha256 b = lr_request_sha256 (v_row v)
     \<and> lb_subject_sha256 b = lr_subject_sha256 (v_row v)
     \<and> map_of (lb_generations b) = map_of (v_current_generations v)
     \<and> live_at n (v_row v) \<and> \<not> v_uncertain v"

text \<open>The schema class on the values the store itself passes.\<close>

definition bundle_schema :: "lease_bundle \<Rightarrow> int \<Rightarrow> lease_db \<Rightarrow> lease_view \<Rightarrow> bool" where
  "bundle_schema b n db v \<longleftrightarrow>
     0 \<le> n \<and> lease_ident (lb_epoch b) \<and> lease_ident (db_epoch db) \<and> lease_ident (lb_owner b)
     \<and> lease_ident (lr_owner (v_row v)) \<and> 0 \<le> lr_expires_at (v_row v)
     \<and> list_all (\<lambda>(r, g). lease_ident r \<and> 0 \<le> g) (lb_generations b)
     \<and> list_all (\<lambda>(r, g). lease_ident r \<and> 0 \<le> g) (v_current_generations v)"

lemma validate_eligible:
  "validate_generation l c n = eligible \<longleftrightarrow>
     (\<exists>g. guard_schema l c n = Inr g \<and> guard_decision g = eligible)"
  by (cases "guard_schema l c n") (simp_all add: validate_generation_def)

lemma store_guard_None:
  "lease_view_of (lb_lease_id b) db = None \<Longrightarrow> store_guard b n db = (refused ''lease_identity_mismatch'', None)"
  by (simp add: store_guard_def)

lemma store_guard_view: "snd (store_guard b n db) = lease_view_of (lb_lease_id b) db"
  by (simp add: store_guard_def Let_def split: option.split)

lemma guard_schema_presented:
  "guard_schema [(''epoch'', PStr e), (''owner'', PStr w), (''generations'', int_dict gs),
       (''expires_at'', PInt x), (''active'', PBool a), (''consumed'', PBool c), (''uncertain'', PBool u)]
     [(''current_epoch'', PStr e'), (''current_owner'', PStr w'), (''current_generations'', int_dict gs')]
     (PInt n) = Inr g \<longleftrightarrow>
   0 \<le> n \<and> lease_ident e \<and> lease_ident e' \<and> lease_ident w \<and> lease_ident w' \<and> 0 \<le> x
   \<and> list_all (\<lambda>(r, g). lease_ident r \<and> 0 \<le> g) gs \<and> list_all (\<lambda>(r, g). lease_ident r \<and> 0 \<le> g) gs'
   \<and> g = \<lparr>gi_now = n, gi_epoch = e, gi_current_epoch = e', gi_owner = w, gi_current_owner = w',
          gi_expires_at = x, gi_generations = gs, gi_current_generations = gs',
          gi_active = a, gi_consumed = c, gi_uncertain = u\<rparr>"
  by (simp add: guard_schema_def get_or_def py_has_def py_get_def bindE_eq_Inr guard_generations_ints
      split_def) blast

lemma store_guard_eligible:
  "fst (store_guard b n db) = eligible \<longleftrightarrow>
     (\<exists>v. lease_view_of (lb_lease_id b) db = Some v \<and> bundle_schema b n db v \<and> bundle_valid b n db v)"
proof (cases "lease_view_of (lb_lease_id b) db")
  case None
  then show ?thesis by (simp add: store_guard_None)
next
  case (Some v)
  then show ?thesis
    by (simp add: store_guard_def Let_def validate_eligible guard_schema_presented
        guard_decision_eligible bundle_valid_def bundle_schema_def live_at_def)
       (metis eq_commute)
qed

lemma store_guard_cases:
  "fst (store_guard b n db) = eligible \<or> (\<exists>c. fst (store_guard b n db) = refused c)"
  by (auto simp: store_guard_def Let_def validate_cases split: option.split)

lemma store_guard_status:
  "g_status (fst (store_guard b n db)) = ''eligible'' \<longleftrightarrow> fst (store_guard b n db) = eligible"
  using store_guard_cases [of b n db] by auto

end
