(* ===== verification/Lease_Safety.thy ===== *)
theory Lease_Safety
  imports Lease_Facts
begin

text \<open>
  The lease store as one transactional machine: a command per public method of
  \<open>AuthorityStore\<close>, its reply, the preservation of the invariant by every command, the
  preorder every committed command follows, and the interpretations that carry both to
  reachable databases.
\<close>

section \<open>Updates of one table\<close>

lemma update_leases_inv:
  assumes inv: "lease_inv db" and key: "\<And>l. lr_lease_id (f l) = lr_lease_id l"
    and live: "\<And>l. l \<in> set (db_leases db) \<Longrightarrow> lr_lease_id l = lid \<Longrightarrow>
                 live_at (db_last_now db) (f l) \<Longrightarrow> holds_current db lid"
  shows "lease_inv (db\<lparr>db_leases := update_row lr_lease_id lid f (db_leases db)\<rparr>)"
proof -
  let ?db = "db\<lparr>db_leases := update_row lr_lease_id lid f (db_leases db)\<rparr>"
  have "map lr_lease_id (db_leases ?db) = map lr_lease_id (db_leases db)"
    by (simp add: keys_update_row key)
  then have ids: "lease_ids ?db = lease_ids db"
    unfolding lease_ids_def by (metis list.set_map)
  have "keys_inv ?db"
    using inv ids by (simp add: lease_inv_def keys_inv_def keys_update_row key)
  moreover have "current_inv ?db"
    using inv live by (auto simp: lease_inv_def current_inv_def set_update_row key)
  ultimately show ?thesis using inv by (simp add: lease_inv_def)
qed

lemma update_grants_inv:
  assumes inv: "lease_inv db"
    and key: "\<And>g. gr_grant_id (f g) = gr_grant_id g" "\<And>g. grant_key (f g) = grant_key g"
      "\<And>g. gr_lease_id (f g) = gr_lease_id g"
    and state: "\<And>g. g \<in> set (db_grants db) \<Longrightarrow> unresolved (f g) \<Longrightarrow> unresolved g"
      "\<And>g. g \<in> set (db_grants db) \<Longrightarrow>
         gr_state (f g) \<in> {''started'', ''observed_success'', ''observed_failure'', ''uncertain''}"
  shows "lease_inv (db\<lparr>db_grants := map f (db_grants db)\<rparr>)"
proof -
  let ?db = "db\<lparr>db_grants := map f (db_grants db)\<rparr>"
  have "gr_grant_id \<circ> f = gr_grant_id" and "grant_key \<circ> f = grant_key"
    by (simp_all add: fun_eq_iff key)
  then have "keys_inv ?db"
    using inv state(2) by (auto simp: lease_inv_def keys_inv_def key)
  moreover have "current_inv ?db"
    using inv state(1) by (auto simp: lease_inv_def current_inv_def key)
  moreover have "single_inv ?db"
    using inv state(1) by (auto simp: lease_inv_def single_inv_def key)
  ultimately show ?thesis using inv by (simp add: lease_inv_def)
qed

lemma add_grant_inv:
  assumes inv: "lease_inv db"
    and fresh: "find_row gr_grant_id (gr_grant_id g) (db_grants db) = None"
      "find_row grant_key (grant_key g) (db_grants db) = None"
    and lease: "gr_lease_id g \<in> lease_ids db" "holds_current db (gr_lease_id g)"
    and state: "gr_state g = ''started''"
    and free: "\<And>h. h \<in> set (db_grants db) \<Longrightarrow> gr_lease_id h = gr_lease_id g \<Longrightarrow> \<not> unresolved h"
  shows "lease_inv (db\<lparr>db_grants := db_grants db @ [g]\<rparr>)"
proof -
  let ?db = "db\<lparr>db_grants := db_grants db @ [g]\<rparr>"
  have "keys_inv ?db"
    using inv fresh lease(1) state by (simp add: lease_inv_def keys_inv_def find_row_None)
  moreover have "current_inv ?db"
    using inv lease(2) by (simp add: lease_inv_def current_inv_def)
  moreover have "single_inv ?db"
    using inv free by (auto simp: lease_inv_def single_inv_def)
  ultimately show ?thesis using inv by (simp add: lease_inv_def)
qed

section \<open>The operations\<close>

lemma view_row:
  "lease_view_of lid db = Some v \<Longrightarrow>
   v_row v \<in> set (db_leases db) \<and> lr_lease_id (v_row v) = lid
   \<and> v_in_flight v = (\<exists>g \<in> set (db_grants db). gr_lease_id g = lid \<and> gr_state g \<in> {''started'', ''uncertain''})"
  by (auto simp: lease_view_of_def Let_def dest: find_row_Some split: option.splits)

lemma eligible_lease:
  assumes "lease_inv db" and "fst (store_guard b n db) = eligible" and "db_last_now db \<le> n"
  obtains v where "lease_view_of (lb_lease_id b) db = Some v" and "v_row v \<in> set (db_leases db)"
    and "lr_lease_id (v_row v) = lb_lease_id b" and "live_at n (v_row v)"
    and "holds_current db (lb_lease_id b)" and "lb_lease_id b \<in> lease_ids db"
proof -
  from assms(2) obtain v where v: "lease_view_of (lb_lease_id b) db = Some v" "bundle_valid b n db v"
    by (auto simp: store_guard_eligible)
  note row = view_row [OF v(1)]
  have live: "live_at n (v_row v)" using v(2) by (simp add: bundle_valid_def)
  have "live_at (db_last_now db) (v_row v)" using live assms(3) by (rule live_at_mono)
  with assms(1) row have "holds_current db (lb_lease_id b)"
    by (auto simp: lease_inv_def current_inv_def)
  moreover have "lb_lease_id b \<in> lease_ids db"
    using row unfolding lease_ids_def by (metis imageI)
  ultimately show thesis using that [OF v(1)] row live by blast
qed

text \<open>The live holder of a row is the only row with its key.\<close>

lemma lease_row_unique:
  assumes "lease_inv db" "l \<in> set (db_leases db)" "k \<in> set (db_leases db)"
    and "lr_lease_id l = lr_lease_id k"
  shows "l = k"
  using assms by (auto simp: lease_inv_def keys_inv_def dest: inj_onD [OF iffD1 [OF distinct_map, THEN conjunct2]])

definition heartbeat_db :: "string \<Rightarrow> int \<Rightarrow> lease_db \<Rightarrow> lease_db" where
  "heartbeat_db lid e db =
     db\<lparr>db_leases := update_row lr_lease_id lid (\<lambda>l. l\<lparr>lr_expires_at := e\<rparr>) (db_leases db)\<rparr>"

lemma heartbeat_success:
  assumes "heartbeat b ttl now db = Inr (r, db')"
  obtains t n where "ttl = PInt t" and "1 \<le> t" and "now = PInt n" and "0 \<le> n" and "db_last_now db \<le> n"
    and "r = fst (store_guard b n (db\<lparr>db_last_now := n\<rparr>))"
    and "db' = (if r = eligible then heartbeat_db (lb_lease_id b) (n + t) (db\<lparr>db_last_now := n\<rparr>)
                else db\<lparr>db_last_now := n\<rparr>)"
proof -
  from assms obtain t n where args: "ttl = PInt t" "1 \<le> t" "now = PInt n" "0 \<le> n" "db_last_now db \<le> n"
    and body: "(let result = fst (store_guard b n (db\<lparr>db_last_now := n\<rparr>)) in
          if g_status result \<noteq> ''eligible'' then Inr (result, db\<lparr>db_last_now := n\<rparr>)
          else Inr (result, (db\<lparr>db_last_now := n\<rparr>)\<lparr>db_leases := update_row lr_lease_id (lb_lease_id b)
                             (\<lambda>l. l\<lparr>lr_expires_at := n + t\<rparr>) (db_leases (db\<lparr>db_last_now := n\<rparr>))\<rparr>))
         = (Inr (r, db') :: lease_error + guard_result \<times> lease_db)"
    by (auto simp: heartbeat_def bindE_eq_Inr)
  note body = body [unfolded Let_def store_guard_status, folded heartbeat_db_def]
  show thesis
    by (rule that [OF args]; cases "fst (store_guard b n (db\<lparr>db_last_now := n\<rparr>)) = eligible")
       (use body in auto)
qed

lemma heartbeat_inv:
  assumes "lease_inv db" and "heartbeat b ttl now db = Inr (r, db')"
  shows "lease_inv db'"
  using assms(2)
proof (rule heartbeat_success)
  fix t n
  assume n: "db_last_now db \<le> n"
    and r: "r = fst (store_guard b n (db\<lparr>db_last_now := n\<rparr>))"
    and db': "db' = (if r = eligible then heartbeat_db (lb_lease_id b) (n + t) (db\<lparr>db_last_now := n\<rparr>)
                     else db\<lparr>db_last_now := n\<rparr>)"
  have inv: "lease_inv (db\<lparr>db_last_now := n\<rparr>)" using assms(1) n by (rule clock_inv)
  show ?thesis
  proof (cases "r = eligible")
    case True
    with r have ok: "fst (store_guard b n (db\<lparr>db_last_now := n\<rparr>)) = eligible" by simp
    from inv ok have "holds_current (db\<lparr>db_last_now := n\<rparr>) (lb_lease_id b)"
      by (rule eligible_lease) simp_all
    with True db' inv show ?thesis
      by (auto simp: heartbeat_db_def intro!: update_leases_inv [of "db\<lparr>db_last_now := n\<rparr>", simplified])
  next
    case False
    with db' inv show ?thesis by simp
  qed
qed

definition ended_db :: "string \<Rightarrow> int \<Rightarrow> string \<Rightarrow> lease_db \<Rightarrow> lease_db" where
  "ended_db lid n reason db =
     db\<lparr>db_leases := update_row lr_lease_id lid (end_lease n reason) (db_leases db)\<rparr>"

lemma ended_inv: "lease_inv db \<Longrightarrow> lease_inv (ended_db lid n reason db)"
  unfolding ended_db_def by (rule update_leases_inv) (simp_all add: end_lease_def live_at_def)

lemma release_success:
  assumes "release b now db = Inr (r, db')"
  obtains (refused) n where "now = PInt n" and "db_last_now db \<le> n" and "r \<noteq> eligible"
      and "db' = db\<lparr>db_last_now := n\<rparr>"
  | (released) n v where "now = PInt n" and "db_last_now db \<le> n" and "r = eligible"
      and "fst (store_guard b n (db\<lparr>db_last_now := n\<rparr>)) \<in> {eligible, refused ''lease_expired''}"
      and "lease_view_of (lb_lease_id b) (db\<lparr>db_last_now := n\<rparr>) = Some v" and "\<not> v_in_flight v"
      and "db' = ended_db (lb_lease_id b) n ''released'' (db\<lparr>db_last_now := n\<rparr>)"
proof -
  from assms obtain n where n: "now = PInt n" "db_last_now db \<le> n"
    and body: "(let (result, view) = store_guard b n (db\<lparr>db_last_now := n\<rparr>) in
      if g_status result \<noteq> ''eligible'' \<and> g_reasons result \<noteq> [''lease_expired''] then Inr (result, db\<lparr>db_last_now := n\<rparr>)
      else if (case view of None \<Rightarrow> False | Some v \<Rightarrow> v_in_flight v)
        then Inr (refused ''effect_uncertain'', db\<lparr>db_last_now := n\<rparr>)
      else Inr (eligible, (db\<lparr>db_last_now := n\<rparr>)\<lparr>db_leases := update_row lr_lease_id (lb_lease_id b)
                               (end_lease n ''released'') (db_leases (db\<lparr>db_last_now := n\<rparr>))\<rparr>))
      = (Inr (r, db') :: lease_error + guard_result \<times> lease_db)"
    by (auto simp: release_def bindE_eq_Inr)
  note body = body [folded ended_db_def]
  let ?g = "fst (store_guard b n (db\<lparr>db_last_now := n\<rparr>))"
  show thesis
  proof (cases "lease_view_of (lb_lease_id b) (db\<lparr>db_last_now := n\<rparr>)")
    case None
    with body n show ?thesis
      by (intro refused [of n]) (auto simp: store_guard_None)
  next
    case (Some v)
    consider "?g = eligible" | c where "?g = refused c" using store_guard_cases by blast
    then show ?thesis
    proof cases
      case 1
      with Some body n show ?thesis
        by (cases "v_in_flight v")
           (auto simp: Let_def split_def store_guard_view intro: refused [of n] released [of n v])
    next
      case (2 c)
      with Some body n show ?thesis
        by (cases "c = ''lease_expired''"; cases "v_in_flight v")
           (auto simp: Let_def split_def store_guard_view intro: refused [of n] released [of n v])
    qed
  qed
qed

lemma release_inv:
  assumes "lease_inv db" and "release b now db = Inr (r, db')"
  shows "lease_inv db'"
  using assms(2)
proof (cases rule: release_success)
  case (refused n)
  with assms(1) show ?thesis by (simp add: clock_inv)
next
  case (released n v)
  with assms(1) show ?thesis by (simp add: clock_inv ended_inv)
qed

lemma reap_one_eq:
  "reap_one n lid db = ended_db lid n ''expired'' (db\<lparr>db_grants := map (expire_issued n lid) (db_grants db)\<rparr>)"
  by (simp add: reap_one_def ended_db_def)

lemma reap_one_inv: "lease_inv db \<Longrightarrow> lease_inv (reap_one n lid db)"
  unfolding reap_one_eq
  by (rule ended_inv, rule update_grants_inv)
     (auto simp: expire_issued_def grant_key_def unresolved_def UNRESOLVED_def lease_inv_def keys_inv_def)

lemma fold_reap_inv: "lease_inv db \<Longrightarrow> lease_inv (fold (reap_one n) ids db)"
  by (induction ids arbitrary: db) (simp_all add: reap_one_inv)

lemma reap_inv: "lease_inv db \<Longrightarrow> reap now db = Inr (ids, db') \<Longrightarrow> lease_inv db'"
  by (auto simp: reap_def bindE_eq_Inr Let_def intro!: fold_reap_inv clock_inv)

definition started_grant :: "string \<Rightarrow> string \<Rightarrow> string \<times> string \<times> string \<Rightarrow> string \<Rightarrow> int \<Rightarrow> grant_row" where
  "started_grant token lid key rq n =
     \<lparr>gr_grant_id = token, gr_lease_id = lid, gr_project = fst key, gr_semantic_operation = fst (snd key),
      gr_request_id = snd (snd key), gr_request_sha256 = rq, gr_state = ''started'', gr_issued_at = n,
      gr_started_at = Some n, gr_observed_at = None, gr_result = None\<rparr>"

lemma consume_success:
  assumes "consume_grant b pr op rid rq now token db = Inr (r, db')"
  obtains (replay) n g where "db_last_now db \<le> n" and "db' = db\<lparr>db_last_now := n\<rparr>"
      and "g \<in> set (db_grants db)" and "replay_grant g (gr_request_sha256 g) = Inr r"
      and "pr = PStr (gr_project g)" and "op = PStr (gr_semantic_operation g)"
      and "rid = PStr (gr_request_id g)" and "rq = PStr (gr_request_sha256 g)"
  | (execute) n p q s h where "db_last_now db \<le> n" and "pr = PStr p" and "op = PStr q" and "rid = PStr s"
      and "rq = PStr h" and "find_row grant_key (p, q, s) (db_grants db) = None"
      and "fst (store_guard b n (db\<lparr>db_last_now := n\<rparr>)) = eligible"
      and "\<And>v. lease_view_of (lb_lease_id b) (db\<lparr>db_last_now := n\<rparr>) = Some v \<Longrightarrow> \<not> v_in_flight v"
      and "find_row gr_grant_id token (db_grants db) = None"
      and "r = \<lparr>cr_grant_id = token, cr_state = ''started'', cr_replayed = False, cr_result = None,
                cr_execute = True, cr_refused = None\<rparr>"
      and "db' = db\<lparr>db_last_now := n,
                db_grants := db_grants db @ [started_grant token (lb_lease_id b) (p, q, s) h n]\<rparr>"
proof -
  from assms obtain p q s h n db1 where
    e: "lease_text ''project'' pr = Inr p" "lease_text ''semantic_operation'' op = Inr q"
      "lease_text ''request_id'' rid = Inr s" "lease_sha ''request_sha256'' rq = Inr h"
      "observe_now now db = Inr (n, db1)"
    by (auto simp: consume_grant_def bindE_eq_Inr simp del: lease_text_eq lease_sha_eq observe_now_eq)
  have args: "pr = PStr p" "op = PStr q" "rid = PStr s" "rq = PStr h" "db_last_now db \<le> n"
    and db1: "db1 = db\<lparr>db_last_now := n\<rparr>"
    using e by simp_all
  have body: "(case find_row grant_key (p, q, s) (db_grants db) of
       Some g \<Rightarrow> bindE (replay_grant g h) (\<lambda>r. Inr (r, db\<lparr>db_last_now := n\<rparr>))
     | None \<Rightarrow>
         let (result, view) = store_guard b n (db\<lparr>db_last_now := n\<rparr>) in
         bindE (ensure (g_status result = ''eligible'') (Guard_refused (g_reasons result))) (\<lambda>_.
         bindE (ensure (\<not> (case view of None \<Rightarrow> False | Some v \<Rightarrow> v_in_flight v)) Lease_in_flight) (\<lambda>_.
         bindE (ensure (find_row gr_grant_id token (db_grants db) = None) (Integrity_error ''grants'')) (\<lambda>_.
         Inr (\<lparr>cr_grant_id = token, cr_state = ''started'', cr_replayed = False, cr_result = None,
                cr_execute = True, cr_refused = None\<rparr>,
              db\<lparr>db_last_now := n,
                 db_grants := db_grants db @ [started_grant token (lb_lease_id b) (p, q, s) h n]\<rparr>)))))
      = Inr (r, db')"
    using assms unfolding consume_grant_def e bindE_Inr db1 prod.case
    by (simp add: started_grant_def Let_def split_def cong: option.case_cong)
  show thesis
  proof (cases "find_row grant_key (p, q, s) (db_grants db)")
    case None
    with args body show ?thesis
      by (intro execute [of n p q s h])
         (auto simp: bindE_eq_Inr split_def Let_def store_guard_status store_guard_view)
  next
    case (Some g)
    with body have "replay_grant g h = Inr r" and db': "db' = db\<lparr>db_last_now := n\<rparr>"
      by (auto simp: bindE_eq_Inr)
    moreover from this have "gr_request_sha256 g = h"
      by (auto simp: replay_grant_def split: if_splits)
    moreover have "g \<in> set (db_grants db)" "grant_key g = (p, q, s)"
      using find_row_Some [OF Some] by simp_all
    ultimately show ?thesis
      using args by (intro replay [of n g]) (auto simp: grant_key_def)
  qed
qed

lemma consume_inv:
  assumes "lease_inv db" and "consume_grant b pr op rid rq now token db = Inr (r, db')"
  shows "lease_inv db'"
  using assms(2)
proof (cases rule: consume_success)
  case (replay n g)
  with assms(1) show ?thesis by (simp add: clock_inv)
next
  case (execute n p q s h)
  let ?db = "db\<lparr>db_last_now := n\<rparr>"
  have inv: "lease_inv ?db" using assms(1) execute(1) by (rule clock_inv)
  from inv execute(7) obtain v where v: "lease_view_of (lb_lease_id b) ?db = Some v"
    and cur: "holds_current ?db (lb_lease_id b)" and known: "lb_lease_id b \<in> lease_ids ?db"
    by (rule eligible_lease) simp_all
  have idle: "\<not> unresolved g" if "g \<in> set (db_grants db)" and "gr_lease_id g = lb_lease_id b" for g
    using execute(8) [OF v] view_row [OF v] that inv
    by (auto simp: unresolved_def UNRESOLVED_def lease_inv_def keys_inv_def)
  have "lease_inv (?db\<lparr>db_grants := db_grants ?db @ [started_grant token (lb_lease_id b) (p, q, s) h n]\<rparr>)"
    using inv
    by (rule add_grant_inv)
       (use execute cur known idle in \<open>simp_all add: started_grant_def grant_key_def\<close>)
  with execute(11) show ?thesis by simp
qed

lemma observed_state_cases:
  "observed_state out \<in> {''observed_success'', ''observed_failure'', ''uncertain''}"
  "observed_state out = ''uncertain'' \<longleftrightarrow> out \<noteq> ''success'' \<and> out \<noteq> ''failure''"
  by (auto simp: observed_state_def)

definition observed_grant :: "string \<Rightarrow> string \<Rightarrow> pydict option \<Rightarrow> int \<Rightarrow> grant_row \<Rightarrow> grant_row" where
  "observed_grant gid out res n g =
     (if gr_grant_id g = gid
      then g\<lparr>gr_state := observed_state out, gr_observed_at := Some n,
             gr_result := Some (PDict (case res of None \<Rightarrow> [] | Some d \<Rightarrow> d))\<rparr>
      else g)"

lemma observe_success:
  assumes "observe_operation gid out res now db = Inr (r, db')"
  obtains n g where "db_last_now db \<le> n" and "g \<in> set (db_grants db)" and "gr_grant_id g = gid"
    and "gr_state g = ''started'' \<or> (gr_state g = ''uncertain'' \<and> out \<noteq> ''uncertain'')"
    and "out \<in> {''success'', ''failure'', ''uncertain''}" and "r = (gid, observed_state out)"
    and "db' = db\<lparr>db_last_now := n, db_grants := map (observed_grant gid out res n) (db_grants db)\<rparr>"
proof -
  from assms obtain n g where n: "db_last_now db \<le> n"
    and g: "find_row gr_grant_id gid (db_grants db) = Some g"
    and guard: "gr_state g = ''started'' \<or> (gr_state g = ''uncertain'' \<and> out \<noteq> ''uncertain'')"
      "out \<in> {''success'', ''failure'', ''uncertain''}" "r = (gid, observed_state out)"
    and db': "db' = db\<lparr>db_last_now := n, db_grants := map (observed_grant gid out res n) (db_grants db)\<rparr>"
    by (auto simp: observe_operation_def bindE_eq_Inr update_row_def observed_grant_def
        split: option.splits)
  with find_row_Some [OF g] that [OF n _ _ guard db'] show thesis by blast
qed

lemma grant_unique:
  "keys_inv db \<Longrightarrow> g \<in> set (db_grants db) \<Longrightarrow> h \<in> set (db_grants db) \<Longrightarrow>
   gr_grant_id g = gr_grant_id h \<Longrightarrow> g = h"
  by (auto simp: keys_inv_def dest: inj_onD [OF iffD1 [OF distinct_map, THEN conjunct2]])

lemma observe_inv:
  assumes "lease_inv db" and "observe_operation gid out res now db = Inr (r, db')"
  shows "lease_inv db'"
  using assms(2)
proof (rule observe_success)
  fix n g
  assume n: "db_last_now db \<le> n" and g: "g \<in> set (db_grants db)" "gr_grant_id g = gid"
    and state: "gr_state g = ''started'' \<or> (gr_state g = ''uncertain'' \<and> out \<noteq> ''uncertain'')"
    and db': "db' = db\<lparr>db_last_now := n, db_grants := map (observed_grant gid out res n) (db_grants db)\<rparr>"
  have was: "unresolved h" if "h \<in> set (db_grants db)" "gr_grant_id h = gid" for h
    using grant_unique [of db h g] assms(1) that g state
    by (auto simp: lease_inv_def unresolved_def UNRESOLVED_def)
  have "lease_inv ((db\<lparr>db_last_now := n\<rparr>)\<lparr>db_grants := map (observed_grant gid out res n) (db_grants (db\<lparr>db_last_now := n\<rparr>))\<rparr>)"
    using assms(1) n was observed_state_cases(1) [of out]
    by (intro update_grants_inv clock_inv)
       (auto simp: observed_grant_def grant_key_def lease_inv_def keys_inv_def split: if_splits)
  with db' show ?thesis by simp
qed

section \<open>The machine\<close>

datatype lease_cmd =
    Acquire_many pyval pyval "pyval list" pyval pyval pyval pyval string
  | Heartbeat lease_bundle pyval pyval
  | Release lease_bundle pyval
  | Reap pyval
  | Consume_grant lease_bundle pyval pyval pyval pyval pyval string
  | Observe_operation string string "pydict option" pyval
  | Rotate_epoch string
  | Apply_migration pyval pyval pyval "pyval option"

datatype lease_reply =
    Bundle lease_bundle
  | Guarded guard_result
  | Reaped "string list"
  | Consumed consume_result
  | Observed "string \<times> string"
  | Epoch string
  | Applied bool

definition lease_exec :: "(string \<Rightarrow> bool) \<Rightarrow> lease_cmd \<Rightarrow> lease_db \<Rightarrow> lease_error + lease_reply \<times> lease_db" where
  "lease_exec script_ok c db =
     (case c of
        Acquire_many w ro rs rq sb ttl now tok \<Rightarrow> reply Bundle (acquire_many w ro rs rq sb ttl now tok db)
      | Heartbeat b ttl now \<Rightarrow> reply Guarded (heartbeat b ttl now db)
      | Release b now \<Rightarrow> reply Guarded (release b now db)
      | Reap now \<Rightarrow> reply Reaped (reap now db)
      | Consume_grant b pr op rid rq now tok \<Rightarrow> reply Consumed (consume_grant b pr op rid rq now tok db)
      | Observe_operation gid out res now \<Rightarrow> reply Observed (observe_operation gid out res now db)
      | Rotate_epoch tok \<Rightarrow> reply Epoch (rotate_epoch tok db)
      | Apply_migration v sql h ms \<Rightarrow> reply Applied (apply_migration script_ok v sql h ms db))"

lemma apply_migration_success:
  "apply_migration ok v sql h ms db = Inr (r, db') \<Longrightarrow> \<exists>m. db' = db\<lparr>db_migrations := m\<rparr>"
  by (auto simp: apply_migration_def bindE_eq_Inr split: option.splits if_splits)
     (metis lease_db.surjective lease_db.update_convs(7))+

lemma apply_migration_inv:
  "lease_inv db \<Longrightarrow> apply_migration ok v sql h ms db = Inr (r, db') \<Longrightarrow> lease_inv db'"
  by (drule apply_migration_success) (auto simp: lease_inv_def)

lemma lease_exec_inv: "lease_inv db \<Longrightarrow> lease_exec ok c db = Inr (r, db') \<Longrightarrow> lease_inv db'"
  by (cases c)
     (auto simp: lease_exec_def reply_eq_Inr acquire_many_def rotate_epoch_def
       dest: acquire_inv heartbeat_inv release_inv reap_inv consume_inv observe_inv
         apply_migration_inv,
      simp add: lease_inv_def)

section \<open>The order committed commands follow\<close>

definition same_lease :: "lease_row \<Rightarrow> lease_row \<Rightarrow> bool" where
  "same_lease l k \<longleftrightarrow>
     lr_lease_id k = lr_lease_id l \<and> lr_epoch k = lr_epoch l \<and> lr_owner k = lr_owner l
     \<and> lr_role k = lr_role l \<and> lr_request_sha256 k = lr_request_sha256 l
     \<and> lr_subject_sha256 k = lr_subject_sha256 l \<and> (\<not> lr_active l \<longrightarrow> \<not> lr_active k)"

definition grant_terminal :: "grant_row \<Rightarrow> bool" where
  "grant_terminal g \<longleftrightarrow> gr_state g \<in> {''observed_success'', ''observed_failure''}"

definition grant_kept :: "grant_row \<Rightarrow> grant_row \<Rightarrow> bool" where
  "grant_kept g h \<longleftrightarrow>
     gr_grant_id h = gr_grant_id g \<and> gr_lease_id h = gr_lease_id g \<and> grant_key h = grant_key g
     \<and> gr_request_sha256 h = gr_request_sha256 g \<and> (grant_terminal g \<longrightarrow> h = g)"

definition lease_le :: "lease_db \<Rightarrow> lease_db \<Rightarrow> bool" where
  "lease_le s t \<longleftrightarrow>
     db_last_now s \<le> db_last_now t
     \<and> (\<forall>r. gen_of s r \<le> gen_of t r)
     \<and> kept_in same_lease (db_leases s) (db_leases t)
     \<and> prefix (db_lease_resources s) (db_lease_resources t)
     \<and> kept_in grant_kept (db_grants s) (db_grants t)"

lemma same_lease_refl [simp]: "same_lease l l"
  by (simp add: same_lease_def)

lemma grant_kept_refl [simp]: "grant_kept g g"
  by (simp add: grant_kept_def)

lemma same_lease_trans: "same_lease l k \<Longrightarrow> same_lease k j \<Longrightarrow> same_lease l j"
  by (auto simp: same_lease_def)

lemma grant_kept_trans: "grant_kept g h \<Longrightarrow> grant_kept h i \<Longrightarrow> grant_kept g i"
  by (auto simp: grant_kept_def)

lemmas lease_kept =
  kept_in_refl [of same_lease, OF same_lease_refl] kept_in_refl [of grant_kept, OF grant_kept_refl]
  kept_in_append [of same_lease, OF same_lease_refl] kept_in_append [of grant_kept, OF grant_kept_refl]

lemma lease_le_refl: "lease_le s s"
  by (simp add: lease_le_def lease_kept)

lemma lease_le_trans: "lease_le s t \<Longrightarrow> lease_le t u \<Longrightarrow> lease_le s u"
  unfolding lease_le_def
  by (meson order_trans prefix_order.trans same_lease_trans grant_kept_trans
      kept_in_trans [of same_lease] kept_in_trans [of grant_kept])

lemma lease_le_clock: "db_last_now s \<le> n \<Longrightarrow> lease_le s (s\<lparr>db_last_now := n\<rparr>)"
  by (simp add: lease_le_def lease_kept)

lemma lease_le_leases:
  "(\<And>l. same_lease l (f l)) \<Longrightarrow>
   lease_le s (s\<lparr>db_leases := update_row lr_lease_id lid f (db_leases s)\<rparr>)"
  by (simp add: lease_le_def lease_kept kept_in_update)

lemma lease_le_grants:
  "(\<And>g. g \<in> set (db_grants s) \<Longrightarrow> grant_kept g (f g)) \<Longrightarrow>
   lease_le s (s\<lparr>db_grants := map f (db_grants s)\<rparr>)"
  by (simp add: lease_le_def lease_kept kept_in_map)

lemma lease_le_ended: "lease_le s (ended_db lid n reason s)"
  unfolding ended_db_def by (rule lease_le_leases) (simp add: same_lease_def end_lease_def)

lemma lease_le_heartbeat: "lease_le s (heartbeat_db lid e s)"
  unfolding heartbeat_db_def by (rule lease_le_leases) (simp add: same_lease_def)

lemma lease_le_reap_one: "lease_le s (reap_one n lid s)"
  unfolding reap_one_eq
  by (rule lease_le_trans [OF lease_le_grants lease_le_ended])
     (auto simp: expire_issued_def grant_kept_def grant_key_def grant_terminal_def)

lemma lease_le_fold_reap: "lease_le s (fold (reap_one n) ids s)"
  by (induction ids arbitrary: s) (auto intro: lease_le_refl lease_le_trans lease_le_reap_one)

lemma lease_le_acquired:
  "distinct names \<Longrightarrow> db_last_now s \<le> n \<Longrightarrow> lease_le s (acquired_db token row names n s)"
  by (simp add: lease_le_def gen_of_acquired lease_kept) (simp add: acquired_db_def Let_def)

lemma lease_exec_le:
  assumes "lease_inv s" and "lease_exec ok c s = Inr (r, t)"
  shows "lease_le s t"
proof (cases c)
  case (Acquire_many w ro rs rq sb ttl now tok)
  with assms(2) show ?thesis
    by (auto simp: lease_exec_def reply_eq_Inr acquire_many_def intro: lease_le_acquired
        elim!: acquire_success)
next
  case (Heartbeat b ttl now)
  with assms(2) show ?thesis
    by (auto simp: lease_exec_def reply_eq_Inr elim!: heartbeat_success
        intro: lease_le_clock lease_le_trans [OF lease_le_clock lease_le_heartbeat])
next
  case (Release b now)
  with assms(2) obtain g where "release b now s = Inr (g, t)"
    by (auto simp: lease_exec_def reply_eq_Inr)
  then show ?thesis
    by (cases rule: release_success)
       (auto intro: lease_le_clock lease_le_trans [OF lease_le_clock lease_le_ended])
next
  case (Reap now)
  with assms(2) show ?thesis
    by (auto simp: lease_exec_def reply_eq_Inr reap_def bindE_eq_Inr Let_def
        intro: lease_le_trans [OF lease_le_clock lease_le_fold_reap])
next
  case (Consume_grant b pr op rid rq now tok)
  with assms(2) obtain cr where "consume_grant b pr op rid rq now tok s = Inr (cr, t)"
    by (auto simp: lease_exec_def reply_eq_Inr)
  then show ?thesis
    by (cases rule: consume_success) (simp_all add: lease_le_clock, simp add: lease_le_def lease_kept)
next
  case (Observe_operation gid out res now)
  with assms(2) obtain o1 where "observe_operation gid out res now s = Inr (o1, t)"
    by (auto simp: lease_exec_def reply_eq_Inr)
  then show ?thesis
  proof (rule observe_success)
    fix n g
    assume n: "db_last_now s \<le> n" and g: "g \<in> set (db_grants s)" "gr_grant_id g = gid"
      and state: "gr_state g = ''started'' \<or> (gr_state g = ''uncertain'' \<and> out \<noteq> ''uncertain'')"
      and t: "t = s\<lparr>db_last_now := n, db_grants := map (observed_grant gid out res n) (db_grants s)\<rparr>"
    have keys: "keys_inv s" using assms(1) by (simp add: lease_inv_def)
    have "grant_kept h (observed_grant gid out res n h)" if "h \<in> set (db_grants s)" for h
    proof (cases "gr_grant_id h = gid")
      case True
      with keys that g have "h = g" by (intro grant_unique) simp_all
      with state have "\<not> grant_terminal h" by (auto simp: grant_terminal_def)
      then show ?thesis by (simp add: observed_grant_def grant_kept_def grant_key_def)
    qed (simp add: observed_grant_def)
    with t n show ?thesis
      using lease_le_trans [OF lease_le_clock lease_le_grants [of "s\<lparr>db_last_now := n\<rparr>"]] by simp
  qed
next
  case (Rotate_epoch tok)
  with assms(2) show ?thesis
    by (auto simp: lease_exec_def reply_eq_Inr rotate_epoch_def lease_le_def lease_kept)
next
  case (Apply_migration v sql h ms)
  with assms(2) show ?thesis
    by (auto simp: lease_exec_def reply_eq_Inr dest!: apply_migration_success) (simp add: lease_le_def lease_kept)
qed

interpretation lease_tx: transactional_order "lease_exec ok" lease_inv lease_le
  by unfold_locales (auto intro: lease_exec_inv lease_exec_le lease_le_refl lease_le_trans)

end
