(* ===== verification/Operational_State.thy ===== *)
theory Operational_State
  imports Lease_Safety
begin

text \<open>
  Durable work, outbox, executor registration and provider-call rows:
  \<open>factory_kernel/operational_state.py\<close> with the constraints of
  \<open>migrations/002_operational_work.sql\<close>. The tables live in the lease store's database and
  transaction, so the state holds the lease database beside them. A method is a function to an
  error (rolled back) or a reply and the committed database; a write that violates a CHECK,
  UNIQUE or FOREIGN KEY constraint is the \<open>IntegrityError\<close> SQLite raises, checked here on the
  tables the transaction would commit. Arguments the code does not check have the type of their
  annotation; fresh random tokens are arguments.
\<close>

section \<open>Rows\<close>

datatype op_error =
    Op_digest string
  | Op_ident string
  | Op_ms string
  | Op_number string
  | Op_priority
  | Op_conflict string
  | Op_unknown string
  | Op_owned string string
  | Op_state string
  | Op_version
  | Op_transition string string
  | Op_expired string
  | Op_reason
  | Op_integrity
  | Op_lease lease_error

record work_row =
  wk_key :: string
  wk_project :: string
  wk_proposal :: string
  wk_programme :: string
  wk_sequence :: int
  wk_priority :: int

record attempt_row =
  at_id :: string
  at_work_key :: string
  at_project :: string
  at_number :: int
  at_request :: string
  at_state :: string
  at_version :: int
  at_lease :: "string option"
  at_receipt :: "string option"
  at_envelope :: "string option"
  at_result :: "string option"
  at_created :: int
  at_updated :: int

record outbox_row =
  ob_id :: string
  ob_attempt :: "string option"
  ob_project :: string
  ob_kind :: string
  ob_payload :: string
  ob_state :: string
  ob_version :: int
  ob_receipt :: "string option"
  ob_next :: "int option"
  ob_created :: int

record registration_row =
  rg_id :: string
  rg_attempt :: string
  rg_repository :: string
  rg_run :: string
  rg_run_attempt :: int
  rg_token :: string
  rg_envelope :: string
  rg_credential :: string
  rg_expires :: int
  rg_heartbeat :: int
  rg_revoked :: bool

record wakeup_row =
  wu_project :: string
  wu_event :: string
  wu_payload :: string
  wu_processed :: "int option"

record call_row =
  pc_id :: string
  pc_attempt :: string
  pc_invocation :: string
  pc_request :: string
  pc_allowance :: string
  pc_grant :: "string option"
  pc_state :: string
  pc_reserved :: int
  pc_billed :: "int option"
  pc_estimated :: "int option"
  pc_result :: "string option"
  pc_reason :: "string option"

record op_db =
  od_lease :: lease_db
  od_work :: "work_row list"
  od_attempts :: "attempt_row list"
  od_outbox :: "outbox_row list"
  od_registrations :: "registration_row list"
  od_wakeups :: "wakeup_row list"
  od_calls :: "call_row list"

definition empty_op_db :: "string \<Rightarrow> op_db" where
  "empty_op_db epoch = \<lparr>od_lease = empty_db epoch, od_work = [], od_attempts = [], od_outbox = [],
     od_registrations = [], od_wakeups = [], od_calls = []\<rparr>"

section \<open>States\<close>

definition TERMINAL :: "string list" where
  "TERMINAL = [''succeeded'', ''failed'', ''cancelled'']"

definition NONTERMINAL_OWNERSHIP :: "string list" where
  "NONTERMINAL_OWNERSHIP = [''budget_pending'', ''reserved'', ''dispatching'', ''dispatched'', ''running'', ''uncertain'']"

definition PRE_START :: "string list" where
  "PRE_START = [''ready'', ''budget_pending'', ''reserved'', ''dispatching'']"

definition TRANSITIONS :: "(string \<times> string list) list" where
  "TRANSITIONS =
    [(''ready'', [''budget_pending'', ''stale'', ''cancelled'']),
     (''budget_pending'', [''reserved'', ''stale'', ''failed'', ''cancelled'', ''uncertain'']),
     (''reserved'', [''dispatching'', ''stale'', ''failed'', ''cancelled'']),
     (''dispatching'', [''dispatched'', ''uncertain'', ''failed'', ''cancelled'', ''stale'']),
     (''dispatched'', [''running'', ''uncertain'', ''failed'', ''cancelled'']),
     (''running'', [''succeeded'', ''failed'', ''cancelled'', ''uncertain'']),
     (''uncertain'', [''succeeded'', ''failed'', ''cancelled'']),
     (''stale'', []), (''succeeded'', []), (''failed'', []), (''cancelled'', [])]"

definition transition_allowed :: "string \<Rightarrow> string \<Rightarrow> bool" where
  "transition_allowed a b \<longleftrightarrow> (case map_of TRANSITIONS a of None \<Rightarrow> False | Some bs \<Rightarrow> b \<in> set bs)"

definition OUTBOX_KINDS :: "string list" where
  "OUTBOX_KINDS = [''budget_reserve'', ''project_event'', ''dispatch'', ''cancel'', ''wake'']"

section \<open>The schema's constraints\<close>

definition work_ok :: "work_row list \<Rightarrow> bool" where
  "work_ok ws \<longleftrightarrow> distinct (map wk_key ws) \<and>
     list_all (\<lambda>w. length (wk_key w) = 64 \<and> length (wk_proposal w) = 64 \<and> length (wk_programme w) = 64
       \<and> 0 \<le> wk_sequence w \<and> 0 \<le> wk_priority w \<and> wk_priority w \<le> 4) ws"

definition attempt_row_ok :: "op_db \<Rightarrow> attempt_row \<Rightarrow> bool" where
  "attempt_row_ok db a \<longleftrightarrow>
     list_ex (\<lambda>w. wk_key w = at_work_key a \<and> wk_project w = at_project a) (od_work db)
     \<and> 1 \<le> at_number a \<and> length (at_request a) = 64 \<and> at_state a \<in> set (map fst TRANSITIONS)
     \<and> 0 \<le> at_version a
     \<and> (case at_lease a of None \<Rightarrow> True | Some i \<Rightarrow> list_ex (\<lambda>l. lr_lease_id l = i) (db_leases (od_lease db)))
     \<and> 0 \<le> at_created a \<and> at_created a \<le> at_updated a
     \<and> (at_state a \<in> {''reserved'', ''dispatching'', ''dispatched'', ''running''} \<longrightarrow>
          at_lease a \<noteq> None \<and> at_receipt a \<noteq> None \<and> at_envelope a \<noteq> None)"

definition owning :: "attempt_row \<Rightarrow> bool" where
  "owning a \<longleftrightarrow> at_state a \<in> set NONTERMINAL_OWNERSHIP"

definition attempts_ok :: "op_db \<Rightarrow> bool" where
  "attempts_ok db \<longleftrightarrow>
     list_all (attempt_row_ok db) (od_attempts db)
     \<and> distinct (map at_id (od_attempts db))
     \<and> distinct (map (\<lambda>a. (at_work_key a, at_number a)) (od_attempts db))
     \<and> distinct (map at_project (filter owning (od_attempts db)))"

definition has_attempt :: "op_db \<Rightarrow> string \<Rightarrow> bool" where
  "has_attempt db i \<longleftrightarrow> list_ex (\<lambda>a. at_id a = i) (od_attempts db)"

definition outbox_ok :: "op_db \<Rightarrow> bool" where
  "outbox_ok db \<longleftrightarrow> distinct (map ob_id (od_outbox db)) \<and>
     list_all (\<lambda>o1. (case ob_attempt o1 of None \<Rightarrow> True | Some i \<Rightarrow> has_attempt db i)
       \<and> ob_kind o1 \<in> set OUTBOX_KINDS \<and> length (ob_payload o1) = 64
       \<and> ob_state o1 \<in> {''pending'', ''sending'', ''delivered'', ''uncertain'', ''refused''}
       \<and> 0 \<le> ob_version o1 \<and> 0 \<le> ob_created o1
       \<and> (ob_state o1 = ''delivered'' \<longrightarrow> ob_receipt o1 \<noteq> None)) (od_outbox db)"

definition registrations_ok :: "op_db \<Rightarrow> bool" where
  "registrations_ok db \<longleftrightarrow>
     distinct (map rg_id (od_registrations db)) \<and> distinct (map rg_attempt (od_registrations db))
     \<and> distinct (map rg_token (od_registrations db)) \<and> distinct (map rg_credential (od_registrations db))
     \<and> distinct (map (\<lambda>r. (rg_repository r, rg_run r, rg_run_attempt r)) (od_registrations db))
     \<and> list_all (\<lambda>r. has_attempt db (rg_attempt r) \<and> 1 \<le> rg_run_attempt r \<and> length (rg_token r) = 64
         \<and> length (rg_envelope r) = 64 \<and> length (rg_credential r) = 64) (od_registrations db)"

definition wakeups_ok :: "wakeup_row list \<Rightarrow> bool" where
  "wakeups_ok ws \<longleftrightarrow> distinct (map (\<lambda>w. (wu_project w, wu_event w)) ws)
     \<and> list_all (\<lambda>w. length (wu_payload w) = 64) ws"

definition calls_ok :: "op_db \<Rightarrow> bool" where
  "calls_ok db \<longleftrightarrow> distinct (map pc_id (od_calls db)) \<and>
     list_all (\<lambda>c. has_attempt db (pc_attempt c) \<and> length (pc_request c) = 64
       \<and> (case pc_grant c of None \<Rightarrow> True
          | Some g \<Rightarrow> list_ex (\<lambda>r. gr_grant_id r = g) (db_grants (od_lease db)))
       \<and> pc_state c \<in> {''reserved'', ''started'', ''observed'', ''not_started'', ''uncertain''}
       \<and> 0 \<le> pc_reserved c
       \<and> (case pc_billed c of None \<Rightarrow> True | Some n \<Rightarrow> 0 \<le> n)
       \<and> (case pc_estimated c of None \<Rightarrow> True | Some n \<Rightarrow> 0 \<le> n)
       \<and> (pc_state c = ''started'' \<longrightarrow> pc_grant c \<noteq> None)
       \<and> (pc_state c = ''uncertain'' \<longrightarrow> pc_reason c \<noteq> None)) (od_calls db)"

definition schema_ok :: "op_db \<Rightarrow> bool" where
  "schema_ok db \<longleftrightarrow> work_ok (od_work db) \<and> attempts_ok db \<and> outbox_ok db \<and> registrations_ok db
     \<and> wakeups_ok (od_wakeups db) \<and> calls_ok db"

definition commit :: "op_db \<Rightarrow> op_error + op_db" where
  "commit db = (if schema_ok db then Inr db else Inl Op_integrity)"

lemma commit_eq [simp]: "commit db = Inr db' \<longleftrightarrow> db' = db \<and> schema_ok db"
  by (auto simp: commit_def)

section \<open>Boundary checks\<close>

definition op_digest :: "string \<Rightarrow> pyval \<Rightarrow> op_error + string" where
  "op_digest name v =
     (case v of PStr s \<Rightarrow> if hex_text 64 s then Inr s else Inl (Op_digest name) | _ \<Rightarrow> Inl (Op_digest name))"

definition op_ident :: "string \<Rightarrow> pyval \<Rightarrow> op_error + string" where
  "op_ident name v =
     (case v of PStr s \<Rightarrow> if lease_ident s then Inr s else Inl (Op_ident name) | _ \<Rightarrow> Inl (Op_ident name))"

definition op_ms :: "string \<Rightarrow> pyval \<Rightarrow> op_error + int" where
  "op_ms name v = (case v of PInt n \<Rightarrow> if n < 0 then Inl (Op_ms name) else Inr n | _ \<Rightarrow> Inl (Op_ms name))"

definition op_number :: "string \<Rightarrow> int \<Rightarrow> pyval \<Rightarrow> op_error + int" where
  "op_number name m v =
     (case v of PInt n \<Rightarrow> if n < m then Inl (Op_number name) else Inr n | _ \<Rightarrow> Inl (Op_number name))"

definition op_opt :: "(pyval \<Rightarrow> op_error + 'a) \<Rightarrow> pyval \<Rightarrow> op_error + 'a option" where
  "op_opt f v = (if v = PNone then Inr None else bindE (f v) (\<lambda>x. Inr (Some x)))"

lemma op_digest_eq [simp]: "op_digest name v = Inr s \<longleftrightarrow> v = PStr s \<and> hex_text 64 s"
  by (cases v) (auto simp: op_digest_def)

lemma op_ident_eq [simp]: "op_ident name v = Inr s \<longleftrightarrow> v = PStr s \<and> lease_ident s"
  by (cases v) (auto simp: op_ident_def)

lemma op_ms_eq [simp]: "op_ms name v = Inr n \<longleftrightarrow> v = PInt n \<and> 0 \<le> n"
  by (cases v) (auto simp: op_ms_def)

lemma op_number_eq [simp]: "op_number name m v = Inr n \<longleftrightarrow> v = PInt n \<and> m \<le> n"
  by (cases v) (auto simp: op_number_def)

definition seconds_of :: "pyval \<Rightarrow> op_error + int" where
  "seconds_of now_ms = bindE (op_ms ''now_ms'' now_ms) (\<lambda>n. Inr (n div 1000))"

definition canonical_request_sha256 :: "(string \<Rightarrow> string) \<Rightarrow> pydict \<Rightarrow> string" where
  "canonical_request_sha256 sha payload = sha (json_text json_char_ascii (sort_keys (PDict payload)))"

section \<open>Work and attempts\<close>

definition put_work :: "pyval \<Rightarrow> pyval \<Rightarrow> pyval \<Rightarrow> pyval \<Rightarrow> pyval \<Rightarrow> pyval \<Rightarrow> op_db \<Rightarrow> op_error + string \<times> op_db" where
  "put_work work_key project proposal programme created_sequence priority db =
     bindE (op_digest ''work_key'' work_key) (\<lambda>k.
     bindE (op_ident ''project'' project) (\<lambda>p.
     bindE (op_digest ''proposal_sha256'' proposal) (\<lambda>ps.
     bindE (op_digest ''programme_sha256'' programme) (\<lambda>gs.
     bindE (op_number ''created_sequence'' 0 created_sequence) (\<lambda>n.
     bindE (case priority of PInt i \<Rightarrow> if 0 \<le> i \<and> i \<le> 4 then Inr i else Inl Op_priority
            | _ \<Rightarrow> Inl Op_priority) (\<lambda>pr.
     case find_row wk_key k (od_work db) of
       Some w \<Rightarrow>
         if (wk_project w, wk_proposal w, wk_programme w) \<noteq> (p, ps, gs)
         then Inl (Op_conflict ''work'') else Inr (k, db)
     | None \<Rightarrow>
         bindE (commit (db\<lparr>od_work := od_work db @ [\<lparr>wk_key = k, wk_project = p, wk_proposal = ps,
                   wk_programme = gs, wk_sequence = n, wk_priority = pr\<rparr>]\<rparr>)) (\<lambda>db'.
         Inr (k, db'))))))))"

definition get_attempt :: "string \<Rightarrow> op_db \<Rightarrow> op_error + attempt_row" where
  "get_attempt i db = (case find_row at_id i (od_attempts db) of None \<Rightarrow> Inl (Op_unknown i) | Some a \<Rightarrow> Inr a)"

text \<open>\<open>_locked_attempt\<close> and \<open>_locked_outbox\<close>: the row, at the version the caller expected.\<close>

definition expect_version :: "pyval \<Rightarrow> int \<Rightarrow> op_error + unit" where
  "expect_version expected v =
     (case expected of PInt n \<Rightarrow> ensure (v = n) Op_version | _ \<Rightarrow> Inl (Op_number ''expected_version''))"

lemma expect_version_eq [simp]: "expect_version e v = Inr u \<longleftrightarrow> e = PInt v"
  by (cases e) (auto simp: expect_version_def)

definition locked_attempt :: "string \<Rightarrow> pyval \<Rightarrow> op_db \<Rightarrow> op_error + attempt_row" where
  "locked_attempt i expected db =
     bindE (get_attempt i db) (\<lambda>a. bindE (expect_version expected (at_version a)) (\<lambda>_. Inr a))"

definition insert_outbox :: "string option \<Rightarrow> string \<Rightarrow> string \<Rightarrow> pyval \<Rightarrow> pyval \<Rightarrow> string \<Rightarrow> op_db \<Rightarrow> op_error + op_db" where
  "insert_outbox attempt_id project kind payload now_ms token db =
     bindE (ensure (kind \<in> set OUTBOX_KINDS) (Op_state kind)) (\<lambda>_.
     bindE (op_ident ''project'' (PStr project)) (\<lambda>p.
     bindE (op_digest ''payload_sha256'' payload) (\<lambda>h.
     bindE (op_ms ''now_ms'' now_ms) (\<lambda>n.
     Inr (db\<lparr>od_outbox := od_outbox db @ [\<lparr>ob_id = token, ob_attempt = attempt_id, ob_project = p,
            ob_kind = kind, ob_payload = h, ob_state = ''pending'', ob_version = 0, ob_receipt = None,
            ob_next = None, ob_created = n\<rparr>]\<rparr>)))))"

definition next_number :: "string \<Rightarrow> op_db \<Rightarrow> int" where
  "next_number k db = fold max (map at_number (filter (\<lambda>a. at_work_key a = k) (od_attempts db))) 0 + 1"

definition open_attempt ::
  "(string \<Rightarrow> string) \<Rightarrow> pyval \<Rightarrow> pyval \<Rightarrow> pydict \<Rightarrow> pyval \<Rightarrow> pyval \<Rightarrow> string \<Rightarrow> string \<Rightarrow> op_db
   \<Rightarrow> op_error + attempt_row \<times> op_db" where
  "open_attempt sha work_key project request now_ms attempt_id token outbox_token db =
     bindE (op_digest ''work_key'' work_key) (\<lambda>k.
     bindE (op_ident ''project'' project) (\<lambda>p.
     let rq = canonical_request_sha256 sha request in
     bindE (op_ms ''now_ms'' now_ms) (\<lambda>n.
     bindE (if py_truthy attempt_id then op_ident ''attempt_id'' attempt_id else Inr token) (\<lambda>i.
     bindE (ensure (list_ex (\<lambda>w. wk_key w = k \<and> wk_project w = p) (od_work db)) (Op_unknown k)) (\<lambda>_.
     bindE (case List.find (\<lambda>a. at_project a = p \<and> owning a) (od_attempts db) of
              None \<Rightarrow> Inr () | Some a \<Rightarrow> Inl (Op_owned (at_id a) (at_state a))) (\<lambda>_.
     let a = \<lparr>at_id = i, at_work_key = k, at_project = p, at_number = next_number k db, at_request = rq,
              at_state = ''budget_pending'', at_version = 0, at_lease = None, at_receipt = None,
              at_envelope = None, at_result = None, at_created = n, at_updated = n\<rparr> in
     bindE (insert_outbox (Some i) p ''budget_reserve'' (PStr rq) (PInt n) outbox_token
              (db\<lparr>od_attempts := od_attempts db @ [a]\<rparr>)) (\<lambda>db1.
     bindE (commit db1) (\<lambda>db2.
     bindE (get_attempt i db2) (\<lambda>a'. Inr (a', db2))))))))))"

definition attempts_for :: "pyval \<Rightarrow> op_db \<Rightarrow> op_error + attempt_row list" where
  "attempts_for work_key db =
     bindE (op_digest ''work_key'' work_key) (\<lambda>k.
     Inr (sort_key at_number (filter (\<lambda>a. at_work_key a = k) (od_attempts db))))"

definition update_attempt :: "string \<Rightarrow> (attempt_row \<Rightarrow> attempt_row) \<Rightarrow> op_db \<Rightarrow> op_db" where
  "update_attempt i f db = db\<lparr>od_attempts := update_row at_id i f (od_attempts db)\<rparr>"

definition record_budget_receipt :: "string \<Rightarrow> pyval \<Rightarrow> pyval \<Rightarrow> pyval \<Rightarrow> op_db \<Rightarrow> op_error + attempt_row \<times> op_db" where
  "record_budget_receipt i receipt expected now_ms db =
     bindE (op_digest ''receipt_sha256'' receipt) (\<lambda>r.
     bindE (locked_attempt i expected db) (\<lambda>a.
     bindE (ensure (at_state a = ''budget_pending'') (Op_state (at_state a))) (\<lambda>_.
     bindE (ensure (at_receipt a = None \<or> at_receipt a = Some r) (Op_conflict ''receipt'')) (\<lambda>_.
     bindE (op_ms ''now_ms'' now_ms) (\<lambda>n.
     bindE (commit (update_attempt i (\<lambda>a. a\<lparr>at_receipt := Some r, at_version := at_version a + 1,
              at_updated := n\<rparr>) db)) (\<lambda>db'.
     bindE (get_attempt i db') (\<lambda>a'. Inr (a', db'))))))))"

definition lease_step :: "lease_error + 'a \<times> lease_db \<Rightarrow> op_db \<Rightarrow> op_error + 'a \<times> op_db" where
  "lease_step m db = (case m of Inl e \<Rightarrow> Inl (Op_lease e) | Inr (x, l) \<Rightarrow> Inr (x, db\<lparr>od_lease := l\<rparr>))"

lemma lease_step_eq [simp]:
  "lease_step m db = Inr (x, db') \<longleftrightarrow> (\<exists>l. m = Inr (x, l) \<and> db' = db\<lparr>od_lease := l\<rparr>)"
  by (auto simp: lease_step_def split: sum.split)

definition reserve ::
  "string \<Rightarrow> pyval \<Rightarrow> pyval \<Rightarrow> pyval \<Rightarrow> pyval list \<Rightarrow> pyval \<Rightarrow> pyval \<Rightarrow> pyval \<Rightarrow> pyval \<Rightarrow> string \<Rightarrow> string \<Rightarrow> op_db
   \<Rightarrow> op_error + (attempt_row \<times> lease_bundle) \<times> op_db" where
  "reserve i expected owner role resources subject envelope ttl_seconds now_ms lease_token outbox_token db =
     bindE (op_digest ''envelope_sha256'' envelope) (\<lambda>e.
     bindE (op_digest ''subject_sha256'' subject) (\<lambda>sb.
     bindE (op_ms ''now_ms'' now_ms) (\<lambda>n.
     bindE (locked_attempt i expected db) (\<lambda>a.
     bindE (ensure (at_state a = ''budget_pending'') (Op_state (at_state a))) (\<lambda>_.
     bindE (ensure (case at_receipt a of None \<Rightarrow> False | Some r \<Rightarrow> r \<noteq> []) (Op_state ''no receipt'')) (\<lambda>_.
     bindE (seconds_of (PInt n)) (\<lambda>secs.
     bindE (lease_step (acquire_locked owner role resources (PStr (at_request a)) (PStr sb) ttl_seconds
              (PInt secs) lease_token (od_lease db)) db) (\<lambda>(bundle, db1).
     bindE (insert_outbox (Some i) (at_project a) ''dispatch'' (PStr e) (PInt n) outbox_token
              (update_attempt i (\<lambda>a. a\<lparr>at_state := ''reserved'', at_lease := Some (lb_lease_id bundle),
                 at_envelope := Some e, at_version := at_version a + 1, at_updated := n\<rparr>) db1)) (\<lambda>db2.
     bindE (commit db2) (\<lambda>db3.
     bindE (get_attempt i db3) (\<lambda>a'. Inr ((a', bundle), db3))))))))))))"

definition transition :: "string \<Rightarrow> string \<Rightarrow> pyval \<Rightarrow> pyval \<Rightarrow> pyval \<Rightarrow> op_db \<Rightarrow> op_error + attempt_row \<times> op_db" where
  "transition i to_state expected now_ms result db =
     bindE (ensure (to_state \<in> set (map fst TRANSITIONS)) (Op_state to_state)) (\<lambda>_.
     bindE (op_ms ''now_ms'' now_ms) (\<lambda>n.
     bindE (op_opt (op_digest ''result_sha256'') result) (\<lambda>r.
     bindE (locked_attempt i expected db) (\<lambda>a.
     bindE (ensure (transition_allowed (at_state a) to_state) (Op_transition (at_state a) to_state)) (\<lambda>_.
     bindE (ensure (to_state \<noteq> ''stale'' \<or> at_state a \<in> set PRE_START) (Op_state ''stale'')) (\<lambda>_.
     bindE (commit (update_attempt i (\<lambda>a. a\<lparr>at_state := to_state,
              at_result := (case r of None \<Rightarrow> at_result a | Some h \<Rightarrow> Some h),
              at_version := at_version a + 1, at_updated := n\<rparr>) db)) (\<lambda>db'.
     bindE (get_attempt i db') (\<lambda>a'. Inr (a', db')))))))))"

section \<open>Outbox\<close>

definition enqueue :: "string \<Rightarrow> string \<Rightarrow> pyval \<Rightarrow> pyval \<Rightarrow> string option \<Rightarrow> string \<Rightarrow> op_db \<Rightarrow> op_error + string \<times> op_db" where
  "enqueue project kind payload now_ms attempt_id token db =
     bindE (insert_outbox attempt_id project kind payload now_ms token db) (\<lambda>db1.
     bindE (commit db1) (\<lambda>db2. Inr (token, db2)))"

definition idempotency_key :: "pyval \<Rightarrow> op_error + string" where
  "idempotency_key outbox_id = bindE (op_ident ''outbox_id'' outbox_id) (\<lambda>i. Inr (''op:'' @ i))"

definition outbox_before :: "outbox_row \<Rightarrow> outbox_row \<Rightarrow> bool" where
  "outbox_before a b \<longleftrightarrow> ob_created a < ob_created b \<or> (ob_created a = ob_created b \<and> ob_id a \<le> ob_id b)"

fun insert_outbox_row :: "outbox_row \<Rightarrow> outbox_row list \<Rightarrow> outbox_row list" where
  "insert_outbox_row r [] = [r]"
| "insert_outbox_row r (x # xs) = (if outbox_before r x then r # x # xs else x # insert_outbox_row r xs)"

definition pending_outbox :: "pyval \<Rightarrow> pyval \<Rightarrow> op_db \<Rightarrow> op_error + outbox_row list" where
  "pending_outbox project limit db =
     bindE (case limit of PInt n \<Rightarrow> if 1 \<le> n \<and> n \<le> 1000 then Inr n else Inl (Op_number ''limit'')
            | _ \<Rightarrow> Inl (Op_number ''limit'')) (\<lambda>n.
     bindE (op_opt (op_ident ''project'') project) (\<lambda>p.
     Inr (take (nat n) (foldr insert_outbox_row
       (filter (\<lambda>r. ob_state r \<in> {''pending'', ''sending'', ''uncertain''}
          \<and> (case p of None \<Rightarrow> True | Some q \<Rightarrow> ob_project r = q)) (od_outbox db)) []))))"

definition get_outbox :: "string \<Rightarrow> op_db \<Rightarrow> op_error + outbox_row" where
  "get_outbox i db = (case find_row ob_id i (od_outbox db) of None \<Rightarrow> Inl (Op_unknown i) | Some r \<Rightarrow> Inr r)"

definition locked_outbox :: "string \<Rightarrow> pyval \<Rightarrow> op_db \<Rightarrow> op_error + outbox_row" where
  "locked_outbox i expected db =
     bindE (get_outbox i db) (\<lambda>r. bindE (expect_version expected (ob_version r)) (\<lambda>_. Inr r))"

definition update_outbox :: "string \<Rightarrow> (outbox_row \<Rightarrow> outbox_row) \<Rightarrow> op_db \<Rightarrow> op_db" where
  "update_outbox i f db = db\<lparr>od_outbox := update_row ob_id i f (od_outbox db)\<rparr>"

definition record_delivery :: "string \<Rightarrow> pyval \<Rightarrow> pyval \<Rightarrow> op_db \<Rightarrow> op_error + outbox_row \<times> op_db" where
  "record_delivery i receipt expected db =
     bindE (op_digest ''receipt_sha256'' receipt) (\<lambda>r.
     bindE (locked_outbox i expected db) (\<lambda>row.
     if ob_state row = ''delivered''
     then bindE (ensure (ob_receipt row = Some r) (Op_conflict ''receipt'')) (\<lambda>_. Inr (row, db))
     else bindE (commit (update_outbox i (\<lambda>o1. o1\<lparr>ob_state := ''delivered'', ob_receipt := Some r,
              ob_version := ob_version o1 + 1\<rparr>) db)) (\<lambda>db'.
          bindE (get_outbox i db') (\<lambda>row'. Inr (row', db')))))"

definition mark_outbox :: "string \<Rightarrow> string \<Rightarrow> pyval \<Rightarrow> pyval \<Rightarrow> op_db \<Rightarrow> op_error + outbox_row \<times> op_db" where
  "mark_outbox i state expected next_ms db =
     bindE (ensure (state \<in> {''sending'', ''uncertain'', ''refused''}) (Op_state state)) (\<lambda>_.
     bindE (locked_outbox i expected db) (\<lambda>row.
     bindE (ensure (ob_state row \<noteq> ''delivered'') (Op_state ''delivered'')) (\<lambda>_.
     bindE (op_opt (op_ms ''next_observation_at_ms'') next_ms) (\<lambda>nx.
     bindE (commit (update_outbox i (\<lambda>o1. o1\<lparr>ob_state := state, ob_version := ob_version o1 + 1,
              ob_next := nx\<rparr>) db)) (\<lambda>db'.
     bindE (get_outbox i db') (\<lambda>row'. Inr (row', db')))))))"

section \<open>Executor registration\<close>

definition get_registration :: "string \<Rightarrow> op_db \<Rightarrow> op_error + registration_row" where
  "get_registration i db =
     (case find_row rg_id i (od_registrations db) of None \<Rightarrow> Inl (Op_unknown i) | Some r \<Rightarrow> Inr r)"

definition register_executor ::
  "pyval \<Rightarrow> string \<Rightarrow> string \<Rightarrow> pyval \<Rightarrow> pyval \<Rightarrow> pyval \<Rightarrow> pyval \<Rightarrow> pyval \<Rightarrow> pyval \<Rightarrow> string \<Rightarrow> op_db
   \<Rightarrow> op_error + registration_row \<times> op_db" where
  "register_executor attempt_id repository_id run_id run_attempt oidc envelope credential expires now_ms token db =
     bindE (op_ident ''attempt_id'' attempt_id) (\<lambda>i.
     bindE (op_digest ''oidc_token_sha256'' oidc) (\<lambda>tok.
     bindE (op_digest ''envelope_sha256'' envelope) (\<lambda>e.
     bindE (op_digest ''credential_sha256'' credential) (\<lambda>cr.
     bindE (op_number ''run_attempt'' 1 run_attempt) (\<lambda>ra.
     bindE (op_ms ''now_ms'' now_ms) (\<lambda>n.
     bindE (op_ms ''expires_at_ms'' expires) (\<lambda>x.
     bindE (ensure (n < x) (Op_expired ''registration'')) (\<lambda>_.
     bindE (get_attempt i db) (\<lambda>a.
     bindE (ensure (at_envelope a = Some e) (Op_conflict ''envelope'')) (\<lambda>_.
     case find_row rg_attempt i (od_registrations db) of
       Some r \<Rightarrow>
         bindE (op_ident ''repository_id'' (PStr repository_id)) (\<lambda>_.
         bindE (op_ident ''run_id'' (PStr run_id)) (\<lambda>_.
         bindE (ensure ((rg_repository r, rg_run r, rg_run_attempt r) = (repository_id, run_id, ra)
                        \<and> rg_token r = tok) (Op_conflict ''run'')) (\<lambda>_.
         bindE (get_registration (rg_id r) db) (\<lambda>r'. Inr (r', db)))))
     | None \<Rightarrow>
         bindE (ensure (find_row rg_token tok (od_registrations db) = None) (Op_conflict ''oidc'')) (\<lambda>_.
         bindE (commit (db\<lparr>od_registrations := od_registrations db @ [\<lparr>rg_id = token, rg_attempt = i,
                  rg_repository = repository_id, rg_run = run_id, rg_run_attempt = ra, rg_token = tok,
                  rg_envelope = e, rg_credential = cr, rg_expires = x, rg_heartbeat = n,
                  rg_revoked = False\<rparr>]\<rparr>)) (\<lambda>db'.
         bindE (get_registration token db') (\<lambda>r. Inr (r, db'))))))))))))))"

definition update_registration :: "string \<Rightarrow> (registration_row \<Rightarrow> registration_row) \<Rightarrow> op_db \<Rightarrow> op_db" where
  "update_registration i f db = db\<lparr>od_registrations := update_row rg_id i f (od_registrations db)\<rparr>"

definition heartbeat_executor :: "string \<Rightarrow> pyval \<Rightarrow> pyval \<Rightarrow> op_db \<Rightarrow> op_error + registration_row \<times> op_db" where
  "heartbeat_executor i now_ms ttl_ms db =
     bindE (op_ms ''now_ms'' now_ms) (\<lambda>n.
     bindE (op_ms ''ttl_ms'' ttl_ms) (\<lambda>ttl.
     bindE (ensure (1 \<le> ttl) (Op_ms ''ttl_ms'')) (\<lambda>_.
     bindE (get_registration i db) (\<lambda>r.
     bindE (ensure (\<not> rg_revoked r) (Op_state ''revoked'')) (\<lambda>_.
     bindE (ensure (n < rg_expires r) (Op_expired ''credential'')) (\<lambda>_.
     bindE (commit (update_registration i (\<lambda>r. r\<lparr>rg_expires := n + ttl, rg_heartbeat := n\<rparr>) db)) (\<lambda>db'.
     bindE (get_registration i db') (\<lambda>r'. Inr (r', db')))))))))"

definition revoke_executor :: "string \<Rightarrow> op_db \<Rightarrow> op_error + registration_row \<times> op_db" where
  "revoke_executor i db =
     bindE (get_registration i db) (\<lambda>_.
     bindE (commit (update_registration i (\<lambda>r. r\<lparr>rg_revoked := True\<rparr>) db)) (\<lambda>db'.
     bindE (get_registration i db') (\<lambda>r'. Inr (r', db'))))"

section \<open>Wakeups\<close>

definition wakeup_key :: "wakeup_row \<Rightarrow> string \<times> string" where
  "wakeup_key w = (wu_project w, wu_event w)"

definition record_wakeup :: "pyval \<Rightarrow> pyval \<Rightarrow> pyval \<Rightarrow> op_db \<Rightarrow> op_error + bool \<times> op_db" where
  "record_wakeup project source_event_id payload db =
     bindE (op_ident ''project'' project) (\<lambda>p.
     bindE (op_ident ''source_event_id'' source_event_id) (\<lambda>e.
     bindE (op_digest ''payload_sha256'' payload) (\<lambda>h.
     case find_row wakeup_key (p, e) (od_wakeups db) of
       Some w \<Rightarrow> bindE (ensure (wu_payload w = h) (Op_conflict ''wakeup'')) (\<lambda>_. Inr (False, db))
     | None \<Rightarrow>
         bindE (commit (db\<lparr>od_wakeups := od_wakeups db @ [\<lparr>wu_project = p, wu_event = e, wu_payload = h,
                  wu_processed = None\<rparr>]\<rparr>)) (\<lambda>db'. Inr (True, db')))))"

definition mark_wakeup_processed :: "pyval \<Rightarrow> pyval \<Rightarrow> pyval \<Rightarrow> op_db \<Rightarrow> op_error + unit \<times> op_db" where
  "mark_wakeup_processed project source_event_id now_ms db =
     bindE (op_ms ''now_ms'' now_ms) (\<lambda>n.
     bindE (op_ident ''project'' project) (\<lambda>p.
     bindE (op_ident ''source_event_id'' source_event_id) (\<lambda>e.
     bindE (commit (db\<lparr>od_wakeups := update_row wakeup_key (p, e) (\<lambda>w. w\<lparr>wu_processed := Some n\<rparr>)
              (od_wakeups db)\<rparr>)) (\<lambda>db'. Inr ((), db')))))"

definition unprocessed_wakeups :: "pyval \<Rightarrow> op_db \<Rightarrow> op_error + string list" where
  "unprocessed_wakeups project db =
     bindE (op_ident ''project'' project) (\<lambda>p.
     Inr (sort (map wu_event (filter (\<lambda>w. wu_project w = p \<and> wu_processed w = None) (od_wakeups db)))))"

section \<open>Provider calls\<close>

definition get_call :: "string \<Rightarrow> op_db \<Rightarrow> op_error + call_row" where
  "get_call i db = (case find_row pc_id i (od_calls db) of None \<Rightarrow> Inl (Op_unknown i) | Some c \<Rightarrow> Inr c)"

definition update_call :: "string \<Rightarrow> (call_row \<Rightarrow> call_row) \<Rightarrow> op_db \<Rightarrow> op_db" where
  "update_call i f db = db\<lparr>od_calls := update_row pc_id i f (od_calls db)\<rparr>"

definition reserve_call ::
  "pyval \<Rightarrow> string \<Rightarrow> pyval \<Rightarrow> pyval \<Rightarrow> pyval \<Rightarrow> pyval \<Rightarrow> op_db \<Rightarrow> op_error + call_row \<times> op_db" where
  "reserve_call call_id attempt_id invocation request allowance reserved db =
     bindE (op_number ''reserved_microusd'' 0 reserved) (\<lambda>n.
     bindE (op_ident ''call_id'' call_id) (\<lambda>i.
     bindE (get_attempt attempt_id db) (\<lambda>_.
     case find_row pc_id i (od_calls db) of
       Some c \<Rightarrow>
         bindE (op_digest ''request_sha256'' request) (\<lambda>h.
         bindE (ensure (pc_request c = h) (Op_conflict ''call'')) (\<lambda>_.
         bindE (get_call i db) (\<lambda>c'. Inr (c', db))))
     | None \<Rightarrow>
         bindE (op_ident ''attempt_id'' (PStr attempt_id)) (\<lambda>a.
         bindE (op_ident ''invocation_id'' invocation) (\<lambda>v.
         bindE (op_digest ''request_sha256'' request) (\<lambda>h.
         bindE (op_digest ''allowance_receipt_sha256'' allowance) (\<lambda>al.
         bindE (commit (db\<lparr>od_calls := od_calls db @ [\<lparr>pc_id = i, pc_attempt = a, pc_invocation = v,
                  pc_request = h, pc_allowance = al, pc_grant = None, pc_state = ''reserved'',
                  pc_reserved = n, pc_billed = None, pc_estimated = None, pc_result = None,
                  pc_reason = None\<rparr>]\<rparr>)) (\<lambda>db'.
         bindE (get_call i db') (\<lambda>c. Inr (c, db'))))))))))"

definition record_started :: "string \<Rightarrow> pyval \<Rightarrow> op_db \<Rightarrow> op_error + call_row \<times> op_db" where
  "record_started i grant_id db =
     bindE (get_call i db) (\<lambda>c.
     bindE (ensure (pc_state c = ''reserved'') (Op_state (pc_state c))) (\<lambda>_.
     bindE (op_ident ''grant_id'' grant_id) (\<lambda>g.
     bindE (commit (update_call i (\<lambda>c. c\<lparr>pc_state := ''started'', pc_grant := Some g\<rparr>) db)) (\<lambda>db'.
     bindE (get_call i db') (\<lambda>c'. Inr (c', db'))))))"

definition observe_call :: "string \<Rightarrow> pyval \<Rightarrow> pyval \<Rightarrow> pyval \<Rightarrow> op_db \<Rightarrow> op_error + call_row \<times> op_db" where
  "observe_call i result billed estimated db =
     bindE (op_opt (op_number ''billed_microusd'' 0) billed) (\<lambda>b.
     bindE (op_opt (op_number ''estimated_microusd'' 0) estimated) (\<lambda>es.
     bindE (get_call i db) (\<lambda>c.
     bindE (ensure (pc_state c \<in> {''started'', ''uncertain''}) (Op_state (pc_state c))) (\<lambda>_.
     bindE (op_digest ''result_sha256'' result) (\<lambda>h.
     bindE (commit (update_call i (\<lambda>c. c\<lparr>pc_state := ''observed'', pc_billed := b, pc_estimated := es,
              pc_result := Some h, pc_reason := None\<rparr>) db)) (\<lambda>db'.
     bindE (get_call i db') (\<lambda>c'. Inr (c', db'))))))))"

definition mark_call_uncertain :: "string \<Rightarrow> pyval \<Rightarrow> op_db \<Rightarrow> op_error + call_row \<times> op_db" where
  "mark_call_uncertain i reason db =
     bindE (case reason of PStr s \<Rightarrow> if blank s then Inl Op_reason else Inr s | _ \<Rightarrow> Inl Op_reason) (\<lambda>r.
     bindE (get_call i db) (\<lambda>c.
     bindE (ensure (pc_state c \<noteq> ''observed'') (Op_state ''observed'')) (\<lambda>_.
     bindE (commit (update_call i (\<lambda>c. c\<lparr>pc_state := ''uncertain'', pc_reason := Some (take 400 r)\<rparr>) db)) (\<lambda>db'.
     bindE (get_call i db') (\<lambda>c'. Inr (c', db'))))))"

definition mark_call_not_started :: "string \<Rightarrow> op_db \<Rightarrow> op_error + call_row \<times> op_db" where
  "mark_call_not_started i db =
     bindE (get_call i db) (\<lambda>c.
     bindE (ensure (pc_state c = ''reserved'') (Op_state (pc_state c))) (\<lambda>_.
     bindE (commit (update_call i (\<lambda>c. c\<lparr>pc_state := ''not_started''\<rparr>) db)) (\<lambda>db'.
     bindE (get_call i db') (\<lambda>c'. Inr (c', db')))))"

definition unresolved_calls :: "pyval \<Rightarrow> op_db \<Rightarrow> op_error + call_row list" where
  "unresolved_calls attempt_id db =
     bindE (op_opt (op_ident ''attempt_id'') attempt_id) (\<lambda>a.
     Inr (sort_key pc_id (filter (\<lambda>c. pc_state c \<in> {''reserved'', ''started'', ''uncertain''}
       \<and> (case a of None \<Rightarrow> True | Some i \<Rightarrow> pc_attempt c = i)) (od_calls db))))"

section \<open>The machine\<close>

datatype op_cmd =
    Lease_command lease_cmd
  | Put_work pyval pyval pyval pyval pyval pyval
  | Open_attempt pyval pyval pydict pyval pyval string string
  | Record_receipt string pyval pyval pyval
  | Reserve string pyval pyval pyval "pyval list" pyval pyval pyval pyval string string
  | Transition string string pyval pyval pyval
  | Enqueue string string pyval pyval "string option" string
  | Record_delivery string pyval pyval
  | Mark_outbox string string pyval pyval
  | Register_executor pyval string string pyval pyval pyval pyval pyval pyval string
  | Heartbeat_executor string pyval pyval
  | Revoke_executor string
  | Record_wakeup pyval pyval pyval
  | Mark_wakeup_processed pyval pyval pyval
  | Reserve_call pyval string pyval pyval pyval pyval
  | Record_started string pyval
  | Observe_call string pyval pyval pyval
  | Mark_call_uncertain string pyval
  | Mark_call_not_started string

datatype op_reply =
    Lease_reply lease_reply
  | Key string
  | Attempt attempt_row
  | Reserved "attempt_row \<times> lease_bundle"
  | Outbox outbox_row
  | Registration registration_row
  | Fresh bool
  | Done unit
  | Call call_row

fun op_exec :: "(string \<Rightarrow> string) \<Rightarrow> (string \<Rightarrow> bool) \<Rightarrow> op_cmd \<Rightarrow> op_db \<Rightarrow> op_error + op_reply \<times> op_db" where
  "op_exec sha ok (Lease_command c) db = reply Lease_reply (lease_step (lease_exec ok c (od_lease db)) db)"
| "op_exec sha ok (Put_work k p ps gs n pr) db = reply Key (put_work k p ps gs n pr db)"
| "op_exec sha ok (Open_attempt k p rq n i tok ot) db = reply Attempt (open_attempt sha k p rq n i tok ot db)"
| "op_exec sha ok (Record_receipt i r v n) db = reply Attempt (record_budget_receipt i r v n db)"
| "op_exec sha ok (Reserve i v w ro rs sb e ttl n lt ot) db = reply Reserved (reserve i v w ro rs sb e ttl n lt ot db)"
| "op_exec sha ok (Transition i s v n r) db = reply Attempt (transition i s v n r db)"
| "op_exec sha ok (Enqueue p k h n a tok) db = reply Key (enqueue p k h n a tok db)"
| "op_exec sha ok (Record_delivery i r v) db = reply Outbox (record_delivery i r v db)"
| "op_exec sha ok (Mark_outbox i s v n) db = reply Outbox (mark_outbox i s v n db)"
| "op_exec sha ok (Register_executor a rp rn ra od ev cr x n tok) db =
     reply Registration (register_executor a rp rn ra od ev cr x n tok db)"
| "op_exec sha ok (Heartbeat_executor i n ttl) db = reply Registration (heartbeat_executor i n ttl db)"
| "op_exec sha ok (Revoke_executor i) db = reply Registration (revoke_executor i db)"
| "op_exec sha ok (Record_wakeup p e h) db = reply Fresh (record_wakeup p e h db)"
| "op_exec sha ok (Mark_wakeup_processed p e n) db = reply Done (mark_wakeup_processed p e n db)"
| "op_exec sha ok (Reserve_call i a v h al n) db = reply Call (reserve_call i a v h al n db)"
| "op_exec sha ok (Record_started i g) db = reply Call (record_started i g db)"
| "op_exec sha ok (Observe_call i h b es) db = reply Call (observe_call i h b es db)"
| "op_exec sha ok (Mark_call_uncertain i r) db = reply Call (mark_call_uncertain i r db)"
| "op_exec sha ok (Mark_call_not_started i) db = reply Call (mark_call_not_started i db)"

end
