(* ===== verification/Operational_Facts.thy ===== *)
theory Operational_Facts
  imports Operational_State
begin

text \<open>
  The effect of every method of \<open>OperationalState\<close> as one equation on the tables, the
  invariant of the tables beyond the schema's constraints, and the preorder committed methods
  follow: rows are never removed, what identifies a row never changes, versions only grow,
  terminal attempts, delivered outbox rows and observed calls stay as they are.
\<close>

section \<open>What each method commits\<close>

lemma get_eq [simp]:
  "get_attempt i db = Inr a \<longleftrightarrow> find_row at_id i (od_attempts db) = Some a"
  "get_outbox i db = Inr r \<longleftrightarrow> find_row ob_id i (od_outbox db) = Some r"
  "get_registration i db = Inr g \<longleftrightarrow> find_row rg_id i (od_registrations db) = Some g"
  "get_call i db = Inr c \<longleftrightarrow> find_row pc_id i (od_calls db) = Some c"
  by (auto simp: get_attempt_def get_outbox_def get_registration_def get_call_def split: option.splits)

lemma locked_eq [simp]:
  "locked_attempt i v db = Inr a \<longleftrightarrow> find_row at_id i (od_attempts db) = Some a \<and> v = PInt (at_version a)"
  "locked_outbox i v db = Inr r \<longleftrightarrow> find_row ob_id i (od_outbox db) = Some r \<and> v = PInt (ob_version r)"
  by (auto simp: locked_attempt_def locked_outbox_def bindE_eq_Inr)

lemma op_opt_eq: "op_opt f v = Inr r \<longleftrightarrow> (if v = PNone then r = None else \<exists>x. f v = Inr x \<and> r = Some x)"
  by (auto simp: op_opt_def bindE_eq_Inr)

definition new_outbox :: "string \<Rightarrow> string option \<Rightarrow> string \<Rightarrow> string \<Rightarrow> string \<Rightarrow> int \<Rightarrow> outbox_row" where
  "new_outbox token a p kind h n = \<lparr>ob_id = token, ob_attempt = a, ob_project = p, ob_kind = kind,
     ob_payload = h, ob_state = ''pending'', ob_version = 0, ob_receipt = None, ob_next = None, ob_created = n\<rparr>"

definition add_outbox :: "outbox_row \<Rightarrow> op_db \<Rightarrow> op_db" where
  "add_outbox r db = db\<lparr>od_outbox := od_outbox db @ [r]\<rparr>"

lemma insert_outbox_eq:
  "insert_outbox a p kind h n tok db = Inr db' \<longleftrightarrow>
   (\<exists>h' m. kind \<in> set OUTBOX_KINDS \<and> lease_ident p \<and> h = PStr h' \<and> hex_text 64 h' \<and> n = PInt m \<and> 0 \<le> m
      \<and> db' = add_outbox (new_outbox tok a p kind h' m) db)"
  by (auto simp: insert_outbox_def bindE_eq_Inr new_outbox_def add_outbox_def)

lemma put_work_success:
  assumes "put_work k p ps gs n pr db = Inr (r, db')"
  obtains (same) "db' = db" | (added) w where "db' = db\<lparr>od_work := od_work db @ [w]\<rparr>" "schema_ok db'"
  using assms
  by (fastforce simp: put_work_def bindE_eq_Inr split: option.splits if_splits)

definition new_attempt :: "string \<Rightarrow> string \<Rightarrow> string \<Rightarrow> int \<Rightarrow> string \<Rightarrow> int \<Rightarrow> attempt_row" where
  "new_attempt i k p num rq n =
     \<lparr>at_id = i, at_work_key = k, at_project = p, at_number = num, at_request = rq,
      at_state = ''budget_pending'', at_version = 0, at_lease = None, at_receipt = None,
      at_envelope = None, at_result = None, at_created = n, at_updated = n\<rparr>"

lemma open_attempt_success:
  assumes "open_attempt sha k p rq n i tok ot db = Inr (a, db')"
  obtains k' p' i' n' where "k = PStr k'" and "p = PStr p'" and "n = PInt n'"
    and "list_ex (\<lambda>w. wk_key w = k' \<and> wk_project w = p') (od_work db)"
    and "\<forall>a \<in> set (od_attempts db). at_project a = p' \<longrightarrow> \<not> owning a"
    and "db' = add_outbox (new_outbox ot (Some i') p' ''budget_reserve'' (canonical_request_sha256 sha rq) n')
           (db\<lparr>od_attempts := od_attempts db @
             [new_attempt i' k' p' (next_number k' db) (canonical_request_sha256 sha rq) n']\<rparr>)"
    and "schema_ok db'" and "find_row at_id i' (od_attempts db') = Some a"
proof -
  from assms obtain k' p' n' i' where *: "k = PStr k'" "p = PStr p'" "n = PInt n'"
      "list_ex (\<lambda>w. wk_key w = k' \<and> wk_project w = p') (od_work db)"
      "List.find (\<lambda>a. at_project a = p' \<and> owning a) (od_attempts db) = None"
      "db' = add_outbox (new_outbox ot (Some i') p' ''budget_reserve'' (canonical_request_sha256 sha rq) n')
           (db\<lparr>od_attempts := od_attempts db @
             [new_attempt i' k' p' (next_number k' db) (canonical_request_sha256 sha rq) n']\<rparr>)"
      "schema_ok db'" "find_row at_id i' (od_attempts db') = Some a"
    by (auto simp: open_attempt_def bindE_eq_Inr Let_def insert_outbox_eq new_attempt_def
        split: option.splits)
  then show thesis by (intro that [of k' p' n' i']) (auto simp: find_None_iff)
qed

lemma record_budget_receipt_success:
  assumes "record_budget_receipt i r v n db = Inr (b, db')"
  obtains a h m where "find_row at_id i (od_attempts db) = Some a" and "v = PInt (at_version a)"
    and "r = PStr h" and "hex_text 64 h" and "at_state a = ''budget_pending''"
    and "at_receipt a = None \<or> at_receipt a = Some h"
    and "db' = update_attempt i (\<lambda>a. a\<lparr>at_receipt := Some h, at_version := at_version a + 1, at_updated := m\<rparr>) db"
    and "schema_ok db'" and "find_row at_id i (od_attempts db') = Some b"
  using assms by (auto simp: record_budget_receipt_def bindE_eq_Inr)

lemma transition_success:
  assumes "transition i s v n r db = Inr (b, db')"
  obtains a h m where "find_row at_id i (od_attempts db) = Some a" and "v = PInt (at_version a)"
    and "transition_allowed (at_state a) s"
    and "db' = update_attempt i (\<lambda>a. a\<lparr>at_state := s,
              at_result := (case h of None \<Rightarrow> at_result a | Some h \<Rightarrow> Some h),
              at_version := at_version a + 1, at_updated := m\<rparr>) db"
    and "schema_ok db'" and "find_row at_id i (od_attempts db') = Some b"
  using assms by (auto simp: transition_def bindE_eq_Inr)

lemma reserve_success:
  assumes "reserve i v w ro rs sb e ttl n lt ot db = Inr (res, db')"
  obtains a b bd e' l m where "find_row at_id i (od_attempts db) = Some a" and "v = PInt (at_version a)"
    and "at_state a = ''budget_pending''" and "at_receipt a \<noteq> None" and "e = PStr e'" and "n = PInt m"
    and "acquire_locked w ro rs (PStr (at_request a)) sb ttl (PInt (m div 1000)) lt (od_lease db) = Inr (bd, l)"
    and "db' = add_outbox (new_outbox ot (Some i) (at_project a) ''dispatch'' e' m)
          (update_attempt i (\<lambda>a. a\<lparr>at_state := ''reserved'', at_lease := Some (lb_lease_id bd),
                 at_envelope := Some e', at_version := at_version a + 1, at_updated := m\<rparr>) (db\<lparr>od_lease := l\<rparr>))"
    and "schema_ok db'" and "res = (b, bd)" and "find_row at_id i (od_attempts db') = Some b"
  using assms
  by (auto simp: reserve_def bindE_eq_Inr seconds_of_def insert_outbox_eq split: option.splits)

lemma enqueue_success:
  assumes "enqueue p k h n a tok db = Inr (r, db')"
  obtains o1 where "db' = add_outbox o1 db" and "schema_ok db'"
  using assms by (auto simp: enqueue_def bindE_eq_Inr insert_outbox_eq)

lemma record_delivery_success:
  assumes "record_delivery i r v db = Inr (b, db')"
  obtains (same) "db' = db"
  | (delivered) row h where "find_row ob_id i (od_outbox db) = Some row" and "ob_state row \<noteq> ''delivered''"
    and "db' = update_outbox i (\<lambda>o1. o1\<lparr>ob_state := ''delivered'', ob_receipt := Some h,
              ob_version := ob_version o1 + 1\<rparr>) db" and "schema_ok db'"
  using assms by (auto simp: record_delivery_def bindE_eq_Inr split: if_splits)

lemma mark_outbox_success:
  assumes "mark_outbox i s v n db = Inr (b, db')"
  obtains row m where "find_row ob_id i (od_outbox db) = Some row" and "ob_state row \<noteq> ''delivered''"
    and "db' = update_outbox i (\<lambda>o1. o1\<lparr>ob_state := s, ob_version := ob_version o1 + 1, ob_next := m\<rparr>) db"
    and "schema_ok db'"
  using assms by (auto simp: mark_outbox_def bindE_eq_Inr)

definition registered_run :: "registration_row \<Rightarrow> string \<Rightarrow> string \<Rightarrow> pyval \<Rightarrow> pyval \<Rightarrow> bool" where
  "registered_run g rp rn ra tok \<longleftrightarrow>
     rg_repository g = rp \<and> rg_run g = rn \<and> PInt (rg_run_attempt g) = ra \<and> PStr (rg_token g) = tok"

lemma register_executor_success:
  assumes "register_executor at1 rp rn ra od ev cr x n tok db = Inr (r, db')"
  obtains (same) g where "db' = db" and "at1 = PStr (rg_attempt g)" and "g \<in> set (od_registrations db)"
      and "registered_run g rp rn ra od"
  | (added) i a g where "at1 = PStr i" and "find_row at_id i (od_attempts db) = Some a"
      and "find_row rg_attempt i (od_registrations db) = None" and "rg_attempt g = i"
      and "registered_run g rp rn ra od" and "at_envelope a = Some (rg_envelope g)"
      and "db' = db\<lparr>od_registrations := od_registrations db @ [g]\<rparr>" and "schema_ok db'"
proof -
  from assms obtain i where i: "at1 = PStr i" by (auto simp: register_executor_def bindE_eq_Inr)
  show thesis
  proof (cases "find_row rg_attempt i (od_registrations db)")
    case None
    from assms i None obtain a tk e c q m y where a: "find_row at_id i (od_attempts db) = Some a"
      "ra = PInt q" "od = PStr tk" "at_envelope a = Some e" "schema_ok db'"
      "db' = db\<lparr>od_registrations := od_registrations db @ [\<lparr>rg_id = tok, rg_attempt = i, rg_repository = rp,
         rg_run = rn, rg_run_attempt = q, rg_token = tk, rg_envelope = e, rg_credential = c,
         rg_expires = y, rg_heartbeat = m, rg_revoked = False\<rparr>]\<rparr>"
      by (auto simp: register_executor_def bindE_eq_Inr)
    show ?thesis
      by (rule that(2) [OF i a(1) None _ _ _ a(6) a(5)]) (simp_all add: a(2-4) registered_run_def)
  next
    case (Some g)
    with assms i that(1) [of g] find_row_Some [OF Some] show ?thesis
      by (auto simp: register_executor_def bindE_eq_Inr registered_run_def)
  qed
qed

lemma heartbeat_executor_success:
  assumes "heartbeat_executor i n ttl db = Inr (r, db')"
  obtains g m t where "find_row rg_id i (od_registrations db) = Some g" and "\<not> rg_revoked g"
    and "n = PInt m" and "m < rg_expires g" and "1 \<le> t"
    and "db' = update_registration i (\<lambda>r. r\<lparr>rg_expires := m + t, rg_heartbeat := m\<rparr>) db" and "schema_ok db'"
  using assms by (auto simp: heartbeat_executor_def bindE_eq_Inr)

lemma revoke_executor_success:
  assumes "revoke_executor i db = Inr (r, db')"
  obtains g where "find_row rg_id i (od_registrations db) = Some g"
    and "db' = update_registration i (\<lambda>r. r\<lparr>rg_revoked := True\<rparr>) db" and "schema_ok db'"
  using assms by (auto simp: revoke_executor_def bindE_eq_Inr)

lemma record_wakeup_success:
  assumes "record_wakeup p e h db = Inr (r, db')"
  obtains (same) "db' = db" "\<not> r"
  | (added) w where "db' = db\<lparr>od_wakeups := od_wakeups db @ [w]\<rparr>" and "schema_ok db'" and r
  using assms by (fastforce simp: record_wakeup_def bindE_eq_Inr split: option.splits)

lemma mark_wakeup_success:
  assumes "mark_wakeup_processed p e n db = Inr (r, db')"
  obtains k m where "db' = db\<lparr>od_wakeups := update_row wakeup_key k (\<lambda>w. w\<lparr>wu_processed := Some m\<rparr>) (od_wakeups db)\<rparr>"
    and "schema_ok db'"
  using assms by (auto simp: mark_wakeup_processed_def bindE_eq_Inr)

lemma reserve_call_success:
  assumes "reserve_call i a v h al n db = Inr (r, db')"
  obtains (same) "db' = db" | (added) c where "db' = db\<lparr>od_calls := od_calls db @ [c]\<rparr>" and "schema_ok db'"
  using assms by (fastforce simp: reserve_call_def bindE_eq_Inr split: option.splits)

definition call_writes :: "(call_row \<Rightarrow> call_row) \<Rightarrow> call_row \<Rightarrow> bool" where
  "call_writes f c \<longleftrightarrow>
     (pc_state c = ''reserved'' \<and> (\<exists>g. f = (\<lambda>c. c\<lparr>pc_state := ''started'', pc_grant := Some g\<rparr>)))
     \<or> (pc_state c \<in> {''started'', ''uncertain''} \<and> (\<exists>b es h. f = (\<lambda>c. c\<lparr>pc_state := ''observed'',
          pc_billed := b, pc_estimated := es, pc_result := Some h, pc_reason := None\<rparr>)))
     \<or> (pc_state c \<noteq> ''observed'' \<and> (\<exists>r. f = (\<lambda>c. c\<lparr>pc_state := ''uncertain'', pc_reason := Some r\<rparr>)))
     \<or> (pc_state c = ''reserved'' \<and> f = (\<lambda>c. c\<lparr>pc_state := ''not_started''\<rparr>))"

lemma call_success:
  assumes "record_started i g db = Inr (r, db') \<or> observe_call i h b es db = Inr (r, db')
    \<or> mark_call_uncertain i rs db = Inr (r, db') \<or> mark_call_not_started i db = Inr (r, db')"
  obtains c f where "find_row pc_id i (od_calls db) = Some c" and "call_writes f c"
    and "db' = update_call i f db" and "schema_ok db'"
  using assms
  by (auto simp: record_started_def observe_call_def mark_call_uncertain_def mark_call_not_started_def
      call_writes_def bindE_eq_Inr) metis+

end
