(* ===== verification/Operational_Safety.thy ===== *)
theory Operational_Safety
  imports Operational_Facts
begin

text \<open>
  The operational state as one transactional machine over the lease store's database: the
  preorder and the invariant of \<open>OperationalState\<close>, their preservation by every method, and the
  interpretation that carries them to reachable databases.
\<close>

section \<open>The order committed methods follow\<close>

definition settled :: "attempt_row \<Rightarrow> bool" where
  "settled a \<longleftrightarrow> at_state a \<in> {''succeeded'', ''failed'', ''cancelled'', ''stale''}"

definition attempt_kept :: "attempt_row \<Rightarrow> attempt_row \<Rightarrow> bool" where
  "attempt_kept a b \<longleftrightarrow>
     at_id b = at_id a \<and> at_work_key b = at_work_key a \<and> at_project b = at_project a
     \<and> at_number b = at_number a \<and> at_request b = at_request a \<and> at_created b = at_created a
     \<and> at_version a \<le> at_version b \<and> (at_version b = at_version a \<longrightarrow> b = a)
     \<and> (settled a \<longrightarrow> b = a)
     \<and> (at_receipt a \<noteq> None \<longrightarrow> at_receipt b = at_receipt a)
     \<and> (at_lease a \<noteq> None \<longrightarrow> at_lease b = at_lease a)
     \<and> (at_envelope a \<noteq> None \<longrightarrow> at_envelope b = at_envelope a)
     \<and> transition_allowed\<^sup>*\<^sup>* (at_state a) (at_state b)"

definition outbox_kept :: "outbox_row \<Rightarrow> outbox_row \<Rightarrow> bool" where
  "outbox_kept a b \<longleftrightarrow>
     ob_id b = ob_id a \<and> ob_attempt b = ob_attempt a \<and> ob_project b = ob_project a
     \<and> ob_kind b = ob_kind a \<and> ob_payload b = ob_payload a \<and> ob_created b = ob_created a
     \<and> ob_version a \<le> ob_version b \<and> (ob_state a = ''delivered'' \<longrightarrow> b = a)"

definition registration_kept :: "registration_row \<Rightarrow> registration_row \<Rightarrow> bool" where
  "registration_kept a b \<longleftrightarrow>
     rg_id b = rg_id a \<and> rg_attempt b = rg_attempt a \<and> rg_repository b = rg_repository a
     \<and> rg_run b = rg_run a \<and> rg_run_attempt b = rg_run_attempt a \<and> rg_token b = rg_token a
     \<and> rg_envelope b = rg_envelope a \<and> rg_credential b = rg_credential a
     \<and> (rg_revoked a \<longrightarrow> b = a)"

definition wakeup_kept :: "wakeup_row \<Rightarrow> wakeup_row \<Rightarrow> bool" where
  "wakeup_kept a b \<longleftrightarrow> wakeup_key b = wakeup_key a \<and> wu_payload b = wu_payload a
     \<and> (wu_processed a \<noteq> None \<longrightarrow> wu_processed b \<noteq> None)"

definition call_kept :: "call_row \<Rightarrow> call_row \<Rightarrow> bool" where
  "call_kept a b \<longleftrightarrow>
     pc_id b = pc_id a \<and> pc_attempt b = pc_attempt a \<and> pc_invocation b = pc_invocation a
     \<and> pc_request b = pc_request a \<and> pc_allowance b = pc_allowance a \<and> pc_reserved b = pc_reserved a
     \<and> (pc_state a = ''observed'' \<longrightarrow> b = a)
     \<and> (pc_state a \<noteq> ''reserved'' \<longrightarrow> pc_state b \<noteq> ''reserved'' \<and> pc_grant b = pc_grant a
          \<and> (pc_state b = ''not_started'' \<longrightarrow> pc_state a = ''not_started''))"

definition op_le :: "op_db \<Rightarrow> op_db \<Rightarrow> bool" where
  "op_le s t \<longleftrightarrow>
     lease_le (od_lease s) (od_lease t)
     \<and> set (od_work s) \<subseteq> set (od_work t)
     \<and> kept_in attempt_kept (od_attempts s) (od_attempts t)
     \<and> kept_in outbox_kept (od_outbox s) (od_outbox t)
     \<and> kept_in registration_kept (od_registrations s) (od_registrations t)
     \<and> kept_in wakeup_kept (od_wakeups s) (od_wakeups t)
     \<and> kept_in call_kept (od_calls s) (od_calls t)"

lemma kept_refl [simp]:
  "attempt_kept a a" "outbox_kept b b" "registration_kept r r" "wakeup_kept w w" "call_kept c c"
  by (simp_all add: attempt_kept_def outbox_kept_def registration_kept_def wakeup_kept_def call_kept_def)

lemma attempt_kept_trans:
  assumes ab: "attempt_kept a b" and bc: "attempt_kept b c"
  shows "attempt_kept a c"
proof -
  have path: "transition_allowed\<^sup>*\<^sup>* (at_state a) (at_state c)"
    using ab bc unfolding attempt_kept_def by (blast intro: rtranclp_trans)
  have le: "at_version a \<le> at_version b" "at_version b \<le> at_version c"
    using ab bc unfolding attempt_kept_def by blast+
  have "c = a" if "at_version c = at_version a"
  proof -
    have "at_version b = at_version a" "at_version c = at_version b" using le that by simp_all
    then show ?thesis using ab bc unfolding attempt_kept_def by blast
  qed
  moreover have "c = a" if "settled a"
    using ab bc that unfolding attempt_kept_def by blast
  ultimately show ?thesis
    using ab bc path le unfolding attempt_kept_def by simp
qed

lemma outbox_kept_trans: "outbox_kept a b \<Longrightarrow> outbox_kept b c \<Longrightarrow> outbox_kept a c"
  unfolding outbox_kept_def by auto

lemma registration_kept_trans: "registration_kept a b \<Longrightarrow> registration_kept b c \<Longrightarrow> registration_kept a c"
  unfolding registration_kept_def by auto

lemma wakeup_kept_trans: "wakeup_kept a b \<Longrightarrow> wakeup_kept b c \<Longrightarrow> wakeup_kept a c"
  unfolding wakeup_kept_def by auto

lemma call_kept_trans: "call_kept a b \<Longrightarrow> call_kept b c \<Longrightarrow> call_kept a c"
  unfolding call_kept_def by auto

lemmas op_kept =
  kept_in_refl [of attempt_kept, OF kept_refl(1)] kept_in_refl [of outbox_kept, OF kept_refl(2)]
  kept_in_refl [of registration_kept, OF kept_refl(3)] kept_in_refl [of wakeup_kept, OF kept_refl(4)]
  kept_in_refl [of call_kept, OF kept_refl(5)]
  kept_in_append [of attempt_kept, OF kept_refl(1)] kept_in_append [of outbox_kept, OF kept_refl(2)]
  kept_in_append [of registration_kept, OF kept_refl(3)] kept_in_append [of wakeup_kept, OF kept_refl(4)]
  kept_in_append [of call_kept, OF kept_refl(5)]

lemma op_le_refl [simp]: "op_le s s"
  by (simp add: op_le_def op_kept lease_le_refl)

lemma op_kept_trans:
  "kept_in attempt_kept xs1 ys1 \<Longrightarrow> kept_in attempt_kept ys1 zs1 \<Longrightarrow> kept_in attempt_kept xs1 zs1"
  "kept_in outbox_kept xs2 ys2 \<Longrightarrow> kept_in outbox_kept ys2 zs2 \<Longrightarrow> kept_in outbox_kept xs2 zs2"
  "kept_in registration_kept xs3 ys3 \<Longrightarrow> kept_in registration_kept ys3 zs3 \<Longrightarrow> kept_in registration_kept xs3 zs3"
  "kept_in wakeup_kept xs4 ys4 \<Longrightarrow> kept_in wakeup_kept ys4 zs4 \<Longrightarrow> kept_in wakeup_kept xs4 zs4"
  "kept_in call_kept xs5 ys5 \<Longrightarrow> kept_in call_kept ys5 zs5 \<Longrightarrow> kept_in call_kept xs5 zs5"
  unfolding kept_in_def
  by (meson attempt_kept_trans outbox_kept_trans registration_kept_trans wakeup_kept_trans call_kept_trans)+

lemma op_le_trans: "op_le s t \<Longrightarrow> op_le t u \<Longrightarrow> op_le s u"
  unfolding op_le_def
  by (elim conjE, intro conjI)
     (erule (1) lease_le_trans subset_trans op_kept_trans)+

lemma op_le_add:
  "op_le db (db\<lparr>od_work := od_work db @ ws\<rparr>)"
  "op_le db (db\<lparr>od_attempts := od_attempts db @ as\<rparr>)"
  "op_le db (add_outbox o1 db)"
  "op_le db (db\<lparr>od_registrations := od_registrations db @ rs\<rparr>)"
  "op_le db (db\<lparr>od_wakeups := od_wakeups db @ wks\<rparr>)"
  "op_le db (db\<lparr>od_calls := od_calls db @ cs\<rparr>)"
  by (simp_all add: op_le_def op_kept lease_le_refl add_outbox_def)

lemma op_le_lease: "lease_le (od_lease db) l \<Longrightarrow> op_le db (db\<lparr>od_lease := l\<rparr>)"
  by (simp add: op_le_def op_kept)

lemma op_le_attempt:
  assumes "schema_ok db" and "find_row at_id i (od_attempts db) = Some a" and "attempt_kept a (f a)"
  shows "op_le db (update_attempt i f db)"
proof -
  have "kept_in attempt_kept (od_attempts db) (update_row at_id i f (od_attempts db))"
    using assms by (intro kept_in_update_row [where x = a]) (simp_all add: schema_ok_def attempts_ok_def)
  then show ?thesis by (simp add: op_le_def update_attempt_def op_kept lease_le_refl)
qed

lemma op_le_outbox:
  assumes "schema_ok db" and "find_row ob_id i (od_outbox db) = Some a" and "outbox_kept a (f a)"
  shows "op_le db (update_outbox i f db)"
proof -
  have "kept_in outbox_kept (od_outbox db) (update_row ob_id i f (od_outbox db))"
    using assms by (intro kept_in_update_row [where x = a]) (simp_all add: schema_ok_def outbox_ok_def)
  then show ?thesis by (simp add: op_le_def update_outbox_def op_kept lease_le_refl)
qed

lemma op_le_registration:
  assumes "schema_ok db" and "find_row rg_id i (od_registrations db) = Some a" and "registration_kept a (f a)"
  shows "op_le db (update_registration i f db)"
proof -
  have "kept_in registration_kept (od_registrations db) (update_row rg_id i f (od_registrations db))"
    using assms by (intro kept_in_update_row [where x = a]) (simp_all add: schema_ok_def registrations_ok_def)
  then show ?thesis by (simp add: op_le_def update_registration_def op_kept lease_le_refl)
qed

lemma op_le_call:
  assumes "schema_ok db" and "find_row pc_id i (od_calls db) = Some a" and "call_kept a (f a)"
  shows "op_le db (update_call i f db)"
proof -
  have "kept_in call_kept (od_calls db) (update_row pc_id i f (od_calls db))"
    using assms by (intro kept_in_update_row [where x = a]) (simp_all add: schema_ok_def calls_ok_def)
  then show ?thesis by (simp add: op_le_def update_call_def op_kept lease_le_refl)
qed

lemma op_le_wakeup:
  "op_le db (db\<lparr>od_wakeups := update_row wakeup_key k (\<lambda>w. w\<lparr>wu_processed := Some m\<rparr>) (od_wakeups db)\<rparr>)"
  by (simp add: op_le_def op_kept lease_le_refl kept_in_update wakeup_kept_def wakeup_key_def)

lemma call_writes_kept: "call_writes f c \<Longrightarrow> call_kept c (f c)"
  by (auto simp: call_writes_def call_kept_def)

section \<open>The invariant\<close>

definition link_ok :: "op_db \<Rightarrow> attempt_row \<Rightarrow> bool" where
  "link_ok db a \<longleftrightarrow>
     (at_state a \<in> {''ready'', ''budget_pending''} \<longrightarrow> at_lease a = None \<and> at_envelope a = None)
     \<and> (\<forall>i. at_lease a = Some i \<longrightarrow> at_receipt a \<noteq> None \<and> at_envelope a \<noteq> None
          \<and> (\<exists>l \<in> set (db_leases (od_lease db)). lr_lease_id l = i \<and> lr_request_sha256 l = at_request a))
     \<and> (\<exists>r \<in> set (od_outbox db). ob_attempt r = Some (at_id a) \<and> ob_kind r = ''budget_reserve''
          \<and> ob_payload r = at_request a)
     \<and> (\<forall>e. at_envelope a = Some e \<longrightarrow> (\<exists>r \<in> set (od_outbox db). ob_attempt r = Some (at_id a)
          \<and> ob_kind r = ''dispatch'' \<and> ob_payload r = e))
     \<and> (\<forall>m. 1 \<le> m \<and> m \<le> at_number a \<longrightarrow> (\<exists>b \<in> set (od_attempts db).
          at_work_key b = at_work_key a \<and> at_number b = m))"

definition op_inv :: "op_db \<Rightarrow> bool" where
  "op_inv db \<longleftrightarrow> schema_ok db \<and> lease_inv (od_lease db) \<and> (\<forall>a \<in> set (od_attempts db). link_ok db a)"

lemma empty_op_inv: "op_inv (empty_op_db e)"
  by (simp add: op_inv_def empty_op_db_def schema_ok_def work_ok_def attempts_ok_def outbox_ok_def
      registrations_ok_def wakeups_ok_def calls_ok_def empty_db_inv)

lemma link_ok_mono:
  assumes "op_le s t" and "link_ok s a"
  shows "link_ok t a"
proof -
  have leases: "kept_in same_lease (db_leases (od_lease s)) (db_leases (od_lease t))"
    and outbox: "kept_in outbox_kept (od_outbox s) (od_outbox t)"
    and attempts: "kept_in attempt_kept (od_attempts s) (od_attempts t)"
    using assms(1) by (simp_all add: op_le_def lease_le_def)
  have l: "\<exists>k \<in> set (db_leases (od_lease t)). lr_lease_id k = lr_lease_id l \<and> lr_request_sha256 k = lr_request_sha256 l"
    if "l \<in> set (db_leases (od_lease s))" for l
    using kept_inD [OF leases that] by (auto simp: same_lease_def)
  have r: "\<exists>k \<in> set (od_outbox t). ob_attempt k = ob_attempt r \<and> ob_kind k = ob_kind r \<and> ob_payload k = ob_payload r"
    if "r \<in> set (od_outbox s)" for r
    using kept_inD [OF outbox that] by (auto simp: outbox_kept_def)
  have b: "\<exists>k \<in> set (od_attempts t). at_work_key k = at_work_key b \<and> at_number k = at_number b"
    if "b \<in> set (od_attempts s)" for b
    using kept_inD [OF attempts that] by (auto simp: attempt_kept_def)
  note h = assms(2) [unfolded link_ok_def]
  have "\<exists>k \<in> set (db_leases (od_lease t)). lr_lease_id k = i \<and> lr_request_sha256 k = at_request a"
    if "at_lease a = Some i" for i
    using h that l by metis
  moreover have "\<exists>k \<in> set (od_outbox t). ob_attempt k = Some (at_id a) \<and> ob_kind k = ''budget_reserve''
      \<and> ob_payload k = at_request a"
    using h r by metis
  moreover have "\<exists>k \<in> set (od_outbox t). ob_attempt k = Some (at_id a) \<and> ob_kind k = ''dispatch''
      \<and> ob_payload k = e" if "at_envelope a = Some e" for e
    using h that r by metis
  moreover have "\<exists>k \<in> set (od_attempts t). at_work_key k = at_work_key a \<and> at_number k = m"
    if "1 \<le> m \<and> m \<le> at_number a" for m
    using h that b by metis
  ultimately show ?thesis
    unfolding link_ok_def using h by (intro conjI allI impI) (blast | simp)+
qed

text \<open>A commit keeps the links when the rows it adds or rewrites have them.\<close>

lemma op_invI:
  assumes "op_inv s" and "op_le s t" and "schema_ok t" and "lease_inv (od_lease t)"
    and "\<And>a. a \<in> set (od_attempts t) \<Longrightarrow> a \<notin> set (od_attempts s) \<Longrightarrow> link_ok t a"
  shows "op_inv t"
  using assms link_ok_mono [OF assms(2)] unfolding op_inv_def by blast

lemma same_attempts_inv:
  assumes "op_inv s" and "op_le s t" and "schema_ok t" and "od_lease t = od_lease s"
    and "od_attempts t = od_attempts s"
  shows "op_inv t"
  using assms by (intro op_invI [of s t]) (simp_all add: op_inv_def)

section \<open>Every method keeps both\<close>

lemma schema_ok_lease:
  assumes "lease_le (od_lease db) l" and "schema_ok db"
  shows "schema_ok (db\<lparr>od_lease := l\<rparr>)"
proof -
  have leases: "list_ex (\<lambda>k. lr_lease_id k = i) (db_leases l)"
    if "list_ex (\<lambda>k. lr_lease_id k = i) (db_leases (od_lease db))" for i
    using assms(1) that unfolding lease_le_def list_ex_iff
    by (metis kept_inD same_lease_def)
  have grants: "list_ex (\<lambda>k. gr_grant_id k = i) (db_grants l)"
    if "list_ex (\<lambda>k. gr_grant_id k = i) (db_grants (od_lease db))" for i
    using assms(1) that unfolding lease_le_def list_ex_iff
    by (metis kept_inD grant_kept_def)
  have row: "attempt_row_ok (db\<lparr>od_lease := l\<rparr>) a" if "attempt_row_ok db a" for a
    using that leases by (auto simp: attempt_row_ok_def split: option.splits)
  have "attempts_ok (db\<lparr>od_lease := l\<rparr>)"
    using assms(2) row by (auto simp: schema_ok_def attempts_ok_def list_all_iff)
  moreover have "calls_ok (db\<lparr>od_lease := l\<rparr>)"
    using assms(2) grants
    by (auto simp: schema_ok_def calls_ok_def list_all_iff has_attempt_def split: option.splits)
  moreover have "has_attempt (db\<lparr>od_lease := l\<rparr>) = has_attempt db"
    by (simp add: fun_eq_iff has_attempt_def)
  ultimately show ?thesis
    using assms(2)
    by (simp add: schema_ok_def outbox_ok_def registrations_ok_def cong: option.case_cong)
qed

definition op_step :: "op_db \<Rightarrow> op_db \<Rightarrow> bool" where
  "op_step s t \<longleftrightarrow> op_le s t \<and> op_inv t"

lemma op_step_same [simp]: "op_inv s \<Longrightarrow> op_step s s"
  by (simp add: op_step_def)

lemma op_step_rows:
  assumes "op_inv s" and "op_le s t" and "schema_ok t" and "od_lease t = od_lease s"
    and "od_attempts t = od_attempts s"
  shows "op_step s t"
  using same_attempts_inv [OF assms] assms(2) by (simp add: op_step_def)

lemma lease_command_step:
  assumes "op_inv s" and "lease_exec ok c (od_lease s) = Inr (r, l)"
  shows "op_step s (s\<lparr>od_lease := l\<rparr>)"
proof -
  have inv: "lease_inv (od_lease s)" "schema_ok s" using assms(1) by (simp_all add: op_inv_def)
  have le: "lease_le (od_lease s) l" using inv(1) assms(2) by (rule lease_exec_le)
  have l: "lease_inv l" using inv(1) assms(2) by (rule lease_exec_inv)
  have "op_inv (s\<lparr>od_lease := l\<rparr>)"
    by (rule op_invI [OF assms(1) op_le_lease [OF le] schema_ok_lease [OF le inv(2)]]) (simp_all add: l)
  with op_le_lease [OF le] show ?thesis by (simp add: op_step_def)
qed

text \<open>One rewritten attempt.\<close>

lemma attempt_step:
  assumes inv: "op_inv s" and row: "find_row at_id i (od_attempts s) = Some a"
    and kept: "attempt_kept a (f a)" and le: "op_le (update_attempt i f s) t" and ok: "schema_ok t"
    and lease: "lease_inv (od_lease t)" and rows: "od_attempts t = od_attempts (update_attempt i f s)"
    and link: "link_ok t a \<Longrightarrow> link_ok t (f a)"
  shows "op_step s t"
proof -
  have schema: "schema_ok s" using inv by (simp add: op_inv_def)
  have le': "op_le s t"
    using op_le_trans [OF op_le_attempt [OF schema row, of f] le] kept by simp
  have a: "a \<in> set (od_attempts s)" using find_row_Some [OF row] by simp
  then have "link_ok t a" using inv link_ok_mono [OF le'] by (simp add: op_inv_def)
  then have new: "link_ok t (f a)" by (rule link)
  have "distinct (map at_id (od_attempts s))" using schema by (simp add: schema_ok_def attempts_ok_def)
  from update_row_mem [OF this row] have "b = f a \<or> b \<in> set (od_attempts s)" if "b \<in> set (od_attempts t)" for b
    using that by (auto simp: rows update_attempt_def)
  with new have "op_inv t" by (intro op_invI [OF inv le' ok lease]) auto
  with le' show ?thesis by (simp add: op_step_def)
qed

lemma no_way_back:
  "transition_allowed x y \<Longrightarrow> y = ''ready'' \<or> y = ''budget_pending'' \<Longrightarrow> x = ''ready''"
  "transition_allowed x y \<Longrightarrow> x \<notin> {''succeeded'', ''failed'', ''cancelled'', ''stale''}"
  "transition_allowed ''budget_pending'' ''reserved''"
  by (auto simp: transition_allowed_def TRANSITIONS_def split: if_splits)

lemma record_budget_receipt_step:
  assumes "op_inv s" and "record_budget_receipt i r v n s = Inr (b, t)"
  shows "op_step s t"
  using assms(2)
proof (rule record_budget_receipt_success)
  fix a h m
  assume row: "find_row at_id i (od_attempts s) = Some a" and state: "at_state a = ''budget_pending''"
    and receipt: "at_receipt a = None \<or> at_receipt a = Some h"
    and t: "t = update_attempt i (\<lambda>a. a\<lparr>at_receipt := Some h, at_version := at_version a + 1, at_updated := m\<rparr>) s"
    and ok: "schema_ok t"
  show ?thesis
    by (rule attempt_step [OF assms(1) row, where f = "\<lambda>a. a\<lparr>at_receipt := Some h,
          at_version := at_version a + 1, at_updated := m\<rparr>"])
       (use assms(1) state receipt t ok in
         \<open>auto simp: attempt_kept_def settled_def link_ok_def op_inv_def update_attempt_def\<close>)
qed

lemma transition_step:
  assumes "op_inv s" and "transition i to v n r s = Inr (b, t)"
  shows "op_step s t"
  using assms(2)
proof (rule transition_success)
  fix a h m
  let ?f = "\<lambda>a :: attempt_row. a\<lparr>at_state := to, at_result := (case h of None \<Rightarrow> at_result a | Some h \<Rightarrow> Some h),
              at_version := at_version a + 1, at_updated := m\<rparr>"
  assume row: "find_row at_id i (od_attempts s) = Some a" and edge: "transition_allowed (at_state a) to"
    and t: "t = update_attempt i ?f s" and ok: "schema_ok t"
  have kept: "attempt_kept a (?f a)"
    using edge no_way_back(2) [OF edge] by (auto simp: attempt_kept_def settled_def)
  have link: "link_ok t a \<Longrightarrow> link_ok t (?f a)"
    using no_way_back(1) [OF edge] by (auto simp: link_ok_def)
  have "lease_inv (od_lease t)" using assms(1) by (simp add: t update_attempt_def op_inv_def)
  then show ?thesis
    by (intro attempt_step [where f = ?f, OF assms(1) row kept _ ok _ _ link]) (simp_all add: t)
qed

lemma reserve_step:
  assumes "op_inv s" and "reserve i v w ro rs sb e ttl n lt ot s = Inr (res, t)"
  shows "op_step s t"
  using assms(2)
proof (rule reserve_success)
  fix a b :: attempt_row and bd :: lease_bundle and e' :: string and l :: lease_db and m :: int
  let ?f = "\<lambda>a :: attempt_row. a\<lparr>at_state := ''reserved'', at_lease := Some (lb_lease_id bd),
                 at_envelope := Some e', at_version := at_version a + 1, at_updated := m\<rparr>"
  let ?o = "new_outbox ot (Some i) (at_project a) ''dispatch'' e' m"
  assume row: "find_row at_id i (od_attempts s) = Some a" and state: "at_state a = ''budget_pending''"
    and receipt: "at_receipt a \<noteq> None" and ok: "schema_ok t"
    and acq: "acquire_locked w ro rs (PStr (at_request a)) sb ttl (PInt (m div 1000)) lt (od_lease s) = Inr (bd, l)"
    and t: "t = add_outbox ?o (update_attempt i ?f (s\<lparr>od_lease := l\<rparr>))"
  have exec: "lease_exec (\<lambda>_. True) (Acquire_many w ro rs (PStr (at_request a)) sb ttl (PInt (m div 1000)) lt)
      (od_lease s) = Inr (Bundle bd, l)"
    using acq by (simp add: lease_exec_def reply_def acquire_many_def)
  have first: "op_step s (s\<lparr>od_lease := l\<rparr>)" using assms(1) exec by (rule lease_command_step)
  have a: "a \<in> set (od_attempts s)" "at_id a = i" using find_row_Some [OF row] by simp_all
  have kept: "attempt_kept a (?f a)"
    using state a assms(1) no_way_back(3)
    by (auto simp: attempt_kept_def settled_def op_inv_def link_ok_def)
  have held: "\<exists>k \<in> set (db_leases l). lr_lease_id k = lb_lease_id bd \<and> lr_request_sha256 k = at_request a"
    using acq by (auto elim!: acquire_success simp: new_lease_def)
  have link: "link_ok t a \<Longrightarrow> link_ok t (?f a)"
    using held receipt a(2) by (auto simp: link_ok_def t add_outbox_def update_attempt_def new_outbox_def)
  have "op_step (s\<lparr>od_lease := l\<rparr>) t"
    using first row kept ok link
    by (intro attempt_step [where f = ?f and i = i and a = a])
       (auto simp: op_step_def op_inv_def t op_le_add, auto simp: add_outbox_def update_attempt_def)
  with first show ?thesis by (auto simp: op_step_def intro: op_le_trans)
qed

lemma fold_max_cases: "fold max xs z = z \<or> fold max xs z \<in> set (xs :: int list)"
proof (induction xs arbitrary: z)
  case (Cons x xs)
  then show ?case using Cons.IH [of "max x z"] by (auto simp: max_def)
qed simp

lemma open_attempt_step:
  assumes "op_inv s" and "open_attempt sha k p rq n i tok ot s = Inr (b, t)"
  shows "op_step s t"
  using assms(2)
proof (rule open_attempt_success)
  fix k' p' i' n'
  let ?rq = "canonical_request_sha256 sha rq"
  let ?a = "new_attempt i' k' p' (next_number k' s) ?rq n'"
  let ?s = "s\<lparr>od_attempts := od_attempts s @ [?a]\<rparr>"
  assume t: "t = add_outbox (new_outbox ot (Some i') p' ''budget_reserve'' ?rq n') ?s" and ok: "schema_ok t"
  have le: "op_le s t" unfolding t using op_le_add(2) op_le_add(3) by (rule op_le_trans)
  have numbers: "\<exists>c \<in> set (od_attempts s). at_work_key c = k' \<and> at_number c = m"
    if "1 \<le> m" and "m < next_number k' s" for m
  proof -
    let ?ns = "map at_number (filter (\<lambda>a. at_work_key a = k') (od_attempts s))"
    have "fold max ?ns 0 \<in> set ?ns"
      using fold_max_cases [of ?ns 0] that by (auto simp: next_number_def)
    then obtain c where c: "c \<in> set (od_attempts s)" "at_work_key c = k'" "at_number c = fold max ?ns 0"
      by auto
    then have "link_ok s c" using assms(1) by (simp add: op_inv_def)
    with c that show ?thesis by (auto simp: link_ok_def next_number_def)
  qed
  have "link_ok t ?a"
    unfolding link_ok_def
  proof (intro conjI allI impI)
    fix m
    assume "1 \<le> m \<and> m \<le> at_number ?a"
    then show "\<exists>b \<in> set (od_attempts t). at_work_key b = at_work_key ?a \<and> at_number b = m"
      using numbers [of m] by (cases "m = next_number k' s") (auto simp: t add_outbox_def new_attempt_def)
  qed (auto simp: t add_outbox_def new_attempt_def new_outbox_def)
  then have "op_inv t"
    using assms(1) by (intro op_invI [OF assms(1) le ok]) (auto simp: t add_outbox_def op_inv_def)
  with le show ?thesis by (simp add: op_step_def)
qed

lemma put_work_step: "op_inv s \<Longrightarrow> put_work k p ps gs n pr s = Inr (r, t) \<Longrightarrow> op_step s t"
  by (erule put_work_success) (auto intro!: op_step_rows op_le_add)

lemma enqueue_step: "op_inv s \<Longrightarrow> enqueue p k h n a tok s = Inr (r, t) \<Longrightarrow> op_step s t"
  by (erule enqueue_success) (rule op_step_rows, simp_all only: op_le_add, simp_all add: add_outbox_def)

lemma outbox_step:
  assumes "op_inv s" and "find_row ob_id i (od_outbox s) = Some row" and "ob_state row \<noteq> ''delivered''"
    and "outbox_kept row (f row)" and "schema_ok (update_outbox i f s)"
  shows "op_step s (update_outbox i f s)"
  using assms by (intro op_step_rows op_le_outbox) (auto simp: update_outbox_def op_inv_def)

lemma record_delivery_step: "op_inv s \<Longrightarrow> record_delivery i r v s = Inr (b, t) \<Longrightarrow> op_step s t"
  by (erule record_delivery_success) (auto intro!: outbox_step simp: outbox_kept_def)

lemma mark_outbox_step: "op_inv s \<Longrightarrow> mark_outbox i st v n s = Inr (b, t) \<Longrightarrow> op_step s t"
  by (erule mark_outbox_success) (auto intro!: outbox_step simp: outbox_kept_def)

lemma register_executor_step:
  "op_inv s \<Longrightarrow> register_executor a rp rn ra od ev cr x n tok s = Inr (r, t) \<Longrightarrow> op_step s t"
  by (erule register_executor_success) (auto intro!: op_step_rows op_le_add)

lemma registration_step:
  assumes "op_inv s" and "find_row rg_id i (od_registrations s) = Some g"
    and "registration_kept g (f g)" and "schema_ok (update_registration i f s)"
  shows "op_step s (update_registration i f s)"
  using assms by (intro op_step_rows op_le_registration) (auto simp: update_registration_def op_inv_def)

lemma heartbeat_executor_step: "op_inv s \<Longrightarrow> heartbeat_executor i n ttl s = Inr (r, t) \<Longrightarrow> op_step s t"
  by (erule heartbeat_executor_success) (auto intro!: registration_step simp: registration_kept_def)

lemma revoke_executor_step: "op_inv s \<Longrightarrow> revoke_executor i s = Inr (r, t) \<Longrightarrow> op_step s t"
  by (erule revoke_executor_success) (auto intro!: registration_step simp: registration_kept_def)

lemma record_wakeup_step: "op_inv s \<Longrightarrow> record_wakeup p e h s = Inr (r, t) \<Longrightarrow> op_step s t"
  by (erule record_wakeup_success) (auto intro!: op_step_rows op_le_add)

lemma mark_wakeup_step: "op_inv s \<Longrightarrow> mark_wakeup_processed p e n s = Inr (r, t) \<Longrightarrow> op_step s t"
  by (erule mark_wakeup_success) (rule op_step_rows, auto simp: op_le_wakeup)

lemma reserve_call_step: "op_inv s \<Longrightarrow> reserve_call i a v h al n s = Inr (r, t) \<Longrightarrow> op_step s t"
  by (erule reserve_call_success) (auto intro!: op_step_rows op_le_add)

lemma call_step:
  assumes "op_inv s"
    and "record_started i g s = Inr (r, t) \<or> observe_call i h b es s = Inr (r, t)
    \<or> mark_call_uncertain i rs s = Inr (r, t) \<or> mark_call_not_started i s = Inr (r, t)"
  shows "op_step s t"
  using assms(2)
proof (rule call_success)
  fix c f
  assume row: "find_row pc_id i (od_calls s) = Some c" and w: "call_writes f c"
    and t: "t = update_call i f s" and ok: "schema_ok t"
  have "schema_ok s" using assms(1) by (simp add: op_inv_def)
  from op_le_call [where f = f, OF this row call_writes_kept [OF w]] assms(1) ok show ?thesis
    unfolding t by (intro op_step_rows) (simp_all add: update_call_def)
qed

lemmas op_steps =
  record_budget_receipt_step transition_step reserve_step open_attempt_step put_work_step
  enqueue_step record_delivery_step mark_outbox_step register_executor_step heartbeat_executor_step
  revoke_executor_step record_wakeup_step mark_wakeup_step reserve_call_step lease_command_step

lemma op_exec_step: "op_inv s \<Longrightarrow> op_exec sha ok c s = Inr (r, t) \<Longrightarrow> op_step s t"
  by (cases c) (auto simp: reply_eq_Inr intro: op_steps call_step)

interpretation op_tx: transactional_order "op_exec sha ok" op_inv op_le
  by unfold_locales (auto dest: op_exec_step simp: op_step_def intro: op_le_trans)

lemma reachable_op_inv: "tx_reachable (op_exec sha ok) (empty_op_db e) db \<Longrightarrow> op_inv db"
  by (erule op_tx.reachable_inv) (rule empty_op_inv)

end
