(* ===== verification/Lease_Properties.thy ===== *)
theory Lease_Properties
  imports Lease_Safety
begin

text \<open>
  The guarantees of \<open>factory_kernel/lease_store.py\<close> over every history of its public
  methods: exclusion of live owners and of unresolved operations, fencing of superseded bundles,
  the exact effect of an acquisition, and one execution per operation key.
\<close>

section \<open>Who holds a resource\<close>

definition lease_holds :: "lease_db \<Rightarrow> string \<Rightarrow> string \<Rightarrow> bool" where
  "lease_holds db r lid \<longleftrightarrow>
     list_ex (\<lambda>rr. rr_lease_id rr = lid \<and> rr_resource rr = r) (db_lease_resources db)"

lemma lease_holds_link:
  "lease_holds db r lid \<longleftrightarrow>
     (\<exists>rr \<in> set (db_lease_resources db). rr_lease_id rr = lid \<and> rr_resource rr = r)"
  by (auto simp: lease_holds_def list_ex_iff)

text \<open>Two leases that hold the current generation of one resource are the same lease.\<close>

lemma current_holders_equal:
  assumes "lease_inv db" "holds_current db i" "holds_current db j" "lease_holds db r i" "lease_holds db r j"
  shows "i = j"
proof -
  from assms(4,5) obtain p q where p: "p \<in> set (db_lease_resources db)" "rr_lease_id p = i" "rr_resource p = r"
    and q: "q \<in> set (db_lease_resources db)" "rr_lease_id q = j" "rr_resource q = r"
    by (auto simp: lease_holds_link)
  with assms(2,3) have "rr_generation p = rr_generation q" by (simp add: holds_current_def)
  with fence_invD [of db p q] assms(1) p q show ?thesis by (simp add: lease_inv_def)
qed

lemma reachable_lease_inv: "tx_reachable (lease_exec ok) (empty_db e) db \<Longrightarrow> lease_inv db"
  by (erule lease_tx.reachable_inv) (rule empty_db_inv)

text \<open>
  An example history: \<open>ann\<close> leases two resources, runs one operation and sees it succeed; her
  lease runs out, and \<open>bob\<close> leases one of them.
\<close>

definition sha_a :: string where
  "sha_a = replicate 64 CHR ''a''"

definition demo_bundle :: "string \<Rightarrow> string \<Rightarrow> (string \<times> int) list \<Rightarrow> int \<Rightarrow> lease_bundle" where
  "demo_bundle token ow gens expires =
     \<lparr>lb_lease_id = token, lb_epoch = ''epoch1'', lb_owner = ow, lb_role = ''builder'',
      lb_generations = gens, lb_request_sha256 = sha_a, lb_subject_sha256 = sha_a,
      lb_expires_at = expires\<rparr>"

definition ann_bundle :: lease_bundle where
  "ann_bundle = demo_bundle ''lease1'' ''ann'' [(''env'', 1), (''repo'', 1)] 110"

definition bob_bundle :: lease_bundle where
  "bob_bundle = demo_bundle ''lease2'' ''bob'' [(''repo'', 2)] 210"

definition ann_cmd :: lease_cmd where
  "ann_cmd = Acquire_many (PStr ''ann'') (PStr ''builder'') [PStr ''repo'', PStr ''env''] (PStr sha_a)
     (PStr sha_a) (PInt 10) (PInt 100) ''lease1''"

definition bob_cmd :: lease_cmd where
  "bob_cmd = Acquire_many (PStr ''bob'') (PStr ''builder'') [PStr ''repo''] (PStr sha_a)
     (PStr sha_a) (PInt 10) (PInt 200) ''lease2''"

definition demo1 :: lease_db where
  "demo1 = \<lparr>db_epoch = ''epoch1'', db_last_now = 100, db_resources = [(''env'', 1), (''repo'', 1)],
     db_leases = [new_lease ''lease1'' ''epoch1'' ''ann'' ''builder'' sha_a sha_a 100 10],
     db_lease_resources = [\<lparr>rr_lease_id = ''lease1'', rr_resource = ''env'', rr_generation = 1\<rparr>,
                           \<lparr>rr_lease_id = ''lease1'', rr_resource = ''repo'', rr_generation = 1\<rparr>],
     db_grants = [], db_migrations = []\<rparr>"

definition demo_grant :: grant_row where
  "demo_grant = started_grant ''g1'' ''lease1'' (''proj'', ''op'', ''req'') sha_a 105"

definition demo2 :: lease_db where
  "demo2 = demo1\<lparr>db_last_now := 105, db_grants := [demo_grant]\<rparr>"

definition demo3 :: lease_db where
  "demo3 = demo1\<lparr>db_last_now := 106, db_grants := [demo_grant\<lparr>gr_state := ''observed_success'',
     gr_observed_at := Some 106, gr_result := Some (PDict [])\<rparr>]\<rparr>"

definition demo4 :: lease_db where
  "demo4 = \<lparr>db_epoch = ''epoch1'', db_last_now = 200, db_resources = [(''env'', 1), (''repo'', 2)],
     db_leases = [new_lease ''lease1'' ''epoch1'' ''ann'' ''builder'' sha_a sha_a 100 10,
                  new_lease ''lease2'' ''epoch1'' ''bob'' ''builder'' sha_a sha_a 200 10],
     db_lease_resources = db_lease_resources demo1 @
       [\<lparr>rr_lease_id = ''lease2'', rr_resource = ''repo'', rr_generation = 2\<rparr>],
     db_grants = db_grants demo3, db_migrations = []\<rparr>"

lemma demo_idents:
  "lease_ident ''ann''" "lease_ident ''bob''" "lease_ident ''builder''" "lease_ident ''repo''"
  "lease_ident ''env''" "lease_ident ''proj''" "lease_ident ''op''" "lease_ident ''req''"
  "lease_ident ''epoch1''"
  by code_simp+

lemma demo_checks:
  "lease_ident s \<Longrightarrow> lease_text name (PStr s) = Inr s"
  "m \<le> n \<Longrightarrow> lease_int name m (PInt n) = Inr n"
  "lease_sha name (PStr sha_a) = Inr sha_a"
  "0 \<le> n \<Longrightarrow> db_last_now db \<le> n \<Longrightarrow> observe_now (PInt n) db = Inr (n, db\<lparr>db_last_now := n\<rparr>)"
  "sorted_set [''repo'', ''env''] = [''env'', ''repo'']" "sorted_set [''repo''] = [''repo'']"
  by (simp_all add: sha_a_def hex_text_replicate is_hex_char_def is_digit_char_def code_of_def)
     code_simp+

lemmas demo_eval =
  demo_idents demo_checks lease_exec_def reply_def acquire_many_def acquire_locked_def empty_db_def
  live_holders_def unresolved_operations_def MAX_RESOURCES_def row_simps generation_rows_def
  new_lease_def new_links_def live_at_def Let_def demo_bundle_def ann_bundle_def bob_bundle_def
  ann_cmd_def bob_cmd_def demo1_def demo2_def demo3_def demo4_def demo_grant_def started_grant_def
  UNRESOLVED_def

lemma demo_step1: "lease_exec ok ann_cmd (empty_db ''epoch1'') = Inr (Bundle ann_bundle, demo1)"
  by (simp add: demo_eval)

lemma demo_view1: "lease_view_of ''lease1'' (demo1\<lparr>db_last_now := 105\<rparr>) =
    Some \<lparr>v_row = hd (db_leases demo1), v_generations = [(''env'', 1), (''repo'', 1)],
          v_current_generations = [(''env'', 1), (''repo'', 1)], v_uncertain = False, v_in_flight = False\<rparr>"
  by (simp add: demo_eval lease_view_of_def lease_resources_of_def)

lemma demo_guard1: "fst (store_guard ann_bundle 105 (demo1\<lparr>db_last_now := 105\<rparr>)) = eligible"
  by (simp add: store_guard_eligible, rule exI, rule conjI, simp add: demo_view1 ann_bundle_def demo_bundle_def)
     (simp add: bundle_schema_def bundle_valid_def demo_eval)

lemma demo_step2:
  "consume_grant ann_bundle (PStr ''proj'') (PStr ''op'') (PStr ''req'') (PStr sha_a) (PInt 105) ''g1'' demo1 =
   Inr (\<lparr>cr_grant_id = ''g1'', cr_state = ''started'', cr_replayed = False, cr_result = None,
         cr_execute = True, cr_refused = None\<rparr>, demo2)"
proof -
  have "store_guard ann_bundle 105 (demo1\<lparr>db_last_now := 105\<rparr>) =
      (eligible, lease_view_of ''lease1'' (demo1\<lparr>db_last_now := 105\<rparr>))"
    by (rule prod_eqI) (simp_all add: demo_guard1 store_guard_view, simp add: ann_bundle_def demo_bundle_def)
  then show ?thesis
    by (simp add: consume_grant_def demo_checks demo_idents demo_view1)
       (simp add: demo_eval)
qed

lemma demo_step3: "observe_operation ''g1'' ''success'' None (PInt 106) demo2 = Inr ((''g1'', ''observed_success''), demo3)"
  by (simp add: observe_operation_def demo_eval observed_state_def update_row_def)

lemma demo_step4: "lease_exec ok bob_cmd demo3 = Inr (Bundle bob_bundle, demo4)"
  by (simp add: demo_eval)

lemma demo_exec2:
  "lease_exec ok (Consume_grant ann_bundle (PStr ''proj'') (PStr ''op'') (PStr ''req'') (PStr sha_a)
     (PInt 105) ''g1'') demo1 = Inr (Consumed \<lparr>cr_grant_id = ''g1'', cr_state = ''started'',
       cr_replayed = False, cr_result = None, cr_execute = True, cr_refused = None\<rparr>, demo2)"
  by (simp add: lease_exec_def reply_def demo_step2)

lemma demo_exec3:
  "lease_exec ok (Observe_operation ''g1'' ''success'' None (PInt 106)) demo2 =
   Inr (Observed (''g1'', ''observed_success''), demo3)"
  by (simp add: lease_exec_def reply_def demo_step3)

lemma demo_reachable2: "tx_reachable (lease_exec ok) (empty_db ''epoch1'') demo2"
proof -
  have "tx_reachable (lease_exec ok) (empty_db ''epoch1'') demo1"
    by (rule tx_step) (rule tx_start, rule demo_step1)
  then show ?thesis by (rule tx_step) (rule demo_exec2)
qed

lemma demo_run2: "tx_reachable (lease_exec ok) demo2 demo4"
proof -
  have "tx_reachable (lease_exec ok) demo2 demo3"
    by (rule tx_step) (rule tx_start, rule demo_exec3)
  then show ?thesis by (rule tx_step) (rule demo_step4)
qed

lemma demo_reachable4: "tx_reachable (lease_exec ok) (empty_db ''epoch1'') demo4"
  by (rule tx_reachable_trans [OF demo_run2 demo_reachable2])

text \<open>C11. In every database the store's methods can produce, at most one lease that is still
  live holds a given resource, at the last observed clock value and at any later one.\<close>

theorem lease_exclusion:
  assumes "tx_reachable (lease_exec ok) (empty_db e) db" and "db_last_now db \<le> n"
  shows "length (filter (\<lambda>l. live_at n l \<and> lease_holds db r (lr_lease_id l)) (db_leases db)) \<le> 1"
proof (rule length_filter_le_1)
  have inv: "lease_inv db" using assms(1) by (rule reachable_lease_inv)
  then show "distinct (db_leases db)"
    by (simp add: lease_inv_def keys_inv_def distinct_map)
  fix l k
  assume l: "l \<in> set (db_leases db)" "live_at n l \<and> lease_holds db r (lr_lease_id l)"
    and k: "k \<in> set (db_leases db)" "live_at n k \<and> lease_holds db r (lr_lease_id k)"
  have "holds_current db (lr_lease_id j)" if "j \<in> set (db_leases db)" "live_at n j" for j
    using inv that live_at_mono [OF that(2) assms(2)] by (simp add: lease_inv_def current_inv_def)
  with l k inv have "lr_lease_id l = lr_lease_id k" by (blast intro: current_holders_equal)
  with inv l(1) k(1) show "l = k" by (rule lease_row_unique)
qed

lemma lease_exclusion_witness:
  "length (filter (\<lambda>l. live_at 205 l \<and> lease_holds demo4 ''repo'' (lr_lease_id l)) (db_leases demo4)) \<le> 1
   \<and> length (filter (\<lambda>l. lr_active l \<and> lease_holds demo4 ''repo'' (lr_lease_id l)) (db_leases demo4)) = 2"
  using lease_exclusion [OF demo_reachable4, of 205 "''repo''"] by (simp add: demo_eval lease_holds_def)

text \<open>C12. In every database the store's methods can produce, at most one operation that is
  still unresolved (issued, started or uncertain) touches a given resource.\<close>

theorem operation_exclusion:
  assumes "tx_reachable (lease_exec ok) (empty_db e) db"
  shows "length (filter (\<lambda>g. gr_state g \<in> set UNRESOLVED \<and> lease_holds db r (gr_lease_id g)) (db_grants db)) \<le> 1"
proof (rule length_filter_le_1)
  have inv: "lease_inv db" using assms by (rule reachable_lease_inv)
  then show "distinct (db_grants db)"
    by (simp add: lease_inv_def keys_inv_def distinct_map)
  fix g h
  assume g: "g \<in> set (db_grants db)" "gr_state g \<in> set UNRESOLVED \<and> lease_holds db r (gr_lease_id g)"
    and h: "h \<in> set (db_grants db)" "gr_state h \<in> set UNRESOLVED \<and> lease_holds db r (gr_lease_id h)"
  have "holds_current db (gr_lease_id j)" if "j \<in> set (db_grants db)" "unresolved j" for j
    using inv that by (simp add: lease_inv_def current_inv_def)
  with g h inv have "gr_lease_id g = gr_lease_id h"
    by (intro current_holders_equal) (auto simp: unresolved_def)
  with inv g h show "g = h" by (auto simp: lease_inv_def single_inv_def unresolved_def)
qed

lemma operation_exclusion_witness:
  "length (filter (\<lambda>g. gr_state g \<in> set UNRESOLVED \<and> lease_holds demo2 ''env'' (gr_lease_id g)) (db_grants demo2)) \<le> 1
   \<and> db_grants demo2 \<noteq> []"
  using operation_exclusion [OF demo_reachable2, of "''env''"] by (simp add: demo2_def)

section \<open>Fencing\<close>

lemma guard_stale:
  assumes "lease_view_of (lb_lease_id b) db = Some v"
    and "map_of (lb_generations b) \<noteq> map_of (v_current_generations v)"
  shows "fst (store_guard b n db) \<in> {refused ''schema_invalid'', refused ''lease_identity_mismatch''}"
proof -
  have "guard_decision g = refused ''lease_identity_mismatch''"
    if "gi_generations g = lb_generations b" "gi_current_generations g = v_current_generations v" for g
    using assms(2) that by (simp add: guard_decision_def dict_eq_iff)
  then show ?thesis
    using assms(1)
    by (auto simp: store_guard_def Let_def validate_generation_def guard_schema_presented
        split: sum.split)
qed

lemma v_current_of:
  "lease_view_of lid db = Some v \<Longrightarrow>
   v_current_generations v = generation_rows (map fst (v_generations v)) db"
  by (auto simp: lease_view_of_def Let_def split: option.splits)

lemma guard_superseded:
  assumes "map_of (lb_generations b) r = Some g" and "0 \<le> g" and "g < gen_of db r"
  shows "fst (store_guard b n db) \<in> {refused ''schema_invalid'', refused ''lease_identity_mismatch''}"
proof (cases "lease_view_of (lb_lease_id b) db")
  case None
  then show ?thesis by (simp add: store_guard_None)
next
  case (Some v)
  with assms have "map_of (v_current_generations v) r \<noteq> map_of (lb_generations b) r"
    by (auto simp: v_current_of map_of_generation_rows gen_of_def)
  with Some show ?thesis by (intro guard_stale) auto
qed

text \<open>C16. Fencing: once a resource is leased again, every bundle that carries an earlier
  generation of it is refused as a mismatch by the guard of heartbeat, release and
  \<open>consume_grant\<close>, whatever happens afterwards and at any clock value.\<close>

theorem superseded_bundle_refused:
  assumes "tx_reachable (lease_exec ok) (empty_db e) s"
    and "lease_exec ok (Acquire_many ow ro rs rq sb ttl now tok) s = Inr (reply1, s')"
    and "PStr r \<in> set rs"
    and "map_of (lb_generations b) r = Some g" and "0 \<le> g" and "g \<le> gen_of s r"
    and "tx_reachable (lease_exec ok) s' t"
  shows "fst (store_guard b n t) \<in> {refused ''schema_invalid'', refused ''lease_identity_mismatch''}"
proof (rule guard_superseded)
  have inv: "lease_inv s" using assms(1) by (rule reachable_lease_inv)
  obtain b' where acq: "acquire_locked ow ro rs rq sb ttl now tok s = Inr (b', s')"
    using assms(2) by (auto simp: lease_exec_def reply_eq_Inr acquire_many_def)
  from acq have "gen_of s' r = gen_of s r + 1"
    using assms(3) by (auto elim!: acquire_success simp: gen_of_acquired)
  moreover have "gen_of s' r \<le> gen_of t r"
    using lease_tx.reachable_le [OF assms(7) acquire_inv [OF inv acq]] by (simp add: lease_le_def)
  ultimately show "g < gen_of t r" using assms(6) by simp
qed (fact assms(4), fact assms(5))

lemma demo_reachable3: "tx_reachable (lease_exec ok) (empty_db ''epoch1'') demo3"
  by (rule tx_step) (rule demo_reachable2, rule demo_exec3)

lemma superseded_bundle_refused_witness:
  "fst (store_guard ann_bundle 201 demo4) \<in> {refused ''schema_invalid'', refused ''lease_identity_mismatch''}"
proof -
  have "map_of (lb_generations ann_bundle) ''repo'' = Some 1"
    by (simp add: ann_bundle_def demo_bundle_def)
  moreover have "gen_of demo3 ''repo'' = 1"
    by (simp add: gen_of_def demo3_def demo1_def)
  ultimately show ?thesis
    using superseded_bundle_refused [OF demo_reachable3 demo_step4 [unfolded bob_cmd_def],
        where r = "''repo''" and b = ann_bundle and g = 1 and t = demo4 and n = 201]
    by (simp add: tx_start)
qed

section \<open>Acquisition\<close>

lemma links_of_acquired:
  assumes "keys_inv db" and "token \<notin> lease_ids db"
  shows "map rr_resource (lease_resources_of token (acquired_db token row names n db)) = names"
proof -
  have "filter (\<lambda>rr. rr_lease_id rr = token) (db_lease_resources db) = []"
    using assms by (auto simp: filter_empty_conv dest: link_known)
  then show ?thesis
    by (simp add: lease_resources_of_def acquired_db_def Let_def new_links_def comp_def filter_map)
qed

lemma acquired_view:
  assumes "keys_inv db" and "token \<notin> lease_ids db" and "lr_lease_id row = token"
  shows "\<exists>v. lease_view_of token (acquired_db token row names n db) = Some v \<and> v_row v = row
    \<and> v_current_generations v = generation_rows names (acquired_db token row names n db) \<and> \<not> v_uncertain v"
proof -
  have "find_row lr_lease_id token (db_leases db) = None"
    using assms(2) by (simp add: find_row_None lease_ids_def)
  moreover have "map fst (map (\<lambda>rr. (rr_resource rr, rr_generation rr))
      (lease_resources_of token (acquired_db token row names n db))) = names"
    using links_of_acquired [OF assms(1,2)] by (simp add: comp_def)
  moreover have "\<not> (\<exists>g \<in> set (db_grants db). gr_lease_id g = token \<and> gr_state g = ''uncertain'')"
    using assms(1,2) by (auto simp: keys_inv_def)
  ultimately show ?thesis
    using assms(3) by (simp add: lease_view_of_def row_simps Let_def)
qed

lemma acquired_generations:
  assumes "lease_inv db" and "distinct names"
  shows "map_of (generation_rows names (acquired_db token row names n db)) r =
           (if r \<in> set names then Some (gen_of db r + 1) else None)"
    and "(r, g) \<in> set (generation_rows names (acquired_db token row names n db)) \<Longrightarrow>
           r \<in> set names \<and> 0 \<le> g"
proof -
  let ?rows = "generation_rows names (acquired_db token row names n db)"
  show rows: "map_of ?rows r = (if r \<in> set names then Some (gen_of db r + 1) else None)" for r
    using assms(2) by (simp add: map_of_generation_rows map_of_fold_bump gen_of_def split: option.splits)
  assume mem: "(r, g) \<in> set ?rows"
  have "distinct (map fst (fold bump_generation names (db_resources db)))"
    using assms(1) by (simp add: lease_inv_def keys_inv_def distinct_fold_bump)
  then have "distinct (map fst ?rows)"
    by (auto simp: generation_rows_def distinct_map intro: inj_on_subset)
  with mem have "map_of ?rows r = Some g" by simp
  moreover have "0 \<le> gen_of db r" using assms(1) by (simp add: lease_inv_def keys_inv_def)
  ultimately show "r \<in> set names \<and> 0 \<le> g" using rows [of r] by (auto split: if_splits)
qed

text \<open>A successful \<open>acquire_many\<close> raises the generation of exactly the requested
  resources by one, returns exactly those generations, and its bundle passes the guard in the
  database it commits.\<close>

theorem acquire_effect:
  assumes "tx_reachable (lease_exec ok) (empty_db e) s" and "lease_ident (db_epoch s)"
    and "acquire_many ow ro rs rq sb ttl (PInt n) tok s = Inr (b, s')"
  shows "gen_of s' r = gen_of s r + (if PStr r \<in> set rs then 1 else 0)
    \<and> map_of (lb_generations b) r = (if PStr r \<in> set rs then Some (gen_of s r + 1) else None)
    \<and> fst (store_guard b n s') = eligible"
proof -
  have inv: "lease_inv s" using assms(1) by (rule reachable_lease_inv)
  from assms(3) show ?thesis
    unfolding acquire_many_def
  proof (rule acquire_success)
    fix w p q d t m names
    assume names: "distinct names" "list_all lease_ident names" "set names = {r. PStr r \<in> set rs}"
      and now: "PInt n = PInt m" "0 \<le> m" "0 < t" and tok: "tok \<notin> lease_ids s" and w: "lease_ident w"
      and s': "s' = acquired_db tok (new_lease tok (db_epoch s) w p q d m t) names m s"
      and b: "b = \<lparr>lb_lease_id = tok, lb_epoch = db_epoch s, lb_owner = w, lb_role = p,
              lb_generations = generation_rows names s', lb_request_sha256 = q,
              lb_subject_sha256 = d, lb_expires_at = m + t\<rparr>"
    let ?row = "new_lease tok (db_epoch s) w p q d m t"
    note gens = acquired_generations [OF inv names(1), where token = tok and row = ?row and n = m, folded s']
    have "keys_inv s" "lr_lease_id ?row = tok" using inv by (simp_all add: lease_inv_def new_lease_def)
    from acquired_view [OF this(1) tok this(2), where names = names and n = m]
    obtain v where v: "lease_view_of tok s' = Some v" "v_row v = ?row"
        "v_current_generations v = generation_rows names s'" "\<not> v_uncertain v"
      unfolding s' by blast
    have "list_all (\<lambda>(r, g). lease_ident r \<and> 0 \<le> g) (generation_rows names s')"
      using gens(2) names(2) by (auto simp: list_all_iff)
    moreover have "db_epoch s' = db_epoch s" by (simp add: s')
    ultimately have "bundle_schema b n s' v" "bundle_valid b n s' v"
      using assms(2) v w now by (simp_all add: bundle_schema_def bundle_valid_def b new_lease_def live_at_def)
    moreover have "lb_lease_id b = tok" by (simp add: b)
    ultimately have "fst (store_guard b n s') = eligible"
      using v(1) by (auto simp: store_guard_eligible)
    moreover have "gen_of s' r = gen_of s r + (if r \<in> set names then 1 else 0)"
      using names(1) by (simp add: s' gen_of_acquired)
    ultimately show ?thesis
      using gens(1) [of r] names(3) by (simp add: b)
  qed
qed

lemma acquire_effect_witness:
  "gen_of demo4 ''repo'' = gen_of demo3 ''repo'' + 1 \<and> fst (store_guard bob_bundle 200 demo4) = eligible"
proof -
  have "acquire_many (PStr ''bob'') (PStr ''builder'') [PStr ''repo''] (PStr sha_a) (PStr sha_a)
      (PInt 10) (PInt 200) ''lease2'' demo3 = Inr (bob_bundle, demo4)"
    using demo_step4 by (auto simp: lease_exec_def bob_cmd_def reply_eq_Inr)
  moreover have "lease_ident (db_epoch demo3)" by (simp add: demo_eval)
  ultimately show ?thesis
    using acquire_effect [OF demo_reachable3, of "PStr ''bob''" "PStr ''builder''" "[PStr ''repo'']"
        "PStr sha_a" "PStr sha_a" "PInt 10" 200 "''lease2''" bob_bundle demo4 "''repo''"]
    by simp
qed

section \<open>One execution per operation key\<close>

lemma consume_existing:
  assumes "consume_grant b (PStr p) (PStr q) (PStr i) rq now tok db = Inr (r, db')"
    and "g \<in> set (db_grants db)" and "grant_key g = (p, q, i)" and "keys_inv db"
  shows "replay_grant g (gr_request_sha256 g) = Inr r"
  using assms(1)
proof (cases rule: consume_success)
  case (replay n h)
  then have "grant_key h = grant_key g" using assms(3) by (simp add: grant_key_def)
  with assms(2,4) replay have "h = g"
    by (auto simp: keys_inv_def dest: inj_onD [OF iffD1 [OF distinct_map, THEN conjunct2]])
  with replay show ?thesis by simp
next
  case (execute n p q s h)
  with assms(2,3) have False by (auto simp: find_row_None) (metis imageI)
  then show ?thesis ..
qed

text \<open>C17. An operation key (project, operation, request) executes at most once: after the call
  of \<open>consume_grant\<close> that returned \<open>execute\<close>, every later successful call with that key is
  a replay of the same grant and executes nothing, whatever else happened in between.\<close>

theorem execute_once:
  assumes "tx_reachable (lease_exec ok) (empty_db e) s"
    and "consume_grant b (PStr p) (PStr q) (PStr i) rq now tok s = Inr (r, s')" and "cr_execute r"
    and "tx_reachable (lease_exec ok) s' t"
    and "consume_grant c (PStr p) (PStr q) (PStr i) rq' now' tok' t = Inr (r', t')"
  shows "\<not> cr_execute r' \<and> cr_replayed r' \<and> cr_grant_id r' = cr_grant_id r"
proof -
  have inv: "lease_inv s" using assms(1) by (rule reachable_lease_inv)
  have inv': "lease_inv s'" using inv assms(2) by (rule consume_inv)
  have inv_t: "lease_inv t" using assms(4) inv' by (rule lease_tx.reachable_inv)
  from assms(2) obtain g where g: "g \<in> set (db_grants s')" "grant_key g = (p, q, i)"
      "gr_grant_id g = cr_grant_id r"
  proof (cases rule: consume_success)
    case (replay n g)
    with assms(3) show ?thesis by (auto simp: replay_grant_def split: if_splits)
  next
    case (execute n p' q' i' h)
    then show ?thesis
      by (intro that [of "started_grant tok (lb_lease_id b) (p, q, i) h n"])
         (auto simp: started_grant_def grant_key_def)
  qed
  have "kept_in grant_kept (db_grants s') (db_grants t)"
    using lease_tx.reachable_le [OF assms(4) inv'] by (simp add: lease_le_def)
  from kept_inD [OF this g(1)] obtain h where h: "h \<in> set (db_grants t)" "grant_kept g h" by blast
  then have "grant_key h = (p, q, i)" "gr_grant_id h = cr_grant_id r"
    using g by (auto simp: grant_kept_def)
  with consume_existing [OF assms(5) h(1)] inv_t show ?thesis
    by (auto simp: lease_inv_def replay_grant_def split: if_splits)
qed

lemma demo_replay4:
  "consume_grant bob_bundle (PStr ''proj'') (PStr ''op'') (PStr ''req'') (PStr sha_a) (PInt 201) ''g2'' demo4 =
   Inr (\<lparr>cr_grant_id = ''g1'', cr_state = ''observed_success'', cr_replayed = True,
         cr_result = Some (PDict []), cr_execute = False, cr_refused = None\<rparr>, demo4\<lparr>db_last_now := 201\<rparr>)"
  by (simp add: consume_grant_def demo_eval replay_grant_def grant_key_def)

lemma execute_once_witness:
  "\<exists>r t. consume_grant bob_bundle (PStr ''proj'') (PStr ''op'') (PStr ''req'') (PStr sha_a) (PInt 201) ''g2'' demo4 =
      Inr (r, t) \<and> \<not> cr_execute r \<and> cr_replayed r \<and> cr_grant_id r = ''g1''"
proof -
  have "tx_reachable (lease_exec (\<lambda>_. True)) (empty_db ''epoch1'') demo1"
    by (rule tx_step) (rule tx_start, rule demo_step1)
  from execute_once [OF this demo_step2 _ demo_run2 demo_replay4] demo_replay4 show ?thesis by simp
qed

text \<open>A terminal result is final: whatever happens after an operation was observed, a
  call of \<open>consume_grant\<close> with its key and request hash, from any caller, succeeds and returns
  exactly the recorded state and result, and changes nothing but the clock.\<close>

theorem terminal_replay:
  assumes "tx_reachable (lease_exec ok) (empty_db e) s" and "g \<in> set (db_grants s)"
    and "gr_state g = ''observed_success'' \<or> gr_state g = ''observed_failure''"
    and "tx_reachable (lease_exec ok) s t" and "0 \<le> n" and "db_last_now t \<le> n"
    and "lease_ident (gr_project g)" and "lease_ident (gr_semantic_operation g)"
    and "lease_ident (gr_request_id g)" and "hex_text 64 (gr_request_sha256 g)"
  shows "consume_grant c (PStr (gr_project g)) (PStr (gr_semantic_operation g)) (PStr (gr_request_id g))
           (PStr (gr_request_sha256 g)) (PInt n) tok t =
         Inr (\<lparr>cr_grant_id = gr_grant_id g, cr_state = gr_state g, cr_replayed = True,
               cr_result = gr_result g, cr_execute = False, cr_refused = None\<rparr>, t\<lparr>db_last_now := n\<rparr>)"
proof -
  have inv: "lease_inv s" using assms(1) by (rule reachable_lease_inv)
  have inv_t: "lease_inv t" using assms(4) inv by (rule lease_tx.reachable_inv)
  have "kept_in grant_kept (db_grants s) (db_grants t)"
    using lease_tx.reachable_le [OF assms(4) inv] by (simp add: lease_le_def)
  from kept_inD [OF this assms(2)] assms(3) have g: "g \<in> set (db_grants t)"
    by (auto simp: grant_kept_def grant_terminal_def)
  have "find_row grant_key (gr_project g, gr_semantic_operation g, gr_request_id g) (db_grants t) = Some g"
    using find_row_unique [of grant_key "db_grants t" g] inv_t g
    by (simp add: lease_inv_def keys_inv_def grant_key_def)
  then show ?thesis
    using assms(3,5-10) by (auto simp: consume_grant_def demo_checks lease_sha_def replay_grant_def)
qed

lemma terminal_replay_witness:
  "consume_grant ann_bundle (PStr ''proj'') (PStr ''op'') (PStr ''req'') (PStr sha_a) (PInt 300) ''g9'' demo4 =
   Inr (\<lparr>cr_grant_id = ''g1'', cr_state = ''observed_success'', cr_replayed = True,
         cr_result = Some (PDict []), cr_execute = False, cr_refused = None\<rparr>, demo4\<lparr>db_last_now := 300\<rparr>)"
proof -
  have h: "hex_text 64 sha_a"
    by (simp add: sha_a_def hex_text_replicate is_hex_char_def is_digit_char_def code_of_def)
  have run: "tx_reachable (lease_exec (\<lambda>_. True)) demo3 demo4"
    by (rule tx_step) (rule tx_start, rule demo_step4)
  show ?thesis
    using terminal_replay [OF demo_reachable3 _ _ run, of "hd (db_grants demo3)" 300 ann_bundle "''g9''"] h
    by (simp add: demo3_def demo4_def demo_grant_def started_grant_def demo_idents)
qed

section \<open>The clock and the guard\<close>

fun command_now :: "lease_cmd \<Rightarrow> pyval option" where
  "command_now (Acquire_many _ _ _ _ _ _ now _) = Some now"
| "command_now (Heartbeat _ _ now) = Some now"
| "command_now (Release _ now) = Some now"
| "command_now (Reap now) = Some now"
| "command_now (Consume_grant _ _ _ _ _ now _) = Some now"
| "command_now (Observe_operation _ _ _ now) = Some now"
| "command_now (Rotate_epoch _) = None"
| "command_now (Apply_migration _ _ _ _) = None"

lemma last_now_select [simp]:
  "db_last_now (heartbeat_db i e db) = db_last_now db"
  "db_last_now (ended_db i n reason db) = db_last_now db"
  by (simp_all add: heartbeat_db_def ended_db_def)

lemma last_now_reap: "db_last_now (fold (reap_one n) ids db) = db_last_now db"
  by (induction ids arbitrary: db) (simp_all add: reap_one_def)

lemma consume_clock:
  "consume_grant b pr op rid rq now tok db = Inr (r, t) \<Longrightarrow>
   \<exists>n. now = PInt n \<and> db_last_now db \<le> n \<and> db_last_now t = n"
proof -
  assume h: "consume_grant b pr op rid rq now tok db = Inr (r, t)"
  then obtain n where n: "now = PInt n" by (auto simp: consume_grant_def bindE_eq_Inr)
  from h show ?thesis
    unfolding n consume_grant_def
    by (auto simp: bindE_eq_Inr Let_def split_def split: option.splits)
qed

lemma heartbeat_clock:
  "heartbeat b ttl now db = Inr (r, t) \<Longrightarrow> \<exists>n. now = PInt n \<and> db_last_now db \<le> n \<and> db_last_now t = n"
  by (erule heartbeat_success) simp

lemma release_clock:
  "release b now db = Inr (r, t) \<Longrightarrow> \<exists>n. now = PInt n \<and> db_last_now db \<le> n \<and> db_last_now t = n"
  by (cases rule: release_success) auto

lemma reap_clock:
  "reap now db = Inr (r, t) \<Longrightarrow> \<exists>n. now = PInt n \<and> db_last_now db \<le> n \<and> db_last_now t = n"
  by (auto simp: reap_def bindE_eq_Inr Let_def last_now_reap)

lemma observe_clock:
  "observe_operation i out res now db = Inr (r, t) \<Longrightarrow>
   \<exists>n. now = PInt n \<and> db_last_now db \<le> n \<and> db_last_now t = n"
  by (auto simp: observe_operation_def bindE_eq_Inr split: option.splits)

lemma acquire_clock:
  "acquire_locked w ro rs rq sb ttl now tok db = Inr (r, t) \<Longrightarrow>
   \<exists>n. now = PInt n \<and> db_last_now db \<le> n \<and> db_last_now t = n"
  by (erule acquire_success) simp

lemmas command_clock =
  consume_clock heartbeat_clock release_clock reap_clock observe_clock acquire_clock

text \<open>The clock never runs back: a timed command commits only with a clock value that is
  an integer not before the last observed one, and that value is then the recorded one, also
  when the command commits a refusal.\<close>

theorem clock_monotone:
  assumes "lease_exec ok c db = Inr (r, t)" and "command_now c = Some v"
  shows "\<exists>n. v = PInt n \<and> db_last_now db \<le> n \<and> db_last_now t = n"
  using assms by (cases c) (auto simp: lease_exec_def reply_eq_Inr acquire_many_def dest: command_clock)

lemma clock_monotone_witness: "\<exists>n. PInt 106 = PInt n \<and> db_last_now demo2 \<le> n \<and> db_last_now demo3 = n"
  using clock_monotone [OF demo_exec3] by simp

text \<open>A well-formed heartbeat renews exactly when the presented bundle is well-formed and
  agrees with the store in epoch, owner, role, both hashes and every current generation, the
  lease is live and none of its operations is uncertain. It then moves exactly that lease's
  expiry; otherwise it commits nothing but the clock.\<close>

theorem heartbeat_exact:
  assumes "1 \<le> ttl" and "0 \<le> n" and "db_last_now db \<le> n"
  shows "\<exists>r. heartbeat b (PInt ttl) (PInt n) db =
      (if \<exists>v. lease_view_of (lb_lease_id b) (db\<lparr>db_last_now := n\<rparr>) = Some v
              \<and> bundle_schema b n (db\<lparr>db_last_now := n\<rparr>) v \<and> bundle_valid b n (db\<lparr>db_last_now := n\<rparr>) v
       then Inr (eligible, db\<lparr>db_last_now := n,
              db_leases := map (\<lambda>l. if lr_lease_id l = lb_lease_id b then l\<lparr>lr_expires_at := n + ttl\<rparr> else l)
                             (db_leases db)\<rparr>)
       else Inr (refused r, db\<lparr>db_last_now := n\<rparr>))"
proof -
  let ?g = "fst (store_guard b n (db\<lparr>db_last_now := n\<rparr>))"
  have hb: "heartbeat b (PInt ttl) (PInt n) db =
     (if ?g \<noteq> eligible then Inr (?g, db\<lparr>db_last_now := n\<rparr>)
      else Inr (?g, (db\<lparr>db_last_now := n\<rparr>)\<lparr>db_leases := update_row lr_lease_id (lb_lease_id b)
             (\<lambda>l. l\<lparr>lr_expires_at := n + ttl\<rparr>) (db_leases (db\<lparr>db_last_now := n\<rparr>))\<rparr>))"
    using assms by (simp add: heartbeat_def demo_checks Let_def store_guard_status)
  show ?thesis
    unfolding store_guard_eligible [symmetric] hb
    using store_guard_cases [of b n "db\<lparr>db_last_now := n\<rparr>"]
    by (cases "?g = eligible") (auto simp: update_row_def)
qed

lemma demo_view1_start: "lease_view_of ''lease1'' (demo1\<lparr>db_last_now := 104\<rparr>) =
    Some \<lparr>v_row = hd (db_leases demo1), v_generations = [(''env'', 1), (''repo'', 1)],
          v_current_generations = [(''env'', 1), (''repo'', 1)], v_uncertain = False, v_in_flight = False\<rparr>"
  by (simp add: demo_eval lease_view_of_def lease_resources_of_def)

lemma heartbeat_exact_witness:
  "heartbeat ann_bundle (PInt 20) (PInt 104) demo1 =
     Inr (eligible, demo1\<lparr>db_last_now := 104,
       db_leases := [(hd (db_leases demo1))\<lparr>lr_expires_at := 124\<rparr>]\<rparr>)"
proof -
  have "lb_lease_id ann_bundle = ''lease1''" by (simp add: demo_eval)
  moreover have "\<exists>v. lease_view_of ''lease1'' (demo1\<lparr>db_last_now := 104\<rparr>) = Some v
      \<and> bundle_schema ann_bundle 104 (demo1\<lparr>db_last_now := 104\<rparr>) v
      \<and> bundle_valid ann_bundle 104 (demo1\<lparr>db_last_now := 104\<rparr>) v"
    by (simp add: demo_view1_start) (simp add: bundle_schema_def bundle_valid_def demo_eval)
  moreover have "db_last_now demo1 \<le> 104"
    "db_leases demo1 = [new_lease ''lease1'' ''epoch1'' ''ann'' ''builder'' sha_a sha_a 100 10]"
    by (simp_all add: demo1_def)
  ultimately show ?thesis
    using heartbeat_exact [of 20 104 demo1 ann_bundle] by (simp add: new_lease_def)
qed

end
