(* ===== verification/Operational_Properties.thy ===== *)
theory Operational_Properties
  imports Operational_Safety Lease_Properties
begin

text \<open>
  The guarantees of \<open>factory_kernel/operational_state.py\<close> over every history of its methods and
  of the lease store's methods on the same database.
\<close>

section \<open>An example history\<close>

definition sha_const :: "string \<Rightarrow> string" where
  "sha_const s = sha_a"

definition demo_attempt :: "string \<Rightarrow> int \<Rightarrow> string option \<Rightarrow> string option \<Rightarrow> int \<Rightarrow> attempt_row" where
  "demo_attempt state version lease receipt updated =
     \<lparr>at_id = ''a1'', at_work_key = sha_a, at_project = ''proj'', at_number = 1, at_request = sha_a,
      at_state = state, at_version = version, at_lease = lease, at_receipt = receipt,
      at_envelope = (if lease = None then None else Some sha_a), at_result = None,
      at_created = 100000, at_updated = updated\<rparr>"

definition work1 :: op_db where
  "work1 = (empty_op_db ''epoch1'')\<lparr>od_work := [\<lparr>wk_key = sha_a, wk_project = ''proj'', wk_proposal = sha_a,
     wk_programme = sha_a, wk_sequence = 0, wk_priority = 1\<rparr>]\<rparr>"

definition work2 :: op_db where
  "work2 = work1\<lparr>od_attempts := [demo_attempt ''budget_pending'' 0 None None 100000],
     od_outbox := [new_outbox ''o1'' (Some ''a1'') ''proj'' ''budget_reserve'' sha_a 100000]\<rparr>"

definition work3 :: op_db where
  "work3 = work2\<lparr>od_attempts := [demo_attempt ''budget_pending'' 1 None (Some sha_a) 100001]\<rparr>"

definition lease_r :: lease_db where
  "lease_r = \<lparr>db_epoch = ''epoch1'', db_last_now = 100, db_resources = [(''repo'', 1)],
     db_leases = [new_lease ''lease1'' ''epoch1'' ''ann'' ''builder'' sha_a sha_a 100 10],
     db_lease_resources = [\<lparr>rr_lease_id = ''lease1'', rr_resource = ''repo'', rr_generation = 1\<rparr>],
     db_grants = [], db_migrations = []\<rparr>"

definition work4 :: op_db where
  "work4 = work3\<lparr>od_lease := lease_r,
     od_attempts := [demo_attempt ''reserved'' 2 (Some ''lease1'') (Some sha_a) 100002],
     od_outbox := [new_outbox ''o1'' (Some ''a1'') ''proj'' ''budget_reserve'' sha_a 100000,
                   new_outbox ''o2'' (Some ''a1'') ''proj'' ''dispatch'' sha_a 100002]\<rparr>"

definition work5 :: op_db where
  "work5 = work4\<lparr>od_attempts := [demo_attempt ''failed'' 3 (Some ''lease1'') (Some sha_a) 100003]\<rparr>"

lemma sha_a_hex: "hex_text 64 sha_a" "length sha_a = 64" "sha_a \<noteq> []"
  by (simp_all add: sha_a_def hex_text_replicate is_hex_char_def is_digit_char_def code_of_def)

lemma op_checks:
  "op_digest name (PStr sha_a) = Inr sha_a" "lease_ident s \<Longrightarrow> op_ident name (PStr s) = Inr s"
  "0 \<le> n \<Longrightarrow> op_ms name (PInt n) = Inr n" "m \<le> n \<Longrightarrow> op_number name m (PInt n) = Inr n"
  "lease_ident ''a1''" "expect_version (PInt v) v = Inr ()"
  by (simp_all add: sha_a_hex) code_simp

lemmas work_defs = work1_def work2_def work3_def work4_def work5_def empty_op_db_def empty_db_def
  demo_attempt_def new_outbox_def lease_r_def

lemmas schema_defs = schema_ok_def work_ok_def attempts_ok_def attempt_row_ok_def owning_def
  NONTERMINAL_OWNERSHIP_def TRANSITIONS_def outbox_ok_def OUTBOX_KINDS_def has_attempt_def
  registrations_ok_def wakeups_ok_def calls_ok_def sha_a_hex

lemma work_schema: "schema_ok work1" "schema_ok work2" "schema_ok work3" "schema_ok work4" "schema_ok work5"
  by (simp_all add: schema_defs work_defs new_lease_def)

lemma work_step1:
  "op_exec sha_const ok (Put_work (PStr sha_a) (PStr ''proj'') (PStr sha_a) (PStr sha_a) (PInt 0) (PInt 1))
     (empty_op_db ''epoch1'') = Inr (Key sha_a, work1)"
  using work_schema(1)
  by (simp add: reply_def put_work_def op_checks demo_idents row_simps commit_def work_defs)

lemma work_step2:
  "op_exec sha_const ok (Open_attempt (PStr sha_a) (PStr ''proj'') [] (PInt 100000) (PStr ''a1'') ''x'' ''o1'') work1 =
   Inr (Attempt (demo_attempt ''budget_pending'' 0 None None 100000), work2)"
  using work_schema(2)
  by (simp add: reply_def open_attempt_def op_checks demo_idents row_simps commit_def work_defs
      insert_outbox_def OUTBOX_KINDS_def canonical_request_sha256_def sha_const_def Let_def
      get_attempt_def next_number_def)

lemma work_step3:
  "op_exec sha_const ok (Record_receipt ''a1'' (PStr sha_a) (PInt 0) (PInt 100001)) work2 =
   Inr (Attempt (demo_attempt ''budget_pending'' 1 None (Some sha_a) 100001), work3)"
  using work_schema(3)
  by (simp add: reply_def record_budget_receipt_def locked_attempt_def op_checks row_simps commit_def
      work_defs get_attempt_def update_attempt_def update_row_def)

lemma acquire_r:
  "acquire_locked (PStr ''ann'') (PStr ''builder'') [PStr ''repo''] (PStr sha_a) (PStr sha_a) (PInt 10)
     (PInt 100) ''lease1'' (empty_db ''epoch1'') =
   Inr (demo_bundle ''lease1'' ''ann'' [(''repo'', 1)] 110, lease_r)"
  by (simp add: demo_eval lease_r_def)

lemma work_step4:
  "op_exec sha_const ok (Reserve ''a1'' (PInt 1) (PStr ''ann'') (PStr ''builder'') [PStr ''repo''] (PStr sha_a)
     (PStr sha_a) (PInt 10) (PInt 100002) ''lease1'' ''o2'') work3 =
   Inr (Reserved (demo_attempt ''reserved'' 2 (Some ''lease1'') (Some sha_a) 100002,
        demo_bundle ''lease1'' ''ann'' [(''repo'', 1)] 110), work4)"
  using work_schema(4)
  by (simp add: reply_def reserve_def locked_attempt_def op_checks row_simps commit_def seconds_of_def
      work_defs get_attempt_def update_attempt_def update_row_def sha_a_hex lease_step_def
      acquire_r [unfolded empty_db_def lease_r_def] insert_outbox_def OUTBOX_KINDS_def demo_idents demo_bundle_def)

lemma work_step5:
  "op_exec sha_const ok (Transition ''a1'' ''failed'' (PInt 2) (PInt 100003) PNone) work4 =
   Inr (Attempt (demo_attempt ''failed'' 3 (Some ''lease1'') (Some sha_a) 100003), work5)"
  using work_schema(5)
  by (simp add: reply_def transition_def locked_attempt_def op_checks row_simps commit_def op_opt_def
      work_defs get_attempt_def update_attempt_def update_row_def TRANSITIONS_def transition_allowed_def)

lemma work_reachable4: "tx_reachable (op_exec sha_const ok) (empty_op_db ''epoch1'') work4"
proof -
  have "tx_reachable (op_exec sha_const ok) (empty_op_db ''epoch1'') work1"
    by (rule tx_step) (rule tx_start, rule work_step1)
  then have "tx_reachable (op_exec sha_const ok) (empty_op_db ''epoch1'') work2"
    by (rule tx_step) (rule work_step2)
  then have "tx_reachable (op_exec sha_const ok) (empty_op_db ''epoch1'') work3"
    by (rule tx_step) (rule work_step3)
  then show ?thesis by (rule tx_step) (rule work_step4)
qed

lemma work_reachable5: "tx_reachable (op_exec sha_const ok) (empty_op_db ''epoch1'') work5"
  by (rule tx_step) (rule work_reachable4, rule work_step5)

section \<open>Ownership and the state machine\<close>

lemma owner_unique:
  assumes "op_inv db" and "a \<in> set (od_attempts db)" and "b \<in> set (od_attempts db)"
    and "owning a" and "owning b" and "at_project a = at_project b"
  shows "a = b"
proof -
  have "distinct (map at_project (filter owning (od_attempts db)))"
    using assms(1) by (simp add: op_inv_def schema_ok_def attempts_ok_def)
  with assms(2-) show ?thesis by (auto simp: distinct_map inj_on_def)
qed

lemma distinct_attempts: "op_inv db \<Longrightarrow> distinct (od_attempts db)"
  by (simp add: op_inv_def schema_ok_def attempts_ok_def distinct_map)

text \<open>C29. A project owns at most one attempt that is pending, reserved, dispatched, running or
  uncertain, in every database the methods can produce; and opening an attempt while another is
  owned is refused.\<close>

theorem one_owned_attempt:
  assumes "tx_reachable (op_exec sha ok) (empty_op_db e) db"
  shows "length (filter (\<lambda>a. at_project a = p \<and> owning a) (od_attempts db)) \<le> 1
    \<and> (filter (\<lambda>a. at_project a = p \<and> owning a) (od_attempts db) \<noteq> [] \<longrightarrow>
       (\<exists>err. open_attempt sha k (PStr p) rq n i tok ot db = Inl err))"
proof
  have inv: "op_inv db" using assms by (rule reachable_op_inv)
  show "length (filter (\<lambda>a. at_project a = p \<and> owning a) (od_attempts db)) \<le> 1"
    using distinct_attempts [OF inv] by (rule length_filter_le_1) (auto intro: owner_unique [OF inv])
  show "filter (\<lambda>a. at_project a = p \<and> owning a) (od_attempts db) \<noteq> [] \<longrightarrow>
       (\<exists>err. open_attempt sha k (PStr p) rq n i tok ot db = Inl err)"
  proof
    assume owned: "filter (\<lambda>a. at_project a = p \<and> owning a) (od_attempts db) \<noteq> []"
    show "\<exists>err. open_attempt sha k (PStr p) rq n i tok ot db = Inl err"
    proof (cases "open_attempt sha k (PStr p) rq n i tok ot db")
      case (Inr r)
      obtain a t where "r = (a, t)" by (cases r)
      with Inr have "open_attempt sha k (PStr p) rq n i tok ot db = Inr (a, t)" by simp
      then show ?thesis
        using owned by (auto elim!: open_attempt_success simp: filter_empty_conv)
    qed simp
  qed
qed

lemma one_owned_attempt_witness:
  "\<exists>err. open_attempt sha_const (PStr sha_a) (PStr ''proj'') [] (PInt 100009) PNone ''a2'' ''o9'' work4 = Inl err"
  using one_owned_attempt [OF work_reachable4, of "''proj''" "PStr sha_a" "[]" "PInt 100009" PNone "''a2''" "''o9''"]
  by (simp add: work_defs owning_def NONTERMINAL_OWNERSHIP_def)

text \<open>Terminal and stale attempts are final: a row in state succeeded, failed, cancelled or
  stale is in every later database exactly as it was.\<close>

theorem settled_final:
  assumes "tx_reachable (op_exec sha ok) (empty_op_db e) s" and "a \<in> set (od_attempts s)"
    and "at_state a \<in> {''succeeded'', ''failed'', ''cancelled'', ''stale''}"
    and "tx_reachable (op_exec sha ok) s t"
  shows "find_row at_id (at_id a) (od_attempts t) = Some a"
proof -
  have inv: "op_inv s" using assms(1) by (rule reachable_op_inv)
  have "kept_in attempt_kept (od_attempts s) (od_attempts t)"
    using op_tx.reachable_le [OF assms(4) inv] by (simp add: op_le_def)
  from kept_inD [OF this assms(2)] assms(3) have a: "a \<in> set (od_attempts t)"
    by (auto simp: attempt_kept_def settled_def)
  have "op_inv t" using assms(4) inv by (rule op_tx.reachable_inv)
  then have "distinct (map at_id (od_attempts t))" by (simp add: op_inv_def schema_ok_def attempts_ok_def)
  from find_row_unique [OF this a] show ?thesis .
qed

lemma settled_final_witness:
  "find_row at_id ''a1'' (od_attempts (run_tx (op_exec sha_const (\<lambda>_. True))
      [Transition ''a1'' ''running'' (PInt 3) (PInt 100010) PNone,
       Transition ''a1'' ''cancelled'' (PInt 3) (PInt 100011) PNone] work5))
   = Some (demo_attempt ''failed'' 3 (Some ''lease1'') (Some sha_a) 100003)"
proof -
  have "demo_attempt ''failed'' 3 (Some ''lease1'') (Some sha_a) 100003 \<in> set (od_attempts work5)"
    by (simp add: work_defs)
  moreover have "at_state (demo_attempt ''failed'' 3 (Some ''lease1'') (Some sha_a) 100003)
      \<in> {''succeeded'', ''failed'', ''cancelled'', ''stale''}" by (simp add: demo_attempt_def)
  moreover have id: "at_id (demo_attempt ''failed'' 3 (Some ''lease1'') (Some sha_a) 100003) = ''a1''"
    by (simp add: demo_attempt_def)
  ultimately show ?thesis
    using settled_final [OF work_reachable5 _ _ tx_reachable_run [OF tx_start]] unfolding id [symmetric] by blast
qed

text \<open>C30. A transition moves exactly one attempt, at the version the caller expected, along an
  edge of the state machine, and raises its version by one; and no later transition call of any
  history can reuse that expected version (no lost update).\<close>

theorem transition_guarded:
  assumes "tx_reachable (op_exec sha ok) (empty_op_db e) s"
    and "transition i to (PInt v) n r s = Inr (b, s')"
  shows "(\<exists>a. find_row at_id i (od_attempts s) = Some a \<and> at_version a = v
            \<and> transition_allowed (at_state a) to \<and> at_state b = to \<and> at_version b = v + 1
            \<and> od_attempts s' = update_row at_id i (\<lambda>_. b) (od_attempts s))
         \<and> (\<forall>t to' n' r'. tx_reachable (op_exec sha ok) s' t \<longrightarrow>
              (\<exists>err. transition i to' (PInt v) n' r' t = Inl err))"
proof
  have inv: "op_inv s" using assms(1) by (rule reachable_op_inv)
  have ids: "distinct (map at_id (od_attempts s))"
    using inv by (simp add: op_inv_def schema_ok_def attempts_ok_def)
  from assms(2) obtain a h m where a: "find_row at_id i (od_attempts s) = Some a" "at_version a = v"
      "transition_allowed (at_state a) to"
    and s': "s' = update_attempt i (\<lambda>a. a\<lparr>at_state := to,
              at_result := (case h of None \<Rightarrow> at_result a | Some h \<Rightarrow> Some h),
              at_version := at_version a + 1, at_updated := m\<rparr>) s"
    and b: "find_row at_id i (od_attempts s') = Some b"
    by (auto elim!: transition_success)
  have b_eq: "b = a\<lparr>at_state := to, at_result := (case h of None \<Rightarrow> at_result a | Some h \<Rightarrow> Some h),
              at_version := v + 1, at_updated := m\<rparr>"
    using a b by (simp add: s' update_attempt_def find_row_update)
  have rows: "od_attempts s' = update_row at_id i (\<lambda>_. b) (od_attempts s)"
    using find_row_unique [OF ids] a unfolding s' b_eq update_attempt_def update_row_def by auto
  show "\<exists>a. find_row at_id i (od_attempts s) = Some a \<and> at_version a = v
            \<and> transition_allowed (at_state a) to \<and> at_state b = to \<and> at_version b = v + 1
            \<and> od_attempts s' = update_row at_id i (\<lambda>_. b) (od_attempts s)"
    using a b_eq rows by auto
  have inv': "op_inv s'" using transition_step [OF inv assms(2)] by (simp add: op_step_def)
  show "\<forall>t to' n' r'. tx_reachable (op_exec sha ok) s' t \<longrightarrow>
              (\<exists>err. transition i to' (PInt v) n' r' t = Inl err)"
  proof (intro allI impI)
    fix t to' n' r'
    assume run: "tx_reachable (op_exec sha ok) s' t"
    have kept: "kept_in attempt_kept (od_attempts s') (od_attempts t)"
      using op_tx.reachable_le [OF run inv'] by (simp add: op_le_def)
    have "b \<in> set (od_attempts s')" "at_id b = i" using find_row_Some [OF b] by simp_all
    with kept_inD [OF kept] obtain c where c: "c \<in> set (od_attempts t)" "at_id c = i" "v < at_version c"
      using b_eq by (force simp: attempt_kept_def)
    have "op_inv t" using run inv' by (rule op_tx.reachable_inv)
    then have "distinct (map at_id (od_attempts t))" by (simp add: op_inv_def schema_ok_def attempts_ok_def)
    from find_row_unique [OF this c(1)] c have row: "find_row at_id i (od_attempts t) = Some c" by simp
    show "\<exists>err. transition i to' (PInt v) n' r' t = Inl err"
    proof (cases "transition i to' (PInt v) n' r' t")
      case (Inr p)
      obtain x u where "p = (x, u)" by (cases p)
      with Inr have "transition i to' (PInt v) n' r' t = Inr (x, u)" by simp
      then show ?thesis using row c(3) by (auto elim!: transition_success)
    qed simp
  qed
qed

lemma work_transition5:
  "transition ''a1'' ''failed'' (PInt 2) (PInt 100003) PNone work4 =
   Inr (demo_attempt ''failed'' 3 (Some ''lease1'') (Some sha_a) 100003, work5)"
  using work_step5 by (auto simp: reply_eq_Inr)

lemma transition_guarded_witness:
  "\<exists>err. transition ''a1'' ''cancelled'' (PInt 2) (PInt 100004) PNone work5 = Inl err"
proof -
  have "tx_reachable (op_exec sha_const (\<lambda>_. True)) work5 work5" by (rule tx_start)
  with transition_guarded [OF work_reachable4 [where ok = "\<lambda>_. True"] work_transition5]
  show ?thesis by blast
qed

section \<open>What an attempt rests on\<close>

text \<open>C31. An attempt that is reserved, dispatching, dispatched or running holds a recorded budget
  receipt, an envelope and the row of a lease that was acquired for its own request (which may have
  expired since), and the outbox holds the dispatch of exactly that envelope; every attempt has its budget request in the outbox, so
  recovery finds the intent of every step that committed.\<close>

theorem reserved_backed:
  assumes "tx_reachable (op_exec sha ok) (empty_op_db e) db" and "a \<in> set (od_attempts db)"
  shows "(\<exists>r \<in> set (od_outbox db). ob_attempt r = Some (at_id a) \<and> ob_kind r = ''budget_reserve''
            \<and> ob_payload r = at_request a)
    \<and> (at_state a \<in> {''reserved'', ''dispatching'', ''dispatched'', ''running''} \<longrightarrow>
        (\<exists>i env l. at_lease a = Some i \<and> at_envelope a = Some env \<and> at_receipt a \<noteq> None
          \<and> l \<in> set (db_leases (od_lease db)) \<and> lr_lease_id l = i \<and> lr_request_sha256 l = at_request a
          \<and> (\<exists>r \<in> set (od_outbox db). ob_attempt r = Some (at_id a) \<and> ob_kind r = ''dispatch''
                \<and> ob_payload r = env)))"
proof -
  have inv: "op_inv db" using assms(1) by (rule reachable_op_inv)
  have link: "link_ok db a" using inv assms(2) by (simp add: op_inv_def)
  have "attempt_row_ok db a"
    using inv assms(2) by (simp add: op_inv_def schema_ok_def attempts_ok_def list_all_iff)
  then have "at_lease a \<noteq> None \<and> at_receipt a \<noteq> None \<and> at_envelope a \<noteq> None"
    if "at_state a \<in> {''reserved'', ''dispatching'', ''dispatched'', ''running''}"
    using that unfolding attempt_row_ok_def by blast
  with link show ?thesis unfolding link_ok_def by fast
qed

lemma reserved_backed_witness:
  "\<exists>l \<in> set (db_leases (od_lease work4)). lr_request_sha256 l = sha_a"
proof -
  have "demo_attempt ''reserved'' 2 (Some ''lease1'') (Some sha_a) 100002 \<in> set (od_attempts work4)"
    by (simp add: work_defs)
  from reserved_backed [OF work_reachable4 this] show ?thesis by (auto simp: demo_attempt_def)
qed

lemma downward_closed_interval:
  assumes "finite S" and "\<And>x. x \<in> S \<Longrightarrow> 1 \<le> (x::int)"
    and "\<And>x m. x \<in> S \<Longrightarrow> 1 \<le> m \<Longrightarrow> m \<le> x \<Longrightarrow> m \<in> S"
  shows "S = {1..int (card S)}"
proof (cases "S = {}")
  case False
  have top: "Max S \<in> S" using assms(1) False by (rule Max_in)
  have S: "S = {1..Max S}"
  proof (rule set_eqI)
    fix x
    show "x \<in> S \<longleftrightarrow> x \<in> {1..Max S}"
      using assms(2) [of x] assms(3) [OF top, of x] Max_ge [OF assms(1), of x] by auto
  qed
  then have "card S = card {1..Max S}" by simp
  then have "int (card S) = Max S" using assms(2) [OF top] by simp
  with S show ?thesis by simp
qed simp

text \<open>The attempts of one work item are numbered 1, 2, ..., n without gaps or repeats.\<close>

theorem attempt_numbers:
  assumes "tx_reachable (op_exec sha ok) (empty_op_db e) db"
  shows "distinct (map at_number (filter (\<lambda>a. at_work_key a = k) (od_attempts db)))
    \<and> set (map at_number (filter (\<lambda>a. at_work_key a = k) (od_attempts db))) =
      {1 .. int (length (filter (\<lambda>a. at_work_key a = k) (od_attempts db)))}"
proof -
  let ?as = "filter (\<lambda>a. at_work_key a = k) (od_attempts db)"
  have inv: "op_inv db" using assms by (rule reachable_op_inv)
  have "distinct (map (\<lambda>a. (at_work_key a, at_number a)) (od_attempts db))"
    using inv by (simp add: op_inv_def schema_ok_def attempts_ok_def)
  then have d: "distinct (map at_number ?as)" by (auto simp: distinct_map inj_on_def)
  have "set (map at_number ?as) = {1 .. int (card (set (map at_number ?as)))}"
  proof (rule downward_closed_interval)
    show "1 \<le> x" if "x \<in> set (map at_number ?as)" for x
      using that inv by (auto simp: op_inv_def schema_ok_def attempts_ok_def list_all_iff attempt_row_ok_def)
    show "m \<in> set (map at_number ?as)" if "x \<in> set (map at_number ?as)" "1 \<le> m" "m \<le> x" for x m
    proof -
      from that(1) obtain a where a: "a \<in> set (od_attempts db)" "at_work_key a = k" "x = at_number a" by auto
      with inv have "link_ok db a" by (simp add: op_inv_def)
      with a that show ?thesis by (force simp: link_ok_def)
    qed
  qed simp
  moreover have "card (set (map at_number ?as)) = length ?as"
    using distinct_card [OF d] by simp
  ultimately show ?thesis using d by simp
qed

lemma attempt_numbers_witness:
  "set (map at_number (filter (\<lambda>a. at_work_key a = sha_a) (od_attempts work4))) = {1 .. 1}"
  using attempt_numbers [OF work_reachable4, of sha_a] by (simp add: work_defs)

section \<open>Once-only effects\<close>

text \<open>An envelope is consumed by one executor: once a run has registered for an attempt, a
  registration of the same attempt by a different repository, run, run attempt or token is
  refused in every later database.\<close>

theorem register_once:
  assumes "tx_reachable (op_exec sha ok) (empty_op_db e) s"
    and "register_executor (PStr i) rp rn (PInt ra) (PStr tok) ev cr x n t1 s = Inr (g, s')"
    and "tx_reachable (op_exec sha ok) s' t"
    and "(rp', rn', ra', tok') \<noteq> (rp, rn, ra, tok)"
  shows "\<exists>err. register_executor (PStr i) rp' rn' (PInt ra') (PStr tok') ev' cr' x' n' t2 t = Inl err"
proof -
  have inv: "op_inv s" using assms(1) by (rule reachable_op_inv)
  have inv': "op_inv s'" using register_executor_step [OF inv assms(2)] by (simp add: op_step_def)
  have inv_t: "op_inv t" using assms(3) inv' by (rule op_tx.reachable_inv)
  from assms(2) obtain h where h: "h \<in> set (od_registrations s')" "rg_attempt h = i"
      "registered_run h rp rn (PInt ra) (PStr tok)"
    by (cases rule: register_executor_success) auto
  have "kept_in registration_kept (od_registrations s') (od_registrations t)"
    using op_tx.reachable_le [OF assms(3) inv'] by (simp add: op_le_def)
  from kept_inD [OF this h(1)] h(2,3) obtain k where k: "k \<in> set (od_registrations t)" "rg_attempt k = i"
      "registered_run k rp rn (PInt ra) (PStr tok)"
    by (auto simp: registration_kept_def registered_run_def)
  have unique: "c = k" if "c \<in> set (od_registrations t)" "rg_attempt c = i" for c
    using inv_t that k(1,2)
    by (auto simp: op_inv_def schema_ok_def registrations_ok_def distinct_map inj_on_def)
  show ?thesis
  proof (cases "register_executor (PStr i) rp' rn' (PInt ra') (PStr tok') ev' cr' x' n' t2 t")
    case (Inr p)
    obtain b u where "p = (b, u)" by (cases p)
    with Inr have "register_executor (PStr i) rp' rn' (PInt ra') (PStr tok') ev' cr' x' n' t2 t = Inr (b, u)"
      by simp
    then show ?thesis
    proof (cases rule: register_executor_success)
      case (same c)
      with unique [of c] k(3) assms(4) show ?thesis by (auto simp: registered_run_def)
    next
      case (added j a c)
      with k show ?thesis by (auto simp: find_row_None)
    qed
  qed simp
qed

definition sha_c :: string where
  "sha_c = replicate 64 CHR ''c''"

definition demo_registration :: registration_row where
  "demo_registration = \<lparr>rg_id = ''r1'', rg_attempt = ''a1'', rg_repository = ''repo'', rg_run = ''7'',
     rg_run_attempt = 1, rg_token = sha_a, rg_envelope = sha_a, rg_credential = sha_a,
     rg_expires = 100900, rg_heartbeat = 100003, rg_revoked = False\<rparr>"

lemma work_register:
  "register_executor (PStr ''a1'') ''repo'' ''7'' (PInt 1) (PStr sha_a) (PStr sha_a) (PStr sha_a)
     (PInt 100900) (PInt 100003) ''r1'' work4 =
   Inr (demo_registration, work4\<lparr>od_registrations := [demo_registration]\<rparr>)"
proof -
  have "schema_ok (work4\<lparr>od_registrations := [demo_registration]\<rparr>)"
    by (simp add: schema_defs work_defs new_lease_def demo_registration_def)
  then show ?thesis
    by (simp add: register_executor_def op_checks row_simps commit_def get_attempt_def
        get_registration_def work_defs demo_registration_def)
qed

lemma register_once_witness:
  "\<exists>err. register_executor (PStr ''a1'') ''repo'' ''8'' (PInt 1) (PStr sha_a) (PStr sha_a) (PStr sha_a)
     (PInt 100900) (PInt 100003) ''r2'' (work4\<lparr>od_registrations := [demo_registration]\<rparr>) = Inl err"
proof -
  have "tx_reachable (op_exec sha_const (\<lambda>_. True)) (work4\<lparr>od_registrations := [demo_registration]\<rparr>)
      (work4\<lparr>od_registrations := [demo_registration]\<rparr>)" by (rule tx_start)
  from register_once [OF work_reachable4 work_register this] show ?thesis by simp
qed

text \<open>Delivery is idempotent: once an outbox row is recorded as delivered, presenting the same
  receipt again at that version changes nothing and returns the row, and any other receipt is
  refused, in every later database.\<close>

theorem delivery_final:
  assumes "tx_reachable (op_exec sha ok) (empty_op_db e) s" and "r \<in> set (od_outbox s)"
    and "ob_state r = ''delivered''" and "tx_reachable (op_exec sha ok) s t" and "hex_text 64 h"
  shows "record_delivery (ob_id r) (PStr h) (PInt (ob_version r)) t =
    (if ob_receipt r = Some h then Inr (r, t) else Inl (Op_conflict ''receipt''))"
proof -
  have inv: "op_inv s" using assms(1) by (rule reachable_op_inv)
  have inv_t: "op_inv t" using assms(4) inv by (rule op_tx.reachable_inv)
  have "kept_in outbox_kept (od_outbox s) (od_outbox t)"
    using op_tx.reachable_le [OF assms(4) inv] by (simp add: op_le_def)
  from kept_inD [OF this assms(2)] assms(3) have r: "r \<in> set (od_outbox t)"
    by (auto simp: outbox_kept_def)
  have "distinct (map ob_id (od_outbox t))" using inv_t by (simp add: op_inv_def schema_ok_def outbox_ok_def)
  from find_row_unique [OF this r] have "find_row ob_id (ob_id r) (od_outbox t) = Some r" .
  then show ?thesis
    using assms(3,5)
    by (simp add: record_delivery_def op_digest_def locked_outbox_def get_outbox_def expect_version_def)
qed

definition work6 :: op_db where
  "work6 = work4\<lparr>od_outbox := [new_outbox ''o1'' (Some ''a1'') ''proj'' ''budget_reserve'' sha_a 100000,
     (new_outbox ''o2'' (Some ''a1'') ''proj'' ''dispatch'' sha_a 100002)\<lparr>ob_state := ''delivered'',
        ob_receipt := Some sha_a, ob_version := 1\<rparr>]\<rparr>"

lemma work_step6:
  "op_exec sha_const ok (Record_delivery ''o2'' (PStr sha_a) (PInt 0)) work4 =
   Inr (Outbox ((new_outbox ''o2'' (Some ''a1'') ''proj'' ''dispatch'' sha_a 100002)\<lparr>ob_state := ''delivered'',
        ob_receipt := Some sha_a, ob_version := 1\<rparr>), work6)"
proof -
  have "schema_ok work6" by (simp add: work6_def schema_defs work_defs new_lease_def)
  then show ?thesis
    by (simp add: reply_def record_delivery_def op_checks locked_outbox_def get_outbox_def row_simps
        commit_def update_outbox_def update_row_def work6_def work_defs)
qed

lemma delivery_final_witness:
  "record_delivery ''o2'' (PStr sha_c) (PInt 1) work6 = Inl (Op_conflict ''receipt'')"
proof -
  let ?r = "(new_outbox ''o2'' (Some ''a1'') ''proj'' ''dispatch'' sha_a 100002)\<lparr>ob_state := ''delivered'',
        ob_receipt := Some sha_a, ob_version := 1\<rparr>"
  have reach: "tx_reachable (op_exec sha_const (\<lambda>_. True)) (empty_op_db ''epoch1'') work6"
    by (rule tx_step) (rule work_reachable4, rule work_step6)
  have run: "tx_reachable (op_exec sha_const (\<lambda>_. True)) work6 work6" by (rule tx_start)
  have r: "?r \<in> set (od_outbox work6)" by (simp add: work6_def)
  have h: "hex_text 64 sha_c"
    by (simp add: sha_c_def hex_text_replicate is_hex_char_def is_digit_char_def code_of_def)
  have "sha_a \<noteq> sha_c" by (simp add: sha_a_def sha_c_def replicate_eq_replicate)
  with delivery_final [OF reach r _ run h] show ?thesis by (simp add: new_outbox_def)
qed

end
