(* ===== verification/Project_Journal.thy ===== *)
theory Project_Journal
  imports Programme
begin

text \<open>
  The append-only project journal: \<open>factory_kernel/project_events.py\<close> over the history file of
  \<open>IntentStore\<close> in \<open>factory_kernel/frontdoor_intent.py\<close>. A history is the list of JSON events of
  one project's file. The lock makes each operation one step; \<open>append\<close> returns the new history
  or refuses and leaves the file as it was. The clock value stamped on an event is an argument,
  and the hash function is the parameter \<open>sha\<close>.
\<close>

section \<open>Principals and registered operations\<close>

datatype intent_error =
    I_principal
  | I_role string
  | I_operation string
  | I_shape
  | I_text
  | I_version
  | I_stale
  | I_conflict
  | I_capacity
  | I_unverified
  | I_project
  | I_refused string
  | I_corrupt
  | I_programme programme_error

record principal =
  pr_identity :: string
  pr_role :: string

record intent_store =
  is_project :: string
  is_repository :: string
  is_owner :: string

record operation_spec =
  os_operation :: string
  os_roles :: "string list"
  os_replay :: "pyval \<Rightarrow> pyval \<Rightarrow> bool"

definition i_shape :: "string list \<Rightarrow> pyval \<Rightarrow> intent_error + unit" where
  "i_shape ks v =
     (case v of PDict d \<Rightarrow> ensure (same_set (map fst d) ks) I_shape | _ \<Rightarrow> Inl I_shape)"

definition i_text :: "nat \<Rightarrow> pyval \<Rightarrow> intent_error + string" where
  "i_text limit v =
     (case v of PStr s \<Rightarrow> if blank s \<or> limit < length s then Inl I_text else Inr s | _ \<Rightarrow> Inl I_text)"

definition i_nat :: "pyval \<Rightarrow> intent_error + int" where
  "i_nat v = (case v of PInt n \<Rightarrow> if n < 0 then Inl I_version else Inr n | _ \<Rightarrow> Inl I_version)"

lemma i_shape_eq [simp]: "i_shape ks v = Inr u \<longleftrightarrow> (\<exists>d. v = PDict d \<and> set (map fst d) = set ks)"
  by (cases v) (auto simp: i_shape_def)

lemma i_text_eq [simp]: "i_text n v = Inr s \<longleftrightarrow> v = PStr s \<and> \<not> blank s \<and> length s \<le> n"
  by (cases v) (auto simp: i_text_def)

lemma i_nat_eq [simp]: "i_nat v = Inr n \<longleftrightarrow> v = PInt n \<and> 0 \<le> n"
  by (cases v) (auto simp: i_nat_def)

definition authorize :: "intent_store \<Rightarrow> principal \<Rightarrow> intent_error + unit" where
  "authorize st p =
     bindE (ensure (pr_identity p \<noteq> []) I_principal) (\<lambda>_.
     bindE (ensure (\<not> (pr_role p = ''owner'' \<and> pr_identity p \<noteq> is_owner st)) I_principal) (\<lambda>_.
     ensure (pr_role p \<in> {''owner'', ''proposal''}) (I_role (pr_role p))))"

definition authenticate :: "intent_store \<Rightarrow> operation_spec list \<Rightarrow> principal \<Rightarrow> intent_error + unit" where
  "authenticate st registry p =
     bindE (ensure (pr_identity p \<noteq> []) I_principal) (\<lambda>_.
     if pr_role p \<in> {''owner'', ''proposal''} then authorize st p
     else ensure (pr_role p \<in> set (concat (map os_roles registry))) (I_role (pr_role p)))"

section \<open>Events and the chain\<close>

definition MAX_EVENTS :: nat where
  "MAX_EVENTS = 10000"

definition MAX_HISTORY_BYTES :: nat where
  "MAX_HISTORY_BYTES = 16 * 1024 * 1024"

definition project_id :: "string \<Rightarrow> bool" where
  "project_id s \<longleftrightarrow> (case s of [] \<Rightarrow> False
     | c # cs \<Rightarrow> 97 \<le> code_of c \<and> code_of c \<le> 122 \<and> length cs \<le> 63
         \<and> list_all (\<lambda>x. (97 \<le> code_of x \<and> code_of x \<le> 122) \<or> is_digit_char x \<or> x = CHR ''-'') cs)"

definition actor_value :: "principal \<Rightarrow> pyval" where
  "actor_value p = PDict [(''identity'', PStr (pr_identity p)), (''role'', PStr (pr_role p))]"

definition make_event :: "intent_store \<Rightarrow> string \<Rightarrow> int \<Rightarrow> string \<Rightarrow> pyval \<Rightarrow> principal \<Rightarrow> string \<Rightarrow> pyval \<Rightarrow> pyval" where
  "make_event st key version operation payload p now previous =
     PDict [(''schema'', PStr ''dark-factory/intent-event''), (''schema_version'', PStr ''1.0''),
       (''project'', PStr (is_project st)), (''repository'', PStr (is_repository st)),
       (''project_version'', PInt (version + 1)),
       (''command'', PDict [(''idempotency_key'', PStr key), (''expected_project_version'', PInt version),
          (''operation'', PStr operation), (''payload'', payload)]),
       (''actor'', actor_value p), (''created_at'', PStr now), (''previous'', previous)]"

definition ev_version :: "pyval \<Rightarrow> pyval" where
  "ev_version e = py_field e ''project_version''"

definition ev_key :: "pyval \<Rightarrow> pyval" where
  "ev_key e = py_field (py_field e ''command'') ''idempotency_key''"

definition ev_operation :: "pyval \<Rightarrow> pyval" where
  "ev_operation e = py_field (py_field e ''command'') ''operation''"

definition ev_payload :: "pyval \<Rightarrow> pyval" where
  "ev_payload e = py_field (py_field e ''command'') ''payload''"

definition ev_actor :: "pyval \<Rightarrow> pyval" where
  "ev_actor e = py_field e ''actor''"

lemma make_event_fields [simp]:
  "ev_version (make_event st k v o1 p pr now prev) = PInt (v + 1)"
  "ev_key (make_event st k v o1 p pr now prev) = PStr k"
  "ev_operation (make_event st k v o1 p pr now prev) = PStr o1"
  "ev_payload (make_event st k v o1 p pr now prev) = p"
  "ev_actor (make_event st k v o1 p pr now prev) = actor_value pr"
  by (simp_all add: make_event_def py_field_def py_get_def ev_version_def ev_key_def ev_operation_def
      ev_payload_def ev_actor_def)

text \<open>The chain rule of \<open>_read\<close> and \<open>verify_chain\<close>, from version \<open>n\<close> and hash \<open>previous\<close> on.\<close>

definition event_shape :: "string list" where
  "event_shape = [''schema'', ''schema_version'', ''project'', ''repository'', ''project_version'',
     ''command'', ''actor'', ''created_at'', ''previous'']"

definition event_follows :: "string \<Rightarrow> string \<Rightarrow> int \<Rightarrow> pyval \<Rightarrow> pyval \<Rightarrow> bool" where
  "event_follows project repository version previous e \<longleftrightarrow>
     i_shape event_shape e = Inr ()
     \<and> py_eq (py_field e ''project_version'') (PInt version) \<and> py_eq (py_field e ''previous'') previous
     \<and> py_eq (py_field e ''project'') (PStr project) \<and> py_eq (py_field e ''repository'') (PStr repository)
     \<and> py_eq (py_field e ''schema'') (PStr ''dark-factory/intent-event'')
     \<and> py_eq (py_field e ''schema_version'') (PStr ''1.0'')"

fun chain_from :: "(string \<Rightarrow> string) \<Rightarrow> string \<Rightarrow> string \<Rightarrow> int \<Rightarrow> pyval \<Rightarrow> pyval list \<Rightarrow> bool" where
  "chain_from sha project repository version previous [] \<longleftrightarrow> True"
| "chain_from sha project repository version previous (e # es) \<longleftrightarrow>
     event_follows project repository version previous e
     \<and> chain_from sha project repository (version + 1) (PStr (sha256_value sha e)) es"

definition verify_chain :: "(string \<Rightarrow> string) \<Rightarrow> string \<Rightarrow> string \<Rightarrow> pyval list \<Rightarrow> intent_error + unit" where
  "verify_chain sha project repository events =
     bindE (ensure (length events \<le> MAX_EVENTS) I_capacity) (\<lambda>_.
     ensure (chain_from sha project repository 1 PNone events) I_unverified)"

text \<open>\<open>_locked\<close> and \<open>_read\<close>: the verified history of the project's file.\<close>

definition read_history :: "(string \<Rightarrow> string) \<Rightarrow> intent_store \<Rightarrow> pyval list \<Rightarrow> intent_error + pyval list" where
  "read_history sha st events =
     bindE (ensure (project_id (is_project st)) I_project) (\<lambda>_.
     bindE (ensure (utf8_length (canonical_bytes (PList events)) \<le> MAX_HISTORY_BYTES) I_unverified) (\<lambda>_.
     bindE (verify_chain sha (is_project st) (is_repository st) events) (\<lambda>_. Inr events)))"

definition write_history :: "pyval list \<Rightarrow> intent_error + pyval list" where
  "write_history events =
     (if MAX_HISTORY_BYTES < utf8_length (canonical_bytes (PList events)) \<or> MAX_EVENTS < length events
      then Inl I_capacity else Inr events)"

section \<open>Reads\<close>

definition read_events :: "(string \<Rightarrow> string) \<Rightarrow> intent_store \<Rightarrow> operation_spec list \<Rightarrow> principal \<Rightarrow> pyval list
    \<Rightarrow> intent_error + pyval list" where
  "read_events sha st registry p events =
     bindE (authenticate st registry p) (\<lambda>_. read_history sha st events)"

record event_page =
  ep_version :: int
  ep_after :: int
  ep_events :: "pyval list"
  ep_next :: "int option"
  ep_status :: string

definition page :: "(string \<Rightarrow> string) \<Rightarrow> intent_store \<Rightarrow> operation_spec list \<Rightarrow> principal \<Rightarrow> pyval \<Rightarrow> pyval \<Rightarrow> pyval list
    \<Rightarrow> intent_error + event_page" where
  "page sha st registry p after_version limit events =
     bindE (i_nat after_version) (\<lambda>a.
     bindE (case limit of PInt n \<Rightarrow> if 1 \<le> n \<and> n \<le> 200 then Inr n else Inl I_version | _ \<Rightarrow> Inl I_version) (\<lambda>n.
     bindE (authenticate st registry p) (\<lambda>_.
     bindE (read_history sha st events) (\<lambda>es.
     let version = int (length es) in
     if version < a then Inr \<lparr>ep_version = version, ep_after = a, ep_events = [], ep_next = None,
                              ep_status = ''cursor_ahead''\<rparr>
     else let rows = take (nat n) (drop (nat a) es); last = a + int (length rows) in
       Inr \<lparr>ep_version = version, ep_after = a, ep_events = rows,
            ep_next = (if last < version then Some last else None), ep_status = ''ok''\<rparr>))))"

section \<open>The append primitive\<close>

record event_append =
  ea_version :: int
  ea_sha256 :: string
  ea_replayed :: bool
  ea_event :: pyval
  ea_index :: nat

fun find_key :: "string \<Rightarrow> pyval list \<Rightarrow> nat \<Rightarrow> (nat \<times> pyval) option" where
  "find_key key [] i = None"
| "find_key key (e # es) i = (if ev_key e = PStr key then Some (i, e) else find_key key es (i + 1))"

definition find_spec :: "string \<Rightarrow> operation_spec list \<Rightarrow> operation_spec option" where
  "find_spec operation registry = List.find (\<lambda>s. os_operation s = operation) registry"

definition last_hash :: "(string \<Rightarrow> string) \<Rightarrow> pyval list \<Rightarrow> pyval" where
  "last_hash sha events = (if events = [] then PNone else PStr (sha256_value sha (last events)))"

definition append_event ::
  "(string \<Rightarrow> string) \<Rightarrow> intent_store \<Rightarrow> operation_spec list \<Rightarrow> principal \<Rightarrow> pyval \<Rightarrow> pyval \<Rightarrow> string \<Rightarrow> pyval
   \<Rightarrow> (pyval list \<Rightarrow> intent_error + pyval) \<Rightarrow> string \<Rightarrow> pyval list \<Rightarrow> intent_error + event_append \<times> pyval list" where
  "append_event sha st registry p expected idempotency_key operation payload validate now history =
     (case find_spec operation registry of
        None \<Rightarrow> Inl (I_operation operation)
      | Some spec \<Rightarrow>
     bindE (authenticate st registry p) (\<lambda>_.
     bindE (ensure (pr_role p \<in> set (os_roles spec)) (I_role (pr_role p))) (\<lambda>_.
     bindE (i_text 100 idempotency_key) (\<lambda>key.
     bindE (i_nat expected) (\<lambda>version.
     bindE (ensure (length (canonical_bytes payload) \<le> 250000) (I_programme P_capacity)) (\<lambda>_.
     bindE (read_history sha st history) (\<lambda>events.
     case find_key key events 0 of
       Some (i, e) \<Rightarrow>
         bindE (ensure (ev_operation e = PStr operation \<and> py_eq (ev_actor e) (actor_value p)
                        \<and> os_replay spec (ev_payload e) payload) I_conflict) (\<lambda>_.
         Inr (\<lparr>ea_version = int (length events), ea_sha256 = sha256_value sha e, ea_replayed = True,
               ea_event = e, ea_index = i\<rparr>, history))
     | None \<Rightarrow>
         bindE (ensure (version = int (length events)) I_stale) (\<lambda>_.
         bindE (validate events) (\<lambda>appended.
         let e = make_event st key (int (length events)) operation appended p now (last_hash sha events) in
         bindE (ensure (length events + 1 \<le> MAX_EVENTS) I_capacity) (\<lambda>_.
         bindE (write_history (events @ [e])) (\<lambda>written.
         Inr (\<lparr>ea_version = int (length written), ea_sha256 = sha256_value sha e, ea_replayed = False,
               ea_event = e, ea_index = length written - 1\<rparr>, written))))))))))))"

end
