(* ===== verification/Programme_Transition.thy ===== *)
theory Programme_Transition
  imports Project_Journal
begin

text \<open>
  The phase machine of a governed programme replacement,
  \<open>factory_kernel/programme_transition.py\<close>, and its receipts in the project journal,
  \<open>factory_kernel/transition_journal.py\<close>. Phases and events are the source's strings; an
  uncertain request is the request phase with the suffix \<open>:uncertain\<close>. A receipt is the JSON
  payload that is stored.
\<close>

section \<open>Phases\<close>

datatype transition_error =
    T_phase string
  | T_uncertain string
  | T_terminal
  | T_event string
  | T_stop string
  | T_order string string
  | T_identity string
  | T_observation

definition PHASES :: "string list" where
  "PHASES = [''reviewed'', ''fence_requested'', ''fenced'', ''draining'', ''drained'', ''reconciled'',
     ''predecessor_retired'', ''successor_requested'', ''successor_observed'', ''release_requested'', ''released'']"

definition RECONCILIATION_REQUIRED :: string where
  "RECONCILIATION_REQUIRED = ''reconciliation_required''"

definition UNCERTAIN_SUFFIX :: string where
  "UNCERTAIN_SUFFIX = '':uncertain''"

definition REMOTE_REQUESTS :: "(string \<times> string \<times> string) list" where
  "REMOTE_REQUESTS =
     [(''fence_requested'', ''reviewed'', ''fenced''),
      (''successor_requested'', ''predecessor_retired'', ''successor_observed''),
      (''release_requested'', ''successor_observed'', ''released'')]"

definition EVENTS :: "(string \<times> string \<times> string) list" where
  "EVENTS =
     [(''request_fence'', ''reviewed'', ''fence_requested''),
      (''observe_fence'', ''fence_requested'', ''fenced''),
      (''begin_drain'', ''fenced'', ''draining''),
      (''observe_drained'', ''draining'', ''drained''),
      (''reconcile'', ''drained'', ''reconciled''),
      (''retire_predecessor'', ''reconciled'', ''predecessor_retired''),
      (''request_successor'', ''predecessor_retired'', ''successor_requested''),
      (''observe_successor'', ''successor_requested'', ''successor_observed''),
      (''request_release'', ''successor_observed'', ''release_requested''),
      (''observe_release'', ''release_requested'', ''released'')]"

definition STOP_REFUSED_EVENTS :: "string list" where
  "STOP_REFUSED_EVENTS = [''request_fence'', ''request_successor'', ''request_release'', ''retire_predecessor'']"

definition RECOVERY_EVENTS :: "string list" where
  "RECOVERY_EVENTS = [''observe_effect'', ''observe_no_effect'']"

definition OBSERVE_EVENT_OF :: "(string \<times> string) list" where
  "OBSERVE_EVENT_OF =
     [(''fence_requested'', ''observe_fence''), (''successor_requested'', ''observe_successor''),
      (''release_requested'', ''observe_release'')]"

definition remote_request :: "string \<Rightarrow> bool" where
  "remote_request p \<longleftrightarrow> map_of REMOTE_REQUESTS p \<noteq> None"

definition is_uncertain :: "string \<Rightarrow> bool" where
  "is_uncertain phase \<longleftrightarrow> suffix UNCERTAIN_SUFFIX phase"

definition request_of :: "string \<Rightarrow> transition_error + string" where
  "request_of phase =
     (if \<not> is_uncertain phase then Inl (T_uncertain phase)
      else let request = take (length phase - length UNCERTAIN_SUFFIX) phase in
        if remote_request request then Inr request else Inl (T_uncertain phase))"

definition validate_phase :: "string \<Rightarrow> transition_error + string" where
  "validate_phase phase =
     (if phase = RECONCILIATION_REQUIRED \<or> phase \<in> set PHASES then Inr phase
      else if is_uncertain phase then bindE (request_of phase) (\<lambda>_. Inr phase)
      else Inl (T_phase phase))"

definition advance :: "string \<Rightarrow> string \<Rightarrow> bool \<Rightarrow> transition_error + string" where
  "advance phase event stop =
     bindE (validate_phase phase) (\<lambda>current.
     if event = ''require_reconciliation'' then Inr RECONCILIATION_REQUIRED
     else if current = RECONCILIATION_REQUIRED then Inl T_terminal
     else if event = ''mark_uncertain'' then
       if remote_request current then Inr (current @ UNCERTAIN_SUFFIX)
       else if is_uncertain current then Inr current
       else Inl (T_uncertain current)
     else if is_uncertain current then
       bindE (request_of current) (\<lambda>request.
       case map_of REMOTE_REQUESTS request of
         None \<Rightarrow> Inl (T_uncertain current)
       | Some (before, observed) \<Rightarrow>
           if event = ''observe_effect'' \<or> Some event = map_of OBSERVE_EVENT_OF request then Inr observed
           else if event = ''observe_no_effect'' then Inr before
           else Inl (T_uncertain request))
     else if event \<in> set RECOVERY_EVENTS then Inl (T_event event)
     else case map_of EVENTS event of
       None \<Rightarrow> Inl (T_event event)
     | Some (before, after) \<Rightarrow>
         if stop \<and> event \<in> set STOP_REFUSED_EVENTS then Inl (T_stop event)
         else if before \<noteq> current then Inl (T_order event current)
         else Inr after)"

text \<open>The loop of \<open>replay\<close>.\<close>

fun replay_steps :: "string \<Rightarrow> (string \<times> bool) list \<Rightarrow> transition_error + string" where
  "replay_steps phase [] = Inr phase"
| "replay_steps phase ((event, stop) # rest) = bindE (advance phase event stop) (\<lambda>next_phase. replay_steps next_phase rest)"

definition replay :: "(string \<times> bool) list \<Rightarrow> string \<Rightarrow> transition_error + string" where
  "replay phases start = bindE (validate_phase start) (\<lambda>phase. replay_steps phase phases)"

section \<open>Identity\<close>

definition identity_fields :: "string list" where
  "identity_fields = [''repository_id'', ''generation'', ''old_programme_sha256'', ''successor_sha256'',
     ''plan_sha256'', ''consent_sha256'', ''source_sha'']"

record transition_identity =
  ti_repository_id :: int
  ti_generation :: int
  ti_old :: string
  ti_successor :: string
  ti_plan :: string
  ti_consent :: string
  ti_source :: string

definition identity_dict :: "transition_identity \<Rightarrow> pydict" where
  "identity_dict t =
     [(''schema'', PStr ''dark-factory/transition-identity''), (''schema_version'', PStr ''1.0''),
      (''repository_id'', PInt (ti_repository_id t)), (''generation'', PInt (ti_generation t)),
      (''old_programme_sha256'', PStr (ti_old t)), (''successor_sha256'', PStr (ti_successor t)),
      (''plan_sha256'', PStr (ti_plan t)), (''consent_sha256'', PStr (ti_consent t)),
      (''source_sha'', PStr (ti_source t))]"

definition transition_id :: "(string \<Rightarrow> string) \<Rightarrow> transition_identity \<Rightarrow> string" where
  "transition_id sha t = sha256_value sha (PDict (identity_dict t))"

definition identity_hex :: "string \<Rightarrow> nat \<Rightarrow> pyval \<Rightarrow> transition_error + string" where
  "identity_hex key digits v =
     (case v of PStr s \<Rightarrow> if hex_text digits s then Inr s else Inl (T_identity key) | _ \<Rightarrow> Inl (T_identity key))"

definition make_identity :: "pyval \<Rightarrow> transition_error + transition_identity" where
  "make_identity value =
     (case value of
        PDict d \<Rightarrow>
          bindE (ensure (same_set (map fst d) identity_fields) (T_identity ''fields'')) (\<lambda>_.
          bindE (case py_get d ''repository_id'' of PInt n \<Rightarrow> if n < 1 then Inl (T_identity ''repository_id'') else Inr n
                 | _ \<Rightarrow> Inl (T_identity ''repository_id'')) (\<lambda>repository.
          bindE (case py_get d ''generation'' of PInt n \<Rightarrow> if n < 0 then Inl (T_identity ''generation'') else Inr n
                 | _ \<Rightarrow> Inl (T_identity ''generation'')) (\<lambda>generation.
          bindE (identity_hex ''old_programme_sha256'' 64 (py_get d ''old_programme_sha256'')) (\<lambda>old.
          bindE (identity_hex ''successor_sha256'' 64 (py_get d ''successor_sha256'')) (\<lambda>successor.
          bindE (identity_hex ''plan_sha256'' 64 (py_get d ''plan_sha256'')) (\<lambda>plan.
          bindE (identity_hex ''consent_sha256'' 64 (py_get d ''consent_sha256'')) (\<lambda>consent.
          bindE (identity_hex ''source_sha'' 40 (py_get d ''source_sha'')) (\<lambda>source.
          bindE (ensure (old \<noteq> successor) (T_identity ''successor'')) (\<lambda>_.
          Inr \<lparr>ti_repository_id = repository, ti_generation = generation, ti_old = old, ti_successor = successor,
               ti_plan = plan, ti_consent = consent, ti_source = source\<rparr>)))))))))
      | _ \<Rightarrow> Inl (T_identity ''mapping''))"

section \<open>The release decision\<close>

definition RELEASE_FIELDS :: "string list" where
  "RELEASE_FIELDS = [''observed'', ''consent'', ''successor'', ''fenced'', ''queued'', ''active'',
     ''pending_effects'', ''accounting_reconciled'']"

definition RELEASE_ORDER :: "(string \<times> string) list" where
  "RELEASE_ORDER =
     [(''observed'', ''observation_missing''), (''fenced'', ''fence_absent''), (''consent'', ''consent_invalid''),
      (''successor'', ''successor_unobserved''), (''drained'', ''predecessor_not_drained''),
      (''effects'', ''effect_uncertain''), (''accounting_reconciled'', ''accounting_unreconciled'')]"

definition known_bool :: "pyval \<Rightarrow> bool option" where
  "known_bool v = (case v of PBool b \<Rightarrow> Some b | _ \<Rightarrow> None)"

definition known_count :: "pyval \<Rightarrow> int option" where
  "known_count v = (case v of PInt n \<Rightarrow> if 0 \<le> n then Some n else None | _ \<Rightarrow> None)"

record release_decision =
  rd_status :: string
  rd_reasons :: "string list"
  rd_remote_calls :: nat

definition release_gates :: "pydict \<Rightarrow> (string \<times> bool) list" where
  "release_gates d =
     [(''observed'', known_bool (py_get d ''observed'') = Some True),
      (''fenced'', known_bool (py_get d ''fenced'') = Some True),
      (''consent'', known_bool (py_get d ''consent'') = Some True),
      (''successor'', known_bool (py_get d ''successor'') = Some True),
      (''drained'', known_count (py_get d ''queued'') = Some 0 \<and> known_count (py_get d ''active'') = Some 0),
      (''effects'', known_count (py_get d ''pending_effects'') = Some 0),
      (''accounting_reconciled'', known_bool (py_get d ''accounting_reconciled'') = Some True)]"

definition request_release :: "pyval \<Rightarrow> transition_error + release_decision" where
  "request_release observation =
     (case observation of
        PDict d \<Rightarrow>
          bindE (ensure (set (map fst d) \<subseteq> set RELEASE_FIELDS) T_observation) (\<lambda>_.
          if known_bool (py_get d ''observed'') \<noteq> Some True
          then Inr \<lparr>rd_status = ''blocked'', rd_reasons = [''observation_missing''], rd_remote_calls = 0\<rparr>
          else let codes = map snd (filter (\<lambda>(gate, _). map_of (release_gates d) gate \<noteq> Some True) RELEASE_ORDER) in
            Inr \<lparr>rd_status = (if codes = [] then ''eligible'' else ''blocked''), rd_reasons = codes, rd_remote_calls = 0\<rparr>)
      | _ \<Rightarrow> Inl T_observation)"

section \<open>Journal and effect store\<close>

definition compare_stores :: "string \<Rightarrow> string option \<Rightarrow> transition_error + string" where
  "compare_stores journal_phase store_state =
     bindE (validate_phase journal_phase) (\<lambda>phase.
     if phase = RECONCILIATION_REQUIRED then Inr RECONCILIATION_REQUIRED
     else if remote_request phase then
       (if store_state \<in> {Some ''started'', Some ''uncertain''}
        then Inr (if store_state = Some ''started'' then ''consistent'' else ''uncertain'')
        else Inr RECONCILIATION_REQUIRED)
     else if is_uncertain phase then
       (if store_state \<in> {Some ''started'', Some ''uncertain''} then Inr ''uncertain'' else Inr RECONCILIATION_REQUIRED)
     else if store_state \<in> {None, Some ''observed_success'', Some ''observed_failure''} then Inr ''consistent''
     else Inr RECONCILIATION_REQUIRED)"

section \<open>Receipts\<close>

definition TRANSITION_OPERATION :: string where
  "TRANSITION_OPERATION = ''transition-receipt''"

definition REQUEST_EVENTS :: "string list" where
  "REQUEST_EVENTS = map fst (filter (\<lambda>(_, _, after). remote_request after) EVENTS)"

definition CLOSING_EVENTS :: "string list" where
  "CLOSING_EVENTS = map snd OBSERVE_EVENT_OF @ RECOVERY_EVENTS @ [''mark_uncertain'']"

definition COMMAND_KEYS :: "string list" where
  "COMMAND_KEYS = [''transition_id'', ''event'', ''request_id'', ''request_sha256'', ''stop'']"

definition receipt_replay :: "pyval \<Rightarrow> pyval \<Rightarrow> bool" where
  "receipt_replay old new = py_eq (PDict (map (\<lambda>key. (key, py_field old key)) COMMAND_KEYS)) new"

definition transition_operations :: "operation_spec list" where
  "transition_operations =
     [\<lparr>os_operation = TRANSITION_OPERATION, os_roles = [''owner'', ''service''], os_replay = receipt_replay\<rparr>]"

definition receipts_of :: "pyval list \<Rightarrow> string \<Rightarrow> pyval list" where
  "receipts_of events tid =
     map ev_payload (filter (\<lambda>e. ev_operation e = PStr TRANSITION_OPERATION
       \<and> py_field (ev_payload e) ''transition_id'' = PStr tid) events)"

fun verify_from :: "string \<Rightarrow> pyval list \<Rightarrow> intent_error + string" where
  "verify_from phase [] = Inr phase"
| "verify_from phase (receipt # rest) =
     bindE (ensure (py_field receipt ''schema'' = PStr ''dark-factory/transition-receipt''
              \<and> py_field receipt ''schema_version'' = PStr ''1.0''
              \<and> py_field receipt ''phase_before'' = PStr phase) (I_refused ''receipt'')) (\<lambda>_.
     bindE (case py_field receipt ''event'' of
              PStr event \<Rightarrow> (case advance phase event (py_truthy (py_field receipt ''stop'')) of
                Inl _ \<Rightarrow> Inl (I_refused ''step'') | Inr p \<Rightarrow> Inr p)
            | _ \<Rightarrow> Inl (I_refused ''step'')) (\<lambda>next_phase.
     bindE (ensure (py_field receipt ''phase_after'' = PStr next_phase) (I_refused ''phase'')) (\<lambda>_.
     verify_from next_phase rest)))"

definition verify_receipts :: "pyval list \<Rightarrow> intent_error + string" where
  "verify_receipts receipts = verify_from ''reviewed'' receipts"

definition request_phase :: "string \<Rightarrow> string option" where
  "request_phase phase =
     (if remote_request phase then Some phase
      else if is_uncertain phase then (case request_of phase of Inr r \<Rightarrow> Some r | Inl _ \<Rightarrow> None)
      else None)"

definition pending_request :: "pyval list \<Rightarrow> intent_error + pyval option" where
  "pending_request receipts =
     bindE (verify_receipts receipts) (\<lambda>phase.
     case request_phase phase of
       None \<Rightarrow> Inr None
     | Some request \<Rightarrow>
         (case List.find (\<lambda>r. (\<exists>event \<in> set REQUEST_EVENTS. py_field r ''event'' = PStr event)
                            \<and> py_field r ''phase_after'' = PStr request) (rev receipts) of
            Some r \<Rightarrow> Inr (Some r) | None \<Rightarrow> Inl (I_refused ''pending'')))"

definition hex_value :: "nat \<Rightarrow> pyval \<Rightarrow> bool" where
  "hex_value n v = (case v of PStr s \<Rightarrow> hex_text n s | _ \<Rightarrow> False)"

definition validate_receipt ::
  "string \<Rightarrow> string \<Rightarrow> pyval \<Rightarrow> pyval \<Rightarrow> pyval \<Rightarrow> bool \<Rightarrow> string \<Rightarrow> pyval list \<Rightarrow> intent_error + pyval" where
  "validate_receipt tid event request_id request_sha256 effect stop note history =
     (let prior = receipts_of history tid in
     bindE (verify_receipts prior) (\<lambda>before.
     bindE (case advance before event stop of Inl _ \<Rightarrow> Inl (I_refused ''step'') | Inr p \<Rightarrow> Inr p) (\<lambda>after.
     bindE (if event \<in> set CLOSING_EVENTS then
              bindE (pending_request prior) (\<lambda>pending.
              case pending of
                None \<Rightarrow> Inl (I_refused ''pending'')
              | Some r \<Rightarrow> ensure (py_eq (py_field r ''request_id'') request_id
                                 \<and> py_eq (py_field r ''request_sha256'') request_sha256) (I_refused ''request''))
            else ensure (\<not> (event \<in> set REQUEST_EVENTS
                   \<and> list_ex (\<lambda>r. py_eq (py_field r ''request_id'') request_id) prior)) (I_refused ''used'')) (\<lambda>_.
     Inr (PDict [(''schema'', PStr ''dark-factory/transition-receipt''), (''schema_version'', PStr ''1.0''),
       (''transition_id'', PStr tid), (''event'', PStr event), (''phase_before'', PStr before),
       (''phase_after'', PStr after), (''stop'', PBool stop), (''request_id'', request_id),
       (''request_sha256'', request_sha256), (''effect'', effect), (''note'', PStr note)])))))"

definition record_receipt ::
  "(string \<Rightarrow> string) \<Rightarrow> intent_store \<Rightarrow> principal \<Rightarrow> string \<Rightarrow> string \<Rightarrow> pyval \<Rightarrow> pyval \<Rightarrow> pyval \<Rightarrow> pyval \<Rightarrow> pyval \<Rightarrow> bool
   \<Rightarrow> string \<Rightarrow> string \<Rightarrow> pyval list \<Rightarrow> intent_error + (pyval \<times> event_append) \<times> pyval list" where
  "record_receipt sha st p tid event expected key request_id request_sha256 effect stop note now history =
     bindE (ensure (hex_text 64 tid) (I_refused ''transition_id'')) (\<lambda>_.
     bindE (ensure (length note \<le> 2000) (I_refused ''note'')) (\<lambda>_.
     bindE (ensure (case effect of PNone \<Rightarrow> True | PDict _ \<Rightarrow> True | _ \<Rightarrow> False) (I_refused ''effect'')) (\<lambda>_.
     bindE (if event \<in> set REQUEST_EVENTS \<or> event \<in> set CLOSING_EVENTS
            then ensure (hex_value 32 request_id \<and> hex_value 64 request_sha256) (I_refused ''request'')
            else ensure (request_id = PNone \<and> request_sha256 = PNone) (I_refused ''request'')) (\<lambda>_.
     let command = PDict [(''transition_id'', PStr tid), (''event'', PStr event), (''request_id'', request_id),
           (''request_sha256'', request_sha256), (''stop'', PBool stop)] in
     bindE (append_event sha st transition_operations p expected key TRANSITION_OPERATION command
              (validate_receipt tid event request_id request_sha256 effect stop note) now history) (\<lambda>(r, events).
     Inr ((ev_payload (ea_event r), r), events))))))"

definition receipts ::
  "(string \<Rightarrow> string) \<Rightarrow> intent_store \<Rightarrow> principal \<Rightarrow> string \<Rightarrow> pyval list \<Rightarrow> intent_error + pyval list" where
  "receipts sha st p tid history =
     bindE (read_events sha st transition_operations p history) (\<lambda>events. Inr (receipts_of events tid))"

definition transition_phase ::
  "(string \<Rightarrow> string) \<Rightarrow> intent_store \<Rightarrow> principal \<Rightarrow> string \<Rightarrow> pyval list \<Rightarrow> intent_error + string" where
  "transition_phase sha st p tid history = bindE (receipts sha st p tid history) verify_receipts"

definition compare_with_store ::
  "(string \<Rightarrow> string) \<Rightarrow> intent_store \<Rightarrow> principal \<Rightarrow> string \<Rightarrow> string option \<Rightarrow> pyval list \<Rightarrow> intent_error + string" where
  "compare_with_store sha st p tid store_state history =
     bindE (transition_phase sha st p tid history) (\<lambda>phase.
     case compare_stores phase store_state of Inl _ \<Rightarrow> Inl (I_refused ''phase'') | Inr r \<Rightarrow> Inr r)"

end
