(* ===== verification/Intent_Store.thy ===== *)
theory Intent_Store
  imports Project_Journal
begin

text \<open>
  The owner's intent: \<open>IntentStore\<close> and the four intake operations of
  \<open>factory_kernel/frontdoor_intent.py\<close>, and \<open>approved_scope\<close> of
  \<open>factory_kernel/exploration_records.py\<close>. The state is the project's journal; the snapshot
  is a fold over it. An index into a missing key, a \<open>next\<close> without a match and an index into
  None are the error \<open>I_corrupt\<close>. The journal is shared with other services, whose appends go
  through the same primitive with their own operation names.
\<close>

section \<open>The snapshot\<close>

definition i_at :: "pyval \<Rightarrow> string \<Rightarrow> intent_error + pyval" where
  "i_at v k = (case v of PDict d \<Rightarrow> (case map_of d k of None \<Rightarrow> Inl I_corrupt | Some x \<Rightarrow> Inr x) | _ \<Rightarrow> Inl I_corrupt)"

fun foldE :: "('s \<Rightarrow> 'a \<Rightarrow> 'e + 's) \<Rightarrow> 's \<Rightarrow> 'a list \<Rightarrow> 'e + 's" where
  "foldE f s [] = Inr s"
| "foldE f s (x # xs) = bindE (f s x) (\<lambda>t. foldE f t xs)"

lemma foldE_append: "foldE f s (xs @ ys) = bindE (foldE f s xs) (\<lambda>t. foldE f t ys)"
proof (induction xs arbitrary: s)
  case (Cons x xs)
  then show ?case by (cases "f s x") auto
qed simp

lemma foldE_snoc: "foldE f s (xs @ [x]) = bindE (foldE f s xs) (\<lambda>t. f t x)"
  by (cases "foldE f s xs") (auto simp: foldE_append bindE_def split: sum.splits)

record ledger_row =
  lg_version :: pyval
  lg_actor :: pyval
  lg_kind :: string
  lg_wording :: pyval

record draft =
  dr_payload :: pyval
  dr_spec :: pyval
  dr_open :: pyval
  dr_version :: pyval
  dr_source :: pyval
  dr_sha :: string

record approval =
  ap_spec :: pyval
  ap_payload :: pyval
  ap_draft :: pyval
  ap_source :: pyval
  ap_actor :: pyval
  ap_at :: pyval
  ap_version :: pyval

record intent_state =
  in_ledger :: "ledger_row list"
  in_draft :: "draft option"
  in_approvals :: "approval list"

definition start_state :: intent_state where
  "start_state = \<lparr>in_ledger = [], in_draft = None, in_approvals = []\<rparr>"

definition latest_intent :: "ledger_row list \<Rightarrow> intent_error + ledger_row" where
  "latest_intent rows =
     (case List.find (\<lambda>r. lg_kind r = ''record-intent'') (rev rows) of
        None \<Rightarrow> Inl I_corrupt | Some r \<Rightarrow> Inr r)"

definition snapshot_step :: "(string \<Rightarrow> string) \<Rightarrow> intent_state \<Rightarrow> pyval \<Rightarrow> intent_error + intent_state" where
  "snapshot_step sha s event =
     bindE (i_at event ''command'') (\<lambda>command.
     bindE (i_at command ''operation'') (\<lambda>operation.
     bindE (i_at command ''payload'') (\<lambda>payload.
     if operation = PStr ''record-intent'' \<or> operation = PStr ''add-exploration'' then
       bindE (i_at event ''project_version'') (\<lambda>version.
       bindE (i_at event ''actor'') (\<lambda>actor.
       bindE (i_at payload ''wording'') (\<lambda>wording.
       let row = \<lparr>lg_version = version, lg_actor = actor, lg_kind = py_string operation, lg_wording = wording\<rparr>;
           s = s\<lparr>in_ledger := in_ledger s @ [row]\<rparr> in
       Inr (if operation = PStr ''record-intent'' then s\<lparr>in_draft := None\<rparr> else s))))
     else if operation = PStr ''propose-spec'' then
       bindE (i_at event ''project_version'') (\<lambda>version.
       bindE (latest_intent (in_ledger s)) (\<lambda>intent.
       bindE (i_at payload ''spec'') (\<lambda>spec.
       Inr (s\<lparr>in_draft := Some \<lparr>dr_payload = payload, dr_spec = spec, dr_open = py_field payload ''open_questions'',
                 dr_version = version, dr_source = lg_version intent, dr_sha = sha256_value sha spec\<rparr>\<rparr>))))
     else if operation = PStr ''approve-spec'' then
       (case in_draft s of
          None \<Rightarrow> Inl I_corrupt
        | Some draft \<Rightarrow>
            bindE (i_at event ''actor'') (\<lambda>actor.
            bindE (i_at event ''created_at'') (\<lambda>created.
            bindE (i_at event ''project_version'') (\<lambda>version.
            Inr (s\<lparr>in_approvals := in_approvals s @ [\<lparr>ap_spec = dr_spec draft, ap_payload = payload,
                 ap_draft = py_field payload ''draft_version'', ap_source = dr_source draft, ap_actor = actor,
                 ap_at = created, ap_version = version\<rparr>]\<rparr>)))))
     else Inr s)))"

definition snapshot :: "(string \<Rightarrow> string) \<Rightarrow> pyval list \<Rightarrow> intent_error + intent_state" where
  "snapshot sha events = foldE (snapshot_step sha) start_state events"

section \<open>The intake operations\<close>

definition intake_operations :: "operation_spec list" where
  "intake_operations =
     [\<lparr>os_operation = ''record-intent'', os_roles = [''owner''], os_replay = py_eq\<rparr>,
      \<lparr>os_operation = ''add-exploration'', os_roles = [''owner''], os_replay = py_eq\<rparr>,
      \<lparr>os_operation = ''propose-spec'', os_roles = [''owner'', ''proposal''], os_replay = py_eq\<rparr>,
      \<lparr>os_operation = ''approve-spec'', os_roles = [''owner''], os_replay = py_eq\<rparr>]"

definition i_texts :: "pyval \<Rightarrow> intent_error + string list" where
  "i_texts v =
     (case v of PList xs \<Rightarrow> if 50 < length xs then Inl I_text else mapE (i_text 2000) xs | _ \<Rightarrow> Inl I_text)"

definition validate_wording :: "pyval \<Rightarrow> intent_error + unit" where
  "validate_wording payload =
     bindE (i_shape [''wording''] payload) (\<lambda>_.
     bindE (i_text 10000 (py_field payload ''wording'')) (\<lambda>_. Inr ()))"

definition spec_revision :: "pyval \<Rightarrow> int" where
  "spec_revision spec = (case py_field spec ''revision'' of PInt n \<Rightarrow> n | _ \<Rightarrow> 0)"

definition validate_proposal :: "string \<Rightarrow> intent_state \<Rightarrow> pyval \<Rightarrow> intent_error + unit" where
  "validate_proposal repository state payload =
     bindE (i_shape [''spec'', ''assumptions'', ''open_questions'', ''technical_questions''] payload) (\<lambda>_.
     bindE (ensure (list_ex (\<lambda>r. lg_kind r = ''record-intent'') (in_ledger state)) (I_refused ''intent'')) (\<lambda>_.
     bindE (case compile_spec (py_field payload ''spec'') repository of
              Inl e \<Rightarrow> Inl (I_programme e) | Inr spec \<Rightarrow> Inr spec) (\<lambda>spec.
     bindE (if in_approvals state = [] then ensure (spec_revision spec = 1) (I_refused ''revision'')
            else let previous = ap_spec (last (in_approvals state)) in
              bindE (ensure (spec_revision spec = spec_revision previous + 1) (I_refused ''revision'')) (\<lambda>_.
              ensure (py_eq (py_field spec ''id'') (py_field previous ''id'')) (I_refused ''identity''))) (\<lambda>_.
     bindE (i_texts (py_field payload ''assumptions'')) (\<lambda>_.
     bindE (i_texts (py_field payload ''open_questions'')) (\<lambda>_.
     bindE (i_texts (py_field payload ''technical_questions'')) (\<lambda>_. Inr ())))))))"

definition validate_approval :: "intent_state \<Rightarrow> pyval \<Rightarrow> intent_error + unit" where
  "validate_approval state payload =
     bindE (i_shape [''draft_version'', ''spec_sha256'', ''wording''] payload) (\<lambda>_.
     bindE (i_text 10000 (py_field payload ''wording'')) (\<lambda>_.
     case in_draft state of
       None \<Rightarrow> Inl (I_refused ''draft'')
     | Some draft \<Rightarrow>
         bindE (case py_field payload ''draft_version'' of
                  PInt n \<Rightarrow> ensure (py_eq (PInt n) (dr_version draft)
                             \<and> py_field payload ''spec_sha256'' = PStr (dr_sha draft)) (I_refused ''draft'')
                | _ \<Rightarrow> Inl (I_refused ''draft'')) (\<lambda>_.
         bindE (ensure (\<not> py_truthy (dr_open draft)) (I_refused ''questions'')) (\<lambda>_.
         ensure (\<not> (in_approvals state \<noteq> []
                     \<and> py_eq (ap_draft (last (in_approvals state))) (dr_version draft))) (I_refused ''approved'')))))"

definition validate_intake :: "(string \<Rightarrow> string) \<Rightarrow> string \<Rightarrow> string \<Rightarrow> pyval \<Rightarrow> pyval list \<Rightarrow> intent_error + pyval" where
  "validate_intake sha repository operation payload events =
     bindE (snapshot sha events) (\<lambda>state.
     bindE (if operation \<in> {''record-intent'', ''add-exploration''} then validate_wording payload
            else if operation = ''propose-spec'' then validate_proposal repository state payload
            else if operation = ''approve-spec'' then validate_approval state payload
            else Inl (I_operation operation)) (\<lambda>_.
     Inr payload))"

text \<open>\<open>execute\<close>: the reply is the snapshot after the event, on a replay as it was then.\<close>

definition execute_intent ::
  "(string \<Rightarrow> string) \<Rightarrow> intent_store \<Rightarrow> principal \<Rightarrow> pyval \<Rightarrow> string \<Rightarrow> pyval list
   \<Rightarrow> intent_error + intent_state \<times> pyval list" where
  "execute_intent sha st p command now history =
     bindE (authorize st p) (\<lambda>_.
     bindE (ensure (length (canonical_bytes command) \<le> 250000) (I_programme P_capacity)) (\<lambda>_.
     bindE (i_shape [''idempotency_key'', ''expected_project_version'', ''operation'', ''payload''] command) (\<lambda>_.
     bindE (i_text 100 (py_field command ''idempotency_key'')) (\<lambda>_.
     bindE (i_nat (py_field command ''expected_project_version'')) (\<lambda>_.
     let operation = py_field command ''operation''; payload = py_field command ''payload'' in
     bindE (ensure (\<not> (pr_role p \<noteq> ''owner'' \<and> operation \<noteq> PStr ''propose-spec'')) (I_role (pr_role p))) (\<lambda>_.
     case operation of
       PStr name \<Rightarrow>
         bindE (ensure (find_spec name intake_operations \<noteq> None) (I_operation name)) (\<lambda>_.
         bindE (append_event sha st intake_operations p (py_field command ''expected_project_version'')
                  (py_field command ''idempotency_key'') name payload
                  (validate_intake sha (is_repository st) name payload) now history) (\<lambda>(result, events).
         bindE (read_history sha st events) (\<lambda>events.
         bindE (snapshot sha (if ea_replayed result then take (ea_index result + 1) events else events)) (\<lambda>state.
         Inr (state, events)))))
     | _ \<Rightarrow> Inl (I_operation [])))))))"

section \<open>Approved scope\<close>

definition approved_scope :: "(string \<Rightarrow> string) \<Rightarrow> pyval list \<Rightarrow> intent_error + approval" where
  "approved_scope sha events =
     bindE (snapshot sha events) (\<lambda>state.
     bindE (ensure (in_approvals state \<noteq> []) (I_refused ''approval'')) (\<lambda>_.
     let approval = last (in_approvals state) in
     bindE (latest_intent (in_ledger state)) (\<lambda>latest.
     bindE (ensure (py_eq (ap_source approval) (lg_version latest)) (I_refused ''intent'')) (\<lambda>_.
     Inr approval))))"

section \<open>The journal of one project\<close>

datatype journal_cmd =
    Intake principal pyval string
  | Service "operation_spec list" principal pyval pyval string pyval "pyval list \<Rightarrow> intent_error + pyval" string

definition INTAKE :: "string list" where
  "INTAKE = map os_operation intake_operations"

definition journal_exec ::
  "(string \<Rightarrow> string) \<Rightarrow> intent_store \<Rightarrow> journal_cmd \<Rightarrow> pyval list \<Rightarrow> intent_error + unit \<times> pyval list" where
  "journal_exec sha st c history =
     (case c of
        Intake p command now \<Rightarrow> reply (\<lambda>_. ()) (execute_intent sha st p command now history)
      | Service registry p expected key operation payload validate now \<Rightarrow>
          bindE (ensure (operation \<notin> set INTAKE) (I_operation operation)) (\<lambda>_.
          reply (\<lambda>_. ()) (append_event sha st registry p expected key operation payload validate now history)))"

end
