(* ===== verification/Json_Size.thy ===== *)
theory Json_Size
  imports Programme
begin

text \<open>
  A bound on the length of the canonical JSON text of a value, computed without rendering it. The
  capacity limits of the journal and of the programme parser are checked with it.
\<close>

fun json_cost :: "pyval \<Rightarrow> nat"
  and json_cost_list :: "pyval list \<Rightarrow> nat"
  and json_cost_dict :: "pydict \<Rightarrow> nat" where
  "json_cost PNone = 4"
| "json_cost (PBool b) = 5"
| "json_cost (PInt i) = nat \<bar>i\<bar> + 2"
| "json_cost (PFloat r t) = length t"
| "json_cost (PStr s) = 6 * length s + 2"
| "json_cost (PList xs) = json_cost_list xs + 2"
| "json_cost (PDict kvs) = json_cost_dict kvs + 2"
| "json_cost_list [] = 0"
| "json_cost_list (x # xs) = json_cost x + 1 + json_cost_list xs"
| "json_cost_dict [] = 0"
| "json_cost_dict ((k, v) # kvs) = 6 * length k + 4 + json_cost v + json_cost_dict kvs"

lemma json_cost_list_append: "json_cost_list (xs @ ys) = json_cost_list xs + json_cost_list ys"
  by (induction xs) simp_all

lemma json_cost_insert: "json_cost_dict (insert_key (k, v) kvs) = 6 * length k + 4 + json_cost v + json_cost_dict kvs"
  by (induction kvs) auto

lemma json_cost_sort:
  "json_cost (sort_keys v) = json_cost v"
  "json_cost_list (sort_keys_list xs) = json_cost_list xs"
  "json_cost_dict (sort_keys_dict kvs) = json_cost_dict kvs"
  by (induction v and xs and kvs rule: sort_keys_sort_keys_list_sort_keys_dict.induct)
     (auto simp: json_cost_insert)

lemma json_char_length: "length (json_char c) \<le> 6"
  by (simp add: json_char_def Let_def)

lemma json_string_length: "length (json_string json_char s) \<le> 6 * length s + 2"
proof (induction s)
  case (Cons c s)
  then show ?case using json_char_length [of c] by (simp add: json_string_def)
qed (simp add: json_string_def)

lemma digits_text_length: "0 \<le> n \<Longrightarrow> length (digits_text n) \<le> nat n + 1"
proof (induction n rule: digits_text.induct)
  case (1 n)
  show ?case
  proof (cases "n < 10")
    case False
    then have "length (digits_text (n div 10)) \<le> nat (n div 10) + 1" using 1 by simp
    moreover have "nat (n div 10) + 2 \<le> nat n + 1" using False by linarith
    ultimately show ?thesis using False by (subst digits_text.simps) simp
  qed (subst digits_text.simps, simp)
qed

lemma int_text_length: "length (int_text i) \<le> nat \<bar>i\<bar> + 2"
  using digits_text_length [of i] digits_text_length [of "- i"]
  by (cases "i < 0") (auto simp: int_text_def)

lemma join_text_length: "length (join_text sep xs) \<le> sum_list (map (\<lambda>x. length x + length sep) xs)"
  by (induction sep xs rule: join_text.induct) auto

lemma json_text_length:
  "length (json_text json_char v) \<le> json_cost v"
  "sum_list (map (\<lambda>x. length x + 1) (json_items json_char xs)) \<le> json_cost_list xs"
  "sum_list (map (\<lambda>x. length x + 1) (json_members json_char kvs)) \<le> json_cost_dict kvs"
proof (induction v and xs and kvs rule: json_cost_json_cost_list_json_cost_dict.induct)
  case (3 i)
  then show ?case using int_text_length [of i] by simp
next
  case (5 s)
  then show ?case using json_string_length [of s] by simp
next
  case (6 xs)
  then show ?case using join_text_length [of "'',''" "json_items json_char xs"] by simp
next
  case (7 kvs)
  then show ?case using join_text_length [of "'',''" "json_members json_char kvs"] by simp
next
  case (11 k v kvs)
  then show ?case using json_string_length [of k] by simp
qed auto

lemma canonical_length: "length (canonical_bytes v) \<le> json_cost v + 1"
  using json_text_length(1) [of "sort_keys v"] by (simp add: canonical_bytes_def json_cost_sort)

lemma canonical_fits: "json_cost v < n \<Longrightarrow> length (canonical_bytes v) \<le> n"
  using canonical_length [of v] by simp

lemma utf8_length_le: "utf8_length s \<le> 2 * length s"
  by (induction s) (auto simp: utf8_length_def)

lemma utf8_fits: "2 * json_cost v + 2 \<le> n \<Longrightarrow> utf8_length (canonical_bytes v) \<le> n"
  using utf8_length_le [of "canonical_bytes v"] canonical_length [of v] by simp

end
