(* ===== verification/Journal_Facts.thy ===== *)
theory Journal_Facts
  imports Intent_Store Json_Size
begin

text \<open>
  The journal as an append-only log: what a successful append writes, that the chain it extends
  verifies again, that an idempotency key names one event for ever, and the interpretation of the
  transactional interface on the journal of one project, with the prefix order.
\<close>

section \<open>The chain\<close>

lemma chain_from_append:
  "chain_from sha p r v prev (xs @ ys) \<longleftrightarrow>
   chain_from sha p r v prev xs
   \<and> chain_from sha p r (v + int (length xs)) (if xs = [] then prev else PStr (sha256_value sha (last xs))) ys"
  by (induction xs arbitrary: v prev) (auto simp: ac_simps)

lemma make_event_follows:
  "is_project st = p \<Longrightarrow> is_repository st = r \<Longrightarrow>
   event_follows p r (v + 1) prev (make_event st k v o1 pl pr now prev)"
  by (auto simp: event_follows_def make_event_def py_field_def py_get_def event_shape_def)

lemma chain_make_event:
  assumes "chain_from sha (is_project st) (is_repository st) 1 PNone h"
  shows "chain_from sha (is_project st) (is_repository st) 1 PNone
    (h @ [make_event st k (int (length h)) o1 pl pr now (last_hash sha h)])"
  using assms make_event_follows [of st _ _ "int (length h)"]
  by (auto simp: chain_from_append last_hash_def add.commute)

definition chain_ok :: "(string \<Rightarrow> string) \<Rightarrow> intent_store \<Rightarrow> pyval list \<Rightarrow> bool" where
  "chain_ok sha st h \<longleftrightarrow>
     length h \<le> MAX_EVENTS \<and> utf8_length (canonical_bytes (PList h)) \<le> MAX_HISTORY_BYTES
     \<and> chain_from sha (is_project st) (is_repository st) 1 PNone h"

lemma read_history_eq:
  "read_history sha st h = Inr es \<longleftrightarrow> project_id (is_project st) \<and> chain_ok sha st h \<and> es = h"
  by (auto simp: read_history_def verify_chain_def chain_ok_def bindE_eq_Inr)

lemma chain_nth:
  assumes "chain_from sha p r v prev h" and "i < length h"
  shows "event_follows p r (v + int i) (if i = 0 then prev else PStr (sha256_value sha (h ! (i - 1)))) (h ! i)"
  using assms
proof (induction h arbitrary: v prev i)
  case (Cons e es)
  show ?case
  proof (cases i)
    case 0
    with Cons.prems show ?thesis by simp
  next
    case (Suc j)
    with Cons.IH [of "v + 1" "PStr (sha256_value sha e)" j] Cons.prems
    show ?thesis by (cases j) (auto simp: ac_simps)
  qed
qed simp

section \<open>Looking a key up\<close>

lemma find_key_Some:
  "find_key k h i = Some (j, e) \<Longrightarrow> i \<le> j \<and> j - i < length h \<and> e = h ! (j - i) \<and> ev_key e = PStr k"
proof (induction h arbitrary: i)
  case (Cons x xs)
  show ?case
  proof (cases "ev_key x = PStr k")
    case False
    with Cons.prems have "find_key k xs (i + 1) = Some (j, e)" by simp
    note ih = Cons.IH [OF this]
    then have "j - i = Suc (j - Suc i)" by arith
    with ih show ?thesis by auto
  qed (use Cons.prems in auto)
qed simp

lemma find_key_None: "find_key k h i = None \<longleftrightarrow> PStr k \<notin> ev_key ` set h"
  by (induction h arbitrary: i) auto

lemma find_key_append:
  "find_key k (xs @ ys) i =
     (case find_key k xs i of None \<Rightarrow> find_key k ys (i + length xs) | Some p \<Rightarrow> Some p)"
  by (induction xs arbitrary: i) (auto split: option.split)

section \<open>The append primitive\<close>

lemma append_event_success:
  assumes "append_event sha st registry p expected idempotency_key operation payload validate now h = Inr (r, h')"
  obtains (replay) i e k spec where
      "idempotency_key = PStr k" and "find_key k h 0 = Some (i, e)" and "h' = h"
      and "find_spec operation registry = Some spec"
      and "ev_operation e = PStr operation" and "py_eq (ev_actor e) (actor_value p)"
      and "os_replay spec (ev_payload e) payload"
      and "r = \<lparr>ea_version = int (length h), ea_sha256 = sha256_value sha e, ea_replayed = True,
               ea_event = e, ea_index = i\<rparr>"
      and "read_history sha st h = Inr h"
  | (appended) k spec e pl where
      "idempotency_key = PStr k" and "find_key k h 0 = None" and "expected = PInt (int (length h))"
      and "find_spec operation registry = Some spec" and "pr_role p \<in> set (os_roles spec)"
      and "authenticate st registry p = Inr ()" and "validate h = Inr pl"
      and "e = make_event st k (int (length h)) operation pl p now (last_hash sha h)"
      and "h' = h @ [e]"
      and "r = \<lparr>ea_version = int (length h) + 1, ea_sha256 = sha256_value sha e, ea_replayed = False,
               ea_event = e, ea_index = length h\<rparr>"
      and "read_history sha st h = Inr h" and "read_history sha st h' = Inr h'"
proof -
  obtain spec where spec: "find_spec operation registry = Some spec"
    using assms by (auto simp: append_event_def split: option.splits)
  note body = assms [unfolded append_event_def spec option.case]
  from body obtain k where auth: "authenticate st registry p = Inr ()" and role: "pr_role p \<in> set (os_roles spec)"
      and k: "idempotency_key = PStr k" and read: "read_history sha st h = Inr h"
    by (auto simp: bindE_eq_Inr read_history_eq)
  show thesis
  proof (cases "find_key k h 0")
    case (Some q)
    obtain i e where q: "q = (i, e)" by (cases q)
    from body Some spec k read show thesis
      by (auto simp: q bindE_eq_Inr intro: replay)
  next
    case None
    from body None k read obtain pl where v: "expected = PInt (int (length h))" "validate h = Inr pl"
      and w: "write_history (h @ [make_event st k (int (length h)) operation pl p now (last_hash sha h)]) =
              Inr h'"
      and r: "r = \<lparr>ea_version = int (length h'),
         ea_sha256 = sha256_value sha (make_event st k (int (length h)) operation pl p now (last_hash sha h)),
         ea_replayed = False,
         ea_event = make_event st k (int (length h)) operation pl p now (last_hash sha h),
         ea_index = length h' - 1\<rparr>"
      by (auto simp: bindE_eq_Inr Let_def)
    let ?e = "make_event st k (int (length h)) operation pl p now (last_hash sha h)"
    have h': "h' = h @ [?e]" using w by (simp add: write_history_def split: if_splits)
    have "read_history sha st h' = Inr h'"
      using w read chain_make_event [of sha st h]
      by (auto simp: h' read_history_eq write_history_def chain_ok_def split: if_splits)
    then show thesis
      using appended [of k spec pl ?e] k None v spec role auth h' r read by (simp add: h')
  qed
qed

lemma append_event_prefix:
  "append_event sha st registry p ex key op pl validate now h = Inr (r, h') \<Longrightarrow> prefix h h'"
  by (erule append_event_success) auto

lemma append_event_reads:
  "append_event sha st registry p ex key op pl validate now h = Inr (r, h') \<Longrightarrow> read_history sha st h' = Inr h'"
  by (erule append_event_success) auto

text \<open>A fresh command within the size limits is appended.\<close>

lemma append_runs:
  assumes "read_history sha st h = Inr h" and "find_spec operation registry = Some spec"
    and "authenticate st registry p = Inr ()" and "pr_role p \<in> set (os_roles spec)"
    and "i_text 100 (PStr key) = Inr key" and "json_cost payload < 200000" and "find_key key h 0 = None"
    and "validate h = Inr pl" and "length h < 1000"
    and "h' = h @ [make_event st key (int (length h)) operation pl p now (last_hash sha h)]"
    and "json_cost (PList h') < 1000000"
  shows "\<exists>r. append_event sha st registry p (PInt (int (length h))) (PStr key) operation payload validate now h = Inr (r, h')
    \<and> \<not> ea_replayed r \<and> ea_event r = last h'"
proof -
  have c: "length (canonical_bytes payload) \<le> 250000" by (rule canonical_fits) (use assms(6) in simp)
  have nat: "i_nat (PInt (int (length h))) = Inr (int (length h))" by simp
  have "write_history h' = Inr h'"
    using utf8_fits [of "PList h'" MAX_HISTORY_BYTES] assms(9,11)
    by (simp add: write_history_def MAX_HISTORY_BYTES_def MAX_EVENTS_def assms(10))
  then show ?thesis
    using assms(4,9,10) c
    by (simp add: append_event_def assms(1,2,3,5,7,8) MAX_EVENTS_def nat Let_def)
qed

end
