(* ===== verification/Intent_Facts.thy ===== *)
theory Intent_Facts
  imports Journal_Facts
begin

text \<open>
  The invariant of a project's journal. Every approval in the snapshot goes back to three events
  of the journal: a recorded intent, a proposal after it, and the owner's approval of that
  proposal, with no other intent recorded in between.
\<close>

section \<open>The invariant\<close>

definition intent_at :: "pyval list \<Rightarrow> nat \<Rightarrow> bool" where
  "intent_at h i \<longleftrightarrow> i < length h \<and> ev_operation (h ! i) = PStr ''record-intent''"

definition last_intent :: "pyval list \<Rightarrow> nat \<Rightarrow> nat \<Rightarrow> bool" where
  "last_intent h i n \<longleftrightarrow> intent_at h i \<and> i < n \<and> n \<le> length h \<and> (\<forall>k. i < k \<and> k < n \<longrightarrow> \<not> intent_at h k)"

definition proposal_at :: "pyval list \<Rightarrow> nat \<Rightarrow> pyval \<Rightarrow> bool" where
  "proposal_at h j spec \<longleftrightarrow> j < length h \<and> ev_operation (h ! j) = PStr ''propose-spec''
     \<and> py_field (ev_payload (h ! j)) ''spec'' = spec"

definition owner_of :: "intent_store \<Rightarrow> principal" where
  "owner_of st = \<lparr>pr_identity = is_owner st, pr_role = ''owner''\<rparr>"

definition approval_at :: "(string \<Rightarrow> string) \<Rightarrow> intent_store \<Rightarrow> pyval list \<Rightarrow> nat \<Rightarrow> nat \<Rightarrow> pyval \<Rightarrow> bool" where
  "approval_at sha st h k j spec \<longleftrightarrow> k < length h \<and> ev_operation (h ! k) = PStr ''approve-spec''
     \<and> ev_actor (h ! k) = actor_value (owner_of st)
     \<and> py_field (ev_payload (h ! k)) ''draft_version'' = PInt (int j + 1)
     \<and> py_field (ev_payload (h ! k)) ''spec_sha256'' = PStr (sha256_value sha spec)"

definition approval_ok :: "(string \<Rightarrow> string) \<Rightarrow> intent_store \<Rightarrow> pyval list \<Rightarrow> approval \<Rightarrow> bool" where
  "approval_ok sha st h a \<longleftrightarrow> (\<exists>i j k. i < j \<and> j < k \<and> last_intent h i k \<and> proposal_at h j (ap_spec a)
     \<and> \<not> py_truthy (py_field (ev_payload (h ! j)) ''open_questions'')
     \<and> approval_at sha st h k j (ap_spec a)
     \<and> ap_source a = PInt (int i + 1) \<and> ap_draft a = PInt (int j + 1) \<and> ap_version a = PInt (int k + 1)
     \<and> compile_spec (ap_spec a) (is_repository st) = Inr (ap_spec a))"

definition draft_ok :: "(string \<Rightarrow> string) \<Rightarrow> intent_store \<Rightarrow> pyval list \<Rightarrow> draft \<Rightarrow> bool" where
  "draft_ok sha st h d \<longleftrightarrow> (\<exists>i j. i < j \<and> last_intent h i (length h) \<and> proposal_at h j (dr_spec d)
     \<and> dr_open d = py_field (ev_payload (h ! j)) ''open_questions''
     \<and> dr_source d = PInt (int i + 1) \<and> dr_version d = PInt (int j + 1)
     \<and> dr_sha d = sha256_value sha (dr_spec d)
     \<and> compile_spec (dr_spec d) (is_repository st) = Inr (dr_spec d))"

definition spec_id :: "pyval \<Rightarrow> pyval" where
  "spec_id spec = py_norm (py_field spec ''id'')"

text \<open>The approved specifications are the revisions 1 to n of one specification; a draft that
  is not approved yet is the next revision.\<close>

definition approvals_ok :: "approval list \<Rightarrow> bool" where
  "approvals_ok as \<longleftrightarrow> map (\<lambda>a. spec_revision (ap_spec a)) as = [1 .. int (length as)]
     \<and> (\<forall>a \<in> set as. spec_id (ap_spec a) = spec_id (ap_spec (hd as)))"

definition draft_next :: "approval list \<Rightarrow> draft \<Rightarrow> bool" where
  "draft_next as d \<longleftrightarrow>
     ((as \<noteq> [] \<and> ap_draft (last as) = dr_version d) \<or> spec_revision (dr_spec d) = int (length as) + 1)
     \<and> (\<forall>a \<in> set as. spec_id (ap_spec a) = spec_id (dr_spec d))"

definition ledger_ok :: "pyval list \<Rightarrow> ledger_row list \<Rightarrow> bool" where
  "ledger_ok h rows \<longleftrightarrow> (\<forall>r. latest_intent rows = Inr r \<longrightarrow>
     (\<exists>i. last_intent h i (length h) \<and> lg_version r = PInt (int i + 1)))"

definition state_ok :: "(string \<Rightarrow> string) \<Rightarrow> intent_store \<Rightarrow> pyval list \<Rightarrow> intent_state \<Rightarrow> bool" where
  "state_ok sha st h s \<longleftrightarrow>
     (\<forall>a \<in> set (in_approvals s). approval_ok sha st h a) \<and> approvals_ok (in_approvals s)
     \<and> (\<forall>d. in_draft s = Some d \<longrightarrow> draft_ok sha st h d \<and> draft_next (in_approvals s) d)
     \<and> ledger_ok h (in_ledger s)"

definition journal_inv :: "(string \<Rightarrow> string) \<Rightarrow> intent_store \<Rightarrow> pyval list \<Rightarrow> bool" where
  "journal_inv sha st h \<longleftrightarrow> chain_ok sha st h \<and> (\<exists>s. snapshot sha h = Inr s \<and> state_ok sha st h s)"

section \<open>Later events\<close>

lemma intent_at_append: "i < length h \<Longrightarrow> intent_at (h @ es) i = intent_at h i"
  by (simp add: intent_at_def nth_append)

lemma last_intent_append: "last_intent h i n \<Longrightarrow> last_intent (h @ es) i n"
  by (auto simp: last_intent_def intent_at_append intent_at_def nth_append)

lemma last_intent_snoc:
  "last_intent h i (length h) \<Longrightarrow> ev_operation e \<noteq> PStr ''record-intent'' \<Longrightarrow>
   last_intent (h @ [e]) i (length (h @ [e]))"
  by (auto simp: last_intent_def intent_at_def nth_append less_Suc_eq)

lemma last_intent_new:
  "ev_operation e = PStr ''record-intent'' \<Longrightarrow> last_intent (h @ [e]) (length h) (length (h @ [e]))"
  by (auto simp: last_intent_def intent_at_def nth_append)

lemma proposal_at_append: "proposal_at h j s \<Longrightarrow> proposal_at (h @ es) j s"
  by (auto simp: proposal_at_def nth_append)

lemma approval_at_append: "approval_at sha st h k j s \<Longrightarrow> approval_at sha st (h @ es) k j s"
  by (auto simp: approval_at_def nth_append)

lemma approval_ok_append: "approval_ok sha st h a \<Longrightarrow> approval_ok sha st (h @ es) a"
  unfolding approval_ok_def
  by (elim exE conjE, intro exI conjI)
     (auto simp: proposal_at_def nth_append intro: last_intent_append proposal_at_append approval_at_append)

lemma draft_ok_snoc:
  "draft_ok sha st h d \<Longrightarrow> ev_operation e \<noteq> PStr ''record-intent'' \<Longrightarrow> draft_ok sha st (h @ [e]) d"
  unfolding draft_ok_def
  by (elim exE conjE, intro exI conjI)
     (auto simp: proposal_at_def nth_append dest: last_intent_snoc)

lemma ledger_ok_snoc:
  "ledger_ok h rows \<Longrightarrow> ev_operation e \<noteq> PStr ''record-intent'' \<Longrightarrow> ledger_ok (h @ [e]) rows"
  unfolding ledger_ok_def by (metis last_intent_snoc)

lemma latest_intent_snoc:
  "latest_intent (rows @ [r]) = (if lg_kind r = ''record-intent'' then Inr r else latest_intent rows)"
  by (simp add: latest_intent_def)

lemma state_ok_snoc:
  "state_ok sha st h s \<Longrightarrow> ev_operation e \<noteq> PStr ''record-intent'' \<Longrightarrow> state_ok sha st (h @ [e]) s"
  by (auto simp: state_ok_def intro: approval_ok_append draft_ok_snoc ledger_ok_snoc)


section \<open>One event\<close>

lemma i_at_shape: "i_shape ks v = Inr u \<Longrightarrow> k \<in> set ks \<Longrightarrow> i_at v k = Inr (py_field v k)"
proof -
  assume "i_shape ks v = Inr u" and "k \<in> set ks"
  then obtain d where v: "v = PDict d" and "k \<in> fst ` set d" by auto
  then obtain x where "map_of d k = Some x" by (metis map_of_eq_None_iff not_None_eq)
  then show ?thesis by (simp add: v i_at_def py_field_def py_get_def)
qed

lemma i_at_event:
  "i_at (make_event st k v o1 pl p now prev) ''command'' =
     Inr (PDict [(''idempotency_key'', PStr k), (''expected_project_version'', PInt v),
       (''operation'', PStr o1), (''payload'', pl)])"
  "i_at (make_event st k v o1 pl p now prev) ''project_version'' = Inr (PInt (v + 1))"
  "i_at (make_event st k v o1 pl p now prev) ''actor'' = Inr (actor_value p)"
  "i_at (make_event st k v o1 pl p now prev) ''created_at'' = Inr (PStr now)"
  by (simp_all add: make_event_def i_at_def)

lemma i_at_command:
  "i_at (PDict [(''idempotency_key'', a), (''expected_project_version'', b), (''operation'', c), (''payload'', d)]) ''operation'' = Inr c"
  "i_at (PDict [(''idempotency_key'', a), (''expected_project_version'', b), (''operation'', c), (''payload'', d)]) ''payload'' = Inr d"
  by (simp_all add: i_at_def)

lemma snapshot_step_event:
  "snapshot_step sha s (make_event st k v o1 pl p now prev) =
     (if o1 = ''record-intent'' \<or> o1 = ''add-exploration'' then
        bindE (i_at pl ''wording'') (\<lambda>w.
        let s = s\<lparr>in_ledger := in_ledger s @ [\<lparr>lg_version = PInt (v + 1), lg_actor = actor_value p,
                  lg_kind = o1, lg_wording = w\<rparr>]\<rparr> in
        Inr (if o1 = ''record-intent'' then s\<lparr>in_draft := None\<rparr> else s))
      else if o1 = ''propose-spec'' then
        bindE (latest_intent (in_ledger s)) (\<lambda>intent.
        bindE (i_at pl ''spec'') (\<lambda>spec.
        Inr (s\<lparr>in_draft := Some \<lparr>dr_payload = pl, dr_spec = spec, dr_open = py_field pl ''open_questions'',
             dr_version = PInt (v + 1), dr_source = lg_version intent, dr_sha = sha256_value sha spec\<rparr>\<rparr>)))
      else if o1 = ''approve-spec'' then
        (case in_draft s of None \<Rightarrow> Inl I_corrupt
         | Some d \<Rightarrow> Inr (s\<lparr>in_approvals := in_approvals s @ [\<lparr>ap_spec = dr_spec d, ap_payload = pl,
             ap_draft = py_field pl ''draft_version'', ap_source = dr_source d, ap_actor = actor_value p,
             ap_at = PStr now, ap_version = PInt (v + 1)\<rparr>]\<rparr>))
      else Inr s)"
  by (simp add: snapshot_step_def i_at_event i_at_command py_string_def cong: option.case_cong)

lemma snapshot_snoc: "snapshot sha (h @ [e]) = bindE (snapshot sha h) (\<lambda>s. snapshot_step sha s e)"
  by (simp add: snapshot_def foldE_snoc)

text \<open>What an accepted step establishes.\<close>

definition event_ok :: "(string \<Rightarrow> string) \<Rightarrow> intent_store \<Rightarrow> pyval list \<Rightarrow> intent_state \<Rightarrow> pyval \<Rightarrow> bool" where
  "event_ok sha st h s e \<longleftrightarrow> (\<exists>t. snapshot_step sha s e = Inr t \<and> state_ok sha st (h @ [e]) t)"

lemma other_event_ok:
  "state_ok sha st h s \<Longrightarrow> o1 \<notin> set INTAKE \<Longrightarrow> event_ok sha st h s (make_event st k v o1 pl p now prev)"
  by (auto simp: event_ok_def snapshot_step_event INTAKE_def intake_operations_def intro!: state_ok_snoc)

lemma wording_event_ok:
  assumes "state_ok sha st h s" and "validate_wording pl = Inr u"
    and "o1 = ''record-intent'' \<or> o1 = ''add-exploration''"
  shows "event_ok sha st h s (make_event st k (int (length h)) o1 pl p now prev)"
proof -
  let ?e = "make_event st k (int (length h)) o1 pl p now prev"
  have w: "i_at pl ''wording'' = Inr (py_field pl ''wording'')"
    by (rule i_at_shape [where ks = "[''wording'']" and u = "()"])
       (use assms(2) in \<open>simp_all add: validate_wording_def bindE_eq_Inr del: i_shape_eq\<close>)
  from assms(3) show ?thesis
  proof
    assume o1: "o1 = ''record-intent''"
    have "last_intent (h @ [?e]) (length h) (length (h @ [?e]))" by (rule last_intent_new) (simp add: o1)
    with assms(1) show ?thesis
      by (auto simp: event_ok_def snapshot_step_event w o1 state_ok_def Let_def ledger_ok_def latest_intent_snoc
          intro: approval_ok_append)
  next
    assume o1: "o1 = ''add-exploration''"
    have "state_ok sha st (h @ [?e]) s" using assms(1) by (rule state_ok_snoc) (simp add: o1)
    then show ?thesis
      by (auto simp: event_ok_def snapshot_step_event w o1 state_ok_def Let_def ledger_ok_def latest_intent_snoc)
  qed
qed

lemma find_kind:
  "list_ex (\<lambda>r. lg_kind r = ''record-intent'') rows \<Longrightarrow> \<exists>r. latest_intent rows = Inr r"
  by (induction rows rule: rev_induct) (auto simp: latest_intent_snoc)


lemma validate_proposal_success:
  assumes "validate_proposal repository s pl = Inr u"
  shows "i_at pl ''spec'' = Inr (py_field pl ''spec'')"
    and "\<exists>r. latest_intent (in_ledger s) = Inr r"
    and "compile_spec (py_field pl ''spec'') repository = Inr (py_field pl ''spec'')"
    and "if in_approvals s = [] then spec_revision (py_field pl ''spec'') = 1
         else spec_revision (py_field pl ''spec'') = spec_revision (ap_spec (last (in_approvals s))) + 1
           \<and> spec_id (py_field pl ''spec'') = spec_id (ap_spec (last (in_approvals s)))"
proof -
  note body = assms [unfolded validate_proposal_def bindE_eq_Inr, simplified ensure_eq_Inr]
  show "i_at pl ''spec'' = Inr (py_field pl ''spec'')"
    by (rule i_at_shape [where ks = "[''spec'', ''assumptions'', ''open_questions'', ''technical_questions'']" and u = "()"])
       (use body in \<open>simp_all del: i_shape_eq\<close>)
  show "\<exists>r. latest_intent (in_ledger s) = Inr r" using body by (intro find_kind) simp
  from body obtain spec where spec: "compile_spec (py_field pl ''spec'') repository = Inr spec"
    by (auto simp del: i_shape_eq split: sum.splits)
  note eq = compile_spec_eq [OF spec]
  from spec eq show "compile_spec (py_field pl ''spec'') repository = Inr (py_field pl ''spec'')" by simp
  from body spec eq show "if in_approvals s = [] then spec_revision (py_field pl ''spec'') = 1
      else spec_revision (py_field pl ''spec'') = spec_revision (ap_spec (last (in_approvals s))) + 1
        \<and> spec_id (py_field pl ''spec'') = spec_id (ap_spec (last (in_approvals s)))"
    by (auto simp: Let_def bindE_eq_Inr spec_id_def py_eq_def simp del: i_shape_eq split: if_splits)
qed

lemma approvals_last:
  assumes "approvals_ok as" and "as \<noteq> []"
  shows "spec_revision (ap_spec (last as)) = int (length as)"
proof -
  have "spec_revision (ap_spec (last as)) = last (map (\<lambda>a. spec_revision (ap_spec a)) as)"
    using assms(2) by (simp add: last_map)
  also have "\<dots> = last [1 .. int (length as)]" using assms(1) by (simp add: approvals_ok_def)
  also have "\<dots> = int (length as)"
  proof -
    have "0 < length as" using assms(2) by simp
    then have "1 \<le> int (length as)" by linarith
    from upto_rec2 [OF this] show ?thesis by simp
  qed
  finally show ?thesis .
qed

lemma approvals_snoc:
  assumes "approvals_ok as" and "spec_revision (ap_spec a) = int (length as) + 1"
    and "\<forall>b \<in> set as. spec_id (ap_spec b) = spec_id (ap_spec a)"
  shows "approvals_ok (as @ [a])"
proof -
  have "[1 .. int (length as) + 1] = [1 .. int (length as)] @ [int (length as) + 1]"
    using upto_rec2 [of 1 "int (length as) + 1"] by simp
  then have "map (\<lambda>a. spec_revision (ap_spec a)) (as @ [a]) = [1 .. int (length (as @ [a]))]"
    using assms(1,2) by (simp add: approvals_ok_def add.commute)
  moreover have "spec_id (ap_spec b) = spec_id (ap_spec (hd (as @ [a])))" if "b \<in> set (as @ [a])" for b
  proof (cases "as = []")
    case False
    then have "hd as \<in> set as" by simp
    with assms(1,3) that False show ?thesis by (auto simp: approvals_ok_def)
  qed (use that in simp)
  ultimately show ?thesis unfolding approvals_ok_def by blast
qed

lemma proposal_event_ok:
  assumes "state_ok sha st h s" and "validate_proposal (is_repository st) s pl = Inr u"
  shows "event_ok sha st h s (make_event st k (int (length h)) ''propose-spec'' pl p now prev)"
proof -
  let ?e = "make_event st k (int (length h)) ''propose-spec'' pl p now prev"
  let ?spec = "py_field pl ''spec''"
  note v = validate_proposal_success [OF assms(2)]
  from v(2) obtain r where r: "latest_intent (in_ledger s) = Inr r" by blast
  with assms(1) obtain i where i: "last_intent h i (length h)" "lg_version r = PInt (int i + 1)"
    by (auto simp: state_ok_def ledger_ok_def)
  define d where "d = \<lparr>dr_payload = pl, dr_spec = ?spec, dr_open = py_field pl ''open_questions'',
     dr_version = PInt (int (length h) + 1), dr_source = lg_version r, dr_sha = sha256_value sha ?spec\<rparr>"
  have step: "snapshot_step sha s ?e = Inr (s\<lparr>in_draft := Some d\<rparr>)"
    by (simp add: snapshot_step_event r v(1) d_def)
  have ok: "state_ok sha st (h @ [?e]) s" using assms(1) by (rule state_ok_snoc) simp
  have "proposal_at (h @ [?e]) (length h) ?spec" by (simp add: proposal_at_def)
  moreover have "last_intent (h @ [?e]) i (length (h @ [?e]))" using i(1) by (rule last_intent_snoc) simp
  moreover have "i < length h" using i(1) by (simp add: last_intent_def)
  ultimately have "draft_ok sha st (h @ [?e]) d"
    unfolding draft_ok_def using v(3) i(2)
    by (intro exI [of _ i] exI [of _ "length h"]) (simp add: d_def)
  moreover have "draft_next (in_approvals s) d"
  proof (cases "in_approvals s = []")
    case False
    have as: "approvals_ok (in_approvals s)" using assms(1) by (simp add: state_ok_def)
    from v(4) approvals_last [OF as] False have rev: "spec_revision (dr_spec d) = int (length (in_approvals s)) + 1"
      and last: "spec_id (ap_spec (last (in_approvals s))) = spec_id (dr_spec d)" by (simp_all add: d_def)
    have "spec_id (ap_spec a) = spec_id (dr_spec d)" if "a \<in> set (in_approvals s)" for a
      using as last that False by (metis approvals_ok_def last_in_set)
    with rev show ?thesis unfolding draft_next_def by blast
  qed (use v(4) in \<open>simp add: draft_next_def d_def\<close>)
  ultimately show ?thesis
    using ok unfolding event_ok_def step state_ok_def by simp
qed

lemma approval_event_ok:
  assumes "state_ok sha st h s" and "validate_approval s pl = Inr u" and "p = owner_of st"
  shows "event_ok sha st h s (make_event st k (int (length h)) ''approve-spec'' pl p now prev)"
proof -
  let ?e = "make_event st k (int (length h)) ''approve-spec'' pl p now prev"
  from assms(2) obtain d n where d: "in_draft s = Some d" and n: "py_field pl ''draft_version'' = PInt n"
      "py_eq (PInt n) (dr_version d)" and sha: "py_field pl ''spec_sha256'' = PStr (dr_sha d)"
      and no_open: "\<not> py_truthy (dr_open d)"
      and fresh: "\<not> (in_approvals s \<noteq> [] \<and> py_eq (ap_draft (last (in_approvals s))) (dr_version d))"
    by (auto simp: validate_approval_def bindE_eq_Inr simp del: i_shape_eq split: option.splits pyval.splits)
  have dok: "draft_ok sha st h d" and nxt: "draft_next (in_approvals s) d"
    using assms(1) d by (simp_all add: state_ok_def)
  from dok obtain i j where ij: "i < j" "last_intent h i (length h)" "proposal_at h j (dr_spec d)"
      "dr_open d = py_field (ev_payload (h ! j)) ''open_questions''" "dr_source d = PInt (int i + 1)"
      "dr_version d = PInt (int j + 1)" "dr_sha d = sha256_value sha (dr_spec d)"
      "compile_spec (dr_spec d) (is_repository st) = Inr (dr_spec d)"
    by (auto simp: draft_ok_def)
  have j: "j < length h" using ij(3) by (simp add: proposal_at_def)
  have n': "n = int j + 1" using n(2) ij(6) by (auto simp: py_eq_def)
  define a where "a = \<lparr>ap_spec = dr_spec d, ap_payload = pl, ap_draft = PInt (int j + 1), ap_source = dr_source d,
     ap_actor = actor_value p, ap_at = PStr now, ap_version = PInt (int (length h) + 1)\<rparr>"
  have step: "snapshot_step sha s ?e = Inr (s\<lparr>in_approvals := in_approvals s @ [a]\<rparr>)"
    by (simp add: snapshot_step_event d n(1) n' a_def)
  have ok: "state_ok sha st (h @ [?e]) s" using assms(1) by (rule state_ok_snoc) simp
  have "last_intent (h @ [?e]) i (length h)" using ij(2) by (rule last_intent_append)
  moreover have "proposal_at (h @ [?e]) j (ap_spec a)" using proposal_at_append [OF ij(3)] by (simp add: a_def)
  moreover have "approval_at sha st (h @ [?e]) (length h) j (ap_spec a)"
    using n(1) sha ij(7) assms(3) by (simp add: approval_at_def n' a_def)
  moreover have "(h @ [?e]) ! j = h ! j" using j by (simp add: nth_append)
  ultimately have "approval_ok sha st (h @ [?e]) a"
    unfolding approval_ok_def using no_open ij(1,4,5,8) j
    by (intro exI [of _ i] exI [of _ j] exI [of _ "length h"]) (simp add: a_def)
  moreover have "approvals_ok (in_approvals s @ [a])"
    using assms(1) nxt fresh ij(6)
    by (intro approvals_snoc) (auto simp: state_ok_def draft_next_def a_def)
  moreover have "draft_next (in_approvals s @ [a]) d" using nxt ij(6) by (simp add: draft_next_def a_def)
  ultimately show ?thesis
    using ok d unfolding event_ok_def step state_ok_def by simp
qed

end
