(* ===== verification/Intent_Properties.thy ===== *)
theory Intent_Properties
  imports Intent_Facts Programme_Properties Json_Size
begin

text \<open>
  The journal of a project as a transactional store ordered by prefix, and what the owner's
  approvals rest on in every journal the services can write.
\<close>

section \<open>The journal machine\<close>

lemma execute_intent_success:
  assumes "execute_intent sha st p command now h = Inr (s, h')"
  obtains name r spec where "authorize st p = Inr ()" and "find_spec name intake_operations = Some spec"
    and "append_event sha st intake_operations p (py_field command ''expected_project_version'')
       (py_field command ''idempotency_key'') name (py_field command ''payload'')
       (validate_intake sha (is_repository st) name (py_field command ''payload'')) now h = Inr (r, h')"
    and "snapshot sha (if ea_replayed r then take (ea_index r + 1) h' else h') = Inr s"
proof -
  note body = assms [unfolded execute_intent_def Let_def]
  from body obtain name where name: "py_field command ''operation'' = PStr name" and auth: "authorize st p = Inr ()"
    by (cases "py_field command ''operation''") (auto simp: bindE_eq_Inr simp del: i_shape_eq i_text_eq i_nat_eq)
  from body [unfolded name pyval.case] show thesis
    by (auto simp: bindE_eq_Inr read_history_eq auth intro!: that simp del: i_shape_eq i_text_eq i_nat_eq)
qed

lemma find_intake:
  assumes "find_spec name intake_operations = Some spec"
  shows "name \<in> set INTAKE" and "name \<noteq> ''propose-spec'' \<Longrightarrow> os_roles spec = [''owner'']"
proof -
  have spec: "spec \<in> set intake_operations" "os_operation spec = name"
    using assms by (auto simp: find_spec_def find_Some_iff)
  then show "name \<in> set INTAKE" by (auto simp: INTAKE_def)
  show "os_roles spec = [''owner'']" if "name \<noteq> ''propose-spec''"
    using spec that unfolding intake_operations_def list.set insert_iff by (elim disjE) simp_all
qed

lemma owner_authorized: "authorize st p = Inr () \<Longrightarrow> pr_role p = ''owner'' \<Longrightarrow> p = owner_of st"
  by (cases p) (auto simp: authorize_def bindE_eq_Inr owner_of_def)

lemma intake_event_ok:
  assumes "state_ok sha st h s" and "snapshot sha h = Inr s" and "authorize st p = Inr ()"
    and "find_spec name intake_operations = Some spec" and "pr_role p \<in> set (os_roles spec)"
    and "validate_intake sha (is_repository st) name payload h = Inr pl"
  shows "event_ok sha st h s (make_event st k (int (length h)) name pl p now prev)"
proof -
  have pl: "pl = payload" using assms(6) by (auto simp: validate_intake_def bindE_eq_Inr)
  note valid = assms(6) [unfolded validate_intake_def assms(2) bindE_Inr]
  consider "name = ''record-intent'' \<or> name = ''add-exploration''" | "name = ''propose-spec''" | "name = ''approve-spec''"
    using find_intake(1) [OF assms(4)] by (auto simp: INTAKE_def intake_operations_def)
  then show ?thesis
  proof cases
    case 1
    then have "validate_wording payload = Inr ()" using valid by (auto simp: bindE_eq_Inr)
    from wording_event_ok [OF assms(1) this 1] show ?thesis by (simp add: pl)
  next
    case 2
    then have "validate_proposal (is_repository st) s payload = Inr ()" using valid by (auto simp: bindE_eq_Inr)
    from proposal_event_ok [OF assms(1) this] show ?thesis by (simp add: pl 2)
  next
    case 3
    then have v: "validate_approval s payload = Inr ()" using valid by (auto simp: bindE_eq_Inr)
    have "pr_role p = ''owner''" using find_intake(2) [OF assms(4)] assms(5) 3 by simp
    with assms(3) have "p = owner_of st" by (rule owner_authorized)
    from approval_event_ok [OF assms(1) v this] show ?thesis by (simp add: pl 3)
  qed
qed

lemma journal_inv_event:
  assumes "snapshot sha h = Inr s" and "event_ok sha st h s e" and "read_history sha st (h @ [e]) = Inr (h @ [e])"
  shows "journal_inv sha st (h @ [e])"
  using assms by (auto simp: journal_inv_def event_ok_def read_history_eq snapshot_snoc)

lemma journal_exec_step:
  assumes "journal_inv sha st h" and "journal_exec sha st c h = Inr (r, h')"
  shows "journal_inv sha st h' \<and> prefix h h'"
proof -
  from assms(1) obtain s where s: "snapshot sha h = Inr s" "state_ok sha st h s" by (auto simp: journal_inv_def)
  show ?thesis
  proof (cases c)
    case (Intake p command now)
    with assms(2) obtain state where "execute_intent sha st p command now h = Inr (state, h')"
      by (auto simp: journal_exec_def reply_eq_Inr)
    then show ?thesis
    proof (rule execute_intent_success)
      fix name q spec
      assume auth: "authorize st p = Inr ()" and spec: "find_spec name intake_operations = Some spec"
        and app: "append_event sha st intake_operations p (py_field command ''expected_project_version'')
          (py_field command ''idempotency_key'') name (py_field command ''payload'')
          (validate_intake sha (is_repository st) name (py_field command ''payload'')) now h = Inr (q, h')"
      from app show ?thesis
      proof (cases rule: append_event_success)
        case (appended k spec' e pl)
        have "event_ok sha st h s e"
          unfolding appended using s(2,1) auth spec _ appended(7)
          by (rule intake_event_ok) (use appended(4,5) spec in simp)
        from journal_inv_event [OF s(1) this] appended show ?thesis by simp
      qed (use assms(1) in simp)
    qed
  next
    case (Service registry p expected key operation payload validate now)
    with assms(2) obtain q where op: "operation \<notin> set INTAKE"
      and app: "append_event sha st registry p expected key operation payload validate now h = Inr (q, h')"
      by (auto simp: journal_exec_def reply_eq_Inr bindE_eq_Inr)
    from app show ?thesis
    proof (cases rule: append_event_success)
      case (appended k spec' e pl)
      have "event_ok sha st h s e" unfolding appended using s(2) op by (rule other_event_ok)
      from journal_inv_event [OF s(1) this] appended show ?thesis by simp
    qed (use assms(1) in simp)
  qed
qed

interpretation journal_tx: transactional_order "journal_exec sha st" "journal_inv sha st" prefix
  by unfold_locales (auto dest: journal_exec_step)

lemma empty_journal_inv: "journal_inv sha st []"
proof -
  have "utf8_length (canonical_bytes (PList [])) = 3" by code_simp
  then show ?thesis
    by (simp add: journal_inv_def chain_ok_def MAX_EVENTS_def MAX_HISTORY_BYTES_def snapshot_def start_state_def
        state_ok_def approvals_ok_def ledger_ok_def latest_intent_def)
qed

lemma reachable_journal_inv: "tx_reachable (journal_exec sha st) [] h \<Longrightarrow> journal_inv sha st h"
  by (erule journal_tx.reachable_inv) (rule empty_journal_inv)


section \<open>A journal\<close>

definition demo_store :: intent_store where
  "demo_store = \<lparr>is_project = ''p'', is_repository = ''o/r'', is_owner = ''ann''\<rparr>"

definition ann :: principal where
  "ann = \<lparr>pr_identity = ''ann'', pr_role = ''owner''\<rparr>"

definition intake :: "string \<Rightarrow> int \<Rightarrow> string \<Rightarrow> pyval \<Rightarrow> pyval" where
  "intake key version operation payload = PDict [(''idempotency_key'', PStr key),
     (''expected_project_version'', PInt version), (''operation'', PStr operation), (''payload'', payload)]"

definition wording1 :: pyval where
  "wording1 = PDict [(''wording'', PStr ''w'')]"

definition proposal1 :: pyval where
  "proposal1 = PDict [(''spec'', demo_spec), (''assumptions'', PList []), (''open_questions'', PList []),
     (''technical_questions'', PList [])]"

definition approval1 :: pyval where
  "approval1 = PDict [(''draft_version'', PInt 2), (''spec_sha256'', PStr flat_hash), (''wording'', PStr ''ok'')]"

definition demo_event :: "string \<Rightarrow> int \<Rightarrow> string \<Rightarrow> pyval \<Rightarrow> pyval" where
  "demo_event key version operation payload =
     make_event demo_store key version operation payload ann ''t'' (if version = 0 then PNone else PStr flat_hash)"

definition journal1 :: "pyval list" where
  "journal1 = [demo_event ''k1'' 0 ''record-intent'' wording1]"

definition journal2 :: "pyval list" where
  "journal2 = journal1 @ [demo_event ''k2'' 1 ''propose-spec'' proposal1]"

definition journal3 :: "pyval list" where
  "journal3 = journal2 @ [demo_event ''k3'' 2 ''approve-spec'' approval1]"

lemmas demo_journal = journal1_def journal2_def journal3_def demo_event_def wording1_def proposal1_def
  approval1_def demo_store_def ann_def

lemma demo_costs:
  "json_cost demo_spec < 2000" "json_cost wording1 < 100" "json_cost proposal1 < 3000" "json_cost approval1 < 1000"
  "json_cost (PList journal1) < 100000" "json_cost (PList journal2) < 100000" "json_cost (PList journal3) < 100000"
  by (simp_all add: demo_journal demo_spec_def make_event_def actor_value_def flat_hash_length)

lemma demo_reads: "read_history flat_sha demo_store [] = Inr []"
proof -
  have "project_id (is_project demo_store)" by (simp add: demo_store_def) code_simp
  then show ?thesis using empty_journal_inv [of flat_sha demo_store] by (simp add: read_history_eq journal_inv_def)
qed

lemma journal_step_reads: "journal_exec sha st c h = Inr (r, h') \<Longrightarrow> read_history sha st h' = Inr h'"
  by (cases c) (auto simp: journal_exec_def reply_eq_Inr bindE_eq_Inr dest: append_event_reads
      elim!: execute_intent_success)

lemma intake_appends:
  assumes "read_history sha st h = Inr h" and "authorize st p = Inr ()" and "pr_role p = ''owner''"
    and "find_spec name intake_operations = Some spec" and "''owner'' \<in> set (os_roles spec)"
    and "i_text 100 (PStr key) = Inr key" and "length name \<le> 100" and "json_cost payload < 100000" and "length h < 1000"
    and "find_key key h 0 = None" and "validate_intake sha (is_repository st) name payload h = Inr payload"
    and "h' = h @ [make_event st key (int (length h)) name payload p now (last_hash sha h)]"
    and "json_cost (PList h') < 1000000"
  shows "\<exists>r. append_event sha st intake_operations p (PInt (int (length h))) (PStr key) name payload
      (validate_intake sha (is_repository st) name payload) now h = Inr (r, h') \<and> \<not> ea_replayed r"
proof -
  have auth: "authenticate st intake_operations p = Inr ()"
    using assms(2,3) by (auto simp: authenticate_def authorize_def bindE_eq_Inr)
  have "json_cost payload < 200000" using assms(8) by simp
  from append_runs [where validate = "validate_intake sha (is_repository st) name payload" and now = now,
      OF assms(1,4) auth _ assms(6) this assms(10,11,9,12,13)] assms(3,5) show ?thesis by auto
qed

lemma intake_runs:
  assumes "read_history sha st h = Inr h" and "authorize st p = Inr ()" and "pr_role p = ''owner''"
    and "find_spec name intake_operations = Some spec" and "''owner'' \<in> set (os_roles spec)"
    and "i_text 100 (PStr key) = Inr key" and "length name \<le> 100" and "json_cost payload < 100000" and "length h < 1000"
    and "find_key key h 0 = None" and "validate_intake sha (is_repository st) name payload h = Inr payload"
    and "h' = h @ [make_event st key (int (length h)) name payload p now (last_hash sha h)]"
    and "json_cost (PList h') < 1000000" and "snapshot sha h' = Inr s"
  shows "journal_exec sha st (Intake p (intake key (int (length h)) name payload) now) h = Inr ((), h')"
proof -
  have f: "py_field (intake key (int (length h)) name payload) ''idempotency_key'' = PStr key"
    "py_field (intake key (int (length h)) name payload) ''expected_project_version'' = PInt (int (length h))"
    "py_field (intake key (int (length h)) name payload) ''operation'' = PStr name"
    "py_field (intake key (int (length h)) name payload) ''payload'' = payload"
    by (simp_all add: intake_def py_field_def py_get_def)
  have key: "length key \<le> 100" using assms(6) by simp
  have nat: "i_nat (PInt (int (length h))) = Inr (int (length h))" by simp
  have c: "length (canonical_bytes (intake key (int (length h)) name payload)) \<le> 250000"
    by (rule canonical_fits) (use assms(7,8,9) key in \<open>simp add: intake_def\<close>)
  from intake_appends [OF assms(1-13)] obtain r where r: "append_event sha st intake_operations p (PInt (int (length h))) (PStr key) name payload
      (validate_intake sha (is_repository st) name payload) now h = Inr (r, h')" "\<not> ea_replayed r" by blast
  have shape: "i_shape [''idempotency_key'', ''expected_project_version'', ''operation'', ''payload'']
      (intake key (int (length h)) name payload) = Inr ()" by (auto simp: intake_def)
  show ?thesis
    using c r append_event_reads [OF r(1)] assms(3)
    by (simp add: journal_exec_def execute_intent_def assms(2,4,6,14) f nat shape reply_def)
qed

lemma ann_authorized: "authorize demo_store ann = Inr ()"
  by (simp add: authorize_def demo_store_def ann_def)

lemma demo_texts_ok:
  "i_text 100 (PStr ''k1'') = Inr ''k1''" "i_text 100 (PStr ''k2'') = Inr ''k2''" "i_text 100 (PStr ''k3'') = Inr ''k3''"
  "i_text 10000 (PStr ''w'') = Inr ''w''" "i_text 10000 (PStr ''ok'') = Inr ''ok''"
  by code_simp+

lemma demo_specs:
  "\<exists>spec. find_spec ''record-intent'' intake_operations = Some spec \<and> ''owner'' \<in> set (os_roles spec)"
  "\<exists>spec. find_spec ''propose-spec'' intake_operations = Some spec \<and> ''owner'' \<in> set (os_roles spec)"
  "\<exists>spec. find_spec ''approve-spec'' intake_operations = Some spec \<and> ''owner'' \<in> set (os_roles spec)"
  by (simp_all add: find_spec_def intake_operations_def)

lemma demo_event_eq:
  "demo_event key 0 name payload = make_event demo_store key 0 name payload ann ''t'' (last_hash flat_sha [])"
  "h \<noteq> [] \<Longrightarrow> length h = nat v \<Longrightarrow> 0 < v \<Longrightarrow>
   demo_event key v name payload = make_event demo_store key (int (length h)) name payload ann ''t'' (last_hash flat_sha h)"
  by (simp_all add: demo_event_def last_hash_def flat_sha_value)

lemma demo_snapshots:
  "snapshot flat_sha [] = Inr start_state"
  "snapshot flat_sha journal1 = Inr (start_state\<lparr>in_ledger :=
     [\<lparr>lg_version = PInt 1, lg_actor = actor_value ann, lg_kind = ''record-intent'', lg_wording = PStr ''w''\<rparr>]\<rparr>)"
  "\<exists>s. snapshot flat_sha journal2 = Inr s \<and> in_approvals s = [] \<and> (\<exists>d. in_draft s = Some d
     \<and> dr_version d = PInt 2 \<and> dr_sha d = flat_hash \<and> dr_spec d = demo_spec \<and> dr_open d = PList [] \<and> dr_source d = PInt 1)
     \<and> map lg_version (in_ledger s) = [PInt 1] \<and> map lg_kind (in_ledger s) = [''record-intent'']"
  by (simp_all add: snapshot_def start_state_def journal2_def journal1_def demo_event_def snapshot_step_event
      wording1_def proposal1_def i_at_def foldE_snoc latest_intent_def flat_sha_value py_field_def py_get_def)

lemma demo_validates:
  "validate_intake flat_sha ''o/r'' ''record-intent'' wording1 [] = Inr wording1"
  "validate_intake flat_sha ''o/r'' ''propose-spec'' proposal1 journal1 = Inr proposal1"
  "validate_intake flat_sha ''o/r'' ''approve-spec'' approval1 journal2 = Inr approval1"
proof -
  have f: "i_shape [''wording''] wording1 = Inr ()"
    "i_shape [''spec'', ''assumptions'', ''open_questions'', ''technical_questions''] proposal1 = Inr ()"
    "i_shape [''draft_version'', ''spec_sha256'', ''wording''] approval1 = Inr ()"
    "py_field wording1 ''wording'' = PStr ''w''" "py_field proposal1 ''spec'' = demo_spec"
    "py_field proposal1 ''assumptions'' = PList []" "py_field proposal1 ''open_questions'' = PList []"
    "py_field proposal1 ''technical_questions'' = PList []" "py_field approval1 ''draft_version'' = PInt 2"
    "py_field approval1 ''spec_sha256'' = PStr flat_hash" "py_field approval1 ''wording'' = PStr ''ok''"
    by (auto simp: wording1_def proposal1_def approval1_def py_field_def py_get_def)
  show "validate_intake flat_sha ''o/r'' ''record-intent'' wording1 [] = Inr wording1"
    by (simp add: validate_intake_def demo_snapshots validate_wording_def f demo_texts_ok del: i_shape_eq i_text_eq)
  have "spec_revision demo_spec = 1" by (simp add: spec_revision_def demo_fields)
  then show "validate_intake flat_sha ''o/r'' ''propose-spec'' proposal1 journal1 = Inr proposal1"
    by (simp add: validate_intake_def demo_snapshots validate_proposal_def f demo_spec_compiles start_state_def
        i_texts_def del: i_shape_eq i_text_eq)
  from demo_snapshots(3) obtain s d where "snapshot flat_sha journal2 = Inr s" "in_approvals s = []" "in_draft s = Some d"
      "dr_version d = PInt 2" "dr_sha d = flat_hash" "dr_open d = PList []" by blast
  then show "validate_intake flat_sha ''o/r'' ''approve-spec'' approval1 journal2 = Inr approval1"
    by (simp add: validate_intake_def validate_approval_def f demo_texts_ok del: i_shape_eq i_text_eq)
qed

lemma demo_snapshot3: "\<exists>s a. snapshot flat_sha journal3 = Inr s \<and> in_approvals s = [a] \<and> ap_spec a = demo_spec
    \<and> ap_payload a = approval1 \<and> ap_source a = PInt 1 \<and> map lg_version (in_ledger s) = [PInt 1] \<and> map lg_kind (in_ledger s) = [''record-intent'']"
proof -
  from demo_snapshots(3) obtain s d where "snapshot flat_sha journal2 = Inr s" "in_approvals s = []" "in_draft s = Some d"
      "dr_spec d = demo_spec" "dr_source d = PInt 1" "map lg_version (in_ledger s) = [PInt 1]"
      "map lg_kind (in_ledger s) = [''record-intent'']" by (elim exE conjE)
  then show ?thesis by (simp add: journal3_def snapshot_snoc demo_event_def snapshot_step_event)
qed

lemma journal_step1:
  "journal_exec flat_sha demo_store (Intake ann (intake ''k1'' 0 ''record-intent'' wording1) ''t'') [] = Inr ((), journal1)"
proof -
  obtain spec where spec: "find_spec ''record-intent'' intake_operations = Some spec" "''owner'' \<in> set (os_roles spec)"
    using demo_specs(1) by blast
  show ?thesis
    using intake_runs [OF _ ann_authorized _ spec demo_texts_ok(1), of flat_sha "[]" wording1 journal1 "''t''"]
      demo_reads demo_costs demo_snapshots(2) demo_validates(1)
    by (simp add: ann_def journal1_def demo_event_eq demo_store_def)
qed

lemma journal_step2:
  "journal_exec flat_sha demo_store (Intake ann (intake ''k2'' 1 ''propose-spec'' proposal1) ''t'') journal1 = Inr ((), journal2)"
proof -
  obtain spec where spec: "find_spec ''propose-spec'' intake_operations = Some spec" "''owner'' \<in> set (os_roles spec)"
    using demo_specs(2) by blast
  obtain s where s: "snapshot flat_sha journal2 = Inr s" using demo_snapshots(3) by blast
  have "find_key ''k2'' journal1 0 = None" by (simp add: journal1_def demo_event_def)
  moreover have "journal2 = journal1 @ [make_event demo_store ''k2'' (int (length journal1)) ''propose-spec'' proposal1 ann ''t''
      (last_hash flat_sha journal1)]" using demo_event_eq(2) [of journal1 1] by (simp add: journal2_def) (simp add: journal1_def)
  moreover have "read_history flat_sha demo_store journal1 = Inr journal1"
    using journal_step1 by (rule journal_step_reads)
  ultimately show ?thesis
    using intake_runs [OF _ ann_authorized _ spec demo_texts_ok(2), of flat_sha journal1 proposal1 journal2 "''t''" s]
      demo_costs s demo_validates(2)
    by (simp add: ann_def demo_store_def) (simp add: journal1_def)
qed

lemma journal_step3:
  "journal_exec flat_sha demo_store (Intake ann (intake ''k3'' 2 ''approve-spec'' approval1) ''t'') journal2 = Inr ((), journal3)"
proof -
  obtain spec where spec: "find_spec ''approve-spec'' intake_operations = Some spec" "''owner'' \<in> set (os_roles spec)"
    using demo_specs(3) by blast
  obtain s where s: "snapshot flat_sha journal3 = Inr s" using demo_snapshot3 by blast
  have "find_key ''k3'' journal2 0 = None" by (simp add: journal2_def journal1_def demo_event_def)
  moreover have "journal3 = journal2 @ [make_event demo_store ''k3'' (int (length journal2)) ''approve-spec'' approval1 ann ''t''
      (last_hash flat_sha journal2)]" using demo_event_eq(2) [of journal2 2] by (simp add: journal3_def) (simp add: journal2_def journal1_def)
  moreover have "read_history flat_sha demo_store journal2 = Inr journal2"
    using journal_step2 by (rule journal_step_reads)
  ultimately show ?thesis
    using intake_runs [OF _ ann_authorized _ spec demo_texts_ok(3), of flat_sha journal2 approval1 journal3 "''t''" s]
      demo_costs s demo_validates(3)
    by (simp add: ann_def demo_store_def) (simp add: journal2_def journal1_def)
qed

lemma journal_reachable:
  "tx_reachable (journal_exec flat_sha demo_store) [] journal1"
  "tx_reachable (journal_exec flat_sha demo_store) [] journal2"
  "tx_reachable (journal_exec flat_sha demo_store) [] journal3"
proof -
  show one: "tx_reachable (journal_exec flat_sha demo_store) [] journal1"
    by (rule tx_step) (rule tx_start, rule journal_step1)
  show two: "tx_reachable (journal_exec flat_sha demo_store) [] journal2"
    by (rule tx_step) (rule one, rule journal_step2)
  show "tx_reachable (journal_exec flat_sha demo_store) [] journal3"
    by (rule tx_step) (rule two, rule journal_step3)
qed


section \<open>Guarantees\<close>

text \<open>C18. Scope that exploration and execution may rely on was reviewed: if \<open>approved_scope\<close>
  returns an approval, the journal holds the owner's most recent intent, after it the proposal of
  exactly the approved specification with no open question, and after that the configured owner's
  own approval naming that proposal's version and the hash of its specification, which compiles.\<close>

theorem approved_scope_reviewed:
  assumes "tx_reachable (journal_exec sha st) [] h" and "approved_scope sha h = Inr a"
  shows "\<exists>i j k. i < j \<and> j < k \<and> last_intent h i (length h) \<and> proposal_at h j (ap_spec a)
    \<and> \<not> py_truthy (py_field (ev_payload (h ! j)) ''open_questions'')
    \<and> approval_at sha st h k j (ap_spec a) \<and> compile_spec (ap_spec a) (is_repository st) = Inr (ap_spec a)"
proof -
  from assms(2) obtain s r where s: "snapshot sha h = Inr s" and as: "in_approvals s \<noteq> []"
    and a: "a = last (in_approvals s)" and r: "latest_intent (in_ledger s) = Inr r"
    and eq: "py_eq (ap_source a) (lg_version r)"
    by (auto simp: approved_scope_def bindE_eq_Inr Let_def)
  have ok: "state_ok sha st h s" using reachable_journal_inv [OF assms(1)] s by (simp add: journal_inv_def)
  then have "approval_ok sha st h a" using as a by (simp add: state_ok_def)
  then obtain i j k where ijk: "i < j" "j < k" "last_intent h i k" "proposal_at h j (ap_spec a)"
      "\<not> py_truthy (py_field (ev_payload (h ! j)) ''open_questions'')" "approval_at sha st h k j (ap_spec a)"
      "ap_source a = PInt (int i + 1)" "compile_spec (ap_spec a) (is_repository st) = Inr (ap_spec a)"
    by (auto simp: approval_ok_def)
  from ok r obtain m where "last_intent h m (length h)" "lg_version r = PInt (int m + 1)"
    by (auto simp: state_ok_def ledger_ok_def)
  with eq ijk(7) have "last_intent h i (length h)" by (auto simp: py_eq_def)
  with ijk show ?thesis by blast
qed

lemma demo_approval:
  "\<exists>a. approved_scope flat_sha journal3 = Inr a \<and> ap_spec a = demo_spec \<and> ap_payload a = approval1"
proof -
  obtain s a where sa: "snapshot flat_sha journal3 = Inr s" "in_approvals s = [a]" "ap_spec a = demo_spec"
      "ap_payload a = approval1" "ap_source a = PInt 1" and l: "map lg_version (in_ledger s) = [PInt 1]"
      "map lg_kind (in_ledger s) = [''record-intent'']"
    using demo_snapshot3 by (elim exE conjE)
  from l obtain row where "in_ledger s = [row]" "lg_version row = PInt 1" "lg_kind row = ''record-intent''" by auto
  with sa show ?thesis by (simp add: approved_scope_def latest_intent_def)
qed

lemma approved_scope_reviewed_witness:
  "\<exists>a i j k. approved_scope flat_sha journal3 = Inr a \<and> i < j \<and> j < k \<and> proposal_at journal3 j (ap_spec a)
    \<and> approval_at flat_sha demo_store journal3 k j (ap_spec a) \<and> ap_spec a = demo_spec"
proof -
  obtain a where a: "approved_scope flat_sha journal3 = Inr a" "ap_spec a = demo_spec" using demo_approval by blast
  from approved_scope_reviewed [OF journal_reachable(3) a(1)] a show ?thesis by blast
qed

text \<open>In every journal the services can write, the snapshot is defined, and the approved
  specifications are the revisions 1, 2, ... in order of one specification with a constant
  identity.\<close>

theorem approval_revisions:
  assumes "tx_reachable (journal_exec sha st) [] h"
  shows "\<exists>s. snapshot sha h = Inr s
    \<and> map (\<lambda>a. spec_revision (ap_spec a)) (in_approvals s) = [1 .. int (length (in_approvals s))]
    \<and> (\<forall>a \<in> set (in_approvals s). py_eq (py_field (ap_spec a) ''id'') (py_field (ap_spec (hd (in_approvals s))) ''id''))"
  using reachable_journal_inv [OF assms]
  by (auto simp: journal_inv_def state_ok_def approvals_ok_def spec_id_def py_eq_def)

lemma approval_revisions_witness:
  "\<exists>s. snapshot flat_sha journal3 = Inr s
    \<and> map (\<lambda>a. spec_revision (ap_spec a)) (in_approvals s) = [1 .. int (length (in_approvals s))] \<and> in_approvals s \<noteq> []"
proof -
  obtain s a where sa: "snapshot flat_sha journal3 = Inr s" "in_approvals s = [a]" using demo_snapshot3 by blast
  from approval_revisions [OF journal_reachable(3)] sa show ?thesis by auto
qed

text \<open>The journal is append-only and verifies: every later journal extends an earlier one, its
  event number i carries version i + 1 and names the hash of the event before it, and
  \<open>verify_chain\<close> accepts it.\<close>

theorem journal_append_only:
  assumes "tx_reachable (journal_exec sha st) [] h" and "tx_reachable (journal_exec sha st) h t"
  shows "prefix h t \<and> verify_chain sha (is_project st) (is_repository st) t = Inr ()
    \<and> (\<forall>i < length t. event_follows (is_project st) (is_repository st) (int i + 1)
      (if i = 0 then PNone else PStr (sha256_value sha (t ! (i - 1)))) (t ! i))"
proof -
  have inv: "journal_inv sha st h" using assms(1) by (rule reachable_journal_inv)
  have t: "journal_inv sha st t" using assms(2) inv by (rule journal_tx.reachable_inv)
  moreover have "prefix h t" using assms(2) inv by (rule journal_tx.reachable_le)
  ultimately show ?thesis
    using chain_nth [of sha _ _ 1 PNone t] by (simp add: journal_inv_def chain_ok_def verify_chain_def add.commute)
qed

lemma journal_append_only_witness:
  "verify_chain flat_sha ''p'' ''o/r'' journal3 = Inr () \<and> prefix journal1 journal3"
proof -
  have two: "tx_reachable (journal_exec flat_sha demo_store) journal1 journal2"
    by (rule tx_step) (rule tx_start, rule journal_step2)
  have run: "tx_reachable (journal_exec flat_sha demo_store) journal1 journal3"
    by (rule tx_step) (rule two, rule journal_step3)
  from journal_append_only [OF journal_reachable(1) run] show ?thesis by (simp add: demo_store_def)
qed

text \<open>An idempotency key names one command for ever: after an append with a key succeeded, every
  later successful append with that key, by any service, returns the event stored first under it and
  leaves the journal as it is.\<close>

theorem append_idempotent:
  assumes "append_event sha st registry p expected (PStr key) operation payload validate now h = Inr (r, h')"
    and "tx_reachable (journal_exec sha st) [] h'" and "tx_reachable (journal_exec sha st) h' t"
    and "append_event sha st registry' p' expected' (PStr key) operation' payload' validate' now' t = Inr (q, t')"
  shows "ea_replayed q \<and> t' = t \<and> ea_event q = ea_event r \<and> ea_index q = ea_index r"
proof -
  from assms(1) have found: "find_key key h' 0 = Some (ea_index r, ea_event r)"
    by (rule append_event_success) (auto simp: find_key_append)
  have "prefix h' t" using assms(3) reachable_journal_inv [OF assms(2)] by (rule journal_tx.reachable_le)
  then have "find_key key t 0 = Some (ea_index r, ea_event r)" using found by (auto simp: prefix_def find_key_append)
  with assms(4) show ?thesis by (auto elim!: append_event_success)
qed


lemma append_idempotent_witness:
  "\<exists>q. append_event flat_sha demo_store intake_operations ann (PInt 0) (PStr ''k1'') ''record-intent'' wording1
     (\<lambda>_. Inr wording1) ''later'' journal3 = Inr (q, journal3) \<and> ea_replayed q \<and> ea_index q = 0"
proof -
  obtain spec where spec: "find_spec ''record-intent'' intake_operations = Some spec" "''owner'' \<in> set (os_roles spec)"
    using demo_specs(1) by blast
  have "journal1 = [] @ [make_event demo_store ''k1'' (int (length ([] :: pyval list))) ''record-intent'' wording1 ann ''t''
      (last_hash flat_sha [])]" by (simp add: journal1_def demo_event_eq)
  then obtain r where r: "append_event flat_sha demo_store intake_operations ann (PInt 0) (PStr ''k1'') ''record-intent''
      wording1 (validate_intake flat_sha ''o/r'' ''record-intent'' wording1) ''t'' [] = Inr (r, journal1)"
    using intake_appends [OF demo_reads ann_authorized _ spec demo_texts_ok(1), of wording1 journal1 "''t''"]
      demo_costs demo_validates(1) by (auto simp: ann_def demo_store_def)
  have two: "tx_reachable (journal_exec flat_sha demo_store) journal1 journal2"
    by (rule tx_step) (rule tx_start, rule journal_step2)
  have run: "tx_reachable (journal_exec flat_sha demo_store) journal1 journal3"
    by (rule tx_step) (rule two, rule journal_step3)
  have "authenticate demo_store intake_operations ann = Inr ()"
    using ann_authorized by (simp add: authenticate_def ann_def)
  moreover have "length (canonical_bytes wording1) \<le> 250000" by (rule canonical_fits) (use demo_costs in simp)
  moreover have "find_key ''k1'' journal3 0 = Some (0, demo_event ''k1'' 0 ''record-intent'' wording1)"
    by (simp add: journal3_def journal2_def journal1_def demo_event_def)
  moreover have "os_replay spec = py_eq"
    using spec(1) by (auto simp: find_spec_def intake_operations_def)
  ultimately obtain q where q: "append_event flat_sha demo_store intake_operations ann (PInt 0) (PStr ''k1'') ''record-intent''
      wording1 (\<lambda>_. Inr wording1) ''later'' journal3 = Inr (q, journal3)"
    using spec journal_step_reads [OF journal_step3] demo_texts_ok(1)
    by (simp add: append_event_def demo_event_def ann_def i_nat_def del: i_text_eq)
  have "ea_index r = 0" using r by (rule append_event_success) (auto simp: journal1_def)
  with append_idempotent [OF r journal_reachable(1) run q] q show ?thesis by simp
qed

end
