(* ===== verification/Transition_Properties.thy ===== *)
theory Transition_Properties
  imports Programme_Transition Intent_Properties
begin

text \<open>
  What the phase machine and its receipts guarantee: no milestone is skipped, stop starts nothing
  new, release is decided exactly by the observed facts, and in every journal a transition's
  receipts replay and its remote requests are used once.
\<close>

section \<open>Steps\<close>

lemma remote_request_cases:
  "remote_request p \<longleftrightarrow> p \<in> {''fence_requested'', ''successor_requested'', ''release_requested''}"
  by (auto simp: remote_request_def REMOTE_REQUESTS_def)

lemma request_of_Inr: "request_of p = Inr r \<longleftrightarrow> p = r @ UNCERTAIN_SUFFIX \<and> remote_request r"
  by (auto simp: request_of_def is_uncertain_def suffix_def split: if_splits)

lemma uncertain_phase:
  "validate_phase p = Inr q \<Longrightarrow> is_uncertain p \<Longrightarrow> \<exists>r. p = r @ UNCERTAIN_SUFFIX \<and> remote_request r"
proof -
  assume v: "validate_phase p = Inr q" and u: "is_uncertain p"
  have "\<not> list_ex is_uncertain (RECONCILIATION_REQUIRED # PHASES)" by code_simp
  then have "p \<noteq> RECONCILIATION_REQUIRED" and "p \<notin> set PHASES" using u by (auto simp: list_ex_iff)
  with v u show ?thesis by (auto simp: validate_phase_def bindE_eq_Inr request_of_Inr)
qed

lemma validate_phase_Inr: "validate_phase p = Inr q \<Longrightarrow> q = p"
  by (auto simp: validate_phase_def bindE_eq_Inr split: if_splits)

lemma advance_cases:
  assumes "advance p e stop = Inr q"
  obtains (reconcile) "q = RECONCILIATION_REQUIRED"
  | (marked) "remote_request p" and "e = ''mark_uncertain''" and "q = p @ UNCERTAIN_SUFFIX"
  | (still) "is_uncertain p" and "e = ''mark_uncertain''" and "q = p"
  | (resolved) r before observed where "p = r @ UNCERTAIN_SUFFIX" and "map_of REMOTE_REQUESTS r = Some (before, observed)"
      and "q = observed \<and> (e = ''observe_effect'' \<or> map_of OBSERVE_EVENT_OF r = Some e) \<or> q = before \<and> e = ''observe_no_effect''"
  | (forward) "map_of EVENTS e = Some (p, q)" and "\<not> (stop \<and> e \<in> set STOP_REFUSED_EVENTS)"
proof -
  obtain c where v: "validate_phase p = Inr c" using assms by (auto simp: advance_def bindE_eq_Inr)
  note body = assms [unfolded advance_def v bindE_Inr validate_phase_Inr [OF v]]
  show thesis
  proof (cases "is_uncertain p \<and> e \<noteq> ''require_reconciliation'' \<and> e \<noteq> ''mark_uncertain''")
    case True
    with uncertain_phase [OF v] obtain r where r: "p = r @ UNCERTAIN_SUFFIX" "remote_request r" by blast
    then have req: "request_of p = Inr r" by (simp add: request_of_Inr)
    from r(2) obtain b ob where m: "map_of REMOTE_REQUESTS r = Some (b, ob)" by (auto simp: remote_request_def)
    from body True req m have "q = ob \<and> (e = ''observe_effect'' \<or> map_of OBSERVE_EVENT_OF r = Some e)
        \<or> q = b \<and> e = ''observe_no_effect''"
      by (auto split: if_splits)
    with resolved r(1) m show thesis by blast
  next
    case False
    with body show thesis
      by (auto split: if_splits option.splits intro: reconcile marked still forward)
  qed
qed

text \<open>The observed phases that lie before a phase in the order of \<open>PHASES\<close>.\<close>

definition passed :: "string \<Rightarrow> string list" where
  "passed p =
     (let b = (case request_phase p of Some r \<Rightarrow> r | None \<Rightarrow> p) in
      if b \<in> set PHASES then filter (\<lambda>q. \<not> remote_request q) (takeWhile (\<lambda>q. q \<noteq> b) PHASES) else [])"

lemma passed_table:
  "passed ''reviewed'' = []" "passed ''fence_requested'' = [''reviewed'']" "passed ''fenced'' = [''reviewed'']"
  "passed ''draining'' = [''reviewed'', ''fenced'']" "passed ''drained'' = [''reviewed'', ''fenced'', ''draining'']"
  "passed ''reconciled'' = [''reviewed'', ''fenced'', ''draining'', ''drained'']"
  "passed ''predecessor_retired'' = [''reviewed'', ''fenced'', ''draining'', ''drained'', ''reconciled'']"
  "passed ''successor_requested'' = [''reviewed'', ''fenced'', ''draining'', ''drained'', ''reconciled'', ''predecessor_retired'']"
  "passed ''successor_observed'' = [''reviewed'', ''fenced'', ''draining'', ''drained'', ''reconciled'', ''predecessor_retired'']"
  "passed ''release_requested'' = [''reviewed'', ''fenced'', ''draining'', ''drained'', ''reconciled'', ''predecessor_retired'', ''successor_observed'']"
  "passed ''released'' = [''reviewed'', ''fenced'', ''draining'', ''drained'', ''reconciled'', ''predecessor_retired'', ''successor_observed'']"
  "passed RECONCILIATION_REQUIRED = []"
  "passed (''fence_requested'' @ UNCERTAIN_SUFFIX) = [''reviewed'']"
  "passed (''successor_requested'' @ UNCERTAIN_SUFFIX) = [''reviewed'', ''fenced'', ''draining'', ''drained'', ''reconciled'', ''predecessor_retired'']"
  "passed (''release_requested'' @ UNCERTAIN_SUFFIX) = [''reviewed'', ''fenced'', ''draining'', ''drained'', ''reconciled'', ''predecessor_retired'', ''successor_observed'']"
  by code_simp+

lemma advance_passed: "advance p e stop = Inr q \<Longrightarrow> set (passed q) \<subseteq> insert p (set (passed p))"
proof (erule advance_cases)
  assume "remote_request p" and "q = p @ UNCERTAIN_SUFFIX"
  then show ?thesis unfolding remote_request_cases by (elim insertE emptyE) (simp_all only: passed_table, auto)
next
  fix r b ob
  assume "p = r @ UNCERTAIN_SUFFIX" and "map_of REMOTE_REQUESTS r = Some (b, ob)"
    and "q = ob \<and> (e = ''observe_effect'' \<or> map_of OBSERVE_EVENT_OF r = Some e) \<or> q = b \<and> e = ''observe_no_effect''"
  then have "(r, b, ob) \<in> set REMOTE_REQUESTS" "q = ob \<or> q = b" by (auto dest: map_of_SomeD)
  with \<open>p = r @ UNCERTAIN_SUFFIX\<close> show ?thesis
    unfolding REMOTE_REQUESTS_def list.set insert_iff prod.inject
    by (elim disjE conjE emptyE) (simp_all only: passed_table, auto)
next
  assume "map_of EVENTS e = Some (p, q)"
  then have "(e, p, q) \<in> set EVENTS" by (rule map_of_SomeD)
  then show ?thesis
    unfolding EVENTS_def list.set insert_iff prod.inject
    by (elim disjE conjE emptyE) (simp_all only: passed_table, auto)
qed (auto simp: passed_table)

lemma replay_steps_append: "replay_steps p (xs @ ys) = bindE (replay_steps p xs) (\<lambda>q. replay_steps q ys)"
proof (induction xs arbitrary: p)
  case (Cons x xs)
  obtain e s where "x = (e, s)" by (cases x)
  with Cons show ?case by (cases "advance p e s") simp_all
qed simp

lemma replay_reviewed: "replay steps ''reviewed'' = replay_steps ''reviewed'' steps"
proof -
  have "validate_phase ''reviewed'' = Inr ''reviewed''" by code_simp
  then show ?thesis by (simp add: replay_def)
qed

text \<open>C19. No phase is skipped: whenever a sequence of accepted events takes a transition from
  \<open>reviewed\<close> to some phase, it has passed through every observed phase that lies before it;
  in particular nothing is released that was not fenced, drained, reconciled, retired and whose
  successor was not observed.\<close>

theorem no_phase_skipped:
  assumes "replay steps ''reviewed'' = Inr p" and "q \<in> set (passed p)"
  shows "\<exists>k \<le> length steps. replay (take k steps) ''reviewed'' = Inr q"
  using assms
proof (induction steps arbitrary: p rule: rev_induct)
  case Nil
  then have "q \<in> set (passed ''reviewed'')" by (simp add: replay_reviewed)
  then show ?case by (simp add: passed_table)
next
  case (snoc x xs)
  obtain e s where x: "x = (e, s)" by (cases x)
  from snoc.prems(1) obtain p' where p': "replay xs ''reviewed'' = Inr p'" "advance p' e s = Inr p"
    by (auto simp: replay_reviewed replay_steps_append x bindE_eq_Inr)
  from advance_passed [OF p'(2)] snoc.prems(2) consider "q = p'" | "q \<in> set (passed p')" by auto
  then show ?case
  proof cases
    case 1
    with p'(1) show ?thesis by (intro exI [of _ "length xs"]) simp
  next
    case 2
    from snoc.IH [OF p'(1) this] obtain k where "k \<le> length xs" "replay (take k xs) ''reviewed'' = Inr q" by blast
    then show ?thesis by (intro exI [of _ k]) simp
  qed
qed

definition demo_transition :: "(string \<times> bool) list" where
  "demo_transition = [(''request_fence'', False), (''mark_uncertain'', False), (''observe_effect'', True),
     (''begin_drain'', True), (''observe_drained'', False)]"

lemma no_phase_skipped_witness:
  "replay demo_transition ''reviewed'' = Inr ''drained''
   \<and> (\<exists>k \<le> 5. replay (take k demo_transition) ''reviewed'' = Inr ''fenced'')"
proof -
  have r: "replay demo_transition ''reviewed'' = Inr ''drained''" by code_simp
  have "''fenced'' \<in> set (passed ''drained'')" by (simp add: passed_table)
  from no_phase_skipped [OF r this] r show ?thesis by (simp add: demo_transition_def numeral_eq_Suc)
qed

text \<open>Under stop no step starts a new remote effect or retires predecessor work: the phase after
  an accepted step is no request phase, and it is \<open>predecessor_retired\<close> only when a successor
  request that was uncertain turned out to have had no effect.\<close>

theorem stop_starts_nothing:
  assumes "advance p e True = Inr q"
  shows "\<not> remote_request q
    \<and> (q = ''predecessor_retired'' \<longrightarrow> p = ''successor_requested'' @ UNCERTAIN_SUFFIX \<and> e = ''observe_no_effect'')"
  using assms
proof (cases rule: advance_cases)
  case reconcile
  then show ?thesis by (simp add: remote_request_cases RECONCILIATION_REQUIRED_def)
next
  case marked
  then show ?thesis by (auto simp: remote_request_cases UNCERTAIN_SUFFIX_def)
next
  case still
  then show ?thesis by (auto simp: remote_request_cases is_uncertain_def UNCERTAIN_SUFFIX_def suffix_def)
next
  case (resolved r b ob)
  then have "(r, b, ob) \<in> set REMOTE_REQUESTS" by (auto dest: map_of_SomeD)
  with resolved(1,3) show ?thesis
    unfolding REMOTE_REQUESTS_def list.set insert_iff prod.inject
    by (elim disjE conjE emptyE) (simp_all add: remote_request_cases)
next
  case forward
  then have "(e, p, q) \<in> set EVENTS" by (auto dest: map_of_SomeD)
  with forward(2) show ?thesis
    unfolding EVENTS_def list.set insert_iff prod.inject
    by (elim disjE conjE emptyE) (simp_all add: remote_request_cases STOP_REFUSED_EVENTS_def)
qed


lemma stop_starts_nothing_witness:
  "\<not> remote_request ''fenced'' \<and> advance (''fence_requested'' @ UNCERTAIN_SUFFIX) ''observe_effect'' True = Inr ''fenced''"
proof -
  have a: "advance (''fence_requested'' @ UNCERTAIN_SUFFIX) ''observe_effect'' True = Inr ''fenced''" by code_simp
  from stop_starts_nothing [OF a] a show ?thesis by blast
qed

section \<open>Release\<close>

text \<open>Release is decided exactly by the observed facts: on any observation with no unknown field
  the answer is \<open>eligible\<close> if and only if the observer produced a result, the fence, the consent
  and the successor are observed, nothing is queued or active, no effect is pending and the
  accounting is reconciled; a value of another type counts as unknown and blocks, and every other
  answer names at least one reason.\<close>

theorem release_exact:
  assumes "set (map fst d) \<subseteq> set RELEASE_FIELDS"
  shows "\<exists>r. request_release (PDict d) = Inr r \<and> rd_remote_calls r = 0
    \<and> (rd_status r = ''eligible'' \<longleftrightarrow>
        (\<forall>k \<in> {''observed'', ''fenced'', ''consent'', ''successor'', ''accounting_reconciled''}. py_get d k = PBool True)
        \<and> (\<forall>k \<in> {''queued'', ''active'', ''pending_effects''}. py_get d k = PInt 0))
    \<and> (rd_status r = ''eligible'' \<longleftrightarrow> rd_reasons r = [])"
proof -
  have b: "known_bool v = Some True \<longleftrightarrow> v = PBool True" for v by (cases v) (auto simp: known_bool_def)
  have c: "known_count v = Some 0 \<longleftrightarrow> v = PInt 0" for v by (cases v) (auto simp: known_count_def)
  show ?thesis
  proof (cases "py_get d ''observed'' = PBool True")
    case False
    with assms b show ?thesis by (simp add: request_release_def)
  next
    case True
    let ?codes = "map snd (filter (\<lambda>(gate, _). map_of (release_gates d) gate \<noteq> Some True) RELEASE_ORDER)"
    have "?codes = [] \<longleftrightarrow> (\<forall>(gate, ok) \<in> set (release_gates d). ok)"
      by (simp add: RELEASE_ORDER_def release_gates_def) blast
    then have "?codes = [] \<longleftrightarrow>
        (\<forall>k \<in> {''observed'', ''fenced'', ''consent'', ''successor'', ''accounting_reconciled''}. py_get d k = PBool True)
        \<and> (\<forall>k \<in> {''queued'', ''active'', ''pending_effects''}. py_get d k = PInt 0)"
      by (simp add: release_gates_def b c) blast
    with assms True b show ?thesis by (simp add: request_release_def Let_def)
  qed
qed

lemma release_exact_witness:
  "\<exists>r. request_release (PDict [(''observed'', PBool True), (''queued'', PInt 1)]) = Inr r \<and> rd_status r \<noteq> ''eligible''"
  using release_exact [of "[(''observed'', PBool True), (''queued'', PInt 1)]"]
  by (auto simp: RELEASE_FIELDS_def py_get_def)

section \<open>Receipts\<close>

lemma verify_from_append: "verify_from p (xs @ ys) = bindE (verify_from p xs) (\<lambda>q. verify_from q ys)"
proof (induction xs arbitrary: p)
  case (Cons x xs)
  show ?case by (simp add: Cons.IH bindE_def split: sum.splits)
qed simp

definition is_request :: "pyval \<Rightarrow> bool" where
  "is_request r \<longleftrightarrow> (\<exists>event \<in> set REQUEST_EVENTS. py_field r ''event'' = PStr event)"

definition is_closing :: "pyval \<Rightarrow> bool" where
  "is_closing r \<longleftrightarrow> (\<exists>event \<in> set CLOSING_EVENTS. py_field r ''event'' = PStr event)"

definition same_request :: "pyval \<Rightarrow> pyval \<Rightarrow> bool" where
  "same_request r q \<longleftrightarrow> py_eq (py_field r ''request_id'') (py_field q ''request_id'')
     \<and> py_eq (py_field r ''request_sha256'') (py_field q ''request_sha256'')"

text \<open>The receipt \<open>r\<close> closes the request that the receipts before it opened.\<close>

definition closes :: "pyval list \<Rightarrow> pyval \<Rightarrow> bool" where
  "closes prior r \<longleftrightarrow> (\<exists>q \<in> set prior. \<exists>p s. is_request q \<and> same_request q r
     \<and> py_field r ''phase_before'' = PStr p \<and> request_phase p = Some s \<and> py_field q ''phase_after'' = PStr s)"

definition receipts_ok :: "pyval list \<Rightarrow> bool" where
  "receipts_ok rs \<longleftrightarrow> (\<exists>p. verify_receipts rs = Inr p)
     \<and> distinct (map (\<lambda>r. py_norm (py_field r ''request_id'')) (filter is_request rs))
     \<and> (\<forall>i < length rs. is_closing (rs ! i) \<longrightarrow> closes (take i rs) (rs ! i))"

lemma receipts_ok_snoc:
  assumes "receipts_ok rs" and "verify_receipts rs = Inr p" and "verify_from p [r] = Inr q"
    and "is_request r \<Longrightarrow> \<not> list_ex (\<lambda>x. py_eq (py_field x ''request_id'') (py_field r ''request_id'')) rs"
    and "is_closing r \<Longrightarrow> closes rs r"
  shows "receipts_ok (rs @ [r])"
proof -
  have "verify_receipts (rs @ [r]) = Inr q"
    using assms(2,3) by (simp only: verify_receipts_def verify_from_append bindE_Inr)
  moreover have "distinct (map (\<lambda>r. py_norm (py_field r ''request_id'')) (filter is_request (rs @ [r])))"
    using assms(1,4) by (auto simp: receipts_ok_def list_ex_iff py_eq_def)
  moreover have "closes (take i (rs @ [r])) ((rs @ [r]) ! i)"
    if "i < length (rs @ [r])" "is_closing ((rs @ [r]) ! i)" for i
    using that assms(1,5) by (cases "i = length rs") (auto simp: receipts_ok_def nth_append)
  ultimately show ?thesis by (simp add: receipts_ok_def)
qed

lemma request_not_closing: "set REQUEST_EVENTS \<inter> set CLOSING_EVENTS = {}"
proof -
  have "\<not> list_ex (\<lambda>e. e \<in> set CLOSING_EVENTS) REQUEST_EVENTS" by code_simp
  then show ?thesis by (auto simp: list_ex_iff)
qed

lemma validate_receipt_ok:
  assumes "validate_receipt tid event rid rsha effect stop note h = Inr r" and "receipts_ok (receipts_of h tid)"
  shows "receipts_ok (receipts_of h tid @ [r])" and "py_field r ''transition_id'' = PStr tid"
proof -
  let ?rs = "receipts_of h tid"
  from assms(1) obtain before after where v: "verify_receipts ?rs = Inr before" and adv: "advance before event stop = Inr after"
    and ids: "if event \<in> set CLOSING_EVENTS then \<exists>q. pending_request ?rs = Inr (Some q)
        \<and> py_eq (py_field q ''request_id'') rid \<and> py_eq (py_field q ''request_sha256'') rsha
      else \<not> (event \<in> set REQUEST_EVENTS \<and> list_ex (\<lambda>r. py_eq (py_field r ''request_id'') rid) ?rs)"
    and r: "r = PDict [(''schema'', PStr ''dark-factory/transition-receipt''), (''schema_version'', PStr ''1.0''),
       (''transition_id'', PStr tid), (''event'', PStr event), (''phase_before'', PStr before),
       (''phase_after'', PStr after), (''stop'', PBool stop), (''request_id'', rid),
       (''request_sha256'', rsha), (''effect'', effect), (''note'', PStr note)]"
    by (auto simp: validate_receipt_def bindE_eq_Inr Let_def rename_eq_Inr missing_eq_Inr split: if_splits)
  have f: "py_field r ''schema'' = PStr ''dark-factory/transition-receipt''" "py_field r ''schema_version'' = PStr ''1.0''"
    "py_field r ''event'' = PStr event" "py_field r ''phase_before'' = PStr before" "py_field r ''phase_after'' = PStr after"
    "py_field r ''stop'' = PBool stop" "py_field r ''request_id'' = rid" "py_field r ''request_sha256'' = rsha"
    by (simp_all add: r py_field_def py_get_def)
  show "py_field r ''transition_id'' = PStr tid" by (simp add: r py_field_def py_get_def)
  have step: "verify_from before [r] = Inr after" by (simp add: f adv)
  have closing: "closes ?rs r" if "is_closing r"
  proof -
    have "event \<in> set CLOSING_EVENTS" using that by (auto simp: is_closing_def f)
    with ids obtain q where q: "pending_request ?rs = Inr (Some q)" "py_eq (py_field q ''request_id'') rid"
        "py_eq (py_field q ''request_sha256'') rsha" by auto
    from q(1) v obtain s where "request_phase before = Some s"
        "List.find (\<lambda>r. is_request r \<and> py_field r ''phase_after'' = PStr s) (rev ?rs) = Some q"
      by (auto simp: pending_request_def is_request_def split: option.splits)
    then have "request_phase before = Some s" "q \<in> set ?rs" "is_request q" "py_field q ''phase_after'' = PStr s"
      by (auto dest: find_mem)
    with q(2,3) show ?thesis by (auto simp: closes_def same_request_def f)
  qed
  have fresh: "\<not> list_ex (\<lambda>x. py_eq (py_field x ''request_id'') (py_field r ''request_id'')) ?rs" if "is_request r"
  proof -
    have "event \<in> set REQUEST_EVENTS" using that by (auto simp: is_request_def f)
    moreover from this have "event \<notin> set CLOSING_EVENTS" using request_not_closing by blast
    ultimately show ?thesis using ids by (simp add: f)
  qed
  show "receipts_ok (?rs @ [r])" by (rule receipts_ok_snoc [OF assms(2) v step fresh closing])
qed

section \<open>The journal with receipts\<close>

datatype transition_cmd =
    Record_receipt principal string string pyval pyval pyval pyval pyval bool string string
  | Other_service "operation_spec list" principal pyval pyval string pyval "pyval list \<Rightarrow> intent_error + pyval" string

definition transition_exec ::
  "(string \<Rightarrow> string) \<Rightarrow> intent_store \<Rightarrow> transition_cmd \<Rightarrow> pyval list \<Rightarrow> intent_error + unit \<times> pyval list" where
  "transition_exec sha st c h =
     (case c of
        Record_receipt p tid event expected key rid rsha effect stop note now \<Rightarrow>
          reply (\<lambda>_. ()) (record_receipt sha st p tid event expected key rid rsha effect stop note now h)
      | Other_service registry p expected key operation payload validate now \<Rightarrow>
          bindE (ensure (operation \<noteq> TRANSITION_OPERATION) (I_operation operation)) (\<lambda>_.
          reply (\<lambda>_. ()) (append_event sha st registry p expected key operation payload validate now h)))"

definition transition_inv :: "pyval list \<Rightarrow> bool" where
  "transition_inv h \<longleftrightarrow> (\<forall>tid. receipts_ok (receipts_of h tid))"

lemma receipts_of_snoc:
  "receipts_of (h @ [e]) tid = receipts_of h tid
     @ (if ev_operation e = PStr TRANSITION_OPERATION \<and> py_field (ev_payload e) ''transition_id'' = PStr tid
        then [ev_payload e] else [])"
  by (simp add: receipts_of_def)

lemma transition_exec_inv:
  assumes "transition_inv h" and "transition_exec sha st c h = Inr (r, h')"
  shows "transition_inv h'"
proof (cases c)
  case (Record_receipt p tid event expected key rid rsha effect stop nt now)
  with assms(2) obtain q payload where app: "append_event sha st transition_operations p expected key TRANSITION_OPERATION payload
      (validate_receipt tid event rid rsha effect stop nt) now h = Inr (q, h')"
    by (auto simp: transition_exec_def reply_eq_Inr record_receipt_def bindE_eq_Inr Let_def)
  from app show ?thesis
  proof (cases rule: append_event_success)
    case (appended k spec e pl)
    have ok: "receipts_ok (receipts_of h tid)" using assms(1) by (simp add: transition_inv_def)
    note v = validate_receipt_ok [OF appended(7) ok]
    show ?thesis
      unfolding transition_inv_def appended(9) receipts_of_snoc
      using v assms(1) by (auto simp: appended(8) transition_inv_def)
  qed (use assms(1) in simp)
next
  case (Other_service registry p expected key operation payload validate now)
  with assms(2) obtain q where op: "operation \<noteq> TRANSITION_OPERATION"
    and app: "append_event sha st registry p expected key operation payload validate now h = Inr (q, h')"
    by (auto simp: transition_exec_def reply_eq_Inr bindE_eq_Inr)
  from app show ?thesis
  proof (cases rule: append_event_success)
    case (appended k spec e pl)
    show ?thesis
      unfolding transition_inv_def appended(9) receipts_of_snoc
      using op assms(1) by (simp add: appended(8) transition_inv_def)
  qed (use assms(1) in simp)
qed

interpretation receipt_tx: transactional "transition_exec sha st" transition_inv
  by unfold_locales (rule transition_exec_inv)

lemma empty_transition_inv: "transition_inv []"
  by (simp add: transition_inv_def receipts_of_def receipts_ok_def verify_receipts_def)


lemma verify_passed:
  "verify_receipts rs = Inr p \<Longrightarrow> q \<in> set (passed p) \<Longrightarrow> \<exists>k \<le> length rs. verify_receipts (take k rs) = Inr q"
proof (induction rs arbitrary: p rule: rev_induct)
  case Nil
  then have "q \<in> set (passed ''reviewed'')" by (simp add: verify_receipts_def)
  then show ?case by (simp add: passed_table)
next
  case (snoc x xs)
  from snoc.prems(1) obtain p' e where p': "verify_receipts xs = Inr p'" "advance p' e (py_truthy (py_field x ''stop'')) = Inr p"
    by (auto simp: verify_receipts_def verify_from_append bindE_eq_Inr rename_eq_Inr text_eq_Inr)
  from advance_passed [OF p'(2)] snoc.prems(2) consider "q = p'" | "q \<in> set (passed p')" by auto
  then show ?case
  proof cases
    case 1
    with p'(1) show ?thesis by (intro exI [of _ "length xs"]) simp
  next
    case 2
    from snoc.IH [OF p'(1) this] obtain k where "k \<le> length xs" "verify_receipts (take k xs) = Inr q" by blast
    then show ?thesis by (intro exI [of _ k]) simp
  qed
qed

text \<open>C39. In every journal the services can write, the receipts of each transition verify, and an
  earlier prefix of them derives every observed phase that lies before the present one: the journal
  itself shows that no phase was skipped.\<close>

theorem receipts_replay:
  assumes "tx_reachable (transition_exec sha st) [] h"
  shows "\<exists>p. verify_receipts (receipts_of h tid) = Inr p
    \<and> (\<forall>q \<in> set (passed p). \<exists>k \<le> length (receipts_of h tid). verify_receipts (take k (receipts_of h tid)) = Inr q)"
proof -
  have "transition_inv h" using assms empty_transition_inv by (rule receipt_tx.reachable_inv)
  then obtain p where "verify_receipts (receipts_of h tid) = Inr p"
    by (auto simp: transition_inv_def receipts_ok_def)
  with verify_passed [OF this] show ?thesis by blast
qed

text \<open>A remote request is made once and observed as itself: within a transition no request id is
  used by two requests, and every receipt that closes or marks a request carries the id and the
  digest of an earlier request receipt that opened the phase it closes.\<close>

theorem requests_once:
  assumes "tx_reachable (transition_exec sha st) [] h"
  shows "distinct (map (\<lambda>r. py_norm (py_field r ''request_id'')) (filter is_request (receipts_of h tid)))
    \<and> (\<forall>i < length (receipts_of h tid). is_closing (receipts_of h tid ! i)
         \<longrightarrow> closes (take i (receipts_of h tid)) (receipts_of h tid ! i))"
proof -
  have "transition_inv h" using assms empty_transition_inv by (rule receipt_tx.reachable_inv)
  then show ?thesis by (auto simp: transition_inv_def receipts_ok_def)
qed

definition tid_a :: string where
  "tid_a = replicate 64 CHR ''a''"

definition rid_b :: pyval where
  "rid_b = PStr (replicate 32 CHR ''b'')"

definition receipt_value :: "string \<Rightarrow> string \<Rightarrow> string \<Rightarrow> pyval" where
  "receipt_value event before after = PDict [(''schema'', PStr ''dark-factory/transition-receipt''), (''schema_version'', PStr ''1.0''),
       (''transition_id'', PStr tid_a), (''event'', PStr event), (''phase_before'', PStr before),
       (''phase_after'', PStr after), (''stop'', PBool False), (''request_id'', rid_b),
       (''request_sha256'', PStr tid_a), (''effect'', PNone), (''note'', PStr [])]"

definition receipts1 :: "pyval list" where
  "receipts1 = [make_event demo_store ''k1'' 0 TRANSITION_OPERATION (receipt_value ''request_fence'' ''reviewed'' ''fence_requested'') ann ''t'' PNone]"

definition receipts2 :: "pyval list" where
  "receipts2 = receipts1 @ [make_event demo_store ''k2'' 1 TRANSITION_OPERATION (receipt_value ''observe_fence'' ''fence_requested'' ''fenced'') ann ''t'' (PStr flat_hash)]"

lemma transition_events: "REQUEST_EVENTS = [''request_fence'', ''request_successor'', ''request_release'']"
    "CLOSING_EVENTS = [''observe_fence'', ''observe_successor'', ''observe_release'', ''observe_effect'', ''observe_no_effect'', ''mark_uncertain'']"
  by code_simp+

lemma receipt_value_fields:
  "py_field (receipt_value e b a) ''schema'' = PStr ''dark-factory/transition-receipt''"
  "py_field (receipt_value e b a) ''schema_version'' = PStr ''1.0''"
  "py_field (receipt_value e b a) ''transition_id'' = PStr tid_a"
  "py_field (receipt_value e b a) ''event'' = PStr e" "py_field (receipt_value e b a) ''phase_before'' = PStr b"
  "py_field (receipt_value e b a) ''phase_after'' = PStr a" "py_field (receipt_value e b a) ''stop'' = PBool False"
  "py_field (receipt_value e b a) ''request_id'' = rid_b" "py_field (receipt_value e b a) ''request_sha256'' = PStr tid_a"
  by (simp_all add: receipt_value_def py_field_def py_get_def)

lemma demo_advances:
  "advance ''reviewed'' ''request_fence'' False = Inr ''fence_requested''"
  "advance ''fence_requested'' ''observe_fence'' False = Inr ''fenced''"
  "request_phase ''fence_requested'' = Some ''fence_requested''"
  by code_simp+

lemma demo_receipts:
  "receipts_of [] tid_a = []"
  "receipts_of receipts1 tid_a = [receipt_value ''request_fence'' ''reviewed'' ''fence_requested'']"
  "receipts_of receipts2 tid_a = [receipt_value ''request_fence'' ''reviewed'' ''fence_requested'',
     receipt_value ''observe_fence'' ''fence_requested'' ''fenced'']"
  by (simp_all add: receipts_of_def receipts2_def receipts1_def receipt_value_fields)

lemma demo_receipt_valid:
  "validate_receipt tid_a ''request_fence'' rid_b (PStr tid_a) PNone False [] [] =
     Inr (receipt_value ''request_fence'' ''reviewed'' ''fence_requested'')"
  "validate_receipt tid_a ''observe_fence'' rid_b (PStr tid_a) PNone False [] receipts1 =
     Inr (receipt_value ''observe_fence'' ''fence_requested'' ''fenced'')"
  by (simp_all add: validate_receipt_def demo_receipts verify_receipts_def transition_events demo_advances
      receipt_value_fields pending_request_def Let_def) (simp_all add: receipt_value_def)

lemma receipt_runs:
  assumes "read_history flat_sha demo_store h = Inr h" and "i_text 100 (PStr key) = Inr key" and "find_key key h 0 = None"
    and "validate_receipt tid_a event rid_b (PStr tid_a) PNone False [] h = Inr pl" and "length h < 1000"
    and "h' = h @ [make_event demo_store key (int (length h)) TRANSITION_OPERATION pl ann ''t'' (last_hash flat_sha h)]"
    and "json_cost (PList h') < 1000000" and "event \<in> set REQUEST_EVENTS \<or> event \<in> set CLOSING_EVENTS" and "length event \<le> 100"
  shows "transition_exec flat_sha demo_store (Record_receipt ann tid_a event (PInt (int (length h))) (PStr key) rid_b (PStr tid_a)
     PNone False [] ''t'') h = Inr ((), h')"
proof -
  have spec: "find_spec TRANSITION_OPERATION transition_operations = Some (hd transition_operations)"
    by (simp add: find_spec_def transition_operations_def)
  have auth: "authenticate demo_store transition_operations ann = Inr ()"
    using ann_authorized by (simp add: authenticate_def ann_def)
  have role: "pr_role ann \<in> set (os_roles (hd transition_operations))" by (simp add: ann_def transition_operations_def)
  have hex: "hex_text 64 tid_a" "hex_text 32 (replicate 32 CHR ''b'')"
    by (simp_all add: tid_a_def hex_text_replicate is_hex_char_def is_digit_char_def code_of_def)
  have cost: "json_cost (PDict [(''transition_id'', PStr tid_a), (''event'', PStr event), (''request_id'', rid_b),
      (''request_sha256'', PStr tid_a), (''stop'', PBool False)]) < 200000"
    using assms(9) by (simp add: tid_a_def rid_b_def)
  from append_runs [where validate = "validate_receipt tid_a event rid_b (PStr tid_a) PNone False []", OF assms(1) spec auth role assms(2) cost assms(3,4,5,6,7)] hex assms(8) show ?thesis
    by (auto simp: transition_exec_def record_receipt_def reply_def rid_b_def hex_value_def Let_def)
qed

lemma transition_step_reads:
  "transition_exec sha st c h = Inr (r, h') \<Longrightarrow> read_history sha st h' = Inr h'"
  by (cases c) (auto simp: transition_exec_def reply_eq_Inr record_receipt_def bindE_eq_Inr Let_def dest: append_event_reads)

lemma receipts_reachable: "tx_reachable (transition_exec flat_sha demo_store) [] receipts2"
proof -
  have e: "receipts1 = [] @ [make_event demo_store ''k1'' (int (length ([] :: pyval list))) TRANSITION_OPERATION
      (receipt_value ''request_fence'' ''reviewed'' ''fence_requested'') ann ''t'' (last_hash flat_sha [])]"
    by (simp add: receipts1_def last_hash_def)
  have c: "json_cost (PList receipts1) < 1000000" "json_cost (PList receipts2) < 1000000"
    by (simp_all add: receipts2_def receipts1_def make_event_def receipt_value_def actor_value_def demo_store_def ann_def
        tid_a_def rid_b_def TRANSITION_OPERATION_def flat_hash_length)
  note s1 = receipt_runs [OF demo_reads demo_texts_ok(1) _ demo_receipt_valid(1) _ e c(1)]
  have s1: "transition_exec flat_sha demo_store (Record_receipt ann tid_a ''request_fence'' (PInt 0) (PStr ''k1'') rid_b (PStr tid_a)
     PNone False [] ''t'') [] = Inr ((), receipts1)"
    using s1 by (simp add: transition_events)
  have e2: "receipts2 = receipts1 @ [make_event demo_store ''k2'' (int (length receipts1)) TRANSITION_OPERATION
      (receipt_value ''observe_fence'' ''fence_requested'' ''fenced'') ann ''t'' (last_hash flat_sha receipts1)]"
    by (simp add: receipts2_def last_hash_def flat_sha_value) (simp add: receipts1_def)
  have k: "find_key ''k2'' receipts1 0 = None" by (simp add: receipts1_def)
  have len: "length receipts1 = 1" by (simp add: receipts1_def)
  note s2 = receipt_runs [OF transition_step_reads [OF s1] demo_texts_ok(2) k demo_receipt_valid(2) _ e2 c(2)]
  have s2: "transition_exec flat_sha demo_store (Record_receipt ann tid_a ''observe_fence'' (PInt 1) (PStr ''k2'') rid_b (PStr tid_a)
     PNone False [] ''t'') receipts1 = Inr ((), receipts2)"
    using s2 by (simp add: transition_events len)
  have one: "tx_reachable (transition_exec flat_sha demo_store) [] receipts1" by (rule tx_step) (rule tx_start, rule s1)
  show ?thesis by (rule tx_step) (rule one, rule s2)
qed

lemma receipts_replay_witness: "verify_receipts (receipts_of receipts2 tid_a) = Inr ''fenced''"
proof -
  have "verify_receipts (receipts_of receipts2 tid_a) = Inr p \<Longrightarrow> p = ''fenced''" for p
    by (simp add: demo_receipts verify_receipts_def receipt_value_fields demo_advances)
  with receipts_replay [OF receipts_reachable, of tid_a] show ?thesis by blast
qed

lemma requests_once_witness:
  "closes [receipt_value ''request_fence'' ''reviewed'' ''fence_requested''] (receipt_value ''observe_fence'' ''fence_requested'' ''fenced'')"
proof -
  have "is_closing (receipt_value ''observe_fence'' ''fence_requested'' ''fenced'')"
    by (simp add: is_closing_def receipt_value_fields transition_events)
  with requests_once [OF receipts_reachable, of tid_a] show ?thesis by (auto simp: demo_receipts)
qed

end
