(* ===== verification/Execution_Budget.thy ===== *)
theory Execution_Budget
  imports Intent_Store
begin

text \<open>
  The execution budget, \<open>factory_kernel/execution_budget.py\<close>: one allowance per project and
  reservations charged against it, all of them events of the project's journal. The state is the
  projection of the journal. What the service reads from GitHub (the protected source, the
  programme issues) and what the executor's independent observation returns are arguments; where
  the code reads twice the two values are two arguments. A reservation is kept in the order of the
  journal under its id, as the source's dict keeps it; ids, amounts and versions of a type the
  service never writes are the error \<open>I_corrupt\<close>.
\<close>

section \<open>The projection\<close>

definition BUDGET_OPERATION :: string where
  "BUDGET_OPERATION = ''execution-budget-event''"

definition MAX_MICROUSD :: int where
  "MAX_MICROUSD = 1000000000"

definition MAX_CALLS :: int where
  "MAX_CALLS = 10000"

definition budget_integer :: "int \<Rightarrow> bool \<Rightarrow> pyval \<Rightarrow> intent_error + int" where
  "budget_integer maximum zero v =
     (case v of PInt n \<Rightarrow> if (if zero then 0 else 1) \<le> n \<and> n \<le> maximum then Inr n else Inl (I_refused ''amount'')
      | _ \<Rightarrow> Inl (I_refused ''amount''))"

record reservation =
  rv_data :: pyval
  rv_microusd :: int
  rv_started :: "pyval option"
  rv_observation :: "pyval option"

record budget_fold =
  bf_allowance :: "pyval option"
  bf_reserved :: int
  bf_calls :: int
  bf_rows :: "(string \<times> reservation) list"

definition budget_start :: budget_fold where
  "budget_start = \<lparr>bf_allowance = None, bf_reserved = 0, bf_calls = 0, bf_rows = []\<rparr>"

definition need_text :: "pyval \<Rightarrow> intent_error + string" where
  "need_text v = (case v of PStr s \<Rightarrow> Inr s | _ \<Rightarrow> Inl I_corrupt)"

definition need_int :: "pyval \<Rightarrow> intent_error + int" where
  "need_int v = (case v of PInt n \<Rightarrow> Inr n | _ \<Rightarrow> Inl I_corrupt)"

definition update_reservation :: "string \<Rightarrow> (reservation \<Rightarrow> reservation) \<Rightarrow> budget_fold \<Rightarrow> budget_fold" where
  "update_reservation i f s = s\<lparr>bf_rows := map (\<lambda>(k, r). (k, if k = i then f r else r)) (bf_rows s)\<rparr>"

definition budget_step :: "budget_fold \<Rightarrow> pyval \<Rightarrow> intent_error + budget_fold" where
  "budget_step s event =
     (if ev_operation event \<noteq> PStr BUDGET_OPERATION then Inr s
      else
     bindE (i_at (ev_payload event) ''kind'') (\<lambda>kind.
     bindE (i_at (ev_payload event) ''data'') (\<lambda>data.
     if kind = PStr ''approved'' then
       bindE (ensure (bf_allowance s = None) (I_refused ''reset'')) (\<lambda>_.
       bindE (i_at data ''opening'') (\<lambda>_. Inr (s\<lparr>bf_allowance := Some data\<rparr>)))
     else if kind = PStr ''reserved'' then
       bindE (bindE (i_at data ''id'') need_text) (\<lambda>i.
       bindE (bindE (i_at data ''microusd'') need_int) (\<lambda>amount.
       bindE (ensure (bf_allowance s \<noteq> None \<and> i \<notin> set (map fst (bf_rows s))) (I_refused ''reservation'')) (\<lambda>_.
       Inr (s\<lparr>bf_rows := bf_rows s @ [(i, \<lparr>rv_data = data, rv_microusd = amount, rv_started = None, rv_observation = None\<rparr>)],
              bf_reserved := bf_reserved s + amount, bf_calls := bf_calls s + 1\<rparr>))))
     else if kind = PStr ''started'' then
       bindE (bindE (i_at data ''id'') need_text) (\<lambda>i.
       case map_of (bf_rows s) i of
         None \<Rightarrow> Inl (I_refused ''start'')
       | Some r \<Rightarrow>
           bindE (ensure (rv_started r = None \<and> rv_observation r = None) (I_refused ''start'')) (\<lambda>_.
           Inr (update_reservation i (\<lambda>r. r\<lparr>rv_started := Some data\<rparr>) s)))
     else if kind = PStr ''observed'' then
       bindE (bindE (i_at data ''id'') need_text) (\<lambda>i.
       case map_of (bf_rows s) i of
         None \<Rightarrow> Inl (I_refused ''observation'')
       | Some r \<Rightarrow>
           bindE (ensure (rv_observation r = None) (I_refused ''observation'')) (\<lambda>_.
           Inr (update_reservation i (\<lambda>r. r\<lparr>rv_observation := Some data\<rparr>) s)))
     else Inl (I_refused ''event''))))"

record budget_state = budget_fold +
  bs_uncertain :: bool
  bs_overrun :: bool
  bs_status :: string
  bs_version :: int

definition row_uncertain :: "reservation \<Rightarrow> bool" where
  "row_uncertain r = (case rv_observation r of None \<Rightarrow> True
     | Some d \<Rightarrow> py_field d ''reported_microusd'' = PNone)"

definition row_overrun :: "reservation \<Rightarrow> bool" where
  "row_overrun r = (case rv_observation r of None \<Rightarrow> False
     | Some d \<Rightarrow> (case py_field d ''reported_microusd'' of PInt n \<Rightarrow> rv_microusd r < n | _ \<Rightarrow> False))"

definition budget_status :: "budget_fold \<Rightarrow> string" where
  "budget_status s =
     (case bf_allowance s of
        None \<Rightarrow> ''not-approved''
      | Some allowance \<Rightarrow>
          if py_field (py_field allowance ''opening'') ''status'' \<noteq> PStr ''verified-empty'' then ''historical-spend-unknown''
          else if list_ex (\<lambda>(_, r). row_overrun r) (bf_rows s) then ''overrun''
          else if list_ex (\<lambda>(_, r). row_uncertain r) (bf_rows s) then ''unresolved-attempt''
          else if py_int (py_field allowance ''max_calls'') \<le> bf_calls s
               \<or> py_int (py_field allowance ''limit_microusd'') \<le> bf_reserved s then ''exhausted''
          else ''available'')"

definition projection :: "pyval list \<Rightarrow> intent_error + budget_state" where
  "projection events =
     bindE (foldE budget_step budget_start events) (\<lambda>s.
     let approved = bf_allowance s \<noteq> None in
     Inr (budget_fold.extend s \<lparr>bs_uncertain = (approved \<and> list_ex (\<lambda>(_, r). row_uncertain r) (bf_rows s)),
            bs_overrun = (approved \<and> list_ex (\<lambda>(_, r). row_overrun r) (bf_rows s)),
            bs_status = budget_status s, bs_version = int (length events)\<rparr>))"

section \<open>The opening observation\<close>

text \<open>\<open>to_str\<close> is \<open>str\<close> on a value that is not a string. A row that is no object has no \<open>get\<close>.\<close>

definition budget_seen :: "(pyval \<Rightarrow> string) \<Rightarrow> string \<Rightarrow> string \<Rightarrow> pyval \<Rightarrow> intent_error + bool" where
  "budget_seen to_str app_login mark row =
     (case row of
        PDict d \<Rightarrow>
          bindE (case map_of d ''user'' of None \<Rightarrow> Inr [] | Some (PDict u) \<Rightarrow> Inr u | Some _ \<Rightarrow> Inl I_corrupt) (\<lambda>user.
          Inr (py_get user ''login'' = PStr app_login
            \<and> sublist mark (case map_of d ''body'' of None \<Rightarrow> [] | Some (PStr s) \<Rightarrow> s | Some v \<Rightarrow> to_str v)))
      | _ \<Rightarrow> Inl I_corrupt)"

definition observe_opening ::
  "(string \<Rightarrow> string) \<Rightarrow> (pyval \<Rightarrow> string) \<Rightarrow> pyval \<Rightarrow> pyval \<Rightarrow> pyval \<Rightarrow> pyval \<Rightarrow> pyval \<Rightarrow> string \<Rightarrow> intent_error + pyval" where
  "observe_opening sha to_str source issues source' issues' spec app_login =
     (case issues of
        PList rows \<Rightarrow>
          bindE (mapE (budget_seen to_str app_login (''Specification: '' @ py_string (py_field spec ''id'') @ '' v'')) rows) (\<lambda>seen.
          bindE (ensure (py_eq source source' \<and> py_eq issues issues') (I_refused ''opening'')) (\<lambda>_.
          Inr (PDict [(''status'', PStr (if py_field source ''active_input'' = PNone \<and> True \<notin> set seen
                                          then ''verified-empty'' else ''unknown'')),
             (''source_sha'', py_field source ''main_sha''), (''inventory_sha256'', PStr (sha256_value sha issues)),
             (''scope_id'', py_field spec ''id''),
             (''basis'', PStr ''protected-source-and-complete-programme-inventory'')])))
      | _ \<Rightarrow> Inl (I_refused ''inventory''))"

section \<open>Commands\<close>

definition budget_replay :: "pyval \<Rightarrow> pyval \<Rightarrow> bool" where
  "budget_replay old new \<longleftrightarrow> py_eq (py_field old ''kind'') (py_field new ''kind'')
     \<and> py_eq (py_field old ''request'') (py_field new ''request'')"

definition budget_operations :: "operation_spec list" where
  "budget_operations = [\<lparr>os_operation = BUDGET_OPERATION, os_roles = [''owner''], os_replay = budget_replay\<rparr>]"

definition budget_owner :: "intent_store \<Rightarrow> principal \<Rightarrow> intent_error + unit" where
  "budget_owner st p =
     bindE (authorize st p) (\<lambda>_. ensure (pr_role p = ''owner'') (I_role (pr_role p)))"

definition budget_snapshot :: "(string \<Rightarrow> string) \<Rightarrow> intent_store \<Rightarrow> principal \<Rightarrow> pyval list \<Rightarrow> intent_error + budget_state" where
  "budget_snapshot sha st p history =
     bindE (budget_owner st p) (\<lambda>_. bindE (read_history sha st history) projection)"

definition replayed :: "pyval list \<Rightarrow> string \<Rightarrow> pyval \<Rightarrow> int \<Rightarrow> string \<Rightarrow> intent_error + pyval option" where
  "replayed events key command version kind =
     (case find_key key events 0 of
        Some (_, e) \<Rightarrow>
          bindE (ensure (ev_operation e = PStr BUDGET_OPERATION \<and> py_field (ev_payload e) ''kind'' = PStr kind
                   \<and> py_eq (py_field (ev_payload e) ''request'') command) (I_refused ''key'')) (\<lambda>_.
          Inr (Some (py_field (ev_payload e) ''data'')))
      | None \<Rightarrow> bindE (ensure (int (length events) = version) I_stale) (\<lambda>_. Inr None))"

definition budget_command :: "pyval \<Rightarrow> intent_error + string \<times> int \<times> pyval" where
  "budget_command command =
     bindE (ensure (length (canonical_bytes command) \<le> 250000) (I_programme P_capacity)) (\<lambda>_.
     bindE (i_shape [''idempotency_key'', ''expected_project_version'', ''request''] command) (\<lambda>_.
     bindE (i_text 100 (py_field command ''idempotency_key'')) (\<lambda>key.
     bindE (budget_integer 10000 True (py_field command ''expected_project_version'')) (\<lambda>version.
     Inr (key, version, py_field command ''request'')))))"

definition budget_payload :: "pyval \<Rightarrow> string \<Rightarrow> pyval \<Rightarrow> pyval" where
  "budget_payload command kind data = PDict [(''request'', command), (''kind'', PStr kind), (''data'', data)]"

definition append_budget ::
  "(string \<Rightarrow> string) \<Rightarrow> intent_store \<Rightarrow> principal \<Rightarrow> pyval \<Rightarrow> string \<Rightarrow> (pyval list \<Rightarrow> intent_error + pyval) \<Rightarrow> string
   \<Rightarrow> pyval list \<Rightarrow> intent_error + event_append \<times> pyval list" where
  "append_budget sha st p command kind validate now history =
     append_event sha st budget_operations p (py_field command ''expected_project_version'')
       (py_field command ''idempotency_key'') BUDGET_OPERATION (budget_payload command kind PNone)
       (\<lambda>events. bindE (validate events) (\<lambda>data. Inr (budget_payload command kind data))) now history"

section \<open>The service\<close>

text \<open>\<open>approve\<close> reads the journal twice: \<open>before\<close> is the first read, \<open>opening\<close> the observation
  made outside the lock between the two.\<close>

definition approve_checked ::
  "(string \<Rightarrow> string) \<Rightarrow> intent_store \<Rightarrow> pyval \<Rightarrow> string \<Rightarrow> int \<Rightarrow> pyval \<Rightarrow> pyval list \<Rightarrow> intent_error + approval option" where
  "approve_checked sha st command key version request before =
     bindE (read_history sha st before) (\<lambda>events.
     bindE (replayed events key command version ''approved'') (\<lambda>old.
     if old \<noteq> None then Inr None
     else
     bindE (approved_scope sha events) (\<lambda>approval.
     bindE (ensure (py_eq (py_field (ap_payload approval) ''spec_sha256'') (py_field request ''spec_sha256''))
              (I_refused ''scope'')) (\<lambda>_.
     bindE (projection events) (\<lambda>state.
     bindE (ensure (bf_allowance state = None) (I_refused ''allowance'')) (\<lambda>_.
     Inr (Some approval)))))))"

definition approve_data ::
  "(string \<Rightarrow> string) \<Rightarrow> pyval \<Rightarrow> approval \<Rightarrow> int \<Rightarrow> pyval list \<Rightarrow> pyval \<Rightarrow> pyval list \<Rightarrow> intent_error + pyval" where
  "approve_data sha request approval version before opening events =
     bindE (ensure (int (length events) = version \<and> last_hash sha events = last_hash sha before)
              (I_refused ''scope changed'')) (\<lambda>_.
     Inr (PDict [(''spec_sha256'', py_field request ''spec_sha256''),
       (''limit_microusd'', py_field request ''limit_microusd''), (''max_calls'', py_field request ''max_calls''),
       (''scope_id'', py_field (ap_spec approval) ''id''), (''opening'', opening)]))"

definition approve_budget ::
  "(string \<Rightarrow> string) \<Rightarrow> intent_store \<Rightarrow> principal \<Rightarrow> pyval \<Rightarrow> string \<Rightarrow> pyval list \<Rightarrow> (pyval \<Rightarrow> intent_error + pyval) \<Rightarrow> string
   \<Rightarrow> pyval list \<Rightarrow> intent_error + budget_state \<times> pyval list" where
  "approve_budget sha st p command github_repository before observe now history =
     bindE (budget_owner st p) (\<lambda>_.
     bindE (budget_command command) (\<lambda>(key, version, request).
     bindE (i_shape [''spec_sha256'', ''limit_microusd'', ''max_calls''] request) (\<lambda>_.
     bindE (budget_integer MAX_MICROUSD False (py_field request ''limit_microusd'')) (\<lambda>_.
     bindE (budget_integer MAX_CALLS False (py_field request ''max_calls'')) (\<lambda>_.
     bindE (ensure (github_repository = is_repository st) (I_refused ''repository'')) (\<lambda>_.
     bindE (approve_checked sha st command key version request before) (\<lambda>approval.
     case approval of
       None \<Rightarrow> bindE (projection before) (\<lambda>state. Inr (state, history))
     | Some approval \<Rightarrow>
         bindE (observe (ap_spec approval)) (\<lambda>opening.
         bindE (append_budget sha st p command ''approved'' (approve_data sha request approval version before opening)
                  now history) (\<lambda>(_, events).
         bindE (projection events) (\<lambda>state. Inr (state, events)))))))))))"

definition clear_stop :: pyval where
  "clear_stop = PDict [(''state'', PStr ''clear''), (''issues'', PList [])]"

definition budget_programme :: "(string \<Rightarrow> string) \<Rightarrow> string \<Rightarrow> pyval \<Rightarrow> intent_error + programme" where
  "budget_programme sha repository source =
     (case compile_programme sha (py_field source ''active_input'') repository of
        Inl e \<Rightarrow> Inl (I_programme e) | Inr p \<Rightarrow> Inr p)"

definition reserve_data ::
  "(string \<Rightarrow> string) \<Rightarrow> string \<Rightarrow> pyval \<Rightarrow> programme \<Rightarrow> pyval \<Rightarrow> pyval \<Rightarrow> pyval list \<Rightarrow> intent_error + pyval" where
  "reserve_data sha key request programme source source' events =
     bindE (projection events) (\<lambda>state.
     bindE (approved_scope sha events) (\<lambda>approval.
     bindE (ensure (bs_status state = ''available'') (I_refused (bs_status state))) (\<lambda>_.
     case bf_allowance state of
       None \<Rightarrow> Inl I_corrupt
     | Some allowance \<Rightarrow>
     bindE (ensure (py_eq (pg_spec programme) (ap_spec approval)
              \<and> py_eq (py_field (pg_spec programme) ''id'') (py_field allowance ''scope_id'')) (I_refused ''programme'')) (\<lambda>_.
     bindE (ensure (bf_reserved state + py_int (py_field request ''microusd'') \<le> py_int (py_field allowance ''limit_microusd''))
              (I_refused ''limit'')) (\<lambda>_.
     bindE (ensure (\<not> list_ex (\<lambda>(_, r). py_eq (py_field (rv_data r) ''execution_id'') (py_field request ''execution_id'')
                \<and> py_eq (py_field (rv_data r) ''attempt'') (py_field request ''attempt'')) (bf_rows state)) (I_refused ''attempt'')) (\<lambda>_.
     bindE (ensure (py_eq source source') (I_refused ''source'')) (\<lambda>_.
     Inr (PDict [(''programme_sha256'', py_field request ''programme_sha256''), (''role'', py_field request ''role''),
       (''microusd'', py_field request ''microusd''), (''attempt'', py_field request ''attempt''),
       (''execution_id'', py_field request ''execution_id''), (''id'', PStr key),
       (''source_sha'', py_field source ''main_sha''),
       (''spec_sha256'', py_field (ap_payload approval) ''spec_sha256''),
       (''reserved_project_version'', PInt (int (length events) + 1))]))))))))"

definition reserve_budget ::
  "(string \<Rightarrow> string) \<Rightarrow> intent_store \<Rightarrow> principal \<Rightarrow> pyval \<Rightarrow> pyval \<Rightarrow> pyval \<Rightarrow> string
   \<Rightarrow> pyval list \<Rightarrow> intent_error + (budget_state \<times> bool) \<times> pyval list" where
  "reserve_budget sha st p command source source' now history =
     bindE (budget_owner st p) (\<lambda>_.
     bindE (budget_command command) (\<lambda>(key, version, request).
     bindE (i_shape [''programme_sha256'', ''role'', ''microusd'', ''attempt'', ''execution_id''] request) (\<lambda>_.
     bindE (budget_integer MAX_MICROUSD False (py_field request ''microusd'')) (\<lambda>_.
     bindE (budget_integer MAX_CALLS False (py_field request ''attempt'')) (\<lambda>_.
     bindE (i_text 100 (py_field request ''role'')) (\<lambda>_.
     bindE (i_text 100 (py_field request ''execution_id'')) (\<lambda>_.
     bindE (case py_field request ''programme_sha256'' of
              PStr s \<Rightarrow> ensure (hex_text 64 s) (I_refused ''programme'') | _ \<Rightarrow> Inl (I_refused ''programme'')) (\<lambda>_.
     bindE (budget_programme sha (is_repository st) source) (\<lambda>programme.
     bindE (ensure (py_field source ''repository'' = PStr (is_repository st) \<and> py_field source ''protected'' = PBool True
              \<and> py_eq (py_field source ''stop'') clear_stop
              \<and> PStr (pg_sha256 programme) = py_field request ''programme_sha256'') (I_refused ''source'')) (\<lambda>_.
     bindE (append_budget sha st p command ''reserved'' (reserve_data sha key request programme source source')
              now history) (\<lambda>(r, events).
     bindE (projection events) (\<lambda>state. Inr ((state, \<not> ea_replayed r), events)))))))))))))"

definition observe_data :: "pyval \<Rightarrow> string \<Rightarrow> pyval list \<Rightarrow> intent_error + pyval" where
  "observe_data request i events =
     bindE (projection events) (\<lambda>state.
     bindE (ensure (case map_of (bf_rows state) i of None \<Rightarrow> False | Some r \<Rightarrow> rv_observation r = None)
              (I_refused ''observation'')) (\<lambda>_. Inr request))"

definition observe_budget ::
  "(string \<Rightarrow> string) \<Rightarrow> intent_store \<Rightarrow> principal \<Rightarrow> pyval \<Rightarrow> string \<Rightarrow> pyval list \<Rightarrow> intent_error + budget_state \<times> pyval list" where
  "observe_budget sha st p command now history =
     bindE (budget_owner st p) (\<lambda>_.
     bindE (budget_command command) (\<lambda>(key, version, request).
     bindE (i_shape [''id'', ''reported_microusd'', ''outcome''] request) (\<lambda>_.
     bindE (i_text 100 (py_field request ''id'')) (\<lambda>i.
     bindE (if py_field request ''reported_microusd'' = PNone then Inr 0
            else budget_integer MAX_MICROUSD True (py_field request ''reported_microusd'')) (\<lambda>_.
     bindE (ensure (py_field request ''outcome'' \<in> {PStr ''returned'', PStr ''failed''}) (I_refused ''outcome'')) (\<lambda>_.
     bindE (append_budget sha st p command ''observed'' (observe_data request i) now history) (\<lambda>(_, events).
     bindE (projection events) (\<lambda>state. Inr (state, events)))))))))"

definition start_data :: "(string \<Rightarrow> string) \<Rightarrow> int \<Rightarrow> pyval \<Rightarrow> pyval list \<Rightarrow> intent_error + pyval" where
  "start_data sha version request events =
     bindE (approved_scope sha events) (\<lambda>approval.
     bindE (projection events) (\<lambda>state.
     bindE (ensure (case py_field request ''id'' of
              PStr i \<Rightarrow> (case map_of (bf_rows state) i of
                None \<Rightarrow> False
              | Some r \<Rightarrow> py_eq (py_field (rv_data r) ''execution_id'') (py_field request ''execution_id'')
                  \<and> py_eq (py_field (rv_data r) ''reserved_project_version'') (PInt version)
                  \<and> py_eq (py_field (rv_data r) ''spec_sha256'') (py_field (ap_payload approval) ''spec_sha256'')
                  \<and> rv_started r = None \<and> rv_observation r = None)
            | _ \<Rightarrow> False) (I_refused ''start'')) (\<lambda>_. Inr request)))"

definition start_budget ::
  "(string \<Rightarrow> string) \<Rightarrow> intent_store \<Rightarrow> principal \<Rightarrow> pyval \<Rightarrow> string
   \<Rightarrow> pyval list \<Rightarrow> intent_error + (budget_state \<times> bool) \<times> pyval list" where
  "start_budget sha st p command now history =
     bindE (budget_owner st p) (\<lambda>_.
     bindE (budget_command command) (\<lambda>(key, version, request).
     bindE (i_shape [''id'', ''execution_id''] request) (\<lambda>_.
     bindE (append_budget sha st p command ''started'' (start_data sha version request) now history) (\<lambda>(r, events).
     bindE (projection events) (\<lambda>state. Inr ((state, \<not> ea_replayed r), events))))))"

section \<open>A local execution\<close>

text \<open>What \<open>run\<close> decides after its durable reservation and before it calls the provider:
  \<open>reserved\<close> is the state the reservation returned, \<open>source\<close> the fresh observation.\<close>

definition run_check ::
  "(string \<Rightarrow> string) \<Rightarrow> intent_store \<Rightarrow> budget_state \<Rightarrow> string \<Rightarrow> string \<Rightarrow> pyval \<Rightarrow> pyval list \<Rightarrow> intent_error + unit" where
  "run_check sha st reserved reservation_id programme_sha256 source history =
     bindE (read_history sha st history) (\<lambda>events.
     bindE (approved_scope sha events) (\<lambda>current.
     case map_of (bf_rows reserved) reservation_id of
       None \<Rightarrow> Inl I_corrupt
     | Some r \<Rightarrow>
         bindE (ensure (int (length events) = bs_version reserved
                  \<and> py_eq (py_field (ap_payload current) ''spec_sha256'') (py_field (rv_data r) ''spec_sha256''))
                  (I_refused ''decisions'')) (\<lambda>_.
         bindE (budget_programme sha (is_repository st) source) (\<lambda>programme.
         ensure (pg_sha256 programme = programme_sha256
            \<and> py_eq (py_field source ''main_sha'') (py_field (rv_data r) ''source_sha'')
            \<and> py_eq (py_field source ''stop'') clear_stop \<and> py_field source ''protected'' = PBool True)
           (I_refused ''changed'')))))"

definition run_record :: "string \<Rightarrow> int option \<Rightarrow> string \<Rightarrow> int \<Rightarrow> pyval" where
  "run_record reservation_id reported outcome version =
     PDict [(''idempotency_key'', PStr (''observed-'' @ reservation_id)), (''expected_project_version'', PInt version),
       (''request'', PDict [(''id'', PStr reservation_id),
          (''reported_microusd'', case reported of None \<Rightarrow> PNone | Some n \<Rightarrow> PInt n), (''outcome'', PStr outcome)])]"

text \<open>
  \<open>run\<close> with nothing else appending meanwhile: \<open>sources\<close> are the three observations, \<open>provider\<close>
  is the outcome of the provider call, None when it raises and otherwise the reported cost in
  microdollars (None when it reports none, or an amount \<open>microusd\<close> refuses), and \<open>bound\<close> is the
  request's ceiling in microdollars. The reply says whether the provider was called.
\<close>

definition run_budget ::
  "(string \<Rightarrow> string) \<Rightarrow> intent_store \<Rightarrow> principal \<Rightarrow> int \<Rightarrow> string \<Rightarrow> string \<Rightarrow> string \<Rightarrow> int \<Rightarrow> string
   \<Rightarrow> pyval \<times> pyval \<times> pyval \<Rightarrow> int option option \<Rightarrow> string \<Rightarrow> pyval list \<Rightarrow> intent_error + (bool \<times> int option option) \<times> pyval list" where
  "run_budget sha st p bound role programme_sha256 execution_id attempt reservation_id sources provider now history =
     bindE (budget_snapshot sha st p history) (\<lambda>state.
     let (source, source', source'') = sources;
         command = PDict [(''idempotency_key'', PStr reservation_id), (''expected_project_version'', PInt (bs_version state)),
           (''request'', PDict [(''programme_sha256'', PStr programme_sha256), (''role'', PStr role), (''microusd'', PInt bound),
              (''attempt'', PInt attempt), (''execution_id'', PStr execution_id)])] in
     bindE (reserve_budget sha st p command source source' now history) (\<lambda>((reserved, execute), events).
     bindE (ensure execute (I_refused ''historical'')) (\<lambda>_.
     let (called, outcome) = (case run_check sha st reserved reservation_id programme_sha256 source'' events of
           Inl _ \<Rightarrow> (False, None) | Inr _ \<Rightarrow> (True, provider));
         (reported, word) = (case outcome of None \<Rightarrow> (None, ''failed'') | Some r \<Rightarrow> (r, ''returned'')) in
     bindE (budget_snapshot sha st p events) (\<lambda>state.
     bindE (observe_budget sha st p (run_record reservation_id reported word (bs_version state)) now events)
       (\<lambda>(_, events). Inr ((called, outcome), events))))))"

end
