(* ===== verification/Validation_Meter.thy ===== *)
theory Validation_Meter
  imports Execution_Budget
begin

text \<open>
  Metered spend scopes, \<open>factory_kernel/validation_meter.py\<close>. A scope is one prepaid bundle of the
  execution ledger and the calls made inside it, a dict by call id in insertion order. The ledger
  is the record of its three operations over a state; the local ledger is the execution budget of
  this development. Random tokens are arguments; writing the record file is I/O, its content is
  \<open>scope_dict\<close>.
\<close>

section \<open>Classes and amounts\<close>

datatype meter_error =
    M_class string
  | M_amount string
  | M_digest
  | M_closed
  | M_count
  | M_ceiling
  | M_unknown
  | M_state
  | M_outcome
  | M_historical
  | M_consumed
  | M_ledger intent_error

definition SPEND_CLASSES :: "string list" where
  "SPEND_CLASSES = [''worker-model'', ''diagnostic-probe'', ''exploration'', ''validation-llm'',
     ''validation-embedding'', ''validation-transcript'', ''maintenance'']"

definition CALL_STATES :: "string list" where
  "CALL_STATES = [''reserved'', ''started'', ''observed'', ''not_started'']"

definition meter_amount :: "string \<Rightarrow> bool \<Rightarrow> pyval \<Rightarrow> meter_error + int" where
  "meter_amount name zero v =
     (case v of
        PInt n \<Rightarrow> if n < 0 \<or> (n = 0 \<and> \<not> zero) \<or> MAX_MICROUSD < n then Inl (M_amount name) else Inr n
      | _ \<Rightarrow> Inl (M_amount name))"

definition meter_digest :: "pyval \<Rightarrow> meter_error + string" where
  "meter_digest v = (case v of PStr s \<Rightarrow> if hex_text 64 s then Inr s else Inl M_digest | _ \<Rightarrow> Inl M_digest)"

section \<open>The ledger\<close>

record 's ledger =
  lg_reserve :: "pydict \<Rightarrow> 's \<Rightarrow> meter_error + int \<times> 's"
  lg_start :: "pydict \<Rightarrow> int \<Rightarrow> 's \<Rightarrow> meter_error + unit \<times> 's"
  lg_observe :: "pydict \<Rightarrow> int option \<Rightarrow> string \<Rightarrow> 's \<Rightarrow> meter_error + unit \<times> 's"

definition optional_int :: "int option \<Rightarrow> pyval" where
  "optional_int v = (case v of None \<Rightarrow> PNone | Some n \<Rightarrow> PInt n)"

text \<open>\<open>ExchangeLedger\<close>: \<open>exchange\<close> is the worker's authenticated client.\<close>

definition exchange_ledger :: "(string \<Rightarrow> pyval \<Rightarrow> pyval \<Rightarrow> 's \<Rightarrow> meter_error + pyval \<times> 's) \<Rightarrow> 's ledger" where
  "exchange_ledger exchange =
     \<lparr>lg_reserve = (\<lambda>call s.
        bindE (exchange ''reserve'' (PDict call) (PDict []) s) (\<lambda>(reservation, s).
        bindE (ensure (py_field reservation ''status'' = PStr ''reserved'') M_historical) (\<lambda>_.
        case py_field reservation ''project_version'' of PInt n \<Rightarrow> Inr (n, s) | _ \<Rightarrow> Inl (M_amount ''version'')))),
      lg_start = (\<lambda>call version s.
        bindE (exchange ''start'' (PDict call) (PDict [(''reservation_version'', PInt version)]) s) (\<lambda>(started, s).
        bindE (ensure (py_field started ''status'' = PStr ''start-once'') M_consumed) (\<lambda>_. Inr ((), s)))),
      lg_observe = (\<lambda>call reported outcome s.
        bindE (exchange ''observe'' (PDict call) (PDict [(''reported_microusd'', optional_int reported),
          (''outcome'', PStr outcome)]) s) (\<lambda>(_, s). Inr ((), s)))\<rparr>"

definition as_meter :: "intent_error + 'a \<Rightarrow> meter_error + 'a" where
  "as_meter m = (case m of Inl e \<Rightarrow> Inl (M_ledger e) | Inr x \<Rightarrow> Inr x)"

text \<open>\<open>LocalLedger\<close>: \<open>source\<close> and \<open>source'\<close> are the two observations of \<open>reserve\<close>.\<close>

definition local_ledger ::
  "(string \<Rightarrow> string) \<Rightarrow> intent_store \<Rightarrow> principal \<Rightarrow> pyval \<Rightarrow> pyval \<Rightarrow> string \<Rightarrow> pyval list ledger" where
  "local_ledger sha st p source source' now =
     \<lparr>lg_reserve = (\<lambda>call h.
        bindE (as_meter (budget_snapshot sha st p h)) (\<lambda>state.
        bindE (as_meter (reserve_budget sha st p (PDict [(''idempotency_key'', py_get call ''id''),
            (''expected_project_version'', PInt (bs_version state)),
            (''request'', PDict [(''programme_sha256'', py_get call ''programme_sha256''), (''role'', py_get call ''role''),
               (''microusd'', py_get call ''microusd''), (''attempt'', py_get call ''attempt''),
               (''execution_id'', py_get call ''execution_id'')])]) source source' now h)) (\<lambda>((result, execute), h).
        bindE (ensure execute M_historical) (\<lambda>_.
        case py_get call ''id'' of
          PStr i \<Rightarrow> (case map_of (bf_rows result) i of
            Some r \<Rightarrow> (case py_field (rv_data r) ''reserved_project_version'' of
              PInt n \<Rightarrow> Inr (n, h) | _ \<Rightarrow> Inl (M_ledger I_corrupt))
          | None \<Rightarrow> Inl (M_ledger I_corrupt))
        | _ \<Rightarrow> Inl (M_ledger I_corrupt))))),
      lg_start = (\<lambda>call version h.
        bindE (as_meter (start_budget sha st p (PDict [(''idempotency_key'', PStr (py_string (py_get call ''id'') @ '':start'')),
            (''expected_project_version'', PInt version),
            (''request'', PDict [(''id'', py_get call ''id''), (''execution_id'', py_get call ''execution_id'')])]) now h))
          (\<lambda>((result, execute), h).
        bindE (ensure execute M_consumed) (\<lambda>_. Inr ((), h)))),
      lg_observe = (\<lambda>call reported outcome h.
        bindE (as_meter (budget_snapshot sha st p h)) (\<lambda>state.
        bindE (as_meter (observe_budget sha st p (PDict [(''idempotency_key'', PStr (py_string (py_get call ''id'') @ '':observe'')),
            (''expected_project_version'', PInt (bs_version state)),
            (''request'', PDict [(''id'', py_get call ''id''), (''reported_microusd'', optional_int reported),
               (''outcome'', PStr outcome)])]) now h)) (\<lambda>(_, h). Inr ((), h))))\<rparr>"

section \<open>Calls and scopes\<close>

record metered_call =
  mc_id :: string
  mc_class :: string
  mc_microusd :: int
  mc_request :: string
  mc_state :: string
  mc_reported :: "int option"
  mc_outcome :: "string option"
  mc_telemetry :: pydict

record summary =
  sm_bundle :: pyval
  sm_class :: string
  sm_calls :: nat
  sm_ceiling_sum :: int
  sm_limit :: int
  sm_reported :: "int option"
  sm_unknown :: nat
  sm_outcome :: string

record validation_scope =
  vs_id :: string
  vs_class :: string
  vs_bundle :: pydict
  vs_version :: int
  vs_limit :: int
  vs_max_calls :: int
  vs_calls :: "(string \<times> metered_call) list"
  vs_closed :: bool
  vs_summary :: "summary option"

definition call_dict :: "metered_call \<Rightarrow> pyval" where
  "call_dict c = PDict [(''call_id'', PStr (mc_id c)), (''call_class'', PStr (mc_class c)), (''microusd'', PInt (mc_microusd c)),
     (''request_sha256'', PStr (mc_request c)), (''state'', PStr (mc_state c)), (''reported_microusd'', optional_int (mc_reported c)),
     (''outcome'', case mc_outcome c of None \<Rightarrow> PNone | Some s \<Rightarrow> PStr s), (''telemetry'', PDict (mc_telemetry c))]"

definition ceiling_sum :: "validation_scope \<Rightarrow> int" where
  "ceiling_sum s = sum_list (map (\<lambda>(_, c). mc_microusd c) (vs_calls s))"

definition summary_dict :: "summary \<Rightarrow> pyval" where
  "summary_dict m = PDict [(''bundle_id'', sm_bundle m), (''scope_class'', PStr (sm_class m)), (''calls'', PInt (int (sm_calls m))),
     (''ceiling_sum_microusd'', PInt (sm_ceiling_sum m)), (''limit_microusd'', PInt (sm_limit m)),
     (''reported_microusd'', optional_int (sm_reported m)), (''unknown_calls'', PInt (int (sm_unknown m))),
     (''outcome'', PStr (sm_outcome m))]"

definition scope_dict :: "validation_scope \<Rightarrow> pyval" where
  "scope_dict s = PDict [(''schema'', PStr ''dark-factory/validation-meter''), (''schema_version'', PStr ''1.0''),
     (''scope_id'', PStr (vs_id s)), (''scope_class'', PStr (vs_class s)), (''bundle_id'', py_get (vs_bundle s) ''id''),
     (''reserved_version'', PInt (vs_version s)), (''limit_microusd'', PInt (vs_limit s)), (''max_calls'', PInt (vs_max_calls s)),
     (''ceiling_sum_microusd'', PInt (ceiling_sum s)), (''calls'', PList (map (\<lambda>(_, c). call_dict c) (vs_calls s))),
     (''closed'', PBool (vs_closed s)), (''summary'', case vs_summary s of None \<Rightarrow> PNone | Some m \<Rightarrow> summary_dict m),
     (''authority'', PStr ''spend-record-only'')]"

text \<open>Assignment to a key of a dict.\<close>

definition dict_set :: "string \<Rightarrow> 'a \<Rightarrow> (string \<times> 'a) list \<Rightarrow> (string \<times> 'a) list" where
  "dict_set k v d = (if k \<in> set (map fst d) then map (\<lambda>(j, w). (j, if j = k then v else w)) d else d @ [(k, v)])"

text \<open>A refusal after \<open>reserve\<close> leaves the reservation on the ledger; the value of the error is all
  that the caller gets.\<close>

definition open_scope ::
  "'s ledger \<Rightarrow> string \<Rightarrow> pydict \<Rightarrow> string \<Rightarrow> pyval \<Rightarrow> pyval \<Rightarrow> pyval \<Rightarrow> pyval \<Rightarrow> string \<Rightarrow> string \<Rightarrow> 's
   \<Rightarrow> meter_error + validation_scope \<times> 's" where
  "open_scope ledger scope_class binding execution_id attempt limit_microusd max_calls request_sha256 bundle_token scope_token s =
     bindE (ensure (scope_class \<in> set SPEND_CLASSES) (M_class scope_class)) (\<lambda>_.
     bindE (meter_amount ''limit_microusd'' False limit_microusd) (\<lambda>limit.
     bindE (case max_calls of PInt n \<Rightarrow> if 1 \<le> n \<and> n \<le> MAX_CALLS then Inr n else Inl (M_amount ''max_calls'')
            | _ \<Rightarrow> Inl (M_amount ''max_calls'')) (\<lambda>calls.
     bindE (meter_digest request_sha256) (\<lambda>digest.
     bindE (case attempt of PInt n \<Rightarrow> if n < 1 then Inl (M_amount ''attempt'') else Inr n | _ \<Rightarrow> Inl (M_amount ''attempt'')) (\<lambda>attempt.
     let bundle = dict_set ''attempt'' (PInt attempt) (dict_set ''execution_id'' (PStr execution_id)
           (dict_set ''request_sha256'' (PStr digest) (dict_set ''microusd'' (PInt limit)
             (dict_set ''role'' (PStr scope_class) (dict_set ''id'' (PStr bundle_token) binding))))) in
     bindE (lg_reserve ledger bundle s) (\<lambda>(version, s).
     bindE (lg_start ledger bundle version s) (\<lambda>(_, s).
     Inr (\<lparr>vs_id = scope_token, vs_class = scope_class, vs_bundle = bundle, vs_version = version, vs_limit = limit,
           vs_max_calls = calls, vs_calls = [], vs_closed = False, vs_summary = None\<rparr>, s))))))))"

definition meter_reserve ::
  "string \<Rightarrow> pyval \<Rightarrow> pyval \<Rightarrow> string \<Rightarrow> validation_scope \<Rightarrow> meter_error + metered_call \<times> validation_scope" where
  "meter_reserve call_class microusd request_sha256 token s =
     bindE (ensure (\<not> vs_closed s) M_closed) (\<lambda>_.
     bindE (ensure (call_class = vs_class s) (M_class call_class)) (\<lambda>_.
     bindE (meter_amount ''call ceiling'' False microusd) (\<lambda>amount.
     bindE (meter_digest request_sha256) (\<lambda>digest.
     bindE (ensure (int (length (vs_calls s)) + 1 \<le> vs_max_calls s) M_count) (\<lambda>_.
     bindE (ensure (ceiling_sum s + amount \<le> vs_limit s) M_ceiling) (\<lambda>_.
     let call = \<lparr>mc_id = token, mc_class = call_class, mc_microusd = amount, mc_request = digest, mc_state = ''reserved'',
                 mc_reported = None, mc_outcome = None, mc_telemetry = []\<rparr> in
     Inr (call, s\<lparr>vs_calls := dict_set token call (vs_calls s)\<rparr>)))))))"

definition meter_start :: "string \<Rightarrow> validation_scope \<Rightarrow> meter_error + metered_call \<times> validation_scope" where
  "meter_start call_id s =
     (case map_of (vs_calls s) call_id of
        None \<Rightarrow> Inl M_unknown
      | Some call \<Rightarrow>
          bindE (ensure (\<not> vs_closed s) M_unknown) (\<lambda>_.
          bindE (ensure (mc_state call = ''reserved'') M_state) (\<lambda>_.
          let call = call\<lparr>mc_state := ''started''\<rparr> in
          Inr (call, s\<lparr>vs_calls := dict_set call_id call (vs_calls s)\<rparr>))))"

definition meter_observe ::
  "string \<Rightarrow> pyval \<Rightarrow> string \<Rightarrow> pydict \<Rightarrow> validation_scope \<Rightarrow> meter_error + metered_call \<times> validation_scope" where
  "meter_observe call_id reported outcome telemetry s =
     (case map_of (vs_calls s) call_id of
        None \<Rightarrow> Inl M_unknown
      | Some call \<Rightarrow>
          bindE (ensure (\<not> vs_closed s) M_unknown) (\<lambda>_.
          bindE (ensure (outcome \<in> {''returned'', ''failed'', ''partial'', ''not_started''}) M_outcome) (\<lambda>_.
          bindE (if reported = PNone then Inr None
                 else bindE (meter_amount ''reported_microusd'' True reported) (\<lambda>n. Inr (Some n))) (\<lambda>known.
          bindE (if mc_state call = ''reserved'' then
                   bindE (ensure (outcome = ''not_started'' \<and> known \<in> {None, Some 0}) M_state) (\<lambda>_.
                   Inr (call\<lparr>mc_state := ''not_started'', mc_outcome := Some outcome, mc_reported := Some 0\<rparr>))
                 else if mc_state call = ''started'' then
                   bindE (ensure (outcome \<noteq> ''not_started'') M_state) (\<lambda>_.
                   Inr (call\<lparr>mc_state := ''observed'', mc_outcome := Some outcome, mc_reported := known\<rparr>))
                 else Inl M_state) (\<lambda>call.
          let call = call\<lparr>mc_telemetry := telemetry\<rparr> in
          Inr (call, s\<lparr>vs_calls := dict_set call_id call (vs_calls s)\<rparr>))))))"

text \<open>The loop of \<open>close_validation_scope\<close>: the known sum and the number of unknown receipts.\<close>

fun receipts_total :: "metered_call list \<Rightarrow> int \<Rightarrow> nat \<Rightarrow> int \<times> nat" where
  "receipts_total [] known unknown = (known, unknown)"
| "receipts_total (c # cs) known unknown =
     (if mc_state c = ''started'' then receipts_total cs known (unknown + 1)
      else if mc_state c = ''observed'' then
        (case mc_reported c of None \<Rightarrow> receipts_total cs known (unknown + 1) | Some n \<Rightarrow> receipts_total cs (known + n) unknown)
      else receipts_total cs known unknown)"

definition close_scope :: "'s ledger \<Rightarrow> validation_scope \<Rightarrow> 's \<Rightarrow> meter_error + (summary option \<times> validation_scope) \<times> 's" where
  "close_scope ledger scope s =
     (if vs_closed scope then Inr ((vs_summary scope, scope), s)
      else
        let calls = map snd (vs_calls scope);
            (known, unknown) = receipts_total calls 0 0;
            reported = (if unknown = 0 then Some known else None);
            outcome = (if unknown = 0 \<and> list_all (\<lambda>c. mc_state c \<in> {''observed'', ''not_started''}) calls
                       then ''returned'' else ''failed'') in
        bindE (lg_observe ledger (vs_bundle scope) reported outcome s) (\<lambda>(_, s).
        let m = \<lparr>sm_bundle = py_get (vs_bundle scope) ''id'', sm_class = vs_class scope, sm_calls = length calls,
                 sm_ceiling_sum = ceiling_sum scope, sm_limit = vs_limit scope, sm_reported = reported,
                 sm_unknown = unknown, sm_outcome = outcome\<rparr> in
        Inr ((Some m, scope\<lparr>vs_closed := True, vs_summary := Some m\<rparr>), s)))"

end
