(* ===== verification/Budget_Facts.thy ===== *)
theory Budget_Facts
  imports Execution_Budget Intent_Properties
begin

text \<open>
  The invariant of the budget's projection, kept by every event the services append, and the
  interpretation of the ordered transactional interface on the project's journal with the budget's
  order: an allowance is never replaced, no reservation is refunded or forgotten, a start and an
  observation are final.
\<close>

section \<open>The invariant and the order\<close>

definition unobserved :: "(string \<times> reservation) list \<Rightarrow> (string \<times> reservation) list" where
  "unobserved rows = filter (\<lambda>(_, r). rv_observation r = None) rows"

definition attempt_of :: "string \<times> reservation \<Rightarrow> pyval \<times> pyval" where
  "attempt_of kr = (py_norm (py_field (rv_data (snd kr)) ''execution_id''), py_norm (py_field (rv_data (snd kr)) ''attempt''))"

definition within_allowance :: "budget_fold \<Rightarrow> bool" where
  "within_allowance s \<longleftrightarrow>
     (case bf_allowance s of
        None \<Rightarrow> bf_rows s = []
      | Some a \<Rightarrow> bf_reserved s \<le> py_int (py_field a ''limit_microusd'') \<and> bf_calls s \<le> py_int (py_field a ''max_calls''))"

definition fold_ok :: "budget_fold \<Rightarrow> bool" where
  "fold_ok s \<longleftrightarrow> distinct (map fst (bf_rows s)) \<and> distinct (map attempt_of (bf_rows s))
     \<and> bf_reserved s = sum_list (map (\<lambda>kr. rv_microusd (snd kr)) (bf_rows s)) \<and> bf_calls s = int (length (bf_rows s))
     \<and> (\<forall>kr \<in> set (bf_rows s). 1 \<le> rv_microusd (snd kr))
     \<and> within_allowance s \<and> length (unobserved (bf_rows s)) \<le> 1"

definition reservation_kept :: "string \<times> reservation \<Rightarrow> string \<times> reservation \<Rightarrow> bool" where
  "reservation_kept x y \<longleftrightarrow> fst y = fst x \<and> rv_data (snd y) = rv_data (snd x) \<and> rv_microusd (snd y) = rv_microusd (snd x)
     \<and> (rv_started (snd x) \<noteq> None \<longrightarrow> rv_started (snd y) = rv_started (snd x))
     \<and> (rv_observation (snd x) \<noteq> None \<longrightarrow> snd y = snd x)"

definition fold_le :: "budget_fold \<Rightarrow> budget_fold \<Rightarrow> bool" where
  "fold_le s t \<longleftrightarrow> (bf_allowance s \<noteq> None \<longrightarrow> bf_allowance t = bf_allowance s) \<and> bf_reserved s \<le> bf_reserved t
     \<and> bf_calls s \<le> bf_calls t \<and> kept_in reservation_kept (bf_rows s) (bf_rows t)"

lemma reservation_kept_refl: "reservation_kept x x"
  by (simp add: reservation_kept_def)

lemma reservation_kept_trans: "reservation_kept x y \<Longrightarrow> reservation_kept y z \<Longrightarrow> reservation_kept x z"
  unfolding reservation_kept_def by metis

lemma fold_le_refl: "fold_le s s"
  by (simp add: fold_le_def kept_in_refl reservation_kept_refl)

lemma fold_le_trans: "fold_le s t \<Longrightarrow> fold_le t u \<Longrightarrow> fold_le s u"
  unfolding fold_le_def using kept_in_trans [where R = reservation_kept, OF reservation_kept_trans] by fastforce

section \<open>One event\<close>

definition budget_event :: "intent_store \<Rightarrow> string \<Rightarrow> int \<Rightarrow> pyval \<Rightarrow> string \<Rightarrow> pyval \<Rightarrow> principal \<Rightarrow> string \<Rightarrow> pyval \<Rightarrow> pyval" where
  "budget_event st key version command kind data p now previous =
     make_event st key version BUDGET_OPERATION (budget_payload command kind data) p now previous"

lemma budget_step_event:
  "budget_step s (budget_event st key version command kind data p now previous) =
     (if kind = ''approved'' then
        bindE (ensure (bf_allowance s = None) (I_refused ''reset'')) (\<lambda>_.
        bindE (i_at data ''opening'') (\<lambda>_. Inr (s\<lparr>bf_allowance := Some data\<rparr>)))
      else if kind = ''reserved'' then
        bindE (bindE (i_at data ''id'') need_text) (\<lambda>i.
        bindE (bindE (i_at data ''microusd'') need_int) (\<lambda>amount.
        bindE (ensure (bf_allowance s \<noteq> None \<and> i \<notin> set (map fst (bf_rows s))) (I_refused ''reservation'')) (\<lambda>_.
        Inr (s\<lparr>bf_rows := bf_rows s @ [(i, \<lparr>rv_data = data, rv_microusd = amount, rv_started = None, rv_observation = None\<rparr>)],
               bf_reserved := bf_reserved s + amount, bf_calls := bf_calls s + 1\<rparr>))))
      else if kind = ''started'' then
        bindE (bindE (i_at data ''id'') need_text) (\<lambda>i.
        case map_of (bf_rows s) i of
          None \<Rightarrow> Inl (I_refused ''start'')
        | Some r \<Rightarrow>
            bindE (ensure (rv_started r = None \<and> rv_observation r = None) (I_refused ''start'')) (\<lambda>_.
            Inr (update_reservation i (\<lambda>r. r\<lparr>rv_started := Some data\<rparr>) s)))
      else if kind = ''observed'' then
        bindE (bindE (i_at data ''id'') need_text) (\<lambda>i.
        case map_of (bf_rows s) i of
          None \<Rightarrow> Inl (I_refused ''observation'')
        | Some r \<Rightarrow>
            bindE (ensure (rv_observation r = None) (I_refused ''observation'')) (\<lambda>_.
            Inr (update_reservation i (\<lambda>r. r\<lparr>rv_observation := Some data\<rparr>) s)))
      else Inl (I_refused ''event''))"
  by (simp add: budget_step_def budget_event_def budget_payload_def i_at_def cong: option.case_cong)

lemma map_update_rows:
  "map fst (map (\<lambda>(k, r). (k, if k = i then f r else r)) rows) = map fst rows"
  by (induction rows) auto

lemma update_reservation_key: "x \<in> set (bf_rows (update_reservation i f s)) \<Longrightarrow> fst x \<in> fst ` set (bf_rows s)"
  by (auto simp: update_reservation_def rev_image_eqI)

lemma update_reservation_ok:
  assumes "fold_ok s" and "map_of (bf_rows s) i = Some r" and "rv_observation r = None"
    and "\<And>r. rv_data (f r) = rv_data r" and "\<And>r. rv_microusd (f r) = rv_microusd r"
    and "rv_started r \<noteq> None \<Longrightarrow> rv_started (f r) = rv_started r"
  shows "fold_ok (update_reservation i f s) \<and> fold_le s (update_reservation i f s)"
proof -
  define rows' where "rows' = map (\<lambda>(k, r). (k, if k = i then f r else r)) (bf_rows s)"
  have keys: "map fst rows' = map fst (bf_rows s)" unfolding rows'_def by (rule map_update_rows)
  have attempts: "map attempt_of rows' = map attempt_of (bf_rows s)"
    unfolding rows'_def by (auto simp: attempt_of_def assms(4))
  have amounts: "map (\<lambda>kr. rv_microusd (snd kr)) rows' = map (\<lambda>kr. rv_microusd (snd kr)) (bf_rows s)"
    unfolding rows'_def by (auto simp: assms(5))
  have uniq: "q = r" if "(i, q) \<in> set (bf_rows s)" for q
    using that assms(1,2) by (auto simp: fold_ok_def dest: map_of_is_SomeI)
  have "length (unobserved (map (\<lambda>(k, r). (k, if k = i then f r else r)) rows)) \<le> length (unobserved rows)"
    if "\<And>q. (i, q) \<in> set rows \<Longrightarrow> q = r" for rows
    using that
  proof (induction rows)
    case (Cons x xs)
    obtain a b where x: "x = (a, b)" by (cases x)
    have "a = i \<Longrightarrow> b = r" using Cons.prems by (simp add: x)
    moreover have "length (unobserved (map (\<lambda>(k, r). (k, if k = i then f r else r)) xs)) \<le> length (unobserved xs)"
      using Cons.prems by (intro Cons.IH) simp
    ultimately show ?case using assms(3) by (auto simp: unobserved_def x)
  qed (simp add: unobserved_def)
  then have un: "length (unobserved rows') \<le> 1" unfolding rows'_def using uniq assms(1) by (fastforce simp: fold_ok_def intro: le_trans)
  have pos: "\<forall>kr \<in> set rows'. 1 \<le> rv_microusd (snd kr)" unfolding rows'_def using assms(1) by (auto simp: fold_ok_def assms(5))
  have len: "length rows' = length (bf_rows s)" by (simp add: rows'_def)
  have t: "update_reservation i f s = s\<lparr>bf_rows := rows'\<rparr>" by (simp add: update_reservation_def rows'_def)
  have "rows' = [] \<longleftrightarrow> bf_rows s = []" using len by auto
  then have "fold_ok (update_reservation i f s)"
    using assms(1) un pos unfolding t fold_ok_def within_allowance_def
    by (simp add: keys attempts amounts len split: option.splits)
  moreover have "kept_in reservation_kept (bf_rows s) rows'"
    unfolding rows'_def by (rule kept_in_map) (auto simp: reservation_kept_def assms(3,4,5,6) dest!: uniq)
  ultimately show ?thesis by (simp add: fold_le_def t)
qed

definition step_ok :: "budget_fold \<Rightarrow> pyval \<Rightarrow> bool" where
  "step_ok s e \<longleftrightarrow> (\<exists>t. budget_step s e = Inr t \<and> fold_ok t \<and> fold_le s t
     \<and> (\<forall>i \<in> set (map fst (bf_rows t)). i \<in> set (map fst (bf_rows s)) \<or> ev_key e = PStr i))"

lemma other_step_ok:
  "fold_ok s \<Longrightarrow> o1 \<noteq> BUDGET_OPERATION \<Longrightarrow> step_ok s (make_event st k v o1 pl p now prev)"
  by (simp add: step_ok_def budget_step_def fold_le_refl)

lemma projection_eq: "projection h = Inr b \<Longrightarrow> foldE budget_step budget_start h = Inr s \<Longrightarrow>
   b = budget_fold.extend s \<lparr>bs_uncertain = (bf_allowance s \<noteq> None \<and> list_ex (\<lambda>(_, r). row_uncertain r) (bf_rows s)),
       bs_overrun = (bf_allowance s \<noteq> None \<and> list_ex (\<lambda>(_, r). row_overrun r) (bf_rows s)),
       bs_status = budget_status s, bs_version = int (length h)\<rparr>"
  by (simp add: projection_def Let_def)

lemma projection_parts:
  assumes "projection h = Inr b" and "foldE budget_step budget_start h = Inr s"
  shows "bf_allowance b = bf_allowance s" and "bf_rows b = bf_rows s" and "bf_reserved b = bf_reserved s"
    and "bf_calls b = bf_calls s" and "bs_status b = budget_status s"
  using projection_eq [OF assms] by (simp_all add: budget_fold.defs)

lemma approved_step_ok:
  assumes "fold_ok s" and "bf_allowance s = None" and "py_field data ''limit_microusd'' = PInt n" and "1 \<le> n"
    and "py_field data ''max_calls'' = PInt m" and "1 \<le> m" and "i_at data ''opening'' = Inr x"
  shows "step_ok s (budget_event st key version command ''approved'' data p now previous)"
proof -
  have rows: "bf_rows s = []" using assms(1,2) by (simp add: fold_ok_def within_allowance_def)
  with assms show ?thesis
    by (simp add: step_ok_def budget_step_event fold_ok_def within_allowance_def py_int_def fold_le_def
        kept_in_refl reservation_kept_refl)
qed

lemma available_observed: "budget_status s = ''available'' \<Longrightarrow> unobserved (bf_rows s) = []"
  by (auto simp: budget_status_def unobserved_def row_uncertain_def list_ex_iff filter_empty_conv
      split: option.splits if_splits)

lemma reserved_step_ok:
  assumes "fold_ok s" and "budget_status s = ''available''" and "bf_allowance s = Some a"
    and "bf_reserved s + n \<le> py_int (py_field a ''limit_microusd'')" and "1 \<le> n"
    and "i_at data ''id'' = Inr (PStr key)" and "i_at data ''microusd'' = Inr (PInt n)" and "key \<notin> fst ` set (bf_rows s)"
    and "attempt_of (key, \<lparr>rv_data = data, rv_microusd = n, rv_started = None, rv_observation = None\<rparr>) \<notin> attempt_of ` set (bf_rows s)"
  shows "step_ok s (budget_event st key version command ''reserved'' data p now previous)"
proof -
  have calls: "bf_calls s < py_int (py_field a ''max_calls'')"
    using assms(2,3) by (simp add: budget_status_def split: if_splits)
  have un: "unobserved (bf_rows s) = []" using assms(2) by (rule available_observed)
  let ?row = "(key, \<lparr>rv_data = data, rv_microusd = n, rv_started = None, rv_observation = None\<rparr>)"
  let ?t = "s\<lparr>bf_rows := bf_rows s @ [?row], bf_reserved := bf_reserved s + n, bf_calls := bf_calls s + 1\<rparr>"
  have "budget_step s (budget_event st key version command ''reserved'' data p now previous) = Inr ?t"
    using assms(3,6,7,8) by (simp add: budget_step_event need_text_def need_int_def)
  moreover have "fold_ok ?t"
    using assms(1,3,4,5,8,9) calls un by (auto simp: fold_ok_def within_allowance_def unobserved_def)
  moreover have "fold_le s ?t"
    using assms(5) by (simp add: fold_le_def kept_in_append reservation_kept_refl)
  ultimately show ?thesis by (auto simp: step_ok_def budget_event_def)
qed

lemma started_step_ok:
  assumes "fold_ok s" and "i_at data ''id'' = Inr (PStr i)" and "map_of (bf_rows s) i = Some r"
    and "rv_started r = None" and "rv_observation r = None"
  shows "step_ok s (budget_event st key version command ''started'' data p now previous)"
  using update_reservation_ok [where f = "\<lambda>r. r\<lparr>rv_started := Some data\<rparr>", OF assms(1,3,5)] assms
  by (auto simp: step_ok_def budget_step_event need_text_def dest: update_reservation_key)

lemma observed_step_ok:
  assumes "fold_ok s" and "i_at data ''id'' = Inr (PStr i)" and "map_of (bf_rows s) i = Some r"
    and "rv_observation r = None"
  shows "step_ok s (budget_event st key version command ''observed'' data p now previous)"
  using update_reservation_ok [where f = "\<lambda>r. r\<lparr>rv_observation := Some data\<rparr>", OF assms(1,3,4)] assms
  by (auto simp: step_ok_def budget_step_event need_text_def dest: update_reservation_key)

end
