(* ===== verification/Budget_Properties.thy ===== *)
theory Budget_Properties
  imports Budget_Facts
begin

text \<open>
  What the execution budget guarantees in every journal the intake, the budget and the other
  services can write together.
\<close>

section \<open>The machine\<close>

datatype budget_cmd =
    Approve principal pyval string nat "pyval \<Rightarrow> intent_error + pyval" string
  | Reserve principal pyval pyval pyval string
  | Observe principal pyval string
  | Start principal pyval string
  | Journal journal_cmd

text \<open>An approval's first read is an earlier state of the journal, a prefix of the present one.\<close>

definition budget_exec ::
  "(string \<Rightarrow> string) \<Rightarrow> intent_store \<Rightarrow> budget_cmd \<Rightarrow> pyval list \<Rightarrow> intent_error + unit \<times> pyval list" where
  "budget_exec sha st c h =
     (case c of
        Approve p command repository n observe now \<Rightarrow>
          reply (\<lambda>_. ()) (approve_budget sha st p command repository (take n h) observe now h)
      | Reserve p command source source' now \<Rightarrow> reply (\<lambda>_. ()) (reserve_budget sha st p command source source' now h)
      | Observe p command now \<Rightarrow> reply (\<lambda>_. ()) (observe_budget sha st p command now h)
      | Start p command now \<Rightarrow> reply (\<lambda>_. ()) (start_budget sha st p command now h)
      | Journal j \<Rightarrow>
          bindE (ensure (case j of Service _ _ _ _ operation _ _ _ \<Rightarrow> operation \<noteq> BUDGET_OPERATION | _ \<Rightarrow> True)
                   (I_operation BUDGET_OPERATION)) (\<lambda>_. journal_exec sha st j h))"

definition budget_fold_of :: "pyval list \<Rightarrow> intent_error + budget_fold" where
  "budget_fold_of h = foldE budget_step budget_start h"

definition budget_inv :: "pyval list \<Rightarrow> bool" where
  "budget_inv h \<longleftrightarrow> (\<exists>s. budget_fold_of h = Inr s \<and> fold_ok s
     \<and> (\<forall>i \<in> set (map fst (bf_rows s)). PStr i \<in> ev_key ` set h))"

definition budget_le :: "pyval list \<Rightarrow> pyval list \<Rightarrow> bool" where
  "budget_le h t \<longleftrightarrow> prefix h t \<and> (\<forall>s u. budget_fold_of h = Inr s \<and> budget_fold_of t = Inr u \<longrightarrow> fold_le s u)"

definition budget_transition :: "pyval list \<Rightarrow> pyval list \<Rightarrow> bool" where
  "budget_transition h t \<longleftrightarrow> budget_inv t \<and> budget_le h t"

lemma same_transition: "budget_inv h \<Longrightarrow> budget_transition h h"
  by (auto simp: budget_transition_def budget_le_def fold_le_refl)

lemma event_transition:
  assumes "budget_inv h" and "budget_fold_of h = Inr s" and "step_ok s e"
  shows "budget_transition h (h @ [e])"
proof -
  from assms(3) obtain t where t: "budget_step s e = Inr t" "fold_ok t" "fold_le s t"
      "\<forall>i \<in> set (map fst (bf_rows t)). i \<in> set (map fst (bf_rows s)) \<or> ev_key e = PStr i"
    unfolding step_ok_def by blast
  have "budget_fold_of (h @ [e]) = Inr t" using assms(2) t(1) by (simp add: budget_fold_of_def foldE_snoc)
  moreover have "PStr i \<in> ev_key ` set (h @ [e])" if "i \<in> set (map fst (bf_rows t))" for i
    using that t(4) assms(1,2) by (fastforce simp: budget_inv_def)
  ultimately show ?thesis
    using assms(2) t by (auto simp: budget_transition_def budget_inv_def budget_le_def)
qed

text \<open>An append by the budget's own operations.\<close>

lemma append_budget_transition:
  assumes "append_budget sha st p command kind validate now h = Inr (r, h')"
    and "budget_inv h"
    and "\<And>s data k. budget_fold_of h = Inr s \<Longrightarrow> fold_ok s \<Longrightarrow> validate h = Inr data \<Longrightarrow>
       py_field command ''idempotency_key'' = PStr k \<Longrightarrow> k \<notin> set (map fst (bf_rows s)) \<Longrightarrow>
       py_field command ''expected_project_version'' = PInt (int (length h)) \<Longrightarrow>
       step_ok s (budget_event st k (int (length h)) command kind data p now (last_hash sha h))"
  shows "budget_transition h h'"
  using assms(1) [unfolded append_budget_def]
proof (cases rule: append_event_success)
  case (replay i e k spec)
  with same_transition [OF assms(2)] show ?thesis by simp
next
  case (appended k spec e pl)
  obtain s where s: "budget_fold_of h = Inr s" "fold_ok s" using assms(2) unfolding budget_inv_def by blast
  from appended(7) obtain data where data: "validate h = Inr data" "pl = budget_payload command kind data"
    by (auto simp: bindE_eq_Inr)
  have "k \<notin> set (map fst (bf_rows s))"
    using appended(2) assms(2) s(1) by (auto simp: budget_inv_def find_key_None)
  from event_transition [OF assms(2) s(1) assms(3) [OF s data(1) appended(1) this appended(3)]] show ?thesis
    unfolding appended(9) appended(8) data(2) budget_event_def .
qed

lemma other_append_transition:
  assumes "append_event sha st registry p expected key operation payload validate now h = Inr (r, h')"
    and "budget_inv h" and "operation \<noteq> BUDGET_OPERATION"
  shows "budget_transition h h'"
  using assms(1)
proof (cases rule: append_event_success)
  case (appended k spec e pl)
  obtain s where s: "budget_fold_of h = Inr s" "fold_ok s" using assms(2) unfolding budget_inv_def by blast
  from event_transition [OF assms(2) s(1) other_step_ok [OF s(2) assms(3)]] show ?thesis
    unfolding appended(9) appended(8) .
qed (use same_transition [OF assms(2)] in simp)

lemma budget_integer_eq: "budget_integer m z v = Inr n \<longleftrightarrow> v = PInt n \<and> (if z then 0 else 1) \<le> n \<and> n \<le> m"
  by (cases v) (auto simp: budget_integer_def)

lemma projection_of: "projection h = Inr b \<Longrightarrow> budget_fold_of h = Inr s \<Longrightarrow>
    bf_allowance b = bf_allowance s \<and> bf_rows b = bf_rows s \<and> bf_reserved b = bf_reserved s \<and> bs_status b = budget_status s"
  using projection_parts [of h b s] by (simp add: budget_fold_of_def)

lemma budget_command_Inr:
  "budget_command command = Inr (key, version, request) \<Longrightarrow>
   py_field command ''idempotency_key'' = PStr key \<and> py_field command ''expected_project_version'' = PInt version
   \<and> request = py_field command ''request''"
  by (auto simp: budget_command_def bindE_eq_Inr budget_integer_eq simp del: i_shape_eq)

lemma approve_transition:
  assumes "approve_budget sha st p command repository (take n h) observe now h = Inr (r, h')" and "budget_inv h"
  shows "budget_transition h h'"
proof -
  from assms(1) obtain key version request approval l m where
    c: "budget_command command = Inr (key, version, request)"
    and l: "py_field request ''limit_microusd'' = PInt l" "1 \<le> l" and m: "py_field request ''max_calls'' = PInt m" "1 \<le> m"
    and checked: "approve_checked sha st command key version request (take n h) = Inr approval"
    and rest: "(case approval of None \<Rightarrow> bindE (projection (take n h)) (\<lambda>state. Inr (state, h))
      | Some approval \<Rightarrow> bindE (observe (ap_spec approval)) (\<lambda>opening.
         bindE (append_budget sha st p command ''approved'' (approve_data sha request approval version (take n h) opening)
                  now h) (\<lambda>(_, events). bindE (projection events) (\<lambda>state. Inr (state, events))))) = Inr (r, h')"
    by (auto simp: approve_budget_def bindE_eq_Inr budget_integer_eq simp del: i_shape_eq)
  show ?thesis
  proof (cases approval)
    case None
    with rest same_transition [OF assms(2)] show ?thesis by (auto simp: bindE_eq_Inr)
  next
    case (Some ap)
    from rest Some obtain opn q where
      app: "append_budget sha st p command ''approved'' (approve_data sha request ap version (take n h) opn) now h = Inr (q, h')"
      by (auto simp: bindE_eq_Inr)
    from checked Some obtain b where len: "int (length (take n h)) = version"
      and proj: "projection (take n h) = Inr b" "bf_allowance b = None"
      by (auto simp: approve_checked_def bindE_eq_Inr read_history_eq replayed_def split: if_splits option.splits)
    show ?thesis
    proof (rule append_budget_transition [OF app assms(2)])
      fix s data k
      assume s: "budget_fold_of h = Inr s" "fold_ok s"
        and data: "approve_data sha request ap version (take n h) opn h = Inr data"
      have "int (length h) = version" using data by (auto simp: approve_data_def bindE_eq_Inr)
      with len have "take n h = h" by simp
      with proj projection_of [OF _ s(1)] have none: "bf_allowance s = None" by auto
      have f: "py_field data ''limit_microusd'' = PInt l" "py_field data ''max_calls'' = PInt m" "i_at data ''opening'' = Inr opn"
        using data l(1) m(1) by (auto simp: approve_data_def bindE_eq_Inr py_field_def py_get_def i_at_def)
      show "step_ok s (budget_event st k (int (length h)) command ''approved'' data p now (last_hash sha h))"
        by (rule approved_step_ok [OF s(2) none f(1) l(2) f(2) m(2) f(3)])
    qed
  qed
qed


lemma reserve_transition:
  assumes "reserve_budget sha st p command source source' now h = Inr (r, h')" and "budget_inv h"
  shows "budget_transition h h'"
proof -
  from assms(1) obtain key version request n programme q where
    c: "budget_command command = Inr (key, version, request)"
    and n: "py_field request ''microusd'' = PInt n" "1 \<le> n"
    and app: "append_budget sha st p command ''reserved'' (reserve_data sha key request programme source source') now h = Inr (q, h')"
    by (auto simp: reserve_budget_def bindE_eq_Inr budget_integer_eq simp del: i_shape_eq i_text_eq)
  show ?thesis
  proof (rule append_budget_transition [OF app assms(2)])
    fix s data k
    assume s: "budget_fold_of h = Inr s" "fold_ok s" and data: "reserve_data sha key request programme source source' h = Inr data"
      and k: "py_field command ''idempotency_key'' = PStr k" "k \<notin> set (map fst (bf_rows s))"
    have key: "key = k" using budget_command_Inr [OF c] k(1) by simp
    from data [unfolded reserve_data_def bindE_eq_Inr missing_eq_Inr ensure_eq_Inr sum.inject]
    obtain b a and ap :: approval where b: "projection h = Inr b" "bs_status b = ''available''" "bf_allowance b = Some a"
        "bf_reserved b + py_int (py_field request ''microusd'') \<le> py_int (py_field a ''limit_microusd'')"
      and fresh: "\<not> list_ex (\<lambda>(_, r). py_eq (py_field (rv_data r) ''execution_id'') (py_field request ''execution_id'')
                \<and> py_eq (py_field (rv_data r) ''attempt'') (py_field request ''attempt'')) (bf_rows b)"
      and d: "PDict [(''programme_sha256'', py_field request ''programme_sha256''), (''role'', py_field request ''role''),
         (''microusd'', py_field request ''microusd''), (''attempt'', py_field request ''attempt''),
         (''execution_id'', py_field request ''execution_id''), (''id'', PStr key),
         (''source_sha'', py_field source ''main_sha''), (''spec_sha256'', py_field (ap_payload ap) ''spec_sha256''),
         (''reserved_project_version'', PInt (int (length h) + 1))] = data"
      by (elim exE conjE) (rule that; assumption)
    have "bf_reserved b + n \<le> py_int (py_field a ''limit_microusd'')" using b(4) by (simp add: n(1) py_int_def)
    note b = b(1-3) this
    note parts = projection_of [OF b(1) s(1)]
    have f: "i_at data ''id'' = Inr (PStr k)" "i_at data ''microusd'' = Inr (PInt n)"
      "py_field data ''execution_id'' = py_field request ''execution_id''" "py_field data ''attempt'' = py_field request ''attempt''"
        unfolding d [symmetric] by (simp_all add: i_at_def py_field_dict key n(1))
    have "attempt_of (k, \<lparr>rv_data = data, rv_microusd = n, rv_started = None, rv_observation = None\<rparr>) \<notin> attempt_of ` set (bf_rows s)"
      using fresh parts by (auto simp: attempt_of_def f(3,4) list_ex_iff py_eq_def)
    then show "step_ok s (budget_event st k (int (length h)) command ''reserved'' data p now (last_hash sha h))"
      using s b parts n(2) f(1,2) k(2) by (intro reserved_step_ok [where a = a and n = n]) auto
  qed
qed

lemma start_transition:
  assumes "start_budget sha st p command now h = Inr (r, h')" and "budget_inv h"
  shows "budget_transition h h'"
proof -
  from assms(1) obtain key version request q where shape: "i_shape [''id'', ''execution_id''] request = Inr ()"
    and app: "append_budget sha st p command ''started'' (start_data sha version request) now h = Inr (q, h')"
    by (auto simp: start_budget_def bindE_eq_Inr simp del: i_shape_eq)
  show ?thesis
  proof (rule append_budget_transition [OF app assms(2)])
    fix s data k
    assume s: "budget_fold_of h = Inr s" "fold_ok s" and data: "start_data sha version request h = Inr data"
    from data obtain b i r where b: "projection h = Inr b" "py_field request ''id'' = PStr i" "map_of (bf_rows b) i = Some r"
        "rv_started r = None" "rv_observation r = None" "data = request"
      by (auto simp: start_data_def bindE_eq_Inr text_holds present_holds)
    have "i_at data ''id'' = Inr (PStr i)" using i_at_shape [OF shape] b by simp
    with s b projection_of [OF b(1) s(1)] show "step_ok s (budget_event st k (int (length h)) command ''started'' data p now (last_hash sha h))"
      by (intro started_step_ok) auto
  qed
qed

lemma observe_transition:
  assumes "observe_budget sha st p command now h = Inr (r, h')" and "budget_inv h"
  shows "budget_transition h h'"
proof -
  from assms(1) obtain key version request q i where shape: "i_shape [''id'', ''reported_microusd'', ''outcome''] request = Inr ()"
    and i: "py_field request ''id'' = PStr i"
    and app: "append_budget sha st p command ''observed'' (observe_data request i) now h = Inr (q, h')"
    by (auto simp: observe_budget_def bindE_eq_Inr simp del: i_shape_eq)
  show ?thesis
  proof (rule append_budget_transition [OF app assms(2)])
    fix s data k
    assume s: "budget_fold_of h = Inr s" "fold_ok s" and data: "observe_data request i h = Inr data"
    from data obtain b r where b: "projection h = Inr b" "map_of (bf_rows b) i = Some r" "rv_observation r = None" "data = request"
      by (auto simp: observe_data_def bindE_eq_Inr present_holds)
    have "i_at data ''id'' = Inr (PStr i)" using i_at_shape [OF shape] b i by simp
    with s b projection_of [OF b(1) s(1)] show "step_ok s (budget_event st k (int (length h)) command ''observed'' data p now (last_hash sha h))"
      by (intro observed_step_ok) auto
  qed
qed

lemma journal_transition:
  assumes "journal_exec sha st j h = Inr (r, h')" and "budget_inv h"
    and "case j of Service _ _ _ _ operation _ _ _ \<Rightarrow> operation \<noteq> BUDGET_OPERATION | _ \<Rightarrow> True"
  shows "budget_transition h h'"
proof (cases j)
  case (Intake p command now)
  with assms(1) obtain state where "execute_intent sha st p command now h = Inr (state, h')"
    by (auto simp: journal_exec_def reply_eq_Inr)
  then show ?thesis
  proof (rule execute_intent_success)
    fix name q spec
    assume spec: "find_spec name intake_operations = Some spec"
      and app: "append_event sha st intake_operations p (py_field command ''expected_project_version'')
        (py_field command ''idempotency_key'') name (py_field command ''payload'')
        (validate_intake sha (is_repository st) name (py_field command ''payload'')) now h = Inr (q, h')"
    have "name \<noteq> BUDGET_OPERATION"
      using find_intake(1) [OF spec] by (auto simp: INTAKE_def intake_operations_def BUDGET_OPERATION_def)
    with app assms(2) show ?thesis by (rule other_append_transition)
  qed
next
  case (Service registry p expected key operation payload validate now)
  with assms(1,3) obtain q where op: "operation \<noteq> BUDGET_OPERATION"
    and app: "append_event sha st registry p expected key operation payload validate now h = Inr (q, h')"
    by (auto simp: journal_exec_def reply_eq_Inr bindE_eq_Inr)
  from app assms(2) op show ?thesis by (rule other_append_transition)
qed

lemma budget_exec_transition:
  "budget_inv h \<Longrightarrow> budget_exec sha st c h = Inr (r, h') \<Longrightarrow> budget_transition h h'"
  by (cases c) (auto simp: budget_exec_def reply_eq_Inr bindE_eq_Inr
      intro: approve_transition reserve_transition start_transition observe_transition journal_transition)

lemma budget_le_trans:
  assumes "budget_le h t" and "budget_le t u" and "budget_inv t"
  shows "budget_le h u"
  using assms unfolding budget_le_def budget_inv_def by (metis fold_le_trans prefix_order.trans)


interpretation budget_tx: transactional "budget_exec sha st" budget_inv
  by unfold_locales (auto dest: budget_exec_transition simp: budget_transition_def)

lemma budget_reachable_le:
  "tx_reachable (budget_exec sha st) h t \<Longrightarrow> budget_inv h \<Longrightarrow> budget_le h t"
proof (induction rule: tx_reachable.induct)
  case tx_start
  then show ?case by (auto simp: budget_le_def fold_le_refl)
next
  case (tx_step t c r u)
  then have inv: "budget_inv t" using budget_tx.reachable_inv by blast
  from budget_exec_transition [OF inv tx_step.hyps(2)] tx_step inv show ?case
    by (auto simp: budget_transition_def intro: budget_le_trans)
qed

lemma empty_budget_inv: "budget_inv []"
  by (simp add: budget_inv_def budget_fold_of_def budget_start_def fold_ok_def within_allowance_def unobserved_def)

lemma reachable_budget_inv: "tx_reachable (budget_exec sha st) [] h \<Longrightarrow> budget_inv h"
  by (erule budget_tx.reachable_inv) (rule empty_budget_inv)

lemma projection_defined:
  assumes "budget_fold_of h = Inr s"
  shows "\<exists>b. projection h = Inr b \<and> bf_allowance b = bf_allowance s \<and> bf_rows b = bf_rows s
    \<and> bf_reserved b = bf_reserved s \<and> bf_calls b = bf_calls s \<and> bs_status b = budget_status s"
proof -
  from assms have "\<exists>b. projection h = Inr b" by (simp add: projection_def budget_fold_of_def Let_def)
  then obtain b where b: "projection h = Inr b" by blast
  from projection_parts [OF b assms [unfolded budget_fold_of_def]] b show ?thesis by blast
qed

section \<open>An example\<close>

lemma budget_appends:
  assumes "read_history flat_sha demo_store h = Inr h" and "py_field command ''idempotency_key'' = PStr key"
    and "py_field command ''expected_project_version'' = PInt (int (length h))" and "i_text 100 (PStr key) = Inr key"
    and "json_cost command < 100000" and "length kind < 1000" and "find_key key h 0 = None" and "validate h = Inr data"
    and "length h < 1000"
    and "h' = h @ [budget_event demo_store key (int (length h)) command kind data ann ''t'' (last_hash flat_sha h)]"
    and "json_cost (PList h') < 1000000"
  shows "\<exists>r. append_budget flat_sha demo_store ann command kind validate ''t'' h = Inr (r, h') \<and> \<not> ea_replayed r"
proof -
  have spec: "find_spec BUDGET_OPERATION budget_operations = Some (hd budget_operations)"
    by (simp add: find_spec_def budget_operations_def)
  have auth: "authenticate demo_store budget_operations ann = Inr ()"
    using ann_authorized by (simp add: authenticate_def ann_def)
  have role: "pr_role ann \<in> set (os_roles (hd budget_operations))" by (simp add: ann_def budget_operations_def)
  have cost: "json_cost (budget_payload command kind PNone) < 200000" using assms(5,6) by (simp add: budget_payload_def)
  have val: "(\<lambda>events. bindE (validate events) (\<lambda>data. Inr (budget_payload command kind data))) h = Inr (budget_payload command kind data)"
    by (simp add: assms(8))
  from append_runs [where validate = "\<lambda>events. bindE (validate events) (\<lambda>data. Inr (budget_payload command kind data))",
      OF assms(1) spec auth role assms(4) cost assms(7) val assms(9) assms(10) [unfolded budget_event_def] assms(11)]
  show ?thesis by (auto simp: append_budget_def assms(2,3))
qed

definition budget_call :: "string \<Rightarrow> int \<Rightarrow> pyval \<Rightarrow> pyval" where
  "budget_call key version request = PDict [(''idempotency_key'', PStr key), (''expected_project_version'', PInt version),
     (''request'', request)]"

definition allow1 :: pyval where
  "allow1 = PDict [(''spec_sha256'', PStr flat_hash), (''limit_microusd'', PInt 1000), (''max_calls'', PInt 5)]"

definition opening1 :: pyval where
  "opening1 = PDict [(''status'', PStr ''verified-empty'')]"

definition allowance1 :: pyval where
  "allowance1 = PDict [(''spec_sha256'', PStr flat_hash), (''limit_microusd'', PInt 1000), (''max_calls'', PInt 5),
     (''scope_id'', PStr ''s1''), (''opening'', opening1)]"

definition source1 :: pyval where
  "source1 = PDict [(''active_input'', demo_raw), (''repository'', PStr ''o/r''), (''protected'', PBool True),
     (''stop'', clear_stop), (''main_sha'', PStr ''m'')]"

definition reserve1 :: pyval where
  "reserve1 = PDict [(''programme_sha256'', PStr flat_hash), (''role'', PStr ''w''), (''microusd'', PInt 400),
     (''attempt'', PInt 1), (''execution_id'', PStr ''x'')]"

definition reserved1 :: pyval where
  "reserved1 = PDict [(''programme_sha256'', PStr flat_hash), (''role'', PStr ''w''), (''microusd'', PInt 400),
     (''attempt'', PInt 1), (''execution_id'', PStr ''x''), (''id'', PStr ''k5''), (''source_sha'', PStr ''m''),
     (''spec_sha256'', PStr flat_hash), (''reserved_project_version'', PInt 5)]"

definition journal4 :: "pyval list" where
  "journal4 = journal3 @ [budget_event demo_store ''k4'' 3 (budget_call ''k4'' 3 allow1) ''approved'' allowance1 ann ''t'' (PStr flat_hash)]"

definition journal5 :: "pyval list" where
  "journal5 = journal4 @ [budget_event demo_store ''k5'' 4 (budget_call ''k5'' 4 reserve1) ''reserved'' reserved1 ann ''t'' (PStr flat_hash)]"

definition fold4 :: budget_fold where
  "fold4 = budget_start\<lparr>bf_allowance := Some allowance1\<rparr>"

definition row5 :: reservation where
  "row5 = \<lparr>rv_data = reserved1, rv_microusd = 400, rv_started = None, rv_observation = None\<rparr>"

definition fold5 :: budget_fold where
  "fold5 = \<lparr>bf_allowance = Some allowance1, bf_reserved = 400, bf_calls = 1, bf_rows = [(''k5'', row5)]\<rparr>"

lemmas demo_budget = allow1_def opening1_def allowance1_def reserve1_def reserved1_def budget_call_def

lemma demo_folds:
  "budget_fold_of journal3 = Inr budget_start" "budget_fold_of journal4 = Inr fold4" "budget_fold_of journal5 = Inr fold5"
proof -
  show three: "budget_fold_of journal3 = Inr budget_start"
    by (simp add: budget_fold_of_def journal3_def journal2_def journal1_def demo_event_def foldE_snoc budget_step_def
        BUDGET_OPERATION_def)
  show four: "budget_fold_of journal4 = Inr fold4"
    using three by (simp add: budget_fold_of_def journal4_def foldE_snoc budget_step_event budget_start_def
        i_at_def allowance1_def fold4_def)
  show "budget_fold_of journal5 = Inr fold5"
    using four by (simp add: budget_fold_of_def journal5_def foldE_snoc budget_step_event fold4_def budget_start_def
        i_at_def reserved1_def fold5_def need_text_def need_int_def row5_def)
qed

lemma demo_scope:
  "approved_scope flat_sha journal4 = approved_scope flat_sha journal3"
  by (simp add: approved_scope_def journal4_def snapshot_snoc budget_event_def snapshot_step_event BUDGET_OPERATION_def
      bindE_def split: sum.splits)

lemma demo_budget_checks:
  "authorize demo_store ann = Inr ()" "pr_role ann = ''owner''" "i_text 100 (PStr ''k4'') = Inr ''k4''"
  "i_text 100 (PStr ''k5'') = Inr ''k5''" "i_text 100 (PStr ''x'') = Inr ''x''" "i_text 100 (PStr ''w'') = Inr ''w''"
  using ann_authorized by (simp add: ann_def, simp add: ann_def) code_simp+

lemma demo_budget_command:
  "budget_command (budget_call ''k4'' 3 allow1) = Inr (''k4'', 3, allow1)"
  "budget_command (budget_call ''k5'' 4 reserve1) = Inr (''k5'', 4, reserve1)"
proof -
  have "length (canonical_bytes (budget_call ''k4'' 3 allow1)) \<le> 250000"
    "length (canonical_bytes (budget_call ''k5'' 4 reserve1)) \<le> 250000"
    by (rule canonical_fits, simp add: demo_budget flat_hash_length)+
  then show "budget_command (budget_call ''k4'' 3 allow1) = Inr (''k4'', 3, allow1)"
    "budget_command (budget_call ''k5'' 4 reserve1) = Inr (''k5'', 4, reserve1)"
    using demo_budget_checks
    by (simp_all add: budget_command_def i_shape_def budget_call_def py_field_dict budget_integer_def same_set_def
        del: i_text_eq)
qed

lemma demo_keys: "find_key ''k4'' journal3 0 = None" "find_key ''k5'' journal4 0 = None"
  by (simp_all add: journal4_def journal3_def journal2_def journal1_def demo_event_def budget_event_def)

lemma demo_last: "length journal3 = 3" "length journal4 = 4" "last_hash flat_sha journal3 = PStr flat_hash"
  "last_hash flat_sha journal4 = PStr flat_hash"
  by (simp_all add: journal4_def journal3_def journal2_def journal1_def last_hash_def flat_sha_value)

lemma demo_budget_costs: "json_cost (PList journal4) < 1000000" "json_cost (PList journal5) < 1000000"
  using demo_costs(7)
  by (simp_all add: journal5_def journal4_def budget_event_def make_event_def actor_value_def budget_payload_def demo_budget
      flat_hash_length demo_store_def ann_def BUDGET_OPERATION_def json_cost_list_append)

lemma budget_call_fields:
  "py_field (budget_call key v request) ''idempotency_key'' = PStr key"
  "py_field (budget_call key v request) ''expected_project_version'' = PInt v"
  by (simp_all add: budget_call_def py_field_dict)

lemma budget_call_costs:
  "json_cost (budget_call ''k4'' 3 allow1) < 100000" "json_cost (budget_call ''k5'' 4 reserve1) < 100000"
  by (simp_all add: demo_budget flat_hash_length)

lemma journals_snoc:
  "journal4 = journal3 @ [budget_event demo_store ''k4'' (int (length journal3)) (budget_call ''k4'' 3 allow1) ''approved''
     allowance1 ann ''t'' (last_hash flat_sha journal3)]"
  "journal5 = journal4 @ [budget_event demo_store ''k5'' (int (length journal4)) (budget_call ''k5'' 4 reserve1) ''reserved''
     reserved1 ann ''t'' (last_hash flat_sha journal4)]"
  by (simp_all add: demo_last) (simp_all add: journal5_def journal4_def)

lemma journal3_read: "read_history flat_sha demo_store journal3 = Inr journal3"
  using journal_step3 by (rule journal_step_reads)

lemma approve_appends:
  assumes "ap_spec a = demo_spec"
  shows "\<exists>r. append_budget flat_sha demo_store ann (budget_call ''k4'' 3 allow1) ''approved''
      (approve_data flat_sha allow1 a 3 journal3 opening1) ''t'' journal3 = Inr (r, journal4) \<and> \<not> ea_replayed r"
proof -
  have data: "approve_data flat_sha allow1 a 3 journal3 opening1 journal3 = Inr allowance1"
    by (simp add: approve_data_def demo_last allowance1_def assms) (simp add: allow1_def demo_spec_def py_field_dict)
  have v: "py_field (budget_call ''k4'' 3 allow1) ''expected_project_version'' = PInt (int (length journal3))"
    by (simp add: budget_call_fields demo_last)
  show ?thesis
    by (rule budget_appends [where validate = "approve_data flat_sha allow1 a 3 journal3 opening1",
          OF journal3_read budget_call_fields(1) v demo_budget_checks(3) budget_call_costs(1) _ demo_keys(1) data _
          journals_snoc(1) demo_budget_costs(1)])
       (simp_all add: demo_last)
qed

lemma journal4_read: "read_history flat_sha demo_store journal4 = Inr journal4"
proof -
  obtain a :: approval where "ap_spec a = demo_spec" using demo_approval by blast
  from approve_appends [OF this] show ?thesis by (auto simp: append_budget_def dest: append_event_reads)
qed

lemma approve_step:
  "budget_exec flat_sha demo_store (Approve ann (budget_call ''k4'' 3 allow1) ''o/r'' 3 (\<lambda>_. Inr opening1) ''t'') journal3
   = Inr ((), journal4)"
proof -
  obtain a where a: "approved_scope flat_sha journal3 = Inr a" "ap_spec a = demo_spec" "ap_payload a = approval1"
    using demo_approval by blast
  obtain b where b: "projection journal3 = Inr b" "bf_allowance b = None"
    using projection_defined [OF demo_folds(1)] by (auto simp: budget_start_def)
  have checked: "approve_checked flat_sha demo_store (budget_call ''k4'' 3 allow1) ''k4'' 3 allow1 journal3 = Inr (Some a)"
    using a b journal3_read by (simp add: approve_checked_def replayed_def demo_keys demo_last approval1_def allow1_def py_field_dict)
  from approve_appends [OF a(2)] obtain r where app: "append_budget flat_sha demo_store ann (budget_call ''k4'' 3 allow1)
      ''approved'' (approve_data flat_sha allow1 a 3 journal3 opening1) ''t'' journal3 = Inr (r, journal4)" by blast
  obtain c where "projection journal4 = Inr c" using projection_defined [OF demo_folds(2)] by blast
  then show ?thesis
    using app checked demo_budget_command(1) demo_budget_checks
    by (simp add: budget_exec_def reply_def approve_budget_def budget_owner_def demo_last)
       (simp add: demo_budget i_shape_def same_set_def py_field_dict budget_integer_def MAX_MICROUSD_def MAX_CALLS_def demo_store_def)
qed

lemma journal4_reachable: "tx_reachable (budget_exec flat_sha demo_store) [] journal4"
proof -
  have one: "tx_reachable (budget_exec flat_sha demo_store) [] journal1"
    by (rule tx_step [where c = "Journal (Intake ann (intake ''k1'' 0 ''record-intent'' wording1) ''t'')"], rule tx_start)
       (simp add: budget_exec_def journal_step1)
  have two: "tx_reachable (budget_exec flat_sha demo_store) [] journal2"
    by (rule tx_step [where c = "Journal (Intake ann (intake ''k2'' 1 ''propose-spec'' proposal1) ''t'')"], rule one)
       (simp add: budget_exec_def journal_step2)
  have three: "tx_reachable (budget_exec flat_sha demo_store) [] journal3"
    by (rule tx_step [where c = "Journal (Intake ann (intake ''k3'' 2 ''approve-spec'' approval1) ''t'')"], rule two)
       (simp add: budget_exec_def journal_step3)
  show ?thesis by (rule tx_step, rule three, rule approve_step)
qed

lemma demo_available: "budget_status fold4 = ''available''"
  by (simp add: budget_status_def fold4_def budget_start_def allowance1_def opening1_def py_field_dict py_int_def)

lemma reserve_with:
  assumes "append_budget flat_sha demo_store ann (budget_call ''k5'' 4 reserve1) ''reserved''
      (reserve_data flat_sha ''k5'' reserve1 demo_programme source1 source1) now h = Inr (r, h')"
    and "projection h' = Inr c"
  shows "reserve_budget flat_sha demo_store ann (budget_call ''k5'' 4 reserve1) source1 source1 now h
     = Inr ((c, \<not> ea_replayed r), h')"
proof -
  have prog: "budget_programme flat_sha (is_repository demo_store) source1 = Inr demo_programme"
    by (simp add: budget_programme_def source1_def py_field_dict demo_store_def demo_compiles)
  have hex: "hex_text 64 flat_hash"
    by (simp add: flat_hash_def hex_text_replicate is_hex_char_def is_digit_char_def code_of_def)
  have fields: "py_field reserve1 ''microusd'' = PInt 400" "py_field reserve1 ''attempt'' = PInt 1"
    "py_field reserve1 ''role'' = PStr ''w''" "py_field reserve1 ''execution_id'' = PStr ''x''"
    "py_field reserve1 ''programme_sha256'' = PStr flat_hash" "py_field source1 ''repository'' = PStr ''o/r''"
    "py_field source1 ''protected'' = PBool True" "py_field source1 ''stop'' = clear_stop"
    "i_shape [''programme_sha256'', ''role'', ''microusd'', ''attempt'', ''execution_id''] reserve1 = Inr ()"
    by (auto simp: reserve1_def source1_def py_field_dict)
  have "is_repository demo_store = ''o/r''" "pg_sha256 demo_programme = flat_hash"
    by (simp_all add: demo_store_def demo_programme_def)
  then show ?thesis
    using assms demo_budget_command(2) demo_budget_checks prog hex
    by (simp add: reserve_budget_def budget_owner_def fields budget_integer_def MAX_MICROUSD_def MAX_CALLS_def
        del: i_text_eq i_shape_eq)
qed

lemma demo_reserve_step:
  "\<exists>b. reserve_budget flat_sha demo_store ann (budget_call ''k5'' 4 reserve1) source1 source1 ''t'' journal4
     = Inr ((b, True), journal5)"
proof -
  obtain a where a: "approved_scope flat_sha journal4 = Inr a" "ap_spec a = demo_spec" "ap_payload a = approval1"
    using demo_approval unfolding demo_scope by blast
  obtain b where b: "projection journal4 = Inr b" "bf_allowance b = Some allowance1" "bf_rows b = []"
      "bf_reserved b = 0" "bs_status b = ''available''"
    using projection_defined [OF demo_folds(2)] demo_available by (auto simp: fold4_def budget_start_def)
  have data: "reserve_data flat_sha ''k5'' reserve1 demo_programme source1 source1 journal4 = Inr reserved1"
    using a b by (simp add: reserve_data_def demo_last demo_programme_def)
      (simp add: reserve1_def reserved1_def allowance1_def source1_def demo_spec_def approval1_def py_field_dict py_int_def)
  have v: "py_field (budget_call ''k5'' 4 reserve1) ''expected_project_version'' = PInt (int (length journal4))"
    by (simp add: budget_call_fields demo_last)
  have "\<exists>r. append_budget flat_sha demo_store ann (budget_call ''k5'' 4 reserve1) ''reserved''
      (reserve_data flat_sha ''k5'' reserve1 demo_programme source1 source1) ''t'' journal4 = Inr (r, journal5) \<and> \<not> ea_replayed r"
    by (rule budget_appends [where validate = "reserve_data flat_sha ''k5'' reserve1 demo_programme source1 source1",
          OF journal4_read budget_call_fields(1) v demo_budget_checks(4) budget_call_costs(2) _ demo_keys(2) data _
          journals_snoc(2) demo_budget_costs(2)])
       (simp_all add: demo_last)
  then obtain r where app: "append_budget flat_sha demo_store ann (budget_call ''k5'' 4 reserve1) ''reserved''
      (reserve_data flat_sha ''k5'' reserve1 demo_programme source1 source1) ''t'' journal4 = Inr (r, journal5)" "\<not> ea_replayed r"
    by blast
  obtain c where c: "projection journal5 = Inr c" using projection_defined [OF demo_folds(3)] by blast
  from reserve_with [OF app(1) c] app(2) show ?thesis by simp
qed

lemma replay_append:
  "\<exists>r. append_budget flat_sha demo_store ann (budget_call ''k5'' 4 reserve1) ''reserved''
      (reserve_data flat_sha ''k5'' reserve1 demo_programme source1 source1) ''later'' journal5 = Inr (r, journal5)"
proof -
  have spec: "find_spec BUDGET_OPERATION budget_operations = Some (hd budget_operations)"
    "pr_role ann \<in> set (os_roles (hd budget_operations))" "os_replay (hd budget_operations) = budget_replay"
    by (simp_all add: find_spec_def budget_operations_def ann_def)
  have auth: "authenticate demo_store budget_operations ann = Inr ()"
    using ann_authorized by (simp add: authenticate_def ann_def)
  have cost: "length (canonical_bytes (budget_payload (budget_call ''k5'' 4 reserve1) ''reserved'' PNone)) \<le> 250000"
    by (rule canonical_fits) (use budget_call_costs(2) in \<open>simp add: budget_payload_def\<close>)
  have read: "read_history flat_sha demo_store journal5 = Inr journal5"
    using demo_reserve_step by (auto simp: reserve_budget_def bindE_eq_Inr append_budget_def
        simp del: i_shape_eq i_text_eq dest: append_event_reads)
  have key: "find_key ''k5'' journal5 0 = Some (4, last journal5)"
    unfolding journal5_def find_key_append demo_keys by (simp add: demo_last budget_event_def)
  have e: "ev_operation (last journal5) = PStr BUDGET_OPERATION" "ev_actor (last journal5) = actor_value ann"
    "ev_payload (last journal5) = budget_payload (budget_call ''k5'' 4 reserve1) ''reserved'' reserved1"
    by (simp_all add: journal5_def budget_event_def)
  have nat: "i_nat (PInt 4) = Inr 4" by simp
  show ?thesis
    using spec cost by (simp add: append_budget_def append_event_def budget_call_fields auth read key e nat
        demo_budget_checks(4) budget_replay_def budget_payload_def py_field_dict del: i_text_eq i_nat_eq)
qed

lemma journal5_reachable:
  "tx_reachable (budget_exec flat_sha demo_store) journal4 journal5" "tx_reachable (budget_exec flat_sha demo_store) [] journal5"
proof -
  from demo_reserve_step have step: "budget_exec flat_sha demo_store (Reserve ann (budget_call ''k5'' 4 reserve1) source1 source1 ''t'') journal4
      = Inr ((), journal5)" by (auto simp: budget_exec_def reply_def)
  show "tx_reachable (budget_exec flat_sha demo_store) journal4 journal5" by (rule tx_step, rule tx_start, rule step)
  show "tx_reachable (budget_exec flat_sha demo_store) [] journal5" by (rule tx_step, rule journal4_reachable, rule step)
qed

section \<open>Guarantees\<close>

text \<open>C25. Spending never exceeds the owner's allowance: in every journal the services can write, the
  projection is defined, the reserved total is the sum of the reservations and lies within the
  limit the owner approved, there are at most as many reservations as approved calls, and no
  attempt of an execution is reserved twice.\<close>

theorem budget_within_allowance:
  assumes "tx_reachable (budget_exec sha st) [] h"
  shows "\<exists>b. projection h = Inr b \<and> bf_reserved b = sum_list (map (\<lambda>(_, r). rv_microusd r) (bf_rows b))
    \<and> (\<forall>a. bf_allowance b = Some a \<longrightarrow> bf_reserved b \<le> py_int (py_field a ''limit_microusd'')
           \<and> int (length (bf_rows b)) \<le> py_int (py_field a ''max_calls''))
    \<and> (bf_allowance b = None \<longrightarrow> bf_rows b = [])
    \<and> distinct (map fst (bf_rows b)) \<and> distinct (map attempt_of (bf_rows b))"
proof -
  obtain s where s: "budget_fold_of h = Inr s" "fold_ok s"
    using reachable_budget_inv [OF assms] unfolding budget_inv_def by blast
  obtain b where "projection h = Inr b" "bf_allowance b = bf_allowance s" "bf_rows b = bf_rows s"
      "bf_reserved b = bf_reserved s" using projection_defined [OF s(1)] by blast
  with s(2) show ?thesis
    by (auto simp: fold_ok_def within_allowance_def case_prod_beta' split: option.splits)
qed

lemma budget_within_allowance_witness:
  "\<exists>b. projection journal5 = Inr b \<and> bf_reserved b = 400 \<and> bf_reserved b = sum_list (map (\<lambda>(_, r). rv_microusd r) (bf_rows b))
    \<and> bf_rows b \<noteq> []"
proof -
  obtain b where "projection journal5 = Inr b" "bf_rows b = [(''k5'', row5)]" "bf_reserved b = 400"
    using projection_defined [OF demo_folds(3)] by (auto simp: fold5_def)
  with budget_within_allowance [OF journal5_reachable(2)] show ?thesis by simp
qed

text \<open>C26. Nothing is refunded or reset: in every later journal the allowance is the same, the reserved
  total and the number of calls have not gone down, and every reservation is still there with its
  amount, its start and, once observed, unchanged.\<close>

theorem budget_no_refund:
  assumes "tx_reachable (budget_exec sha st) [] h" and "tx_reachable (budget_exec sha st) h t"
  shows "\<exists>b c. projection h = Inr b \<and> projection t = Inr c \<and> bf_reserved b \<le> bf_reserved c \<and> bf_calls b \<le> bf_calls c
    \<and> (bf_allowance b \<noteq> None \<longrightarrow> bf_allowance c = bf_allowance b)
    \<and> (\<forall>(i, r) \<in> set (bf_rows b). \<exists>q. map_of (bf_rows c) i = Some q \<and> rv_data q = rv_data r
         \<and> rv_microusd q = rv_microusd r \<and> (rv_started r \<noteq> None \<longrightarrow> rv_started q = rv_started r)
         \<and> (rv_observation r \<noteq> None \<longrightarrow> q = r))"
proof -
  have inv: "budget_inv h" using assms(1) by (rule reachable_budget_inv)
  then have "budget_inv t" using assms(2) budget_tx.reachable_inv by blast
  with inv obtain s u where s: "budget_fold_of h = Inr s" "fold_ok s" and u: "budget_fold_of t = Inr u" "fold_ok u"
    unfolding budget_inv_def by blast
  obtain b where b: "projection h = Inr b" "bf_allowance b = bf_allowance s" "bf_rows b = bf_rows s"
      "bf_reserved b = bf_reserved s" "bf_calls b = bf_calls s" using projection_defined [OF s(1)] by blast
  obtain c where c: "projection t = Inr c" "bf_allowance c = bf_allowance u" "bf_rows c = bf_rows u"
      "bf_reserved c = bf_reserved u" "bf_calls c = bf_calls u" using projection_defined [OF u(1)] by blast
  have le: "fold_le s u" using budget_reachable_le [OF assms(2) inv] s(1) u(1) unfolding budget_le_def by blast
  have "\<exists>q. map_of (bf_rows u) i = Some q \<and> rv_data q = rv_data r \<and> rv_microusd q = rv_microusd r
      \<and> (rv_started r \<noteq> None \<longrightarrow> rv_started q = rv_started r) \<and> (rv_observation r \<noteq> None \<longrightarrow> q = r)"
    if ir: "(i, r) \<in> set (bf_rows s)" for i r
  proof -
    from le ir obtain y where y: "y \<in> set (bf_rows u)" "reservation_kept (i, r) y"
      by (auto simp: fold_le_def dest: kept_inD)
    moreover have "distinct (map fst (bf_rows u))" using u(2) by (simp add: fold_ok_def)
    ultimately have "map_of (bf_rows u) i = Some (snd y)" by (cases y) (auto simp: reservation_kept_def)
    with y(2) show ?thesis by (auto simp: reservation_kept_def)
  qed
  with le b c show ?thesis unfolding fold_le_def by (auto simp: case_prod_beta')
qed

lemma budget_no_refund_witness:
  "\<exists>b c. projection journal4 = Inr b \<and> projection journal5 = Inr c \<and> bf_reserved b \<le> bf_reserved c \<and> bf_reserved c = 400"
proof -
  obtain c where "projection journal5 = Inr c" "bf_reserved c = 400"
    using projection_defined [OF demo_folds(3)] by (auto simp: fold5_def)
  with budget_no_refund [OF journal4_reachable journal5_reachable(1)] show ?thesis by auto
qed

text \<open>An unresolved attempt freezes further spending: at most one reservation is without an
  observation, and while one is unobserved, of unknown cost or over its reservation, every new
  reservation is refused.\<close>

theorem unresolved_freezes:
  assumes "tx_reachable (budget_exec sha st) [] h" and "projection h = Inr b"
  shows "length (filter (\<lambda>(_, r). rv_observation r = None) (bf_rows b)) \<le> 1
    \<and> (reserve_budget sha st p command source source' now h = Inr (((c, True), h')) \<longrightarrow>
        (\<forall>(i, r) \<in> set (bf_rows b). \<not> row_uncertain r \<and> \<not> row_overrun r))"
proof -
  obtain s where s: "budget_fold_of h = Inr s" "fold_ok s"
    using reachable_budget_inv [OF assms(1)] unfolding budget_inv_def by blast
  note parts = projection_of [OF assms(2) s(1)]
  have "length (filter (\<lambda>(_, r). rv_observation r = None) (bf_rows b)) \<le> 1"
    using s(2) parts by (simp add: fold_ok_def unobserved_def)
  moreover have "\<forall>(i, r) \<in> set (bf_rows b). \<not> row_uncertain r \<and> \<not> row_overrun r"
    if "reserve_budget sha st p command source source' now h = Inr (((c, True), h'))"
  proof -
    from that obtain key request programme q where
      app: "append_budget sha st p command ''reserved'' (reserve_data sha key request programme source source') now h = Inr (q, h')"
      and new: "\<not> ea_replayed q"
      by (auto simp: reserve_budget_def bindE_eq_Inr simp del: i_shape_eq i_text_eq)
    from app [unfolded append_budget_def] new have "\<exists>data. reserve_data sha key request programme source source' h = Inr data"
      by (cases rule: append_event_success) (auto simp: bindE_eq_Inr)
    then have "bs_status b = ''available''" using assms(2) by (auto simp: reserve_data_def bindE_eq_Inr)
    then have "budget_status s = ''available''" using parts by simp
    then show ?thesis using parts
      by (auto simp: budget_status_def list_ex_iff split: option.splits if_splits)
  qed
  ultimately show ?thesis by blast
qed

lemma unresolved_freezes_witness:
  "\<nexists>c h'. reserve_budget flat_sha demo_store ann (budget_call ''k6'' 5 reserve1) source1 source1 ''t'' journal5 = Inr ((c, True), h')"
proof -
  obtain b where b: "projection journal5 = Inr b" "bf_rows b = [(''k5'', row5)]"
    using projection_defined [OF demo_folds(3)] by (auto simp: fold5_def)
  have "row_uncertain row5" by (simp add: row_uncertain_def row5_def)
  with unresolved_freezes [where sha = flat_sha and st = demo_store and p = ann and command = "budget_call ''k6'' 5 reserve1"
      and source = source1 and source' = source1 and now = "''t''", OF journal5_reachable(2) b(1)] b(2)
  show ?thesis by auto
qed

text \<open>A call is granted once: after a reservation returned \<open>execute\<close> for an idempotency key, no
  later reservation under that key grants another call.\<close>

theorem reservation_grants_once:
  assumes "tx_reachable (budget_exec sha st) [] h"
    and "reserve_budget sha st p command source source' now h = Inr ((b, True), h')"
    and "tx_reachable (budget_exec sha st) h' t"
    and "py_field command' ''idempotency_key'' = py_field command ''idempotency_key''"
    and "reserve_budget sha st p' command' src src' now' t = Inr ((c, execute), t')"
  shows "\<not> execute \<and> t' = t"
proof -
  from assms(2) obtain val q where app: "append_budget sha st p command ''reserved'' val now h = Inr (q, h')" "\<not> ea_replayed q"
    by (auto simp: reserve_budget_def bindE_eq_Inr simp del: i_shape_eq i_text_eq)
  from app(1) [unfolded append_budget_def] app(2) obtain k e where k: "py_field command ''idempotency_key'' = PStr k"
      and found: "find_key k h' 0 = Some (length h, e)"
    by (cases rule: append_event_success) (auto simp: find_key_append)
  have "budget_inv h'"
    using reserve_transition [OF assms(2)] reachable_budget_inv [OF assms(1)] by (simp add: budget_transition_def)
  then have "prefix h' t" using budget_reachable_le [OF assms(3)] by (simp add: budget_le_def)
  then have "find_key k t 0 = Some (length h, e)" using found by (auto simp: prefix_def find_key_append)
  moreover from assms(5) obtain val' q' where "append_budget sha st p' command' ''reserved'' val' now' t = Inr (q', t')"
      "execute \<longleftrightarrow> \<not> ea_replayed q'"
    by (auto simp: reserve_budget_def bindE_eq_Inr simp del: i_shape_eq i_text_eq)
  ultimately show ?thesis
    using assms(4) k by (auto simp: append_budget_def elim!: append_event_success)
qed

lemma reservation_grants_once_witness:
  "\<exists>c. reserve_budget flat_sha demo_store ann (budget_call ''k5'' 4 reserve1) source1 source1 ''later'' journal5
     = Inr ((c, False), journal5)"
proof -
  obtain b r where first: "reserve_budget flat_sha demo_store ann (budget_call ''k5'' 4 reserve1) source1 source1 ''t'' journal4
     = Inr ((b, True), journal5)"
    and app: "append_budget flat_sha demo_store ann (budget_call ''k5'' 4 reserve1) ''reserved''
      (reserve_data flat_sha ''k5'' reserve1 demo_programme source1 source1) ''later'' journal5 = Inr (r, journal5)"
    using demo_reserve_step replay_append by blast
  obtain c where c: "projection journal5 = Inr c" using projection_defined [OF demo_folds(3)] by blast
  from reserve_with [OF app c] have second: "reserve_budget flat_sha demo_store ann (budget_call ''k5'' 4 reserve1)
      source1 source1 ''later'' journal5 = Inr ((c, \<not> ea_replayed r), journal5)" .
  have run: "tx_reachable (budget_exec flat_sha demo_store) journal5 journal5" by (rule tx_start)
  from reservation_grants_once [OF journal4_reachable first run refl second] second show ?thesis by auto
qed

end
