(* ===== verification/Meter_Properties.thy ===== *)
theory Meter_Properties
  imports Validation_Meter Budget_Properties
begin

text \<open>
  What a metered scope guarantees: its calls stay within the bundle, each is started at most once,
  the closing report is the sum of the receipts or unknown, and an unknown report freezes the
  execution budget behind the local ledger.
\<close>

section \<open>The machine\<close>

datatype meter_cmd =
    Meter_reserve string pyval pyval string
  | Meter_start string
  | Meter_observe string pyval string pydict
  | Meter_close

text \<open>A fresh call id is one no call of the scope has; the code draws it at random.\<close>

definition meter_exec ::
  "'s ledger \<Rightarrow> meter_cmd \<Rightarrow> validation_scope \<times> 's \<Rightarrow> meter_error + unit \<times> (validation_scope \<times> 's)" where
  "meter_exec ledger c ss =
     (case c of
        Meter_reserve cl amount digest token \<Rightarrow>
          bindE (ensure (token \<notin> set (map fst (vs_calls (fst ss)))) M_unknown) (\<lambda>_.
          bindE (meter_reserve cl amount digest token (fst ss)) (\<lambda>(_, s). Inr ((), s, snd ss)))
      | Meter_start i \<Rightarrow> bindE (meter_start i (fst ss)) (\<lambda>(_, s). Inr ((), s, snd ss))
      | Meter_observe i reported outcome telemetry \<Rightarrow>
          bindE (meter_observe i reported outcome telemetry (fst ss)) (\<lambda>(_, s). Inr ((), s, snd ss))
      | Meter_close \<Rightarrow> bindE (close_scope ledger (fst ss) (snd ss)) (\<lambda>((_, s), st). Inr ((), s, st)))"

definition call_ok :: "validation_scope \<Rightarrow> string \<times> metered_call \<Rightarrow> bool" where
  "call_ok s kc \<longleftrightarrow> (case kc of (k, c) \<Rightarrow>
     mc_id c = k \<and> mc_class c = vs_class s \<and> 1 \<le> mc_microusd c \<and> mc_state c \<in> set CALL_STATES
     \<and> (mc_state c \<in> {''reserved'', ''started''} \<longrightarrow> mc_reported c = None)
     \<and> (mc_state c = ''not_started'' \<longrightarrow> mc_reported c = Some 0)
     \<and> (\<forall>n. mc_reported c = Some n \<longrightarrow> 0 \<le> n \<and> n \<le> MAX_MICROUSD))"

definition scope_ok :: "validation_scope \<Rightarrow> bool" where
  "scope_ok s \<longleftrightarrow> distinct (map fst (vs_calls s)) \<and> list_all (call_ok s) (vs_calls s)
     \<and> int (length (vs_calls s)) \<le> vs_max_calls s \<and> ceiling_sum s \<le> vs_limit s
     \<and> (vs_closed s \<longleftrightarrow> vs_summary s \<noteq> None)"

definition call_rank :: "metered_call \<Rightarrow> nat" where
  "call_rank c = (if mc_state c = ''reserved'' then 0 else if mc_state c = ''started'' then 1 else 2)"

definition metered_kept :: "string \<times> metered_call \<Rightarrow> string \<times> metered_call \<Rightarrow> bool" where
  "metered_kept x y \<longleftrightarrow> fst y = fst x \<and> mc_microusd (snd y) = mc_microusd (snd x) \<and> mc_request (snd y) = mc_request (snd x)
     \<and> (call_rank (snd x) < call_rank (snd y) \<or> snd y = snd x)"

definition scope_le :: "validation_scope \<Rightarrow> validation_scope \<Rightarrow> bool" where
  "scope_le s t \<longleftrightarrow> vs_limit t = vs_limit s \<and> vs_max_calls t = vs_max_calls s \<and> vs_class t = vs_class s
     \<and> vs_bundle t = vs_bundle s \<and> kept_in metered_kept (vs_calls s) (vs_calls t) \<and> (vs_closed s \<longrightarrow> t = s)"

lemma metered_kept_refl: "metered_kept x x"
  by (simp add: metered_kept_def)

lemma metered_kept_trans: "metered_kept x y \<Longrightarrow> metered_kept y z \<Longrightarrow> metered_kept x z"
  by (auto simp: metered_kept_def)

lemma scope_le_refl: "scope_le s s"
  by (simp add: scope_le_def kept_in_refl metered_kept_refl)

lemma scope_le_trans: "scope_le s t \<Longrightarrow> scope_le t u \<Longrightarrow> scope_le s u"
  unfolding scope_le_def using kept_in_trans [where R = metered_kept, OF metered_kept_trans] by fastforce

section \<open>Changing one call\<close>

lemma dict_set_new: "k \<notin> set (map fst d) \<Longrightarrow> dict_set k v d = d @ [(k, v)]"
  by (simp add: dict_set_def)

lemma dict_set_old:
  assumes "distinct (map fst d)" and "map_of d k = Some v"
  obtains xs ys where "d = xs @ (k, v) # ys" and "dict_set k w d = xs @ (k, w) # ys"
proof -
  from assms(2) have "(k, v) \<in> set d" by (rule map_of_SomeD)
  then obtain xs ys where d: "d = xs @ (k, v) # ys" by (auto dest: split_list)
  with assms(1) have "k \<notin> fst ` set xs" "k \<notin> fst ` set ys" by auto
  moreover have "map (\<lambda>(j, u). (j, if j = k then w else u)) zs = zs" if "k \<notin> fst ` set zs" for zs
    using that by (induction zs) auto
  ultimately have "dict_set k w d = xs @ (k, w) # ys" by (simp add: dict_set_def d)
  with d that show thesis by blast
qed

lemma change_call:
  assumes "scope_ok s" and "map_of (vs_calls s) i = Some c" and "\<not> vs_closed s"
    and "call_ok s (i, d)" and "mc_microusd d = mc_microusd c" and "mc_request d = mc_request c"
    and "call_rank c < call_rank d"
  shows "scope_ok (s\<lparr>vs_calls := dict_set i d (vs_calls s)\<rparr>) \<and> scope_le s (s\<lparr>vs_calls := dict_set i d (vs_calls s)\<rparr>)"
proof -
  have "distinct (map fst (vs_calls s))" using assms(1) by (simp add: scope_ok_def)
  then obtain xs ys where old: "vs_calls s = xs @ (i, c) # ys" and new: "dict_set i d (vs_calls s) = xs @ (i, d) # ys"
    using assms(2) by (rule dict_set_old)
  have ok: "call_ok (s\<lparr>vs_calls := zs\<rparr>) = call_ok s" for zs by (simp add: call_ok_def fun_eq_iff)
  have "scope_ok (s\<lparr>vs_calls := dict_set i d (vs_calls s)\<rparr>)"
    using assms(1,4,5) unfolding scope_ok_def new by (simp add: old ok ceiling_sum_def)
  moreover have "metered_kept (i, c) (i, d)" using assms(5,6,7) by (simp add: metered_kept_def)
  then have "kept_in metered_kept (xs @ (i, c) # ys) (xs @ (i, d) # ys)"
    by (auto simp: kept_in_def intro: metered_kept_refl)
  then have "kept_in metered_kept (vs_calls s) (dict_set i d (vs_calls s))"
    by (simp only: new) (simp only: old)
  ultimately show ?thesis using assms(3) by (simp add: scope_le_def)
qed

definition meter_step :: "validation_scope \<Rightarrow> validation_scope \<Rightarrow> bool" where
  "meter_step s t \<longleftrightarrow> scope_ok t \<and> scope_le s t"

lemma meter_amount_eq: "meter_amount name zero v = Inr n \<longleftrightarrow> v = PInt n \<and> (if zero then 0 else 1) \<le> n \<and> n \<le> MAX_MICROUSD"
  by (cases v) (auto simp: meter_amount_def)

lemma meter_reserve_step:
  assumes "scope_ok s" and "meter_reserve cl amount digest token s = Inr (c, t)" and "token \<notin> set (map fst (vs_calls s))"
  shows "meter_step s t"
proof -
  from assms(2) obtain n h where open_: "\<not> vs_closed s" "cl = vs_class s" and n: "1 \<le> n" and len: "int (length (vs_calls s)) + 1 \<le> vs_max_calls s"
    and sum: "ceiling_sum s + n \<le> vs_limit s"
    and t: "t = s\<lparr>vs_calls := vs_calls s @ [(token, \<lparr>mc_id = token, mc_class = cl, mc_microusd = n, mc_request = h, mc_state = ''reserved'',
                 mc_reported = None, mc_outcome = None, mc_telemetry = []\<rparr>)]\<rparr>"
    using dict_set_new [OF assms(3)] by (auto simp: meter_reserve_def bindE_eq_Inr meter_amount_eq Let_def)
  have ok: "call_ok (s\<lparr>vs_calls := zs\<rparr>) = call_ok s" for zs by (simp add: call_ok_def fun_eq_iff)
  show ?thesis
    using assms(1,3) open_ n len sum
    by (auto simp: meter_step_def scope_ok_def scope_le_def t ok ceiling_sum_def call_ok_def CALL_STATES_def
        intro: kept_in_append metered_kept_refl)
qed

lemma meter_start_step:
  assumes "scope_ok s" and "meter_start i s = Inr (c, t)"
  shows "meter_step s t"
proof -
  from assms(2) obtain d where d: "map_of (vs_calls s) i = Some d" "\<not> vs_closed s" "mc_state d = ''reserved''"
    and t: "t = s\<lparr>vs_calls := dict_set i (d\<lparr>mc_state := ''started''\<rparr>) (vs_calls s)\<rparr>"
    by (auto simp: meter_start_def missing_eq_Inr bindE_eq_Inr Let_def)
  have "call_ok s (i, d)" using assms(1) d(1) by (auto simp: scope_ok_def list_all_iff dest: map_of_SomeD)
  with d(3) have "call_ok s (i, d\<lparr>mc_state := ''started''\<rparr>)" by (simp add: call_ok_def CALL_STATES_def)
  from change_call [OF assms(1) d(1,2) this] d(3) show ?thesis by (simp add: meter_step_def t call_rank_def)
qed

lemma meter_observe_step:
  assumes "scope_ok s" and "meter_observe i reported outcome tel s = Inr (c, t)"
  shows "meter_step s t"
proof -
  from assms(2) obtain d known where d: "map_of (vs_calls s) i = Some d" "\<not> vs_closed s"
    and known: "\<forall>n. known = Some n \<longrightarrow> 0 \<le> n \<and> n \<le> MAX_MICROUSD"
    and c: "mc_state d = ''reserved'' \<and> c = d\<lparr>mc_state := ''not_started'', mc_outcome := Some outcome, mc_reported := Some 0, mc_telemetry := tel\<rparr>
      \<or> mc_state d = ''started'' \<and> c = d\<lparr>mc_state := ''observed'', mc_outcome := Some outcome, mc_reported := known, mc_telemetry := tel\<rparr>"
    and t: "t = s\<lparr>vs_calls := dict_set i c (vs_calls s)\<rparr>"
    by (auto simp: meter_observe_def missing_eq_Inr bindE_eq_Inr Let_def meter_amount_eq split: if_splits)
  have "call_ok s (i, d)" using assms(1) d(1) by (auto simp: scope_ok_def list_all_iff dest: map_of_SomeD)
  with c known have "call_ok s (i, c)" by (auto simp: call_ok_def CALL_STATES_def MAX_MICROUSD_def)
  moreover have "call_rank d < call_rank c" "mc_microusd c = mc_microusd d" "mc_request c = mc_request d"
    using c by (auto simp: call_rank_def)
  ultimately show ?thesis using change_call [OF assms(1) d(1,2)] by (simp add: meter_step_def t)
qed

lemma close_scope_cases:
  assumes "close_scope ledger s st = Inr ((m, t), st')"
  obtains "vs_closed s" and "t = s" and "m = vs_summary s" and "st' = st"
  | y where "\<not> vs_closed s" and "t = s\<lparr>vs_closed := True, vs_summary := Some y\<rparr>" and "m = Some y"
      and "lg_observe ledger (vs_bundle s) (sm_reported y) (sm_outcome y) st = Inr ((), st')"
      and "(sm_reported y, sm_unknown y) = (let (k, u) = receipts_total (map snd (vs_calls s)) 0 0 in (if u = 0 then Some k else None, u))"
  using assms by (auto simp: close_scope_def bindE_eq_Inr Let_def split: if_splits prod.splits)

lemma close_scope_step:
  assumes "scope_ok s" and "close_scope ledger s st = Inr ((m, t), st')"
  shows "meter_step s t"
  using assms(2)
proof (cases rule: close_scope_cases)
  case 1
  with assms(1) show ?thesis by (simp add: meter_step_def scope_le_refl)
next
  case (2 y)
  have ok: "call_ok (s\<lparr>vs_closed := b, vs_summary := z\<rparr>) = call_ok s" for b z by (simp add: call_ok_def fun_eq_iff)
  from 2 assms(1) show ?thesis
    by (simp add: meter_step_def scope_ok_def scope_le_def ceiling_sum_def ok kept_in_refl metered_kept_refl)
qed

lemma meter_exec_step:
  "scope_ok (fst ss) \<Longrightarrow> meter_exec ledger c ss = Inr (r, tt) \<Longrightarrow> meter_step (fst ss) (fst tt)"
  by (cases c) (auto simp: meter_exec_def bindE_eq_Inr
      intro: meter_reserve_step meter_start_step meter_observe_step close_scope_step)

interpretation meter_tx: transactional_order "meter_exec ledger" "\<lambda>ss. scope_ok (fst ss)" "\<lambda>ss tt. scope_le (fst ss) (fst tt)"
  by unfold_locales (auto dest: meter_exec_step simp: meter_step_def scope_le_refl intro: scope_le_trans)

lemma open_scope_ok: "open_scope ledger cl b x a l m d t u st = Inr (s, st') \<Longrightarrow> scope_ok s"
  by (auto simp: open_scope_def bindE_eq_Inr meter_amount_eq Let_def scope_ok_def ceiling_sum_def split: pyval.splits if_splits)

section \<open>An example\<close>

text \<open>An exchange that answers each request with the documented reply.\<close>

definition demo_exchange :: "string \<Rightarrow> pyval \<Rightarrow> pyval \<Rightarrow> string list \<Rightarrow> meter_error + pyval \<times> string list" where
  "demo_exchange kind call extra sent =
     Inr (if kind = ''reserve'' then PDict [(''status'', PStr ''reserved''), (''project_version'', PInt 7)]
          else if kind = ''start'' then PDict [(''status'', PStr ''start-once'')] else PDict [], sent @ [kind])"

definition demo_digest :: string where
  "demo_digest = replicate 64 CHR ''0''"

lemma demo_digest_hex: "hex_text 64 demo_digest"
  by (simp add: demo_digest_def hex_text_replicate is_hex_char_def is_digit_char_def code_of_def)

definition scope0 :: validation_scope where
  "scope0 = \<lparr>vs_id = ''s'', vs_class = ''validation-llm'', vs_bundle = [(''id'', PStr ''b''), (''role'', PStr ''validation-llm''),
      (''microusd'', PInt 100), (''request_sha256'', PStr demo_digest), (''execution_id'', PStr ''x''), (''attempt'', PInt 1)],
     vs_version = 7, vs_limit = 100, vs_max_calls = 2, vs_calls = [], vs_closed = False, vs_summary = None\<rparr>"

definition demo_call :: "string \<Rightarrow> string \<Rightarrow> metered_call" where
  "demo_call i st = \<lparr>mc_id = i, mc_class = ''validation-llm'', mc_microusd = 60, mc_request = demo_digest, mc_state = st,
     mc_reported = None, mc_outcome = None, mc_telemetry = []\<rparr>"

definition scope1 :: validation_scope where
  "scope1 = scope0\<lparr>vs_calls := [(''c1'', demo_call ''c1'' ''reserved'')]\<rparr>"

definition scope2 :: validation_scope where
  "scope2 = scope0\<lparr>vs_calls := [(''c1'', demo_call ''c1'' ''started'')]\<rparr>"

lemma demo_opens:
  "open_scope (exchange_ledger demo_exchange) ''validation-llm'' [] ''x'' (PInt 1) (PInt 100) (PInt 2) (PStr demo_digest) ''b'' ''s'' []
     = Inr (scope0, [''reserve'', ''start''])"
  by (simp add: open_scope_def exchange_ledger_def demo_exchange_def SPEND_CLASSES_def meter_amount_def MAX_MICROUSD_def
      MAX_CALLS_def meter_digest_def demo_digest_hex dict_set_def Let_def scope0_def py_field_dict)

lemma demo_reserves: "meter_reserve ''validation-llm'' (PInt 60) (PStr demo_digest) ''c1'' scope0 = Inr (demo_call ''c1'' ''reserved'', scope1)"
  by (simp add: meter_reserve_def scope0_def scope1_def demo_call_def meter_amount_def MAX_MICROUSD_def meter_digest_def
      demo_digest_hex ceiling_sum_def dict_set_def Let_def)

lemma demo_starts: "meter_start ''c1'' scope1 = Inr (demo_call ''c1'' ''started'', scope2)"
  by (simp add: meter_start_def scope0_def scope1_def scope2_def demo_call_def dict_set_def Let_def)

lemma demo_meter_runs:
  fixes ledger :: "string list ledger"
  shows "tx_reachable (meter_exec ledger) (scope0, st) (scope1, st)" "tx_reachable (meter_exec ledger) (scope0, st) (scope2, st)"
proof -
  have "meter_exec ledger (Meter_reserve ''validation-llm'' (PInt 60) (PStr demo_digest) ''c1'') (scope0, st) = Inr ((), (scope1, st))"
    using demo_reserves by (simp add: meter_exec_def) (simp add: scope0_def)
  then show one: "tx_reachable (meter_exec ledger) (scope0, st) (scope1, st)" by (rule tx_step [OF tx_start])
  have "meter_exec ledger (Meter_start ''c1'') (scope1, st) = Inr ((), (scope2, st))"
    using demo_starts by (simp add: meter_exec_def)
  then show "tx_reachable (meter_exec ledger) (scope0, st) (scope2, st)" by (rule tx_step [OF one])
qed

section \<open>Guarantees\<close>

lemma opened_scope:
  assumes "open_scope ledger cl b x a l m d bt stok st0 = Inr (s, st)" and "tx_reachable (meter_exec ledger) (s, st) (t, st')"
  shows "scope_ok t" and "scope_le s t"
proof -
  have ok: "scope_ok s" using assms(1) by (rule open_scope_ok)
  with meter_tx.reachable_inv [OF assms(2)] show "scope_ok t" by simp
  from meter_tx.reachable_le [OF assms(2)] ok show "scope_le s t" by simp
qed

text \<open>C27. A metered scope cannot overspend its prepaid bundle: in every state the calls of an opened
  scope can reach, the ceilings of its calls add up to at most the limit paid for, there are at
  most as many calls as were allowed, all of the scope's class and with distinct ids, and neither
  the limit nor the bundle has moved.\<close>

theorem meter_within_bundle:
  assumes "open_scope ledger cl b x a (PInt limit) (PInt calls) d bt stok st0 = Inr (s, st)"
    and "tx_reachable (meter_exec ledger) (s, st) (t, st')"
  shows "sum_list (map (\<lambda>(_, c). mc_microusd c) (vs_calls t)) \<le> limit \<and> limit \<le> MAX_MICROUSD
    \<and> int (length (vs_calls t)) \<le> calls \<and> distinct (map fst (vs_calls t))
    \<and> (\<forall>(i, c) \<in> set (vs_calls t). mc_id c = i \<and> mc_class c = cl \<and> 1 \<le> mc_microusd c)
    \<and> vs_limit t = limit \<and> vs_bundle t = vs_bundle s"
proof -
  have "vs_limit s = limit \<and> vs_max_calls s = calls \<and> vs_class s = cl \<and> limit \<le> MAX_MICROUSD"
    using assms(1) by (auto simp: open_scope_def bindE_eq_Inr meter_amount_eq Let_def split: if_splits)
  with opened_scope [OF assms] show ?thesis
    by (auto simp: scope_ok_def scope_le_def ceiling_sum_def call_ok_def list_all_iff)
qed

lemma meter_within_bundle_witness:
  "vs_calls scope2 = [(''c1'', demo_call ''c1'' ''started'')] \<and> (60::int) \<le> 100
    \<and> meter_reserve ''validation-llm'' (PInt 60) (PStr demo_digest) ''c2'' scope2 = Inl M_ceiling"
  using meter_within_bundle [OF demo_opens demo_meter_runs(2)]
  by (simp add: scope2_def demo_call_def scope0_def meter_reserve_def meter_amount_def MAX_MICROUSD_def meter_digest_def
      demo_digest_hex ceiling_sum_def)

text \<open>A call is started at most once: after a start of a call id has succeeded, every later
  start of that id is refused, whatever was reserved, observed or closed in between.\<close>

theorem meter_starts_once:
  assumes "open_scope ledger cl b x a l m d bt stok st0 = Inr (s, st)"
    and "tx_reachable (meter_exec ledger) (s, st) (t, st1)"
    and "meter_start i t = Inr (c, u)"
    and "tx_reachable (meter_exec ledger) (u, st2) (v, st3)"
  shows "\<exists>e. meter_start i v = Inl e"
proof -
  have ok: "scope_ok t" using opened_scope [OF assms(1,2)] by simp
  from assms(3) obtain e where e: "map_of (vs_calls t) i = Some e" "mc_state e = ''reserved''"
    and c: "c = e\<lparr>mc_state := ''started''\<rparr>" and u: "u = t\<lparr>vs_calls := dict_set i c (vs_calls t)\<rparr>"
    by (auto simp: meter_start_def missing_eq_Inr bindE_eq_Inr Let_def split: option.splits)
  have "distinct (map fst (vs_calls t))" using ok by (simp add: scope_ok_def)
  then obtain xs ys where "dict_set i c (vs_calls t) = xs @ (i, c) # ys" using e(1) by (rule dict_set_old)
  then have mem: "(i, c) \<in> set (vs_calls u)" by (simp add: u)
  have "scope_ok u" using meter_start_step [OF ok assms(3)] by (simp add: meter_step_def)
  with meter_tx.reachable_inv [OF assms(4)] meter_tx.reachable_le [OF assms(4)]
  have v: "scope_ok v" "scope_le u v" by simp_all
  then obtain g where g: "(i, g) \<in> set (vs_calls v)" "metered_kept (i, c) (i, g)"
    using mem by (force simp: scope_le_def metered_kept_def dest: kept_inD)
  then have "map_of (vs_calls v) i = Some g" using v(1) by (simp add: scope_ok_def)
  moreover have "mc_state g \<noteq> ''reserved''" using g(2) c by (auto simp: metered_kept_def call_rank_def split: if_splits)
  ultimately show ?thesis by (cases "vs_closed v") (simp_all add: meter_start_def ensure_def)
qed

lemma meter_starts_once_witness: "\<exists>e. meter_start ''c1'' scope2 = Inl e"
  by (rule meter_starts_once [OF demo_opens demo_meter_runs(1) demo_starts])
     (rule tx_start)

definition unknown_receipt :: "metered_call \<Rightarrow> bool" where
  "unknown_receipt c \<longleftrightarrow> mc_state c = ''started'' \<or> (mc_state c = ''observed'' \<and> mc_reported c = None)"

definition receipt :: "metered_call \<Rightarrow> int" where
  "receipt c = (case mc_reported c of None \<Rightarrow> 0 | Some n \<Rightarrow> n)"

lemma receipts_total_eq:
  "list_all (call_ok s) cs \<Longrightarrow> receipts_total (map snd cs) k u
     = (k + sum_list (map (\<lambda>(_, c). receipt c) cs), u + length (filter (\<lambda>(_, c). unknown_receipt c) cs))"
  by (induction cs arbitrary: k u)
     (auto simp: call_ok_def CALL_STATES_def unknown_receipt_def receipt_def split: option.splits)

text \<open>C28. The closing report is exact: the amount reported to the ledger is the sum of the provider
  receipts when every started call has one, and is unknown, never zero, when one is missing; a
  closed scope refuses every call operation and closing it again repeats the summary without
  touching the ledger.\<close>

theorem meter_close_exact:
  assumes "open_scope ledger cl b x a l m d bt stok st0 = Inr (s, st)"
    and "tx_reachable (meter_exec ledger) (s, st) (t, st1)"
    and "\<not> vs_closed t" and "close_scope ledger t st1 = Inr ((z, u), st2)"
  shows "\<exists>y. z = Some y \<and> sm_reported y = (if \<exists>(i, c) \<in> set (vs_calls t). unknown_receipt c then None
            else Some (sum_list (map (\<lambda>(_, c). receipt c) (vs_calls t))))
    \<and> sm_unknown y = length (filter (\<lambda>(_, c). unknown_receipt c) (vs_calls t))
    \<and> lg_observe ledger (vs_bundle t) (sm_reported y) (sm_outcome y) st1 = Inr ((), st2)
    \<and> meter_reserve rc ra rd rt u = Inl M_closed \<and> (\<exists>e. meter_start i u = Inl e) \<and> (\<exists>e. meter_observe i p q r u = Inl e)
    \<and> close_scope ledger u w = Inr ((z, u), w)"
  using assms(4)
proof (cases rule: close_scope_cases)
  case 1
  with assms(3) show ?thesis by simp
next
  case (2 y)
  have "list_all (call_ok t) (vs_calls t)" using opened_scope [OF assms(1,2)] by (simp add: scope_ok_def)
  from receipts_total_eq [OF this, of 0 0] 2(5)
  have "sm_unknown y = length (filter (\<lambda>(_, c). unknown_receipt c) (vs_calls t))"
    and "sm_reported y = (if filter (\<lambda>(_, c). unknown_receipt c) (vs_calls t) = [] then Some (sum_list (map (\<lambda>(_, c). receipt c) (vs_calls t))) else None)"
    by (simp_all add: Let_def split: if_splits)
  moreover have "filter (\<lambda>(_, c). unknown_receipt c) (vs_calls t) = [] \<longleftrightarrow> \<not> (\<exists>(i, c) \<in> set (vs_calls t). unknown_receipt c)"
    by (auto simp: filter_empty_conv)
  moreover have "vs_closed u" "vs_summary u = z" using 2 by simp_all
  then have "meter_reserve rc ra rd rt u = Inl M_closed" "close_scope ledger u w = Inr ((z, u), w)"
    and "\<exists>e. meter_start i u = Inl e" "\<exists>e. meter_observe i p q r u = Inl e"
    by (simp_all add: meter_reserve_def close_scope_def meter_start_def meter_observe_def ensure_def split: option.splits)
  ultimately show ?thesis using 2(3,4) by simp
qed

lemma meter_close_exact_witness:
  "\<exists>y u st. close_scope (exchange_ledger demo_exchange) scope2 [''reserve'', ''start''] = Inr ((Some y, u), st) \<and> sm_reported y = None \<and> sm_unknown y = 1
    \<and> meter_start ''c1'' u \<noteq> Inr (demo_call ''c1'' ''started'', scope2)"
proof -
  obtain z u st where run: "close_scope (exchange_ledger demo_exchange) scope2 [''reserve'', ''start''] = Inr ((z, u), st)"
    by (simp add: close_scope_def scope2_def scope0_def demo_call_def exchange_ledger_def demo_exchange_def Let_def)
  have "\<not> vs_closed scope2" by (simp add: scope2_def scope0_def)
  from meter_close_exact [where i = "''c1''" and rc = "[]" and ra = PNone and rd = PNone and rt = "[]" and p = PNone and q = "[]"
      and r = "[]" and w = "[]", OF demo_opens demo_meter_runs(2) this run] obtain y where y: "z = Some y" "sm_reported y = None"
      "sm_unknown y = 1" "\<exists>e. meter_start ''c1'' u = Inl e"
    by (auto simp: scope2_def demo_call_def unknown_receipt_def)
  with y run show ?thesis by auto
qed

end
