(* ===== verification/Capabilities.thy ===== *)
theory Capabilities
  imports Programme
begin

text \<open>
  Capability grants, \<open>factory_kernel/capabilities.py\<close>: the deterministic decision that turns one
  request for one fixed operation on one exact subject into a grant or a refusal that lists every
  failed gate, the gates a broker checks before it spends a grant, and narrowing. An exact subject
  is a record, as the code only keeps dicts of one of its two field sets; requests, policies,
  evidence, leases and budgets are the JSON values the code inspects. A \<open>TypeError\<close> of the code
  (a policy whose roles are no mapping, an unhashable lease resource) is a value of its own.
\<close>

section \<open>The fixed names\<close>

definition FIXED_OPERATIONS :: "string list" where
  "FIXED_OPERATIONS = [''commit_acceptance'', ''commit_implementation'', ''publish_candidate'', ''merge_exact_head'',
     ''publish_transition_data'', ''observe'']"

definition ROLES :: "string list" where
  "ROLES = [''merge-executor'', ''build-executor'', ''transition-service'', ''observer'']"

definition oid_text :: "string \<Rightarrow> bool" where
  "oid_text s \<longleftrightarrow> 40 \<le> length s \<and> length s \<le> 64 \<and> list_all is_hex_char s"

definition cap_ident :: "string \<Rightarrow> bool" where
  "cap_ident s \<longleftrightarrow> ident_text ''._:/-'' 120 s"

definition branch_text :: "string \<Rightarrow> bool" where
  "branch_text s \<longleftrightarrow> ident_text ''._/-'' 200 s"

definition SUBJECT_FIELDS :: "string list" where
  "SUBJECT_FIELDS = [''repository'', ''pr_number'', ''head_sha'', ''base_sha'', ''head_tree_sha'', ''evidence_sha256'']"

definition CANDIDATE_FIELDS :: "string list" where
  "CANDIDATE_FIELDS = [''repository'', ''branch'', ''head_sha'', ''base_sha'', ''head_tree_sha'', ''evidence_sha256'']"

definition SUBJECT_KINDS :: "(string \<times> string list) list" where
  "SUBJECT_KINDS = [(''pull-request'', SUBJECT_FIELDS), (''candidate'', CANDIDATE_FIELDS)]"

definition OPERATION_SUBJECT_KIND :: "(string \<times> string) list" where
  "OPERATION_SUBJECT_KIND = [(''merge_exact_head'', ''pull-request''), (''observe'', ''pull-request''),
     (''publish_candidate'', ''candidate''), (''commit_acceptance'', ''candidate''), (''commit_implementation'', ''candidate''),
     (''publish_transition_data'', ''pull-request'')]"

definition texts :: "string list \<Rightarrow> pyval" where
  "texts xs = PList (map PStr xs)"

definition DEFAULT_POLICY :: pydict where
  "DEFAULT_POLICY =
     [(''schema'', PStr ''dark-factory/capability-policy''), (''schema_version'', PStr ''1.0''),
      (''roles'', PDict
        [(''merge-executor'', texts [''merge_exact_head'', ''observe'']),
         (''build-executor'', texts [''commit_acceptance'', ''commit_implementation'', ''publish_candidate'', ''observe'']),
         (''transition-service'', texts [''publish_transition_data'', ''observe'']),
         (''observer'', texts [''observe''])]),
      (''grant_ttl_seconds'', PInt 900), (''max_uses'', PInt 1), (''legacy_serial_route'', PBool True),
      (''revocation_epoch'', PStr ''epoch-0'')]"

section \<open>Exact subjects\<close>

datatype target = Pull_request int | Candidate string

record subject =
  sj_repository :: string
  sj_target :: target
  sj_head :: string
  sj_base :: string
  sj_tree :: string
  sj_evidence :: string

definition subject_dict :: "subject \<Rightarrow> pydict" where
  "subject_dict s = [(''repository'', PStr (sj_repository s)),
     (case sj_target s of Pull_request n \<Rightarrow> (''pr_number'', PInt n) | Candidate b \<Rightarrow> (''branch'', PStr b)),
     (''head_sha'', PStr (sj_head s)), (''base_sha'', PStr (sj_base s)), (''head_tree_sha'', PStr (sj_tree s)),
     (''evidence_sha256'', PStr (sj_evidence s))]"

definition subject_kind :: "pyval \<Rightarrow> string option" where
  "subject_kind v =
     (case v of PDict d \<Rightarrow> map_option fst (List.find (\<lambda>(kind, names). same_set (map fst d) names) SUBJECT_KINDS) | _ \<Rightarrow> None)"

definition name_part :: "string \<Rightarrow> bool" where
  "name_part s \<longleftrightarrow> s \<noteq> [] \<and> list_all (\<lambda>c. is_alnum c \<or> c \<in> set ''_.-'') s"

definition owner_name :: "string \<Rightarrow> bool" where
  "owner_name s \<longleftrightarrow> (let owner = takeWhile (\<lambda>c. c \<noteq> CHR ''/'') s in
     name_part owner \<and> length owner < length s \<and> name_part (drop (length owner + 1) s))"

definition candidate_branch :: "string \<Rightarrow> bool" where
  "candidate_branch b \<longleftrightarrow> branch_text b \<and> last b \<noteq> CHR ''/'' \<and> \<not> has_infix ''..'' b"

definition text_such :: "(string \<Rightarrow> bool) \<Rightarrow> pyval \<Rightarrow> string option" where
  "text_such P v = (case v of PStr s \<Rightarrow> if P s then Some s else None | _ \<Rightarrow> None)"

definition exact_target :: "string \<Rightarrow> pyval \<Rightarrow> target option" where
  "exact_target kind v =
     (if kind = ''pull-request'' then
        (case py_field v ''pr_number'' of PInt n \<Rightarrow> if n \<le> 0 then None else Some (Pull_request n) | _ \<Rightarrow> None)
      else map_option Candidate (text_such candidate_branch (py_field v ''branch'')))"

definition exact_subject :: "pyval \<Rightarrow> subject option" where
  "exact_subject v =
     Option.bind (subject_kind v) (\<lambda>kind.
     Option.bind (text_such owner_name (py_field v ''repository'')) (\<lambda>repository.
     Option.bind (exact_target kind v) (\<lambda>t.
     Option.bind (text_such oid_text (py_field v ''head_sha'')) (\<lambda>head.
     Option.bind (text_such oid_text (py_field v ''base_sha'')) (\<lambda>base.
     Option.bind (text_such oid_text (py_field v ''head_tree_sha'')) (\<lambda>tree.
     Option.bind (text_such (hex_text 64) (py_field v ''evidence_sha256'')) (\<lambda>evidence.
     Some \<lparr>sj_repository = repository, sj_target = t, sj_head = head, sj_base = base, sj_tree = tree,
           sj_evidence = evidence\<rparr>)))))))"

definition resources_for :: "string \<Rightarrow> subject \<Rightarrow> string list" where
  "resources_for operation s =
     (let base = ''branch:'' @ sj_repository s @ '':base:'' @ sj_base s in
      case sj_target s of
        Pull_request n \<Rightarrow>
          let pr = ''pr:'' @ sj_repository s @ ''#'' @ int_text n in
          if operation = ''merge_exact_head'' then [pr, base]
          else if operation = ''publish_transition_data'' then [base] else []
      | Candidate b \<Rightarrow>
          if operation \<in> {''publish_candidate'', ''commit_acceptance'', ''commit_implementation''}
          then [''branch:'' @ sj_repository s @ '':'' @ b] else [])"

section \<open>Grants\<close>

record grant =
  gr_id :: string
  gr_operation :: string
  gr_subject :: subject
  gr_resources :: "string list"
  gr_role :: string
  gr_instance :: string
  gr_request :: string
  gr_request_sha :: string
  gr_source :: string
  gr_policy :: string
  gr_evidence :: string
  gr_lease :: "pydict option"
  gr_route :: string
  gr_max_uses :: int
  gr_issued :: int
  gr_expires :: int
  gr_epoch :: string
  gr_narrowed :: "string option"

definition optional_dict :: "pydict option \<Rightarrow> pyval" where
  "optional_dict d = (case d of None \<Rightarrow> PNone | Some kvs \<Rightarrow> PDict kvs)"

definition optional_text :: "string option \<Rightarrow> pyval" where
  "optional_text t = (case t of None \<Rightarrow> PNone | Some s \<Rightarrow> PStr s)"

definition grant_dict :: "grant \<Rightarrow> pydict" where
  "grant_dict g = [(''schema'', PStr ''dark-factory/capability-grant''), (''schema_version'', PStr ''1.0''),
     (''grant_id'', PStr (gr_id g)), (''semantic_operation'', PStr (gr_operation g)),
     (''subject'', PDict (subject_dict (gr_subject g))), (''resources'', texts (gr_resources g)),
     (''caller_role'', PStr (gr_role g)), (''caller_instance'', PStr (gr_instance g)), (''request_id'', PStr (gr_request g)),
     (''request_sha256'', PStr (gr_request_sha g)), (''source_sha'', PStr (gr_source g)), (''policy_sha256'', PStr (gr_policy g)),
     (''evidence_sha256'', PStr (gr_evidence g)), (''lease'', optional_dict (gr_lease g)), (''lease_route'', PStr (gr_route g)),
     (''max_uses'', PInt (gr_max_uses g)), (''issued_at'', PInt (gr_issued g)), (''expires_at'', PInt (gr_expires g)),
     (''revocation_epoch'', PStr (gr_epoch g)), (''narrowed_from'', optional_text (gr_narrowed g)),
     (''authority'', PStr ''grant-record-only'')]"

datatype authorization = Granted grant | Refused "string list" | Type_error

definition refusal_dict :: "string list \<Rightarrow> pyval" where
  "refusal_dict reasons = PDict [(''status'', PStr ''refused''), (''reason_codes'', texts reasons)]"

definition policy_digest :: "(string \<Rightarrow> string) \<Rightarrow> pydict \<Rightarrow> string" where
  "policy_digest sha policy = sha256_value sha (PDict policy)"

section \<open>Authorization\<close>

text \<open>The operations of a role: a gate of the policy's \<open>roles\<close>. \<open>None\<close> is a \<open>TypeError\<close>.\<close>

definition operations_of :: "pyval \<Rightarrow> pyval list option" where
  "operations_of v = (case v of PList xs \<Rightarrow> Some xs | PStr s \<Rightarrow> Some (map (\<lambda>c. PStr [c]) s)
     | PDict d \<Rightarrow> Some (map (\<lambda>(k, _). PStr k) d) | _ \<Rightarrow> None)"

definition role_gate :: "pyval \<Rightarrow> pyval \<Rightarrow> pyval \<Rightarrow> string list option" where
  "role_gate roles role operation =
     (let fixed = operation \<in> set (map PStr FIXED_OPERATIONS) in
      case role of
        PStr r \<Rightarrow>
          if r \<notin> set ROLES then Some [''role_unknown'']
          else (case roles of
            PDict rs \<Rightarrow>
              (case map_of rs r of
                 None \<Rightarrow> Some [''role_unknown'']
               | Some v \<Rightarrow>
                   if fixed then
                     map_option (\<lambda>ops. if operation \<in> set ops then [] else [''role_not_permitted'']) (operations_of v)
                   else Some [])
          | PList xs \<Rightarrow> if role \<notin> set xs then Some [''role_unknown''] else if fixed then None else Some []
          | PStr s \<Rightarrow> if \<not> has_infix r s then Some [''role_unknown''] else if fixed then None else Some []
          | _ \<Rightarrow> None)
      | _ \<Rightarrow> Some [''role_unknown''])"

definition text_gate :: "(string \<Rightarrow> bool) \<Rightarrow> pyval \<Rightarrow> string \<Rightarrow> string list" where
  "text_gate P v reason = (if text_such P v = None then [reason] else [])"

definition evidence_gate :: "subject \<Rightarrow> pyval \<Rightarrow> string list" where
  "evidence_gate s evidence =
     (case evidence of
        PDict e \<Rightarrow> map (\<lambda>(k, _). ''evidence_'' @ k @ ''_mismatch'')
          (filter (\<lambda>(k, v). py_get e k \<noteq> PStr v)
            [(''head_sha'', sj_head s), (''base_sha'', sj_base s), (''head_tree_sha'', sj_tree s), (''evidence_sha256'', sj_evidence s)])
      | _ \<Rightarrow> [''evidence_missing''])"

definition subject_gate :: "pyval \<Rightarrow> pyval \<Rightarrow> pyval \<Rightarrow> string list" where
  "subject_gate operation subject evidence =
     (case exact_subject subject of
        None \<Rightarrow> [''subject_inexact'']
      | Some s \<Rightarrow>
          if operation \<in> set (map PStr FIXED_OPERATIONS)
             \<and> map_of OPERATION_SUBJECT_KIND (py_string operation) \<noteq> subject_kind (PDict (subject_dict s))
          then [''subject_kind_mismatch''] else evidence_gate s evidence)"

definition count_gate :: "int \<Rightarrow> pyval \<Rightarrow> string \<Rightarrow> string list" where
  "count_gate least v reason = (case v of PInt n \<Rightarrow> if n < least then [reason] else [] | _ \<Rightarrow> [reason])"

definition hashable :: "pyval \<Rightarrow> bool" where
  "hashable v \<longleftrightarrow> (case v of PList _ \<Rightarrow> False | PDict _ \<Rightarrow> False | _ \<Rightarrow> True)"

definition lease_gate :: "pyval \<Rightarrow> pyval \<Rightarrow> pyval \<Rightarrow> pyval \<Rightarrow> string list option" where
  "lease_gate policy operation subject lease =
     (if lease = PNone then
        Some (if py_field policy ''legacy_serial_route'' = PBool True then [] else [''lease_required''])
      else
        let resources = py_items (py_field lease ''resources'') in
        if py_dict lease = None \<or> text_such (\<lambda>_. True) (py_field lease ''lease_id'') = None
           \<or> text_such (\<lambda>_. True) (py_field lease ''epoch'') = None \<or> resources = []
        then Some [''lease_malformed'']
        else (case exact_subject subject of
          None \<Rightarrow> Some []
        | Some s \<Rightarrow>
            if operation \<notin> set (map PStr FIXED_OPERATIONS) then Some []
            else if \<not> list_all hashable resources then None
            else if list_all (\<lambda>r. PStr r \<in> set resources) (resources_for (py_string operation) s) then Some []
            else Some [''lease_resources_insufficient'']))"

definition budget_gate :: "pyval \<Rightarrow> string list" where
  "budget_gate budget = (if budget \<noteq> PNone \<and> text_such (\<lambda>_. True) (py_field budget ''bundle_id'') = None
     then [''budget_malformed''] else [])"

definition request_digest ::
  "(string \<Rightarrow> string) \<Rightarrow> string \<Rightarrow> subject \<Rightarrow> string \<Rightarrow> string \<Rightarrow> string \<Rightarrow> string \<Rightarrow> string" where
  "request_digest sha operation s role instance' request_id source_sha =
     sha256_value sha (PDict [(''operation'', PStr operation), (''subject'', PDict (subject_dict s)), (''caller_role'', PStr role),
       (''caller_instance'', PStr instance'), (''request_id'', PStr request_id), (''source_sha'', PStr source_sha)])"

definition grant_for ::
  "(string \<Rightarrow> string) \<Rightarrow> pyval \<Rightarrow> subject \<Rightarrow> pyval \<Rightarrow> pyval \<Rightarrow> int \<Rightarrow> grant" where
  "grant_for sha request s policy lease now =
     (let text = (\<lambda>k. py_string (py_field request k));
          operation = text ''operation'';
          epoch = py_string (py_field policy ''revocation_epoch'');
          request_sha = request_digest sha operation s (text ''caller_role'') (text ''caller_instance'') (text ''request_id'')
            (text ''source_sha'');
          digest = policy_digest sha (case policy of PDict d \<Rightarrow> d | _ \<Rightarrow> []) in
      \<lparr>gr_id = take 32 (sha256_value sha (PDict [(''request_sha256'', PStr request_sha), (''policy_sha256'', PStr digest),
         (''issued_at'', PInt now), (''epoch'', PStr epoch), (''lease'', lease)])),
       gr_operation = operation, gr_subject = s, gr_resources = resources_for operation s, gr_role = text ''caller_role'',
       gr_instance = text ''caller_instance'', gr_request = text ''request_id'', gr_request_sha = request_sha,
       gr_source = text ''source_sha'', gr_policy = digest, gr_evidence = sj_evidence s, gr_lease = py_dict lease,
       gr_route = (if lease = PNone then ''legacy-serial-route'' else ''lease-bundle''),
       gr_max_uses = py_int (py_field policy ''max_uses''), gr_issued = now,
       gr_expires = now + py_int (py_field policy ''grant_ttl_seconds''), gr_epoch = epoch, gr_narrowed = None\<rparr>)"

definition authorize ::
  "(string \<Rightarrow> string) \<Rightarrow> pyval \<Rightarrow> pyval \<Rightarrow> pyval \<Rightarrow> pyval \<Rightarrow> pyval \<Rightarrow> pyval \<Rightarrow> pyval \<Rightarrow> authorization" where
  "authorize sha request subject policy verified_evidence lease budget now =
     (let operation = py_field request ''operation'' in
      case (role_gate (if py_dict policy = None \<or> \<not> py_has (the (py_dict policy)) ''roles'' then PDict [] else py_field policy ''roles'')
              (py_field request ''caller_role'') operation,
            lease_gate policy operation subject lease) of
        (Some role_reasons, Some lease_reasons) \<Rightarrow>
          let reasons =
            (if operation \<in> set (map PStr FIXED_OPERATIONS) then [] else [''operation_not_fixed''])
            @ role_reasons
            @ text_gate cap_ident (py_field request ''caller_instance'') ''caller_instance_invalid''
            @ text_gate cap_ident (py_field request ''request_id'') ''request_id_invalid''
            @ text_gate oid_text (py_field request ''source_sha'') ''source_sha_invalid''
            @ subject_gate operation subject verified_evidence
            @ count_gate 1 (py_field policy ''grant_ttl_seconds'') ''policy_ttl_invalid''
            @ count_gate 1 (py_field policy ''max_uses'') ''policy_max_uses_invalid''
            @ text_gate (\<lambda>s. s \<noteq> []) (py_field policy ''revocation_epoch'') ''policy_epoch_invalid''
            @ count_gate 0 now ''clock_invalid''
            @ lease_reasons @ budget_gate budget in
          (case (reasons, exact_subject subject) of
             ([], Some s) \<Rightarrow> Granted (grant_for sha request s policy lease (py_int now))
           | _ \<Rightarrow> Refused reasons)
      | _ \<Rightarrow> Type_error)"

section \<open>Spending and narrowing a grant\<close>

definition validate_grant ::
  "(string \<Rightarrow> string) \<Rightarrow> grant \<Rightarrow> int \<Rightarrow> string \<Rightarrow> int \<Rightarrow> string option \<Rightarrow> pyval \<Rightarrow> pydict option \<Rightarrow> string list" where
  "validate_grant sha g now epoch uses operation subject policy =
     (if now < 0 then [''clock_invalid''] else if gr_expires g \<le> now then [''grant_expired''] else [])
     @ (if epoch \<noteq> gr_epoch g then [''grant_revoked_by_epoch''] else [])
     @ (if uses < 0 then [''uses_invalid''] else if gr_max_uses g \<le> uses then [''grant_uses_exhausted''] else [])
     @ (if operation \<noteq> None \<and> operation \<noteq> Some (gr_operation g) then [''operation_mismatch''] else [])
     @ (if subject \<noteq> PNone \<and> exact_subject subject \<noteq> Some (gr_subject g) then [''subject_mismatch''] else [])
     @ (case policy of None \<Rightarrow> [] | Some p \<Rightarrow> if policy_digest sha p \<noteq> gr_policy g then [''policy_changed''] else [])"

definition narrow_grant :: "(string \<Rightarrow> string) \<Rightarrow> grant \<Rightarrow> string list \<Rightarrow> grant option" where
  "narrow_grant sha g resources =
     (if resources = [] \<or> \<not> list_all (\<lambda>r. r \<in> set (gr_resources g)) resources \<or> \<not> distinct resources then None
      else if resources = gr_resources g then Some g
      else Some (g\<lparr>gr_id := take 32 (sha256_value sha (PDict [(''narrowed_from'', PStr (gr_id g)), (''resources'', texts resources)])),
                   gr_resources := resources, gr_narrowed := Some (gr_id g)\<rparr>))"

end
