(* ===== verification/Effect_Broker.thy ===== *)
theory Effect_Broker
  imports Capabilities
begin

text \<open>
  The effect broker and its journal, \<open>factory_kernel/effect_broker.py\<close>. The journal is the list of
  its rows, one record per line of the file. GitHub, git, the clock and the stop check are the
  functions of a \<open>remote\<close> over the state of the outside world: each call may change that state,
  answer, raise or time out. \<open>bk_sent\<close> logs the remote calls that change something, in order;
  the code does not keep it, the properties speak of it. An operation returns its result or its
  exception together with the state, since a refused effect has still written its journal row.
\<close>

section \<open>The journal\<close>

datatype effect_state = Refused_state | Started_state | Observed_success | Observed_failure | Uncertain_state

definition state_name :: "effect_state \<Rightarrow> string" where
  "state_name st = (case st of Refused_state \<Rightarrow> ''refused'' | Started_state \<Rightarrow> ''started''
     | Observed_success \<Rightarrow> ''observed_success'' | Observed_failure \<Rightarrow> ''observed_failure'' | Uncertain_state \<Rightarrow> ''uncertain'')"

definition SERVED_OPERATIONS :: "string list" where
  "SERVED_OPERATIONS = [''merge_exact_head'', ''publish_candidate'', ''observe'']"

record effect_row =
  er_state :: effect_state
  er_at :: int
  er_grant :: grant
  er_fields :: pydict

definition row_dict :: "effect_row \<Rightarrow> pydict" where
  "row_dict r = [(''schema'', PStr ''dark-factory/effect-journal''), (''schema_version'', PStr ''1.0''),
     (''state'', PStr (state_name (er_state r))), (''at'', PInt (er_at r)), (''grant_id'', PStr (gr_id (er_grant r))),
     (''semantic_operation'', PStr (gr_operation (er_grant r))), (''request_id'', PStr (gr_request (er_grant r))),
     (''request_sha256'', PStr (gr_request_sha (er_grant r))), (''subject'', PDict (subject_dict (gr_subject (er_grant r)))),
     (''grant'', PDict (grant_dict (er_grant r)))] @ er_fields r"

definition grant_rows :: "string \<Rightarrow> effect_row list \<Rightarrow> effect_row list" where
  "grant_rows i rows = filter (\<lambda>r. gr_id (er_grant r) = i) rows"

definition state_of :: "string \<Rightarrow> effect_row list \<Rightarrow> effect_row option" where
  "state_of i rows = (case rev (grant_rows i rows) of [] \<Rightarrow> None | r # _ \<Rightarrow> Some r)"

definition uses_of :: "string \<Rightarrow> effect_row list \<Rightarrow> nat" where
  "uses_of i rows = length (filter (\<lambda>r. gr_id (er_grant r) = i \<and> er_state r = Started_state) rows)"

section \<open>The outside world\<close>

text \<open>An exception is its type name and its text; a subprocess may also time out.\<close>

datatype failure = Timed_out string | Raised string string

record 'w remote =
  rm_clock :: "'w \<Rightarrow> int \<times> 'w"
  rm_pr :: "int \<Rightarrow> 'w \<Rightarrow> (failure + pyval) \<times> 'w"
  rm_stop :: "'w \<Rightarrow> (failure + unit) \<times> 'w"
  rm_merge :: "int \<Rightarrow> string \<Rightarrow> 'w \<Rightarrow> (failure + unit) \<times> 'w"
  rm_push :: "string \<Rightarrow> 'w \<Rightarrow> (failure + unit) \<times> 'w"
  rm_create :: "string \<Rightarrow> string \<Rightarrow> string \<Rightarrow> string \<Rightarrow> 'w \<Rightarrow> (failure + pyval) \<times> 'w"
  rm_git :: "(string list \<Rightarrow> string \<Rightarrow> 'w \<Rightarrow> (failure + string) \<times> 'w) option"
  rm_epoch :: string

datatype remote_call =
    Merge_call int string
  | Push_call string string
  | Create_call string string

record 'w broker =
  bk_rows :: "effect_row list"
  bk_sent :: "(string \<times> remote_call) list"
  bk_world :: 'w

datatype effect_error =
    E_refused "string list"
  | E_uncertain
  | E_raised failure

type_synonym ('w, 'a) act = "'w broker \<Rightarrow> (effect_error + 'a) \<times> 'w broker"

definition bindA :: "('w, 'a) act \<Rightarrow> ('a \<Rightarrow> ('w, 'b) act) \<Rightarrow> ('w, 'b) act" where
  "bindA m f = (\<lambda>s. case m s of (Inl e, t) \<Rightarrow> (Inl e, t) | (Inr a, t) \<Rightarrow> f a t)"

definition returnA :: "'a \<Rightarrow> ('w, 'a) act" where
  "returnA a = (\<lambda>s. (Inr a, s))"

definition raiseA :: "effect_error \<Rightarrow> ('w, 'a) act" where
  "raiseA e = (\<lambda>s. (Inl e, s))"

text \<open>The rows as they are now, a call of the outside world, and the log of an effect.\<close>

definition rowsA :: "('w, effect_row list) act" where
  "rowsA = (\<lambda>s. (Inr (bk_rows s), s))"

definition callA :: "('w \<Rightarrow> 'a \<times> 'w) \<Rightarrow> ('w, 'a) act" where
  "callA f = (\<lambda>s. case f (bk_world s) of (a, w) \<Rightarrow> (Inr a, s\<lparr>bk_world := w\<rparr>))"

definition sentA :: "string \<Rightarrow> remote_call \<Rightarrow> ('w, unit) act" where
  "sentA i c = (\<lambda>s. (Inr (), s\<lparr>bk_sent := bk_sent s @ [(i, c)]\<rparr>))"

definition recordA :: "effect_state \<Rightarrow> grant \<Rightarrow> int \<Rightarrow> pydict \<Rightarrow> ('w, unit) act" where
  "recordA st g at' kvs = (\<lambda>s. (Inr (), s\<lparr>bk_rows := bk_rows s
     @ [\<lparr>er_state = st, er_at = at', er_grant = g, er_fields = kvs\<rparr>]\<rparr>))"

definition record_now :: "'w remote \<Rightarrow> effect_state \<Rightarrow> grant \<Rightarrow> pydict \<Rightarrow> ('w, unit) act" where
  "record_now rm st g kvs = bindA (callA (rm_clock rm)) (\<lambda>now. recordA st g now kvs)"

text \<open>\<open>f"{prefix}{type(exc).__name__}: {str(exc)[:n]}"\<close>\<close>

definition failure_text :: "nat \<Rightarrow> failure \<Rightarrow> string" where
  "failure_text n e = (case e of Timed_out t \<Rightarrow> ''TimeoutExpired: '' @ take n t | Raised k t \<Rightarrow> k @ '': '' @ take n t)"

section \<open>Gates\<close>

definition observation_of :: "pydict \<Rightarrow> pydict" where
  "observation_of info = [(''state'', py_get info ''state''), (''headRefOid'', py_get info ''headRefOid''),
     (''baseRefOid'', py_get info ''baseRefOid''),
     (''mergeCommit'', case py_get info ''mergeCommit'' of PDict d \<Rightarrow> py_get d ''oid'' | v \<Rightarrow> v),
     (''mergedAt'', py_get info ''mergedAt'')]"

text \<open>\<open>_observe_pr\<close>; a subject without a PR number raises \<open>KeyError\<close>.\<close>

definition observe_pr :: "'w remote \<Rightarrow> grant \<Rightarrow> ('w, pydict) act" where
  "observe_pr rm g =
     (case sj_target (gr_subject g) of
        Candidate _ \<Rightarrow> raiseA (E_raised (Raised ''KeyError'' ''pr_number''))
      | Pull_request n \<Rightarrow>
          bindA (callA (rm_pr rm n)) (\<lambda>answer.
          case answer of
            Inl e \<Rightarrow> raiseA (E_raised e)
          | Inr (PDict info) \<Rightarrow> returnA (observation_of info)
          | Inr _ \<Rightarrow> raiseA (E_refused [''subject_unobservable''])))"

definition git_read :: "(string list \<Rightarrow> string \<Rightarrow> 'w \<Rightarrow> (failure + string) \<times> 'w) \<Rightarrow> string list \<Rightarrow> string \<Rightarrow> ('w, string) act" where
  "git_read git args cwd = bindA (callA (git args cwd)) (\<lambda>answer.
     case answer of Inl _ \<Rightarrow> raiseA (E_refused [''candidate_unobservable'']) | Inr s \<Rightarrow> returnA (py_strip s))"

definition observe_candidate :: "'w remote \<Rightarrow> string \<Rightarrow> ('w, pydict) act" where
  "observe_candidate rm cwd =
     (case rm_git rm of
        None \<Rightarrow> raiseA (E_refused [''candidate_unobservable''])
      | Some git \<Rightarrow>
          bindA (git_read git [''rev-parse'', ''HEAD''] cwd) (\<lambda>head.
          bindA (git_read git [''rev-parse'', ''HEAD^{tree}''] cwd) (\<lambda>tree.
          bindA (git_read git [''branch'', ''--show-current''] cwd) (\<lambda>branch.
          bindA (git_read git [''status'', ''--porcelain''] cwd) (\<lambda>status.
          returnA [(''head_sha'', PStr head), (''head_tree_sha'', PStr tree), (''branch'', PStr branch),
                   (''dirty'', PBool (status \<noteq> []))])))))"

text \<open>\<open>try\<close> around an observation: an \<open>EffectRefused\<close> becomes its reasons, anything else escapes.\<close>

definition try_refused :: "('w, pydict) act \<Rightarrow> (pydict \<Rightarrow> string list) \<Rightarrow> ('w, pydict \<times> string list) act" where
  "try_refused m check = (\<lambda>s. case m s of
     (Inl (E_refused reasons), t) \<Rightarrow> (Inr ([], reasons), t)
   | (Inl e, t) \<Rightarrow> (Inl e, t)
   | (Inr observed, t) \<Rightarrow> (Inr (observed, check observed), t))"

definition candidate_reasons :: "subject \<Rightarrow> pydict \<Rightarrow> string list" where
  "candidate_reasons s observed =
     (if py_get observed ''head_sha'' \<noteq> PStr (sj_head s) then [''candidate_head_differs''] else [])
     @ (if py_get observed ''head_tree_sha'' \<noteq> PStr (sj_tree s) then [''candidate_tree_differs''] else [])
     @ (if sj_target s \<noteq> Candidate (py_string (py_get observed ''branch'')) then [''candidate_branch_differs''] else [])
     @ (if py_truthy (py_get observed ''dirty'') then [''candidate_worktree_dirty''] else [])"

definition merge_reasons :: "subject \<Rightarrow> pydict \<Rightarrow> string list" where
  "merge_reasons s observed =
     (if py_get observed ''state'' \<noteq> PStr ''OPEN'' then [''subject_not_open''] else [])
     @ (if py_get observed ''headRefOid'' \<noteq> PStr (sj_head s) then [''subject_head_moved''] else [])"

definition static_reasons :: "(string \<Rightarrow> string) \<Rightarrow> 'w remote \<Rightarrow> grant \<Rightarrow> string \<Rightarrow> string option \<Rightarrow> int \<Rightarrow> effect_row list \<Rightarrow> string list" where
  "static_reasons sha rm g operation expected now rows =
     (if operation \<notin> set FIXED_OPERATIONS then [''operation_not_fixed'']
      else if operation \<notin> set SERVED_OPERATIONS then [''operation_not_served''] else [])
     @ validate_grant sha g now (rm_epoch rm) (int (uses_of (gr_id g) rows)) (Some operation) PNone None
     @ (if expected \<noteq> None \<and> expected \<noteq> Some (sj_head (gr_subject g)) then [''expected_head_differs_from_grant''] else [])
     @ (case state_of (gr_id g) rows of
          Some r \<Rightarrow> if er_state r \<in> {Started_state, Uncertain_state} then [''prior_operation_pending_or_uncertain''] else []
        | None \<Rightarrow> [])"

text \<open>The observation made once nothing else refuses, with its reasons.\<close>

definition gate_observation :: "'w remote \<Rightarrow> grant \<Rightarrow> string \<Rightarrow> string \<Rightarrow> ('w, pydict \<times> string list) act" where
  "gate_observation rm g operation cwd =
     (if operation = ''publish_candidate'' then
        bindA (try_refused (observe_candidate rm cwd) (candidate_reasons (gr_subject g))) (\<lambda>(observed, reasons).
        case sj_target (gr_subject g) of
          Pull_request _ \<Rightarrow> if observed = [] then returnA (observed, reasons) else raiseA (E_raised (Raised ''KeyError'' ''branch''))
        | Candidate _ \<Rightarrow> returnA (observed, reasons))
      else try_refused (observe_pr rm g) (\<lambda>observed. if operation = ''merge_exact_head'' then merge_reasons (gr_subject g) observed else []))"

definition gate_verdict :: "grant \<Rightarrow> int \<Rightarrow> pydict \<times> string list \<Rightarrow> ('w, pydict) act" where
  "gate_verdict g now = (\<lambda>(observed, reasons).
     if reasons = [] then returnA observed
     else bindA (recordA Refused_state g now [(''reason_codes'', texts (sorted_set reasons)), (''observation'', PDict observed)]) (\<lambda>_.
          raiseA (E_refused (sorted_set reasons))))"

definition gate :: "(string \<Rightarrow> string) \<Rightarrow> 'w remote \<Rightarrow> grant \<Rightarrow> string \<Rightarrow> string option \<Rightarrow> string \<Rightarrow> ('w, pydict) act" where
  "gate sha rm g operation expected cwd =
     bindA (callA (rm_clock rm)) (\<lambda>now.
     bindA rowsA (\<lambda>rows.
     let static = static_reasons sha rm g operation expected now rows in
     bindA (if static \<noteq> [] then returnA ([], static) else gate_observation rm g operation cwd) (gate_verdict g now)))"

section \<open>Operations\<close>

record effect_result =
  ef_state :: effect_state
  ef_grant :: string
  ef_observation :: pydict
  ef_replayed :: bool

definition result_dict :: "effect_result \<Rightarrow> pydict" where
  "result_dict r = [(''state'', PStr (state_name (ef_state r))), (''grant_id'', PStr (ef_grant r)),
     (''observation'', PDict (ef_observation r)), (''replayed'', PBool (ef_replayed r))]"

definition fresh_result :: "grant \<Rightarrow> pydict \<Rightarrow> effect_result" where
  "fresh_result g observed = \<lparr>ef_state = Observed_success, ef_grant = gr_id g, ef_observation = observed, ef_replayed = False\<rparr>"

definition observe_effect :: "(string \<Rightarrow> string) \<Rightarrow> 'w remote \<Rightarrow> grant \<Rightarrow> ('w, effect_result) act" where
  "observe_effect sha rm g =
     bindA (gate sha rm g ''observe'' None []) (\<lambda>observed.
     bindA (callA (rm_clock rm)) (\<lambda>now.
     bindA (recordA Started_state g now []) (\<lambda>_.
     bindA (recordA Observed_success g now [(''observation'', PDict observed), (''remote_call'', PBool False)]) (\<lambda>_.
     returnA (fresh_result g observed)))))"

text \<open>The replay of an observed success: the row it is answered from.\<close>

definition replay_row :: "grant \<Rightarrow> string \<Rightarrow> effect_row list \<Rightarrow> effect_row option" where
  "replay_row g operation rows =
     (case state_of (gr_id g) rows of
        Some r \<Rightarrow> if er_state r = Observed_success \<and> gr_operation (er_grant r) = operation
                     \<and> gr_request_sha (er_grant r) = gr_request_sha g then Some r else None
      | None \<Rightarrow> None)"

definition replay_result :: "grant \<Rightarrow> effect_row \<Rightarrow> effect_result" where
  "replay_result g r = \<lparr>ef_state = er_state r, ef_grant = gr_id g,
     ef_observation = (case py_get (er_fields r) ''observation'' of PDict d \<Rightarrow> d | _ \<Rightarrow> []), ef_replayed = True\<rparr>"

definition outcome_fields :: "string \<Rightarrow> string \<Rightarrow> pydict" where
  "outcome_fields remote_state detail =
     [(''remote_call'', PBool True), (''remote_state'', PStr remote_state), (''detail'', PStr detail)]"

text \<open>A remote call that changes something, with the rows its timeout and its failure leave.\<close>

definition remote_effect ::
  "'w remote \<Rightarrow> grant \<Rightarrow> remote_call \<Rightarrow> ('w \<Rightarrow> (failure + 'a) \<times> 'w) \<Rightarrow> string \<Rightarrow> string \<Rightarrow> string \<Rightarrow> ('w, 'a) act" where
  "remote_effect rm g c f unknown timed_out unverified =
     bindA (sentA (gr_id g) c) (\<lambda>_.
     bindA (callA f) (\<lambda>answer.
     case answer of
       Inr a \<Rightarrow> returnA a
     | Inl (Timed_out t) \<Rightarrow>
         bindA (record_now rm Uncertain_state g (outcome_fields unknown (timed_out @ '' timed out: '' @ take 300 t))) (\<lambda>_. raiseA E_uncertain)
     | Inl e \<Rightarrow>
         bindA (record_now rm Observed_failure g (outcome_fields unverified (failure_text 300 e))) (\<lambda>_. raiseA (E_raised e))))"

definition stop_gate :: "'w remote \<Rightarrow> grant \<Rightarrow> ('w, unit) act" where
  "stop_gate rm g =
     bindA (callA (rm_stop rm)) (\<lambda>answer.
     case answer of
       Inr _ \<Rightarrow> returnA ()
     | Inl e \<Rightarrow>
         bindA (record_now rm Observed_failure g [(''remote_call'', PBool False), (''remote_state'', PStr ''not_called''),
           (''detail'', PStr (''control changed before the call: '' @ failure_text 300 e))]) (\<lambda>_. raiseA (E_raised e)))"

definition created_observation :: "pyval \<Rightarrow> string \<Rightarrow> pydict" where
  "created_observation created branch =
     [(''pr_number'', py_field created ''number''), (''headRefOid'', py_field created ''headRefOid''),
      (''baseRefOid'', py_field created ''baseRefOid''), (''state'', py_field created ''state''),
      (''url'', py_field created ''url''), (''branch'', PStr branch)]"

definition publish_started ::
  "(string \<Rightarrow> string) \<Rightarrow> 'w remote \<Rightarrow> grant \<Rightarrow> string \<Rightarrow> string \<Rightarrow> string \<Rightarrow> ('w, effect_result) act" where
  "publish_started sha rm g base title body_file =
     bindA (stop_gate rm g) (\<lambda>_.
     let branch = (case sj_target (gr_subject g) of Candidate b \<Rightarrow> b | _ \<Rightarrow> []); head = sj_head (gr_subject g) in
     bindA (remote_effect rm g (Push_call branch head) (rm_push rm branch) ''push_unknown'' ''push'' ''push_unverified'') (\<lambda>_.
     bindA (remote_effect rm g (Create_call branch base) (rm_create rm branch base title body_file)
              ''pushed_pr_unknown'' ''PR creation'' ''pushed_pr_unverified'') (\<lambda>created.
     let observation = created_observation created branch in
     if \<not> (case py_get observation ''pr_number'' of PInt n \<Rightarrow> 0 < n | _ \<Rightarrow> False) then
       bindA (record_now rm Uncertain_state g (outcome_fields ''pushed_pr_unobserved'' ''PR creation returned no number''
                @ [(''observation'', PDict observation)])) (\<lambda>_. raiseA E_uncertain)
     else if py_get observation ''headRefOid'' \<notin> {PNone, PStr head} then
       bindA (record_now rm Observed_failure g (outcome_fields ''pr_at_other_head''
                (''created PR head '' @ py_string (py_get observation ''headRefOid'') @ '' is not the granted head'')
                @ [(''observation'', PDict observation)])) (\<lambda>_. raiseA (E_refused [''created_pr_head_differs'']))
     else
       bindA (record_now rm Observed_success g [(''remote_call'', PBool True), (''remote_state'', PStr ''published''),
                (''observation'', PDict observation), (''observation_sha256'', PStr (sha256_value sha (PDict observation)))]) (\<lambda>_.
       returnA (fresh_result g observation)))))"

definition publish_candidate ::
  "(string \<Rightarrow> string) \<Rightarrow> 'w remote \<Rightarrow> grant \<Rightarrow> string \<Rightarrow> pyval \<Rightarrow> string \<Rightarrow> string \<Rightarrow> ('w, effect_result) act" where
  "publish_candidate sha rm g cwd base_branch title body_file =
     bindA rowsA (\<lambda>rows.
     case replay_row g ''publish_candidate'' rows of
       Some r \<Rightarrow> returnA (replay_result g r)
     | None \<Rightarrow>
       bindA (gate sha rm g ''publish_candidate'' None cwd) (\<lambda>before.
       case text_such (\<lambda>b. \<not> blank b \<and> take 1 b \<noteq> ''-'') base_branch of
         None \<Rightarrow>
           bindA (record_now rm Refused_state g [(''reason_codes'', texts [''base_branch_invalid'']), (''observation'', PDict before)])
             (\<lambda>_. raiseA (E_refused [''base_branch_invalid'']))
       | Some base \<Rightarrow>
         bindA (record_now rm Started_state g [(''observation'', PDict before)]) (\<lambda>_.
         publish_started sha rm g base title body_file)))"

definition merged_now :: "pydict \<Rightarrow> bool" where
  "merged_now observed \<longleftrightarrow> py_get observed ''state'' = PStr ''MERGED'' \<or> py_truthy (py_get observed ''mergedAt'')
     \<or> py_truthy (py_get observed ''mergeCommit'')"

text \<open>The observation after the merge: whatever it raises leaves the effect uncertain.\<close>

definition observe_after :: "'w remote \<Rightarrow> grant \<Rightarrow> ('w, pydict) act" where
  "observe_after rm g = (\<lambda>s. case observe_pr rm g s of
     (Inr observed, t) \<Rightarrow> (Inr observed, t)
   | (Inl e, t) \<Rightarrow>
       let detail = (case e of E_refused rs \<Rightarrow> ''EffectRefused: '' @ take 300 (''effect refused: '' @ join_text '','' rs @ '' (PR view returned no record)'')
                     | E_raised x \<Rightarrow> failure_text 300 x | E_uncertain \<Rightarrow> []) in
       bindA (record_now rm Uncertain_state g (outcome_fields ''returned_unobserved'' (''observation failed: '' @ detail)))
         (\<lambda>_. raiseA E_uncertain) t)"

definition merge_started :: "(string \<Rightarrow> string) \<Rightarrow> 'w remote \<Rightarrow> grant \<Rightarrow> ('w, effect_result) act" where
  "merge_started sha rm g =
     bindA (stop_gate rm g) (\<lambda>_.
     let head = sj_head (gr_subject g); number = (case sj_target (gr_subject g) of Pull_request n \<Rightarrow> n | _ \<Rightarrow> 0) in
     bindA (remote_effect rm g (Merge_call number head) (rm_merge rm number head) ''unknown'' ''merge call'' ''unverified'') (\<lambda>_.
     bindA (observe_after rm g) (\<lambda>observed.
     bindA (record_now rm Observed_success g [(''remote_call'', PBool True),
       (''remote_state'', PStr (if merged_now observed then ''merged'' else ''returned_not_yet_visible'')),
       (''observation'', PDict observed), (''observation_sha256'', PStr (sha256_value sha (PDict observed)))]) (\<lambda>_.
     returnA (fresh_result g observed)))))"

definition merge_exact_head :: "(string \<Rightarrow> string) \<Rightarrow> 'w remote \<Rightarrow> grant \<Rightarrow> string \<Rightarrow> ('w, effect_result) act" where
  "merge_exact_head sha rm g expected =
     bindA rowsA (\<lambda>rows.
     case (if expected = sj_head (gr_subject g) then replay_row g ''merge_exact_head'' rows else None) of
       Some r \<Rightarrow> returnA (replay_result g r)
     | None \<Rightarrow>
       bindA (gate sha rm g ''merge_exact_head'' (Some expected) []) (\<lambda>before.
       bindA (record_now rm Started_state g [(''observation'', PDict before)]) (\<lambda>_. merge_started sha rm g)))"

end
