(* ===== verification/Broker_Properties.thy ===== *)
theory Broker_Properties
  imports Effect_Broker
begin

text \<open>
  What a grant promises, and what the broker does with it.
\<close>

section \<open>Gates that hold\<close>

lemma text_such_eq: "text_such P v = Some s \<longleftrightarrow> v = PStr s \<and> P s"
  by (cases v) (auto simp: text_such_def)

lemma text_gate_Nil: "text_gate P v r = [] \<longleftrightarrow> (\<exists>s. v = PStr s \<and> P s)"
  by (cases v) (auto simp: text_gate_def text_such_def)

lemma count_gate_Nil: "count_gate least v r = [] \<longleftrightarrow> (\<exists>n. v = PInt n \<and> least \<le> n)"
  by (cases v) (auto simp: count_gate_def)

lemma role_gate_Nil:
  assumes "role_gate roles role (PStr operation) = Some []" and "operation \<in> set FIXED_OPERATIONS"
  shows "\<exists>r rs v ops. role = PStr r \<and> r \<in> set ROLES \<and> roles = PDict rs \<and> map_of rs r = Some v \<and> operations_of v = Some ops
    \<and> PStr operation \<in> set ops"
  using assms by (auto simp: role_gate_def Let_def split: pyval.splits option.splits if_splits)

lemma evidence_gate_Nil:
  "evidence_gate s evidence = [] \<longleftrightarrow> (\<exists>e. evidence = PDict e) \<and> py_field evidence ''head_sha'' = PStr (sj_head s)
     \<and> py_field evidence ''base_sha'' = PStr (sj_base s) \<and> py_field evidence ''head_tree_sha'' = PStr (sj_tree s)
     \<and> py_field evidence ''evidence_sha256'' = PStr (sj_evidence s)"
  by (cases evidence) (auto simp: evidence_gate_def py_field_def)

lemma lease_gate_Nil:
  assumes "lease_gate policy (PStr operation) subject lease = Some []" and "operation \<in> set FIXED_OPERATIONS"
    and "exact_subject subject = Some s"
  shows "lease = PNone \<and> py_field policy ''legacy_serial_route'' = PBool True
    \<or> (\<exists>d. lease = PDict d \<and> set (map PStr (resources_for operation s)) \<subseteq> set (py_items (py_field lease ''resources'')))"
  using assms by (cases lease) (auto simp: lease_gate_def Let_def py_string_def list_all_iff py_dict_def split: if_splits)

definition subject_ok :: "subject \<Rightarrow> bool" where
  "subject_ok s \<longleftrightarrow> owner_name (sj_repository s)
     \<and> (case sj_target s of Pull_request n \<Rightarrow> 0 < n | Candidate b \<Rightarrow> candidate_branch b)
     \<and> oid_text (sj_head s) \<and> oid_text (sj_base s) \<and> oid_text (sj_tree s) \<and> hex_text 64 (sj_evidence s)"

definition target_kind :: "target \<Rightarrow> string" where
  "target_kind t = (case t of Pull_request _ \<Rightarrow> ''pull-request'' | Candidate _ \<Rightarrow> ''candidate'')"

lemma fields_differ: "set CANDIDATE_FIELDS \<noteq> set SUBJECT_FIELDS"
proof
  assume "set CANDIDATE_FIELDS = set SUBJECT_FIELDS"
  moreover have "''branch'' \<in> set CANDIDATE_FIELDS" by (simp add: CANDIDATE_FIELDS_def)
  moreover have "''branch'' \<notin> set SUBJECT_FIELDS" by (simp add: SUBJECT_FIELDS_def)
  ultimately show False by blast
qed

lemma subject_dict_keys:
  "map fst (subject_dict s) = (case sj_target s of Pull_request _ \<Rightarrow> SUBJECT_FIELDS | Candidate _ \<Rightarrow> CANDIDATE_FIELDS)"
  by (simp add: subject_dict_def SUBJECT_FIELDS_def CANDIDATE_FIELDS_def split: target.split)

lemma subject_dict_kind: "subject_kind (PDict (subject_dict s)) = Some (target_kind (sj_target s))"
  by (simp add: subject_kind_def subject_dict_keys SUBJECT_KINDS_def target_kind_def fields_differ fields_differ [symmetric] split: target.split)

lemma exact_target_ok:
  "exact_target kind v = Some t \<Longrightarrow> (case t of Pull_request n \<Rightarrow> 0 < n | Candidate b \<Rightarrow> candidate_branch b)
     \<and> (kind = ''pull-request'' \<longleftrightarrow> target_kind t = ''pull-request'')"
  by (cases "py_field v ''pr_number''") (auto simp: exact_target_def text_such_eq target_kind_def split: if_splits)

lemma exact_subject_ok: "exact_subject v = Some s \<Longrightarrow> subject_ok s"
  unfolding exact_subject_def bind_eq_Some_conv text_such_eq subject_ok_def
  by (elim exE conjE) (drule exact_target_ok, force)

lemma subject_dict_fields:
  "py_field (PDict (subject_dict s)) ''repository'' = PStr (sj_repository s)"
  "py_field (PDict (subject_dict s)) ''pr_number'' = (case sj_target s of Pull_request n \<Rightarrow> PInt n | Candidate _ \<Rightarrow> PNone)"
  "py_field (PDict (subject_dict s)) ''branch'' = (case sj_target s of Pull_request _ \<Rightarrow> PNone | Candidate b \<Rightarrow> PStr b)"
  "py_field (PDict (subject_dict s)) ''head_sha'' = PStr (sj_head s)"
  "py_field (PDict (subject_dict s)) ''base_sha'' = PStr (sj_base s)"
  "py_field (PDict (subject_dict s)) ''head_tree_sha'' = PStr (sj_tree s)"
  "py_field (PDict (subject_dict s)) ''evidence_sha256'' = PStr (sj_evidence s)"
  by (cases "sj_target s"; simp add: py_field_dict subject_dict_def)+

lemma exact_subject_dict: "subject_ok s \<Longrightarrow> exact_subject (PDict (subject_dict s)) = Some s"
  by (cases "sj_target s") (auto simp: exact_subject_def subject_dict_kind target_kind_def exact_target_def subject_ok_def
      subject_dict_fields text_such_def)

section \<open>Grants\<close>

lemma authorize_granted:
  assumes "authorize sha request subject policy evidence lease budget now = Granted g"
  obtains s operation n ttl uses epoch where "exact_subject subject = Some s" and "py_field request ''operation'' = PStr operation"
    and "operation \<in> set FIXED_OPERATIONS" and "now = PInt n" and "0 \<le> n"
    and "py_field policy ''grant_ttl_seconds'' = PInt ttl" and "0 < ttl" and "py_field policy ''max_uses'' = PInt uses" and "1 \<le> uses"
    and "py_field policy ''revocation_epoch'' = PStr epoch"
    and "role_gate (py_field policy ''roles'') (py_field request ''caller_role'') (PStr operation) = Some []"
    and "lease_gate policy (PStr operation) subject lease = Some []"
    and "map_of OPERATION_SUBJECT_KIND operation = Some (target_kind (sj_target s))" and "evidence_gate s evidence = []"
    and "g = grant_for sha request s policy lease n"
proof -
  let ?o = "py_field request ''operation''"
  let ?roles = "if py_dict policy = None \<or> \<not> py_has (the (py_dict policy)) ''roles'' then PDict [] else py_field policy ''roles''"
  obtain s where s: "exact_subject subject = Some s" and fixed: "?o \<in> set (map PStr FIXED_OPERATIONS)"
    and role: "role_gate ?roles (py_field request ''caller_role'') ?o = Some []" and lease: "lease_gate policy ?o subject lease = Some []"
    and gates: "subject_gate ?o subject evidence = []" "count_gate 1 (py_field policy ''grant_ttl_seconds'') ''policy_ttl_invalid'' = []"
      "count_gate 1 (py_field policy ''max_uses'') ''policy_max_uses_invalid'' = []"
      "text_gate (\<lambda>s. s \<noteq> []) (py_field policy ''revocation_epoch'') ''policy_epoch_invalid'' = []"
      "count_gate 0 now ''clock_invalid'' = []"
    and g: "g = grant_for sha request s policy lease (py_int now)"
    using assms by (auto simp: authorize_def Let_def split: option.splits list.splits if_splits)
  from fixed obtain operation where o: "?o = PStr operation" "operation \<in> set FIXED_OPERATIONS" by auto
  have "?roles = py_field policy ''roles''"
  proof (rule ccontr)
    assume "\<not> ?thesis"
    then have "?roles = PDict []" by (auto split: if_splits)
    with role_gate_Nil [of "?roles" _ operation] role o show False by auto
  qed
  with role have roles: "role_gate (py_field policy ''roles'') (py_field request ''caller_role'') (PStr operation) = Some []"
    using o by simp
  have kind: "map_of OPERATION_SUBJECT_KIND operation = Some (target_kind (sj_target s))" and ev: "evidence_gate s evidence = []"
    using gates(1) o s by (auto simp: subject_gate_def py_string_def subject_dict_kind split: if_splits)
  from gates(2-5) obtain ttl uses epoch n where "py_field policy ''grant_ttl_seconds'' = PInt ttl" "1 \<le> ttl"
    "py_field policy ''max_uses'' = PInt uses" "1 \<le> uses" "py_field policy ''revocation_epoch'' = PStr epoch" "now = PInt n" "0 \<le> n"
    by (auto simp: count_gate_Nil text_gate_Nil)
  with that [OF s o] roles lease kind ev g o show thesis by (auto simp: py_int_def)
qed

text \<open>C32. A grant is least authority: it is only given for a fixed operation the policy permits to the
  caller's role, on an exact subject of the operation's kind whose head, base, tree and evidence
  digest are those of the verified evidence; its resources are derived from the subject and
  covered by the lease it rides on, or the policy allows the recorded legacy route; and it expires
  after a positive time and has a positive number of uses.\<close>

theorem grant_least_authority:
  assumes "authorize sha request subject policy evidence lease budget now = Granted g"
  shows "exact_subject subject = Some (gr_subject g)
    \<and> gr_operation g \<in> set FIXED_OPERATIONS
    \<and> (\<exists>rs v ops. py_field policy ''roles'' = PDict rs \<and> map_of rs (gr_role g) = Some v \<and> operations_of v = Some ops
         \<and> PStr (gr_operation g) \<in> set ops)
    \<and> map_of OPERATION_SUBJECT_KIND (gr_operation g) = subject_kind subject
    \<and> py_field evidence ''head_sha'' = PStr (sj_head (gr_subject g)) \<and> py_field evidence ''base_sha'' = PStr (sj_base (gr_subject g))
    \<and> py_field evidence ''head_tree_sha'' = PStr (sj_tree (gr_subject g))
    \<and> py_field evidence ''evidence_sha256'' = PStr (gr_evidence g)
    \<and> gr_resources g = resources_for (gr_operation g) (gr_subject g)
    \<and> (case gr_lease g of None \<Rightarrow> py_field policy ''legacy_serial_route'' = PBool True \<and> gr_route g = ''legacy-serial-route''
       | Some d \<Rightarrow> PStr ` set (gr_resources g) \<subseteq> set (py_items (py_get d ''resources'')) \<and> gr_route g = ''lease-bundle'')
    \<and> PInt (gr_issued g) = now \<and> 0 \<le> gr_issued g \<and> gr_issued g < gr_expires g \<and> 1 \<le> gr_max_uses g"
proof -
  from assms obtain s operation n ttl uses epoch where s: "exact_subject subject = Some s" and o: "py_field request ''operation'' = PStr operation"
    "operation \<in> set FIXED_OPERATIONS" and n: "now = PInt n" "0 \<le> n" and ttl: "py_field policy ''grant_ttl_seconds'' = PInt ttl" "0 < ttl"
    and uses: "py_field policy ''max_uses'' = PInt uses" "1 \<le> uses" and epoch: "py_field policy ''revocation_epoch'' = PStr epoch"
    and role: "role_gate (py_field policy ''roles'') (py_field request ''caller_role'') (PStr operation) = Some []"
    and lease: "lease_gate policy (PStr operation) subject lease = Some []"
    and kind: "map_of OPERATION_SUBJECT_KIND operation = Some (target_kind (sj_target s))" and ev: "evidence_gate s evidence = []"
    and g: "g = grant_for sha request s policy lease n"
    by (rule authorize_granted)
  from s have "subject_kind subject = Some (target_kind (sj_target s))"
    by (auto simp: exact_subject_def bind_eq_Some_conv exact_target_def target_kind_def subject_kind_def SUBJECT_KINDS_def
        split: if_splits pyval.splits)
  moreover from role_gate_Nil [OF role o(2)] obtain r rs v ops where "py_field request ''caller_role'' = PStr r"
    "py_field policy ''roles'' = PDict rs" "map_of rs r = Some v" "operations_of v = Some ops" "PStr operation \<in> set ops" by blast
  moreover note lease_gate_Nil [OF lease o(2) s]
  ultimately show ?thesis
    using s o n ttl uses epoch kind ev
    by (auto simp: g grant_for_def Let_def evidence_gate_Nil py_string_def py_int_def py_dict_def py_field_def [of "PDict _"])
qed

section \<open>What an action may do\<close>

text \<open>An action of a started effect appends rows of its grant, none of them \<open>started\<close>, and sends a
  prefix of the given calls; a quiet one sends nothing.\<close>

definition rows_added :: "grant \<Rightarrow> 'w broker \<Rightarrow> 'w broker \<Rightarrow> bool" where
  "rows_added g s t \<longleftrightarrow> (\<exists>rs. bk_rows t = bk_rows s @ rs \<and> list_all (\<lambda>r. er_grant r = g \<and> er_state r \<noteq> Started_state) rs)"

definition emits :: "grant \<Rightarrow> remote_call list \<Rightarrow> ('w, 'a) act \<Rightarrow> bool" where
  "emits g cs m \<longleftrightarrow> (\<forall>s. rows_added g s (snd (m s))
     \<and> (\<exists>xs. prefix xs cs \<and> bk_sent (snd (m s)) = bk_sent s @ map (Pair (gr_id g)) xs))"

abbreviation quiet :: "grant \<Rightarrow> ('w, 'a) act \<Rightarrow> bool" where
  "quiet g m \<equiv> emits g [] m"

lemma rows_added_refl: "bk_rows t = bk_rows s \<Longrightarrow> rows_added g s t"
  by (simp add: rows_added_def)

lemma rows_added_trans: "rows_added g s t \<Longrightarrow> rows_added g t u \<Longrightarrow> rows_added g s u"
  unfolding rows_added_def by force

lemma quiet_iff: "quiet g m \<longleftrightarrow> (\<forall>s. rows_added g s (snd (m s)) \<and> bk_sent (snd (m s)) = bk_sent s)"
  by (simp add: emits_def)

lemma bindA_cases:
  obtains e t where "m s = (Inl e, t)" and "bindA m f s = (Inl e, t)"
  | a t where "m s = (Inr a, t)" and "bindA m f s = f a t"
  by (cases "m s"; cases "fst (m s)") (auto simp: bindA_def)

lemma bindA_Inr: "bindA m f s = (Inr y, t) \<longleftrightarrow> (\<exists>a u. m s = (Inr a, u) \<and> f a u = (Inr y, t))"
  by (auto simp: bindA_def split: prod.split sum.split)

lemma emits_bind:
  fixes m :: "('w, 'a) act"
  assumes "quiet g m" and "\<And>a. emits g cs (f a)"
  shows "emits g cs (bindA m f)"
  unfolding emits_def
proof
  fix s :: "'w broker"
  have m: "rows_added g s (snd (m s))" "bk_sent (snd (m s)) = bk_sent s" using assms(1) unfolding quiet_iff by blast+
  show "rows_added g s (snd (bindA m f s)) \<and> (\<exists>xs. prefix xs cs \<and> bk_sent (snd (bindA m f s)) = bk_sent s @ map (Pair (gr_id g)) xs)"
  proof (cases rule: bindA_cases [of m s f])
    case (1 e t)
    with m show ?thesis by (auto intro!: exI [of _ "[]"])
  next
    case (2 a t)
    with m assms(2) [of a, unfolded emits_def, rule_format, of t] show ?thesis by (auto intro: rows_added_trans)
  qed
qed

lemma quiet_prims:
  "quiet g rowsA" "quiet g (callA h)" "quiet g (returnA a)" "quiet g (raiseA e)"
  "st \<noteq> Started_state \<Longrightarrow> quiet g (recordA st g now kvs)"
  by (simp_all add: quiet_iff rowsA_def callA_def returnA_def raiseA_def recordA_def rows_added_def split: prod.split)

lemma emits_prims: "emits g cs (returnA a)" "emits g cs (raiseA e)"
  by (auto simp: emits_def returnA_def raiseA_def rows_added_def)

lemma quiet_record_now: "st \<noteq> Started_state \<Longrightarrow> quiet g (record_now rm st g kvs)"
  unfolding record_now_def by (intro emits_bind quiet_prims)

lemmas quiets = emits_bind quiet_prims quiet_record_now emits_prims

lemma emits_record: "st \<noteq> Started_state \<Longrightarrow> emits g cs (bindA (record_now rm st g kvs) (\<lambda>_. raiseA e))"
  by (rule emits_bind) (simp_all add: quiets)

lemma emits_sent:
  fixes m :: "('w, 'a) act"
  assumes "emits g cs m"
  shows "emits g (c # cs) (bindA (sentA (gr_id g) c) (\<lambda>_. m))"
  unfolding emits_def
proof
  fix s :: "'w broker"
  define u where "u = s\<lparr>bk_sent := bk_sent s @ [(gr_id g, c)]\<rparr>"
  have run: "bindA (sentA (gr_id g) c) (\<lambda>_. m) s = m u" by (simp add: bindA_def sentA_def u_def)
  from assms obtain xs where xs: "prefix xs cs" "bk_sent (snd (m u)) = bk_sent u @ map (Pair (gr_id g)) xs"
    and rows: "rows_added g u (snd (m u))" unfolding emits_def by blast
  have "prefix (c # xs) (c # cs)" "bk_sent (snd (m u)) = bk_sent s @ map (Pair (gr_id g)) (c # xs)"
    using xs by (simp_all add: u_def)
  moreover have "rows_added g s (snd (m u))" using rows by (simp add: rows_added_def u_def)
  ultimately show "rows_added g s (snd (bindA (sentA (gr_id g) c) (\<lambda>_. m) s)) \<and> (\<exists>xs. prefix xs (c # cs)
      \<and> bk_sent (snd (bindA (sentA (gr_id g) c) (\<lambda>_. m) s)) = bk_sent s @ map (Pair (gr_id g)) xs)"
    unfolding run by blast
qed

lemma emits_remote:
  assumes "\<And>a. emits g cs (f a)"
  shows "emits g (c # cs) (bindA (remote_effect rm g c h unknown timed unverified) f)"
proof -
  have "emits g cs (case answer of Inr a \<Rightarrow> f a
     | Inl (Timed_out t) \<Rightarrow>
         bindA (record_now rm Uncertain_state g (outcome_fields unknown (timed @ '' timed out: '' @ take 300 t))) (\<lambda>_. raiseA E_uncertain)
     | Inl e \<Rightarrow> bindA (record_now rm Observed_failure g (outcome_fields unverified (failure_text 300 e))) (\<lambda>_. raiseA (E_raised e)))" for answer
    using assms by (auto simp: emits_record split: sum.split failure.split)
  then have rest: "emits g cs (bindA (callA h) (\<lambda>answer. case answer of Inr a \<Rightarrow> f a
     | Inl (Timed_out t) \<Rightarrow>
         bindA (record_now rm Uncertain_state g (outcome_fields unknown (timed @ '' timed out: '' @ take 300 t))) (\<lambda>_. raiseA E_uncertain)
     | Inl e \<Rightarrow> bindA (record_now rm Observed_failure g (outcome_fields unverified (failure_text 300 e))) (\<lambda>_. raiseA (E_raised e))))"
    (is "emits g cs ?rest") by (intro emits_bind quiet_prims)
  have "bindA (remote_effect rm g c h unknown timed unverified) f = bindA (sentA (gr_id g) c) (\<lambda>_. ?rest)"
    by (rule ext) (simp add: remote_effect_def bindA_def sentA_def callA_def returnA_def raiseA_def record_now_def recordA_def
        split: prod.split sum.split failure.split)
  moreover have "emits g (c # cs) (bindA (sentA (gr_id g) c) (\<lambda>_. ?rest))" using rest by (rule emits_sent)
  ultimately show ?thesis by simp
qed

lemma quiet_stop: "quiet g (stop_gate rm g)"
  unfolding stop_gate_def
  by (intro emits_bind quiet_prims) (auto simp: quiets split: sum.split)

lemma quiet_observe_pr: "quiet g (observe_pr rm g')"
  unfolding observe_pr_def
  by (auto simp: quiets split: target.split sum.split pyval.split intro!: emits_bind quiet_prims)

lemma quiet_observe_after: "quiet g (observe_after (rm :: 'w remote) g)"
  unfolding quiet_iff
proof
  fix s :: "'w broker"
  have obs: "rows_added g s (snd (observe_pr rm g s)) \<and> bk_sent (snd (observe_pr rm g s)) = bk_sent s"
    using quiet_observe_pr unfolding quiet_iff by blast
  have "quiet g (bindA (record_now rm Uncertain_state g kvs) (\<lambda>_. raiseA E_uncertain) :: ('w, pydict) act)" for kvs
    by (rule emits_record) simp
  then have "rows_added g u (snd (bindA (record_now rm Uncertain_state g kvs) (\<lambda>_. raiseA E_uncertain :: ('w, pydict) act) u))
      \<and> bk_sent (snd (bindA (record_now rm Uncertain_state g kvs) (\<lambda>_. raiseA E_uncertain :: ('w, pydict) act) u)) = bk_sent u" for kvs u
    unfolding quiet_iff by blast
  with obs show "rows_added g s (snd (observe_after rm g s)) \<and> bk_sent (snd (observe_after rm g s)) = bk_sent s"
    by (auto simp: observe_after_def Let_def split: prod.splits sum.splits intro: rows_added_trans)
qed

section \<open>The gate\<close>

definition silent :: "('w, 'a) act \<Rightarrow> bool" where
  "silent m \<longleftrightarrow> (\<forall>s. bk_rows (snd (m s)) = bk_rows s \<and> bk_sent (snd (m s)) = bk_sent s)"

lemma silent_quiet: "silent m \<Longrightarrow> quiet g m"
  by (simp add: silent_def quiet_iff rows_added_refl)

lemma silent_bind:
  assumes "silent m" and "\<And>a. silent (f a)"
  shows "silent (bindA m f)"
  unfolding silent_def
proof
  fix s
  show "bk_rows (snd (bindA m f s)) = bk_rows s \<and> bk_sent (snd (bindA m f s)) = bk_sent s"
    using assms unfolding silent_def by (cases rule: bindA_cases [of m s f]) (metis snd_conv)+
qed

lemma silent_prims: "silent rowsA" "silent (callA h)" "silent (returnA a)" "silent (raiseA e)"
  by (simp_all add: silent_def rowsA_def callA_def returnA_def raiseA_def split: prod.split)

lemma silent_observe_pr: "silent (observe_pr rm g)"
  unfolding observe_pr_def
  by (auto simp: silent_prims split: target.split sum.split pyval.split intro!: silent_bind)

lemma silent_git_read: "silent (git_read git args cwd)"
  unfolding git_read_def by (auto simp: silent_prims split: sum.split intro!: silent_bind)

lemma silent_observe_candidate: "silent (observe_candidate rm cwd)"
  unfolding observe_candidate_def
  by (auto simp: silent_prims silent_git_read split: option.split intro!: silent_bind)

lemma silent_try: "silent m \<Longrightarrow> silent (try_refused m check)"
  unfolding silent_def try_refused_def by (auto split: prod.split sum.split effect_error.split) (metis snd_conv)+

lemma try_refused_Inr:
  assumes "try_refused m check s = (Inr (observed, []), t)" and "m s \<noteq> (Inl (E_refused []), t)"
  shows "m s = (Inr observed, t) \<and> check observed = []"
  using assms by (auto simp: try_refused_def split: prod.splits sum.splits effect_error.splits)

lemma silent_gate_observation: "silent (gate_observation rm g operation cwd)"
  unfolding gate_observation_def
  by (auto simp: silent_try silent_observe_pr silent_observe_candidate silent_prims split: target.split intro!: silent_bind)

lemma bindA_call: "bindA (callA h) f s = (case h (bk_world s) of (a, w) \<Rightarrow> f a (s\<lparr>bk_world := w\<rparr>))"
  by (simp add: bindA_def callA_def split: prod.split)

lemma bindA_rows: "bindA rowsA f s = f (bk_rows s) s"
  by (simp add: bindA_def rowsA_def)

lemma bindA_return: "bindA (returnA a) f s = f a s"
  by (simp add: bindA_def returnA_def)

lemma quiet_verdict: "quiet g (gate_verdict g now x)"
  by (cases x) (auto simp: gate_verdict_def quiets intro!: emits_bind)

lemma quiet_gate: "quiet g (gate sha rm g operation expected cwd)"
  unfolding gate_def
  by (auto simp: Let_def quiet_prims quiet_verdict silent_quiet silent_gate_observation intro!: emits_bind)

lemma verdict_Inr: "gate_verdict g now x s = (Inr observed, t) \<longleftrightarrow> x = (observed, []) \<and> t = s"
  by (cases x) (auto simp: gate_verdict_def returnA_def raiseA_def bindA_def recordA_def)

lemma gate_Inr:
  assumes "gate sha rm g operation expected cwd s = (Inr observed, t)"
  obtains now u where "static_reasons sha rm g operation expected now (bk_rows s) = []" and "bk_rows t = bk_rows s"
    and "bk_sent t = bk_sent s" and "gate_observation rm g operation cwd u = (Inr (observed, []), t)"
proof -
  obtain now w where c: "rm_clock rm (bk_world s) = (now, w)" by (cases "rm_clock rm (bk_world s)")
  let ?s = "s\<lparr>bk_world := w\<rparr>"
  let ?static = "static_reasons sha rm g operation expected now (bk_rows s)"
  have run: "bindA (if ?static \<noteq> [] then returnA ([], ?static) else gate_observation rm g operation cwd) (gate_verdict g now) ?s
      = (Inr observed, t)"
    using assms by (simp add: gate_def bindA_call bindA_rows c Let_def cong: if_cong)
  have static: "?static = []" using run by (auto simp: bindA_return verdict_Inr split: if_splits)
  with run have obs: "bindA (gate_observation rm g operation cwd) (gate_verdict g now) ?s = (Inr observed, t)" by simp
  then have run': "gate_observation rm g operation cwd ?s = (Inr (observed, []), t)"
    by (auto simp: bindA_Inr verdict_Inr)
  moreover have "bk_rows (snd (gate_observation rm g operation cwd ?s)) = bk_rows ?s \<and> bk_sent (snd (gate_observation rm g operation cwd ?s)) = bk_sent ?s"
    using silent_gate_observation unfolding silent_def by blast
  then have "bk_rows t = bk_rows s" "bk_sent t = bk_sent s" unfolding run' by simp_all
  ultimately show thesis using static that by blast
qed

lemma gate_refuses:
  assumes "\<And>now. static_reasons sha rm g operation expected now (bk_rows s) \<noteq> []"
  obtains rs t where "gate sha rm g operation expected cwd s = (Inl (E_refused rs), t)" and "bk_sent t = bk_sent s"
    and "\<exists>r. bk_rows t = bk_rows s @ [r] \<and> er_state r = Refused_state \<and> er_grant r = g"
proof -
  obtain now w where c: "rm_clock rm (bk_world s) = (now, w)" by (cases "rm_clock rm (bk_world s)")
  show thesis
    using assms [of now] that
    by (simp add: gate_def bindA_call bindA_rows c Let_def bindA_return) (simp add: gate_verdict_def bindA_def recordA_def raiseA_def)
qed

lemma gate_merge:
  assumes "gate_observation rm g ''merge_exact_head'' cwd u = (Inr (observed, []), t)"
  shows "\<exists>n. sj_target (gr_subject g) = Pull_request n" and "merge_reasons (gr_subject g) observed = []"
proof -
  have "observe_pr rm g u \<noteq> (Inl (E_refused []), t)"
    by (auto simp: observe_pr_def bindA_def callA_def raiseA_def returnA_def split: target.splits prod.splits sum.splits pyval.splits)
  with try_refused_Inr [of "observe_pr rm g" "merge_reasons (gr_subject g)" u observed t] assms
  have run: "observe_pr rm g u = (Inr observed, t)" and "merge_reasons (gr_subject g) observed = []"
    by (simp_all add: gate_observation_def)
  then show "merge_reasons (gr_subject g) observed = []" by simp
  from run show "\<exists>n. sj_target (gr_subject g) = Pull_request n"
    by (cases "sj_target (gr_subject g)") (simp_all add: observe_pr_def raiseA_def)
qed

lemma git_read_error: "git_read git args cwd s = (Inl e, t) \<Longrightarrow> e = E_refused [''candidate_unobservable'']"
  by (auto simp: git_read_def bindA_call raiseA_def returnA_def split: prod.splits sum.splits)

lemma candidate_error:
  assumes "observe_candidate rm cwd s = (Inl e, t)"
  shows "e = E_refused [''candidate_unobservable'']"
proof -
  have bind: "e = E_refused [''candidate_unobservable'']" if "bindA (git_read git args cwd) f s = (Inl e, t)"
    and "\<And>a t'. f a t' = (Inl e, t) \<Longrightarrow> e = E_refused [''candidate_unobservable'']" for git args f s
    using that by (cases rule: bindA_cases [of "git_read git args cwd" s f]) (auto dest: git_read_error)
  show ?thesis
  proof (cases "rm_git rm")
    case None
    with assms show ?thesis by (simp add: observe_candidate_def raiseA_def)
  next
    case (Some git)
    from assms have run: "bindA (git_read git [''rev-parse'', ''HEAD''] cwd) (\<lambda>head.
          bindA (git_read git [''rev-parse'', ''HEAD^{tree}''] cwd) (\<lambda>tree.
          bindA (git_read git [''branch'', ''--show-current''] cwd) (\<lambda>branch.
          bindA (git_read git [''status'', ''--porcelain''] cwd) (\<lambda>status.
          returnA [(''head_sha'', PStr head), (''head_tree_sha'', PStr tree), (''branch'', PStr branch),
                   (''dirty'', PBool (status \<noteq> []))])))) s = (Inl e, t)"
      by (simp add: observe_candidate_def Some)
    show ?thesis by (rule bind [OF run], erule bind, erule bind, erule bind, simp add: returnA_def)
  qed
qed

lemma gate_publish:
  assumes "gate_observation rm g ''publish_candidate'' cwd u = (Inr (observed, []), t)"
  shows "\<exists>b. sj_target (gr_subject g) = Candidate b" and "candidate_reasons (gr_subject g) observed = []"
proof -
  let ?m = "try_refused (observe_candidate rm cwd) (candidate_reasons (gr_subject g))"
  from assms obtain x v where m: "?m u = (Inr x, v)"
    and rest: "(case x of (observed, reasons) \<Rightarrow> case sj_target (gr_subject g) of
          Pull_request _ \<Rightarrow> if observed = [] then returnA (observed, reasons) else raiseA (E_raised (Raised ''KeyError'' ''branch''))
        | Candidate _ \<Rightarrow> returnA (observed, reasons)) v = (Inr (observed, []), t)"
    by (auto simp: gate_observation_def bindA_Inr)
  from rest have x: "x = (observed, [])" "v = t"
    by (auto simp: returnA_def raiseA_def split: target.splits if_splits prod.splits)
  have "observe_candidate rm cwd u \<noteq> (Inl (E_refused []), t)" by (auto dest: candidate_error)
  from try_refused_Inr [OF m [unfolded x] this]
  have run: "observe_candidate rm cwd u = (Inr observed, t)" and ok: "candidate_reasons (gr_subject g) observed = []" by simp_all
  then show "candidate_reasons (gr_subject g) observed = []" by simp
  from ok show "\<exists>b. sj_target (gr_subject g) = Candidate b"
    by (cases "sj_target (gr_subject g)") (simp_all add: candidate_reasons_def)
qed

section \<open>The operations\<close>

text \<open>What an operation on grant \<open>g\<close> may do: stay quiet, or append one started row whose
  fields satisfy \<open>P\<close> after every static reason is absent, then rows and a prefix of \<open>cs\<close>.\<close>

definition effect_step ::
  "(string \<Rightarrow> string) \<Rightarrow> 'w remote \<Rightarrow> grant \<Rightarrow> string \<Rightarrow> (pydict \<Rightarrow> bool) \<Rightarrow> remote_call list \<Rightarrow> 'w broker \<Rightarrow> 'w broker \<Rightarrow> bool" where
  "effect_step sha rm g operation P cs s t \<longleftrightarrow>
     rows_added g s t \<and> bk_sent t = bk_sent s
     \<or> (\<exists>now expected r rs xs. static_reasons sha rm g operation expected now (bk_rows s) = []
          \<and> bk_rows t = bk_rows s @ r # rs \<and> er_state r = Started_state \<and> er_grant r = g \<and> P (er_fields r)
          \<and> list_all (\<lambda>r. er_grant r = g \<and> er_state r \<noteq> Started_state) rs
          \<and> prefix xs cs \<and> bk_sent t = bk_sent s @ map (Pair (gr_id g)) xs)"

lemma effect_step_quiet: "quiet g m \<Longrightarrow> effect_step sha rm g operation P cs s (snd (m s))"
  by (auto simp: effect_step_def quiet_iff)

lemma effect_step_same:
  assumes "quiet g m" and "bk_rows u = bk_rows s" and "bk_sent u = bk_sent s"
  shows "effect_step sha rm g operation P cs s (snd (m u))"
proof -
  have "rows_added g u (snd (m u)) \<and> bk_sent (snd (m u)) = bk_sent u" using assms(1) unfolding quiet_iff by blast
  with assms(2,3) show ?thesis by (simp add: effect_step_def rows_added_def)
qed

lemma effect_step_started:
  fixes f :: "('w, 'a) act"
  assumes "gate sha rm g operation expected cwd s = (Inr observed, t)" and "emits g cs f" and "P kvs"
  shows "effect_step sha rm g operation P cs s (snd (bindA (recordA Started_state g now kvs) (\<lambda>_. f) (t\<lparr>bk_world := w\<rparr>)))"
proof -
  from assms(1) obtain n u where static: "static_reasons sha rm g operation expected n (bk_rows s) = []"
    and same: "bk_rows t = bk_rows s" "bk_sent t = bk_sent s" by (rule gate_Inr)
  define r where "r = \<lparr>er_state = Started_state, er_at = now, er_grant = g, er_fields = kvs\<rparr>"
  define v where "v = t\<lparr>bk_world := w, bk_rows := bk_rows s @ [r]\<rparr>"
  have run: "bindA (recordA Started_state g now kvs) (\<lambda>_. f) (t\<lparr>bk_world := w\<rparr>) = f v"
    by (simp add: bindA_def recordA_def v_def r_def same)
  obtain xs where xs: "prefix xs cs" "bk_sent (snd (f v)) = bk_sent v @ map (Pair (gr_id g)) xs" and rows: "rows_added g v (snd (f v))"
    using assms(2) unfolding emits_def by blast
  then obtain rs where rs: "bk_rows (snd (f v)) = bk_rows s @ r # rs" "list_all (\<lambda>r. er_grant r = g \<and> er_state r \<noteq> Started_state) rs"
    by (auto simp: rows_added_def v_def)
  have "er_state r = Started_state \<and> er_grant r = g \<and> P (er_fields r)" using assms(3) by (simp add: r_def)
  moreover have "bk_sent (snd (f v)) = bk_sent s @ map (Pair (gr_id g)) xs" using xs(2) same by (simp add: v_def)
  ultimately show ?thesis unfolding effect_step_def run using static rs xs(1) by blast
qed

lemma effect_step_record_now:
  assumes "gate sha rm g operation expected cwd s = (Inr observed, t)" and "emits g cs f" and "P kvs"
  shows "effect_step sha rm g operation P cs s (snd (bindA (record_now rm Started_state g kvs) (\<lambda>_. f) t))"
proof -
  obtain now w where "rm_clock rm (bk_world t) = (now, w)" by (cases "rm_clock rm (bk_world t)")
  then have "bindA (record_now rm Started_state g kvs) (\<lambda>_. f) t = bindA (recordA Started_state g now kvs) (\<lambda>_. f) (t\<lparr>bk_world := w\<rparr>)"
    by (simp add: record_now_def bindA_def callA_def recordA_def)
  then show ?thesis using effect_step_started [where P = P, OF assms] by simp
qed

lemma quiet_final: "emits g cs (bindA (record_now rm Observed_success g kvs) (\<lambda>_. returnA x))"
  by (intro emits_bind) (simp_all add: quiets)

text \<open>A gated operation: the gate, then either a quiet refusal or a start followed by \<open>f\<close>.\<close>

lemma gated_step:
  fixes f :: "pydict \<Rightarrow> ('w, 'a) act"
  assumes "\<And>observed u. gate sha rm g operation expected cwd s = (Inr observed, u) \<Longrightarrow>
      effect_step sha rm g operation P cs s (snd (f observed u))"
  shows "effect_step sha rm g operation P cs s (snd (bindA (gate sha rm g operation expected cwd) f s))"
proof (cases rule: bindA_cases [of "gate sha rm g operation expected cwd" s f])
  case (1 e t)
  then have "snd (bindA (gate sha rm g operation expected cwd) f s) = snd (gate sha rm g operation expected cwd s)" by simp
  then show ?thesis using effect_step_quiet [OF quiet_gate, of sha rm g operation P cs s] by metis
next
  case (2 observed t)
  with assms show ?thesis by simp
qed

definition merge_call :: "subject \<Rightarrow> remote_call" where
  "merge_call s = Merge_call (case sj_target s of Pull_request n \<Rightarrow> n | _ \<Rightarrow> 0) (sj_head s)"

definition merge_fields :: "grant \<Rightarrow> pydict \<Rightarrow> bool" where
  "merge_fields g kvs \<longleftrightarrow> (\<exists>n. sj_target (gr_subject g) = Pull_request n) \<and> py_field (py_get kvs ''observation'') ''state'' = PStr ''OPEN''
     \<and> py_field (py_get kvs ''observation'') ''headRefOid'' = PStr (sj_head (gr_subject g))"

lemma emits_merge: "emits g [merge_call (gr_subject g)] (merge_started sha rm g)"
  unfolding merge_started_def Let_def merge_call_def
  by (intro emits_bind quiet_stop emits_remote quiet_observe_after quiet_final)

lemma merge_step:
  "effect_step sha rm g ''merge_exact_head'' (merge_fields g) [merge_call (gr_subject g)] s (snd (merge_exact_head sha rm g expected s))"
proof (cases "if expected = sj_head (gr_subject g) then replay_row g ''merge_exact_head'' (bk_rows s) else None")
  case (Some r)
  then have "snd (merge_exact_head sha rm g expected s) = s" by (simp add: merge_exact_head_def bindA_rows returnA_def)
  then show ?thesis by (simp add: effect_step_def rows_added_refl)
next
  case None
  show ?thesis
    unfolding merge_exact_head_def bindA_rows None option.case
  proof (rule gated_step)
    fix observed u
    assume gate: "gate sha rm g ''merge_exact_head'' (Some expected) [] s = (Inr observed, u)"
    then obtain v where "gate_observation rm g ''merge_exact_head'' [] v = (Inr (observed, []), u)" by (rule gate_Inr)
    from gate_merge [OF this] have fields: "merge_fields g [(''observation'', PDict observed)]"
      by (auto simp: merge_fields_def merge_reasons_def py_get_def py_field_def split: if_splits)
    show "effect_step sha rm g ''merge_exact_head'' (merge_fields g) [merge_call (gr_subject g)] s
       (snd (bindA (record_now rm Started_state g [(''observation'', PDict observed)]) (\<lambda>_. merge_started sha rm g) u))"
      by (rule effect_step_record_now [where P = "merge_fields g", OF gate emits_merge fields])
  qed
qed

definition base_ok :: "string \<Rightarrow> bool" where
  "base_ok b \<longleftrightarrow> \<not> blank b \<and> take 1 b \<noteq> ''-''"

definition publish_calls :: "subject \<Rightarrow> pyval \<Rightarrow> remote_call list" where
  "publish_calls s base = (case text_such base_ok base of None \<Rightarrow> [] | Some b \<Rightarrow>
     (let branch = (case sj_target s of Candidate b \<Rightarrow> b | _ \<Rightarrow> []) in [Push_call branch (sj_head s), Create_call branch b]))"

definition publish_fields :: "grant \<Rightarrow> pydict \<Rightarrow> bool" where
  "publish_fields g kvs \<longleftrightarrow> (\<exists>b. sj_target (gr_subject g) = Candidate b)
     \<and> (\<exists>observed. py_get kvs ''observation'' = PDict observed \<and> candidate_reasons (gr_subject g) observed = [])"

lemma publish_calls_ok: "base_ok b \<Longrightarrow> publish_calls s (PStr b) = (let branch = (case sj_target s of Candidate b \<Rightarrow> b | _ \<Rightarrow> []) in
     [Push_call branch (sj_head s), Create_call branch b])"
  by (simp add: publish_calls_def text_such_def)

lemma emits_publish:
  assumes "base_ok base"
  shows "emits g (publish_calls (gr_subject g) (PStr base)) (publish_started sha rm g base title body)"
  unfolding publish_started_def Let_def publish_calls_ok [OF assms]
  by (intro emits_bind quiet_stop emits_remote) (simp add: quiet_final emits_record)

lemma publish_step:
  "effect_step sha rm g ''publish_candidate'' (publish_fields g) (publish_calls (gr_subject g) base) s
     (snd (publish_candidate sha rm g cwd base title body s))"
proof (cases "replay_row g ''publish_candidate'' (bk_rows s)")
  case (Some r)
  then have "snd (publish_candidate sha rm g cwd base title body s) = s" by (simp add: publish_candidate_def bindA_rows returnA_def)
  then show ?thesis by (simp add: effect_step_def rows_added_refl)
next
  case None
  show ?thesis
    unfolding publish_candidate_def bindA_rows None option.case
  proof (rule gated_step)
    fix observed u
    assume gate: "gate sha rm g ''publish_candidate'' None cwd s = (Inr observed, u)"
    then obtain now v where obs: "gate_observation rm g ''publish_candidate'' cwd v = (Inr (observed, []), u)"
      and same: "bk_rows u = bk_rows s" "bk_sent u = bk_sent s" by (rule gate_Inr)
    from gate_publish [OF obs] have fields: "publish_fields g [(''observation'', PDict observed)]"
      by (auto simp: publish_fields_def py_get_def)
    let ?refuse = "bindA (record_now rm Refused_state g [(''reason_codes'', texts [''base_branch_invalid'']), (''observation'', PDict observed)])
             (\<lambda>_. raiseA (E_refused [''base_branch_invalid'']))"
    have "quiet g ?refuse" by (rule emits_record) simp
    then have "effect_step sha rm g ''publish_candidate'' (publish_fields g) (publish_calls (gr_subject g) base) s (snd (?refuse u))"
      using same by (rule effect_step_same)
    moreover have "effect_step sha rm g ''publish_candidate'' (publish_fields g) (publish_calls (gr_subject g) base) s
       (snd (bindA (record_now rm Started_state g [(''observation'', PDict observed)]) (\<lambda>_. publish_started sha rm g b title body) u))"
      if "base = PStr b" and "base_ok b" for b
      using effect_step_record_now [where P = "publish_fields g", OF gate emits_publish [OF that(2)] fields] that(1) by simp
    ultimately show "effect_step sha rm g ''publish_candidate'' (publish_fields g) (publish_calls (gr_subject g) base) s
       (snd ((case text_such (\<lambda>b. \<not> blank b \<and> take 1 b \<noteq> ''-'') base of
         None \<Rightarrow> ?refuse
       | Some base \<Rightarrow> bindA (record_now rm Started_state g [(''observation'', PDict observed)]) (\<lambda>_.
           publish_started sha rm g base title body)) u))"
      by (auto simp: text_such_eq base_ok_def split: option.split)
  qed
qed

lemma observe_step: "effect_step sha rm g ''observe'' (\<lambda>_. True) [] s (snd (observe_effect sha rm g s))"
  unfolding observe_effect_def
proof (rule gated_step)
  fix observed u
  assume gate: "gate sha rm g ''observe'' None [] s = (Inr observed, u)"
  obtain now w where clock: "rm_clock rm (bk_world u) = (now, w)" by (cases "rm_clock rm (bk_world u)")
  let ?f = "bindA (recordA Observed_success g now [(''observation'', PDict observed), (''remote_call'', PBool False)]) (\<lambda>_. returnA (fresh_result g observed))"
  have "quiet g ?f" by (intro emits_bind quiet_prims) simp
  from effect_step_started [where P = "\<lambda>_. True" and kvs = "[]" and now = now and w = w, OF gate this]
  show "effect_step sha rm g ''observe'' (\<lambda>_. True) [] s (snd (bindA (callA (rm_clock rm)) (\<lambda>now.
     bindA (recordA Started_state g now []) (\<lambda>_.
     bindA (recordA Observed_success g now [(''observation'', PDict observed), (''remote_call'', PBool False)]) (\<lambda>_.
     returnA (fresh_result g observed)))) u))"
    by (simp add: bindA_call clock)
qed

section \<open>The broker as a machine\<close>

datatype broker_cmd =
    Observe_cmd grant
  | Publish_cmd grant string pyval string string
  | Merge_cmd grant string

fun cmd_grant :: "broker_cmd \<Rightarrow> grant" where
  "cmd_grant (Observe_cmd g) = g"
| "cmd_grant (Publish_cmd g _ _ _ _) = g"
| "cmd_grant (Merge_cmd g _) = g"

fun cmd_calls :: "broker_cmd \<Rightarrow> remote_call list" where
  "cmd_calls (Observe_cmd g) = []"
| "cmd_calls (Publish_cmd g _ base _ _) = publish_calls (gr_subject g) base"
| "cmd_calls (Merge_cmd g _) = [merge_call (gr_subject g)]"

fun cmd_operation :: "broker_cmd \<Rightarrow> string" where
  "cmd_operation (Observe_cmd g) = ''observe''"
| "cmd_operation (Publish_cmd g _ _ _ _) = ''publish_candidate''"
| "cmd_operation (Merge_cmd g _) = ''merge_exact_head''"

fun cmd_fields :: "broker_cmd \<Rightarrow> pydict \<Rightarrow> bool" where
  "cmd_fields (Observe_cmd g) = (\<lambda>_. True)"
| "cmd_fields (Publish_cmd g _ _ _ _) = publish_fields g"
| "cmd_fields (Merge_cmd g _) = merge_fields g"

fun broker_exec :: "(string \<Rightarrow> string) \<Rightarrow> 'w remote \<Rightarrow> broker_cmd \<Rightarrow> ('w, effect_result) act" where
  "broker_exec sha rm (Observe_cmd g) = observe_effect sha rm g"
| "broker_exec sha rm (Publish_cmd g cwd base title body) = publish_candidate sha rm g cwd base title body"
| "broker_exec sha rm (Merge_cmd g expected) = merge_exact_head sha rm g expected"

fun broker_runs :: "(string \<Rightarrow> string) \<Rightarrow> 'w remote \<Rightarrow> broker_cmd list \<Rightarrow> 'w broker \<Rightarrow> 'w broker" where
  "broker_runs sha rm [] s = s"
| "broker_runs sha rm (c # cs) s = broker_runs sha rm cs (snd (broker_exec sha rm c s))"

lemma broker_step:
  "effect_step sha rm (cmd_grant c) (cmd_operation c) (cmd_fields c) (cmd_calls c) s (snd (broker_exec sha rm c s))"
  by (cases c) (simp_all add: observe_step publish_step merge_step)

text \<open>An invariant over the rows and the log, for every run.\<close>

lemma broker_runs_induct:
  assumes "I s"
    and "\<And>c s. c \<in> set cmds \<Longrightarrow> I s \<Longrightarrow>
      effect_step sha rm (cmd_grant c) (cmd_operation c) (cmd_fields c) (cmd_calls c) s (snd (broker_exec sha rm c s)) \<Longrightarrow>
      I (snd (broker_exec sha rm c s))"
  shows "I (broker_runs sha rm cmds s)"
  using assms
proof (induction cmds arbitrary: s)
  case Nil
  then show ?case by simp
next
  case (Cons c cs)
  have "I (snd (broker_exec sha rm c s))" by (rule Cons.prems(2) [OF _ Cons.prems(1) broker_step]) simp
  with Cons.IH Cons.prems(2) show ?case by simp
qed

definition fresh_broker :: "'w \<Rightarrow> 'w broker" where
  "fresh_broker w = \<lparr>bk_rows = [], bk_sent = [], bk_world = w\<rparr>"

fun is_merge_call :: "remote_call \<Rightarrow> bool" where
  "is_merge_call (Merge_call _ _) = True" | "is_merge_call _ = False"

fun is_push_call :: "remote_call \<Rightarrow> bool" where
  "is_push_call (Push_call _ _) = True" | "is_push_call _ = False"

fun is_create_call :: "remote_call \<Rightarrow> bool" where
  "is_create_call (Create_call _ _) = True" | "is_create_call _ = False"

definition sent_of :: "string \<Rightarrow> (remote_call \<Rightarrow> bool) \<Rightarrow> (string \<times> remote_call) list \<Rightarrow> nat" where
  "sent_of i K sent = length (filter (\<lambda>(j, c). j = i \<and> K c) sent)"

lemma uses_of_append: "uses_of i (xs @ ys) = uses_of i xs + uses_of i ys"
  by (simp add: uses_of_def)

lemma uses_of_none: "list_all (\<lambda>r. er_grant r = g \<and> er_state r \<noteq> Started_state) rs \<Longrightarrow> uses_of i rs = 0"
  by (auto simp: uses_of_def list_all_iff filter_empty_conv)

lemma uses_of_Cons: "uses_of i (r # rs) = (if gr_id (er_grant r) = i \<and> er_state r = Started_state then 1 else 0) + uses_of i rs"
  by (simp add: uses_of_def)

lemma sent_of_step:
  assumes "prefix xs cs" and "length (filter K cs) \<le> 1"
  shows "sent_of i K (sent @ map (Pair j) xs) \<le> sent_of i K sent + (if j = i then 1 else 0)"
proof -
  have "length (filter K xs) \<le> 1" using assms by (auto simp: prefix_def)
  moreover have "filter (\<lambda>(l, c). l = i \<and> K c) (map (Pair j) xs) = (if j = i then map (Pair j) (filter K xs) else [])"
    by (induction xs) auto
  ultimately show ?thesis by (simp add: sent_of_def)
qed

lemma validate_uses: "validate_grant sha g now epoch uses operation subject policy = [] \<Longrightarrow> uses < gr_max_uses g"
  by (auto simp: validate_grant_def split: if_splits)

lemma static_uses: "static_reasons sha rm g operation expected now rows = [] \<Longrightarrow> int (uses_of (gr_id g) rows) < gr_max_uses g"
  by (auto simp: static_reasons_def dest: validate_uses)

lemma spend_step:
  assumes "effect_step sha rm g operation P cs s t" and "length (filter K cs) \<le> 1"
    and "gr_id g = i \<Longrightarrow> gr_max_uses g \<le> m"
    and "int (uses_of i (bk_rows s)) \<le> m \<and> sent_of i K (bk_sent s) \<le> uses_of i (bk_rows s)"
  shows "int (uses_of i (bk_rows t)) \<le> m \<and> sent_of i K (bk_sent t) \<le> uses_of i (bk_rows t)"
  using assms(1) unfolding effect_step_def
proof (elim disjE exE conjE)
  assume "rows_added g s t" and "bk_sent t = bk_sent s"
  with assms(4) show ?thesis by (auto simp: rows_added_def uses_of_append uses_of_none)
next
  fix now expected r rs xs
  assume static: "static_reasons sha rm g operation expected now (bk_rows s) = []"
    and rows: "bk_rows t = bk_rows s @ r # rs" "er_state r = Started_state" "er_grant r = g"
      "list_all (\<lambda>r. er_grant r = g \<and> er_state r \<noteq> Started_state) rs"
    and sent: "prefix xs cs" "bk_sent t = bk_sent s @ map (Pair (gr_id g)) xs"
  have "uses_of i (bk_rows t) = uses_of i (bk_rows s) + (if gr_id g = i then 1 else 0)"
    using rows by (simp add: uses_of_append uses_of_Cons uses_of_none)
  with assms(3,4) static_uses [OF static] sent_of_step [OF sent(1) assms(2), of i "bk_sent s" "gr_id g"] sent(2)
  show ?thesis by (auto split: if_splits)
qed

text \<open>C13. A grant is spent at most as often as it says: over every run of the broker the journal has at
  most \<open>max_uses\<close> started rows of a grant id, and the merges, the pushes and the pull requests sent
  under it are each, kind by kind and not in sum, at most those started rows.\<close>

theorem broker_spends_bounded:
  assumes "\<forall>c \<in> set cmds. gr_id (cmd_grant c) = i \<longrightarrow> gr_max_uses (cmd_grant c) \<le> m" and "0 \<le> m"
  shows "let s = broker_runs sha rm cmds (fresh_broker w) in
    int (uses_of i (bk_rows s)) \<le> m \<and> sent_of i is_merge_call (bk_sent s) \<le> uses_of i (bk_rows s)
    \<and> sent_of i is_push_call (bk_sent s) \<le> uses_of i (bk_rows s) \<and> sent_of i is_create_call (bk_sent s) \<le> uses_of i (bk_rows s)"
proof -
  have "int (uses_of i (bk_rows (broker_runs sha rm cmds (fresh_broker w)))) \<le> m
      \<and> sent_of i K (bk_sent (broker_runs sha rm cmds (fresh_broker w))) \<le> uses_of i (bk_rows (broker_runs sha rm cmds (fresh_broker w)))"
    if K: "\<And>c. length (filter K (cmd_calls c)) \<le> 1" for K
  proof (rule broker_runs_induct [where I = "\<lambda>s. int (uses_of i (bk_rows s)) \<le> m \<and> sent_of i K (bk_sent s) \<le> uses_of i (bk_rows s)"])
    show "int (uses_of i (bk_rows (fresh_broker w))) \<le> m \<and> sent_of i K (bk_sent (fresh_broker w)) \<le> uses_of i (bk_rows (fresh_broker w))"
      using assms(2) by (simp add: fresh_broker_def uses_of_def sent_of_def)
  next
    fix c s
    assume "c \<in> set cmds" and inv: "int (uses_of i (bk_rows s)) \<le> m \<and> sent_of i K (bk_sent s) \<le> uses_of i (bk_rows s)"
      and step: "effect_step sha rm (cmd_grant c) (cmd_operation c) (cmd_fields c) (cmd_calls c) s (snd (broker_exec sha rm c s))"
    with assms(1) show "int (uses_of i (bk_rows (snd (broker_exec sha rm c s)))) \<le> m
        \<and> sent_of i K (bk_sent (snd (broker_exec sha rm c s))) \<le> uses_of i (bk_rows (snd (broker_exec sha rm c s)))"
      by (intro spend_step [OF step K _ inv]) auto
  qed
  note counted = this
  have "length (filter is_merge_call (cmd_calls c)) \<le> 1" "length (filter is_push_call (cmd_calls c)) \<le> 1"
    "length (filter is_create_call (cmd_calls c)) \<le> 1" for c
    by (cases c; simp add: publish_calls_def merge_call_def Let_def split: option.split)+
  then show ?thesis
    using counted [of is_merge_call] counted [of is_push_call] counted [of is_create_call] by (simp add: Let_def)
qed

text \<open>The observation of a worktree that is the granted candidate: its head, tree and branch, nothing
  uncommitted.\<close>

definition clean_candidate :: "subject \<Rightarrow> pyval \<Rightarrow> bool" where
  "clean_candidate s observed \<longleftrightarrow> py_field observed ''head_sha'' = PStr (sj_head s) \<and> py_field observed ''head_tree_sha'' = PStr (sj_tree s)
     \<and> sj_target s = Candidate (py_string (py_field observed ''branch'')) \<and> \<not> py_truthy (py_field observed ''dirty'')"

definition sent_under :: "effect_row \<Rightarrow> remote_call \<Rightarrow> bool" where
  "sent_under r c \<longleftrightarrow> er_state r = Started_state \<and>
     (let g = er_grant r; s = gr_subject g; observed = py_get (er_fields r) ''observation'' in
      case c of
        Merge_call n head \<Rightarrow> gr_operation g = ''merge_exact_head'' \<and> sj_target s = Pull_request n \<and> head = sj_head s
          \<and> py_field observed ''state'' = PStr ''OPEN'' \<and> py_field observed ''headRefOid'' = PStr head
      | Push_call branch head \<Rightarrow> gr_operation g = ''publish_candidate'' \<and> sj_target s = Candidate branch \<and> head = sj_head s
          \<and> clean_candidate s observed
      | Create_call branch base \<Rightarrow> gr_operation g = ''publish_candidate'' \<and> sj_target s = Candidate branch
          \<and> clean_candidate s observed \<and> base_ok base)"

text \<open>Every creation of a pull request directly follows the push of its branch under the same grant.\<close>

fun pushed_first :: "(string \<times> remote_call) option \<Rightarrow> (string \<times> remote_call) list \<Rightarrow> bool" where
  "pushed_first before [] = True"
| "pushed_first before ((i, c) # sent) =
     ((case c of
         Create_call branch base \<Rightarrow> (case before of Some (j, Push_call pushed head) \<Rightarrow> j = i \<and> pushed = branch | _ \<Rightarrow> False)
       | _ \<Rightarrow> True)
      \<and> pushed_first (Some (i, c)) sent)"

lemma pushed_first_append:
  "pushed_first before (xs @ ys) \<longleftrightarrow> pushed_first before xs \<and> pushed_first (if xs = [] then before else Some (last xs)) ys"
  by (induction before xs rule: pushed_first.induct) auto

lemma pushed_first_prefix: "pushed_first before ys \<Longrightarrow> prefix xs ys \<Longrightarrow> pushed_first before xs"
  by (auto simp: prefix_def pushed_first_append)

lemma cmd_calls_pushed: "pushed_first before (map (Pair i) (cmd_calls c))"
  by (cases c) (simp_all add: publish_calls_def merge_call_def Let_def split: option.split)

lemma validate_operation:
  "validate_grant sha g now epoch uses (Some operation) subject policy = [] \<Longrightarrow> operation = gr_operation g \<and> epoch = gr_epoch g"
  by (auto simp: validate_grant_def split: if_splits)

lemma static_operation:
  "static_reasons sha rm g operation expected now rows = [] \<Longrightarrow> gr_operation g = operation \<and> gr_epoch g = rm_epoch rm"
  by (auto simp: static_reasons_def dest!: validate_operation)

lemma publish_sent:
  assumes "er_state r = Started_state" and "er_grant r = g" and "gr_operation g = ''publish_candidate''"
    and "publish_fields g (er_fields r)" and "c \<in> set (publish_calls (gr_subject g) base)"
  shows "sent_under r c"
proof -
  from assms(5) obtain t where base: "base = PStr t" "base_ok t"
    by (cases "text_such base_ok base") (auto simp: publish_calls_def text_such_eq)
  from assms(4) obtain b observed where b: "sj_target (gr_subject g) = Candidate b"
    and o: "py_get (er_fields r) ''observation'' = PDict observed" "candidate_reasons (gr_subject g) observed = []"
    unfolding publish_fields_def by blast
  have "py_field (PDict observed) k = py_get observed k" for k by (simp add: py_field_def)
  with o(2) have "clean_candidate (gr_subject g) (PDict observed)"
    by (auto simp: candidate_reasons_def clean_candidate_def split: if_splits)
  with assms b o(1) base show ?thesis by (auto simp: sent_under_def publish_calls_ok Let_def)
qed

lemma merge_sent:
  "er_state r = Started_state \<Longrightarrow> er_grant r = g \<Longrightarrow> gr_operation g = ''merge_exact_head'' \<Longrightarrow> merge_fields g (er_fields r)
   \<Longrightarrow> sent_under r (merge_call (gr_subject g))"
  by (auto simp: sent_under_def merge_fields_def merge_call_def Let_def)

lemma cmd_sent:
  assumes "er_state r = Started_state" and "er_grant r = cmd_grant k" and "gr_operation (cmd_grant k) = cmd_operation k"
    and "cmd_fields k (er_fields r)" and "c \<in> set (cmd_calls k)"
  shows "sent_under r c"
  using assms by (cases k) (auto intro: publish_sent merge_sent)

lemma effects_bound:
  "\<forall>(i, c) \<in> set (bk_sent (broker_runs sha rm cmds (fresh_broker w))).
     \<exists>r \<in> set (bk_rows (broker_runs sha rm cmds (fresh_broker w))).
       gr_id (er_grant r) = i \<and> gr_epoch (er_grant r) = rm_epoch rm \<and> sent_under r c"
proof (rule broker_runs_induct [where I = "\<lambda>s. \<forall>(i, c) \<in> set (bk_sent s). \<exists>r \<in> set (bk_rows s).
       gr_id (er_grant r) = i \<and> gr_epoch (er_grant r) = rm_epoch rm \<and> sent_under r c"])
  show "\<forall>(i, c) \<in> set (bk_sent (fresh_broker w)). \<exists>r \<in> set (bk_rows (fresh_broker w)).
       gr_id (er_grant r) = i \<and> gr_epoch (er_grant r) = rm_epoch rm \<and> sent_under r c" by (simp add: fresh_broker_def)
next
  fix k s
  let ?t = "snd (broker_exec sha rm k s)"
  assume inv: "\<forall>(i, c) \<in> set (bk_sent s). \<exists>r \<in> set (bk_rows s). gr_id (er_grant r) = i \<and> gr_epoch (er_grant r) = rm_epoch rm \<and> sent_under r c"
  assume "effect_step sha rm (cmd_grant k) (cmd_operation k) (cmd_fields k) (cmd_calls k) s ?t"
  then show "\<forall>(i, c) \<in> set (bk_sent ?t). \<exists>r \<in> set (bk_rows ?t). gr_id (er_grant r) = i \<and> gr_epoch (er_grant r) = rm_epoch rm \<and> sent_under r c"
    unfolding effect_step_def
  proof (elim disjE exE conjE)
    assume "rows_added (cmd_grant k) s ?t" "bk_sent ?t = bk_sent s"
    with inv show ?thesis by (fastforce simp: rows_added_def)
  next
    fix now expected r rs xs
    assume static: "static_reasons sha rm (cmd_grant k) (cmd_operation k) expected now (bk_rows s) = []"
      and rows: "bk_rows ?t = bk_rows s @ r # rs" and r: "er_state r = Started_state" "er_grant r = cmd_grant k" "cmd_fields k (er_fields r)"
      and xs: "prefix xs (cmd_calls k)" and sent: "bk_sent ?t = bk_sent s @ map (Pair (gr_id (cmd_grant k))) xs"
    have "sent_under r c" if "c \<in> set xs" for c
      using cmd_sent [OF r(1,2) _ r(3)] static_operation [OF static] that xs by (auto simp: prefix_def)
    then have "\<forall>(i, c) \<in> set (map (Pair (gr_id (cmd_grant k))) xs). gr_id (er_grant r) = i \<and> gr_epoch (er_grant r) = rm_epoch rm \<and> sent_under r c"
      using static_operation [OF static] r(2) by auto
    moreover have "r \<in> set (bk_rows ?t)" by (simp add: rows)
    moreover have "set (bk_rows s) \<subseteq> set (bk_rows ?t)" by (auto simp: rows)
    ultimately show ?thesis using inv unfolding sent by fastforce
  qed
qed

lemma effects_pushed_first: "pushed_first None (bk_sent (broker_runs sha rm cmds (fresh_broker w)))"
proof (rule broker_runs_induct [where I = "\<lambda>s. pushed_first None (bk_sent s)"])
  fix k s
  let ?t = "snd (broker_exec sha rm k s)"
  assume "pushed_first None (bk_sent s)"
    and "effect_step sha rm (cmd_grant k) (cmd_operation k) (cmd_fields k) (cmd_calls k) s ?t"
  then show "pushed_first None (bk_sent ?t)"
    by (auto simp: effect_step_def pushed_first_append intro: pushed_first_prefix [OF cmd_calls_pushed map_mono_prefix])
qed (simp add: fresh_broker_def)

text \<open>C14. Every effect is bound to what was granted and observed: for each merge, push and pull request
  the broker sends there is a started row of that grant, of that operation and of the broker's
  revocation epoch, whose observation shows the pull request open at exactly the granted head that
  the merge names, or, for a push and for the creation of a pull request alike, the worktree clean at the
  granted head, tree and branch; and a pull request is only created right after its branch was pushed
  under the same grant, with a base that is neither blank nor an option of the command.\<close>

theorem broker_exact_effects:
  "(\<forall>(i, c) \<in> set (bk_sent (broker_runs sha rm cmds (fresh_broker w))).
     \<exists>r \<in> set (bk_rows (broker_runs sha rm cmds (fresh_broker w))).
       gr_id (er_grant r) = i \<and> gr_epoch (er_grant r) = rm_epoch rm \<and> sent_under r c)
   \<and> pushed_first None (bk_sent (broker_runs sha rm cmds (fresh_broker w)))"
  by (intro conjI effects_bound effects_pushed_first)

section \<open>What a blocked grant answers\<close>

lemma static_blocked:
  assumes "gr_max_uses g \<le> int (uses_of (gr_id g) rows)
    \<or> (\<exists>r. state_of (gr_id g) rows = Some r \<and> er_state r \<in> {Started_state, Uncertain_state})"
  shows "static_reasons sha rm g operation expected now rows \<noteq> []"
proof (cases "gr_max_uses g \<le> int (uses_of (gr_id g) rows)")
  case True
  then show ?thesis using static_uses [of sha rm g operation expected now rows] by auto
next
  case False
  with assms obtain r where "state_of (gr_id g) rows = Some r" "er_state r \<in> {Started_state, Uncertain_state}" by blast
  then show ?thesis by (auto simp: static_reasons_def)
qed

definition only_refused :: "grant \<Rightarrow> 'w broker \<Rightarrow> (effect_error + 'a) \<times> 'w broker \<Rightarrow> bool" where
  "only_refused g s x \<longleftrightarrow> (\<exists>rs t. x = (Inl (E_refused rs), t) \<and> bk_sent t = bk_sent s
     \<and> (\<exists>r. bk_rows t = bk_rows s @ [r] \<and> er_state r = Refused_state \<and> er_grant r = g))"

lemma refused_run:
  assumes "\<And>now. static_reasons sha rm g operation expected now (bk_rows s) \<noteq> []"
  shows "only_refused g s (bindA (gate sha rm g operation expected cwd) f s)"
proof -
  obtain rs t where "gate sha rm g operation expected cwd s = (Inl (E_refused rs), t)" "bk_sent t = bk_sent s"
    "\<exists>r. bk_rows t = bk_rows s @ [r] \<and> er_state r = Refused_state \<and> er_grant r = g"
    by (rule gate_refuses [of sha rm g operation expected s cwd]) (use assms in auto)
  then show ?thesis by (auto simp: only_refused_def bindA_def)
qed

text \<open>How an operation answers that starts nothing: with the recorded observation of that same request,
  changing nothing, or with one journaled refusal and no remote call.\<close>

definition answered :: "grant \<Rightarrow> 'w broker \<Rightarrow> (effect_error + effect_result) \<times> 'w broker \<Rightarrow> bool" where
  "answered g s x \<longleftrightarrow> (\<exists>r. state_of (gr_id g) (bk_rows s) = Some r \<and> er_state r = Observed_success
      \<and> gr_request_sha (er_grant r) = gr_request_sha g \<and> x = (Inr (replay_result g r), s)) \<or> only_refused g s x"

lemma blocked_answer:
  assumes "cmd_grant c = g"
    and "gr_max_uses g \<le> int (uses_of (gr_id g) (bk_rows s))
      \<or> (\<exists>r. state_of (gr_id g) (bk_rows s) = Some r \<and> er_state r \<in> {Started_state, Uncertain_state})"
  shows "answered g s (broker_exec sha rm c s)"
proof -
  have blocked: "static_reasons sha rm g operation expected now (bk_rows s) \<noteq> []" for operation expected now
    using assms(2) by (rule static_blocked)
  have replay: "state_of (gr_id g) (bk_rows s) = Some r \<and> er_state r = Observed_success \<and> gr_request_sha (er_grant r) = gr_request_sha g"
    if "replay_row g operation (bk_rows s) = Some r" for operation r
    using that by (auto simp: replay_row_def split: option.splits if_splits)
  show ?thesis
  proof (cases c)
    case (Observe_cmd g')
    with assms(1) show ?thesis by (simp add: answered_def observe_effect_def refused_run blocked)
  next
    case (Publish_cmd g' cwd base title body)
    with assms(1) replay show ?thesis
      by (cases "replay_row g ''publish_candidate'' (bk_rows s)")
         (auto simp: answered_def publish_candidate_def bindA_rows returnA_def refused_run blocked)
  next
    case (Merge_cmd g' expected)
    with assms(1) replay show ?thesis
      by (cases "if expected = sj_head (gr_subject g) then replay_row g ''merge_exact_head'' (bk_rows s) else None")
         (auto simp: answered_def merge_exact_head_def bindA_rows returnA_def refused_run blocked split: if_splits)
  qed
qed

text \<open>The calls made under a grant, and what a step leaves of it: a spent grant and another grant's step
  add none.\<close>

definition calls_of :: "string \<Rightarrow> (string \<times> remote_call) list \<Rightarrow> (string \<times> remote_call) list" where
  "calls_of i sent = filter (\<lambda>(j, c). j = i) sent"

lemma calls_of_map: "calls_of i (map (Pair j) xs) = (if j = i then map (Pair j) xs else [])"
  by (simp add: calls_of_def filter_map o_def)

lemma calls_of_append: "calls_of i (xs @ ys) = calls_of i xs @ calls_of i ys"
  by (simp add: calls_of_def)

lemma uses_grant_rows: "uses_of i rows = length (filter (\<lambda>r. er_state r = Started_state) (grant_rows i rows))"
  by (simp add: uses_of_def grant_rows_def conj_commute)

lemma grant_rows_other: "list_all (\<lambda>r. er_grant r = g \<and> P r) rs \<Longrightarrow> gr_id g \<noteq> i \<Longrightarrow> grant_rows i (rows @ rs) = grant_rows i rows"
  by (auto simp: grant_rows_def list_all_iff filter_empty_conv)

lemma other_step:
  assumes "effect_step sha rm g operation P cs s t" and "gr_id g \<noteq> i"
  shows "grant_rows i (bk_rows t) = grant_rows i (bk_rows s) \<and> calls_of i (bk_sent t) = calls_of i (bk_sent s)"
  using assms(1) unfolding effect_step_def
proof (elim disjE exE conjE)
  assume "rows_added g s t" "bk_sent t = bk_sent s"
  with assms(2) show ?thesis by (auto simp: rows_added_def grant_rows_other)
next
  fix now expected r rs xs
  assume "bk_rows t = bk_rows s @ r # rs" "er_grant r = g" "list_all (\<lambda>r. er_grant r = g \<and> er_state r \<noteq> Started_state) rs"
    "bk_sent t = bk_sent s @ map (Pair (gr_id g)) xs"
  with assms(2) grant_rows_other [of g "\<lambda>_. True" "r # rs" i "bk_rows s"] show ?thesis
    by (auto simp: calls_of_append calls_of_map list_all_iff)
qed

lemma spent_step:
  assumes "effect_step sha rm g operation P cs s t" and "gr_id g = i \<Longrightarrow> gr_max_uses g \<le> m" and "m \<le> int (uses_of i (bk_rows s))"
  shows "uses_of i (bk_rows t) = uses_of i (bk_rows s) \<and> calls_of i (bk_sent t) = calls_of i (bk_sent s)"
proof (cases "gr_id g = i")
  case True
  with assms(2,3) have "static_reasons sha rm g operation expected now (bk_rows s) \<noteq> []" for expected now
    using static_uses [of sha rm g operation expected now "bk_rows s"] by auto
  with assms(1) have "rows_added g s t" "bk_sent t = bk_sent s" by (auto simp: effect_step_def)
  then show ?thesis by (auto simp: rows_added_def uses_of_append uses_of_none)
next
  case False
  from other_step [OF assms(1) this] show ?thesis by (simp add: uses_grant_rows)
qed

lemma spent_runs:
  assumes "\<forall>k \<in> set cmds. gr_id (cmd_grant k) = i \<longrightarrow> gr_max_uses (cmd_grant k) \<le> m" and "m \<le> int (uses_of i (bk_rows s))"
  shows "uses_of i (bk_rows (broker_runs sha rm cmds s)) = uses_of i (bk_rows s)
    \<and> calls_of i (bk_sent (broker_runs sha rm cmds s)) = calls_of i (bk_sent s)"
proof (rule broker_runs_induct [where I = "\<lambda>t. uses_of i (bk_rows t) = uses_of i (bk_rows s) \<and> calls_of i (bk_sent t) = calls_of i (bk_sent s)"])
  fix k t
  assume "k \<in> set cmds" and inv: "uses_of i (bk_rows t) = uses_of i (bk_rows s) \<and> calls_of i (bk_sent t) = calls_of i (bk_sent s)"
    and step: "effect_step sha rm (cmd_grant k) (cmd_operation k) (cmd_fields k) (cmd_calls k) t (snd (broker_exec sha rm k t))"
  with assms spent_step [OF step, of i m]
  show "uses_of i (bk_rows (snd (broker_exec sha rm k t))) = uses_of i (bk_rows s)
      \<and> calls_of i (bk_sent (snd (broker_exec sha rm k t))) = calls_of i (bk_sent s)" by simp
qed simp

lemma other_runs:
  assumes "\<forall>k \<in> set cmds. gr_id (cmd_grant k) \<noteq> i"
  shows "grant_rows i (bk_rows (broker_runs sha rm cmds s)) = grant_rows i (bk_rows s)
    \<and> calls_of i (bk_sent (broker_runs sha rm cmds s)) = calls_of i (bk_sent s)"
proof (rule broker_runs_induct [where I = "\<lambda>t. grant_rows i (bk_rows t) = grant_rows i (bk_rows s) \<and> calls_of i (bk_sent t) = calls_of i (bk_sent s)"])
  fix k t
  assume "k \<in> set cmds" and inv: "grant_rows i (bk_rows t) = grant_rows i (bk_rows s) \<and> calls_of i (bk_sent t) = calls_of i (bk_sent s)"
    and step: "effect_step sha rm (cmd_grant k) (cmd_operation k) (cmd_fields k) (cmd_calls k) t (snd (broker_exec sha rm k t))"
  with assms other_step [OF step, of i]
  show "grant_rows i (bk_rows (snd (broker_exec sha rm k t))) = grant_rows i (bk_rows s)
      \<and> calls_of i (bk_sent (snd (broker_exec sha rm k t))) = calls_of i (bk_sent s)" by simp
qed simp

lemma answered_quiet: "answered g s x \<Longrightarrow> calls_of i (bk_sent (snd x)) = calls_of i (bk_sent s)"
  by (auto simp: answered_def only_refused_def)

text \<open>C15. A blocked grant sends nothing. Once a grant's uses are spent, no sequence of further operations,
  on this grant or on others, starts or sends anything under it. And while its last journaled row is
  started or uncertain, which holds until the next attempt at this grant whatever is done under other
  grants, that next attempt sends nothing. In both cases an attempt is answered from the recorded
  success of that same request, changing nothing, or with one journaled refusal and no remote call. For a
  grant with uses left the second block ends with that refusal (\<open>uncertain_hidden_by_refusal\<close> below).\<close>

theorem blocked_grant_sends_nothing:
  assumes "gr_id (cmd_grant c) = i"
    and "m \<le> int (uses_of i (bk_rows s)) \<and> (\<forall>k \<in> set (cmds @ [c]). gr_id (cmd_grant k) = i \<longrightarrow> gr_max_uses (cmd_grant k) \<le> m)
      \<or> (\<exists>r. state_of i (bk_rows s) = Some r \<and> er_state r \<in> {Started_state, Uncertain_state}) \<and> (\<forall>k \<in> set cmds. gr_id (cmd_grant k) \<noteq> i)"
  shows "let t = broker_runs sha rm cmds s; x = broker_exec sha rm c t in
    uses_of i (bk_rows t) = uses_of i (bk_rows s) \<and> calls_of i (bk_sent (snd x)) = calls_of i (bk_sent s)
    \<and> ((\<exists>r. state_of i (bk_rows t) = Some r \<and> er_state r = Observed_success
          \<and> gr_request_sha (er_grant r) = gr_request_sha (cmd_grant c) \<and> x = (Inr (replay_result (cmd_grant c) r), t))
       \<or> (\<exists>rs u r. x = (Inl (E_refused rs), u) \<and> bk_sent u = bk_sent t \<and> bk_rows u = bk_rows t @ [r]
            \<and> er_state r = Refused_state \<and> er_grant r = cmd_grant c))"
proof -
  define t where "t = broker_runs sha rm cmds s"
  have kept: "uses_of i (bk_rows t) = uses_of i (bk_rows s)" "calls_of i (bk_sent t) = calls_of i (bk_sent s)"
    and blocked: "gr_max_uses (cmd_grant c) \<le> int (uses_of i (bk_rows t))
      \<or> (\<exists>r. state_of i (bk_rows t) = Some r \<and> er_state r \<in> {Started_state, Uncertain_state})"
    using assms spent_runs [of cmds i m s sha rm] other_runs [of cmds i sha rm s]
    by (auto simp: t_def uses_grant_rows state_of_def)
  have "answered (cmd_grant c) t (broker_exec sha rm c t)" using blocked assms(1) by (intro blocked_answer) auto
  then show ?thesis
    using kept answered_quiet [of "cmd_grant c" t "broker_exec sha rm c t" i] assms(1)
    unfolding t_def [symmetric] Let_def by (auto simp: answered_def only_refused_def)
qed


section \<open>An example\<close>

text \<open>A pull request whose merge call times out, and a hash with one value.\<close>

definition cap_oid :: string where
  "cap_oid = replicate 40 CHR ''a''"

definition cap_digest :: string where
  "cap_digest = replicate 64 CHR ''0''"

definition cap_subject :: subject where
  "cap_subject = \<lparr>sj_repository = ''o/r'', sj_target = Pull_request 7, sj_head = cap_oid, sj_base = cap_oid, sj_tree = cap_oid,
     sj_evidence = cap_digest\<rparr>"

definition one_hash :: "string \<Rightarrow> string" where
  "one_hash s = ''g''"

definition cap_grant :: grant where
  "cap_grant = \<lparr>gr_id = ''g'', gr_operation = ''merge_exact_head'', gr_subject = cap_subject,
     gr_resources = resources_for ''merge_exact_head'' cap_subject, gr_role = ''merge-executor'', gr_instance = ''w1'', gr_request = ''q1'',
     gr_request_sha = ''g'', gr_source = cap_oid, gr_policy = ''g'', gr_evidence = cap_digest, gr_lease = None,
     gr_route = ''legacy-serial-route'', gr_max_uses = 1, gr_issued = 100, gr_expires = 1000, gr_epoch = ''epoch-0'', gr_narrowed = None\<rparr>"

definition cap_request :: pyval where
  "cap_request = PDict [(''operation'', PStr ''merge_exact_head''), (''caller_role'', PStr ''merge-executor''),
     (''caller_instance'', PStr ''w1''), (''request_id'', PStr ''q1''), (''source_sha'', PStr cap_oid)]"

lemma cap_texts: "oid_text cap_oid" "hex_text 64 cap_digest" "owner_name ''o/r''" "cap_ident ''w1''" "cap_ident ''q1''"
  by (simp_all add: oid_text_def cap_oid_def cap_digest_def hex_text_replicate is_hex_char_def is_digit_char_def code_of_def
      owner_name_def name_part_def is_alnum_def is_letter_char_def cap_ident_def ident_text_def list_all_iff)

lemma cap_exact: "exact_subject (PDict (subject_dict cap_subject)) = Some cap_subject"
  by (rule exact_subject_dict) (simp add: subject_ok_def cap_subject_def cap_texts)

lemma cap_policy:
  "py_field (PDict DEFAULT_POLICY) ''grant_ttl_seconds'' = PInt 900" "py_field (PDict DEFAULT_POLICY) ''max_uses'' = PInt 1"
  "py_field (PDict DEFAULT_POLICY) ''legacy_serial_route'' = PBool True" "py_field (PDict DEFAULT_POLICY) ''revocation_epoch'' = PStr ''epoch-0''"
  "py_has DEFAULT_POLICY ''roles''"
  "role_gate (py_field (PDict DEFAULT_POLICY) ''roles'') (PStr ''merge-executor'') (PStr ''merge_exact_head'') = Some []"
  by (simp_all add: DEFAULT_POLICY_def py_field_dict py_has_def role_gate_def FIXED_OPERATIONS_def ROLES_def operations_of_def texts_def)

lemma cap_authorized:
  "authorize one_hash cap_request (PDict (subject_dict cap_subject)) (PDict DEFAULT_POLICY) (PDict (subject_dict cap_subject)) PNone PNone (PInt 100)
     = Granted cap_grant"
proof -
  have o: "PStr ''merge_exact_head'' \<in> set (map PStr FIXED_OPERATIONS)" by (simp add: FIXED_OPERATIONS_def)
  have request: "py_field cap_request ''operation'' = PStr ''merge_exact_head''" "py_field cap_request ''caller_role'' = PStr ''merge-executor''"
    "py_field cap_request ''caller_instance'' = PStr ''w1''" "py_field cap_request ''request_id'' = PStr ''q1''"
    "py_field cap_request ''source_sha'' = PStr cap_oid" by (simp_all add: cap_request_def py_field_dict)
  have "map_of OPERATION_SUBJECT_KIND ''merge_exact_head'' = subject_kind (PDict (subject_dict cap_subject))"
    by (simp add: subject_dict_kind OPERATION_SUBJECT_KIND_def cap_subject_def target_kind_def)
  then have "subject_gate (PStr ''merge_exact_head'') (PDict (subject_dict cap_subject)) (PDict (subject_dict cap_subject)) = []"
    by (simp add: subject_gate_def cap_exact evidence_gate_Nil subject_dict_fields py_string_def)
  moreover have "grant_for one_hash cap_request cap_subject (PDict DEFAULT_POLICY) PNone 100 = cap_grant"
    by (simp add: grant_for_def Let_def request cap_policy py_string_def py_int_def cap_grant_def sha256_value_def one_hash_def
        request_digest_def policy_digest_def py_dict_def) (simp add: cap_subject_def)
  ultimately show ?thesis
    using o by (simp add: authorize_def Let_def request cap_policy cap_exact text_gate_def text_such_def cap_texts count_gate_def
        lease_gate_def budget_gate_def py_int_def)
qed

lemma grant_least_authority_witness:
  "gr_operation cap_grant = ''merge_exact_head'' \<and> gr_issued cap_grant < gr_expires cap_grant
   \<and> map_of OPERATION_SUBJECT_KIND ''merge_exact_head'' = subject_kind (PDict (subject_dict cap_subject))"
  using grant_least_authority [OF cap_authorized] by (simp add: cap_grant_def)

definition slow_remote :: "unit remote" where
  "slow_remote = \<lparr>rm_clock = (\<lambda>w. (100, w)),
     rm_pr = (\<lambda>n w. (Inr (PDict [(''state'', PStr ''OPEN''), (''headRefOid'', PStr cap_oid)]), w)),
     rm_stop = (\<lambda>w. (Inr (), w)), rm_merge = (\<lambda>n h w. (Inl (Timed_out []), w)), rm_push = (\<lambda>b w. (Inr (), w)),
     rm_create = (\<lambda>b c t f w. (Inr PNone, w)), rm_git = None, rm_epoch = ''epoch-0''\<rparr>"

lemma slow_parts:
  "rm_clock slow_remote w = (100, w)" "rm_stop slow_remote w = (Inr (), w)" "rm_merge slow_remote n h w = (Inl (Timed_out []), w)"
  "rm_pr slow_remote n w = (Inr (PDict [(''state'', PStr ''OPEN''), (''headRefOid'', PStr cap_oid)]), w)" "rm_epoch slow_remote = ''epoch-0''"
  by (simp_all add: slow_remote_def)

definition merge_twice :: grant where
  "merge_twice = cap_grant\<lparr>gr_max_uses := 2\<rparr>"

lemma grant_parts:
  "gr_id cap_grant = ''g''" "gr_operation cap_grant = ''merge_exact_head''" "gr_max_uses cap_grant = 1" "gr_expires cap_grant = 1000"
  "gr_epoch cap_grant = ''epoch-0''" "sj_head (gr_subject cap_grant) = cap_oid" "sj_target (gr_subject cap_grant) = Pull_request 7"
  "gr_id merge_twice = ''g''" "gr_operation merge_twice = ''merge_exact_head''" "gr_max_uses merge_twice = 2" "gr_expires merge_twice = 1000"
  "gr_epoch merge_twice = ''epoch-0''" "sj_head (gr_subject merge_twice) = cap_oid" "sj_target (gr_subject merge_twice) = Pull_request 7"
  by (simp_all add: cap_grant_def merge_twice_def cap_subject_def)

lemma unit_world: "s\<lparr>bk_world := ()\<rparr> = s"
  by (cases s) simp

text \<open>One attempt of an unblocked grant against the slow remote: started, sent, uncertain.\<close>

lemma slow_merge:
  assumes "g \<in> {cap_grant, merge_twice}" and "int (uses_of ''g'' (bk_rows s)) < gr_max_uses g"
    and "case state_of ''g'' (bk_rows s) of None \<Rightarrow> True | Some r \<Rightarrow> er_state r = Refused_state"
  shows "\<exists>a b t. merge_exact_head one_hash slow_remote g cap_oid s = (Inl E_uncertain, t) \<and> bk_rows t = bk_rows s @ [a, b]
    \<and> er_state a = Started_state \<and> er_state b = Uncertain_state \<and> er_grant a = g \<and> er_grant b = g
    \<and> bk_sent t = bk_sent s @ [(''g'', Merge_call 7 cap_oid)]"
proof -
  have g: "gr_id g = ''g''" "gr_operation g = ''merge_exact_head''" "gr_expires g = 1000" "gr_epoch g = ''epoch-0''"
    "sj_head (gr_subject g) = cap_oid" "sj_target (gr_subject g) = Pull_request 7"
    using assms(1) by (auto simp: grant_parts)
  have replay: "replay_row g operation (bk_rows s) = None" for operation
    using assms(3) by (auto simp: replay_row_def g split: option.splits)
  have static: "static_reasons one_hash slow_remote g ''merge_exact_head'' (Some cap_oid) 100 (bk_rows s) = []"
    using assms(2,3) by (auto simp: static_reasons_def g FIXED_OPERATIONS_def SERVED_OPERATIONS_def validate_grant_def slow_parts split: option.splits)
  have "gate one_hash slow_remote g ''merge_exact_head'' (Some cap_oid) [] s
      = (Inr (observation_of [(''state'', PStr ''OPEN''), (''headRefOid'', PStr cap_oid)]), s)"
    by (simp add: gate_def callA_def rowsA_def slow_parts static gate_observation_def try_refused_def observe_pr_def g returnA_def Let_def
        merge_reasons_def observation_of_def py_get_def gate_verdict_def bindA_def unit_world)
  then show ?thesis
    by (simp add: merge_exact_head_def rowsA_def g replay merge_started_def record_now_def bindA_def
        callA_def recordA_def stop_gate_def slow_parts returnA_def remote_effect_def sentA_def raiseA_def Let_def)
qed

lemma broker_spends_bounded_witness:
  "\<exists>s. s = broker_runs one_hash slow_remote [Merge_cmd cap_grant cap_oid, Merge_cmd cap_grant cap_oid] (fresh_broker ())
     \<and> uses_of ''g'' (bk_rows s) = 1 \<and> sent_of ''g'' is_merge_call (bk_sent s) = 1"
proof -
  define s where "s = broker_runs one_hash slow_remote [Merge_cmd cap_grant cap_oid, Merge_cmd cap_grant cap_oid] (fresh_broker ())"
  obtain a b t where first: "merge_exact_head one_hash slow_remote cap_grant cap_oid (fresh_broker ()) = (Inl E_uncertain, t)"
      "bk_rows t = [a, b]" "er_state a = Started_state" "er_state b = Uncertain_state" "er_grant a = cap_grant" "er_grant b = cap_grant"
      "bk_sent t = [(''g'', Merge_call 7 cap_oid)]"
    using slow_merge [of cap_grant "fresh_broker ()"] by (auto simp: fresh_broker_def uses_of_def state_of_def grant_rows_def grant_parts)
  have "prefix (bk_rows t) (bk_rows (snd (merge_exact_head one_hash slow_remote cap_grant cap_oid t)))"
    and "prefix (bk_sent t) (bk_sent (snd (merge_exact_head one_hash slow_remote cap_grant cap_oid t)))"
    using merge_step [of one_hash slow_remote cap_grant t cap_oid] by (auto simp: effect_step_def rows_added_def)
  then have "1 \<le> uses_of ''g'' (bk_rows s)" "1 \<le> sent_of ''g'' is_merge_call (bk_sent s)"
    using first by (auto simp: s_def prefix_def uses_of_append uses_of_Cons grant_parts sent_of_def)
  moreover have "int (uses_of ''g'' (bk_rows s)) \<le> 1 \<and> sent_of ''g'' is_merge_call (bk_sent s) \<le> uses_of ''g'' (bk_rows s)"
    using broker_spends_bounded [of "[Merge_cmd cap_grant cap_oid, Merge_cmd cap_grant cap_oid]" "''g''" 1 one_hash slow_remote "()"]
    by (simp add: grant_parts s_def Let_def)
  ultimately have "uses_of ''g'' (bk_rows s) = 1 \<and> sent_of ''g'' is_merge_call (bk_sent s) = 1" by linarith
  then show ?thesis unfolding s_def by blast
qed

text \<open>After the uncertain merge of a grant of one use, three more attempts send nothing; a grant of two uses
  is refused once.\<close>

lemma slow_uncertain:
  assumes "g \<in> {cap_grant, merge_twice}"
  obtains t where "merge_exact_head one_hash slow_remote g cap_oid (fresh_broker ()) = (Inl E_uncertain, t)" and "uses_of ''g'' (bk_rows t) = 1"
    and "bk_sent t = [(''g'', Merge_call 7 cap_oid)]" and "\<exists>r. state_of ''g'' (bk_rows t) = Some r \<and> er_state r = Uncertain_state"
proof -
  have "gr_id g = ''g''" "1 \<le> gr_max_uses g" using assms by (auto simp: grant_parts)
  with slow_merge [OF assms, of "fresh_broker ()"] that show thesis
    by (auto simp: fresh_broker_def uses_of_def state_of_def grant_rows_def)
qed

lemma blocked_grant_sends_nothing_witness:
  "(\<exists>t u. merge_exact_head one_hash slow_remote cap_grant cap_oid (fresh_broker ()) = (Inl E_uncertain, t)
     \<and> u = broker_runs one_hash slow_remote (replicate 2 (Merge_cmd cap_grant cap_oid)) t
     \<and> calls_of ''g'' (bk_sent (snd (broker_exec one_hash slow_remote (Merge_cmd cap_grant cap_oid) u))) = [(''g'', Merge_call 7 cap_oid)])
   \<and> (\<exists>t rs u. merge_exact_head one_hash slow_remote merge_twice cap_oid (fresh_broker ()) = (Inl E_uncertain, t)
     \<and> merge_exact_head one_hash slow_remote merge_twice cap_oid t = (Inl (E_refused rs), u) \<and> bk_sent u = bk_sent t)"
proof
  obtain t where t: "merge_exact_head one_hash slow_remote cap_grant cap_oid (fresh_broker ()) = (Inl E_uncertain, t)"
    "uses_of ''g'' (bk_rows t) = 1" "bk_sent t = [(''g'', Merge_call 7 cap_oid)]" by (rule slow_uncertain [of cap_grant]) auto
  have "calls_of ''g'' (bk_sent (snd (broker_exec one_hash slow_remote (Merge_cmd cap_grant cap_oid)
      (broker_runs one_hash slow_remote (replicate 2 (Merge_cmd cap_grant cap_oid)) t)))) = calls_of ''g'' (bk_sent t)"
    using blocked_grant_sends_nothing [of "Merge_cmd cap_grant cap_oid" "''g''" 1 t "replicate 2 (Merge_cmd cap_grant cap_oid)" one_hash slow_remote] t(2)
    by (simp add: grant_parts Let_def)
  with t show "\<exists>t u. merge_exact_head one_hash slow_remote cap_grant cap_oid (fresh_broker ()) = (Inl E_uncertain, t)
     \<and> u = broker_runs one_hash slow_remote (replicate 2 (Merge_cmd cap_grant cap_oid)) t
     \<and> calls_of ''g'' (bk_sent (snd (broker_exec one_hash slow_remote (Merge_cmd cap_grant cap_oid) u))) = [(''g'', Merge_call 7 cap_oid)]"
    by (simp add: calls_of_def)
next
  obtain t r where t: "merge_exact_head one_hash slow_remote merge_twice cap_oid (fresh_broker ()) = (Inl E_uncertain, t)"
    "state_of ''g'' (bk_rows t) = Some r" "er_state r = Uncertain_state" by (rule slow_uncertain [of merge_twice]) auto
  with blocked_grant_sends_nothing [of "Merge_cmd merge_twice cap_oid" "''g''" 0 t "[]" one_hash slow_remote]
  show "\<exists>t rs u. merge_exact_head one_hash slow_remote merge_twice cap_oid (fresh_broker ()) = (Inl E_uncertain, t)
     \<and> merge_exact_head one_hash slow_remote merge_twice cap_oid t = (Inl (E_refused rs), u) \<and> bk_sent u = bk_sent t"
    by (auto simp: grant_parts Let_def)
qed

text \<open>With more than one use the refusal that follows an uncertain effect hides it: the next attempt is
  sent again.\<close>

lemma uncertain_hidden_by_refusal:
  "\<exists>t. t = broker_runs one_hash slow_remote (replicate 3 (Merge_cmd merge_twice cap_oid)) (fresh_broker ())
     \<and> sent_of ''g'' is_merge_call (bk_sent t) = 2"
proof -
  let ?m = "merge_exact_head one_hash slow_remote merge_twice cap_oid"
  obtain a b t where first: "?m (fresh_broker ()) = (Inl E_uncertain, t)"
      "bk_rows t = [a, b]" "er_state a = Started_state" "er_state b = Uncertain_state" "er_grant a = merge_twice" "er_grant b = merge_twice"
      "bk_sent t = [(''g'', Merge_call 7 cap_oid)]"
    using slow_merge [of merge_twice "fresh_broker ()"] by (auto simp: fresh_broker_def uses_of_def state_of_def grant_rows_def grant_parts)
  have last: "state_of ''g'' (bk_rows t) = Some b" using first by (simp add: state_of_def grant_rows_def grant_parts)
  then have replay: "replay_row merge_twice ''merge_exact_head'' (bk_rows t) = None" using first(4) by (simp add: replay_row_def grant_parts)
  have "static_reasons one_hash slow_remote merge_twice ''merge_exact_head'' (Some cap_oid) now (bk_rows t) \<noteq> []" for now
    by (rule static_blocked) (simp add: last first(4) grant_parts)
  then have "only_refused merge_twice t (?m t)"
    by (simp add: merge_exact_head_def bindA_rows grant_parts replay refused_run)
  then obtain rs u r where second: "?m t = (Inl (E_refused rs), u)" "bk_sent u = bk_sent t" "bk_rows u = [a, b, r]"
      "er_state r = Refused_state" "er_grant r = merge_twice" using first by (auto simp: only_refused_def)
  have "int (uses_of ''g'' (bk_rows u)) < gr_max_uses merge_twice"
    using second first by (simp add: uses_of_def grant_parts)
  moreover have "state_of ''g'' (bk_rows u) = Some r" using second first by (simp add: state_of_def grant_rows_def grant_parts)
  ultimately obtain v where "?m u = (Inl E_uncertain, v)" "bk_sent v = bk_sent u @ [(''g'', Merge_call 7 cap_oid)]"
    using slow_merge [of merge_twice u] second by auto
  with first second show ?thesis by (simp add: sent_of_def numeral_3_eq_3)
qed

text \<open>A remote that has the candidate in its worktree and opens the pull request.\<close>

definition git_remote :: "unit remote" where
  "git_remote = slow_remote\<lparr>rm_git := Some (\<lambda>args cwd w. (Inr (if args \<in> set [[''rev-parse'', ''HEAD''], [''rev-parse'', ''HEAD^{tree}'']] then cap_oid
       else if args = [''branch'', ''--show-current''] then ''candidate'' else []), w)),
     rm_create := (\<lambda>b c t f w. (Inr (PDict [(''number'', PInt 8)]), w))\<rparr>"

definition cap_candidate :: grant where
  "cap_candidate = cap_grant\<lparr>gr_operation := ''publish_candidate'', gr_subject := cap_subject\<lparr>sj_target := Candidate ''candidate''\<rparr>\<rparr>"

lemma candidate_published:
  "bk_sent (snd (publish_candidate one_hash git_remote cap_candidate [] (PStr ''main'') ''title'' [] (fresh_broker ())))
   = [(''g'', Push_call ''candidate'' cap_oid), (''g'', Create_call ''candidate'' ''main'')]"
  by code_simp

lemma broker_exact_effects_witness:
  "(\<exists>r \<in> set (bk_rows (broker_runs one_hash slow_remote [Merge_cmd cap_grant cap_oid] (fresh_broker ()))).
      gr_id (er_grant r) = ''g'' \<and> sent_under r (Merge_call 7 cap_oid))
   \<and> (\<exists>r \<in> set (bk_rows (broker_runs one_hash git_remote [Publish_cmd cap_candidate [] (PStr ''main'') ''title'' []] (fresh_broker ()))).
      gr_id (er_grant r) = ''g'' \<and> sent_under r (Create_call ''candidate'' ''main''))"
proof
  obtain t where "merge_exact_head one_hash slow_remote cap_grant cap_oid (fresh_broker ()) = (Inl E_uncertain, t)"
      "bk_sent t = [(''g'', Merge_call 7 cap_oid)]" by (rule slow_uncertain [of cap_grant]) auto
  then have "(''g'', Merge_call 7 cap_oid)
      \<in> set (bk_sent (broker_runs one_hash slow_remote [Merge_cmd cap_grant cap_oid] (fresh_broker ())))" by simp
  with broker_exact_effects [of one_hash slow_remote "[Merge_cmd cap_grant cap_oid]" "()"]
  show "\<exists>r \<in> set (bk_rows (broker_runs one_hash slow_remote [Merge_cmd cap_grant cap_oid] (fresh_broker ()))).
      gr_id (er_grant r) = ''g'' \<and> sent_under r (Merge_call 7 cap_oid)" by blast
next
  have "(''g'', Create_call ''candidate'' ''main'')
      \<in> set (bk_sent (broker_runs one_hash git_remote [Publish_cmd cap_candidate [] (PStr ''main'') ''title'' []] (fresh_broker ())))"
    by (simp add: candidate_published)
  with broker_exact_effects [of one_hash git_remote "[Publish_cmd cap_candidate [] (PStr ''main'') ''title'' []]" "()"]
  show "\<exists>r \<in> set (bk_rows (broker_runs one_hash git_remote [Publish_cmd cap_candidate [] (PStr ''main'') ''title'' []] (fresh_broker ()))).
      gr_id (er_grant r) = ''g'' \<and> sent_under r (Create_call ''candidate'' ''main'')" by blast
qed

end
