(* ===== verification/Independence.thy ===== *)
theory Independence
  imports Run_Manifest
begin

text \<open>
  Structural authority separation, \<open>factory_kernel/independence.py\<close>: the protected registry of the
  independent authorities, the certificate the kernel builds around a judgement, and its
  verification, with the properties of both: a certificate fills a slot exactly when it comes from
  the registered authority, for this run's subject and predecessors, off the builder path; and the
  certificate the kernel builds of a passing judgement verifies.
\<close>

section \<open>The registry\<close>

record independent_authority =
  ia_claim :: string
  ia_authority :: string
  ia_subject :: string
  ia_binds :: "string list"
  ia_sees :: "string list"
  ia_external :: bool
  ia_extra :: "string list"

datatype cert_error = Cert_refused string | Cert_type_error

definition check_authority :: "independent_authority \<Rightarrow> cert_error + independent_authority" where
  "check_authority a =
     bindE (ensure (set (ia_binds a) \<subseteq> set (ia_sees a)) (Cert_refused ''unseen'')) (\<lambda>_.
     bindE (ensure (ia_subject a \<in> set (ia_sees a)) (Cert_refused ''subject'')) (\<lambda>_. Inr a))"

definition contract_authority :: independent_authority where
  "contract_authority = \<lparr>ia_claim = ''contract'', ia_authority = ''blinded-contract-certifier'', ia_subject = ''contract'',
     ia_binds = [''contract''], ia_sees = [''contract''], ia_external = True, ia_extra = [''issue'']\<rparr>"

definition design_authority :: independent_authority where
  "design_authority = \<lparr>ia_claim = ''design'', ia_authority = ''blinded-design-certifier'', ia_subject = ''design'',
     ia_binds = [''contract'', ''context'', ''architecture-policy'', ''design''],
     ia_sees = [''contract'', ''context'', ''architecture-policy'', ''design''], ia_external = True, ia_extra = []\<rparr>"

definition governor_authority :: independent_authority where
  "governor_authority = \<lparr>ia_claim = ''architecture-governor'', ia_authority = ''blinded-governor-certifier'', ia_subject = ''architecture-governor'',
     ia_binds = [''contract'', ''context'', ''architecture-policy'', ''design'', ''architecture-governor''],
     ia_sees = [''contract'', ''context'', ''architecture-policy'', ''design'', ''architecture-governor''], ia_external = True, ia_extra = []\<rparr>"

definition drift_authority :: independent_authority where
  "drift_authority = \<lparr>ia_claim = ''architecture-drift'', ia_authority = ''architecture-holdout'', ia_subject = ''architecture-drift'',
     ia_binds = [''architecture-policy'', ''design'', ''architecture-drift''],
     ia_sees = [''architecture-policy'', ''design'', ''architecture-drift''], ia_external = False, ia_extra = [''changed_files'', ''diff'']\<rparr>"

definition conformance_authority :: independent_authority where
  "conformance_authority = \<lparr>ia_claim = ''architecture-conformance'', ia_authority = ''architecture-holdout'', ia_subject = ''architecture-conformance'',
     ia_binds = [''architecture-policy'', ''design'', ''architecture-governor'', ''architecture-conformance''],
     ia_sees = [''architecture-policy'', ''design'', ''architecture-governor'', ''architecture-conformance''], ia_external = False,
     ia_extra = [''changed_files'', ''diff'']\<rparr>"

definition REGISTRY :: "independent_authority list" where
  "REGISTRY = [contract_authority, design_authority, governor_authority, drift_authority, conformance_authority]"

definition authority_for :: "string \<Rightarrow> cert_error + independent_authority" where
  "authority_for i = (case List.find (\<lambda>a. ia_claim a = i) REGISTRY of None \<Rightarrow> Inl (Cert_refused ''unregistered'') | Some a \<Rightarrow> Inr a)"

definition add_new :: "string list \<Rightarrow> string list \<Rightarrow> string list" where
  "add_new seen names = seen @ filter (\<lambda>n. n \<notin> set seen) names"

fun collect_inputs :: "string list \<times> string list \<Rightarrow> string list \<Rightarrow> cert_error + string list \<times> string list" where
  "collect_inputs found [] = Inr found"
| "collect_inputs found (i # is) =
     bindE (authority_for i) (\<lambda>a. collect_inputs (add_new (fst found) (ia_sees a), add_new (snd found) (ia_extra a)) is)"

definition authority_inputs :: "string list \<Rightarrow> cert_error + string list \<times> string list" where
  "authority_inputs ids = collect_inputs ([], []) ids"

definition claims_for_authority :: "string \<Rightarrow> string list" where
  "claims_for_authority i = map ia_claim (filter (\<lambda>a. ia_authority a = i) REGISTRY)"

definition externally_supplied_claims :: "string list" where
  "externally_supplied_claims = map ia_claim (filter ia_external REGISTRY)"

section \<open>Certificates\<close>

definition ACCEPTED_VERDICTS :: "string list" where
  "ACCEPTED_VERDICTS = [''pass'', ''conform'']"

definition build_certificate ::
  "(string \<Rightarrow> string) \<Rightarrow> string \<Rightarrow> (string \<times> string) list \<Rightarrow> string \<Rightarrow> string \<Rightarrow> pydict \<Rightarrow> cert_error + pydict" where
  "build_certificate sha claim_id claim_hashes head_sha base_sha judgement =
     bindE (authority_for claim_id) (\<lambda>a.
     bindE (ensure (set (ia_subject a # ia_binds a) \<subseteq> set (map fst claim_hashes)) (Cert_refused ''missing'')) (\<lambda>_.
     Inr [(''version'', PStr ''1.0''), (''kind'', PStr ''independent-certification''), (''claim_id'', PStr claim_id),
          (''authority_id'', PStr (ia_authority a)), (''subject_sha256'', PStr (the (map_of claim_hashes (ia_subject a)))),
          (''bindings'', PDict (map (\<lambda>n. (n, PStr (the (map_of claim_hashes n)))) (ia_binds a))),
          (''head_sha'', PStr head_sha), (''base_sha'', PStr base_sha), (''verdict'', PStr (text_or judgement ''verdict'' [])),
          (''judgement_certifies'', py_get judgement ''certifies''), (''judgement_sha256'', PStr (sha256_value sha (PDict judgement)))]))"

definition c_hash :: "pydict \<Rightarrow> string \<Rightarrow> cert_error + string" where
  "c_hash d k = (let text = text_or d k [] in if length text = 64 then Inr text else Inl (Cert_refused k))"

definition accepted_verdict :: "pyval \<Rightarrow> cert_error + string" where
  "accepted_verdict v =
     (case v of
        PStr s \<Rightarrow> if s \<in> set ACCEPTED_VERDICTS then Inr s else Inl (Cert_refused ''verdict'')
      | PList _ \<Rightarrow> Inl Cert_type_error
      | PDict _ \<Rightarrow> Inl Cert_type_error
      | _ \<Rightarrow> Inl (Cert_refused ''verdict''))"

record certified =
  cd_authority :: string
  cd_subject_sha :: string
  cd_judgement :: string
  cd_bindings :: "(string \<times> string) list"
  cd_head :: string
  cd_base :: string
  cd_verdict :: string

definition verify_certificate ::
  "pyval \<Rightarrow> string \<Rightarrow> (string \<times> string) list \<Rightarrow> (string \<times> string) list \<Rightarrow> string \<Rightarrow> string \<Rightarrow> cert_error + certified" where
  "verify_certificate certificate claim_id claim_hashes builder_artifact_hashes head_sha base_sha =
     bindE (authority_for claim_id) (\<lambda>a.
     bindE (case certificate of PDict d \<Rightarrow> Inr d | _ \<Rightarrow> Inl (Cert_refused ''object'')) (\<lambda>d.
     bindE (ensure (py_get d ''version'' = PStr ''1.0'') (Cert_refused ''version'')) (\<lambda>_.
     bindE (ensure (py_get d ''kind'' = PStr ''independent-certification'') (Cert_refused ''kind'')) (\<lambda>_.
     bindE (ensure (py_get d ''claim_id'' = PStr claim_id) (Cert_refused ''claim_id'')) (\<lambda>_.
     bindE (ensure (py_get d ''authority_id'' = PStr (ia_authority a)) (Cert_refused ''authority_id'')) (\<lambda>_.
     bindE (c_hash d ''judgement_sha256'') (\<lambda>judgement.
     bindE (ensure (judgement \<notin> set (map snd builder_artifact_hashes)) (Cert_refused ''builder'')) (\<lambda>_.
     bindE (ensure (ia_external a \<longrightarrow> py_get d ''judgement_certifies'' = PStr claim_id) (Cert_refused ''certifies'')) (\<lambda>_.
     bindE (c_hash d ''subject_sha256'') (\<lambda>subject.
     bindE (ensure (map_of claim_hashes (ia_subject a) = Some subject) (Cert_refused ''subject'')) (\<lambda>_.
     bindE (ensure (subject \<noteq> judgement) (Cert_refused ''itself'')) (\<lambda>_.
     bindE (case py_get d ''bindings'' of PDict b \<Rightarrow> Inr b | _ \<Rightarrow> Inl (Cert_refused ''bindings'')) (\<lambda>b.
     bindE (ensure (list_all (\<lambda>n. map_of claim_hashes n = Some (text_or b n [])) (ia_binds a)) (Cert_refused ''bound'')) (\<lambda>_.
     bindE (ensure (text_or d ''head_sha'' [] = head_sha) (Cert_refused ''head_sha'')) (\<lambda>_.
     bindE (ensure (text_or d ''base_sha'' [] = base_sha) (Cert_refused ''base_sha'')) (\<lambda>_.
     bindE (accepted_verdict (py_get d ''verdict'')) (\<lambda>verdict.
     Inr \<lparr>cd_authority = ia_authority a, cd_subject_sha = subject, cd_judgement = judgement,
          cd_bindings = map (\<lambda>n. (n, py_str (py_get b n))) (ia_binds a), cd_head = head_sha, cd_base = base_sha, cd_verdict = verdict\<rparr>)))))))))))))))))"

section \<open>Facts\<close>

lemma registered: "authority_for i = Inr a \<Longrightarrow> a \<in> set REGISTRY \<and> ia_claim a = i"
  unfolding authority_for_def missing_eq_Inr by (auto dest: find_mem)

lemma registry_competent: "a \<in> set REGISTRY \<Longrightarrow> check_authority a = Inr a"
  by (auto simp: REGISTRY_def check_authority_def contract_authority_def design_authority_def governor_authority_def drift_authority_def
      conformance_authority_def)

lemma registry_subject: "a \<in> set REGISTRY \<Longrightarrow> ia_subject a = ia_claim a \<and> ia_subject a \<in> set (ia_binds a)"
  by (auto simp: REGISTRY_def contract_authority_def design_authority_def governor_authority_def drift_authority_def conformance_authority_def)

lemma c_hash_Inr: "c_hash d k = Inr s \<longleftrightarrow> s = text_or d k [] \<and> length s = 64"
  by (auto simp: c_hash_def Let_def)

lemma accepted_verdict_Inr: "accepted_verdict v = Inr s \<longleftrightarrow> v = PStr s \<and> s \<in> set ACCEPTED_VERDICTS"
  by (cases v) (auto simp: accepted_verdict_def)

text \<open>What makes a certificate independent authority over this claim in this run.\<close>

definition independent_for :: "pydict \<Rightarrow> independent_authority \<Rightarrow> string \<Rightarrow> (string \<times> string) list \<Rightarrow> (string \<times> string) list \<Rightarrow> bool" where
  "independent_for d a claim_id claim_hashes builder \<longleftrightarrow>
     py_get d ''authority_id'' = PStr (ia_authority a) \<and> py_get d ''claim_id'' = PStr claim_id
     \<and> text_or d ''judgement_sha256'' [] \<notin> set (map snd builder)
     \<and> (ia_external a \<longrightarrow> py_get d ''judgement_certifies'' = PStr claim_id)
     \<and> map_of claim_hashes claim_id = Some (text_or d ''subject_sha256'' []) \<and> text_or d ''subject_sha256'' [] \<noteq> text_or d ''judgement_sha256'' []
     \<and> (\<exists>b. py_get d ''bindings'' = PDict b \<and> (\<forall>n \<in> set (ia_binds a). map_of claim_hashes n = Some (text_or b n [])))"

definition well_formed_certificate :: "pydict \<Rightarrow> bool" where
  "well_formed_certificate d \<longleftrightarrow> py_get d ''version'' = PStr ''1.0'' \<and> py_get d ''kind'' = PStr ''independent-certification''
     \<and> length (text_or d ''judgement_sha256'' []) = 64 \<and> length (text_or d ''subject_sha256'' []) = 64"

text \<open>C7. An independent slot is filled exactly by a well-formed certificate of the authority registered for
  that very claim, whose judgement is no builder-produced artifact and not its own subject, bound to
  this run's subject and every predecessor the authority must see, at the exact head and base, with
  an accepted verdict; authorities outside the kernel must name the claim inside the judgement.\<close>

theorem certificate_fills_exactly:
  "(\<exists>r. verify_certificate (PDict d) claim_id claim_hashes builder head base = Inr r)
   \<longleftrightarrow> (\<exists>a. authority_for claim_id = Inr a \<and> well_formed_certificate d \<and> independent_for d a claim_id claim_hashes builder
        \<and> text_or d ''head_sha'' [] = head \<and> text_or d ''base_sha'' [] = base
        \<and> (\<exists>s. py_get d ''verdict'' = PStr s \<and> s \<in> set ACCEPTED_VERDICTS))"
proof (cases "authority_for claim_id")
  case (Inr a)
  have subject: "ia_subject a = claim_id" using registered [OF Inr] registry_subject by auto
  show ?thesis
    unfolding verify_certificate_def independent_for_def well_formed_certificate_def
    by (cases "py_get d ''bindings''")
       (auto simp: Inr bindE_eq_Inr c_hash_Inr accepted_verdict_Inr list_all_iff subject)
qed (simp add: verify_certificate_def)

lemma map_of_binds: "n \<in> set ns \<Longrightarrow> map_of (map (\<lambda>n. (n, f n)) ns) n = Some (f n)"
  by (induction ns) auto

text \<open>C8. What the kernel builds verifies: the certificate of a judgement with an accepted verdict, over 64-character
  digests of the run, off the builder path and of another digest than its subject, fills the slot at
  the head and base it was built for, and is refused at any other head.\<close>

theorem built_certificate_verifies:
  assumes "build_certificate sha claim_id claim_hashes head base judgement = Inr d"
    and "\<And>n h. map_of claim_hashes n = Some h \<Longrightarrow> length h = 64" and "length (sha256_value sha (PDict judgement)) = 64"
    and "sha256_value sha (PDict judgement) \<notin> set (map snd builder)" and "Some (sha256_value sha (PDict judgement)) \<noteq> map_of claim_hashes claim_id"
    and "text_or judgement ''verdict'' [] \<in> set ACCEPTED_VERDICTS" and "py_get judgement ''certifies'' = PStr claim_id"
    and "head \<noteq> []" and "base \<noteq> []"
  shows "(\<exists>r. verify_certificate (PDict d) claim_id claim_hashes builder head base = Inr r \<and> cd_judgement r = sha256_value sha (PDict judgement))
    \<and> (other \<noteq> head \<longrightarrow> (\<exists>e. verify_certificate (PDict d) claim_id claim_hashes builder other base = Inl e))"
proof -
  from assms(1) obtain a where a: "authority_for claim_id = Inr a" and known: "set (ia_subject a # ia_binds a) \<subseteq> set (map fst claim_hashes)"
    and d: "d = [(''version'', PStr ''1.0''), (''kind'', PStr ''independent-certification''), (''claim_id'', PStr claim_id),
          (''authority_id'', PStr (ia_authority a)), (''subject_sha256'', PStr (the (map_of claim_hashes (ia_subject a)))),
          (''bindings'', PDict (map (\<lambda>n. (n, PStr (the (map_of claim_hashes n)))) (ia_binds a))),
          (''head_sha'', PStr head), (''base_sha'', PStr base), (''verdict'', PStr (text_or judgement ''verdict'' [])),
          (''judgement_certifies'', py_get judgement ''certifies''), (''judgement_sha256'', PStr (sha256_value sha (PDict judgement)))]"
    by (auto simp: build_certificate_def bindE_eq_Inr)
  have subject: "ia_subject a = claim_id" using registered [OF a] registry_subject by auto
  have digest: "\<exists>h. map_of claim_hashes n = Some h \<and> length h = 64 \<and> h \<noteq> []" if "n \<in> set (ia_subject a # ia_binds a)" for n
  proof -
    from known that have "n \<in> fst ` set claim_hashes" by auto
    then obtain h where "map_of claim_hashes n = Some h" by (cases "map_of claim_hashes n") (auto simp: map_of_eq_None_iff)
    with assms(2) [OF this] show ?thesis by auto
  qed
  from digest [of claim_id] obtain h where h: "map_of claim_hashes claim_id = Some h" "length h = 64" "h \<noteq> []" by (auto simp: subject)
  have long: "sha256_value sha (PDict judgement) \<noteq> []" using assms(3) by auto
  have fields: "text_or d ''judgement_sha256'' [] = sha256_value sha (PDict judgement)" "text_or d ''subject_sha256'' [] = h"
    "text_or d ''head_sha'' [] = head" "text_or d ''base_sha'' [] = base" "py_get d ''version'' = PStr ''1.0''"
    "py_get d ''kind'' = PStr ''independent-certification''" "py_get d ''claim_id'' = PStr claim_id" "py_get d ''authority_id'' = PStr (ia_authority a)"
    "py_get d ''judgement_certifies'' = PStr claim_id" "py_get d ''verdict'' = PStr (text_or judgement ''verdict'' [])"
    "py_get d ''bindings'' = PDict (map (\<lambda>n. (n, PStr (the (map_of claim_hashes n)))) (ia_binds a))"
    using assms(7,8,9) h long by (simp_all add: d text_or_def py_get_def py_str_def subject)
  have bound: "\<forall>n \<in> set (ia_binds a). map_of claim_hashes n = Some (text_or (map (\<lambda>n. (n, PStr (the (map_of claim_hashes n)))) (ia_binds a)) n [])"
  proof
    fix n
    assume n: "n \<in> set (ia_binds a)"
    with digest [of n] obtain k where "map_of claim_hashes n = Some k" "k \<noteq> []" by auto
    with map_of_binds [OF n, of "\<lambda>n. PStr (the (map_of claim_hashes n))"]
    show "map_of claim_hashes n = Some (text_or (map (\<lambda>n. (n, PStr (the (map_of claim_hashes n)))) (ia_binds a)) n [])"
      by (simp add: text_or_def py_get_def py_str_def)
  qed
  have verdict: "accepted_verdict (py_get d ''verdict'') = Inr (text_or judgement ''verdict'' [])"
    using assms(6) by (simp add: fields(10) accepted_verdict_def)
  have hash: "c_hash d ''judgement_sha256'' = Inr (sha256_value sha (PDict judgement))" "c_hash d ''subject_sha256'' = Inr h"
    using assms(3) h(2) by (simp_all add: c_hash_def Let_def fields)
  have distinct: "h \<noteq> sha256_value sha (PDict judgement)" using assms(5) h(1) by auto
  show ?thesis
    using a hash verdict bound assms(4) h(1) distinct
    by (simp add: verify_certificate_def fields(3-9,11) subject list_all_iff)
qed

section \<open>A concrete certificate\<close>

definition w_judgement :: pydict where
  "w_judgement = [(''verdict'', PStr ''pass''), (''certifies'', PStr ''contract'')]"

lemma w_certificate: "\<exists>d. build_certificate (\<lambda>_. replicate 64 (CHR ''f'')) ''contract'' [(''contract'', replicate 64 (CHR ''a''))] ''h'' ''b'' w_judgement = Inr d"
  by (simp add: build_certificate_def authority_for_def REGISTRY_def contract_authority_def)

theorem built_certificate_verifies_witness:
  "\<exists>d r. build_certificate (\<lambda>_. replicate 64 (CHR ''f'')) ''contract'' [(''contract'', replicate 64 (CHR ''a''))] ''h'' ''b'' w_judgement = Inr d
     \<and> verify_certificate (PDict d) ''contract'' [(''contract'', replicate 64 (CHR ''a''))] [(''diff'', replicate 64 (CHR ''0''))] ''h'' ''b'' = Inr r"
proof -
  from w_certificate obtain d where d: "build_certificate (\<lambda>_. replicate 64 (CHR ''f'')) ''contract'' [(''contract'', replicate 64 (CHR ''a''))] ''h'' ''b'' w_judgement = Inr d" ..
  have "(\<exists>r. verify_certificate (PDict d) ''contract'' [(''contract'', replicate 64 (CHR ''a''))] [(''diff'', replicate 64 (CHR ''0''))] ''h'' ''b'' = Inr r
       \<and> cd_judgement r = sha256_value (\<lambda>_. replicate 64 (CHR ''f'')) (PDict w_judgement))
     \<and> (''h2'' \<noteq> ''h'' \<longrightarrow> (\<exists>e. verify_certificate (PDict d) ''contract'' [(''contract'', replicate 64 (CHR ''a''))] [(''diff'', replicate 64 (CHR ''0''))] ''h2'' ''b'' = Inl e))"
    by (rule built_certificate_verifies [OF d])
       (auto simp: sha256_value_def w_judgement_def text_or_def py_get_def py_str_def ACCEPTED_VERDICTS_def split: if_splits)
  with d show ?thesis by blast
qed

end
