(* ===== verification/Refusals.thy ===== *)
theory Refusals
  imports Independence
begin

text \<open>
  Typed refusals, \<open>factory_kernel/refusal.py\<close>: the attribution of a validation failure to a reason
  code, the durable record and its comment marker, the re-head budget read back from the markers,
  and the diagnostic outcomes. The redaction of secrets (\<open>scrub\<close>) and \<open>json.loads\<close> are arguments.
\<close>

section \<open>Reason codes\<close>

definition REASON_CODES :: "string list" where
  "REASON_CODES = [''identity'', ''identity_expired'', ''security_guard'', ''attached_evidence'', ''code_holdout'', ''provenance'',
     ''trust_root_currency'', ''architecture_holdout'', ''certifier:contract'', ''certifier:design'', ''certifier:governor'',
     ''evidence_spine'', ''merge_preauth'', ''stale_base'', ''unknown'']"

definition AUTHORITY :: "(string \<times> string) list" where
  "AUTHORITY = [(''identity'', ''validator preconditions''),
     (''identity_expired'', ''autonomous identity age check (the App token was too old to spend)''),
     (''security_guard'', ''deterministic security guard (scripts/factory_security.py)''),
     (''attached_evidence'', ''attached contract/proof parser''), (''code_holdout'', ''blinded code holdout''),
     (''provenance'', ''builder provenance verifier''), (''trust_root_currency'', ''trust-root currency check (scripts/factory_evidence.py)''),
     (''architecture_holdout'', ''independent architecture holdout''), (''certifier:contract'', ''independent contract certifier''),
     (''certifier:design'', ''independent design certifier''), (''certifier:governor'', ''independent governor certifier''),
     (''evidence_spine'', ''evidence spine (scripts/factory_evidence_spine.py)''),
     (''merge_preauth'', ''merge pre-authorization (harness/merge_verify.py pre)''),
     (''stale_base'', ''base moved under the PR (model-free re-head)''),
     (''unknown'', ''unattributed - no authority reported this failure'')]"

definition STALE_BASE_PATTERNS :: "string list" where
  "STALE_BASE_PATTERNS = [''builder provenance was built from a different base'', ''main moved under the PR'', ''main moved after evidence'',
     ''PR trust root is not current with origin/main'', ''main moved under the PR before validation'']"

definition STAGE_CODES :: "string list" where
  "STAGE_CODES = [''identity'', ''security_guard'', ''attached_evidence'', ''code_holdout'', ''provenance'', ''trust_root_currency'',
     ''architecture_holdout'', ''evidence_spine'', ''merge_preauth'']"

section \<open>Failures\<close>

text \<open>A failure as the handler sees it: what it is, its class name and its text.\<close>

datatype failure_kind = Identity_expired | Tool_refused (tool_argv: "string list") (tool_rc: int) (tool_tail: string) | Other_failure

record failure =
  fl_kind :: failure_kind
  fl_class :: string
  fl_text :: string

text \<open>\<open>PurePosixPath(text.replace('\', '/')).name\<close>.\<close>

definition path_name :: "string \<Rightarrow> string" where
  "path_name s =
     (case rev (filter (\<lambda>p. p \<noteq> [] \<and> p \<noteq> ''.'') (split_slash (map (\<lambda>c. if code_of c = 92 then CHR ''/'' else c) s))) of
        [] \<Rightarrow> [] | p # ps \<Rightarrow> p)"

definition tool_name :: "string list \<Rightarrow> string" where
  "tool_name argv =
     (case argv of [] \<Rightarrow> [] | x # xs \<Rightarrow> (case xs of y # ys \<Rightarrow> if x = ''python'' then path_name y else path_name x | [] \<Rightarrow> path_name x))"

definition dashed :: "string \<Rightarrow> bool" where
  "dashed s \<longleftrightarrow> take 1 s = ''-''"

definition tool_phase :: "string list \<Rightarrow> string" where
  "tool_phase argv =
     (if 2 < length argv \<and> argv ! 0 = ''python'' \<and> \<not> dashed (argv ! 2) then argv ! 2
      else if 1 < length argv \<and> argv ! 0 \<noteq> ''python'' \<and> \<not> dashed (argv ! 1) then argv ! 1 else [])"

definition refused_text :: "string list \<Rightarrow> int \<Rightarrow> string \<Rightarrow> string" where
  "refused_text argv rc out = join_text '' '' argv @ '' failed rc='' @ int_text rc @ '': '' @ drop (length out - 4000) out"

definition tool_refused :: "string list \<Rightarrow> int \<Rightarrow> string \<Rightarrow> failure" where
  "tool_refused argv rc out = \<lparr>fl_kind = Tool_refused argv rc (drop (length out - 4000) out), fl_class = ''ToolRefused'', fl_text = refused_text argv rc out\<rparr>"

definition is_stale_base :: "string \<Rightarrow> bool" where
  "is_stale_base s \<longleftrightarrow> list_ex (\<lambda>p. sublist p s) STALE_BASE_PATTERNS"

text \<open>\<open>str.lower\<close> on the code points below 256.\<close>

definition lower_char :: "char \<Rightarrow> char" where
  "lower_char c = (let n = code_of c in
     if (65 \<le> n \<and> n \<le> 90) \<or> (192 \<le> n \<and> n \<le> 222 \<and> n \<noteq> 215) then char_of (n + 32) else c)"

definition certifier_here :: "string \<Rightarrow> string option" where
  "certifier_here s = map_option snd (List.find (\<lambda>(p, _). prefix (''independent '' @ p @ '' certifier'') s)
     [(''contract'', ''certifier:contract''), (''design'', ''certifier:design''), (''architecture-governor'', ''certifier:governor'')])"

fun certifier_in :: "string \<Rightarrow> string option" where
  "certifier_in [] = None"
| "certifier_in (c # cs) = (case certifier_here (c # cs) of Some k \<Rightarrow> Some k | None \<Rightarrow> certifier_in cs)"

definition tool_code :: "string option \<Rightarrow> string \<Rightarrow> string list \<Rightarrow> string option" where
  "tool_code stage txt argv =
     (if tool_name argv = ''factory_security.py'' then Some ''security_guard''
      else if tool_name argv = ''factory_provenance.py'' then Some ''provenance''
      else if tool_name argv \<in> set [''factory_evidence.py'', ''factory_evidence_spine.py''] then
        (if sublist ''architecture holdout'' (map lower_char txt) then Some ''architecture_holdout''
         else if stage = Some ''trust_root_currency'' then Some ''trust_root_currency'' else Some ''evidence_spine'')
      else if tool_name argv = ''merge_verify.py'' \<and> tool_phase argv = ''pre'' then Some ''merge_preauth'' else None)"

definition stage_code :: "string option \<Rightarrow> string \<Rightarrow> string" where
  "stage_code stage txt =
     (case stage of
        None \<Rightarrow> ''unknown''
      | Some s \<Rightarrow>
          if s = ''certifier'' then (case certifier_in txt of None \<Rightarrow> ''unknown'' | Some c \<Rightarrow> c)
          else if s \<in> set STAGE_CODES then s else ''unknown'')"

definition classify :: "string option \<Rightarrow> failure \<Rightarrow> string" where
  "classify stage f =
     (if fl_kind f = Identity_expired then ''identity_expired''
      else if is_stale_base (fl_text f) then ''stale_base''
      else case (case fl_kind f of Tool_refused argv _ _ \<Rightarrow> tool_code stage (fl_text f) argv | _ \<Rightarrow> None) of
        Some c \<Rightarrow> c
      | None \<Rightarrow> stage_code stage (fl_text f))"

section \<open>The durable record\<close>

record refusal =
  rf_code :: string
  rf_authority :: string
  rf_tool :: string
  rf_phase :: string
  rf_rc :: "int option"
  rf_detail :: string
  rf_exception :: string

definition last_chars :: "nat \<Rightarrow> string \<Rightarrow> string" where
  "last_chars n s = drop (length s - n) s"

text \<open>\<open>None\<close> is the \<open>ValueError\<close> of an unknown code.\<close>

definition describe :: "(string \<Rightarrow> string) \<Rightarrow> string option \<Rightarrow> failure \<Rightarrow> refusal option" where
  "describe scrub stage f =
     (let code = classify stage f in
      if code \<notin> set REASON_CODES then None
      else case map_of AUTHORITY code of None \<Rightarrow> None
      | Some who \<Rightarrow> Some (case fl_kind f of
          Tool_refused argv rc tail \<Rightarrow> \<lparr>rf_code = code, rf_authority = who, rf_tool = tool_name argv, rf_phase = tool_phase argv, rf_rc = Some rc,
            rf_detail = last_chars 2000 (scrub tail), rf_exception = fl_class f\<rparr>
        | _ \<Rightarrow> \<lparr>rf_code = code, rf_authority = who, rf_tool = [], rf_phase = [], rf_rc = None,
            rf_detail = last_chars 2000 (scrub (fl_text f)), rf_exception = fl_class f\<rparr>))"

definition text_value :: "string option \<Rightarrow> pyval" where
  "text_value t = PStr (case t of None \<Rightarrow> [] | Some s \<Rightarrow> s)"

definition refusal_record :: "refusal \<Rightarrow> int \<Rightarrow> string \<Rightarrow> string \<Rightarrow> string option \<Rightarrow> string option \<Rightarrow> string \<Rightarrow> pydict" where
  "refusal_record r pr head base stage stage_context timestamp =
     [(''version'', PStr ''1.0''), (''pr'', PInt pr), (''head'', PStr head), (''base'', PStr base), (''stage'', text_value stage),
      (''stage_context'', text_value stage_context), (''reason_code'', PStr (rf_code r)), (''authority'', PStr (rf_authority r)),
      (''tool'', PStr (rf_tool r)), (''phase'', PStr (rf_phase r)), (''rc'', case rf_rc r of None \<Rightarrow> PNone | Some n \<Rightarrow> PInt n),
      (''exception'', PStr (rf_exception r)), (''detail'', PStr (rf_detail r)), (''timestamp'', PStr timestamp)]"

section \<open>Markers\<close>

text \<open>\<open>json.dumps(value, sort_keys=True)\<close>.\<close>

fun dumps :: "pyval \<Rightarrow> string"
  and dumps_items :: "pyval list \<Rightarrow> string list"
  and dumps_members :: "pydict \<Rightarrow> string list" where
  "dumps PNone = ''null''"
| "dumps (PBool b) = (if b then ''true'' else ''false'')"
| "dumps (PInt i) = int_text i"
| "dumps (PFloat r t) = t"
| "dumps (PStr s) = json_string json_char_ascii s"
| "dumps (PList xs) = ''['' @ join_text '', '' (dumps_items xs) @ '']''"
| "dumps (PDict kvs) = ''{'' @ join_text '', '' (dumps_members kvs) @ ''}''"
| "dumps_items [] = []"
| "dumps_items (x # xs) = dumps x # dumps_items xs"
| "dumps_members [] = []"
| "dumps_members ((k, v) # kvs) = (json_string json_char_ascii k @ '': '' @ dumps v) # dumps_members kvs"

definition REFUSAL_MARKER :: string where
  "REFUSAL_MARKER = ''<!-- dark-factory-refusal:''"

definition REHEAD_MARKER :: string where
  "REHEAD_MARKER = ''<!-- dark-factory-rehead:''"

definition RESUME_MARKER :: string where
  "RESUME_MARKER = ''<!-- dark-factory-resume:''"

definition MARKER_END :: string where
  "MARKER_END = ''-->''"

definition render_marker :: "string \<Rightarrow> pydict \<Rightarrow> string" where
  "render_marker pre payload = pre @ '' '' @ dumps (sort_keys (PDict payload)) @ '' '' @ MARKER_END"

definition marker_payload :: "pydict \<Rightarrow> pydict" where
  "marker_payload r =
     [(''version'', PStr ''1.0''), (''pr'', py_get r ''pr''), (''head'', py_get r ''head''), (''base'', py_get r ''base''), (''stage'', py_get r ''stage''),
      (''stage_context'', if py_has r ''stage_context'' then py_get r ''stage_context'' else PStr []),
      (''reason_code'', py_get r ''reason_code''), (''authority'', py_get r ''authority''), (''timestamp'', py_get r ''timestamp'')]"

definition render_refusal_marker :: "pydict \<Rightarrow> string" where
  "render_refusal_marker r = render_marker REFUSAL_MARKER (marker_payload r)"

definition render_rehead_marker :: "pydict \<Rightarrow> string" where
  "render_rehead_marker = render_marker REHEAD_MARKER"

definition render_resume_marker :: "pydict \<Rightarrow> string" where
  "render_resume_marker = render_marker RESUME_MARKER"

text \<open>\<open>str.find\<close>: the text before the first occurrence and the text after it.\<close>

fun find_text :: "string \<Rightarrow> string \<Rightarrow> (string \<times> string) option" where
  "find_text p [] = (if p = [] then Some ([], []) else None)"
| "find_text p (c # cs) = (if prefix p (c # cs) then Some ([], drop (length p) (c # cs))
     else map_option (\<lambda>(before, after). (c # before, after)) (find_text p cs))"

lemma find_text_shorter: "find_text p s = Some (before, after) \<Longrightarrow> length after + length p \<le> length s"
  by (induction s arbitrary: before after) (auto split: if_splits dest: prefix_length_le)

function markers_in :: "(string \<Rightarrow> pyval option) \<Rightarrow> string \<Rightarrow> string \<Rightarrow> pydict list" where
  "markers_in loads pre body =
     (case find_text pre body of None \<Rightarrow> []
      | Some (_, rest) \<Rightarrow>
          (case find_text MARKER_END rest of None \<Rightarrow> []
           | Some (raw, rest') \<Rightarrow>
               (case loads (py_strip raw) of Some (PDict d) \<Rightarrow> d # markers_in loads pre rest' | _ \<Rightarrow> markers_in loads pre rest')))"
  by pat_completeness auto

termination
  by (relation "measure (\<lambda>(_, _, body). length body)")
     (auto simp: MARKER_END_def dest!: find_text_shorter)

declare markers_in.simps [simp del]

definition markers :: "(string \<Rightarrow> pyval option) \<Rightarrow> string list \<Rightarrow> string \<Rightarrow> pydict list" where
  "markers loads bodies pre = concat (map (markers_in loads pre) bodies)"

definition latest_refusal :: "(string \<Rightarrow> pyval option) \<Rightarrow> string list \<Rightarrow> pydict option" where
  "latest_refusal loads bodies = (case rev (markers loads bodies REFUSAL_MARKER) of [] \<Rightarrow> None | d # ds \<Rightarrow> Some d)"

definition rehead_count :: "(string \<Rightarrow> pyval option) \<Rightarrow> string list \<Rightarrow> nat" where
  "rehead_count loads bodies = length (markers loads bodies REHEAD_MARKER)"

definition resume_count :: "(string \<Rightarrow> pyval option) \<Rightarrow> string list \<Rightarrow> nat" where
  "resume_count loads bodies = length (markers loads bodies RESUME_MARKER)"

definition rehead_budget_allows :: "(string \<Rightarrow> pyval option) \<Rightarrow> string list \<Rightarrow> string option \<Rightarrow> bool" where
  "rehead_budget_allows loads bodies head =
     (case rev (markers loads bodies REHEAD_MARKER) of
        [] \<Rightarrow> True
      | d # ds \<Rightarrow> (case head of None \<Rightarrow> False | Some h \<Rightarrow> h \<noteq> [] \<and> text_or d ''new_head'' [] = h))"

definition rehead_eligible :: "(string \<Rightarrow> pyval option) \<Rightarrow> string list \<Rightarrow> string option \<Rightarrow> bool" where
  "rehead_eligible loads bodies head =
     (case latest_refusal loads bodies of
        None \<Rightarrow> False
      | Some d \<Rightarrow> py_get d ''reason_code'' = PStr ''stale_base'' \<and> rehead_budget_allows loads bodies head)"

section \<open>Diagnostic outcomes\<close>

definition DIAGNOSTIC_ROLES :: "string list" where
  "DIAGNOSTIC_ROLES = [''diagnostic-route'', ''diagnostic-effort'', ''diagnostic-thinking'', ''diagnostic-scope'', ''diagnostic-test-author'']"

definition DIAGNOSTIC_PHASES :: "string list" where
  "DIAGNOSTIC_PHASES = [''identity'', ''admission'', ''reservation'', ''launch'', ''parse'', ''observe'', ''returned'']"

definition DIAGNOSTIC_STATUS_REASONS :: "(string \<times> string list) list" where
  "DIAGNOSTIC_STATUS_REASONS = [(''returned'', [''returned'', ''provider_error'', ''provider_envelope_malformed'']),
     (''refused'', [''identity_refused'', ''admission_refused'', ''reservation_refused'', ''observation_refused'']),
     (''failed'', [''launch_failed'', ''timeout'', ''unexpected_exception''])]"

definition DIAGNOSTIC_REASON_CODES :: "string list" where
  "DIAGNOSTIC_REASON_CODES = [''returned'', ''provider_error'', ''provider_envelope_malformed'', ''identity_refused'', ''admission_refused'',
     ''reservation_refused'', ''observation_refused'', ''launch_failed'', ''timeout'', ''unexpected_exception'']"

definition PROVIDER_START :: "string list" where
  "PROVIDER_START = [''not_started'', ''started'', ''unknown'']"

definition DIAGNOSTIC_METERING :: "string list" where
  "DIAGNOSTIC_METERING = [''metered'', ''unmetered-local'', ''unmetered-maintenance-scope'', ''unknown'', ''metered-bundle'']"

definition DIAGNOSTIC_UNCERTAINTY :: "string list" where
  "DIAGNOSTIC_UNCERTAINTY = [''cost_unknown'', ''provider_start_unknown'']"

definition DIAGNOSTIC_COST_REASONS :: "string list" where
  "DIAGNOSTIC_COST_REASONS = [''reported'', ''no_receipt'', ''ambiguous_receipt'', ''nonzero_exit'', ''not_launched'', ''unknown'']"

definition DIAGNOSTIC_FIELDS :: "string list" where
  "DIAGNOSTIC_FIELDS = [''schema'', ''schema_version'', ''invocation_id'', ''role'', ''phase'', ''status'', ''reason_code'',
     ''provider_started'', ''metering'', ''reservation_id'', ''error_type'', ''error_message'', ''traceback'', ''exit_code'',
     ''output_sha256'', ''output_bytes'', ''reported_microusd'', ''cost_reason'', ''uncertainty'']"

definition d_member :: "string list \<Rightarrow> pyval \<Rightarrow> bool" where
  "d_member allowed v \<longleftrightarrow> v \<in> PStr ` set allowed"

definition d_optional_hex :: "nat \<Rightarrow> pyval \<Rightarrow> bool" where
  "d_optional_hex n v \<longleftrightarrow> (case v of PNone \<Rightarrow> True | PStr s \<Rightarrow> hex_text n s | _ \<Rightarrow> False)"

definition d_text :: "nat \<Rightarrow> pyval \<Rightarrow> bool" where
  "d_text n v \<longleftrightarrow> (case v of PNone \<Rightarrow> True | PStr s \<Rightarrow> length s \<le> n \<and> char_of (0::nat) \<notin> set s | _ \<Rightarrow> False)"

definition d_number :: "bool \<Rightarrow> pyval \<Rightarrow> bool" where
  "d_number signed v \<longleftrightarrow> (case v of PNone \<Rightarrow> True | PInt n \<Rightarrow> signed \<or> 0 \<le> n | _ \<Rightarrow> False)"

text \<open>A list of distinct known words in order; which exception a list of anything else raises is not
  distinguished.\<close>

definition d_uncertainty :: "pyval \<Rightarrow> bool" where
  "d_uncertainty v \<longleftrightarrow> (case v of
     PList xs \<Rightarrow> list_all (d_member DIAGNOSTIC_UNCERTAINTY) xs \<and> distinct xs \<and> sorted (map py_str xs)
   | _ \<Rightarrow> False)"

definition validate_diagnostic :: "pyval \<Rightarrow> cert_error + pydict" where
  "validate_diagnostic v =
     bindE (case v of PDict d \<Rightarrow> if same_set (map fst d) DIAGNOSTIC_FIELDS then Inr d else Inl (Cert_refused ''fields'') | _ \<Rightarrow> Inl (Cert_refused ''fields'')) (\<lambda>d.
     bindE (ensure (py_get d ''schema'' = PStr ''dark-factory/diagnostic-result'' \<and> py_get d ''schema_version'' = PStr ''1.0'') (Cert_refused ''schema'')) (\<lambda>_.
     bindE (ensure (case py_get d ''invocation_id'' of PStr s \<Rightarrow> hex_text 32 s | _ \<Rightarrow> False) (Cert_refused ''invocation_id'')) (\<lambda>_.
     bindE (ensure (d_member DIAGNOSTIC_ROLES (py_get d ''role'')) (Cert_refused ''role'')) (\<lambda>_.
     bindE (ensure (d_member DIAGNOSTIC_PHASES (py_get d ''phase'')) (Cert_refused ''phase'')) (\<lambda>_.
     bindE (ensure (d_member (map fst DIAGNOSTIC_STATUS_REASONS) (py_get d ''status'')) (Cert_refused ''status'')) (\<lambda>_.
     bindE (ensure (d_member DIAGNOSTIC_REASON_CODES (py_get d ''reason_code'')) (Cert_refused ''reason_code'')) (\<lambda>_.
     bindE (ensure (d_member PROVIDER_START (py_get d ''provider_started'')) (Cert_refused ''provider_started'')) (\<lambda>_.
     bindE (ensure (d_member DIAGNOSTIC_METERING (py_get d ''metering'')) (Cert_refused ''metering'')) (\<lambda>_.
     bindE (ensure (d_member DIAGNOSTIC_COST_REASONS (py_get d ''cost_reason'')) (Cert_refused ''cost_reason'')) (\<lambda>_.
     bindE (ensure (d_optional_hex 32 (py_get d ''reservation_id'')) (Cert_refused ''reservation_id'')) (\<lambda>_.
     bindE (ensure (d_text 200 (py_get d ''error_type'') \<and> d_text 2000 (py_get d ''error_message'') \<and> d_text 8000 (py_get d ''traceback'')) (Cert_refused ''text'')) (\<lambda>_.
     bindE (ensure (d_number True (py_get d ''exit_code'') \<and> d_number False (py_get d ''output_bytes'') \<and> d_number False (py_get d ''reported_microusd'')) (Cert_refused ''number'')) (\<lambda>_.
     bindE (ensure (d_optional_hex 64 (py_get d ''output_sha256'')) (Cert_refused ''output_sha256'')) (\<lambda>_.
     bindE (ensure ((py_get d ''output_sha256'' = PNone) = (py_get d ''output_bytes'' = PNone)) (Cert_refused ''output'')) (\<lambda>_.
     bindE (ensure (d_uncertainty (py_get d ''uncertainty'')) (Cert_refused ''uncertainty'')) (\<lambda>_.
     bindE (ensure (py_get d ''status'' = PStr ''returned'' \<longrightarrow> py_get d ''provider_started'' = PStr ''started'') (Cert_refused ''started'')) (\<lambda>_.
     bindE (ensure (list_ex (\<lambda>(s, rs). py_get d ''status'' = PStr s \<and> d_member rs (py_get d ''reason_code'')) DIAGNOSTIC_STATUS_REASONS) (Cert_refused ''status reason'')) (\<lambda>_.
     bindE (ensure (py_get d ''reason_code'' = PStr ''returned'' \<longrightarrow> py_get d ''status'' = PStr ''returned'' \<and> py_get d ''error_type'' = PNone) (Cert_refused ''error'')) (\<lambda>_.
     bindE (ensure (py_get d ''status'' \<noteq> PStr ''returned'' \<longrightarrow> py_get d ''error_type'' \<noteq> PNone) (Cert_refused ''class'')) (\<lambda>_.
     Inr d))))))))))))))))))))"

text \<open>What a launch that reached a phase ended with: an exception of one of the classes that decide, or the
  return code and the number of parsed receipts.\<close>

datatype launch_end = Returned int nat | Raised_intent_refused | Raised_timeout | Raised_os_error | Raised_other

definition classify_diagnostic :: "string \<Rightarrow> launch_end \<Rightarrow> cert_error + string \<times> string" where
  "classify_diagnostic phase e =
     (if phase \<notin> set DIAGNOSTIC_PHASES then Inl (Cert_refused ''phase'')
      else Inr (case e of
        Returned rc receipts \<Rightarrow> (''returned'', if rc \<noteq> 0 then ''provider_error'' else if receipts \<noteq> 1 then ''provider_envelope_malformed'' else ''returned'')
      | Raised_intent_refused \<Rightarrow>
          (case map_of [(''identity'', ''identity_refused''), (''admission'', ''admission_refused''), (''reservation'', ''reservation_refused''),
             (''observe'', ''observation_refused'')] phase of Some c \<Rightarrow> (''refused'', c) | None \<Rightarrow> (''failed'', ''unexpected_exception''))
      | Raised_timeout \<Rightarrow> (''failed'', ''timeout'')
      | Raised_os_error \<Rightarrow> (''failed'', if phase = ''launch'' then ''launch_failed'' else ''unexpected_exception'')
      | Raised_other \<Rightarrow> (''failed'', ''unexpected_exception'')))"

definition summary_field :: "pydict \<Rightarrow> string \<Rightarrow> string" where
  "summary_field d k = k @ ''='' @ (if py_get d k = PNone then ''-'' else py_str (py_get d k))"

definition diagnostic_summary :: "pydict \<Rightarrow> string" where
  "diagnostic_summary d = ''FACTORY_DIAGNOSTIC '' @ join_text '' '' (map (summary_field d) [''role'', ''phase'', ''status'', ''reason_code'',
       ''provider_started'', ''metering'', ''error_type'', ''reservation_id'', ''cost_reason'']
     @ [''uncertainty='' @ (case py_items (py_get d ''uncertainty'') of [] \<Rightarrow> ''-'' | us \<Rightarrow> join_text '','' (map py_str us))])"

end
