(* ===== verification/Dispatch.thy ===== *)
theory Dispatch
  imports Run_Manifest
begin

text \<open>
  Dispatch planning, \<open>factory_kernel/dispatch_plan.py\<close>, and the protected-main fence it reads,
  \<open>factory_kernel/execution_fence.py\<close>: the tri-state control observation, the lazy observation of
  work, and the pure priority decision. What GitHub, the stop script and the lease policy answer
  are arguments; an exception of a read is \<open>None\<close>. The human texts (notes, reasons) are not modelled.
\<close>

section \<open>The execution fence\<close>

definition FENCE_PATH :: string where
  "FENCE_PATH = ''.factory/programmes/execution-fence.json''"

definition branch_revision :: "pyval \<Rightarrow> string option" where
  "branch_revision branch =
     (case py_field (py_field branch ''commit'') ''sha'' of
        PStr s \<Rightarrow> if py_field branch ''protected'' = PBool True \<and> hex_text 40 s then Some s else None
      | _ \<Rightarrow> None)"

definition tree_paths :: "pyval \<Rightarrow> string list option" where
  "tree_paths tree =
     (case py_field tree ''tree'' of
        PList rows \<Rightarrow>
          (let paths = map (\<lambda>r. py_field r ''path'') rows;
               names = concat (map (\<lambda>v. case v of PStr s \<Rightarrow> [s] | _ \<Rightarrow> []) paths) in
           if py_field tree ''truncated'' = PBool False \<and> length names = length paths \<and> distinct names then Some names else None)
      | _ \<Rightarrow> None)"

definition below_fence :: "string \<Rightarrow> bool" where
  "below_fence p \<longleftrightarrow> p = FENCE_PATH \<or> take (length FENCE_PATH + 1) p = FENCE_PATH @ ''/''"

text \<open>Some revision with whether it is fenced; \<open>None\<close> is \<open>ExecutionFenced\<close>. The two reads of the branch
  bracket the read of its tree.\<close>

definition fence_status :: "pyval option \<Rightarrow> (string \<Rightarrow> pyval option) \<Rightarrow> pyval option \<Rightarrow> (string \<times> bool) option" where
  "fence_status branch tree_of latest =
     (case branch of None \<Rightarrow> None | Some b \<Rightarrow>
     (case branch_revision b of None \<Rightarrow> None | Some revision \<Rightarrow>
     (case tree_of revision of None \<Rightarrow> None | Some t \<Rightarrow>
     (case tree_paths t of None \<Rightarrow> None | Some paths \<Rightarrow>
     (case latest of None \<Rightarrow> None | Some l \<Rightarrow>
        if branch_revision l = Some revision then Some (revision, list_ex below_fence paths) else None)))))"

definition require_execution_open :: "pyval option \<Rightarrow> (string \<Rightarrow> pyval option) \<Rightarrow> pyval option \<Rightarrow> string option" where
  "require_execution_open branch tree_of latest =
     (case fence_status branch tree_of latest of Some (revision, False) \<Rightarrow> Some revision | _ \<Rightarrow> None)"

section \<open>Rows and priorities\<close>

text \<open>A row of a GitHub listing as the planner reads it.\<close>

record work_row =
  wr_number :: int
  wr_updated :: pyval
  wr_labels :: "pyval list"

definition updated_text :: "work_row \<Rightarrow> string" where
  "updated_text r = (if py_truthy (wr_updated r) then py_str (wr_updated r) else [])"

definition labels_of :: "work_row \<Rightarrow> string list" where
  "labels_of r = concat (map (\<lambda>v. case v of PDict d \<Rightarrow> [py_str (py_get d ''name'')] | _ \<Rightarrow> []) (wr_labels r))"

definition PRIORITY :: "(string \<times> nat) list" where
  "PRIORITY = [(''priority:critical'', 0), (''priority:high'', 1), (''priority:medium'', 2), (''priority:low'', 3)]"

definition label_priority :: "string list \<Rightarrow> nat" where
  "label_priority labels = foldr (\<lambda>l n. case map_of PRIORITY l of None \<Rightarrow> n | Some k \<Rightarrow> min k n) labels 4"

definition issue_dispatch_key :: "work_row \<Rightarrow> nat \<times> string \<times> int" where
  "issue_dispatch_key r = (label_priority (labels_of r), updated_text r, wr_number r)"

definition review_key :: "work_row \<Rightarrow> string \<times> int" where
  "review_key r = (updated_text r, wr_number r)"

text \<open>\<open>min(rows, key=...)\<close>: the first of the least.\<close>

fun first_min :: "('a \<Rightarrow> 'k::linorder) \<Rightarrow> 'a \<Rightarrow> 'a list \<Rightarrow> 'a" where
  "first_min key x [] = x"
| "first_min key x (y # ys) = first_min key (if key y < key x then y else x) ys"

definition oldest_number :: "work_row \<Rightarrow> work_row list \<Rightarrow> int" where
  "oldest_number r rs = wr_number (first_min review_key r rs)"

section \<open>The decision\<close>

datatype budget_view = Available | Unavailable | Unobserved

record dispatch_observation =
  do_control :: bool
  do_stopped :: bool
  do_fenced :: bool
  do_reconciliation :: bool
  do_review :: "work_row list"
  do_rehead :: "int list"
  do_build :: "work_row list"
  do_budget :: budget_view
  do_resume :: "int option"
  do_programme_ready :: bool
  do_continuation :: string

record dispatch_plan =
  pl_status :: string
  pl_codes :: "string list"
  pl_action :: "string option"
  pl_subject :: "int option"
  pl_mutations :: nat
  pl_observations :: pydict

definition PAID_ACTIONS :: "string list" where
  "PAID_ACTIONS = [''validate-pr'', ''build-issue'']"

definition budget_text :: "budget_view \<Rightarrow> string" where
  "budget_text b = (case b of Available \<Rightarrow> ''available'' | Unavailable \<Rightarrow> ''unavailable'' | Unobserved \<Rightarrow> ''unobserved'')"

definition number_value :: "int option \<Rightarrow> pyval" where
  "number_value n = (case n of None \<Rightarrow> PNone | Some i \<Rightarrow> PInt i)"

definition plan_summary :: "dispatch_observation \<Rightarrow> pydict" where
  "plan_summary o' =
     [(''review'', PList (map (PInt \<circ> wr_number) (do_review o'))), (''rehead'', PList (map PInt (do_rehead o'))),
      (''build'', PList (map (PInt \<circ> wr_number) (do_build o'))), (''budget'', PStr (budget_text (do_budget o'))),
      (''resume'', number_value (do_resume o')), (''continuation'', PStr (do_continuation o')),
      (''programme_ready'', PBool (do_programme_ready o'))]"

definition control_block :: "dispatch_observation \<Rightarrow> string option" where
  "control_block o' =
     (if \<not> do_control o' then Some ''control_unobserved''
      else if do_stopped o' then Some ''stopped''
      else if do_fenced o' then Some ''fenced''
      else if do_reconciliation o' then Some ''reconciliation_required'' else None)"

definition choose_action :: "(work_row \<Rightarrow> 'k::linorder) \<Rightarrow> dispatch_observation \<Rightarrow> string option \<times> int option" where
  "choose_action issue_key o' =
     (case do_resume o' of Some n \<Rightarrow> (Some ''resume-pr'', Some n) | None \<Rightarrow>
     (case do_review o' of r # rs \<Rightarrow> (Some ''validate-pr'', Some (oldest_number r rs)) | [] \<Rightarrow>
     (case do_rehead o' of n # ns \<Rightarrow> (Some ''rehead-pr'', Some n) | [] \<Rightarrow>
     (case do_build o' of r # rs \<Rightarrow> (Some ''build-issue'', Some (wr_number (first_min issue_key r rs))) | [] \<Rightarrow>
        if do_continuation o' \<noteq> [] \<or> do_programme_ready o' then (Some ''materialize-programme'', None) else (None, None)))))"

definition select_dispatch :: "(work_row \<Rightarrow> 'k::linorder) \<Rightarrow> dispatch_observation \<Rightarrow> dispatch_plan" where
  "select_dispatch issue_key o' =
     (let plan = (\<lambda>status codes action subject. \<lparr>pl_status = status, pl_codes = codes, pl_action = action, pl_subject = subject,
                    pl_mutations = 0, pl_observations = plan_summary o'\<rparr>) in
      case control_block o' of
        Some code \<Rightarrow> plan ''blocked'' [code] None None
      | None \<Rightarrow>
          (case choose_action issue_key o' of
             (None, _) \<Rightarrow> plan ''idle'' [] None None
           | (Some action, subject) \<Rightarrow>
               if action \<in> set PAID_ACTIONS \<and> do_budget o' = Unavailable then plan ''blocked'' [''budget_required''] None None
               else plan ''ready'' [] (Some action) subject))"

section \<open>Observation\<close>

text \<open>The stop script either did not run or ended with a code and its output.\<close>

datatype stop_run = Stop_not_run | Stop_ended int string

definition STOP_UNREADABLE :: string where
  "STOP_UNREADABLE = ''cannot read the stop state''"

record control_view =
  cv_observed :: bool
  cv_stopped :: bool
  cv_fenced :: bool

definition observe_control :: "stop_run \<Rightarrow> (string \<times> bool) option \<Rightarrow> control_view" where
  "observe_control stop fence =
     (case stop of
        Stop_not_run \<Rightarrow> \<lparr>cv_observed = False, cv_stopped = False, cv_fenced = False\<rparr>
      | Stop_ended rc output \<Rightarrow>
          if rc \<noteq> 0 then
            (if sublist STOP_UNREADABLE (py_strip output) \<or> py_strip output = []
             then \<lparr>cv_observed = False, cv_stopped = False, cv_fenced = False\<rparr>
             else \<lparr>cv_observed = True, cv_stopped = True, cv_fenced = False\<rparr>)
          else (case fence of
            None \<Rightarrow> \<lparr>cv_observed = False, cv_stopped = False, cv_fenced = False\<rparr>
          | Some (_, fenced) \<Rightarrow> \<lparr>cv_observed = True, cv_stopped = False, cv_fenced = fenced\<rparr>))"

record work_view =
  wv_review :: "work_row list"
  wv_rehead :: "int list"
  wv_build :: "work_row list"
  wv_ready :: bool

text \<open>What the reads of \<open>observe_work\<close> answer, each asked only when the ones before it did not decide: the
  listings, whether a pull request may be re-headed, whether an issue has the in-progress label, whether the
  programme queue admits it, and whether a programme item is ready.\<close>

record work_reads =
  rd_review_prs :: "work_row list option"
  rd_fix_prs :: "work_row list option"
  rd_eligible :: "work_row \<Rightarrow> bool option"
  rd_accepted :: "work_row list option"
  rd_in_progress :: "work_row \<Rightarrow> bool option"
  rd_admits :: "work_row \<Rightarrow> bool option"
  rd_ready :: "bool option"

fun first_eligible :: "(work_row \<Rightarrow> bool option) \<Rightarrow> work_row list \<Rightarrow> work_row option option" where
  "first_eligible eligible [] = Some None"
| "first_eligible eligible (r # rs) =
     (case eligible r of None \<Rightarrow> None | Some True \<Rightarrow> Some (Some r) | Some False \<Rightarrow> first_eligible eligible rs)"

fun keep_if :: "(work_row \<Rightarrow> bool option) \<Rightarrow> work_row list \<Rightarrow> work_row list option" where
  "keep_if p [] = Some []"
| "keep_if p (r # rs) =
     (case p r of None \<Rightarrow> None
      | Some b \<Rightarrow> (case keep_if p rs of None \<Rightarrow> None | Some kept \<Rightarrow> Some (if b then r # kept else kept)))"

definition observe_accepted :: "bool \<Rightarrow> work_reads \<Rightarrow> work_view option" where
  "observe_accepted observe_programme reads =
     (case rd_accepted reads of None \<Rightarrow> None | Some accepted \<Rightarrow>
     (case keep_if (\<lambda>r. map_option Not (rd_in_progress reads r)) accepted of None \<Rightarrow> None | Some idle \<Rightarrow>
     (case keep_if (rd_admits reads) idle of None \<Rightarrow> None | Some admitted \<Rightarrow>
        if admitted \<noteq> [] \<or> \<not> observe_programme then Some \<lparr>wv_review = [], wv_rehead = [], wv_build = admitted, wv_ready = False\<rparr>
        else map_option (\<lambda>ready. \<lparr>wv_review = [], wv_rehead = [], wv_build = [], wv_ready = ready\<rparr>) (rd_ready reads))))"

definition observe_work :: "bool \<Rightarrow> work_reads \<Rightarrow> work_view option" where
  "observe_work observe_programme reads =
     (case rd_review_prs reads of None \<Rightarrow> None
      | Some (r # rs) \<Rightarrow> Some \<lparr>wv_review = r # rs, wv_rehead = [], wv_build = [], wv_ready = False\<rparr>
      | Some [] \<Rightarrow>
     (case rd_fix_prs reads of None \<Rightarrow> None | Some fix_prs \<Rightarrow>
     (case first_eligible (rd_eligible reads) (sort_key review_key fix_prs) of
        None \<Rightarrow> None
      | Some (Some pr) \<Rightarrow> Some \<lparr>wv_review = [], wv_rehead = [wr_number pr], wv_build = [], wv_ready = False\<rparr>
      | Some None \<Rightarrow> observe_accepted observe_programme reads)))"

definition blocked_observation :: "bool \<Rightarrow> bool \<Rightarrow> bool \<Rightarrow> bool \<Rightarrow> int option \<Rightarrow> string \<Rightarrow> dispatch_observation" where
  "blocked_observation control stopped fenced reconciliation resume continuation =
     \<lparr>do_control = control, do_stopped = stopped, do_fenced = fenced, do_reconciliation = reconciliation, do_review = [],
      do_rehead = [], do_build = [], do_budget = Unobserved, do_resume = resume, do_programme_ready = False,
      do_continuation = continuation\<rparr>"

text \<open>\<open>reconciliation\<close>: the leases the reaper would release, unless the inventory could not be read.\<close>

definition observe ::
  "control_view \<Rightarrow> int list option \<Rightarrow> work_view option \<Rightarrow> int option \<Rightarrow> string \<Rightarrow> dispatch_observation" where
  "observe control reconciliation work resume continuation =
     (if \<not> cv_observed control \<or> cv_stopped control \<or> cv_fenced control
      then blocked_observation (cv_observed control) (cv_stopped control) (cv_fenced control) False resume continuation
      else case reconciliation of
        None \<Rightarrow> blocked_observation False False False False resume continuation
      | Some (n # ns) \<Rightarrow> blocked_observation True False False True resume continuation
      | Some [] \<Rightarrow>
          (case work of
             None \<Rightarrow> blocked_observation False False False False resume continuation
           | Some w \<Rightarrow>
               \<lparr>do_control = True, do_stopped = False, do_fenced = False, do_reconciliation = False, do_review = wv_review w,
                do_rehead = wv_rehead w, do_build = wv_build w, do_budget = Unobserved, do_resume = resume,
                do_programme_ready = wv_ready w, do_continuation = continuation\<rparr>))"

definition plan_dispatch ::
  "stop_run \<Rightarrow> (string \<times> bool) option \<Rightarrow> int list option \<Rightarrow> bool \<Rightarrow> work_reads \<Rightarrow> int option \<Rightarrow> string \<Rightarrow> dispatch_plan" where
  "plan_dispatch stop fence reconciliation observe_programme reads resume continuation =
     select_dispatch issue_dispatch_key
       (observe (observe_control stop fence) reconciliation (observe_work observe_programme reads) resume continuation)"

end
