(* ===== verification/Claim_Scheduler.thy ===== *)
theory Claim_Scheduler
  imports Evidence_Spine Dispatch
begin

text \<open>
  The allowed-actions compiler, \<open>factory_kernel/claim_scheduler.py\<close>: the normalised observations, the
  proposals and the reasons for everything not proposed, and the comparison with the legacy
  dispatcher, over the observations \<open>claim_views.plan_obligations\<close> builds from a recorded plan.
  Observations are JSON. Of a claim set the compiler reads its digest and its item obligations,
  which are arguments.
\<close>

section \<open>Observations\<close>

text \<open>\<open>int(text)\<close>: an optional sign and decimal digits, single underscores between digits, white space
  around.\<close>

fun digits_value :: "bool \<Rightarrow> int \<Rightarrow> string \<Rightarrow> int option" where
  "digits_value after n [] = (if after then Some n else None)"
| "digits_value after n (c # cs) =
     (if is_digit_char c then digits_value True (10 * n + int (code_of c - 48)) cs
      else if c = CHR ''_'' \<and> after then digits_value False n cs else None)"

definition int_of_text :: "string \<Rightarrow> int option" where
  "int_of_text s =
     (case py_strip s of
        [] \<Rightarrow> None
      | c # cs \<Rightarrow> if c = CHR ''-'' then map_option uminus (digits_value False 0 cs)
                  else if c = CHR ''+'' then digits_value False 0 cs else digits_value False 0 (c # cs))"

datatype observation_error = Observation_refused | Observation_type_error

record item_binding =
  ib_issue :: pyval
  ib_pr :: pyval
  ib_head :: "string option"

record observed =
  ob_control :: bool
  ob_stopped :: bool
  ob_fenced :: bool
  ob_reconciliation :: bool
  ob_budget :: pyval
  ob_resume :: "int option"
  ob_review :: "int list"
  ob_rehead :: "int list"
  ob_build :: "int list"
  ob_ready :: bool
  ob_continuation :: string
  ob_heads :: "(int \<times> string) list"
  ob_issue_items :: "(int \<times> string) list"
  ob_items :: "(string \<times> item_binding) list"
  ob_leases :: "(string \<times> string) list"
  ob_checked :: "(int \<times> string) list"

definition numbers :: "pyval \<Rightarrow> int list" where
  "numbers v =
     (case v of
        PList xs \<Rightarrow> sorted_set (concat (map (\<lambda>x.
          case (case x of PDict d \<Rightarrow> py_get d ''number'' | _ \<Rightarrow> x) of PInt n \<Rightarrow> if 0 < n then [n] else [] | _ \<Rightarrow> []) xs))
      | _ \<Rightarrow> [])"

text \<open>\<open>(raw.get(k) or {}).items()\<close>.\<close>

definition members :: "pyval \<Rightarrow> observation_error + pydict" where
  "members v = (if \<not> py_truthy v then Inr [] else case v of PDict d \<Rightarrow> Inr d | _ \<Rightarrow> Inl Observation_type_error)"

text \<open>\<open>{int(k): str(v) for k, v in ... if keep(str(v))}\<close>: a later key replaces the value of an equal one.\<close>

fun number_map :: "(string \<Rightarrow> bool) \<Rightarrow> (int \<times> string) list \<Rightarrow> pydict \<Rightarrow> observation_error + (int \<times> string) list" where
  "number_map keep found [] = Inr found"
| "number_map keep found ((k, v) # kvs) =
     (if \<not> keep (py_str v) then number_map keep found kvs
      else case int_of_text k of None \<Rightarrow> Inl Observation_refused | Some n \<Rightarrow> number_map keep (AList.update n (py_str v) found) kvs)"

definition number_entries :: "(string \<Rightarrow> bool) \<Rightarrow> pyval \<Rightarrow> observation_error + (int \<times> string) list" where
  "number_entries keep v = bindE (members v) (number_map keep [])"

definition item_rows :: "pydict \<Rightarrow> (string \<times> item_binding) list" where
  "item_rows kvs = concat (map (\<lambda>(k, v). case v of
       PDict d \<Rightarrow> [(k, \<lparr>ib_issue = py_get d ''issue'', ib_pr = py_get d ''pr'',
          ib_head = (case (if py_truthy (py_get d ''head'') then py_str (py_get d ''head'') else []) of [] \<Rightarrow> None | c # cs \<Rightarrow> Some (c # cs))\<rparr>)]
     | _ \<Rightarrow> []) kvs)"

definition set_default :: "'k \<Rightarrow> 'v \<Rightarrow> ('k \<times> 'v) list \<Rightarrow> ('k \<times> 'v) list" where
  "set_default k v m = (case map_of m k of None \<Rightarrow> m @ [(k, v)] | Some _ \<Rightarrow> m)"

definition bind_issues :: "(string \<times> item_binding) list \<Rightarrow> (int \<times> string) list \<Rightarrow> (int \<times> string) list" where
  "bind_issues items m = fold (\<lambda>(i, b) m. case ib_issue b of PInt n \<Rightarrow> set_default n i m | _ \<Rightarrow> m) items m"

definition observations :: "pyval \<Rightarrow> observation_error + observed" where
  "observations raw =
     (case raw of
        PDict d \<Rightarrow>
          bindE (number_entries (\<lambda>s. s \<noteq> []) (py_get d ''heads'')) (\<lambda>heads.
          bindE (number_entries (\<lambda>_. True) (py_get d ''issue_items'')) (\<lambda>issue_items.
          bindE (members (py_get d ''items'')) (\<lambda>items.
          bindE (members (py_get d ''leases'')) (\<lambda>leases.
          bindE (number_entries (\<lambda>_. True) (py_get d ''exact_head_checked'')) (\<lambda>checked.
          let budget = py_get d ''budget'' in
          Inr \<lparr>ob_control = (py_get d ''control_observed'' = PBool True), ob_stopped = (py_get d ''stopped'' = PBool True),
               ob_fenced = (py_get d ''fenced'' = PBool True), ob_reconciliation = (py_get d ''reconciliation_required'' = PBool True),
               ob_budget = (if py_eq budget (PBool True) \<or> py_eq budget (PBool False) then budget else PNone),
               ob_resume = (case py_get d ''resume'' of PInt n \<Rightarrow> Some n | _ \<Rightarrow> None),
               ob_review = numbers (py_get d ''review''), ob_rehead = numbers (py_get d ''rehead''), ob_build = numbers (py_get d ''build''),
               ob_ready = (py_get d ''programme_ready'' = PBool True),
               ob_continuation = (if py_truthy (py_get d ''continuation'') then py_str (py_get d ''continuation'') else []),
               ob_heads = heads, ob_issue_items = bind_issues (item_rows items) issue_items, ob_items = item_rows items,
               ob_leases = map (\<lambda>(k, v). (k, py_str v)) leases, ob_checked = checked\<rparr>)))))
      | _ \<Rightarrow> Inl Observation_refused)"

section \<open>The input digest\<close>

text \<open>Canonical JSON of an object whose members are rendered, and of an object with integer keys, which
  \<open>json.dumps\<close> orders as numbers.\<close>

definition json_object :: "(string \<times> string) list \<Rightarrow> string" where
  "json_object kvs = ''{'' @ join_text '','' (map (\<lambda>(k, v). json_string json_char k @ '':'' @ v) (sort_key fst kvs)) @ ''}''"

definition json_value :: "pyval \<Rightarrow> string" where
  "json_value v = json_text json_char (sort_keys v)"

definition json_numbers :: "(int \<times> string) list \<Rightarrow> string" where
  "json_numbers m = ''{'' @ join_text '','' (map (\<lambda>(k, v). json_string json_char (int_text k) @ '':'' @ json_string json_char v) (sort_key fst m)) @ ''}''"

definition optional_text :: "string option \<Rightarrow> pyval" where
  "optional_text t = (case t of None \<Rightarrow> PNone | Some s \<Rightarrow> PStr s)"

definition observed_json :: "observed \<Rightarrow> string" where
  "observed_json ob = json_object
     [(''control_observed'', json_value (PBool (ob_control ob))), (''stopped'', json_value (PBool (ob_stopped ob))),
      (''fenced'', json_value (PBool (ob_fenced ob))), (''reconciliation_required'', json_value (PBool (ob_reconciliation ob))),
      (''budget'', json_value (ob_budget ob)), (''resume'', json_value (number_value (ob_resume ob))),
      (''review'', json_value (PList (map PInt (ob_review ob)))), (''rehead'', json_value (PList (map PInt (ob_rehead ob)))),
      (''build'', json_value (PList (map PInt (ob_build ob)))), (''programme_ready'', json_value (PBool (ob_ready ob))),
      (''continuation'', json_value (PStr (ob_continuation ob))), (''heads'', json_numbers (ob_heads ob)),
      (''issue_items'', json_numbers (ob_issue_items ob)),
      (''items'', json_value (PDict (map (\<lambda>(k, b). (k, PDict [(''issue'', ib_issue b), (''pr'', ib_pr b), (''head'', optional_text (ib_head b))])) (ob_items ob)))),
      (''leases'', json_value (PDict (map (\<lambda>(k, v). (k, PStr v)) (ob_leases ob)))), (''exact_head_checked'', json_numbers (ob_checked ob))]"

record claim_view =
  cw_digest :: string
  cw_obligations :: "(string \<times> string list) list"

definition input_digest ::
  "(string \<Rightarrow> string) \<Rightarrow> observed \<Rightarrow> claim_view option \<Rightarrow> programme option \<Rightarrow> pyval \<Rightarrow> string \<Rightarrow> string" where
  "input_digest sha ob claims programme verified_proof policy_digest = sha (json_object
     [(''observations'', observed_json ob), (''claims'', json_value (optional_text (map_option cw_digest claims))),
      (''programme'', json_value (optional_text (map_option pg_sha256 programme))),
      (''proof'', json_value (case verified_proof of PDict d \<Rightarrow> PList (map PStr (sort (map fst d))) | _ \<Rightarrow> PNone)),
      (''policy'', json_value (PStr policy_digest))] @ [char_of (10::nat)])"

section \<open>Actions\<close>

datatype action = Reconcile_lease | Resume_pr | Validate_pr | Merge_pr | Rehead_pr | Build_issue | Materialize_programme

definition ACTIONS :: "action list" where
  "ACTIONS = [Reconcile_lease, Resume_pr, Validate_pr, Merge_pr, Rehead_pr, Build_issue, Materialize_programme]"

fun action_name :: "action \<Rightarrow> string" where
  "action_name Reconcile_lease = ''reconcile-lease''" | "action_name Resume_pr = ''resume-pr''" | "action_name Validate_pr = ''validate-pr''"
| "action_name Merge_pr = ''merge-pr''" | "action_name Rehead_pr = ''rehead-pr''" | "action_name Build_issue = ''build-issue''"
| "action_name Materialize_programme = ''materialize-programme''"

definition paid :: "action \<Rightarrow> bool" where
  "paid k \<longleftrightarrow> k \<in> {Resume_pr, Validate_pr, Build_issue}"

fun resources :: "action \<Rightarrow> string list" where
  "resources Reconcile_lease = [''github:write'']" | "resources Resume_pr = [''github:write'', ''provider:build'']"
| "resources Validate_pr = [''github:write'', ''provider:judges'', ''validation:database'']" | "resources Merge_pr = [''github:merge'']"
| "resources Rehead_pr = [''github:write'']" | "resources Build_issue = [''github:write'', ''provider:build'']"
| "resources Materialize_programme = [''github:write'']"

record proposal =
  ap_id :: string
  ap_kind :: action
  ap_digest :: string
  ap_obligations :: "string list"
  ap_attestations :: "string list"
  ap_resources :: "string list"
  ap_policy :: string
  ap_input :: string
  ap_subject :: pydict

record blocked_action =
  ba_kind :: action
  ba_subject :: "pydict option"
  ba_codes :: "string list"

definition subject_digest :: "(string \<Rightarrow> string) \<Rightarrow> action \<Rightarrow> pydict \<Rightarrow> string" where
  "subject_digest sha k subject = sha256_value sha (PDict [(''kind'', PStr (action_name k)), (''subject'', PDict subject)])"

definition propose :: "(string \<Rightarrow> string) \<Rightarrow> string \<Rightarrow> string \<Rightarrow> action \<Rightarrow> pydict \<Rightarrow> string list \<Rightarrow> string list \<Rightarrow> proposal" where
  "propose sha policy_digest input k subject obligations attestations =
     (let digest = subject_digest sha k subject in
      \<lparr>ap_id = take 32 (sha256_value sha (PDict [(''kind'', PStr (action_name k)), (''subject'', PStr digest), (''input'', PStr input)])),
       ap_kind = k, ap_digest = digest, ap_obligations = obligations, ap_attestations = attestations, ap_resources = resources k,
       ap_policy = policy_digest, ap_input = input, ap_subject = subject\<rparr>)"

section \<open>What blocks an action\<close>

definition control_code :: "observed \<Rightarrow> string option" where
  "control_code ob = (if \<not> ob_control ob then Some ''control_unobserved'' else if ob_stopped ob then Some ''stopped''
     else if ob_fenced ob then Some ''fenced'' else None)"

definition reconciling :: "observed \<Rightarrow> string list" where
  "reconciling ob = (if ob_reconciliation ob then [''reconciliation_pending''] else [])"

definition paid_block :: "observed \<Rightarrow> action \<Rightarrow> string list" where
  "paid_block ob k = (if \<not> paid k then [] else if ob_budget ob = PNone then [''budget_unobserved'']
     else if py_truthy (ob_budget ob) then [] else [''budget_required''])"

definition lease_block :: "observed \<Rightarrow> string \<Rightarrow> string list" where
  "lease_block ob key = (if key \<in> set (map fst (ob_leases ob)) then [''lease_held''] else [])"

definition proof_for :: "pyval \<Rightarrow> string \<Rightarrow> pydict option" where
  "proof_for verified_proof head = (case py_field verified_proof head of PDict d \<Rightarrow> Some d | _ \<Rightarrow> None)"

definition proven :: "pydict \<Rightarrow> string \<Rightarrow> bool" where
  "proven proof i \<longleftrightarrow> (case py_get proof i of PDict d \<Rightarrow> py_get d ''status'' = PStr ''current'' | _ \<Rightarrow> False)"

definition head_of :: "observed \<Rightarrow> string \<Rightarrow> string option" where
  "head_of ob i =
     (case map_of (ob_items ob) i of
        None \<Rightarrow> None
      | Some b \<Rightarrow> (case ib_head b of Some h \<Rightarrow> Some h | None \<Rightarrow> (case ib_pr b of PInt n \<Rightarrow> map_of (ob_heads ob) n | _ \<Rightarrow> None)))"

definition pr_key :: "int \<Rightarrow> string" where
  "pr_key n = ''pr:'' @ int_text n"

definition issue_key :: "int \<Rightarrow> string" where
  "issue_key n = ''issue:'' @ int_text n"

section \<open>The compiler\<close>

text \<open>One considered action: proposed when nothing blocks it, refused with its codes otherwise.\<close>

record considered =
  cd_kind :: action
  cd_subject :: pydict
  cd_codes :: "string list"
  cd_obligations :: "string list"
  cd_attestations :: "string list"

definition weigh :: "action \<Rightarrow> pydict \<Rightarrow> string list \<Rightarrow> considered" where
  "weigh k subject codes = \<lparr>cd_kind = k, cd_subject = subject, cd_codes = codes, cd_obligations = [], cd_attestations = []\<rparr>"

definition consider_resume :: "observed \<Rightarrow> considered list" where
  "consider_resume ob = (case ob_resume ob of None \<Rightarrow> []
     | Some n \<Rightarrow> [weigh Resume_pr [(''pr'', PInt n)] (reconciling ob @ paid_block ob Resume_pr @ lease_block ob (pr_key n))])"

definition attestation_of :: "pydict \<Rightarrow> string \<Rightarrow> string" where
  "attestation_of proof i = (case py_get proof i of PDict d \<Rightarrow> text_or d ''attestation_id'' [] | _ \<Rightarrow> [])"

definition consider_merge :: "observed \<Rightarrow> string list \<Rightarrow> pyval \<Rightarrow> int \<Rightarrow> considered" where
  "consider_merge ob policy_ids verified_proof pr =
     (let subject = [(''pr'', PInt pr), (''head'', optional_text (map_of (ob_heads ob) pr))] in
      case (case map_of (ob_heads ob) pr of None \<Rightarrow> None | Some head \<Rightarrow> map_option (Pair head) (proof_for verified_proof head)) of
        None \<Rightarrow> weigh Merge_pr subject (reconciling ob @ [''proof_unavailable''])
      | Some (head, proof) \<Rightarrow>
          \<lparr>cd_kind = Merge_pr, cd_subject = subject,
           cd_codes = reconciling ob @ map (\<lambda>i. ''obligation_incomplete:'' @ i) (filter (\<lambda>i. \<not> proven proof i) policy_ids)
             @ (if map_of (ob_checked ob) pr = Some head then [] else [''exact_head_unverified'']) @ lease_block ob (pr_key pr),
           cd_obligations = policy_ids, cd_attestations = map (attestation_of proof) policy_ids\<rparr>)"

definition consider_review :: "observed \<Rightarrow> string list \<Rightarrow> pyval \<Rightarrow> int \<Rightarrow> considered list" where
  "consider_review ob policy_ids verified_proof pr =
     [weigh Validate_pr [(''pr'', PInt pr), (''head'', optional_text (map_of (ob_heads ob) pr))]
        (reconciling ob @ paid_block ob Validate_pr @ lease_block ob (pr_key pr)),
      consider_merge ob policy_ids verified_proof pr]"

definition consider_rehead :: "observed \<Rightarrow> int \<Rightarrow> considered" where
  "consider_rehead ob pr = weigh Rehead_pr [(''pr'', PInt pr)] (reconciling ob @ lease_block ob (pr_key pr))"

text \<open>The items of the programme by identity: the last of two with one identity.\<close>

definition blockers_of :: "programme \<Rightarrow> string \<Rightarrow> string list option" where
  "blockers_of p i = map_of (rev (map (\<lambda>it. (it_id it, it_blocked it)) (pg_items p))) i"

definition blocker_codes :: "observed \<Rightarrow> string list \<Rightarrow> pyval \<Rightarrow> string list \<Rightarrow> string list" where
  "blocker_codes ob policy_ids verified_proof blockers =
     concat (map (\<lambda>b. case (case head_of ob b of None \<Rightarrow> None | Some h \<Rightarrow> if h = [] then None else proof_for verified_proof h) of
         None \<Rightarrow> [''predecessor_incomplete:'' @ b]
       | Some proof \<Rightarrow> if list_all (proven proof) policy_ids then [] else [''predecessor_incomplete:'' @ b]) blockers)"

definition consider_build ::
  "observed \<Rightarrow> string list \<Rightarrow> pyval \<Rightarrow> claim_view option \<Rightarrow> programme option \<Rightarrow> int \<Rightarrow> considered" where
  "consider_build ob policy_ids verified_proof claims programme issue =
     (let item = map_of (ob_issue_items ob) issue;
          codes = reconciling ob @ paid_block ob Build_issue @ lease_block ob (issue_key issue);
          subject = [(''issue'', PInt issue), (''item'', optional_text item)] in
      case (programme, item) of
        (Some p, Some i) \<Rightarrow>
          (case blockers_of p i of
             None \<Rightarrow> weigh Build_issue subject (codes @ [''subject_outside_programme''])
           | Some blockers \<Rightarrow>
               (weigh Build_issue subject (codes @ blocker_codes ob policy_ids verified_proof blockers))
                 \<lparr>cd_obligations := (case claims of None \<Rightarrow> []
                    | Some c \<Rightarrow> (case map_of (cw_obligations c) i of None \<Rightarrow> [] | Some os \<Rightarrow> os))\<rparr>)
      | _ \<Rightarrow> weigh Build_issue subject codes)"

definition consider_materialize :: "observed \<Rightarrow> considered list" where
  "consider_materialize ob = (if ob_continuation ob = [] \<and> \<not> ob_ready ob then []
     else [weigh Materialize_programme [(''continuation'', if ob_continuation ob = [] then PNone else PStr (ob_continuation ob))] (reconciling ob)])"

definition considered_actions ::
  "observed \<Rightarrow> string list \<Rightarrow> pyval \<Rightarrow> claim_view option \<Rightarrow> programme option \<Rightarrow> considered list" where
  "considered_actions ob policy_ids verified_proof claims programme =
     (if ob_reconciliation ob then [weigh Reconcile_lease [(''kind'', PStr ''leases'')] []] else [])
     @ consider_resume ob
     @ concat (map (consider_review ob policy_ids verified_proof) (ob_review ob))
     @ map (consider_rehead ob) (ob_rehead ob)
     @ map (consider_build ob policy_ids verified_proof claims programme) (ob_build ob)
     @ consider_materialize ob"

fun action_order :: "action \<Rightarrow> nat" where
  "action_order Reconcile_lease = 0" | "action_order Resume_pr = 1" | "action_order Validate_pr = 2" | "action_order Rehead_pr = 3"
| "action_order Build_issue = 4" | "action_order Materialize_programme = 5" | "action_order Merge_pr = 6"

record explanation =
  ex_input :: string
  ex_policy :: string
  ex_proposals :: "proposal list"
  ex_blocked :: "blocked_action list"

definition result_of :: "proposal list \<Rightarrow> blocked_action list \<Rightarrow> string \<Rightarrow> string \<Rightarrow> explanation" where
  "result_of proposals blocked input policy_digest =
     \<lparr>ex_input = input, ex_policy = policy_digest,
      ex_proposals = sort_key (\<lambda>p. (action_order (ap_kind p), ap_digest p)) proposals, ex_blocked = blocked\<rparr>"

definition explain_observed ::
  "(string \<Rightarrow> string) \<Rightarrow> claim_view option \<Rightarrow> spine_policy \<Rightarrow> pyval \<Rightarrow> programme option \<Rightarrow> observed \<Rightarrow> explanation" where
  "explain_observed sha claims policy verified_proof programme ob =
     (let policy_digest = policy_sha256 sha policy;
          input = input_digest sha ob claims programme verified_proof policy_digest in
      case control_code ob of
        Some code \<Rightarrow> result_of [] (map (\<lambda>k. \<lparr>ba_kind = k, ba_subject = None, ba_codes = [code]\<rparr>) ACTIONS) input policy_digest
      | None \<Rightarrow>
          (let rows = considered_actions ob (map rq_id (sp_requirements policy)) verified_proof claims programme in
           result_of (map (\<lambda>c. propose sha policy_digest input (cd_kind c) (cd_subject c) (cd_obligations c) (cd_attestations c))
                       (filter (\<lambda>c. cd_codes c = []) rows))
             (map (\<lambda>c. \<lparr>ba_kind = cd_kind c, ba_subject = Some (cd_subject c), ba_codes = cd_codes c\<rparr>) (filter (\<lambda>c. cd_codes c \<noteq> []) rows))
             input policy_digest))"

definition explain_actions ::
  "(string \<Rightarrow> string) \<Rightarrow> claim_view option \<Rightarrow> spine_policy \<Rightarrow> pyval \<Rightarrow> programme option \<Rightarrow> pyval \<Rightarrow> observation_error + explanation" where
  "explain_actions sha claims policy verified_proof programme raw =
     bindE (observations raw) (\<lambda>ob. Inr (explain_observed sha claims policy verified_proof programme ob))"

definition allowed_actions ::
  "(string \<Rightarrow> string) \<Rightarrow> claim_view option \<Rightarrow> spine_policy \<Rightarrow> pyval \<Rightarrow> programme option \<Rightarrow> pyval \<Rightarrow> observation_error + proposal list" where
  "allowed_actions sha claims policy verified_proof programme raw =
     bindE (explain_actions sha claims policy verified_proof programme raw) (\<lambda>e. Inr (ex_proposals e))"

section \<open>The shadow comparison\<close>

definition legacy_subject :: "pydict option \<Rightarrow> int option" where
  "legacy_subject subject =
     (case subject of None \<Rightarrow> None
      | Some d \<Rightarrow> (case py_get d ''pr'' of PInt n \<Rightarrow> Some n | _ \<Rightarrow> (case py_get d ''issue'' of PInt n \<Rightarrow> Some n | _ \<Rightarrow> None)))"

datatype classification = Agree | Shadow_stricter | Shadow_looser | Different_choice | Different_block

definition proposed_pairs :: "explanation \<Rightarrow> (string \<times> int option) list" where
  "proposed_pairs e = map (\<lambda>p. (action_name (ap_kind p), legacy_subject (Some (ap_subject p)))) (filter (\<lambda>p. ap_kind p \<noteq> Merge_pr) (ex_proposals e))"

definition blocked_pairs :: "explanation \<Rightarrow> (string \<times> int option) list" where
  "blocked_pairs e = map (\<lambda>b. (action_name (ba_kind b), legacy_subject (ba_subject b))) (ex_blocked e)"

definition same_block :: "explanation \<Rightarrow> string list \<Rightarrow> bool" where
  "same_block e codes \<longleftrightarrow>
     (if list_ex (\<lambda>c. c \<in> set [''control_unobserved'', ''stopped'', ''fenced'']) codes
      then list_ex (\<lambda>b. list_ex (\<lambda>c. c \<in> set codes) (ba_codes b)) (ex_blocked e) \<and> proposed_pairs e = []
      else if same_set codes [''reconciliation_required''] then list_ex (\<lambda>p. ap_kind p = Reconcile_lease) (ex_proposals e)
      else proposed_pairs e = [])"

definition compare_legacy_frontier :: "explanation \<Rightarrow> dispatch_plan \<Rightarrow> classification" where
  "compare_legacy_frontier e plan =
     (if pl_status plan = ''blocked'' then
        (if same_block e (pl_codes plan) then Agree else if proposed_pairs e \<noteq> [] then Shadow_looser else Different_block)
      else if pl_status plan = ''idle'' then (if proposed_pairs e = [] then Agree else Shadow_looser)
      else (case (if pl_status plan = ''ready'' then pl_action plan else None) of
        None \<Rightarrow> Different_choice
      | Some a \<Rightarrow>
          if (a, pl_subject plan) \<in> set (proposed_pairs e) then Agree
          else if (a, pl_subject plan) \<in> set (blocked_pairs e) then Shadow_stricter else Different_choice))"

text \<open>The observations of a recorded plan, with the caller's additions.\<close>

definition merged_observations :: "dispatch_plan \<Rightarrow> pydict \<Rightarrow> pydict" where
  "merged_observations plan extra =
     (let held = (\<lambda>code. pl_status plan = ''blocked'' \<and> code \<in> set (pl_codes plan)); recorded = pl_observations plan in
      [(''control_observed'', PBool (\<not> held ''control_unobserved'')), (''stopped'', PBool (held ''stopped'')), (''fenced'', PBool (held ''fenced'')),
       (''reconciliation_required'', PBool (held ''reconciliation_required'')),
       (''budget'', if py_get recorded ''budget'' = PStr ''available'' then PBool True
                    else if py_get recorded ''budget'' = PStr ''unavailable'' then PBool False else PNone),
       (''review'', py_get recorded ''review''), (''rehead'', py_get recorded ''rehead''), (''build'', py_get recorded ''build''),
       (''resume'', py_get recorded ''resume''), (''programme_ready'', PBool (py_get recorded ''programme_ready'' = PBool True)),
       (''continuation'', if py_truthy (py_get recorded ''continuation'') then py_get recorded ''continuation'' else PStr [])]
      @ map (\<lambda>k. (k, py_get extra k)) (filter (py_has extra) [''heads'', ''issue_items'', ''items'', ''leases'', ''exact_head_checked'']))"

end
