(* ===== verification/Scheduler_Properties.thy ===== *)
theory Scheduler_Properties
  imports Claim_Scheduler
begin

text \<open>
  The compiler proposes a merge exactly when the whole closure is current for the checked head, and
  nothing past a stop, a fence, a lease or a missing budget; the dispatcher is ready only behind a
  clear stop and an open fence; and the two differ only where the compiler is stricter, or proposes
  unpaid work while the dispatcher waits for a budget.
\<close>

section \<open>Proposals\<close>

lemma set_proposals:
  "set (ex_proposals (explain_observed sha claims policy vp programme ob)) = (if control_code ob = None
     then (\<lambda>c. propose sha (policy_sha256 sha policy) (input_digest sha ob claims programme vp (policy_sha256 sha policy))
            (cd_kind c) (cd_subject c) (cd_obligations c) (cd_attestations c))
          ` {c \<in> set (considered_actions ob (map rq_id (sp_requirements policy)) vp claims programme). cd_codes c = []}
     else {})"
  by (simp add: explain_observed_def Let_def result_of_def split: option.split)

lemma propose_kind [simp]: "ap_kind (propose sha pd input k s os as) = k" "ap_subject (propose sha pd input k s os as) = s"
    "ap_obligations (propose sha pd input k s os as) = os" "ap_resources (propose sha pd input k s os as) = resources k"
  by (simp_all add: propose_def Let_def)

lemma weigh_sel [simp]: "cd_kind (weigh k s codes) = k" "cd_subject (weigh k s codes) = s" "cd_codes (weigh k s codes) = codes"
    "cd_obligations (weigh k s codes) = []"
  by (simp_all add: weigh_def)

lemma build_sel [simp]: "cd_kind (consider_build ob ids vp claims p n) = Build_issue"
    "py_get (cd_subject (consider_build ob ids vp claims p n)) ''issue'' = PInt n"
    "py_get (cd_subject (consider_build ob ids vp claims p n)) ''pr'' = PNone"
  by (auto simp: consider_build_def Let_def py_get_def split: option.splits)

lemma merge_sel [simp]: "cd_kind (consider_merge ob ids vp n) = Merge_pr" "py_get (cd_subject (consider_merge ob ids vp n)) ''pr'' = PInt n"
  by (auto simp: consider_merge_def Let_def py_get_def split: option.splits)

lemma rehead_sel [simp]: "cd_kind (consider_rehead ob n) = Rehead_pr"
  by (simp add: consider_rehead_def)

lemma resume_mem: "c \<in> set (consider_resume ob) \<Longrightarrow> cd_kind c = Resume_pr"
  by (auto simp: consider_resume_def split: option.splits)

lemma materialize_mem: "c \<in> set (consider_materialize ob) \<Longrightarrow> cd_kind c = Materialize_programme"
  by (auto simp: consider_materialize_def split: if_splits)

lemma considered_merge:
  "c \<in> set (considered_actions ob ids vp claims programme) \<and> cd_kind c = Merge_pr \<longleftrightarrow> (\<exists>n \<in> set (ob_review ob). c = consider_merge ob ids vp n)"
  by (auto simp: considered_actions_def consider_review_def dest: resume_mem materialize_mem)

text \<open>When a pull request may be merged: control observed and open, no reconciliation pending, and the
  head observed for it is the one checked, with every claim of the policy current, and no lease.\<close>

definition mergeable :: "observed \<Rightarrow> string list \<Rightarrow> pyval \<Rightarrow> int \<Rightarrow> bool" where
  "mergeable ob ids vp n \<longleftrightarrow> ob_control ob \<and> \<not> ob_stopped ob \<and> \<not> ob_fenced ob \<and> \<not> ob_reconciliation ob \<and> n \<in> set (ob_review ob)
     \<and> pr_key n \<notin> set (map fst (ob_leases ob))
     \<and> (\<exists>head pf. map_of (ob_heads ob) n = Some head \<and> map_of (ob_checked ob) n = Some head \<and> proof_for vp head = Some pf
          \<and> list_all (proven pf) ids)"

lemma merge_codes:
  "cd_codes (consider_merge ob ids vp n) = [] \<longleftrightarrow> \<not> ob_reconciliation ob \<and> pr_key n \<notin> set (map fst (ob_leases ob))
     \<and> (\<exists>head pf. map_of (ob_heads ob) n = Some head \<and> map_of (ob_checked ob) n = Some head \<and> proof_for vp head = Some pf
          \<and> list_all (proven pf) ids)"
proof (cases "map_of (ob_heads ob) n")
  case (Some head)
  have "filter (\<lambda>i. \<not> proven pf i) ids = [] \<longleftrightarrow> list_all (proven pf) ids" for pf
    by (auto simp: filter_empty_conv list_all_iff)
  with Some show ?thesis
    by (cases "proof_for vp head") (auto simp: consider_merge_def Let_def reconciling_def lease_block_def)
qed (simp add: consider_merge_def Let_def)

text \<open>C1. The merge gate: a merge of a pull request is proposed exactly when control is observed, neither
  stopped nor fenced, nothing is to be reconciled, no lease holds it, and the head observed for it is
  the head that was checked with every claim of the protected policy current.\<close>

theorem merge_proposed_exactly:
  assumes "observations raw = Inr ob" and "explain_actions sha claims policy vp programme raw = Inr e"
  shows "(\<exists>p. p \<in> set (ex_proposals e) \<and> ap_kind p = Merge_pr \<and> py_get (ap_subject p) ''pr'' = PInt n)
    \<longleftrightarrow> mergeable ob (map rq_id (sp_requirements policy)) vp n"
proof -
  let ?ids = "map rq_id (sp_requirements policy)"
  have e: "e = explain_observed sha claims policy vp programme ob" using assms by (simp add: explain_actions_def)
  have control: "control_code ob = None \<longleftrightarrow> ob_control ob \<and> \<not> ob_stopped ob \<and> \<not> ob_fenced ob" by (simp add: control_code_def)
  have "(\<exists>p. p \<in> set (ex_proposals e) \<and> ap_kind p = Merge_pr \<and> py_get (ap_subject p) ''pr'' = PInt n)
      \<longleftrightarrow> control_code ob = None \<and> (\<exists>c. (c \<in> set (considered_actions ob ?ids vp claims programme) \<and> cd_kind c = Merge_pr) \<and> cd_codes c = []
            \<and> py_get (cd_subject c) ''pr'' = PInt n)"
    unfolding e set_proposals by auto
  also have "\<dots> \<longleftrightarrow> control_code ob = None \<and> n \<in> set (ob_review ob) \<and> cd_codes (consider_merge ob ?ids vp n) = []"
    unfolding considered_merge by auto
  finally show ?thesis unfolding control merge_codes mergeable_def by blast
qed

definition guarded :: "observed \<Rightarrow> considered \<Rightarrow> bool" where
  "guarded ob c \<longleftrightarrow> set (reconciling ob) \<union> set (paid_block ob (cd_kind c)) \<subseteq> set (cd_codes c)"

lemma guarded_unpaid: "\<not> paid (cd_kind c) \<Longrightarrow> set (reconciling ob) \<subseteq> set (cd_codes c) \<Longrightarrow> guarded ob c"
  by (simp add: guarded_def paid_block_def)

lemma guarded_resume: "c \<in> set (consider_resume ob) \<Longrightarrow> guarded ob c"
  by (cases "ob_resume ob") (auto simp: consider_resume_def guarded_def)

lemma guarded_merge: "guarded ob (consider_merge ob ids vp n)"
  by (rule guarded_unpaid) (auto simp: paid_def consider_merge_def Let_def split: option.splits)

lemma guarded_review: "c \<in> set (consider_review ob ids vp n) \<Longrightarrow> guarded ob c"
  using guarded_merge [of ob ids vp n] by (auto simp: consider_review_def guarded_def)

lemma guarded_rehead: "guarded ob (consider_rehead ob n)"
  by (rule guarded_unpaid) (auto simp: paid_def consider_rehead_def)

lemma guarded_build: "guarded ob (consider_build ob ids vp claims programme n)"
  unfolding guarded_def build_sel by (auto simp: consider_build_def Let_def split: option.splits)

lemma guarded_materialize: "c \<in> set (consider_materialize ob) \<Longrightarrow> guarded ob c"
  by (rule guarded_unpaid) (auto simp: paid_def consider_materialize_def split: if_splits)

lemma considered_guarded:
  "c \<in> set (considered_actions ob ids vp claims programme) \<Longrightarrow> cd_kind c = Reconcile_lease \<or> guarded ob c"
  unfolding considered_actions_def set_append set_concat set_map
  by (auto simp: guarded_rehead guarded_build intro: guarded_resume guarded_review guarded_materialize split: if_splits)

lemma codes_guard:
  assumes "c \<in> set (considered_actions ob ids vp claims programme)" and "cd_codes c = []"
  shows "(ob_reconciliation ob \<longrightarrow> cd_kind c = Reconcile_lease) \<and> (paid (cd_kind c) \<longrightarrow> py_truthy (ob_budget ob))"
  using considered_guarded [OF assms(1)] assms(2)
  by (auto simp: guarded_def reconciling_def paid_block_def paid_def split: if_splits)

text \<open>Nothing is proposed past its guards: under an unobserved, stopped or fenced control plane there is
  no proposal, with leases to reconcile only their reconciliation, and paid work only on an observed
  budget; every proposal names the resources registered for its action.\<close>

theorem proposals_guarded:
  assumes "observations raw = Inr ob" and "allowed_actions sha claims policy vp programme raw = Inr ps" and "p \<in> set ps"
  shows "ob_control ob \<and> \<not> ob_stopped ob \<and> \<not> ob_fenced ob \<and> (ob_reconciliation ob \<longrightarrow> ap_kind p = Reconcile_lease)
    \<and> (paid (ap_kind p) \<longrightarrow> py_truthy (ob_budget ob)) \<and> ap_resources p = resources (ap_kind p)"
proof -
  from assms have "p \<in> set (ex_proposals (explain_observed sha claims policy vp programme ob))"
    by (auto simp: allowed_actions_def explain_actions_def)
  then have "control_code ob = None" and "\<exists>c \<in> set (considered_actions ob (map rq_id (sp_requirements policy)) vp claims programme).
      cd_codes c = [] \<and> ap_kind p = cd_kind c \<and> ap_resources p = resources (cd_kind c)"
    unfolding set_proposals by (auto split: if_splits)
  then show ?thesis using codes_guard by (auto simp: control_code_def split: if_splits)
qed

section \<open>Dispatch\<close>

lemma first_min_mem: "first_min key x xs \<in> insert x (set xs)"
  by (induction key x xs rule: first_min.induct) auto

lemma first_min_least: "y \<in> insert x (set xs) \<Longrightarrow> key (first_min key x xs) \<le> key y"
proof (induction key x xs arbitrary: y rule: first_min.induct)
  case (2 key x z zs)
  have "key (first_min key (if key z < key x then z else x) zs) \<le> key (if key z < key x then z else x)" by (rule 2(1)) simp
  then show ?case using 2(1) [of y] 2(2) by (auto split: if_splits)
qed simp

text \<open>C3. A plan is ready only when the stop script ran and reported clear, the fence was read open on an
  unchanged protected revision, no lease is to be reaped and the work was read; unless the caller asks to
  resume a pull request, which goes first, nothing but the validation of the oldest review is chosen
  while a review is open.\<close>

theorem ready_only_when_open:
  assumes "pl_status (plan_dispatch stop (fence_status branch tree_of latest) reconciliation prog reads resume continuation) = ''ready''"
  shows "(\<exists>out revision. stop = Stop_ended 0 out \<and> require_execution_open branch tree_of latest = Some revision) \<and> reconciliation = Some []
    \<and> (\<exists>w. observe_work prog reads = Some w
        \<and> (resume = None \<longrightarrow> wv_review w \<noteq> [] \<longrightarrow> (\<exists>r \<in> set (wv_review w). (\<forall>s \<in> set (wv_review w). review_key r \<le> review_key s)
             \<and> pl_action (plan_dispatch stop (fence_status branch tree_of latest) reconciliation prog reads resume continuation) = Some ''validate-pr''
             \<and> pl_subject (plan_dispatch stop (fence_status branch tree_of latest) reconciliation prog reads resume continuation) = Some (wr_number r))))"
proof -
  define fence where "fence = fence_status branch tree_of latest"
  define o' where "o' = observe (observe_control stop fence) reconciliation (observe_work prog reads) resume continuation"
  have plan: "plan_dispatch stop (fence_status branch tree_of latest) reconciliation prog reads resume continuation = select_dispatch issue_dispatch_key o'"
    by (simp add: plan_dispatch_def fence_def o'_def)
  from assms have open_control: "control_block o' = None" unfolding plan by (auto simp: select_dispatch_def Let_def split: option.splits)
  then have "cv_observed (observe_control stop fence) \<and> \<not> cv_stopped (observe_control stop fence) \<and> \<not> cv_fenced (observe_control stop fence)
      \<and> reconciliation = Some [] \<and> (\<exists>w. observe_work prog reads = Some w)"
    by (auto simp: o'_def observe_def blocked_observation_def control_block_def split: if_splits option.splits list.splits)
  then obtain w where control: "cv_observed (observe_control stop fence)" "\<not> cv_stopped (observe_control stop fence)" "\<not> cv_fenced (observe_control stop fence)"
    and rest: "reconciliation = Some []" "observe_work prog reads = Some w" by blast
  from control obtain out revision where stop: "stop = Stop_ended 0 out" "fence = Some (revision, False)"
    by (cases stop; cases fence) (auto simp: observe_control_def split: if_splits)
  have review: "\<exists>r \<in> set (wv_review w). (\<forall>s \<in> set (wv_review w). review_key r \<le> review_key s)
      \<and> pl_action (select_dispatch issue_dispatch_key o') = Some ''validate-pr'' \<and> pl_subject (select_dispatch issue_dispatch_key o') = Some (wr_number r)"
    if "resume = None" "wv_review w \<noteq> []"
  proof -
    from that(2) obtain r rs where r: "wv_review w = r # rs" by (cases "wv_review w") auto
    have "do_review o' = r # rs" "do_resume o' = None" "do_budget o' = Unobserved"
      using control rest that(1) r by (simp_all add: o'_def observe_def)
    then have "pl_action (select_dispatch issue_dispatch_key o') = Some ''validate-pr''"
      "pl_subject (select_dispatch issue_dispatch_key o') = Some (wr_number (first_min review_key r rs))"
      using open_control by (simp_all add: select_dispatch_def Let_def choose_action_def oldest_number_def)
    then show ?thesis
      using first_min_mem [of review_key r rs] first_min_least [of _ r rs review_key] unfolding r by (intro bexI [of _ "first_min review_key r rs"]) auto
  qed
  show ?thesis
    using stop rest review unfolding plan by (auto simp: require_execution_open_def fence_def)
qed

section \<open>The shadow and the dispatcher\<close>

lemma numbers_ints: "set (numbers (PList (map (PInt \<circ> f) xs))) = {n \<in> f ` set xs. 0 < n}"
  by (auto simp: numbers_def split: if_splits)

lemma numbers_plain: "set (numbers (PList (map PInt ns))) = {n \<in> set ns. 0 < n}"
  by (auto simp: numbers_def split: if_splits)

definition rows_positive :: "dispatch_observation \<Rightarrow> bool" where
  "rows_positive o' \<longleftrightarrow> (\<forall>r \<in> set (do_review o') \<union> set (do_build o'). 0 < wr_number r) \<and> (\<forall>n \<in> set (do_rehead o'). 0 < n)"

lemma select_blocked:
  "control_block o' = Some code \<Longrightarrow> pl_status (select_dispatch key o') = ''blocked'' \<and> pl_codes (select_dispatch key o') = [code]
     \<and> pl_observations (select_dispatch key o') = plan_summary o'"
  by (simp add: select_dispatch_def)

lemma select_observations: "pl_observations (select_dispatch key o') = plan_summary o'"
  by (auto simp: select_dispatch_def Let_def split: option.splits prod.splits)

lemma held_iff:
  assumes "code \<noteq> ''budget_required''"
  shows "pl_status (select_dispatch key o') = ''blocked'' \<and> code \<in> set (pl_codes (select_dispatch key o')) \<longleftrightarrow> control_block o' = Some code"
  using assms by (auto simp: select_dispatch_def Let_def split: option.splits prod.splits)

lemma number_value_cases: "(case number_value m of PInt n \<Rightarrow> Some n | _ \<Rightarrow> None) = m"
  by (cases m) (simp_all add: number_value_def)

text \<open>What the compiler sees of a recorded plan.\<close>

lemma observations_fields:
  assumes "observations (PDict d) = Inr ob"
  shows "ob_control ob \<longleftrightarrow> py_get d ''control_observed'' = PBool True" and "ob_stopped ob \<longleftrightarrow> py_get d ''stopped'' = PBool True"
    and "ob_fenced ob \<longleftrightarrow> py_get d ''fenced'' = PBool True" and "ob_reconciliation ob \<longleftrightarrow> py_get d ''reconciliation_required'' = PBool True"
    and "ob_resume ob = (case py_get d ''resume'' of PInt n \<Rightarrow> Some n | _ \<Rightarrow> None)"
    and "ob_review ob = numbers (py_get d ''review'')" and "ob_rehead ob = numbers (py_get d ''rehead'')" and "ob_build ob = numbers (py_get d ''build'')"
    and "ob_ready ob \<longleftrightarrow> py_get d ''programme_ready'' = PBool True"
    and "ob_continuation ob = (if py_truthy (py_get d ''continuation'') then py_str (py_get d ''continuation'') else [])"
  using assms unfolding observations_def pyval.case bindE_eq_Inr Let_def by auto

lemma merged_get:
  "py_get (merged_observations plan extra) ''control_observed'' = PBool (\<not> (pl_status plan = ''blocked'' \<and> ''control_unobserved'' \<in> set (pl_codes plan)))"
  "py_get (merged_observations plan extra) ''stopped'' = PBool (pl_status plan = ''blocked'' \<and> ''stopped'' \<in> set (pl_codes plan))"
  "py_get (merged_observations plan extra) ''fenced'' = PBool (pl_status plan = ''blocked'' \<and> ''fenced'' \<in> set (pl_codes plan))"
  "py_get (merged_observations plan extra) ''reconciliation_required'' = PBool (pl_status plan = ''blocked'' \<and> ''reconciliation_required'' \<in> set (pl_codes plan))"
  "py_get (merged_observations plan extra) ''resume'' = py_get (pl_observations plan) ''resume''"
  "py_get (merged_observations plan extra) ''review'' = py_get (pl_observations plan) ''review''"
  "py_get (merged_observations plan extra) ''rehead'' = py_get (pl_observations plan) ''rehead''"
  "py_get (merged_observations plan extra) ''build'' = py_get (pl_observations plan) ''build''"
  "py_get (merged_observations plan extra) ''programme_ready'' = PBool (py_get (pl_observations plan) ''programme_ready'' = PBool True)"
  "py_get (merged_observations plan extra) ''continuation'' = (if py_truthy (py_get (pl_observations plan) ''continuation'')
     then py_get (pl_observations plan) ''continuation'' else PStr [])"
  unfolding merged_observations_def Let_def append_Cons append_Nil py_get_def map_of.simps fst_conv snd_conv by simp_all

lemma summary_get:
  "py_get (plan_summary o') ''review'' = PList (map (PInt \<circ> wr_number) (do_review o'))" "py_get (plan_summary o') ''rehead'' = PList (map PInt (do_rehead o'))"
  "py_get (plan_summary o') ''build'' = PList (map (PInt \<circ> wr_number) (do_build o'))" "py_get (plan_summary o') ''resume'' = number_value (do_resume o')"
  "py_get (plan_summary o') ''continuation'' = PStr (do_continuation o')" "py_get (plan_summary o') ''programme_ready'' = PBool (do_programme_ready o')"
  unfolding plan_summary_def py_get_def map_of.simps fst_conv snd_conv by simp_all

lemma merged_observed:
  assumes "observations (PDict (merged_observations (select_dispatch key o') extra)) = Inr ob"
  shows "ob_control ob \<longleftrightarrow> control_block o' \<noteq> Some ''control_unobserved''" and "ob_stopped ob \<longleftrightarrow> control_block o' = Some ''stopped''"
    and "ob_fenced ob \<longleftrightarrow> control_block o' = Some ''fenced''" and "ob_reconciliation ob \<longleftrightarrow> control_block o' = Some ''reconciliation_required''"
    and "ob_resume ob = do_resume o'" and "ob_review ob = numbers (PList (map (PInt \<circ> wr_number) (do_review o')))"
    and "ob_rehead ob = numbers (PList (map PInt (do_rehead o')))" and "ob_build ob = numbers (PList (map (PInt \<circ> wr_number) (do_build o')))"
    and "ob_ready ob = do_programme_ready o'" and "ob_continuation ob = do_continuation o'"
  unfolding observations_fields [OF assms] merged_get select_observations summary_get number_value_cases
  by (simp_all add: held_iff py_str_def)

text \<open>A plan that waits for a budget tells the compiler that there is none: no paid work is proposed.\<close>

lemma unpaid_only:
  assumes "observations (PDict (merged_observations (select_dispatch key o') extra)) = Inr ob" and "do_budget o' = Unavailable"
    and "p \<in> set (ex_proposals (explain_observed sha claims policy vp programme ob))"
  shows "\<not> paid (ap_kind p)"
proof -
  have budget: "py_get (merged_observations (select_dispatch key o') extra) ''budget'' = PBool False"
    using assms(2) by (simp add: merged_observations_def Let_def py_get_def select_observations plan_summary_def budget_text_def)
  have "ob_budget ob = PBool False"
    using assms(1) budget unfolding observations_def pyval.case bindE_eq_Inr Let_def by auto
  moreover obtain c where "c \<in> set (considered_actions ob (map rq_id (sp_requirements policy)) vp claims programme)" "cd_codes c = []"
      "ap_kind p = cd_kind c"
    using assms(3) unfolding set_proposals by (auto split: if_splits)
  ultimately show ?thesis using codes_guard by fastforce
qed

lemma pairs_cover:
  assumes "control_code ob = None" and "c \<in> set (considered_actions ob (map rq_id (sp_requirements policy)) vp claims programme)" and "cd_kind c \<noteq> Merge_pr"
  shows "(action_name (cd_kind c), legacy_subject (Some (cd_subject c))) \<in> set (proposed_pairs (explain_observed sha claims policy vp programme ob))
    \<union> set (blocked_pairs (explain_observed sha claims policy vp programme ob))"
proof (cases "cd_codes c = []")
  case True
  have pair: "(action_name (ap_kind p), legacy_subject (Some (ap_subject p))) \<in> set (proposed_pairs e)"
    if "p \<in> set (ex_proposals e)" "ap_kind p \<noteq> Merge_pr" for p e
    using that by (auto simp: proposed_pairs_def)
  let ?p = "propose sha (policy_sha256 sha policy) (input_digest sha ob claims programme vp (policy_sha256 sha policy))
      (cd_kind c) (cd_subject c) (cd_obligations c) (cd_attestations c)"
  have "?p \<in> set (ex_proposals (explain_observed sha claims policy vp programme ob))" unfolding set_proposals using assms(1,2) True by auto
  from pair [OF this] have "(action_name (cd_kind c), legacy_subject (Some (cd_subject c))) \<in> set (proposed_pairs (explain_observed sha claims policy vp programme ob))"
    using assms(3) by simp
  then show ?thesis by simp
next
  case False
  then show ?thesis using assms by (auto simp: blocked_pairs_def explain_observed_def Let_def result_of_def)
qed

lemma chosen:
  assumes "choose_action key o' = (Some a, subject)"
  shows "(\<exists>n. do_resume o' = Some n \<and> a = ''resume-pr'' \<and> subject = Some n)
    \<or> (\<exists>r. r \<in> set (do_review o') \<and> a = ''validate-pr'' \<and> subject = Some (wr_number r))
    \<or> (\<exists>n. n \<in> set (do_rehead o') \<and> a = ''rehead-pr'' \<and> subject = Some n)
    \<or> (\<exists>r. r \<in> set (do_build o') \<and> a = ''build-issue'' \<and> subject = Some (wr_number r))
    \<or> \<not> (do_continuation o' = [] \<and> \<not> do_programme_ready o') \<and> a = ''materialize-programme'' \<and> subject = None"
proof (cases "do_resume o'")
  case None
  show ?thesis
  proof (cases "do_review o'")
    case (Cons r rs)
    with None assms first_min_mem [of review_key r rs] show ?thesis
      by (auto simp: choose_action_def oldest_number_def)
  next
    case review: Nil
    show ?thesis
    proof (cases "do_rehead o'")
      case (Cons n ns)
      with None review assms show ?thesis by (auto simp: choose_action_def)
    next
      case rehead: Nil
      show ?thesis
      proof (cases "do_build o'")
        case (Cons r rs)
        with None review rehead assms first_min_mem [of key r rs] show ?thesis by (auto simp: choose_action_def)
      next
        case Nil
        with None review rehead assms show ?thesis by (simp add: choose_action_def split: if_splits)
      qed
    qed
  qed
qed (use assms in \<open>auto simp: choose_action_def\<close>)

lemma chosen_considered:
  assumes "choose_action key o' = (Some a, subject)" and "rows_positive o'"
    and "ob_resume ob = do_resume o'" and "ob_review ob = numbers (PList (map (PInt \<circ> wr_number) (do_review o')))"
    and "ob_rehead ob = numbers (PList (map PInt (do_rehead o')))" and "ob_build ob = numbers (PList (map (PInt \<circ> wr_number) (do_build o')))"
    and "ob_ready ob = do_programme_ready o'" and "ob_continuation ob = do_continuation o'"
  shows "\<exists>c \<in> set (considered_actions ob ids vp claims programme). cd_kind c \<noteq> Merge_pr \<and> action_name (cd_kind c) = a \<and> legacy_subject (Some (cd_subject c)) = subject"
proof -
  note found = bexI [where A = "set (considered_actions ob ids vp claims programme)"]
  from chosen [OF assms(1)] show ?thesis
  proof (elim disjE exE conjE)
    fix n
    assume "do_resume o' = Some n" "a = ''resume-pr''" "subject = Some n"
    then show ?thesis
      by (intro found [of _ "weigh Resume_pr [(''pr'', PInt n)] (reconciling ob @ paid_block ob Resume_pr @ lease_block ob (pr_key n))"])
        (simp_all add: considered_actions_def consider_resume_def assms(3) legacy_subject_def py_get_def)
  next
    fix r
    assume r: "r \<in> set (do_review o')" "a = ''validate-pr''" "subject = Some (wr_number r)"
    with assms(2) have "wr_number r \<in> set (ob_review ob)" unfolding assms(4) numbers_ints rows_positive_def by blast
    then have "hd (consider_review ob ids vp (wr_number r)) \<in> set (considered_actions ob ids vp claims programme)"
      by (auto simp: considered_actions_def consider_review_def)
    with r show ?thesis
      by (intro found [of _ "hd (consider_review ob ids vp (wr_number r))"]) (simp_all add: consider_review_def legacy_subject_def py_get_def)
  next
    fix n
    assume n: "n \<in> set (do_rehead o')" "a = ''rehead-pr''" "subject = Some n"
    with assms(2) have "n \<in> set (ob_rehead ob)" unfolding assms(5) numbers_plain rows_positive_def by blast
    with n show ?thesis
      by (intro found [of _ "consider_rehead ob n"]) (simp_all add: considered_actions_def consider_rehead_def legacy_subject_def py_get_def)
  next
    fix r
    assume r: "r \<in> set (do_build o')" "a = ''build-issue''" "subject = Some (wr_number r)"
    with assms(2) have "wr_number r \<in> set (ob_build ob)" unfolding assms(6) numbers_ints rows_positive_def by blast
    with r show ?thesis
      by (intro found [of _ "consider_build ob ids vp claims programme (wr_number r)"]) (simp_all add: considered_actions_def legacy_subject_def)
  next
    assume m: "\<not> (do_continuation o' = [] \<and> \<not> do_programme_ready o')" "a = ''materialize-programme''" "subject = None"
    then obtain c where c: "c \<in> set (consider_materialize ob)" by (auto simp: consider_materialize_def assms(7,8))
    then have "legacy_subject (Some (cd_subject c)) = None"
      by (auto simp: consider_materialize_def legacy_subject_def py_get_def split: if_splits)
    with c m show ?thesis
      by (intro found [of _ c]) (simp_all add: considered_actions_def materialize_mem)
  qed
qed

lemma nothing_considered:
  assumes "choose_action key o' = (None, subject)" and "ob_reconciliation ob = False"
    and "ob_resume ob = do_resume o'" and "ob_review ob = numbers (PList (map (PInt \<circ> wr_number) (do_review o')))"
    and "ob_rehead ob = numbers (PList (map PInt (do_rehead o')))" and "ob_build ob = numbers (PList (map (PInt \<circ> wr_number) (do_build o')))"
    and "ob_ready ob = do_programme_ready o'" and "ob_continuation ob = do_continuation o'"
  shows "considered_actions ob ids vp claims programme = []"
proof -
  have "numbers (PList []) = []" by (simp add: numbers_def)
  with assms show ?thesis
    by (auto simp: choose_action_def considered_actions_def consider_resume_def consider_materialize_def split: option.splits list.splits if_splits)
qed

lemma same_block_control:
  assumes "code \<in> {''control_unobserved'', ''stopped'', ''fenced''}" and "ex_proposals e = []" and "b \<in> set (ex_blocked e)" and "ba_codes b = [code]"
  shows "same_block e [code]"
proof -
  have "list_ex (\<lambda>b. list_ex (\<lambda>c. c \<in> set [code]) (ba_codes b)) (ex_blocked e)" using assms(3,4) by (force simp: list_ex_iff)
  moreover have "proposed_pairs e = []" using assms(2) by (simp add: proposed_pairs_def)
  moreover have "list_ex (\<lambda>c. c \<in> set [''control_unobserved'', ''stopped'', ''fenced'']) [code]" using assms(1) by simp
  ultimately show ?thesis unfolding same_block_def by (simp only: if_True simp_thms)
qed

lemma blocked_agrees:
  assumes "control_block o' = Some code"
    and "observations (PDict (merged_observations (select_dispatch key o') extra)) = Inr ob"
  shows "compare_legacy_frontier (explain_observed sha claims policy vp programme ob) (select_dispatch key o') = Agree"
proof -
  let ?e = "explain_observed sha claims policy vp programme ob"
  note seen = merged_observed [OF assms(2)]
  have "code \<in> {''control_unobserved'', ''stopped'', ''fenced'', ''reconciliation_required''}"
    using assms(1) by (auto simp: control_block_def split: if_splits)
  then have "same_block ?e [code]"
  proof (cases "code = ''reconciliation_required''")
    case True
    then have "ob_reconciliation ob" "control_code ob = None" using seen assms(1) by (simp_all add: control_code_def)
    then have "list_ex (\<lambda>p. ap_kind p = Reconcile_lease) (ex_proposals ?e)"
      unfolding list_ex_iff set_proposals by (force simp: considered_actions_def)
    then show ?thesis by (simp add: True same_block_def)
  next
    case False
    then have "control_code ob = Some code" using seen(1-3) assms(1) \<open>code \<in> _\<close> by (elim insertE) (simp_all add: control_code_def)
    then have "ex_proposals ?e = []" "\<lparr>ba_kind = Reconcile_lease, ba_subject = None, ba_codes = [code]\<rparr> \<in> set (ex_blocked ?e)"
      by (simp_all add: explain_observed_def Let_def result_of_def ACTIONS_def)
    with \<open>code \<in> _\<close> False show ?thesis by (intro same_block_control) auto
  qed
  then show ?thesis using select_blocked [OF assms(1), of key] by (simp add: compare_legacy_frontier_def)
qed

text \<open>C2. The shadow compiler never diverges from the dispatcher: over the observations of a recorded plan
  whose rows have positive numbers, and whatever the caller adds to them, the comparison is agreement or
  the compiler is stricter, with one exception: where the dispatcher waits for an unavailable budget the
  compiler may be looser, and then it proposes only unpaid work. Never a different choice or block.\<close>

theorem shadow_never_diverges:
  assumes "rows_positive o'"
    and "explain_actions sha claims policy vp programme (PDict (merged_observations (select_dispatch key o') extra)) = Inr e"
  shows "compare_legacy_frontier e (select_dispatch key o') \<in> {Agree, Shadow_stricter}
    \<or> compare_legacy_frontier e (select_dispatch key o') = Shadow_looser \<and> pl_codes (select_dispatch key o') = [''budget_required'']
      \<and> do_budget o' = Unavailable \<and> ex_proposals e \<noteq> [] \<and> (\<forall>p \<in> set (ex_proposals e). \<not> paid (ap_kind p))"
proof -
  let ?plan = "select_dispatch key o'" and ?ids = "map rq_id (sp_requirements policy)"
  from assms(2) obtain ob where ob: "observations (PDict (merged_observations ?plan extra)) = Inr ob"
    and e: "e = explain_observed sha claims policy vp programme ob" by (auto simp: explain_actions_def bindE_eq_Inr)
  note seen = merged_observed [OF ob]
  show ?thesis
  proof (cases "control_block o'")
    case (Some code)
    from blocked_agrees [OF this ob] show ?thesis unfolding e by simp
  next
    case None
    then have control: "control_code ob = None" "ob_reconciliation ob = False" using seen by (simp_all add: control_code_def)
    show ?thesis
    proof (cases "choose_action key o'")
      case (Pair chosen_action subject)
      show ?thesis
      proof (cases chosen_action)
        case none: None
        with Pair have "considered_actions ob ?ids vp claims programme = []" by (intro nothing_considered [where key = key]) (use seen control in simp_all)
        then have "ex_proposals e = []" unfolding e explain_observed_def Let_def by (simp add: control result_of_def)
        then show ?thesis using None Pair none by (simp add: compare_legacy_frontier_def select_dispatch_def proposed_pairs_def)
      next
        case (Some a)
        show ?thesis
        proof (cases "a \<in> set PAID_ACTIONS \<and> do_budget o' = Unavailable")
          case True
          then have "pl_status ?plan = ''blocked''" "pl_codes ?plan = [''budget_required'']"
            using None Pair Some by (simp_all add: select_dispatch_def)
          moreover have "\<not> paid (ap_kind p)" if "p \<in> set (ex_proposals e)" for p
            using unpaid_only [OF ob] True that unfolding e by blast
          moreover have "proposed_pairs e \<noteq> [] \<Longrightarrow> ex_proposals e \<noteq> []" by (auto simp: proposed_pairs_def)
          ultimately show ?thesis using True by (auto simp: compare_legacy_frontier_def same_block_def)
        next
          case False
          then have plan: "pl_status ?plan = ''ready''" "pl_action ?plan = Some a" "pl_subject ?plan = subject"
            using None Pair Some by (auto simp: select_dispatch_def)
          obtain c where c: "c \<in> set (considered_actions ob ?ids vp claims programme)" "cd_kind c \<noteq> Merge_pr"
              "action_name (cd_kind c) = a" "legacy_subject (Some (cd_subject c)) = subject"
            using chosen_considered [where key = key and o' = o' and ob = ob and a = a and subject = subject and ids = ?ids and vp = vp
                and claims = claims and programme = programme] Pair Some assms(1) seen by auto
          from pairs_cover [OF control(1) c(1,2), of sha] have "(a, subject) \<in> set (proposed_pairs e) \<union> set (blocked_pairs e)"
            unfolding e c(3,4) .
          then show ?thesis using plan by (auto simp: compare_legacy_frontier_def)
        qed
      qed
    qed
  qed
qed

section \<open>Concrete observations\<close>

definition w_row :: work_row where
  "w_row = \<lparr>wr_number = 5, wr_updated = PStr ''2026'', wr_labels = []\<rparr>"

definition w_view :: dispatch_observation where
  "w_view = \<lparr>do_control = True, do_stopped = False, do_fenced = False, do_reconciliation = False, do_review = [w_row], do_rehead = [],
     do_build = [], do_budget = Available, do_resume = None, do_programme_ready = False, do_continuation = []\<rparr>"

definition w_spine :: spine_policy where
  "w_spine = \<lparr>sp_version = ''1.0'', sp_requirements = [\<lparr>rq_id = ''build'', rq_stage = ''build'', rq_requires = [], rq_deterministic = True,
     rq_independent = False, rq_exact_head = True, rq_final = True\<rparr>], sp_raw = PNone\<rparr>"

definition w_proof :: pyval where
  "w_proof = PDict [(''h1'', PDict [(''build'', PDict [(''status'', PStr ''current''), (''attestation_id'', PStr ''a1'')])])]"

definition w_raw :: pyval where
  "w_raw = PDict [(''control_observed'', PBool True), (''budget'', PBool True), (''review'', PList [PInt 5]),
     (''heads'', PDict [(''5'', PStr ''h1'')]), (''exact_head_checked'', PDict [(''5'', PStr ''h1'')])]"

definition w_ob :: observed where
  "w_ob = \<lparr>ob_control = True, ob_stopped = False, ob_fenced = False, ob_reconciliation = False, ob_budget = PBool True, ob_resume = None,
     ob_review = [5], ob_rehead = [], ob_build = [], ob_ready = False, ob_continuation = [], ob_heads = [(5, ''h1'')], ob_issue_items = [],
     ob_items = [], ob_leases = [], ob_checked = [(5, ''h1'')]\<rparr>"

lemma w_observations: "observations w_raw = Inr w_ob"
  by code_simp

lemma w_explained: "explain_actions sha None w_spine w_proof None w_raw = Inr (explain_observed sha None w_spine w_proof None w_ob)"
  by (simp add: explain_actions_def w_observations)

lemma w_allowed: "allowed_actions sha None w_spine w_proof None w_raw = Inr (ex_proposals (explain_observed sha None w_spine w_proof None w_ob))"
  by (simp add: allowed_actions_def w_explained)

lemma w_mergeable: "mergeable w_ob (map rq_id (sp_requirements w_spine)) w_proof 5"
  by (simp add: mergeable_def w_ob_def w_spine_def w_proof_def proof_for_def proven_def py_field_def py_get_def)

text \<open>The pull request whose checked head is proven is proposed for merging.\<close>

theorem merge_proposed_exactly_witness:
  "\<exists>p. p \<in> set (ex_proposals (explain_observed (\<lambda>s. s) None w_spine w_proof None w_ob)) \<and> ap_kind p = Merge_pr \<and> py_get (ap_subject p) ''pr'' = PInt 5"
  using merge_proposed_exactly [OF w_observations w_explained, of "\<lambda>s. s" 5] w_mergeable by simp

theorem proposals_guarded_witness:
  "\<exists>p. p \<in> set (ex_proposals (explain_observed (\<lambda>s. s) None w_spine w_proof None w_ob)) \<and> ap_resources p = resources (ap_kind p)"
proof -
  have "weigh Validate_pr [(''pr'', PInt 5), (''head'', PStr ''h1'')] [] \<in> set (considered_actions w_ob (map rq_id (sp_requirements w_spine)) w_proof None None)"
    by (simp add: considered_actions_def consider_review_def w_ob_def reconciling_def paid_block_def paid_def lease_block_def optional_text_def)
  then obtain p where p: "p \<in> set (ex_proposals (explain_observed (\<lambda>s. s) None w_spine w_proof None w_ob))"
    unfolding set_proposals by (force simp: control_code_def w_ob_def)
  from proposals_guarded [OF w_observations w_allowed this] p show ?thesis by blast
qed

definition w_reads :: work_reads where
  "w_reads = \<lparr>rd_review_prs = Some [w_row], rd_fix_prs = Some [], rd_eligible = (\<lambda>_. Some False), rd_accepted = Some [],
     rd_in_progress = (\<lambda>_. Some False), rd_admits = (\<lambda>_. Some True), rd_ready = Some False\<rparr>"

definition w_branch :: pyval where
  "w_branch = PDict [(''protected'', PBool True), (''commit'', PDict [(''sha'', PStr (replicate 40 (CHR ''a'')))])]"

definition w_tree :: pyval where
  "w_tree = PDict [(''truncated'', PBool False), (''tree'', PList [PDict [(''path'', PStr ''README'')]])]"

lemma w_ready: "pl_status (plan_dispatch (Stop_ended 0 []) (fence_status (Some w_branch) (\<lambda>_. Some w_tree) (Some w_branch)) (Some []) True w_reads None []) = ''ready''"
  by code_simp

theorem ready_only_when_open_witness:
  "\<exists>revision. require_execution_open (Some w_branch) (\<lambda>_. Some w_tree) (Some w_branch) = Some revision"
  using ready_only_when_open [OF w_ready] by blast

text \<open>A build that waits for a budget while a programme is ready to be materialized.\<close>

definition w_broke :: dispatch_observation where
  "w_broke = w_view\<lparr>do_review := [], do_build := [w_row], do_budget := Unavailable, do_programme_ready := True\<rparr>"

lemma broke_compared:
  "case explain_actions (\<lambda>s. s) None w_spine PNone None (PDict (merged_observations (select_dispatch issue_dispatch_key w_broke) [])) of
     Inr e \<Rightarrow> compare_legacy_frontier e (select_dispatch issue_dispatch_key w_broke) = Shadow_looser | Inl _ \<Rightarrow> False"
  by code_simp

lemma view_explained: "\<exists>e. explain_actions (\<lambda>s. s) None w_spine PNone None (PDict (merged_observations (select_dispatch issue_dispatch_key w_view) [])) = Inr e"
proof -
  have "isl (observations (PDict (merged_observations (select_dispatch issue_dispatch_key w_view) []))) = False" by code_simp
  then show ?thesis by (auto simp: explain_actions_def isl_def bindE_def split: sum.splits)
qed

theorem shadow_never_diverges_witness:
  "(\<exists>e. explain_actions (\<lambda>s. s) None w_spine PNone None (PDict (merged_observations (select_dispatch issue_dispatch_key w_view) [])) = Inr e
      \<and> compare_legacy_frontier e (select_dispatch issue_dispatch_key w_view) \<in> {Agree, Shadow_stricter})
   \<and> (\<exists>e. explain_actions (\<lambda>s. s) None w_spine PNone None (PDict (merged_observations (select_dispatch issue_dispatch_key w_broke) [])) = Inr e
      \<and> compare_legacy_frontier e (select_dispatch issue_dispatch_key w_broke) = Shadow_looser
      \<and> ex_proposals e \<noteq> [] \<and> (\<forall>p \<in> set (ex_proposals e). \<not> paid (ap_kind p)))"
proof
  obtain e where e: "explain_actions (\<lambda>s. s) None w_spine PNone None (PDict (merged_observations (select_dispatch issue_dispatch_key w_view) [])) = Inr e"
    using view_explained by blast
  have "rows_positive w_view" by (simp add: rows_positive_def w_view_def w_row_def)
  from shadow_never_diverges [OF this e] have "compare_legacy_frontier e (select_dispatch issue_dispatch_key w_view) \<in> {Agree, Shadow_stricter}
      \<or> pl_codes (select_dispatch issue_dispatch_key w_view) = [''budget_required'']" by blast
  moreover have "pl_codes (select_dispatch issue_dispatch_key w_view) = []" by code_simp
  ultimately show "\<exists>e. explain_actions (\<lambda>s. s) None w_spine PNone None (PDict (merged_observations (select_dispatch issue_dispatch_key w_view) [])) = Inr e
      \<and> compare_legacy_frontier e (select_dispatch issue_dispatch_key w_view) \<in> {Agree, Shadow_stricter}" using e by auto
next
  obtain e where e: "explain_actions (\<lambda>s. s) None w_spine PNone None (PDict (merged_observations (select_dispatch issue_dispatch_key w_broke) [])) = Inr e"
    and looser: "compare_legacy_frontier e (select_dispatch issue_dispatch_key w_broke) = Shadow_looser"
    using broke_compared by (auto split: sum.splits)
  have "rows_positive w_broke" by (simp add: rows_positive_def w_broke_def w_view_def w_row_def)
  from shadow_never_diverges [OF this e] looser e
  show "\<exists>e. explain_actions (\<lambda>s. s) None w_spine PNone None (PDict (merged_observations (select_dispatch issue_dispatch_key w_broke) [])) = Inr e
      \<and> compare_legacy_frontier e (select_dispatch issue_dispatch_key w_broke) = Shadow_looser
      \<and> ex_proposals e \<noteq> [] \<and> (\<forall>p \<in> set (ex_proposals e). \<not> paid (ap_kind p))" by auto
qed

end
