(* ===== verification/Spine_Properties.thy ===== *)
theory Spine_Properties
  imports Evidence_Spine
begin

text \<open>
  What the manifest guarantees of every claim in it, that its canonical object reads back to it, and
  that the evidence index is compiled exactly when the policy is satisfied by certified artifacts.
\<close>

section \<open>Well-formed manifests\<close>

definition ref_ok :: "artifact_ref \<Rightarrow> bool" where
  "ref_ok r \<longleftrightarrow> \<not> blank (ar_name r) \<and> \<not> unsafe_path (ar_path r) \<and> hex_text 64 (ar_sha256 r) \<and> \<not> blank (ar_media r)"

definition cert_ok :: "certification \<Rightarrow> bool" where
  "cert_ok c \<longleftrightarrow> ce_kind c \<in> set CERT_KINDS \<and> \<not> blank (ce_authority c) \<and> ref_ok (ce_artifact c)"

definition deterministic_ok :: "claim_record \<Rightarrow> bool" where
  "deterministic_ok c \<longleftrightarrow> (case cl_deterministic c of None \<Rightarrow> True
     | Some d \<Rightarrow> cert_ok d \<and> ce_kind d = ''deterministic'' \<and> ce_authority d \<noteq> cl_producer c)"

definition independent_ok :: "claim_record \<Rightarrow> bool" where
  "independent_ok c \<longleftrightarrow> (case cl_independent c of None \<Rightarrow> True
     | Some i \<Rightarrow> cert_ok i \<and> ce_kind i = ''independent'' \<and> ce_authority i \<noteq> cl_producer c
         \<and> Some (ce_authority i) \<noteq> map_option ce_authority (cl_deterministic c))"

definition claim_ok :: "claim_record \<Rightarrow> bool" where
  "claim_ok c \<longleftrightarrow> \<not> blank (cl_id c) \<and> \<not> blank (cl_stage c) \<and> \<not> blank (cl_producer c) \<and> ref_ok (cl_artifact c)
     \<and> deterministic_ok c \<and> independent_ok c \<and> pred_option git_digest (cl_head c)
     \<and> (\<forall>(k, v) \<in> set (cl_bindings c). \<not> blank k \<and> hex_text 64 v)"

fun chained :: "string list \<Rightarrow> claim_record list \<Rightarrow> bool" where
  "chained known [] \<longleftrightarrow> True"
| "chained known (c # cs) \<longleftrightarrow> set (map snd (cl_bindings c)) \<subseteq> set known \<and> chained (known @ map ar_sha256 (referenced_artifacts c)) cs"

definition manifest_ok :: "run_manifest \<Rightarrow> bool" where
  "manifest_ok m \<longleftrightarrow> rm_version m = ''2.0'' \<and> \<not> blank (rm_run_id m) \<and> positive_issue (rm_issue m) \<and> git_digest (rm_base m)
     \<and> distinct (map cl_id (rm_claims m)) \<and> (\<forall>c \<in> set (rm_claims m). claim_ok c) \<and> chained [] (rm_claims m)"

lemma check_ref_Inr: "check_ref r = Inr s \<longleftrightarrow> s = r \<and> ref_ok r"
  by (auto simp: check_ref_def ref_ok_def bindE_eq_Inr)

lemma ref_from_ok: "ref_from d = Inr r \<Longrightarrow> ref_ok r"
  by (auto simp: ref_from_def check_ref_Inr)

lemma certification_from_ok: "certification_from d = Inr c \<Longrightarrow> cert_ok c"
  by (auto simp: certification_from_def check_certification_def cert_ok_def bindE_eq_Inr dest: ref_from_ok split: pyval.splits)

lemma optional_certification_ok: "optional_certification v = Inr c \<Longrightarrow> pred_option cert_ok c"
  by (auto simp: optional_certification_def bindE_eq_Inr dest: certification_from_ok split: pyval.splits)

lemma check_deterministic_Inr: "pred_option cert_ok (cl_deterministic c) \<Longrightarrow> check_deterministic c = Inr u \<longleftrightarrow> deterministic_ok c"
  by (cases "cl_deterministic c") (auto simp: check_deterministic_def deterministic_ok_def bindE_eq_Inr)

lemma check_independent_Inr: "pred_option cert_ok (cl_independent c) \<Longrightarrow> check_independent c = Inr u \<longleftrightarrow> independent_ok c"
  by (cases "cl_independent c"; cases "cl_deterministic c") (auto simp: check_independent_def independent_ok_def bindE_eq_Inr)

lemma check_claim_Inr:
  assumes "ref_ok (cl_artifact c)" and "pred_option cert_ok (cl_deterministic c)" and "pred_option cert_ok (cl_independent c)"
  shows "check_claim c = Inr d \<longleftrightarrow> d = c \<and> claim_ok c"
proof -
  have "(case cl_head c of None \<Rightarrow> True | Some h \<Rightarrow> git_digest h) \<longleftrightarrow> pred_option git_digest (cl_head c)"
    by (cases "cl_head c") simp_all
  then show ?thesis
    by (auto simp: check_claim_def claim_ok_def bindE_eq_Inr check_deterministic_Inr [OF assms(2)]
      check_independent_Inr [OF assms(3)] assms(1) list_all_iff)
qed

lemma claim_from_ok: "claim_from d = Inr c \<Longrightarrow> claim_ok c"
  unfolding claim_from_def bindE_eq_Inr
  by (elim exE conjE) (frule ref_from_ok, drule optional_certification_ok, drule optional_certification_ok, simp add: check_claim_Inr)

lemma chained_snoc: "chained known (cs @ [c]) \<longleftrightarrow> chained known cs
    \<and> set (map snd (cl_bindings c)) \<subseteq> set known \<union> set (map ar_sha256 (concat (map referenced_artifacts cs)))"
  by (induction cs arbitrary: known) (auto simp: Un_assoc)

lemma add_claim_ok: "add_claim c m = Inr n \<Longrightarrow> claim_ok c \<Longrightarrow> manifest_ok m \<Longrightarrow> manifest_ok n"
  by (fastforce simp: add_claim_def manifest_ok_def bindE_eq_Inr chained_snoc known_hashes_def list_all_iff)

section \<open>The manifest as a store\<close>

text \<open>\<open>add\<close> of a claim read from a JSON object, as a transaction on the manifest.\<close>

definition add_from :: "pydict \<Rightarrow> run_manifest \<Rightarrow> manifest_error + unit \<times> run_manifest" where
  "add_from d m = bindE (claim_from d) (\<lambda>c. bindE (add_claim c m) (\<lambda>n. Inr ((), n)))"

definition grown :: "run_manifest \<Rightarrow> run_manifest \<Rightarrow> bool" where
  "grown m n \<longleftrightarrow> (\<exists>cs. n = m\<lparr>rm_claims := rm_claims m @ cs\<rparr>)"

interpretation manifest_store: transactional_order add_from manifest_ok grown
proof unfold_locales
  show "manifest_ok n" if "manifest_ok m" "add_from d m = Inr (a, n)" for m d a n
    using that by (auto simp: add_from_def bindE_eq_Inr dest: claim_from_ok add_claim_ok)
  show "grown m m" for m by (auto simp: grown_def intro: exI [of _ "[]"])
  show "grown m n" if "manifest_ok m" "add_from d m = Inr (a, n)" for m d a n
    using that by (auto simp: add_from_def add_claim_def bindE_eq_Inr grown_def)
  show "grown l n" if "grown l m" "grown m n" for l m n
    using that by (auto simp: grown_def)
qed

lemma add_claims_reachable: "add_claims vs m = Inr n \<Longrightarrow> tx_reachable add_from m n"
proof (induction vs arbitrary: m)
  case Nil
  then show ?case by (simp add: tx_start)
next
  case (Cons v vs)
  then obtain d c l where step: "claim_from d = Inr c" "add_claim c m = Inr l" and rest: "add_claims vs l = Inr n"
    by (auto simp: bindE_eq_Inr split: pyval.splits)
  have "tx_reachable add_from m l" using step by (intro tx_step [OF tx_start, of _ d]) (auto simp: add_from_def)
  with Cons.IH [OF rest] show ?case by (rule tx_reachable_trans)
qed

lemma checked_empty_ok: "check_manifest m = Inr n \<Longrightarrow> rm_claims m = [] \<Longrightarrow> n = m \<and> manifest_ok m"
  by (auto simp: check_manifest_def manifest_ok_def bindE_eq_Inr)

lemma manifest_from_ok: "manifest_from d = Inr m \<Longrightarrow> manifest_ok m"
  unfolding manifest_from_def bindE_eq_Inr
  by (elim exE conjE) (auto dest!: checked_empty_ok dest: manifest_store.reachable_inv [OF add_claims_reachable])

text \<open>C10. Every manifest that loads is well formed, and stays so under every claim added to it, whose
  effect is only to append: claim identities are unique, every artifact has a safe relative path and
  a SHA-256 digest, no producer certifies its own claim, the independent verifier is not the
  deterministic validator, and every binding names an artifact of an earlier claim.\<close>

theorem manifest_well_formed:
  assumes "manifest_from d = Inr m" and "tx_reachable add_from m n"
  shows "manifest_ok n \<and> grown m n"
  using manifest_store.reachable_inv manifest_store.reachable_le assms manifest_from_ok by blast

section \<open>Round trip\<close>

definition sorted_claim :: "claim_record \<Rightarrow> claim_record" where
  "sorted_claim c = c\<lparr>cl_bindings := sort_key fst (cl_bindings c)\<rparr>"

lemma py_str_PStr: "py_str (PStr s) = s"
  by (simp add: py_str_def)

lemma text_or_PStr: "py_get d k = PStr s \<Longrightarrow> \<not> blank s \<Longrightarrow> text_or d k t = s"
  by (auto simp: text_or_def py_str_def blank_def)

lemma text_or_nonempty: "py_get d k = PStr s \<Longrightarrow> s \<noteq> [] \<Longrightarrow> text_or d k t = s"
  by (simp add: text_or_def py_str_def)

lemma ref_round_trip: "ref_ok r \<Longrightarrow> \<exists>d. ref_dict r = PDict d \<and> ref_from d = Inr r"
proof -
  assume ok: "ref_ok r"
  then have "ar_sha256 r \<noteq> []" "ar_path r \<noteq> []" by (auto simp: ref_ok_def hex_text_def unsafe_path_def)
  with ok show ?thesis
    by (auto simp: ref_dict_def ref_from_def check_ref_Inr ref_ok_def text_or_PStr text_or_nonempty py_get_def)
qed

lemma certification_round_trip: "pred_option cert_ok c \<Longrightarrow> optional_certification (certification_dict c) = Inr c"
proof (cases c)
  case (Some k)
  assume "pred_option cert_ok c"
  then have ok: "cert_ok k" by (simp add: Some)
  then obtain d where "ref_dict (ce_artifact k) = PDict d" "ref_from d = Inr (ce_artifact k)"
    using ref_round_trip by (auto simp: cert_ok_def)
  moreover have "ce_kind k \<noteq> []" using ok by (auto simp: cert_ok_def CERT_KINDS_def)
  ultimately show ?thesis using ok
    by (simp add: Some certification_dict_def optional_certification_def certification_from_def py_get_def
      text_or_PStr text_or_nonempty check_certification_def cert_ok_def)
qed (simp add: certification_dict_def optional_certification_def)

lemma certification_dict_object: "object_or_none (certification_dict c)"
  by (cases c) (simp_all add: certification_dict_def object_or_none_def)

lemma sorted_claim_ok: "claim_ok c \<Longrightarrow> claim_ok (sorted_claim c)"
  by (cases "cl_deterministic c"; cases "cl_independent c") (simp_all add: claim_ok_def sorted_claim_def deterministic_ok_def independent_ok_def)

lemma claim_ok_certs: "claim_ok c \<Longrightarrow> pred_option cert_ok (cl_deterministic c) \<and> pred_option cert_ok (cl_independent c)"
  by (auto simp: claim_ok_def deterministic_ok_def independent_ok_def split: option.splits)

lemma claim_round_trip: "claim_ok c \<Longrightarrow> \<exists>d. claim_dict c = PDict d \<and> claim_from d = Inr (sorted_claim c)"
proof -
  assume ok: "claim_ok c"
  then obtain a where a: "ref_dict (cl_artifact c) = PDict a" "ref_from a = Inr (cl_artifact c)"
    using ref_round_trip by (auto simp: claim_ok_def)
  from ok have named: "\<not> blank (cl_id c)" "\<not> blank (cl_stage c)" "\<not> blank (cl_producer c)" by (simp_all add: claim_ok_def)
  from claim_ok_certs [OF ok] have certs: "optional_certification (certification_dict (cl_deterministic c)) = Inr (cl_deterministic c)"
    "optional_certification (certification_dict (cl_independent c)) = Inr (cl_independent c)" by (simp_all add: certification_round_trip)
  have bindings: "map ((\<lambda>(k, v). (k, py_str v)) \<circ> (\<lambda>(k, v). (k, PStr v))) xs = xs" for xs :: "(string \<times> string) list"
    by (rule map_idI) (auto simp: py_str_def)
  have "check_claim (sorted_claim c) = Inr (sorted_claim c)"
    using check_claim_Inr [of "sorted_claim c" "sorted_claim c"] claim_ok_certs [OF sorted_claim_ok [OF ok]] sorted_claim_ok [OF ok]
    by (simp add: claim_ok_def)
  moreover have "sorted_claim c = \<lparr>cl_id = cl_id c, cl_stage = cl_stage c, cl_producer = cl_producer c, cl_artifact = cl_artifact c,
      cl_deterministic = cl_deterministic c, cl_independent = cl_independent c, cl_head = cl_head c, cl_bindings = sort_key fst (cl_bindings c)\<rparr>"
    by (simp add: sorted_claim_def)
  ultimately show ?thesis
    by (cases "cl_head c")
       (simp_all add: claim_dict_def claim_from_def py_get_def py_has_def a certs certification_dict_object named text_or_PStr bindings py_str_PStr)
qed

lemma add_claims_back:
  assumes "\<forall>c \<in> set cs. claim_ok c" and "distinct (map cl_id (rm_claims m @ cs))" and "chained (known_hashes m) cs"
  shows "add_claims (map claim_dict cs) m = Inr (m\<lparr>rm_claims := rm_claims m @ map sorted_claim cs\<rparr>)"
  using assms
proof (induction cs arbitrary: m)
  case Nil
  then show ?case by simp
next
  case (Cons c cs)
  then obtain d where d: "claim_dict c = PDict d" "claim_from d = Inr (sorted_claim c)" using claim_round_trip [of c] by auto
  let ?m = "m\<lparr>rm_claims := rm_claims m @ [sorted_claim c]\<rparr>"
  have "add_claim (sorted_claim c) m = Inr ?m"
  proof -
    have "list_all (\<lambda>(_, v). v \<in> set (known_hashes m)) (cl_bindings (sorted_claim c))"
      using Cons.prems(3) by (auto simp: list_all_iff sorted_claim_def)
    moreover have "cl_id (sorted_claim c) \<notin> set (map cl_id (rm_claims m))" using Cons.prems(2) by (simp add: sorted_claim_def)
    ultimately show ?thesis by (simp add: add_claim_def)
  qed
  moreover have "known_hashes ?m = known_hashes m @ map ar_sha256 (referenced_artifacts c)"
    by (simp add: known_hashes_def referenced_artifacts_def sorted_claim_def)
  then have "add_claims (map claim_dict cs) ?m = Inr (?m\<lparr>rm_claims := rm_claims ?m @ map sorted_claim cs\<rparr>)"
    using Cons.prems by (intro Cons.IH) (auto simp: sorted_claim_def)
  ultimately show ?case by (simp add: d)
qed

lemma claim_dict_sorted: "claim_dict (sorted_claim c) = claim_dict c"
proof -
  have "sort_key fst (sort_key fst xs) = sort_key fst xs" for xs :: "(string \<times> string) list"
    by (rule sort_key_id_if_sorted) simp
  then show ?thesis by (simp add: claim_dict_def sorted_claim_def)
qed

text \<open>C36. The canonical object of a manifest that loaded loads again, to the same manifest up to the order of
  the bindings, whose canonical object and digest are the same.\<close>

theorem manifest_round_trip:
  assumes "manifest_from d = Inr m"
  shows "\<exists>n. manifest_from (manifest_dict m) = Inr n \<and> manifest_dict n = manifest_dict m \<and> manifest_sha256 sha n = manifest_sha256 sha m
    \<and> n = m\<lparr>rm_claims := map sorted_claim (rm_claims m)\<rparr>"
proof -
  have ok: "manifest_ok m" by (rule manifest_from_ok [OF assms])
  let ?start = "\<lparr>rm_version = rm_version m, rm_run_id = rm_run_id m, rm_issue = rm_issue m, rm_base = rm_base m, rm_claims = []\<rparr>"
  let ?n = "m\<lparr>rm_claims := map sorted_claim (rm_claims m)\<rparr>"
  from ok have nonempty: "rm_version m \<noteq> []" "\<not> blank (rm_run_id m)" "rm_base m \<noteq> []"
    by (auto simp: manifest_ok_def git_digest_def hex_text_def)
  have issue: "(case rm_issue m of PInt i \<Rightarrow> Inr (PInt i) | PBool b \<Rightarrow> Inr (PBool b) | _ \<Rightarrow> Inl e) = Inr (rm_issue m)" for e :: manifest_error
    using ok by (auto simp: manifest_ok_def positive_issue_def split: pyval.splits)
  have "check_manifest ?start = Inr ?start" using ok by (simp add: check_manifest_def manifest_ok_def)
  moreover have "add_claims (map claim_dict (rm_claims m)) ?start = Inr (?start\<lparr>rm_claims := rm_claims ?start @ map sorted_claim (rm_claims m)\<rparr>)"
    using ok by (intro add_claims_back) (auto simp: manifest_ok_def known_hashes_def)
  moreover have "?start\<lparr>rm_claims := map sorted_claim (rm_claims m)\<rparr> = ?n" by simp
  ultimately have "manifest_from (manifest_dict m) = Inr ?n"
    by (simp add: manifest_from_def manifest_dict_def py_get_def py_has_def issue text_or_PStr text_or_nonempty nonempty)
  moreover have "manifest_dict ?n = manifest_dict m" by (simp add: manifest_dict_def claim_dict_sorted)
  ultimately show ?thesis by (auto simp: manifest_sha256_def)
qed

section \<open>The evidence index\<close>

text \<open>What the policy asks of the claim of one requirement.\<close>

definition bound_to_predecessors :: "claim_requirement \<Rightarrow> claim_record \<Rightarrow> run_manifest \<Rightarrow> bool" where
  "bound_to_predecessors r c m \<longleftrightarrow> (\<forall>p \<in> set (rq_requires r). \<exists>q. claim_of m p = Some q \<and> ar_sha256 (cl_artifact q) \<in> set (map snd (cl_bindings c)))"

definition satisfied :: "run_manifest \<Rightarrow> string \<Rightarrow> claim_requirement \<Rightarrow> bool" where
  "satisfied m head r \<longleftrightarrow> (\<exists>c. claim_of m (rq_id r) = Some c \<and> cl_stage c = rq_stage r \<and> bound_to_predecessors r c m
     \<and> (rq_deterministic r \<longrightarrow> cl_deterministic c \<noteq> None) \<and> (rq_independent r \<longrightarrow> cl_independent c \<noteq> None)
     \<and> (rq_exact_head r \<longrightarrow> cl_head c = Some head))"

definition spine_satisfied :: "spine_policy \<Rightarrow> run_manifest \<Rightarrow> string \<Rightarrow> bool" where
  "spine_satisfied p m head \<longleftrightarrow> (\<forall>r \<in> set (sp_requirements p). satisfied m head r)"

text \<open>Every referenced artifact is a file below the evidence root with the recorded digest.\<close>

definition artifacts_held :: "(string \<Rightarrow> located) option \<Rightarrow> run_manifest \<Rightarrow> bool" where
  "artifacts_held evidence_root m \<longleftrightarrow> (\<exists>locate. evidence_root = Some locate
     \<and> (\<forall>c \<in> set (rm_claims m). \<forall>r \<in> set (referenced_artifacts c). locate (ar_path r) = Content (ar_sha256 r)))"

definition index_of_spine :: "(string \<Rightarrow> string) \<Rightarrow> spine_policy \<Rightarrow> run_manifest \<Rightarrow> string \<Rightarrow> evidence_index" where
  "index_of_spine sha p m head = \<lparr>ei_base = rm_base m, ei_head = head, ei_policy = policy_sha256 sha p, ei_manifest = manifest_sha256 sha m,
     ei_claims = map (\<lambda>r. index_claim (the (claim_of m (rq_id r)))) (sp_requirements p), ei_level = 100\<rparr>"

lemma fold_hashes:
  "map_of (fold (\<lambda>p hashes. case f p of None \<Rightarrow> hashes | Some c \<Rightarrow> AList.update p (g c) hashes) ps hs) p
   = (if p \<in> set ps \<and> f p \<noteq> None then map_option g (f p) else map_of hs p)"
  by (induction ps arbitrary: hs) (auto simp: update_conv split: option.splits)

lemma fold_hashes_distinct:
  "distinct (map fst hs) \<Longrightarrow> distinct (map fst (fold (\<lambda>p hashes. case f p of None \<Rightarrow> hashes | Some c \<Rightarrow> AList.update p (g c) hashes) ps hs))"
  by (induction ps arbitrary: hs) (auto simp: distinct_update split: option.splits)

lemma binding_hashes:
  "map_of (required_binding_hashes r m) p = (if p \<in> set (rq_requires r) then map_option (\<lambda>c. ar_sha256 (cl_artifact c)) (claim_of m p) else None)"
  unfolding required_binding_hashes_def fold_hashes by simp

lemma binding_hashes_keys: "p \<in> set (map fst (required_binding_hashes r m)) \<longleftrightarrow> p \<in> set (rq_requires r) \<and> claim_of m p \<noteq> None"
  using map_of_eq_None_iff [of "required_binding_hashes r m" p] by (auto simp: binding_hashes split: if_splits)

lemma binding_hashes_mem:
  "(p, h) \<in> set (required_binding_hashes r m) \<longleftrightarrow> p \<in> set (rq_requires r) \<and> map_option (\<lambda>c. ar_sha256 (cl_artifact c)) (claim_of m p) = Some h"
proof -
  have "distinct (map fst (required_binding_hashes r m))" unfolding required_binding_hashes_def by (rule fold_hashes_distinct) simp
  from map_of_eq_Some_iff [OF this, of p h] show ?thesis by (auto simp: binding_hashes split: if_splits)
qed

lemma binding_reasons_Nil: "binding_reasons r c m = [] \<longleftrightarrow> bound_to_predecessors r c m"
proof -
  have "filter (\<lambda>p. p \<notin> set (map fst (required_binding_hashes r m))) (rq_requires r) = [] \<longleftrightarrow> (\<forall>p \<in> set (rq_requires r). claim_of m p \<noteq> None)"
    unfolding filter_empty_conv binding_hashes_keys by auto
  moreover have "filter (\<lambda>(_, digest). digest \<notin> set (map snd (cl_bindings c))) (required_binding_hashes r m) = []
      \<longleftrightarrow> (\<forall>p h. (p, h) \<in> set (required_binding_hashes r m) \<longrightarrow> h \<in> set (map snd (cl_bindings c)))"
    unfolding filter_empty_conv by auto
  moreover have "binding_reasons r c m = [] \<longleftrightarrow> filter (\<lambda>p. p \<notin> set (map fst (required_binding_hashes r m))) (rq_requires r) = []
      \<and> filter (\<lambda>(_, digest). digest \<notin> set (map snd (cl_bindings c))) (required_binding_hashes r m) = []"
    by (simp add: binding_reasons_def Let_def)
  ultimately have "binding_reasons r c m = [] \<longleftrightarrow> (\<forall>p \<in> set (rq_requires r). claim_of m p \<noteq> None)
      \<and> (\<forall>p \<in> set (rq_requires r). \<forall>h. map_option (\<lambda>c. ar_sha256 (cl_artifact c)) (claim_of m p) = Some h \<longrightarrow> h \<in> set (map snd (cl_bindings c)))"
    unfolding binding_hashes_mem by blast
  also have "\<dots> \<longleftrightarrow> bound_to_predecessors r c m"
  proof -
    have "(\<exists>q. claim_of m p = Some q \<and> ar_sha256 (cl_artifact q) \<in> set (map snd (cl_bindings c))) \<longleftrightarrow> claim_of m p \<noteq> None
        \<and> (\<forall>h. map_option (\<lambda>c. ar_sha256 (cl_artifact c)) (claim_of m p) = Some h \<longrightarrow> h \<in> set (map snd (cl_bindings c)))" for p
      by (cases "claim_of m p") auto
    then show ?thesis unfolding bound_to_predecessors_def by blast
  qed
  finally show ?thesis .
qed

lemma assess_claim_Nil: "as_reasons (assess_claim r m (Some head)) = [] \<longleftrightarrow> satisfied m head r"
proof (cases "claim_of m (rq_id r)")
  case (Some c)
  then show ?thesis by (auto simp: assess_claim_def satisfied_def Let_def binding_reasons_Nil)
qed (simp add: assess_claim_def satisfied_def)

lemma assess_claim_level: "as_reasons (assess_claim r m expected) = [] \<Longrightarrow> as_level (assess_claim r m expected) = 80"
  by (auto simp: assess_claim_def Let_def split: option.splits if_splits)

lemma assess_ready: "an_ready (assess_manifest sha p m (Some head)) \<longleftrightarrow> spine_satisfied p m head"
  by (auto simp: assess_manifest_def Let_def spine_satisfied_def assess_claim_Nil list_all_iff intro: assess_claim_level)

lemma safe_artifact_Inr: "safe_artifact locate r = Inr u \<longleftrightarrow> locate (ar_path r) = Content (ar_sha256 r)"
  by (cases "locate (ar_path r)") (auto simp: safe_artifact_def)

lemma verify_artifact_bytes_Inr: "verify_artifact_bytes evidence_root m = Inr u \<longleftrightarrow> artifacts_held evidence_root m"
proof (cases evidence_root)
  case (Some locate)
  have "verify_artifact_bytes evidence_root m = Inr u \<longleftrightarrow> (\<exists>ys. mapE (safe_artifact locate) (concat (map referenced_artifacts (rm_claims m))) = Inr ys)"
    by (simp add: verify_artifact_bytes_def Some bindE_eq_Inr)
  then show ?thesis unfolding mapE_unit safe_artifact_Inr by (auto simp: artifacts_held_def Some)
qed (simp add: verify_artifact_bytes_def artifacts_held_def)

lemma mapE_all: "(\<And>x. x \<in> set xs \<Longrightarrow> f x = Inr (g x)) \<Longrightarrow> mapE f xs = Inr (map g xs)"
  by (induction xs) (auto simp: bindE_eq_Inr)

lemma index_rows:
  assumes "\<And>r. r \<in> set rs \<Longrightarrow> claim_of m (rq_id r) \<noteq> None"
  shows "mapE (\<lambda>r. case claim_of m (rq_id r) of None \<Rightarrow> Inl (S_refused ''disappeared'') | Some c \<Rightarrow> Inr (index_claim c)) rs
     = Inr (map (\<lambda>r. index_claim (the (claim_of m (rq_id r)))) rs)"
proof (rule mapE_all)
  fix r
  assume "r \<in> set rs"
  with assms obtain c where "claim_of m (rq_id r) = Some c" by blast
  then show "(case claim_of m (rq_id r) of None \<Rightarrow> Inl (S_refused ''disappeared'') | Some c \<Rightarrow> Inr (index_claim c))
      = Inr (index_claim (the (claim_of m (rq_id r))))" by simp
qed

lemma compile_parts:
  "compile_evidence_index sha p m evidence_root head = Inr x \<longleftrightarrow> artifacts_held evidence_root m \<and> spine_satisfied p m head \<and>
     (\<exists>claims. mapE (\<lambda>r. case claim_of m (rq_id r) of None \<Rightarrow> Inl (S_refused ''disappeared'') | Some c \<Rightarrow> Inr (index_claim c)) (sp_requirements p) = Inr claims
        \<and> x = \<lparr>ei_base = rm_base m, ei_head = head, ei_policy = policy_sha256 sha p, ei_manifest = manifest_sha256 sha m, ei_claims = claims, ei_level = 100\<rparr>)"
  by (auto simp: compile_evidence_index_def bindE_eq_Inr verify_artifact_bytes_Inr assess_ready)

lemma satisfied_present: "spine_satisfied p m head \<Longrightarrow> r \<in> set (sp_requirements p) \<Longrightarrow> claim_of m (rq_id r) \<noteq> None"
  by (auto simp: spine_satisfied_def satisfied_def)

lemma compile_defined:
  assumes "artifacts_held evidence_root m" and "spine_satisfied p m head"
  shows "isl (compile_evidence_index sha p m evidence_root head) = False"
proof -
  have "\<exists>x. compile_evidence_index sha p m evidence_root head = Inr x"
    unfolding compile_parts using assms index_rows [of "sp_requirements p" m] satisfied_present [of p m head] by blast
  then show ?thesis by auto
qed

text \<open>C9. The evidence index is compiled exactly when every artifact the manifest references is a file
  below the evidence root with the recorded bytes and every requirement of the protected policy is
  satisfied for the exact head; the index then binds the policy, the manifest, the base, the head
  and, per requirement in order, the claim and its certifications.\<close>

theorem spine_compiles_exactly:
  "compile_evidence_index sha p m evidence_root head = Inr x
   \<longleftrightarrow> artifacts_held evidence_root m \<and> spine_satisfied p m head \<and> x = index_of_spine sha p m head"
  unfolding compile_parts using index_rows [of "sp_requirements p" m] satisfied_present [of p m head]
  by (auto simp: index_of_spine_def)

lemma claim_of_mem: "claim_of m i = Some c \<Longrightarrow> c \<in> set (rm_claims m) \<and> cl_id c = i"
  unfolding claim_of_def by (drule find_mem) simp

text \<open>C6. No evidence without independent authority: when the index compiles for a loaded manifest and
  policy, every required claim was certified as the policy asks, by authorities that are neither its
  producer nor each other, is bound to its predecessors' artifacts and, where asked, to the head.\<close>

theorem evidence_certified:
  assumes "load_policy raw = Inr p" and "manifest_from d = Inr m"
    and "compile_evidence_index sha p m evidence_root head = Inr x" and "r \<in> set (sp_requirements p)"
  shows "\<exists>c. claim_of m (rq_id r) = Some c \<and> bound_to_predecessors r c m \<and> (rq_exact_head r \<longrightarrow> cl_head c = Some head)
    \<and> (rq_deterministic r \<longrightarrow> (\<exists>v. cl_deterministic c = Some v \<and> ce_authority v \<noteq> cl_producer c))
    \<and> (rq_independent r \<longrightarrow> (\<exists>v i. cl_deterministic c = Some v \<and> cl_independent c = Some i \<and> distinct [cl_producer c, ce_authority v, ce_authority i]))"
proof -
  from assms(3) have "spine_satisfied p m head" by (simp add: compile_parts)
  with assms(4) obtain c where c: "claim_of m (rq_id r) = Some c" "bound_to_predecessors r c m"
      "rq_deterministic r \<longrightarrow> cl_deterministic c \<noteq> None" "rq_independent r \<longrightarrow> cl_independent c \<noteq> None" "rq_exact_head r \<longrightarrow> cl_head c = Some head"
    by (auto simp: spine_satisfied_def satisfied_def)
  have "claim_ok c" using manifest_from_ok [OF assms(2)] claim_of_mem [OF c(1)] by (simp add: manifest_ok_def)
  then have chain: "deterministic_ok c" "independent_ok c" by (simp_all add: claim_ok_def)
  have "rq_independent r \<Longrightarrow> rq_deterministic r" by (rule closed_mem [OF load_policy_closed [OF assms(1)] assms(4)])
  with c chain show ?thesis by (fastforce simp: deterministic_ok_def independent_ok_def split: option.splits)
qed

text \<open>A claim with its independent certification but without its deterministic one is reported as
  lacking the independent one too.\<close>

lemma independent_misreported:
  assumes "claim_of m (rq_id r) = Some c" and "rq_deterministic r" and "rq_independent r"
    and "cl_deterministic c = None" and "cl_independent c = Some i"
  shows "Independent_missing \<in> set (as_reasons (assess_claim r m expected))"
  using assms by (simp add: assess_claim_def Let_def)

section \<open>A concrete run\<close>

text \<open>A design claim, certified by a validator and an independent verifier, and a build claim bound to
  it and to the head.\<close>

definition w_hash :: "char \<Rightarrow> string" where
  "w_hash c = replicate 64 c"

definition w_ref :: "string \<Rightarrow> char \<Rightarrow> pyval" where
  "w_ref name c = PDict [(''name'', PStr name), (''path'', PStr (''out/'' @ name)), (''sha256'', PStr (w_hash c))]"

definition w_cert :: "string \<Rightarrow> string \<Rightarrow> char \<Rightarrow> pyval" where
  "w_cert kind who c = PDict [(''kind'', PStr kind), (''authority_id'', PStr who), (''artifact'', w_ref who c)]"

definition w_claim :: "string \<Rightarrow> char \<Rightarrow> pyval \<Rightarrow> pyval \<Rightarrow> (string \<times> pyval) list \<Rightarrow> pyval" where
  "w_claim i c indep head bindings = PDict [(''claim_id'', PStr i), (''stage'', PStr i), (''producer'', PStr ''builder''),
     (''artifact'', w_ref i c), (''deterministic'', w_cert ''deterministic'' ''validator'' (CHR ''c'')), (''independent'', indep),
     (''exact_head_sha'', head), (''bindings'', PDict bindings)]"

definition w_manifest :: pydict where
  "w_manifest = [(''version'', PStr ''2.0''), (''run_id'', PStr ''run''), (''issue'', PInt 7), (''base_sha'', PStr (w_hash (CHR ''0''))),
     (''claims'', PList [w_claim ''design'' (CHR ''a'') (w_cert ''independent'' ''judge'' (CHR ''d'')) PNone [],
       w_claim ''build'' (CHR ''b'') PNone (PStr (w_hash (CHR ''1''))) [(''design'', PStr (w_hash (CHR ''a'')))]])]"

definition w_requirement :: "string \<Rightarrow> string list \<Rightarrow> bool \<Rightarrow> bool \<Rightarrow> pyval" where
  "w_requirement i needs indep exact = PDict [(''id'', PStr i), (''stage'', PStr i), (''requires'', PList (map PStr needs)),
     (''deterministic_required'', PBool True), (''independent_required'', PBool indep), (''exact_head_required'', PBool exact),
     (''final_evidence_required'', PBool True)]"

definition w_policy :: pyval where
  "w_policy = PDict [(''version'', PStr ''1.0''),
     (''required_claims'', PList [w_requirement ''design'' [] True False, w_requirement ''build'' [''design''] False True])]"

definition w_locate :: "string \<Rightarrow> located" where
  "w_locate p = (case map_of [(''out/design'', CHR ''a''), (''out/build'', CHR ''b''), (''out/validator'', CHR ''c''), (''out/judge'', CHR ''d'')] p of
     None \<Rightarrow> Absent | Some c \<Rightarrow> Content (w_hash c))"

definition w_cert_record :: "string \<Rightarrow> string \<Rightarrow> char \<Rightarrow> certification" where
  "w_cert_record kind who c = \<lparr>ce_kind = kind, ce_authority = who,
     ce_artifact = \<lparr>ar_name = who, ar_path = ''out/'' @ who, ar_sha256 = w_hash c, ar_media = ''application/json''\<rparr>\<rparr>"

definition w_claim_record :: "string \<Rightarrow> char \<Rightarrow> certification option \<Rightarrow> string option \<Rightarrow> (string \<times> string) list \<Rightarrow> claim_record" where
  "w_claim_record i c indep head bindings = \<lparr>cl_id = i, cl_stage = i, cl_producer = ''builder'',
     cl_artifact = \<lparr>ar_name = i, ar_path = ''out/'' @ i, ar_sha256 = w_hash c, ar_media = ''application/json''\<rparr>,
     cl_deterministic = Some (w_cert_record ''deterministic'' ''validator'' (CHR ''c'')), cl_independent = indep, cl_head = head, cl_bindings = bindings\<rparr>"

definition w_run :: run_manifest where
  "w_run = \<lparr>rm_version = ''2.0'', rm_run_id = ''run'', rm_issue = PInt 7, rm_base = w_hash (CHR ''0''),
     rm_claims = [w_claim_record ''design'' (CHR ''a'') (Some (w_cert_record ''independent'' ''judge'' (CHR ''d''))) None [],
       w_claim_record ''build'' (CHR ''b'') None (Some (w_hash (CHR ''1''))) [(''design'', w_hash (CHR ''a''))]]\<rparr>"

definition w_spine_requirement :: "string \<Rightarrow> string list \<Rightarrow> bool \<Rightarrow> bool \<Rightarrow> claim_requirement" where
  "w_spine_requirement i needs indep exact = \<lparr>rq_id = i, rq_stage = i, rq_requires = needs, rq_deterministic = True,
     rq_independent = indep, rq_exact_head = exact, rq_final = True\<rparr>"

definition w_loaded_policy :: spine_policy where
  "w_loaded_policy = \<lparr>sp_version = ''1.0'', sp_requirements = [w_spine_requirement ''design'' [] True False,
     w_spine_requirement ''build'' [''design''] False True], sp_raw = w_policy\<rparr>"

lemma w_manifest_loads: "manifest_from w_manifest = Inr w_run"
  by code_simp

lemma w_policy_loads: "load_policy w_policy = Inr w_loaded_policy"
  by code_simp

lemma w_held: "artifacts_held (Some w_locate) w_run"
  by (simp add: artifacts_held_def w_run_def w_claim_record_def w_cert_record_def referenced_artifacts_def w_locate_def)

lemma w_satisfied: "spine_satisfied w_loaded_policy w_run (w_hash (CHR ''1''))"
  by (simp add: spine_satisfied_def w_loaded_policy_def w_spine_requirement_def satisfied_def claim_of_def w_run_def w_claim_record_def
      bound_to_predecessors_def)

lemma w_compiles: "\<exists>x. compile_evidence_index (\<lambda>s. s) w_loaded_policy w_run (Some w_locate) (w_hash (CHR ''1'')) = Inr x"
  using compile_defined [OF w_held w_satisfied, of "\<lambda>s. s"] by (cases "compile_evidence_index (\<lambda>s. s) w_loaded_policy w_run (Some w_locate) (w_hash (CHR ''1''))") auto

theorem manifest_well_formed_witness: "manifest_ok w_run \<and> length (rm_claims w_run) = 2"
  using manifest_well_formed [OF w_manifest_loads tx_start] by (simp add: w_run_def)

theorem manifest_round_trip_witness:
  "\<exists>n. manifest_from (manifest_dict w_run) = Inr n \<and> manifest_sha256 (\<lambda>s. s) n = manifest_sha256 (\<lambda>s. s) w_run"
  using manifest_round_trip [OF w_manifest_loads] by auto

theorem evidence_certified_witness:
  "\<exists>c. claim_of w_run ''design'' = Some c
     \<and> (\<exists>v i. cl_deterministic c = Some v \<and> cl_independent c = Some i \<and> distinct [cl_producer c, ce_authority v, ce_authority i])"
proof -
  from w_compiles obtain x where x: "compile_evidence_index (\<lambda>s. s) w_loaded_policy w_run (Some w_locate) (w_hash (CHR ''1'')) = Inr x" by blast
  have "w_spine_requirement ''design'' [] True False \<in> set (sp_requirements w_loaded_policy)" by (simp add: w_loaded_policy_def)
  from evidence_certified [OF w_policy_loads w_manifest_loads x this] show ?thesis by (auto simp: w_spine_requirement_def)
qed

end
