(* ===== verification/Proof_Currency.thy ===== *)
theory Proof_Currency
  imports Attestations "HOL-Library.AList"
begin

text \<open>
  Dependency currency, \<open>factory_kernel/proof_dependencies.py\<close>: the protected authority profiles, the
  observed dependency set, the currency verdict of one attestation, and the frontier of
  attestations a change invalidates. Reading the profile file is I/O, its JSON value is the
  argument. A \<open>VerifiedAttestation\<close> is assessed as the mapping of its inputs, profile and outcome.
  The human text of a result's detail is not modelled.
\<close>

section \<open>Currency classes\<close>

datatype currency = Current | Stale | Insufficient | Rejected

fun severity :: "currency \<Rightarrow> nat" where
  "severity Current = 0" | "severity Stale = 1" | "severity Insufficient = 2" | "severity Rejected = 3"

lemma severity_inject: "severity a = severity b \<Longrightarrow> a = b"
  by (cases a; cases b) simp_all

instantiation currency :: linorder
begin

definition less_eq_currency :: "currency \<Rightarrow> currency \<Rightarrow> bool" where
  "less_eq_currency a b \<longleftrightarrow> severity a \<le> severity b"

definition less_currency :: "currency \<Rightarrow> currency \<Rightarrow> bool" where
  "less_currency a b \<longleftrightarrow> severity a < severity b"

instance
  by standard (auto simp: less_eq_currency_def less_currency_def severity_inject)

end

definition currency_name :: "currency \<Rightarrow> string" where
  "currency_name c = (case c of Current \<Rightarrow> ''current'' | Stale \<Rightarrow> ''stale'' | Insufficient \<Rightarrow> ''insufficient'' | Rejected \<Rightarrow> ''rejected'')"

datatype reason =
    Record_invalid | Issuer_invalid | Subject_mismatch | Profile_unknown | Profile_mismatch | Predecessor_rejected
  | Record_unobserved | Subject_unobserved | Artifact_missing | Dependency_missing | Coverage_unknown
  | Live_missing | Predecessor_insufficient
  | Dependency_changed | Live_expired | Predecessor_stale

fun REASONS :: "reason \<Rightarrow> currency" where
  "REASONS Record_invalid = Rejected" | "REASONS Issuer_invalid = Rejected" | "REASONS Subject_mismatch = Rejected"
| "REASONS Profile_unknown = Rejected" | "REASONS Profile_mismatch = Rejected" | "REASONS Predecessor_rejected = Rejected"
| "REASONS Record_unobserved = Insufficient" | "REASONS Subject_unobserved = Insufficient" | "REASONS Artifact_missing = Insufficient"
| "REASONS Dependency_missing = Insufficient" | "REASONS Coverage_unknown = Insufficient" | "REASONS Live_missing = Insufficient"
| "REASONS Predecessor_insufficient = Insufficient"
| "REASONS Dependency_changed = Stale" | "REASONS Live_expired = Stale" | "REASONS Predecessor_stale = Stale"

fun reason_name :: "reason \<Rightarrow> string" where
  "reason_name Record_invalid = ''record_invalid''" | "reason_name Issuer_invalid = ''issuer_invalid''"
| "reason_name Subject_mismatch = ''subject_mismatch''" | "reason_name Profile_unknown = ''profile_unknown''"
| "reason_name Profile_mismatch = ''profile_mismatch''" | "reason_name Predecessor_rejected = ''predecessor_rejected''"
| "reason_name Record_unobserved = ''record_unobserved''" | "reason_name Subject_unobserved = ''subject_unobserved''"
| "reason_name Artifact_missing = ''artifact_missing''" | "reason_name Dependency_missing = ''dependency_missing''"
| "reason_name Coverage_unknown = ''dependency_coverage_unknown''" | "reason_name Live_missing = ''live_observation_missing''"
| "reason_name Predecessor_insufficient = ''predecessor_insufficient''" | "reason_name Dependency_changed = ''dependency_changed''"
| "reason_name Live_expired = ''live_observation_expired''" | "reason_name Predecessor_stale = ''predecessor_stale''"

definition status_of :: "reason list \<Rightarrow> currency" where
  "status_of codes = foldr (\<lambda>c. max (REASONS c)) codes Current"

section \<open>Profiles\<close>

datatype profile_error = Profile_refused string | Profile_type_error

definition profile_id_text :: "string \<Rightarrow> bool" where
  "profile_id_text s \<longleftrightarrow> (case s of [] \<Rightarrow> False
     | c # cs \<Rightarrow> (let low = (\<lambda>x. is_digit_char x \<or> (97 \<le> code_of x \<and> code_of x \<le> 122)) in
                   low c \<and> length cs \<le> 119 \<and> list_all (\<lambda>x. low x \<or> x \<in> set ''.-'') cs))"

record profile =
  dp_id :: string
  dp_version :: string
  dp_required :: "string list"
  dp_live :: "string list"
  dp_narrowing :: bool

record profiles =
  ap_compiler :: string
  ap_profiles :: "(string \<times> profile) list"
  ap_obligations :: "(string \<times> string) list"
  ap_sha256 :: string

definition profile_for :: "profiles \<Rightarrow> string \<Rightarrow> profile_error + profile" where
  "profile_for ps obligation =
     (case map_of (ap_obligations ps) obligation of
        None \<Rightarrow> Inl (Profile_refused ''obligation'')
      | Some i \<Rightarrow> (case map_of (ap_profiles ps) i of None \<Rightarrow> Inl Profile_type_error | Some p \<Rightarrow> Inr p))"

fun identity_rows :: "string \<Rightarrow> string list \<Rightarrow> pyval list \<Rightarrow> profile_error + string list" where
  "identity_rows name rows [] = Inr rows"
| "identity_rows name rows (v # vs) =
     (case v of
        PStr s \<Rightarrow> if \<not> identity_text s \<or> s \<in> set rows then Inl (Profile_refused name) else identity_rows name (rows @ [s]) vs
      | _ \<Rightarrow> Inl (Profile_refused name))"

definition identities :: "string \<Rightarrow> pyval \<Rightarrow> profile_error + string list" where
  "identities name raw =
     (case raw of PList xs \<Rightarrow> if A_MAX_ITEMS < length xs then Inl (Profile_refused name) else identity_rows name [] xs
      | _ \<Rightarrow> Inl (Profile_refused name))"

definition parse_profile :: "string \<times> pyval \<Rightarrow> profile_error + string \<times> profile" where
  "parse_profile row = (case row of (i, entry) \<Rightarrow>
     bindE (ensure (profile_id_text i) (Profile_refused ''profile id'')) (\<lambda>_.
     bindE (case entry of PDict d \<Rightarrow> if same_set (map fst d) [''version'', ''required_identities'', ''live_observers'', ''narrowing_allowed'']
              then Inr d else Inl (Profile_refused i) | _ \<Rightarrow> Inl (Profile_refused i)) (\<lambda>d.
     bindE (case py_get d ''version'' of PStr s \<Rightarrow> if blank s then Inl (Profile_refused ''version'') else Inr s
            | _ \<Rightarrow> Inl (Profile_refused ''version'')) (\<lambda>version.
     bindE (ensure (py_get d ''narrowing_allowed'' = PBool False) (Profile_refused ''narrowing_allowed'')) (\<lambda>_.
     bindE (identities ''required_identities'' (py_get d ''required_identities'')) (\<lambda>required.
     bindE (ensure (required \<noteq> []) (Profile_refused ''required_identities'')) (\<lambda>_.
     bindE (identities ''live_observers'' (py_get d ''live_observers'')) (\<lambda>live.
     Inr (i, \<lparr>dp_id = i, dp_version = version, dp_required = required, dp_live = live, dp_narrowing = False\<rparr>)))))))))"

definition parse_obligation :: "(string \<times> profile) list \<Rightarrow> string \<times> pyval \<Rightarrow> profile_error + string \<times> string" where
  "parse_obligation profiles row = (case row of (i, v) \<Rightarrow>
     bindE (ensure (\<not> blank i) (Profile_refused ''obligation'')) (\<lambda>_.
     case v of
       PStr p \<Rightarrow> if p \<in> set (map fst profiles) then Inr (i, p) else Inl (Profile_refused i)
     | PList _ \<Rightarrow> Inl Profile_type_error
     | PDict _ \<Rightarrow> Inl Profile_type_error
     | _ \<Rightarrow> Inl (Profile_refused i)))"

definition load_profiles :: "(string \<Rightarrow> string) \<Rightarrow> pyval \<Rightarrow> string list option \<Rightarrow> profile_error + profiles" where
  "load_profiles sha raw spine_claim_ids =
     bindE (ensure (py_field raw ''schema'' = PStr ''dark-factory/authority-profiles'' \<and> py_field raw ''schema_version'' = PStr ''1.0'')
              (Profile_refused ''schema'')) (\<lambda>_.
     bindE (case raw of PDict d \<Rightarrow>
              if same_set (map fst d) [''schema'', ''schema_version'', ''compiler_version'', ''profiles'', ''obligations''] then Inr d
              else Inl (Profile_refused ''fields'') | _ \<Rightarrow> Inl (Profile_refused ''schema'')) (\<lambda>d.
     bindE (ensure (py_get d ''compiler_version'' = PStr ''1.0'') (Profile_refused ''compiler_version'')) (\<lambda>_.
     bindE (case py_get d ''profiles'' of PDict ps \<Rightarrow> if ps = [] \<or> A_MAX_ITEMS < length ps then Inl (Profile_refused ''profiles'') else Inr ps
            | _ \<Rightarrow> Inl (Profile_refused ''profiles'')) (\<lambda>raw_profiles.
     bindE (mapE parse_profile raw_profiles) (\<lambda>profiles.
     bindE (case py_get d ''obligations'' of PDict os \<Rightarrow> if A_MAX_ITEMS < length os then Inl (Profile_refused ''obligations'') else Inr os
            | _ \<Rightarrow> Inl (Profile_refused ''obligations'')) (\<lambda>raw_obligations.
     bindE (mapE (parse_obligation profiles) raw_obligations) (\<lambda>obligations.
     bindE (ensure (case spine_claim_ids of None \<Rightarrow> True | Some ids \<Rightarrow> same_set (map fst obligations) ids) (Profile_refused ''spine'')) (\<lambda>_.
     Inr \<lparr>ap_compiler = ''1.0'', ap_profiles = profiles, ap_obligations = obligations, ap_sha256 = sha256_value sha raw\<rparr>))))))))"

section \<open>Observed dependencies\<close>

record dependency_set =
  ds_profile :: string
  ds_version :: string
  ds_compiler :: string
  ds_identities :: "(string \<times> string) list"
  ds_missing :: "string list"

definition ds_coverage :: "dependency_set \<Rightarrow> string" where
  "ds_coverage s = (if ds_missing s = [] then ''complete'' else ''unknown'')"

definition ds_fields :: "dependency_set \<Rightarrow> pydict" where
  "ds_fields s = [(''profile_id'', PStr (ds_profile s)), (''profile_version'', PStr (ds_version s)),
     (''compiler_version'', PStr (ds_compiler s)),
     (''identities'', PDict (map (\<lambda>(k, v). (k, PStr v)) (sort_key fst (ds_identities s)))),
     (''missing'', PList (map PStr (ds_missing s)))]"

definition ds_sha256 :: "(string \<Rightarrow> string) \<Rightarrow> dependency_set \<Rightarrow> string" where
  "ds_sha256 sha s = sha256_value sha (PDict (ds_fields s))"

definition ds_dict :: "(string \<Rightarrow> string) \<Rightarrow> dependency_set \<Rightarrow> pyval" where
  "ds_dict sha s = PDict (ds_fields s @ [(''coverage'', PStr (ds_coverage s)), (''sha256'', PStr (ds_sha256 sha s))])"

definition observed_value :: "pyval \<Rightarrow> (string \<Rightarrow> pyval) \<Rightarrow> string \<Rightarrow> string option" where
  "observed_value subject trusted_reader i =
     (case (case subject of PDict d \<Rightarrow> if py_has d i then py_get d i else trusted_reader i | _ \<Rightarrow> trusted_reader i) of
        PStr s \<Rightarrow> if blank s then None else Some s
      | _ \<Rightarrow> None)"

definition collect_dependencies ::
  "string \<Rightarrow> pyval \<Rightarrow> (string \<Rightarrow> pyval) \<Rightarrow> profile \<Rightarrow> profile_error + dependency_set" where
  "collect_dependencies authority_id subject trusted_reader p =
     bindE (ensure (\<not> blank authority_id) (Profile_refused ''authority_id'')) (\<lambda>_.
     let seen = map (\<lambda>i. (i, observed_value subject trusted_reader i)) (dp_required p) in
     Inr \<lparr>ds_profile = dp_id p, ds_version = dp_version p, ds_compiler = ''1.0'',
          ds_identities = concat (map (\<lambda>(i, v). case v of None \<Rightarrow> [] | Some s \<Rightarrow> [(i, s)]) seen),
          ds_missing = map fst (filter (\<lambda>(_, v). v = None) seen)\<rparr>)"

section \<open>Currency\<close>

record currency_result =
  cr_status :: currency
  cr_reasons :: "string list"
  cr_affected :: "string list"
  cr_satisfies :: bool

definition result_dict_of :: "currency_result \<Rightarrow> pydict" where
  "result_dict_of r = [(''status'', PStr (currency_name (cr_status r))), (''reason_codes'', PList (map PStr (cr_reasons r))),
     (''affected'', PList (map PStr (cr_affected r))), (''satisfies_obligation'', PBool (cr_satisfies r))]"

text \<open>A declared input: its digest and the coverage it states.\<close>

fun required_rows :: "(string \<times> string \<times> pyval) list \<Rightarrow> pyval list \<Rightarrow> (string \<times> string \<times> pyval) list option" where
  "required_rows found [] = Some found"
| "required_rows found (v # vs) =
     (case v of
        PDict d \<Rightarrow>
          (case (py_get d ''identity'', py_get d ''digest'') of
             (PStr i, PStr digest) \<Rightarrow>
               if i = [] \<or> digest = [] then None
               else required_rows (AList.update i (digest, if py_has d ''coverage'' then py_get d ''coverage'' else PStr ''complete'') found) vs
           | _ \<Rightarrow> None)
      | _ \<Rightarrow> None)"

definition text_option :: "pyval \<Rightarrow> string option" where
  "text_option v = (case v of PStr s \<Rightarrow> Some s | _ \<Rightarrow> None)"

definition required_inputs :: "pyval \<Rightarrow> ((string \<times> string \<times> pyval) list \<times> string option \<times> string option) option" where
  "required_inputs attestation =
     (case attestation of
        PDict d \<Rightarrow>
          (case py_get d ''inputs'' of
             PList rows \<Rightarrow> map_option (\<lambda>required. (required, text_option (py_get d ''obligation_profile_id''),
               text_option (py_field (py_get d ''outcome'') ''verdict''))) (required_rows [] rows)
           | _ \<Rightarrow> None)
      | _ \<Rightarrow> None)"

definition finish_currency :: "string option \<Rightarrow> reason list \<Rightarrow> string list \<Rightarrow> currency_result" where
  "finish_currency verdict codes affected =
     \<lparr>cr_status = status_of codes, cr_reasons = sorted_set (map reason_name codes), cr_affected = sorted_set affected,
      cr_satisfies = (status_of codes = Current \<and> verdict = Some ''pass'')\<rparr>"

text \<open>The observers consulted first: a reason here ends the assessment.\<close>

definition identity_reason :: "pyval \<Rightarrow> reason option" where
  "identity_reason obs =
     (if py_field obs ''record_valid'' = PNone then Some Record_unobserved
      else if py_field obs ''record_valid'' \<noteq> PBool True then Some Record_invalid
      else if py_field obs ''issuer_valid'' \<noteq> PBool True then Some Issuer_invalid
      else if py_field obs ''subject_match'' = PNone then Some Subject_unobserved
      else if py_field obs ''subject_match'' \<noteq> PBool True then Some Subject_mismatch else None)"

definition retained_reasons :: "pyval \<Rightarrow> (reason \<times> string option) list" where
  "retained_reasons retained =
     (case retained of
        PDict r \<Rightarrow> (case filter (\<lambda>(_, v). v \<noteq> PBool True) r of [] \<Rightarrow> []
          | gone \<Rightarrow> (Artifact_missing, None) # map (\<lambda>(k, _). (Artifact_missing, Some k)) gone)
      | _ \<Rightarrow> if retained = PBool True then [] else [(Artifact_missing, None)])"

definition profile_reason :: "string option \<Rightarrow> profile option \<Rightarrow> reason option" where
  "profile_reason declared p =
     (case p of None \<Rightarrow> Some Profile_unknown
      | Some p \<Rightarrow> if declared \<noteq> None \<and> declared \<noteq> Some (dp_id p) then Some Profile_mismatch else None)"

definition dependency_reasons :: "(string \<times> string \<times> pyval) list \<Rightarrow> pyval \<Rightarrow> profile \<Rightarrow> (reason \<times> string option) list" where
  "dependency_reasons required observed p =
     concat (map (\<lambda>i. case (map_of required i, text_option (py_field observed i)) of
         (Some (digest, _), Some now) \<Rightarrow> if now = [] then [(Dependency_missing, Some i)]
            else if digest \<noteq> now then [(Dependency_changed, Some i)] else []
       | _ \<Rightarrow> [(Dependency_missing, Some i)]) (sorted_set (dp_required p @ map fst required)))"

definition coverage_reasons :: "(string \<times> string \<times> pyval) list \<Rightarrow> pyval \<Rightarrow> (reason \<times> string option) list" where
  "coverage_reasons required obs =
     (if list_ex (\<lambda>(_, _, c). c \<noteq> PStr ''complete'') required
         \<or> (case obs of PDict d \<Rightarrow> py_has d ''coverage'' \<and> py_get d ''coverage'' \<noteq> PStr ''complete'' | _ \<Rightarrow> False)
      then [(Coverage_unknown, None)] else [])"

definition live_reasons :: "pyval \<Rightarrow> profile \<Rightarrow> (reason \<times> string option) list" where
  "live_reasons live p =
     concat (map (\<lambda>i. case py_field live i of
         PDict r \<Rightarrow> if py_get r ''valid'' = PBool True then [] else [(Live_expired, Some i)]
       | _ \<Rightarrow> [(Live_missing, Some i)]) (dp_live p))"

definition predecessor_reasons :: "pyval \<Rightarrow> (reason \<times> string option) list" where
  "predecessor_reasons predecessors =
     (case predecessors of
        PDict ps \<Rightarrow> concat (map (\<lambda>(i, v).
          if v = PStr ''rejected'' then [(Predecessor_rejected, Some i)]
          else if v = PStr ''insufficient'' then [(Predecessor_insufficient, Some i)]
          else if v = PStr ''stale'' then [(Predecessor_stale, Some i)]
          else if v \<noteq> PStr ''current'' then [(Predecessor_insufficient, Some i)] else []) (sort_key fst ps))
      | _ \<Rightarrow> [])"

definition named :: "(reason \<times> string option) list \<Rightarrow> string list" where
  "named rs = concat (map (\<lambda>(_, n). case n of None \<Rightarrow> [] | Some s \<Rightarrow> [s]) rs)"

text \<open>\<open>None\<close> is the \<open>ValueError\<close> of malformed inputs.\<close>

definition assess_currency :: "pyval \<Rightarrow> pyval \<Rightarrow> profile option \<Rightarrow> currency_result option" where
  "assess_currency attestation current_observations profile =
     (case required_inputs attestation of
        None \<Rightarrow> None
      | Some (required, declared, verdict) \<Rightarrow> Some (
          let obs = current_observations;
              finish = (\<lambda>rs. finish_currency verdict (map fst rs) (named rs)) in
          case identity_reason obs of
            Some c \<Rightarrow> finish [(c, None)]
          | None \<Rightarrow>
            let retained = retained_reasons (py_field obs ''retained'') in
            (case (profile_reason declared profile, profile) of
               (None, Some p) \<Rightarrow> finish (retained @ dependency_reasons required (py_field obs ''dependencies'') p @ coverage_reasons required obs
                  @ live_reasons (py_field obs ''live'') p @ predecessor_reasons (py_field obs ''predecessors''))
             | (Some c, _) \<Rightarrow> finish (retained @ [(c, None)])
             | (None, None) \<Rightarrow> finish (retained @ [(Profile_unknown, None)]))))"

section \<open>The invalidated frontier\<close>

datatype index_error = Index_invalid string | Index_type_error

record dependency_index =
  ix_identities :: "(string \<times> string list) list"
  ix_edges :: "(string \<times> string \<times> string) list"

definition inputs_of :: "pyval \<Rightarrow> index_error + string list" where
  "inputs_of item =
     (case py_field item ''inputs'' of
        PList rows \<Rightarrow> mapE (\<lambda>r. case py_field r ''identity'' of PStr s \<Rightarrow> Inr s | _ \<Rightarrow> Inl Index_type_error) rows
      | _ \<Rightarrow> Inl (Index_invalid ''inputs''))"

definition build_dependency_index ::
  "(string \<times> pyval) list \<Rightarrow> (string \<times> string \<times> string) list \<Rightarrow> index_error + dependency_index" where
  "build_dependency_index verified edges =
     bindE (mapE (\<lambda>(a, item). bindE (inputs_of item) (\<lambda>names. Inr (map (\<lambda>i. (i, a)) names))) (sort_key fst verified)) (\<lambda>rows.
     let pairs = concat rows in
     Inr \<lparr>ix_identities = map (\<lambda>i. (i, sort (map snd (filter (\<lambda>(j, _). j = i) pairs)))) (sorted_set (map fst pairs)),
          ix_edges = sort edges\<rparr>)"

definition index_dict :: "dependency_index \<Rightarrow> pyval" where
  "index_dict x = PDict [(''version'', PStr ''1.0''), (''complete'', PBool True),
     (''identities'', PDict (map (\<lambda>(i, ids). (i, PList (map PStr ids))) (ix_identities x))),
     (''edges'', PList (map (\<lambda>(s, t, k). PDict [(''source'', PStr s), (''target'', PStr t), (''kind'', PStr k)]) (ix_edges x)))]"

definition declared_of :: "(string \<times> pyval) list \<Rightarrow> index_error + (string \<times> string list) list" where
  "declared_of verified = mapE (\<lambda>(a, item). bindE (inputs_of item) (\<lambda>names. Inr (a, names))) verified"

definition segment_item :: "(string \<times> string list) list \<Rightarrow> string \<Rightarrow> pyval \<Rightarrow> index_error + string" where
  "segment_item declared i v =
     (case v of
        PStr a \<Rightarrow> (case map_of declared a of
            None \<Rightarrow> Inl (Index_invalid i) | Some names \<Rightarrow> if i \<in> set names then Inr a else Inl (Index_invalid i))
      | PList _ \<Rightarrow> Inl Index_type_error
      | PDict _ \<Rightarrow> Inl Index_type_error
      | _ \<Rightarrow> Inl (Index_invalid i))"

definition check_segment :: "(string \<times> string list) list \<Rightarrow> string \<times> pyval \<Rightarrow> index_error + string \<times> string list" where
  "check_segment declared row = (case row of (i, ids) \<Rightarrow>
     (case ids of
        PList xs \<Rightarrow> bindE (mapE (segment_item declared i) xs) (\<lambda>as. Inr (i, as))
      | _ \<Rightarrow> Inl (Index_invalid ''identity segment'')))"

definition check_end :: "(string \<times> string list) list \<Rightarrow> pyval \<Rightarrow> index_error + string" where
  "check_end declared v =
     (case v of
        PStr s \<Rightarrow> if s \<in> set (map fst declared) then Inr s else Inl (Index_invalid ''edge'')
      | PList _ \<Rightarrow> Inl Index_type_error
      | PDict _ \<Rightarrow> Inl Index_type_error
      | _ \<Rightarrow> Inl (Index_invalid ''edge''))"

definition check_edge :: "(string \<times> string list) list \<Rightarrow> pyval \<Rightarrow> index_error + string \<times> string \<times> string" where
  "check_edge declared edge =
     (case edge of
        PDict d \<Rightarrow>
          bindE (check_end declared (py_get d ''source'')) (\<lambda>s.
          bindE (check_end declared (py_get d ''target'')) (\<lambda>t.
          case py_get d ''kind'' of PStr k \<Rightarrow> if k = [] then Inl (Index_invalid ''kind'') else Inr (s, t, k) | _ \<Rightarrow> Inl (Index_invalid ''kind'')))
      | _ \<Rightarrow> Inl (Index_invalid ''edge''))"

text \<open>\<open>dependents\<close>: the sources of the \<open>depends_on\<close> edges of a target, in edge order.\<close>

definition dependents_of :: "(string \<times> string \<times> string) list \<Rightarrow> string \<Rightarrow> string list" where
  "dependents_of edges a = map fst (filter (\<lambda>(s, t, k). k = ''depends_on'' \<and> t = a) edges)"

text \<open>The loop: take the last of the queue, skip it when visited, else visit it and queue its
  dependents.\<close>

function frontier_loop :: "(string \<times> string \<times> string) list \<Rightarrow> string list \<Rightarrow> string list \<Rightarrow> string list" where
  "frontier_loop edges frontier [] = frontier"
| "frontier_loop edges frontier (q # qs) =
     (let node = last (q # qs); queue = butlast (q # qs) in
      if node \<in> set frontier then frontier_loop edges frontier queue
      else frontier_loop edges (node # frontier) (queue @ dependents_of edges node))"
  by pat_completeness auto

definition pending :: "(string \<times> string \<times> string) list \<Rightarrow> string list \<Rightarrow> string list \<Rightarrow> string set" where
  "pending edges frontier queue = (set queue \<union> fst ` set edges) - set frontier"

lemma dependents_sources: "set (dependents_of edges a) \<subseteq> fst ` set edges"
  by (force simp: dependents_of_def)

termination frontier_loop
proof (relation "measures [\<lambda>(edges, frontier, queue). card (pending edges frontier queue), \<lambda>(edges, frontier, queue). length queue]")
  fix edges :: "(string \<times> string \<times> string) list" and frontier qs queue :: "string list" and q node
  assume node: "node = last (q # qs)" and queue: "queue = butlast (q # qs)" and seen: "node \<in> set frontier"
  have sub: "set queue \<subseteq> set (q # qs)" unfolding queue by (rule subsetI) (erule in_set_butlastD)
  then have "pending edges frontier queue \<subseteq> pending edges frontier (q # qs)" by (auto simp: pending_def)
  then have "card (pending edges frontier queue) \<le> card (pending edges frontier (q # qs))"
    by (rule card_mono [rotated]) (simp add: pending_def)
  then show "((edges, frontier, queue), (edges, frontier, q # qs))
      \<in> measures [\<lambda>(edges, frontier, queue). card (pending edges frontier queue), \<lambda>(edges, frontier, queue). length queue]"
    by (auto simp: queue)
next
  fix edges :: "(string \<times> string \<times> string) list" and frontier qs queue :: "string list" and q node
  assume node: "node = last (q # qs)" and queue: "queue = butlast (q # qs)" and new: "node \<notin> set frontier"
  have "set queue \<subseteq> set (q # qs)" unfolding queue by (rule subsetI) (erule in_set_butlastD)
  moreover have "node \<in> set (q # qs)" unfolding node by (rule last_in_set) simp
  ultimately have "pending edges (node # frontier) (queue @ dependents_of edges node) \<subset> pending edges frontier (q # qs)"
    using new dependents_sources [of edges node] by (auto simp: pending_def)
  then have "card (pending edges (node # frontier) (queue @ dependents_of edges node)) < card (pending edges frontier (q # qs))"
    by (rule psubset_card_mono [rotated]) (simp add: pending_def)
  then show "((edges, node # frontier, queue @ dependents_of edges node), (edges, frontier, q # qs))
      \<in> measures [\<lambda>(edges, frontier, queue). card (pending edges frontier queue), \<lambda>(edges, frontier, queue). length queue]"
    by simp
qed simp

definition invalidated_frontier :: "string list \<Rightarrow> (string \<times> pyval) list \<Rightarrow> pyval \<Rightarrow> index_error + string list" where
  "invalidated_frontier changes verified index =
     bindE (ensure (py_field index ''version'' = PStr ''1.0'' \<and> py_field index ''complete'' = PBool True) (Index_invalid ''index'')) (\<lambda>_.
     bindE (case (py_field index ''identities'', py_field index ''edges'') of (PDict ids, PList es) \<Rightarrow> Inr (ids, es)
            | _ \<Rightarrow> Inl (Index_invalid ''segments'')) (\<lambda>(ids, es).
     bindE (declared_of verified) (\<lambda>declared.
     bindE (mapE (check_segment declared) ids) (\<lambda>segments.
     bindE (ensure (list_all (\<lambda>(a, names). list_all (\<lambda>i. case map_of segments i of None \<Rightarrow> False | Some as \<Rightarrow> a \<in> set as) names) declared)
              (Index_invalid ''missing segment'')) (\<lambda>_.
     bindE (mapE (check_edge declared) es) (\<lambda>edges.
     let queue = concat (map (\<lambda>i. case map_of segments i of None \<Rightarrow> [] | Some as \<Rightarrow> as) (sorted_set changes)) in
     Inr (sort (frontier_loop edges [] queue))))))))"

end
