(* ===== verification/Currency_Properties.thy ===== *)
theory Currency_Properties
  imports Proof_Currency Dependency_Order
begin

text \<open>
  The currency verdict is \<open>current\<close> exactly when every observation agrees, and the invalidated
  frontier is exactly what the changes reach: the worklist loop is proved against the reflexive
  transitive closure of the \<open>depends_on\<close> edges.
\<close>

section \<open>Currency\<close>

lemma status_of_Cons: "status_of (c # cs) = max (REASONS c) (status_of cs)"
  by (simp add: status_of_def)

lemma reason_not_current: "REASONS c \<noteq> Current"
  by (cases c) simp_all

lemma current_least: "Current \<le> c"
  by (simp add: less_eq_currency_def)

lemma status_current: "status_of cs = Current \<longleftrightarrow> cs = []"
proof (cases cs)
  case (Cons c ds)
  have "REASONS c \<le> status_of cs" by (simp add: Cons status_of_Cons)
  then have "status_of cs \<noteq> Current" using reason_not_current [of c] current_least [of "REASONS c"] by auto
  then show ?thesis by (simp add: Cons)
qed (simp add: status_of_def)

lemma finish_current: "cr_status (finish_currency verdict cs ns) = Current \<longleftrightarrow> cs = []"
  by (simp add: finish_currency_def status_current)

lemma identity_None: "identity_reason obs = None \<longleftrightarrow> py_field obs ''record_valid'' = PBool True
    \<and> py_field obs ''issuer_valid'' = PBool True \<and> py_field obs ''subject_match'' = PBool True"
  by (auto simp: identity_reason_def)

lemma retained_Nil: "retained_reasons v = [] \<longleftrightarrow> v = PBool True \<or> (\<exists>r. v = PDict r \<and> (\<forall>(k, x) \<in> set r. x = PBool True))"
proof (cases v)
  case (PDict r)
  have "filter (\<lambda>(_, x). x \<noteq> PBool True) r = [] \<longleftrightarrow> (\<forall>(k, x) \<in> set r. x = PBool True)"
    by (auto simp: filter_empty_conv)
  then show ?thesis by (cases "filter (\<lambda>(_, x). x \<noteq> PBool True) r") (auto simp: PDict retained_reasons_def)
qed (simp_all add: retained_reasons_def)

lemma concat_map_Nil: "concat (map f xs) = [] \<longleftrightarrow> (\<forall>x \<in> set xs. f x = [])"
  by auto

lemma dependency_Nil:
  "dependency_reasons required observed p = [] \<longleftrightarrow> (\<forall>i \<in> set (dp_required p) \<union> fst ` set required.
     \<exists>digest c. map_of required i = Some (digest, c) \<and> digest \<noteq> [] \<and> py_field observed i = PStr digest)"
proof -
  have "(case (map_of required i, text_option (py_field observed i)) of
         (Some (digest, _), Some now) \<Rightarrow> if now = [] then [(Dependency_missing, Some i)]
            else if digest \<noteq> now then [(Dependency_changed, Some i)] else []
       | _ \<Rightarrow> [(Dependency_missing, Some i)]) = [] \<longleftrightarrow>
      (\<exists>digest c. map_of required i = Some (digest, c) \<and> digest \<noteq> [] \<and> py_field observed i = PStr digest)" for i
    by (cases "py_field observed i") (auto simp: text_option_def split: option.split)
  then show ?thesis by (simp only: dependency_reasons_def concat_map_Nil set_sorted_set set_append set_map)
qed

lemma coverage_Nil: "coverage_reasons required obs = [] \<longleftrightarrow> (\<forall>(i, digest, c) \<in> set required. c = PStr ''complete'')
    \<and> (\<forall>d. obs = PDict d \<longrightarrow> py_has d ''coverage'' \<longrightarrow> py_get d ''coverage'' = PStr ''complete'')"
  by (cases obs) (simp_all add: coverage_reasons_def list_ex_iff case_prod_beta')

lemma live_Nil: "live_reasons live p = [] \<longleftrightarrow> (\<forall>i \<in> set (dp_live p). py_field (py_field live i) ''valid'' = PBool True)"
proof -
  have "(case py_field live i of PDict r \<Rightarrow> if py_get r ''valid'' = PBool True then [] else [(Live_expired, Some i)]
       | _ \<Rightarrow> [(Live_missing, Some i)]) = [] \<longleftrightarrow> py_field (py_field live i) ''valid'' = PBool True" for i
    by (cases "py_field live i") (auto simp: py_field_def)
  then show ?thesis by (simp only: live_reasons_def concat_map_Nil)
qed

lemma predecessor_Nil: "predecessor_reasons v = [] \<longleftrightarrow> (\<forall>ps. v = PDict ps \<longrightarrow> (\<forall>(i, x) \<in> set ps. x = PStr ''current''))"
  by (cases v) (auto simp: predecessor_reasons_def split: if_splits)

text \<open>What the observations have to show for a judgement still to be about the present.\<close>

definition all_current :: "(string \<times> string \<times> pyval) list \<Rightarrow> string option \<Rightarrow> pyval \<Rightarrow> profile \<Rightarrow> bool" where
  "all_current required declared obs p \<longleftrightarrow>
     py_field obs ''record_valid'' = PBool True \<and> py_field obs ''issuer_valid'' = PBool True \<and> py_field obs ''subject_match'' = PBool True
     \<and> (py_field obs ''retained'' = PBool True \<or> (\<exists>r. py_field obs ''retained'' = PDict r \<and> (\<forall>(k, x) \<in> set r. x = PBool True)))
     \<and> (declared = None \<or> declared = Some (dp_id p))
     \<and> (\<forall>i \<in> set (dp_required p) \<union> fst ` set required.
          \<exists>digest c. map_of required i = Some (digest, c) \<and> digest \<noteq> [] \<and> py_field (py_field obs ''dependencies'') i = PStr digest)
     \<and> (\<forall>(i, digest, c) \<in> set required. c = PStr ''complete'')
     \<and> (\<forall>d. obs = PDict d \<longrightarrow> py_has d ''coverage'' \<longrightarrow> py_get d ''coverage'' = PStr ''complete'')
     \<and> (\<forall>i \<in> set (dp_live p). py_field (py_field (py_field obs ''live'') i) ''valid'' = PBool True)
     \<and> (\<forall>ps. py_field obs ''predecessors'' = PDict ps \<longrightarrow> (\<forall>(i, x) \<in> set ps. x = PStr ''current''))"

lemma reasons_Nil:
  "identity_reason obs = None \<and> profile_reason declared (Some p) = None \<and>
     retained_reasons (py_field obs ''retained'') @ dependency_reasons required (py_field obs ''dependencies'') p @ coverage_reasons required obs
       @ live_reasons (py_field obs ''live'') p @ predecessor_reasons (py_field obs ''predecessors'') = []
   \<longleftrightarrow> all_current required declared obs p"
  unfolding append_is_Nil_conv identity_None retained_Nil dependency_Nil coverage_Nil live_Nil predecessor_Nil all_current_def
  by (auto simp: profile_reason_def)

text \<open>C22. A judgement is current exactly when every trusted observation agrees with what it declared: the
  record, issuer and subject were verified, every retained object is there, it was made under the
  assessed profile, every required and declared dependency has its declared value now with
  complete coverage, every live observation is valid and every predecessor is current; and it
  satisfies its obligation exactly when it is current and passed.\<close>

theorem currency_exact:
  assumes "required_inputs attestation = Some (required, declared, verdict)"
  shows "\<exists>r. assess_currency attestation obs profile = Some r
    \<and> (cr_status r = Current \<longleftrightarrow> (\<exists>p. profile = Some p \<and> all_current required declared obs p))
    \<and> (cr_satisfies r \<longleftrightarrow> cr_status r = Current \<and> verdict = Some ''pass'')"
proof -
  let ?r = "the (assess_currency attestation obs profile)"
  have some: "assess_currency attestation obs profile = Some ?r" by (simp add: assess_currency_def assms)
  have satisfies: "cr_satisfies ?r \<longleftrightarrow> cr_status ?r = Current \<and> verdict = Some ''pass''"
    by (simp add: assess_currency_def assms Let_def finish_currency_def split: option.split)
  have "cr_status ?r = Current \<longleftrightarrow> (\<exists>p. profile = Some p \<and> all_current required declared obs p)"
  proof (cases profile)
    case None
    then show ?thesis
      by (simp add: assess_currency_def assms Let_def finish_current profile_reason_def split: option.split)
  next
    case (Some p)
    have "cr_status ?r = Current \<longleftrightarrow> identity_reason obs = None \<and> profile_reason declared (Some p) = None \<and>
       retained_reasons (py_field obs ''retained'') @ dependency_reasons required (py_field obs ''dependencies'') p @ coverage_reasons required obs
         @ live_reasons (py_field obs ''live'') p @ predecessor_reasons (py_field obs ''predecessors'') = []"
      by (simp add: assess_currency_def assms Let_def finish_current Some split: option.split)
    then show ?thesis unfolding reasons_Nil by (simp add: Some)
  qed
  with some satisfies show ?thesis by blast
qed

definition w_attestation :: pyval where
  "w_attestation = PDict [(''inputs'', PList [PDict [(''identity'', PStr ''tree''), (''digest'', PStr ''d1'')]]),
     (''obligation_profile_id'', PStr ''p1''), (''outcome'', PDict [(''verdict'', PStr ''pass'')])]"

definition w_profile :: profile where
  "w_profile = \<lparr>dp_id = ''p1'', dp_version = ''1'', dp_required = [''tree''], dp_live = [''ci''], dp_narrowing = False\<rparr>"

definition w_observed :: "string \<Rightarrow> pyval" where
  "w_observed digest = PDict [(''record_valid'', PBool True), (''issuer_valid'', PBool True), (''subject_match'', PBool True),
     (''retained'', PBool True), (''dependencies'', PDict [(''tree'', PStr digest)]), (''live'', PDict [(''ci'', PDict [(''valid'', PBool True)])])]"

lemma w_required: "required_inputs w_attestation = Some ([(''tree'', ''d1'', PStr ''complete'')], Some ''p1'', Some ''pass'')"
  by (simp add: required_inputs_def w_attestation_def py_get_def py_has_def py_field_def text_option_def)

lemma w_all_current: "all_current [(''tree'', ''d1'', PStr ''complete'')] (Some ''p1'') (w_observed digest) w_profile \<longleftrightarrow> digest = ''d1''"
  by (auto simp: all_current_def w_observed_def w_profile_def py_get_def py_has_def py_field_def)

text \<open>The declared tree satisfies the obligation while it is what is observed, and only then.\<close>

theorem currency_exact_witness:
  "(\<exists>r. assess_currency w_attestation (w_observed ''d1'') (Some w_profile) = Some r \<and> cr_satisfies r)
   \<and> (\<exists>r. assess_currency w_attestation (w_observed ''d2'') (Some w_profile) = Some r \<and> cr_status r \<noteq> Current)"
  using currency_exact [OF w_required, of "w_observed ''d1''" "Some w_profile"]
    currency_exact [OF w_required, of "w_observed ''d2''" "Some w_profile"]
  by (auto simp: w_all_current)

text \<open>An issuer nobody observed is rejected, where a record or a subject nobody observed is insufficient.\<close>

lemma absent_issuer_rejected:
  assumes "required_inputs attestation = Some (required, declared, verdict)"
    and "py_field obs ''record_valid'' = PBool True" and "py_field obs ''issuer_valid'' = PNone"
  shows "map_option cr_status (assess_currency attestation obs profile) = Some Rejected"
  using assms by (simp add: assess_currency_def Let_def identity_reason_def finish_currency_def status_of_def less_eq_currency_def max_def)

section \<open>The frontier\<close>

definition dependent :: "(string \<times> string \<times> string) list \<Rightarrow> string \<Rightarrow> string \<Rightarrow> bool" where
  "dependent edges x y \<longleftrightarrow> (y, x, ''depends_on'') \<in> set edges"

lemma set_dependents: "set (dependents_of edges x) = {y. dependent edges x y}"
  by (force simp: dependents_of_def dependent_def)

lemma closed_reach:
  assumes "\<And>x y. x \<in> F \<Longrightarrow> R x y \<Longrightarrow> y \<in> F" and "R\<^sup>*\<^sup>* x y" and "x \<in> F"
  shows "y \<in> F"
  using assms(2,3) by (induction rule: rtranclp_induct) (auto intro: assms(1))

lemma frontier_loop_correct:
  assumes "\<And>x y. x \<in> set frontier \<Longrightarrow> dependent edges x y \<Longrightarrow> y \<in> set frontier \<union> set queue" and "distinct frontier"
  shows "distinct (frontier_loop edges frontier queue)
    \<and> set (frontier_loop edges frontier queue) = {y. \<exists>x \<in> set frontier \<union> set queue. (dependent edges)\<^sup>*\<^sup>* x y}"
  using assms
proof (induction edges frontier queue rule: frontier_loop.induct)
  case (1 edges frontier)
  have "{y. \<exists>x \<in> set frontier. (dependent edges)\<^sup>*\<^sup>* x y} \<subseteq> set frontier"
    using closed_reach [of "set frontier" "dependent edges"] 1(1) by auto
  with 1 show ?case by auto
next
  case (2 edges frontier q qs)
  let ?node = "last (q # qs)" and ?queue = "butlast (q # qs)"
  have "set (q # qs) = set (?queue @ [?node])" by (simp only: append_butlast_last_id list.simps not_False_eq_True)
  then have split: "set (q # qs) = insert ?node (set ?queue)" by simp
  show ?case
  proof (cases "?node \<in> set frontier")
    case True
    have "y \<in> set frontier \<union> set ?queue" if "x \<in> set frontier" "dependent edges x y" for x y
      using 2(3) [OF that] True unfolding split by auto
    note rec = 2(1) [OF refl refl True this 2(4)]
    have "set frontier \<union> set (q # qs) = set frontier \<union> set ?queue" unfolding split using True by blast
    moreover have "frontier_loop edges frontier (q # qs) = frontier_loop edges frontier ?queue" using True by (simp add: Let_def)
    ultimately show ?thesis using rec by (simp only:)
  next
    case False
    have closed: "y \<in> set (?node # frontier) \<union> set (?queue @ dependents_of edges ?node)"
      if "x \<in> set (?node # frontier)" "dependent edges x y" for x y
      using that 2(3) [of x y] unfolding split by (auto simp: set_dependents)
    have "(\<exists>x \<in> set (?node # frontier) \<union> set (?queue @ dependents_of edges ?node). (dependent edges)\<^sup>*\<^sup>* x y)
        \<longleftrightarrow> (\<exists>x \<in> set frontier \<union> set (q # qs). (dependent edges)\<^sup>*\<^sup>* x y)" for y
      unfolding split set_append set_dependents by (auto intro: converse_rtranclp_into_rtranclp)
    with 2(2) [OF refl refl False closed] 2(4) False show ?thesis by (simp add: Let_def)
  qed
qed

definition declares :: "(string \<times> pyval) list \<Rightarrow> string \<Rightarrow> string \<Rightarrow> bool" where
  "declares verified a i \<longleftrightarrow> (\<exists>item names. map_of verified a = Some item \<and> inputs_of item = Inr names \<and> i \<in> set names)"

definition index_edge :: "pyval \<Rightarrow> string \<Rightarrow> string \<Rightarrow> bool" where
  "index_edge index x y \<longleftrightarrow> (\<exists>es d. py_field index ''edges'' = PList es \<and> PDict d \<in> set es
     \<and> py_get d ''source'' = PStr y \<and> py_get d ''target'' = PStr x \<and> py_get d ''kind'' = PStr ''depends_on'')"

lemma mapE_set: "mapE f xs = Inr ys \<Longrightarrow> set ys = {y. \<exists>x \<in> set xs. f x = Inr y}"
proof (induction xs arbitrary: ys)
  case Nil
  then show ?case by simp
next
  case (Cons x xs)
  then obtain z zs where "f x = Inr z" "mapE f xs = Inr zs" "ys = z # zs" by (auto simp: bindE_eq_Inr)
  with Cons.IH [of zs] show ?case by auto
qed

lemma declared_of_map:
  "declared_of verified = Inr declared \<Longrightarrow>
   map_of declared a = Some names \<longleftrightarrow> (\<exists>item. map_of verified a = Some item \<and> inputs_of item = Inr names)"
proof (induction verified arbitrary: declared)
  case Nil
  then show ?case by (simp add: declared_of_def)
next
  case (Cons v verified)
  obtain b item where v: "v = (b, item)" by (cases v)
  from Cons.prems obtain ns rest where "inputs_of item = Inr ns" "declared_of verified = Inr rest" "declared = (b, ns) # rest"
    by (auto simp: declared_of_def v bindE_eq_Inr)
  with Cons.IH [of rest] show ?case by (auto simp: v)
qed

lemma declared_of_keys: "declared_of verified = Inr declared \<Longrightarrow> map fst declared = map fst verified"
proof (induction verified arbitrary: declared)
  case (Cons v verified)
  then show ?case by (cases v) (auto simp: declared_of_def bindE_eq_Inr)
qed (simp add: declared_of_def)

lemma segment_item_Inr:
  "segment_item declared i v = Inr a \<longleftrightarrow> v = PStr a \<and> (\<exists>names. map_of declared a = Some names \<and> i \<in> set names)"
  by (cases v) (auto simp: segment_item_def split: option.splits)

lemma check_segment_Inr:
  "check_segment declared row = Inr (i, as) \<longleftrightarrow> (\<exists>xs. row = (i, PList xs) \<and> mapE (segment_item declared i) xs = Inr as)"
  by (cases row; cases "snd row") (auto simp: check_segment_def bindE_eq_Inr)

lemma segment_declared:
  assumes "mapE (check_segment declared) ids = Inr segments" and "(i, as) \<in> set segments" and "a \<in> set as"
  shows "\<exists>names. map_of declared a = Some names \<and> i \<in> set names"
proof -
  from assms(2) obtain row where "check_segment declared row = Inr (i, as)" unfolding mapE_set [OF assms(1)] by blast
  then obtain xs where "mapE (segment_item declared i) xs = Inr as" by (auto simp: check_segment_Inr)
  from assms(3) [unfolded mapE_set [OF this]] show ?thesis by (auto simp: segment_item_Inr)
qed

lemma mem_option: "a \<in> set (case m of None \<Rightarrow> [] | Some as \<Rightarrow> as) \<longleftrightarrow> (\<exists>as. m = Some as \<and> a \<in> set as)"
  by (cases m) auto

lemma check_end_Inr: "check_end declared v = Inr s \<longleftrightarrow> v = PStr s \<and> s \<in> set (map fst declared)"
  by (cases v) (auto simp: check_end_def)

lemma check_edge_Inr:
  "check_edge declared edge = Inr (s, t, k) \<longleftrightarrow> (\<exists>d. edge = PDict d \<and> py_get d ''source'' = PStr s \<and> py_get d ''target'' = PStr t
     \<and> py_get d ''kind'' = PStr k \<and> k \<noteq> [] \<and> s \<in> set (map fst declared) \<and> t \<in> set (map fst declared))"
proof (cases edge)
  case (PDict d)
  then show ?thesis by (cases "py_get d ''kind''") (auto simp: check_edge_def bindE_eq_Inr check_end_Inr)
qed (simp_all add: check_edge_def)

text \<open>C23. The invalidated frontier is exact: it is the sorted set of the attestations that declare a
  changed identity and of everything that depends on one of them along \<open>depends_on\<close> edges, and of
  nothing else; an index that disagrees with the attestations never yields a frontier.\<close>

theorem frontier_exact:
  assumes "invalidated_frontier changes verified index = Inr xs" and "distinct (map fst verified)"
  shows "sorted xs \<and> distinct xs
    \<and> set xs = {y. \<exists>x i. i \<in> set changes \<and> declares verified x i \<and> (index_edge index)\<^sup>*\<^sup>* x y}"
proof -
  from assms(1) obtain ids es declared segments edges where index: "py_field index ''edges'' = PList es"
    and declared: "declared_of verified = Inr declared" and segments: "mapE (check_segment declared) ids = Inr segments"
    and complete: "list_all (\<lambda>(a, names). list_all (\<lambda>i. case map_of segments i of None \<Rightarrow> False | Some as \<Rightarrow> a \<in> set as) names) declared"
    and edges: "mapE (check_edge declared) es = Inr edges"
    and xs: "xs = sort (frontier_loop edges [] (concat (map (\<lambda>i. case map_of segments i of None \<Rightarrow> [] | Some as \<Rightarrow> as) (sorted_set changes))))"
    by (auto simp: invalidated_frontier_def bindE_eq_Inr Let_def split: pyval.splits)
  define queue where "queue = concat (map (\<lambda>i. case map_of segments i of None \<Rightarrow> [] | Some as \<Rightarrow> as) (sorted_set changes))"
  have loop: "distinct (frontier_loop edges [] queue)" "set (frontier_loop edges [] queue) = {y. \<exists>x \<in> set queue. (dependent edges)\<^sup>*\<^sup>* x y}"
    using frontier_loop_correct [of "[]" edges queue] by auto
  have queued: "a \<in> set queue \<longleftrightarrow> (\<exists>i \<in> set changes. declares verified a i)" for a
  proof
    assume "a \<in> set queue"
    then have "\<exists>i \<in> set changes. a \<in> set (case map_of segments i of None \<Rightarrow> [] | Some as \<Rightarrow> as)" by (simp add: queue_def)
    then obtain i as where "i \<in> set changes" "map_of segments i = Some as" "a \<in> set as" unfolding mem_option by blast
    with segment_declared [OF segments map_of_SomeD] declared_of_map [OF declared] show "\<exists>i \<in> set changes. declares verified a i"
      unfolding declares_def by meson
  next
    assume "\<exists>i \<in> set changes. declares verified a i"
    then obtain i names where i: "i \<in> set changes" "map_of declared a = Some names" "i \<in> set names"
      using declared_of_map [OF declared] unfolding declares_def by blast
    then have "(a, names) \<in> set declared" by (simp add: map_of_SomeD)
    with complete i(3) obtain as where "map_of segments i = Some as" "a \<in> set as"
      by (force simp: list_all_iff split: option.splits)
    with i(1) have "\<exists>i \<in> set changes. a \<in> set (case map_of segments i of None \<Rightarrow> [] | Some as \<Rightarrow> as)"
      unfolding mem_option by blast
    then show "a \<in> set queue" by (simp add: queue_def)
  qed
  have same: "dependent edges = index_edge index"
  proof (intro ext iffI)
    fix x y
    assume "dependent edges x y"
    then show "index_edge index x y"
      unfolding dependent_def index_edge_def mapE_set [OF edges] using index by (auto simp: check_edge_Inr)
  next
    fix x y
    assume "index_edge index x y"
    then obtain d where d: "PDict d \<in> set es" "py_get d ''source'' = PStr y" "py_get d ''target'' = PStr x" "py_get d ''kind'' = PStr ''depends_on''"
      using index unfolding index_edge_def by auto
    from edges d(1) obtain e where "check_edge declared (PDict d) = Inr e"
      by (induction es arbitrary: edges) (auto simp: bindE_eq_Inr)
    with d have "check_edge declared (PDict d) = Inr (y, x, ''depends_on'')" by (cases e) (auto simp: check_edge_Inr)
    with d(1) show "dependent edges x y" unfolding dependent_def mapE_set [OF edges] by blast
  qed
  then have "set (frontier_loop edges [] queue) = {y. \<exists>x i. i \<in> set changes \<and> declares verified x i \<and> (index_edge index)\<^sup>*\<^sup>* x y}"
    unfolding loop(2) same Bex_def queued by blast
  with loop(1) show ?thesis unfolding xs queue_def [symmetric] by simp
qed

definition w_verified :: "(string \<times> pyval) list" where
  "w_verified = [(''a1'', w_attestation), (''a2'', PDict [(''inputs'', PList [])])]"

definition w_index :: pyval where
  "w_index = PDict [(''version'', PStr ''1.0''), (''complete'', PBool True), (''identities'', PDict [(''tree'', PList [PStr ''a1''])]),
     (''edges'', PList [PDict [(''source'', PStr ''a2''), (''target'', PStr ''a1''), (''kind'', PStr ''depends_on'')]])]"

lemma w_frontier: "invalidated_frontier [''tree''] w_verified w_index = Inr [''a1'', ''a2'']"
  by code_simp

text \<open>The change reaches \<open>a2\<close> through \<open>a1\<close>.\<close>

theorem frontier_exact_witness:
  "invalidated_frontier [''tree''] w_verified w_index = Inr [''a1'', ''a2'']
   \<and> (\<exists>x i. i \<in> {''tree''} \<and> declares w_verified x i \<and> (index_edge w_index)\<^sup>*\<^sup>* x ''a2'')"
proof -
  have keys: "distinct (map fst w_verified)" by (simp add: w_verified_def)
  have "''a2'' \<in> set [''a1'', ''a2'']" by simp
  also have "\<dots> = {y. \<exists>x i. i \<in> set [''tree''] \<and> declares w_verified x i \<and> (index_edge w_index)\<^sup>*\<^sup>* x y}"
    using frontier_exact [OF w_frontier keys] by (elim conjE)
  finally show ?thesis unfolding mem_Collect_eq list.set using w_frontier by (intro conjI)
qed

section \<open>A built index\<close>

lemma mapE_defined: "(\<And>x. x \<in> set xs \<Longrightarrow> \<exists>y. f x = Inr y) \<Longrightarrow> \<exists>ys. mapE f xs = Inr ys"
  by (induction xs) (auto simp: bindE_eq_Inr)

lemma mapE_Inr_mem: "mapE f xs = Inr ys \<Longrightarrow> x \<in> set xs \<Longrightarrow> \<exists>y. f x = Inr y"
  by (induction xs arbitrary: ys) (auto simp: bindE_eq_Inr)

lemma mapE_id: "(\<And>x. x \<in> set xs \<Longrightarrow> f (g x) = Inr (h x)) \<Longrightarrow> mapE f (map g xs) = Inr (map h xs)"
  by (induction xs) (auto simp: bindE_eq_Inr)

text \<open>The rows of a built index: exactly the declared pairs.\<close>

lemma built_rows:
  assumes "build_dependency_index verified edges = Inr x" and "distinct (map fst verified)"
  shows "\<exists>declared. declared_of verified = Inr declared
    \<and> (\<forall>i as. (i, as) \<in> set (ix_identities x) \<longrightarrow> map_of (ix_identities x) i = Some as)
    \<and> (\<forall>i a. (\<exists>as. map_of (ix_identities x) i = Some as \<and> a \<in> set as) \<longleftrightarrow> (\<exists>names. map_of declared a = Some names \<and> i \<in> set names))
    \<and> ix_edges x = sort edges"
proof -
  let ?f = "\<lambda>(a, item). bindE (inputs_of item) (\<lambda>names. Inr (map (\<lambda>i. (i, a)) names))"
  from assms(1) obtain rows where rows: "mapE ?f (sort_key fst verified) = Inr rows"
    and x: "ix_identities x = map (\<lambda>i. (i, sort (map snd (filter (\<lambda>(j, _). j = i) (concat rows))))) (sorted_set (map fst (concat rows)))"
      "ix_edges x = sort edges"
    by (auto simp: build_dependency_index_def bindE_eq_Inr Let_def)
  have f: "?f v = Inr r \<longleftrightarrow> (\<exists>names. inputs_of (snd v) = Inr names \<and> r = map (\<lambda>i. (i, fst v)) names)" for v r
    by (cases v) (auto simp: bindE_eq_Inr)
  have "\<exists>y. inputs_of (snd v) = Inr y" if "v \<in> set verified" for v
    using mapE_Inr_mem [OF rows, of v] that unfolding f by auto
  then have "\<exists>y. (\<lambda>(a, item). bindE (inputs_of item) (\<lambda>names. Inr (a, names))) v = Inr y" if "v \<in> set verified" for v
    using that by (cases v) (fastforce simp: bindE_eq_Inr)
  then obtain declared where declared: "declared_of verified = Inr declared"
    unfolding declared_of_def using mapE_defined by blast
  have pairs: "(i, a) \<in> set (concat rows) \<longleftrightarrow> (\<exists>names. map_of declared a = Some names \<and> i \<in> set names)" for i a
  proof -
    have "(i, a) \<in> set (concat rows) \<longleftrightarrow> (\<exists>r \<in> set rows. (i, a) \<in> set r)" by simp
    also have "\<dots> \<longleftrightarrow> (\<exists>v \<in> set verified. \<exists>names. inputs_of (snd v) = Inr names \<and> a = fst v \<and> i \<in> set names)"
      (is "?l \<longleftrightarrow> ?r")
    proof -
      have "?l \<longleftrightarrow> (\<exists>v \<in> set verified. \<exists>names. inputs_of (snd v) = Inr names \<and> (i, a) \<in> set (map (\<lambda>i. (i, fst v)) names))"
        unfolding mapE_set [OF rows] f set_sort by blast
      moreover have "(i, a) \<in> set (map (\<lambda>i. (i, b)) names) \<longleftrightarrow> a = b \<and> i \<in> set names" for b and names :: "string list" by auto
      ultimately show ?thesis by simp
    qed
    also have "\<dots> \<longleftrightarrow> (\<exists>item names. map_of verified a = Some item \<and> inputs_of item = Inr names \<and> i \<in> set names)"
      using assms(2) by (force dest: map_of_SomeD)
    finally show ?thesis using declared_of_map [OF declared, of a] by blast
  qed
  have lookup: "map_of (ix_identities x) i = (if i \<in> set (map fst (concat rows))
      then Some (sort (map snd (filter (\<lambda>(j, _). j = i) (concat rows)))) else None)" for i
    unfolding x(1) map_of_map_restrict by (simp add: restrict_map_def)
  have "a \<in> set (map snd (filter (\<lambda>(j, _). j = i) (concat rows))) \<longleftrightarrow> (i, a) \<in> set (concat rows)" for i a
    by force
  then have "(\<exists>as. map_of (ix_identities x) i = Some as \<and> a \<in> set as) \<longleftrightarrow> (i, a) \<in> set (concat rows)" for i a
    unfolding lookup by (auto simp del: set_concat) (force simp del: set_concat)+
  moreover have "distinct (map fst (ix_identities x))" by (simp add: x(1) comp_def)
  then have "\<forall>i as. (i, as) \<in> set (ix_identities x) \<longrightarrow> map_of (ix_identities x) i = Some as" by simp
  ultimately show ?thesis using declared x(2) pairs by blast
qed

text \<open>C24. An index the builder makes over distinct attestations, with edges between known ones, is never
  refused: the walk over it returns a frontier, so a change can always be propagated.\<close>

theorem built_index_accepted:
  assumes "build_dependency_index verified edges = Inr x" and "distinct (map fst verified)"
    and "\<And>s t k. (s, t, k) \<in> set edges \<Longrightarrow> s \<in> set (map fst verified) \<and> t \<in> set (map fst verified) \<and> k \<noteq> []"
  shows "\<exists>xs. invalidated_frontier changes verified (index_dict x) = Inr xs"
proof -
  from built_rows [OF assms(1,2)] obtain declared where declared: "declared_of verified = Inr declared"
    and keys: "\<And>i as. (i, as) \<in> set (ix_identities x) \<Longrightarrow> map_of (ix_identities x) i = Some as"
    and pairs: "\<And>i a. (\<exists>as. map_of (ix_identities x) i = Some as \<and> a \<in> set as) \<longleftrightarrow> (\<exists>names. map_of declared a = Some names \<and> i \<in> set names)"
    and edges: "ix_edges x = sort edges" by blast
  let ?ids = "map (\<lambda>(i, as). (i, PList (map PStr as))) (ix_identities x)"
  let ?es = "map (\<lambda>(s, t, k). PDict [(''source'', PStr s), (''target'', PStr t), (''kind'', PStr k)]) (ix_edges x)"
  have segment: "check_segment declared (i, PList (map PStr as)) = Inr (i, as)" if "(i, as) \<in> set (ix_identities x)" for i as
  proof -
    have "segment_item declared i (PStr a) = Inr a" if "a \<in> set as" for a
      using pairs [of i a] keys [OF \<open>(i, as) \<in> set (ix_identities x)\<close>] that by (simp add: segment_item_Inr)
    then have "mapE (segment_item declared i) (map PStr as) = Inr (map (\<lambda>a. a) as)" by (rule mapE_id)
    then show ?thesis by (simp add: check_segment_def)
  qed
  have segments: "mapE (check_segment declared) ?ids = Inr (map (\<lambda>v. v) (ix_identities x))"
    by (rule mapE_id) (auto simp: segment)
  have edge: "check_edge declared (PDict [(''source'', PStr s), (''target'', PStr t), (''kind'', PStr k)]) = Inr (s, t, k)"
    if "(s, t, k) \<in> set (ix_edges x)" for s t k
    using assms(3) [of s t k] that by (simp add: check_edge_Inr edges declared_of_keys [OF declared] py_get_def)
  have checked: "mapE (check_edge declared) ?es = Inr (map (\<lambda>v. v) (ix_edges x))"
    by (rule mapE_id) (auto simp: edge)
  have "distinct (map fst declared)" using assms(2) by (simp add: declared_of_keys [OF declared])
  then have complete: "list_all (\<lambda>(a, names). list_all (\<lambda>i. case map_of (ix_identities x) i of None \<Rightarrow> False | Some as \<Rightarrow> a \<in> set as) names) declared"
    using pairs by (force simp: list_all_iff split: option.splits)
  show ?thesis
    by (simp add: invalidated_frontier_def index_dict_def py_field_def py_get_def declared segments [simplified] checked [simplified] complete ensure_def)
qed

lemma w_built: "build_dependency_index w_verified [(''a2'', ''a1'', ''depends_on'')]
    = Inr \<lparr>ix_identities = [(''tree'', [''a1''])], ix_edges = [(''a2'', ''a1'', ''depends_on'')]\<rparr>"
  by code_simp

theorem built_index_accepted_witness:
  "\<exists>xs. invalidated_frontier [''tree'', ''lock''] w_verified
     (index_dict \<lparr>ix_identities = [(''tree'', [''a1''])], ix_edges = [(''a2'', ''a1'', ''depends_on'')]\<rparr>) = Inr xs"
  by (rule built_index_accepted [OF w_built]) (auto simp: w_verified_def)

end
