(* ===== verification/Attestation_Properties.thy ===== *)
theory Attestation_Properties
  imports Attestations
begin

text \<open>
  The attestation body is a normal form: what the field checks return, written out as the JSON of a
  record, parses back to itself. \<open>row_parser\<close> is the contract of a checked list of rows (inputs,
  evidence, live observations), interpreted on the three row checks. Verification accepts exactly
  the records that re-derive.
\<close>

section \<open>Field checks\<close>

lemma a_such_eq: "a_such P name v = Inr s \<longleftrightarrow> v = PStr s \<and> P s"
  by (cases v) (auto simp: a_such_def)

lemma a_text_eq: "a_text name n v = Inr s \<longleftrightarrow> v = PStr s \<and> \<not> blank s \<and> length s \<le> n"
  by (cases v) (auto simp: a_text_def)

lemma a_count_eq: "a_count name v = Inr n \<longleftrightarrow> v = PInt n \<and> 0 \<le> n"
  by (cases v) (auto simp: a_count_def)

lemma a_object_eq: "a_object name names v = Inr d \<longleftrightarrow> v = PDict d \<and> set (map fst d) = set names"
  by (cases v) (auto simp: a_object_def)

lemma a_object_exact: "map fst d = names \<Longrightarrow> a_object name names (PDict d) = Inr d"
  by (simp add: a_object_eq)

lemma a_sequence_eq: "a_sequence name v = Inr xs \<longleftrightarrow> v = PList xs \<and> length xs \<le> A_MAX_ITEMS"
  by (cases v) (auto simp: a_sequence_def)

lemmas fields_eq = a_such_eq a_text_eq a_count_eq a_sequence_eq a_sha256_def a_digest_def a_member_def

lemma positive_eq: "(case v of PInt n \<Rightarrow> if n \<le> 0 then Inl e else Inr n | _ \<Rightarrow> Inl e) = Inr n \<longleftrightarrow> v = PInt n \<and> 0 < n"
  by (cases v) auto

lemma optional_eq: "(if v = PNone then Inr None else bindE (a_sha256 name v) (\<lambda>s. Inr (Some s))) = Inr p
    \<longleftrightarrow> (case p of None \<Rightarrow> v = PNone | Some s \<Rightarrow> v = PStr s \<and> hex_text 64 s)"
  by (auto simp: fields_eq bindE_eq_Inr split: option.split)

section \<open>Parts\<close>

definition att_subject_ok :: "att_subject \<Rightarrow> bool" where
  "att_subject_ok s \<longleftrightarrow> 0 < as_repository s \<and> git_digest (as_base s) \<and> git_digest (as_candidate s) \<and> git_digest (as_tree s)
     \<and> (\<forall>p. as_programme s = Some p \<longrightarrow> hex_text 64 p)"

lemma subject_checked:
  assumes "parse_subject raw = Inr s"
  shows "att_subject_ok s"
proof -
  from assms obtain d repository base candidate tree programme where "0 < repository" "git_digest base" "git_digest candidate"
    "git_digest tree" "case programme of None \<Rightarrow> py_get d ''programme_sha256'' = PNone
       | Some p \<Rightarrow> py_get d ''programme_sha256'' = PStr p \<and> hex_text 64 p"
    "s = \<lparr>as_repository = repository, as_base = base, as_candidate = candidate, as_tree = tree, as_programme = programme\<rparr>"
    unfolding parse_subject_def bindE_eq_Inr positive_eq optional_eq unfolding fields_eq by auto
  then show ?thesis by (cases programme) (simp_all add: att_subject_ok_def)
qed

lemma subject_again: "att_subject_ok s \<Longrightarrow> parse_subject (att_subject_dict s) = Inr s"
  by (cases "as_programme s")
     (simp_all add: parse_subject_def att_subject_ok_def att_subject_dict_def a_object_exact A_SUBJECT_FIELDS_def py_get_def
        bindE_eq_Inr fields_eq)

lemma authority_again: "parse_authority raw = Inr s \<Longrightarrow> parse_authority (authority_dict s) = Inr s"
  unfolding parse_authority_def bindE_eq_Inr fields_eq
  by (elim exE conjE) (auto simp: authority_dict_def a_object_exact AUTHORITY_FIELDS_def py_get_def)

lemma issuer_again: "parse_issuer raw = Inr s \<Longrightarrow> parse_issuer (issuer_dict s) = Inr s"
  unfolding parse_issuer_def bindE_eq_Inr fields_eq
  by (elim exE conjE) (auto simp: issuer_dict_def a_object_exact ISSUER_FIELDS_def py_get_def)

lemma mapE_text: "mapE (a_text name n) vs = Inr ss \<longleftrightarrow> vs = map PStr ss \<and> list_all (\<lambda>s. \<not> blank s \<and> length s \<le> n) ss"
proof (induction vs arbitrary: ss)
  case Nil
  then show ?case by auto
next
  case (Cons v vs)
  then show ?case by (cases ss) (auto simp: bindE_eq_Inr fields_eq)
qed

lemma sort_key_sorted:
  fixes s :: "'r \<Rightarrow> 'b::linorder"
  shows "sorted (map s rs) \<Longrightarrow> sort_key s rs = rs"
proof (induction rs)
  case (Cons r rs)
  then show ?case by (cases rs) auto
qed simp

lemma sort_key_again:
  fixes s :: "'r \<Rightarrow> 'b::linorder"
  shows "sort_key s (sort_key s rs) = sort_key s rs"
  by (rule sort_key_sorted) simp

lemma sorted_set_again: "sorted_set (sorted_set xs) = sorted_set xs"
  by (simp add: sorted_set_def distinct_remdups_id sort_key_again)

lemma outcome_again:
  assumes "parse_outcome raw = Inr r"
  shows "parse_outcome (outcome_dict r) = Inr r"
proof -
  from assms obtain verdict codes where len: "length codes \<le> A_MAX_ITEMS" and ok: "list_all (\<lambda>s. \<not> blank s \<and> length s \<le> 120) codes"
    and verdict: "verdict \<in> set VERDICTS" and r: "r = \<lparr>ao_verdict = verdict, ao_reasons = sorted_set codes\<rparr>"
    unfolding parse_outcome_def bindE_eq_Inr fields_eq mapE_text by auto
  have "length (sorted_set codes) \<le> length codes" by (simp add: sorted_set_def length_remdups_leq)
  with len have "length (sorted_set codes) \<le> A_MAX_ITEMS" by simp
  moreover from ok have "mapE (a_text ''reason code'' 120) (map PStr (sorted_set codes)) = Inr (sorted_set codes)"
    by (simp add: mapE_text list_all_iff)
  ultimately show ?thesis using verdict
    by (simp add: r parse_outcome_def outcome_dict_def a_object_exact py_get_def bindE_eq_Inr fields_eq sorted_set_again)
qed

section \<open>Checked rows\<close>

locale row_parser =
  fixes f :: "string list \<Rightarrow> pyval \<Rightarrow> att_error + 'r" and key :: "'r \<Rightarrow> string" and dict :: "'r \<Rightarrow> pyval"
    and ok :: "'r \<Rightarrow> bool" and fresh :: "string list \<Rightarrow> string \<Rightarrow> bool"
  assumes sound: "f seen v = Inr r \<Longrightarrow> ok r \<and> fresh seen (key r)"
    and complete: "ok r \<Longrightarrow> fresh seen (key r) \<Longrightarrow> f seen (dict r) = Inr r"
    and fresh_iff: "(\<forall>seen k. fresh seen k \<longleftrightarrow> k \<notin> set seen) \<or> (\<forall>seen k. fresh seen k)"
begin

definition apart :: "string list \<Rightarrow> 'r list \<Rightarrow> bool" where
  "apart seen rs \<longleftrightarrow> (\<forall>seen k. fresh seen k) \<or> (distinct (map key rs) \<and> set (map key rs) \<inter> set seen = {})"

lemma rows_sound: "parse_rows f key seen vs = Inr rs \<Longrightarrow> list_all ok rs \<and> apart seen rs \<and> length rs = length vs"
proof (induction vs arbitrary: seen rs)
  case Nil
  then show ?case by (simp add: apart_def)
next
  case (Cons v vs)
  then obtain r qs where r: "f seen v = Inr r" and qs: "parse_rows f key (key r # seen) vs = Inr qs" and rs: "rs = r # qs"
    by (auto simp: bindE_eq_Inr)
  from sound [OF r] Cons.IH [OF qs] fresh_iff show ?case by (auto simp: rs apart_def)
qed

lemma rows_complete: "list_all ok rs \<Longrightarrow> apart seen rs \<Longrightarrow> parse_rows f key seen (map dict rs) = Inr rs"
proof (induction rs arbitrary: seen)
  case Nil
  then show ?case by simp
next
  case (Cons r rs)
  have "fresh seen (key r)" using Cons.prems(2) fresh_iff by (auto simp: apart_def)
  with Cons.prems(1) have "f seen (dict r) = Inr r" by (simp add: complete)
  moreover have "apart (key r # seen) rs" using Cons.prems(2) by (auto simp: apart_def)
  ultimately show ?case using Cons by (simp add: bindE_eq_Inr)
qed

lemma sorted_again:
  fixes s :: "'r \<Rightarrow> 'b::linorder"
  assumes "parse_rows f key [] vs = Inr rs"
  shows "parse_rows f key [] (map dict (sort_key s rs)) = Inr (sort_key s rs)"
proof -
  from rows_sound [OF assms] have "list_all ok (sort_key s rs)" "apart [] rs" by (auto simp: list_all_iff)
  moreover have "distinct (map key rs) \<Longrightarrow> distinct (map key (sort_key s rs))" by (simp add: distinct_map)
  then have "apart [] (sort_key s rs)" using \<open>apart [] rs\<close> by (auto simp: apart_def)
  ultimately show ?thesis by (simp add: rows_complete)
qed

end

section \<open>The rows of a body\<close>

definition input_ok :: "att_input \<Rightarrow> bool" where
  "input_ok r \<longleftrightarrow> ai_kind r \<in> set INPUT_KINDS \<and> ai_coverage r \<in> set COVERAGES \<and> identity_text (ai_identity r)
     \<and> git_digest (ai_digest r)"

definition evidence_ok :: "att_evidence \<Rightarrow> bool" where
  "evidence_ok r \<longleftrightarrow> object_id_text (ae_object r) \<and> hex_text 64 (ae_sha256 r) \<and> \<not> blank (ae_media r) \<and> length (ae_media r) \<le> 120"

definition live_ok :: "att_live \<Rightarrow> bool" where
  "live_ok r \<longleftrightarrow> \<not> blank (al_observer r) \<and> length (al_observer r) \<le> 120 \<and> \<not> blank (al_subject r) \<and> length (al_subject r) \<le> 400
     \<and> hex_text 64 (al_value r) \<and> \<not> blank (al_observed r) \<and> length (al_observed r) \<le> 64
     \<and> \<not> blank (al_policy r) \<and> length (al_policy r) \<le> 120"

lemma input_sound: "parse_input seen v = Inr r \<Longrightarrow> input_ok r \<and> ai_identity r \<notin> set seen"
  unfolding parse_input_def bindE_eq_Inr fields_eq by (elim exE conjE) (simp add: input_ok_def, metis att_input.select_convs)

lemma input_complete: "input_ok r \<Longrightarrow> ai_identity r \<notin> set seen \<Longrightarrow> parse_input seen (input_dict r) = Inr r"
  by (simp add: parse_input_def input_dict_def input_ok_def a_object_exact py_get_def fields_eq bindE_eq_Inr)

lemma evidence_sound: "parse_evidence_row seen v = Inr r \<Longrightarrow> evidence_ok r \<and> ae_object r \<notin> set seen"
  unfolding parse_evidence_row_def bindE_eq_Inr fields_eq by (elim exE conjE) (simp add: evidence_ok_def, metis att_evidence.select_convs)

lemma evidence_complete: "evidence_ok r \<Longrightarrow> ae_object r \<notin> set seen \<Longrightarrow> parse_evidence_row seen (evidence_dict r) = Inr r"
  by (simp add: parse_evidence_row_def evidence_dict_def evidence_ok_def a_object_exact py_get_def fields_eq bindE_eq_Inr)

lemma live_sound: "parse_live_row seen v = Inr r \<Longrightarrow> live_ok r"
  unfolding parse_live_row_def bindE_eq_Inr fields_eq by (elim exE conjE) (simp add: live_ok_def, metis att_live.select_convs)

lemma live_complete: "live_ok r \<Longrightarrow> parse_live_row seen (live_dict r) = Inr r"
  by (simp add: parse_live_row_def live_dict_def live_ok_def LIVE_FIELDS_def a_object_exact py_get_def fields_eq bindE_eq_Inr)

interpretation input_rows: row_parser parse_input ai_identity input_dict input_ok "\<lambda>seen k. k \<notin> set seen"
  by unfold_locales (simp_all add: input_sound input_complete)

interpretation evidence_rows: row_parser parse_evidence_row ae_object evidence_dict evidence_ok "\<lambda>seen k. k \<notin> set seen"
  by unfold_locales (simp_all add: evidence_sound evidence_complete)

interpretation live_rows: row_parser parse_live_row al_observer live_dict live_ok "\<lambda>_ _. True"
  by unfold_locales (simp_all add: live_sound live_complete)

lemma parse_rows_length: "parse_rows f key seen vs = Inr rs \<Longrightarrow> length rs = length vs"
  by (induction vs arbitrary: seen rs) (auto simp: bindE_eq_Inr)

lemma inputs_again: "parse_inputs raw = Inr rows \<Longrightarrow> parse_inputs (PList (map input_dict rows)) = Inr rows"
  by (auto simp: parse_inputs_def bindE_eq_Inr fields_eq input_rows.sorted_again sort_key_again dest: parse_rows_length)

lemma evidence_again: "parse_evidence raw = Inr rows \<Longrightarrow> parse_evidence (PList (map evidence_dict rows)) = Inr rows"
  by (auto simp: parse_evidence_def bindE_eq_Inr fields_eq evidence_rows.sorted_again sort_key_again dest: parse_rows_length)

lemma live_again: "parse_live raw = Inr rows \<Longrightarrow> parse_live (PList (map live_dict rows)) = Inr rows"
  by (auto simp: parse_live_def bindE_eq_Inr fields_eq live_rows.sorted_again sort_key_again dest: parse_rows_length)

lemma inputs_rows: "parse_inputs raw = Inr rows \<Longrightarrow> list_all input_ok rows \<and> distinct (map ai_identity rows)"
  by (auto simp: parse_inputs_def bindE_eq_Inr dest!: input_rows.rows_sound simp: input_rows.apart_def list_all_iff distinct_map)

lemma evidence_rows: "parse_evidence raw = Inr rows \<Longrightarrow> list_all evidence_ok rows \<and> distinct (map ae_object rows)"
  by (auto simp: parse_evidence_def bindE_eq_Inr dest!: evidence_rows.rows_sound simp: evidence_rows.apart_def list_all_iff distinct_map)

definition lock_ok :: "string \<times> string \<Rightarrow> bool" where
  "lock_ok kv \<longleftrightarrow> \<not> blank (fst kv) \<and> length (fst kv) \<le> 200 \<and> hex_text 64 (snd kv)"

lemma locks_sound: "mapE parse_lock ls = Inr qs \<Longrightarrow> list_all lock_ok qs \<and> map fst qs = map fst ls"
proof (induction ls arbitrary: qs)
  case (Cons l ls)
  then show ?case by (cases qs) (auto simp: bindE_eq_Inr parse_lock_def fields_eq lock_ok_def)
qed simp

lemma locks_complete: "list_all lock_ok qs \<Longrightarrow> mapE parse_lock (map (\<lambda>(k, v). (k, PStr v)) qs) = Inr qs"
  by (induction qs) (auto simp: parse_lock_def bindE_eq_Inr fields_eq lock_ok_def)

lemma bounded_eq: "(case v of PDict ls \<Rightarrow> if A_MAX_ITEMS < length ls then Inl e else Inr ls | _ \<Rightarrow> Inl e) = Inr ls
    \<longleftrightarrow> v = PDict ls \<and> length ls \<le> A_MAX_ITEMS"
  by (cases v) auto

lemma environment_again:
  assumes "parse_environment raw = Inr e"
  shows "parse_environment (environment_dict e) = Inr e"
proof -
  from assms obtain ls toolchain parsed image configuration where len: "length ls \<le> A_MAX_ITEMS"
    and parsed: "mapE parse_lock (sort_key fst ls) = Inr parsed" and ok: "hex_text 64 toolchain" "hex_text 64 image" "hex_text 64 configuration"
    and e: "e = \<lparr>av_toolchain = toolchain, av_locks = parsed, av_image = image, av_configuration = configuration\<rparr>"
    unfolding parse_environment_def bindE_eq_Inr bounded_eq fields_eq by auto
  from locks_sound [OF parsed] have locks: "list_all lock_ok parsed" and keys: "map fst parsed = map fst (sort_key fst ls)" by auto
  let ?qs = "map (\<lambda>(k, v). (k, PStr v)) parsed"
  have "map fst ?qs = map fst parsed" by (simp add: case_prod_beta')
  then have "sorted (map fst ?qs)" by (simp add: keys)
  then have "mapE parse_lock (sort_key fst ?qs) = Inr parsed" using locks_complete [OF locks] by (simp add: sort_key_sorted)
  moreover have "length ?qs \<le> A_MAX_ITEMS" using len arg_cong [OF keys, of length] by simp
  ultimately show ?thesis using ok
    by (simp add: e parse_environment_def environment_dict_def a_object_exact ENVIRONMENT_FIELDS_def py_get_def bindE_eq_Inr fields_eq)
qed

section \<open>Bodies\<close>

lemma record_fields: "map fst (body_dict b @ [(''attestation_id'', v)]) = RECORD_FIELDS"
  by (simp add: body_dict_def RECORD_FIELDS_def)

lemma execution_of_record:
  "execution_from_record (record_dict b i) = Inr
     \<lparr>te_claim = PStr (ab_claim b), te_profile = PStr (ab_profile b), te_subject = att_subject_dict (ab_subject b),
      te_authority = authority_dict (ab_authority b), te_environment = environment_dict (ab_environment b),
      te_inputs = PList (map input_dict (ab_inputs b)), te_evidence = PList (map evidence_dict (ab_evidence b)),
      te_outcome = outcome_dict (ab_outcome b), te_issuer = issuer_dict (ab_issuer b), te_created = PStr (ab_created b),
      te_live = PList (map live_dict (ab_live b))\<rparr>"
  unfolding execution_from_record_def record_dict_def a_object_exact [OF record_fields] bindE_Inr
  by (simp add: body_dict_def py_get_def)

lemma body_again:
  assumes "attestation_body e = Inr b"
  shows "bindE (execution_from_record (record_dict b i)) attestation_body = Inr b"
proof -
  from assms have parts: "\<not> blank (ab_claim b)" "length (ab_claim b) \<le> 200" "\<not> blank (ab_profile b)" "length (ab_profile b) \<le> 120"
    "parse_subject (te_subject e) = Inr (ab_subject b)" "parse_authority (te_authority e) = Inr (ab_authority b)"
    "parse_environment (te_environment e) = Inr (ab_environment b)" "parse_inputs (te_inputs e) = Inr (ab_inputs b)"
    "parse_evidence (te_evidence e) = Inr (ab_evidence b)" "parse_outcome (te_outcome e) = Inr (ab_outcome b)"
    "parse_issuer (te_issuer e) = Inr (ab_issuer b)" "parse_live (te_live e) = Inr (ab_live b)"
    "\<not> blank (ab_created b)" "length (ab_created b) \<le> 64"
    unfolding attestation_body_def bindE_eq_Inr a_text_eq by (elim exE conjE; metis (no_types) Inr_inject att_body.select_convs)+
  note again = subject_again [OF subject_checked, OF parts(5)] authority_again [OF parts(6)] environment_again [OF parts(7)]
    inputs_again [OF parts(8)] evidence_again [OF parts(9)] outcome_again [OF parts(10)] issuer_again [OF parts(11)] live_again [OF parts(12)]
  show ?thesis
    using parts(1-4,13,14) by (simp add: execution_of_record attestation_body_def again bindE_eq_Inr a_text_eq)
qed

lemma body_fields:
  "py_field (record_dict b i) ''attestation_id'' = PStr i"
  by (simp add: record_dict_def body_dict_def py_field_dict)

section \<open>Verification\<close>

lemma parsed_or_Inr: "parsed_or code m = Inr x \<longleftrightarrow> m = Inr x"
  by (auto simp: parsed_or_def refuse_att_def split: sum.split att_error.split)

lemma require_att_Inr: "require_att c st code names = Inr u \<longleftrightarrow> c"
  by (simp add: require_att_def refuse_att_def)

text \<open>What a verified record has to satisfy.\<close>

definition verifies ::
  "(string \<Rightarrow> string) \<Rightarrow> att_body \<Rightarrow> pyval \<Rightarrow> (string \<Rightarrow> string option) \<Rightarrow> pyval \<Rightarrow> bool" where
  "verifies sha b observed_issuer object_reader registry \<longleftrightarrow>
     parse_issuer observed_issuer = Inr (ab_issuer b) \<and> ar_platform (ab_issuer b) = ''github-actions''
     \<and> (\<exists>r. py_field registry (aa_id (ab_authority b)) = PDict r \<and> py_get r ''program_closure_sha256'' = PStr (aa_closure (ab_authority b))
          \<and> py_get r ''policy_sha256'' = PStr (aa_policy (ab_authority b))
          \<and> py_get r ''independence_profile_sha256'' = PStr (aa_independence (ab_authority b)))
     \<and> (\<forall>r \<in> set (ab_evidence b). \<exists>data. object_reader (ae_object r) = Some data \<and> sha data = ae_sha256 r)
     \<and> set REQUIRED_INPUT_KINDS \<subseteq> ai_kind ` set (ab_inputs b) \<and> (\<forall>r \<in> set (ab_inputs b). ai_coverage r = ''complete'')"

lemma differing_Nil: "differing a b names = [] \<longleftrightarrow> (\<forall>k \<in> set names. py_field a k = py_field b k)"
proof -
  have "differing a b names = [] \<longleftrightarrow> set (differing a b names) = {}" by simp
  then show ?thesis by (auto simp: differing_def)
qed

lemma drifted_Nil: "differing (PDict r) (authority_dict a) (tl AUTHORITY_FIELDS) = []
    \<longleftrightarrow> py_get r ''program_closure_sha256'' = PStr (aa_closure a) \<and> py_get r ''policy_sha256'' = PStr (aa_policy a)
      \<and> py_get r ''independence_profile_sha256'' = PStr (aa_independence a)"
  by (simp add: differing_Nil AUTHORITY_FIELDS_def authority_dict_def py_field_def) (simp add: py_get_def)

lemma objects_Nil:
  "tampered_objects sha object_reader rows = [] \<and> missing_objects object_reader rows = []
   \<longleftrightarrow> (\<forall>r \<in> set rows. \<exists>data. object_reader (ae_object r) = Some data \<and> sha data = ae_sha256 r)"
proof
  assume h: "tampered_objects sha object_reader rows = [] \<and> missing_objects object_reader rows = []"
  show "\<forall>r \<in> set rows. \<exists>data. object_reader (ae_object r) = Some data \<and> sha data = ae_sha256 r"
  proof
    fix r
    assume "r \<in> set rows"
    with h show "\<exists>data. object_reader (ae_object r) = Some data \<and> sha data = ae_sha256 r"
      by (cases "object_reader (ae_object r)") (auto simp: tampered_objects_def missing_objects_def filter_empty_conv)
  qed
qed (auto simp: tampered_objects_def missing_objects_def filter_empty_conv)

lemma registered_Inr: "(case registered_entry registry i of None \<Rightarrow> refuse_att st code names | Some r \<Rightarrow> Inr (PDict r)) = Inr v
    \<longleftrightarrow> py_field registry i = v \<and> (\<exists>r. v = PDict r)"
  by (auto simp: registered_entry_def refuse_att_def split: option.split)

lemma verify_Inr:
  assumes "bindE (execution_from_record rec) attestation_body = Inr b"
  shows "(\<exists>v. verify_attestation sha rec observed_issuer object_reader registry = Inr v)
    \<longleftrightarrow> py_field rec ''attestation_id'' = PStr (body_id sha b) \<and> verifies sha b observed_issuer object_reader registry"
proof -
  have kinds: "filter (\<lambda>k. k \<notin> set (map ai_kind (ab_inputs b))) REQUIRED_INPUT_KINDS = [] \<longleftrightarrow> set REQUIRED_INPUT_KINDS \<subseteq> ai_kind ` set (ab_inputs b)"
    by (auto simp: filter_empty_conv)
  have covered: "map ai_identity (filter (\<lambda>r. ai_coverage r \<noteq> ''complete'') (ab_inputs b)) = [] \<longleftrightarrow> (\<forall>r \<in> set (ab_inputs b). ai_coverage r = ''complete'')"
    by (auto simp: filter_empty_conv)
  have platform: "ar_platform i \<in> set AUTHENTICATED_PLATFORMS \<longleftrightarrow> ar_platform i = ''github-actions''" for i
    by (simp add: AUTHENTICATED_PLATFORMS_def)
  show ?thesis
    unfolding verify_attestation_def Let_def bindE_eq_Inr parsed_or_Inr require_att_Inr registered_Inr assms kinds covered platform verifies_def
      objects_Nil [symmetric]
    by (auto simp: drifted_Nil filter_empty_conv)
qed

section \<open>Guarantees\<close>

text \<open>C20. A built attestation is a normal form that re-derives: the record parses, and building from
  what was parsed gives the identical record, digest included; so its identity is a function of
  its content alone.\<close>

theorem attestation_roundtrip:
  assumes "build_attestation sha e = Inr rec"
  shows "\<exists>e'. execution_from_record rec = Inr e' \<and> build_attestation sha e' = Inr rec"
proof -
  from assms obtain b where b: "attestation_body e = Inr b" and rec: "rec = record_dict b (body_id sha b)"
    by (auto simp: build_attestation_def bindE_eq_Inr)
  from body_again [OF b] obtain e' where "execution_from_record rec = Inr e'" "attestation_body e' = Inr b"
    by (auto simp: bindE_eq_Inr rec)
  then show ?thesis by (auto simp: build_attestation_def rec)
qed

definition demo_hex :: string where
  "demo_hex = replicate 64 CHR ''0''"

definition demo_execution :: trusted_execution where
  "demo_execution = \<lparr>te_claim = PStr ''c'', te_profile = PStr ''p'',
     te_subject = PDict [(''repository_id'', PInt 1), (''base_commit'', PStr demo_hex), (''candidate_commit'', PStr demo_hex),
       (''candidate_tree'', PStr demo_hex), (''programme_sha256'', PNone)],
     te_authority = PDict [(''id'', PStr ''a''), (''program_closure_sha256'', PStr demo_hex), (''policy_sha256'', PStr demo_hex),
       (''independence_profile_sha256'', PStr demo_hex)],
     te_environment = PDict [(''toolchain_digest'', PStr demo_hex), (''dependency_lock_digests'', PDict [(''l'', PStr demo_hex)]),
       (''runtime_image_digest'', PStr demo_hex), (''configuration_digest'', PStr demo_hex)],
     te_inputs = PList [PDict [(''kind'', PStr ''exact-tree''), (''identity'', PStr ''t''), (''digest'', PStr demo_hex), (''coverage'', PStr ''complete'')]],
     te_evidence = PList [], te_outcome = PDict [(''verdict'', PStr ''pass''), (''reason_codes'', PList [])],
     te_issuer = PDict [(''platform'', PStr ''github-actions''), (''workflow_id'', PStr ''w''), (''run_id'', PInt 1), (''attempt'', PInt 1),
       (''job_id'', PStr ''j''), (''source_revision'', PStr demo_hex)],
     te_created = PStr ''now'', te_live = PList []\<rparr>"

lemma demo_hex_ok: "hex_text 64 demo_hex" "git_digest demo_hex"
  by (simp_all add: git_digest_def demo_hex_def hex_text_replicate is_hex_char_def is_digit_char_def code_of_def)

lemma demo_words: "\<not> blank ''c''" "\<not> blank ''p''" "\<not> blank ''a''" "\<not> blank ''l''" "\<not> blank ''w''" "\<not> blank ''j''" "\<not> blank ''now''"
  "identity_text ''t''"
  by (simp_all add: blank_def is_space_char_def code_of_def identity_text_def ident_text_def is_alnum_def is_letter_char_def is_digit_char_def)

lemma demo_body: "\<exists>b. attestation_body demo_execution = Inr b"
  by (simp add: attestation_body_def demo_execution_def bindE_eq_Inr a_text_def demo_words parse_subject_def parse_authority_def
      parse_environment_def parse_inputs_def parse_evidence_def parse_outcome_def parse_issuer_def parse_live_def a_object_exact
      A_SUBJECT_FIELDS_def AUTHORITY_FIELDS_def ENVIRONMENT_FIELDS_def ISSUER_FIELDS_def py_get_def a_digest_def a_sha256_def a_such_def
      a_member_def a_count_def a_sequence_def A_MAX_ITEMS_def demo_hex_ok parse_lock_def parse_input_def INPUT_KINDS_def COVERAGES_def
      VERDICTS_def PLATFORMS_def)

lemma attestation_roundtrip_witness:
  "\<exists>rec e'. build_attestation id demo_execution = Inr rec \<and> execution_from_record rec = Inr e' \<and> build_attestation id e' = Inr rec"
proof -
  obtain b where "attestation_body demo_execution = Inr b" using demo_body by blast
  then have "build_attestation id demo_execution = Inr (record_dict b (body_id id b))" by (simp add: build_attestation_def)
  with attestation_roundtrip [OF this] show ?thesis by blast
qed

text \<open>C21. Verification accepts exactly what re-derives: a record is verified if and only if its body is
  well formed, its id is the digest of that body, the issuer equals the independent observation
  and is an authenticated platform, the registered authority carries the same identities, every
  retained object is there with its digest, and the declared inputs cover the required classes
  completely.\<close>

theorem verified_exactly:
  "(\<exists>v. verify_attestation sha rec observed_issuer object_reader registry = Inr v)
   \<longleftrightarrow> (\<exists>b. bindE (execution_from_record rec) attestation_body = Inr b \<and> py_field rec ''attestation_id'' = PStr (body_id sha b)
         \<and> verifies sha b observed_issuer object_reader registry)"
proof (cases "bindE (execution_from_record rec) attestation_body")
  case (Inl e)
  then show ?thesis by (cases e) (simp add: verify_attestation_def parsed_or_def refuse_att_def)
next
  case (Inr b)
  from verify_Inr [OF this] Inr show ?thesis by simp
qed

end
