(* ===== verification/Spec2Isabelle.thy ===== *)
theory Spec2Isabelle
  imports Claim_Properties Operational_Properties Transition_Properties Meter_Properties Broker_Properties Refusal_Properties Scheduler_Properties Spine_Properties Currency_Properties Attestation_Properties
begin

text \<open>
  The control kernel of the dark factory, \<open>src/factory_kernel\<close>.

  The factory turns an owner's approved specification into merged pull requests. Models write the
  code; the kernel decides what may be started, what counts as evidence, what may be spent and which
  effect may reach GitHub, and every such decision is deterministic code over recorded state. This
  development models those decisions. It leaves out the code that runs processes, renders prompts or
  talks to a network, which the decisions take as arguments.

  \<^bold>\<open>How the parts interact.\<close> The owner's intent is drafted, reviewed and approved in the intent
  store, an append-only history in the project journal. Approved scope is compiled into a programme:
  items in dependency order that partition the acceptance criteria. The claim graph gives every
  criterion a requirement claim and every item one proof obligation per authority profile of the
  protected spine policy. Work on an item runs under a lease, with an operational work row, a
  reservation of the execution budget and metered provider calls. A run records its artifacts in a
  manifest; independent authorities certify them; the spine assesses the manifest against the policy and
  compiles the evidence index. Attestations carry proofs between runs and the currency check decides
  which still count. The dispatcher and the allowed-actions compiler read all of this and propose the
  next action; the effect broker performs the few fixed effects, as often as a grant allows. Failures
  are classified as typed refusals, and replacing a programme goes through the transition machine.

  \<^bold>\<open>Theories and sources\<close> (all under \<open>src/factory_kernel\<close>).

  \<^item> \<open>Prelude\<close>: Python and JSON values, canonical JSON (\<open>canonical.py\<close>), the error monad, keyed
    tables, and the interfaces \<open>transactional\<close> and \<open>transactional_order\<close>, interpreted on the stores.
  \<^item> \<open>Lease_Store\<close>, \<open>Lease_Facts\<close>, \<open>Lease_Safety\<close>, \<open>Lease_Properties\<close>: \<open>lease_store.py\<close>, the grants,
    leases and fencing generations; each public method is an operation on the record of its tables.
  \<^item> \<open>Operational_State\<close>, \<open>Operational_Facts\<close>, \<open>Operational_Safety\<close>, \<open>Operational_Properties\<close>:
    \<open>operational_state.py\<close> and \<open>migrations/002_operational_work.sql\<close>, work rows, the outbox,
    executors and provider calls, with the schema's constraints, over the lease store's database.
  \<^item> \<open>Dependency_Order\<close>, \<open>Programme\<close>, \<open>Programme_Properties\<close>: \<open>programme.py\<close>, \<open>programme_strategy.py\<close>,
    \<open>strategy_rules.py\<close>, the compiler of approved scope.
  \<^item> \<open>Claim_Graph\<close>, \<open>Claims\<close>, \<open>Claim_Facts\<close>, \<open>Claim_Binding\<close>, \<open>Claim_Properties\<close>: \<open>claims.py\<close>, claim
    identities, obligations, bindings to code and the derived status.
  \<^item> \<open>Project_Journal\<close>, \<open>Json_Size\<close>, \<open>Journal_Facts\<close>: \<open>project_events.py\<close>, the append-only journal.
  \<^item> \<open>Intent_Store\<close>, \<open>Intent_Facts\<close>, \<open>Intent_Properties\<close>: \<open>frontdoor_intent.py\<close>.
  \<^item> \<open>Programme_Transition\<close>, \<open>Transition_Properties\<close>: \<open>programme_transition.py\<close>, \<open>transition_journal.py\<close>.
  \<^item> \<open>Execution_Budget\<close>, \<open>Budget_Facts\<close>, \<open>Budget_Properties\<close>: \<open>execution_budget.py\<close>.
  \<^item> \<open>Validation_Meter\<close>, \<open>Meter_Properties\<close>: \<open>validation_meter.py\<close>.
  \<^item> \<open>Capabilities\<close>, \<open>Effect_Broker\<close>, \<open>Broker_Properties\<close>: \<open>capabilities.py\<close>, \<open>effect_broker.py\<close>.
  \<^item> \<open>Attestations\<close>, \<open>Attestation_Properties\<close>: \<open>attestations.py\<close>.
  \<^item> \<open>Proof_Currency\<close>, \<open>Currency_Properties\<close>: \<open>proof_dependencies.py\<close>.
  \<^item> \<open>Run_Manifest\<close>, \<open>Evidence_Spine\<close>, \<open>Spine_Properties\<close>: \<open>manifest.py\<close>, \<open>spine.py\<close>.
  \<^item> \<open>Independence\<close>, \<open>Refusals\<close>, \<open>Refusal_Properties\<close>: \<open>independence.py\<close>, \<open>refusal.py\<close>.
  \<^item> \<open>Dispatch\<close>, \<open>Claim_Scheduler\<close>, \<open>Scheduler_Properties\<close>: \<open>execution_fence.py\<close>, \<open>dispatch_plan.py\<close>,
    \<open>claim_scheduler.py\<close> and the observations of \<open>claim_views.py\<close>.

  \<^bold>\<open>Conventions.\<close> A dataclass is a record, an enumeration a datatype, a dict an association list in
  insertion order, a JSON value a \<open>pyval\<close>; Python integers are \<open>int\<close>, strings are lists of
  characters below 256. An operation that can refuse returns \<open>Inl\<close> of an error or \<open>Inr\<close> of its result
  and, where it changes state, the new state, so a refusal leaves the state as it was. Definitions keep
  the names of the source and the order of its checks.

  \<^bold>\<open>What the properties show.\<close>
  Safety of the stores, over every state reachable by any sequence of operations: one live lease on a
  resource, one unresolved operation, one owned attempt of a project, transitions along the table,
  reserved work backed by a recorded lease of its own request, an operation key executed once, superseded
  bundles refused.
  Spending: reservations stay within the allowance and are never refunded, metered calls stay within
  their bundle, a grant starts at most as many effects as it allows, and a grant whose uses are spent
  never sends anything again; a grant with uses left is blocked by an effect that may have happened only
  for its next attempt, after which it can be sent again (\<open>uncertain_hidden_by_refusal\<close>). Evidence: a manifest loads only well formed, the index compiles exactly when the
  spine is satisfied, a certificate fills its slot only when it is independent, an attestation parses
  back to what was built and verifies exactly under its stated conditions, and currency and the
  invalidated frontier equal their reference definitions. Planning: the compiler orders and partitions,
  refuses exactly the cyclic inputs and reads back its own output; a compiled programme always binds to
  its claims; a requirement is established exactly when all the work it rests on is currently attested;
  a merge is proposed exactly when every gate is open; the shadow compiler agrees with the recorded plan of
  the dispatcher or is stricter, except that it may propose unpaid work where the dispatcher waits for a
  budget; a pull request once re-headed is re-headed again only at the head that re-head produced.
  Governance: approved scope was reviewed, no phase of a transition is skipped, its receipts replay to the
  stored phase.

  \<^bold>\<open>Termination.\<close> No definition uses fuel. Loops that are not structural have a measure: the layered
  order and the worklist closures shrink the set of nodes not yet reached, the depth-first search of
  the claim graph shrinks the white nodes and then what is left on its path, the status of a claim adds
  a key to those seen, the digits of a number shrink the number.

  \<^bold>\<open>Parameters.\<close> What is not in the repository is an argument: the SHA-256 digest (\<open>sha\<close>),
  \<open>json.loads\<close>, the answers of GitHub, git and the clock (functions over the state of the outside
  world), the exchange client of the meter, the file an artifact path resolves to (\<open>locate\<close>,
  \<open>object_reader\<close>, \<open>tree_of\<close>), the redaction of secrets (\<open>scrub\<close>) and random identifiers. Nothing is
  assumed of the digest except, where a property says so, that the keys it names do not collide.

  \<^bold>\<open>Not modelled.\<close> The orchestration (\<open>runtime.py\<close>, \<open>worker_runtime.py\<close>, \<open>cli.py\<close>), the model workers
  and their tool policy (\<open>providers.py\<close>, \<open>worker_policy.py\<close>), the collection of evidence from
  directories (\<open>evidence_closure.py\<close>, \<open>carry.py\<close>, \<open>provenance.py\<close>), the adapters of gh and git, the HTTP
  services of the Front Door and the gateway, publication, and the advisory parts (exploration,
  experiments, learning, reports) are process control, I/O or text around the modelled decisions, and
  the harness, the scripts and the product under \<open>src/app\<close> are outside the kernel. File locks, fsync,
  SQLite's connection handling and 64-bit range, and the wording of refusals are left out of the
  modelled components.
\<close>

end
